(* ===== verification/Prelude.thy ===== *)
theory Prelude
  imports Main "HOL-Library.Word" "HOL-Library.Sublist"
begin

section \<open>Prelude: names, collections and generic lemmas\<close>

text \<open>
  What every component shares: the machine integers at their C++ widths, the representation of
  \<open>muscle::String\<close> (the bytes it holds, as a \<open>string\<close>) with its positional accessors, the
  insertion-ordered table that \<open>muscle::Hashtable\<close> is, and the two fact collections the
  component theories fill and use.
\<close>

named_theorems defs "definitions unfolded when an operation is executed symbolically"
named_theorems frame "fields an operation does not touch"

subsection \<open>Machine integers\<close>

text \<open>
  A word type does not fix a sign: \<open>int32\<close> and \<open>uint32\<close> are the same 32 bits, a C cast between
  them is the identity, and a signed comparison of the code reads the word with \<^term>\<open>sint\<close>.
\<close>

type_synonym uint8 = "8 word"
type_synonym uint16 = "16 word"
type_synonym uint32 = "32 word"
type_synonym int32 = "32 word"
type_synonym uint64 = "64 word"
type_synonym int64 = "64 word"

subsection \<open>Strings\<close>

text \<open>
  \<open>IndexOf\<close> and \<open>LastIndexOf\<close> return -1 when the character does not occur, as the code tests;
  \<open>Substring\<close> takes the half-open range it is given, clipped to the string.
\<close>

fun index_of :: "char \<Rightarrow> string \<Rightarrow> int" where
  "index_of c [] = -1"
| "index_of c (x # xs) =
     (if x = c then 0 else if index_of c xs < 0 then -1 else index_of c xs + 1)"

definition last_index_of :: "char \<Rightarrow> string \<Rightarrow> int" where
  "last_index_of c s =
     (if index_of c (rev s) < 0 then -1 else int (length s) - 1 - index_of c (rev s))"

definition substring_from :: "string \<Rightarrow> int \<Rightarrow> string" where
  "substring_from s i = drop (nat i) s"

definition substring :: "string \<Rightarrow> int \<Rightarrow> int \<Rightarrow> string" where
  "substring s i j = drop (nat i) (take (nat j) s)"

abbreviation starts_with :: "string \<Rightarrow> string \<Rightarrow> bool" where
  "starts_with s p \<equiv> prefix p s"

lemma index_of_ge: "-1 \<le> index_of c s"
  by (induction s) auto

lemma index_of_neg [simp]: "index_of c s < 0 \<longleftrightarrow> c \<notin> set s"
  by (induction s) auto

lemma index_of_nonneg [simp]: "0 \<le> index_of c s \<longleftrightarrow> c \<in> set s"
  using index_of_neg [of c s] by linarith

lemma index_of_absent [simp]: "c \<notin> set s \<Longrightarrow> index_of c s = -1"
  by (induction s) auto

lemma index_of_append [simp]: "c \<notin> set a \<Longrightarrow> index_of c (a @ c # b) = int (length a)"
  by (induction a) auto

lemma index_of_split:
  assumes "c \<in> set s"
  obtains a b where "s = a @ c # b" "c \<notin> set a" "index_of c s = int (length a)"
  using assms by (metis index_of_append split_list_first)

lemma last_index_of_absent [simp]: "c \<notin> set s \<Longrightarrow> last_index_of c s = -1"
  by (simp add: last_index_of_def)

lemma last_index_of_append [simp]:
  assumes "c \<notin> set b"
  shows "last_index_of c (a @ c # b) = int (length a)"
proof -
  have "index_of c (rev b @ c # rev a) = int (length (rev b))"
    using assms by (intro index_of_append) simp
  then show ?thesis using assms by (simp add: last_index_of_def)
qed

lemma last_index_of_split:
  assumes "c \<in> set s"
  obtains a b where "s = a @ c # b" "c \<notin> set b" "last_index_of c s = int (length a)"
  using assms by (metis last_index_of_append split_list_last)

lemma substring_from_split [simp]: "substring_from (a @ b) (int (length a)) = b"
  by (simp add: substring_from_def)

lemma substring_from_after [simp]: "substring_from (a @ c # b) (int (length a) + 1) = b"
  by (simp add: substring_from_def nat_add_distrib)

lemma substring_from_1 [simp]: "substring_from (c # b) 1 = b"
  by (simp add: substring_from_def)

lemma substring_upto [simp]: "substring (a @ b) 0 (int (length a)) = a"
  by (simp add: substring_def)

lemma substring_inner [simp]: "substring (c # a @ b) 1 (int (length a) + 1) = a"
  by (simp add: substring_def nat_add_distrib)

lemma set_substring_from: "set (substring_from s i) \<subseteq> set s"
  by (simp add: substring_from_def set_drop_subset)

lemma set_substring: "set (substring s i j) \<subseteq> set s"
  unfolding substring_def by (meson set_drop_subset set_take_subset subset_trans)

subsection \<open>Insertion-ordered tables\<close>

text \<open>
  \<open>muscle::Hashtable\<close> iterates in insertion order, and \<open>Put\<close> on a present key overwrites the
  value where it stands. A table is therefore an association list whose keys are distinct;
  \<open>Get\<close> is \<^const>\<open>map_of\<close>.
\<close>

fun ht_put :: "'k \<Rightarrow> 'v \<Rightarrow> ('k \<times> 'v) list \<Rightarrow> ('k \<times> 'v) list" where
  "ht_put k v [] = [(k, v)]"
| "ht_put k v ((k', v') # t) = (if k' = k then (k, v) # t else (k', v') # ht_put k v t)"

definition ht_remove :: "'k \<Rightarrow> ('k \<times> 'v) list \<Rightarrow> ('k \<times> 'v) list" where
  "ht_remove k t = filter (\<lambda>e. fst e \<noteq> k) t"

definition ht_keys :: "('k \<times> 'v) list \<Rightarrow> 'k list" where
  "ht_keys t = map fst t"

definition ht_ok :: "('k \<times> 'v) list \<Rightarrow> bool" where
  "ht_ok t \<longleftrightarrow> distinct (map fst t)"

lemma map_of_ht_put [simp]: "map_of (ht_put k v t) = (map_of t)(k \<mapsto> v)"
  by (induction k v t rule: ht_put.induct) auto

lemma map_of_ht_remove [simp]: "map_of (ht_remove k t) = (map_of t)(k := None)"
  unfolding ht_remove_def by (induction t) (auto simp: fun_eq_iff)

lemma mem_ht_remove [simp]: "(k, v) \<in> set (ht_remove n t) \<longleftrightarrow> (k, v) \<in> set t \<and> k \<noteq> n"
  by (auto simp: ht_remove_def)

lemma fst_set_ht_put [simp]: "fst ` set (ht_put k v t) = insert k (fst ` set t)"
  by (induction k v t rule: ht_put.induct) auto

lemma ht_ok_Nil [simp]: "ht_ok []"
  by (simp add: ht_ok_def)

lemma ht_ok_put [simp]: "ht_ok t \<Longrightarrow> ht_ok (ht_put k v t)"
  unfolding ht_ok_def
  by (induction k v t rule: ht_put.induct) (auto simp del: set_map simp add: set_map [of fst])

lemma ht_ok_remove [simp]: "ht_ok t \<Longrightarrow> ht_ok (ht_remove k t)"
  unfolding ht_ok_def ht_remove_def by (induction t) auto

lemma ht_put_keys_present [simp]: "k \<in> fst ` set t \<Longrightarrow> map fst (ht_put k v t) = map fst t"
  by (induction k v t rule: ht_put.induct) auto

lemma ht_put_absent: "k \<notin> fst ` set t \<Longrightarrow> ht_put k v t = t @ [(k, v)]"
  by (induction k v t rule: ht_put.induct) auto

lemma ht_put_fst: "k \<in> fst ` set t \<Longrightarrow> length (ht_put k v t) = length t"
  by (induction k v t rule: ht_put.induct) auto

lemma set_ht_put_subset: "set (ht_put k v t) \<subseteq> insert (k, v) (set t)"
  by (induction k v t rule: ht_put.induct) auto

lemma ht_ok_mem: "ht_ok t \<Longrightarrow> (k, v) \<in> set t \<longleftrightarrow> map_of t k = Some v"
  by (simp add: ht_ok_def)

lemma sum_list_ht_put:
  "map_of t k = Some u \<Longrightarrow>
   sum_list (map (\<lambda>e. f (snd e)) (ht_put k v t)) + f u =
   sum_list (map (\<lambda>e. f (snd e)) t) + (f v :: nat)"
  by (induction k v t rule: ht_put.induct) (auto split: if_splits)

subsection \<open>The interface of a table\<close>

text \<open>
  What the components that own a table rely on. \<open>order\<close> is the iteration order, which an overwrite
  does not change and an insertion extends at its end.
\<close>

locale keyed_store =
  fixes lookup :: "'s \<Rightarrow> 'k \<Rightarrow> 'v option"
    and put :: "'k \<Rightarrow> 'v \<Rightarrow> 's \<Rightarrow> 's"
    and delete :: "'k \<Rightarrow> 's \<Rightarrow> 's"
    and order :: "'s \<Rightarrow> 'k list"
    and ok :: "'s \<Rightarrow> bool"
  assumes lookup_put: "lookup (put k v s) = (lookup s)(k \<mapsto> v)"
    and lookup_delete: "lookup (delete k s) = (lookup s)(k := None)"
    and ok_put: "ok s \<Longrightarrow> ok (put k v s)"
    and ok_delete: "ok s \<Longrightarrow> ok (delete k s)"
    and order_dom: "set (order s) = dom (lookup s)"
    and order_distinct: "ok s \<Longrightarrow> distinct (order s)"
    and order_overwrite: "lookup s k \<noteq> None \<Longrightarrow> order (put k v s) = order s"
    and order_insert: "lookup s k = None \<Longrightarrow> order (put k v s) = order s @ [k]"
    and order_delete: "order (delete k s) = filter (\<lambda>k'. k' \<noteq> k) (order s)"
begin

text \<open>Get-or-create: the record under a key, a fresh one if there is none.\<close>

definition touch :: "'k \<Rightarrow> 'v \<Rightarrow> 's \<Rightarrow> 's" where
  "touch k fresh s = (case lookup s k of None \<Rightarrow> put k fresh s | Some _ \<Rightarrow> s)"

lemma lookup_touch:
  "lookup (touch k v s) k' =
     (if k' = k then Some (case lookup s k of None \<Rightarrow> v | Some u \<Rightarrow> u) else lookup s k')"
  by (auto simp: touch_def lookup_put split: option.split)

lemma ok_touch: "ok s \<Longrightarrow> ok (touch k v s)"
  by (auto simp: touch_def ok_put split: option.split)

lemma order_touch: "order (touch k v s) = (if k \<in> set (order s) then order s else order s @ [k])"
  by (auto simp: touch_def order_insert order_dom split: option.split)

lemma touch_touch: "touch k v (touch k v s) = touch k v s"
  by (auto simp: touch_def lookup_put split: option.split)

lemma size_put: "ok s \<Longrightarrow> length (order (put k v s)) \<le> Suc (length (order s))"
  by (cases "lookup s k") (simp_all add: order_insert order_overwrite)

lemma delete_put_new:
  assumes "lookup s k = None"
  shows "lookup (delete k (put k v s)) = lookup s" "order (delete k (put k v s)) = order s"
proof -
  show "lookup (delete k (put k v s)) = lookup s"
    using assms by (auto simp: lookup_put lookup_delete fun_eq_iff)
  have "k \<notin> set (order s)" using assms by (auto simp: order_dom)
  then show "order (delete k (put k v s)) = order s"
    using assms by (auto simp: order_delete order_insert intro: filter_True)
qed

end

lemma ht_keys_put_absent: "map_of t k = None \<Longrightarrow> ht_keys (ht_put k v t) = ht_keys t @ [k]"
  by (simp add: ht_keys_def ht_put_absent map_of_eq_None_iff)

lemma ht_keys_put_present: "map_of t k \<noteq> None \<Longrightarrow> ht_keys (ht_put k v t) = ht_keys t"
  by (simp add: ht_keys_def map_of_eq_None_iff)

lemma ht_keys_remove: "ht_keys (ht_remove k t) = filter (\<lambda>k'. k' \<noteq> k) (ht_keys t)"
  by (simp add: ht_keys_def ht_remove_def filter_map comp_def)

interpretation ht: keyed_store map_of ht_put ht_remove ht_keys ht_ok
  by unfold_locales
    (simp_all add: ht_keys_put_absent ht_keys_put_present ht_keys_remove,
     simp_all add: ht_keys_def ht_ok_def dom_map_of_conv_image_fst)

end
