(* ===== verification/Muscle.thy ===== *)
theory Muscle
  imports Prelude
begin

section \<open>The MUSCLE library as the program sees it\<close>

text \<open>
  MUSCLE is a git submodule whose sources are not part of the repository. Two things of it appear
  in the model.

  A \<open>muscle::Message\<close> is the value it carries: a what-code and its named, typed, multi-valued
  fields in insertion order. The accessors below are those of this representation.

  Everything MUSCLE computes (trimming, case folding, tokenizing, pattern matching, node-path
  clauses, number formatting, inflating, its own protocol constants) is a parameter: a record
  \<open>muscle\<close> that the definitions take as an argument. What a theorem relies on is one of the
  named laws at the end, each a sentence of that function's documentation. \<open>ref_muscle\<close> is a
  concrete instance that satisfies all of them, used by the witnesses only.
\<close>

subsection \<open>Messages\<close>

datatype field =
    FString "string list"
  | FInt32 "int32 list"
  | FInt64 "int64 list"
  | FBool "bool list"
  | FData "uint8 list list"
  | FMessage "message list"
and message = Message (what: uint32) (fields: "(string \<times> field) list")

definition new_message :: "uint32 \<Rightarrow> message" where
  "new_message w = Message w []"

definition find_field :: "message \<Rightarrow> string \<Rightarrow> field option" where
  "find_field m n = map_of (fields m) n"

definition has_name :: "message \<Rightarrow> string \<Rightarrow> bool" where
  "has_name m n \<longleftrightarrow> find_field m n \<noteq> None"

definition set_field :: "message \<Rightarrow> string \<Rightarrow> field \<Rightarrow> message" where
  "set_field m n f = Message (what m) (ht_put n f (fields m))"

definition set_what :: "uint32 \<Rightarrow> message \<Rightarrow> message" where
  "set_what w m = Message w (fields m)"

definition remove_name :: "message \<Rightarrow> string \<Rightarrow> message" where
  "remove_name m n = Message (what m) (ht_remove n (fields m))"

text \<open>\<open>AddX\<close> appends to the field of that name, creates it, or fails on another type.\<close>

definition add_string :: "message \<Rightarrow> string \<Rightarrow> string \<Rightarrow> message" where
  "add_string m n v = (case find_field m n of
     None \<Rightarrow> set_field m n (FString [v])
   | Some (FString xs) \<Rightarrow> set_field m n (FString (xs @ [v]))
   | Some _ \<Rightarrow> m)"

definition add_int32 :: "message \<Rightarrow> string \<Rightarrow> int32 \<Rightarrow> message" where
  "add_int32 m n v = (case find_field m n of
     None \<Rightarrow> set_field m n (FInt32 [v])
   | Some (FInt32 xs) \<Rightarrow> set_field m n (FInt32 (xs @ [v]))
   | Some _ \<Rightarrow> m)"

definition add_int64 :: "message \<Rightarrow> string \<Rightarrow> int64 \<Rightarrow> message" where
  "add_int64 m n v = (case find_field m n of
     None \<Rightarrow> set_field m n (FInt64 [v])
   | Some (FInt64 xs) \<Rightarrow> set_field m n (FInt64 (xs @ [v]))
   | Some _ \<Rightarrow> m)"

definition add_bool :: "message \<Rightarrow> string \<Rightarrow> bool \<Rightarrow> message" where
  "add_bool m n v = (case find_field m n of
     None \<Rightarrow> set_field m n (FBool [v])
   | Some (FBool xs) \<Rightarrow> set_field m n (FBool (xs @ [v]))
   | Some _ \<Rightarrow> m)"

definition add_data :: "message \<Rightarrow> string \<Rightarrow> uint8 list \<Rightarrow> message" where
  "add_data m n v = (case find_field m n of
     None \<Rightarrow> set_field m n (FData [v])
   | Some (FData xs) \<Rightarrow> set_field m n (FData (xs @ [v]))
   | Some _ \<Rightarrow> m)"

definition add_message :: "message \<Rightarrow> string \<Rightarrow> message \<Rightarrow> message" where
  "add_message m n v = (case find_field m n of
     None \<Rightarrow> set_field m n (FMessage [v])
   | Some (FMessage xs) \<Rightarrow> set_field m n (FMessage (xs @ [v]))
   | Some _ \<Rightarrow> m)"

text \<open>\<open>FindX(name, i, out)\<close>: the i-th value, or an error that leaves \<open>out\<close> alone.\<close>

definition item_at :: "'a list \<Rightarrow> nat \<Rightarrow> 'a option" where
  "item_at xs i = (if i < length xs then Some (xs ! i) else None)"

definition find_string_at :: "message \<Rightarrow> string \<Rightarrow> nat \<Rightarrow> string option" where
  "find_string_at m n i = (case find_field m n of Some (FString xs) \<Rightarrow> item_at xs i | _ \<Rightarrow> None)"

definition find_string :: "message \<Rightarrow> string \<Rightarrow> string option" where
  "find_string m n = find_string_at m n 0"

definition find_int32 :: "message \<Rightarrow> string \<Rightarrow> int32 option" where
  "find_int32 m n = (case find_field m n of Some (FInt32 xs) \<Rightarrow> item_at xs 0 | _ \<Rightarrow> None)"

definition find_int64 :: "message \<Rightarrow> string \<Rightarrow> int64 option" where
  "find_int64 m n = (case find_field m n of Some (FInt64 xs) \<Rightarrow> item_at xs 0 | _ \<Rightarrow> None)"

definition find_bool :: "message \<Rightarrow> string \<Rightarrow> bool option" where
  "find_bool m n = (case find_field m n of Some (FBool xs) \<Rightarrow> item_at xs 0 | _ \<Rightarrow> None)"

definition find_data :: "message \<Rightarrow> string \<Rightarrow> uint8 list option" where
  "find_data m n = (case find_field m n of Some (FData xs) \<Rightarrow> item_at xs 0 | _ \<Rightarrow> None)"

definition find_message :: "message \<Rightarrow> string \<Rightarrow> message option" where
  "find_message m n = (case find_field m n of Some (FMessage xs) \<Rightarrow> item_at xs 0 | _ \<Rightarrow> None)"

text \<open>The value a C++ out-parameter has after a \<open>FindX\<close> whose status is ignored.\<close>

definition found_or :: "'a \<Rightarrow> 'a option \<Rightarrow> 'a" where
  "found_or old r = (case r of Some v \<Rightarrow> v | None \<Rightarrow> old)"

text \<open>All values of a string field, as a loop \<open>FindString(n, i, v)\<close> over i sees them.\<close>

definition all_strings :: "message \<Rightarrow> string \<Rightarrow> string list" where
  "all_strings m n = (case find_field m n of Some (FString xs) \<Rightarrow> xs | _ \<Rightarrow> [])"

fun is_message_field :: "field \<Rightarrow> bool" where
  "is_message_field (FMessage _) = True"
| "is_message_field _ = False"

definition message_field_names :: "message \<Rightarrow> string list" where
  "message_field_names m = map fst (filter (\<lambda>e. is_message_field (snd e)) (fields m))"

text \<open>\<open>ReplaceX(true, name, v)\<close>: overwrite value 0 of the field, or add the field.\<close>

definition replace_string :: "message \<Rightarrow> string \<Rightarrow> string \<Rightarrow> message" where
  "replace_string m n v = (case find_field m n of
     Some (FString (x # xs)) \<Rightarrow> set_field m n (FString (v # xs))
   | _ \<Rightarrow> add_string m n v)"

definition replace_int32 :: "message \<Rightarrow> string \<Rightarrow> int32 \<Rightarrow> message" where
  "replace_int32 m n v = (case find_field m n of
     Some (FInt32 (x # xs)) \<Rightarrow> set_field m n (FInt32 (v # xs))
   | _ \<Rightarrow> add_int32 m n v)"

definition replace_int64 :: "message \<Rightarrow> string \<Rightarrow> int64 \<Rightarrow> message" where
  "replace_int64 m n v = (case find_field m n of
     Some (FInt64 (x # xs)) \<Rightarrow> set_field m n (FInt64 (v # xs))
   | _ \<Rightarrow> add_int64 m n v)"

definition replace_bool :: "message \<Rightarrow> string \<Rightarrow> bool \<Rightarrow> message" where
  "replace_bool m n v = (case find_field m n of
     Some (FBool (x # xs)) \<Rightarrow> set_field m n (FBool (v # xs))
   | _ \<Rightarrow> add_bool m n v)"

subsubsection \<open>What the accessors see\<close>

lemma find_field_new [simp]: "find_field (new_message w) n = None"
  by (simp add: find_field_def new_message_def)

lemma find_field_set [simp]:
  "find_field (set_field m n f) n' = (if n' = n then Some f else find_field m n')"
  by (simp add: find_field_def set_field_def)

lemma find_field_set_what [simp]: "find_field (set_what w m) n = find_field m n"
  by (simp add: find_field_def set_what_def)

lemma find_field_remove [simp]:
  "find_field (remove_name m n) n' = (if n' = n then None else find_field m n')"
  by (simp add: find_field_def remove_name_def)

lemma what_simps [simp]:
  "what (new_message w) = w" "what (set_field m n f) = what m" "what (set_what w m) = w"
  "what (remove_name m n) = what m"
  by (simp_all add: new_message_def set_field_def set_what_def remove_name_def)

lemma what_add [simp]:
  "what (add_string m n s) = what m" "what (add_int32 m n i) = what m"
  "what (add_int64 m n j) = what m" "what (add_bool m n b) = what m"
  "what (add_data m n d) = what m" "what (add_message m n k) = what m"
  by (simp_all add: add_string_def add_int32_def add_int64_def add_bool_def add_data_def
      add_message_def split: option.split field.split)

lemma find_field_add_string [simp]:
  "find_field (add_string m n v) n' =
     (if n' = n then (case find_field m n of None \<Rightarrow> Some (FString [v])
        | Some (FString xs) \<Rightarrow> Some (FString (xs @ [v])) | Some f \<Rightarrow> Some f)
      else find_field m n')"
  by (auto simp: add_string_def split: option.split field.split)

lemma find_field_add_int32 [simp]:
  "find_field (add_int32 m n v) n' =
     (if n' = n then (case find_field m n of None \<Rightarrow> Some (FInt32 [v])
        | Some (FInt32 xs) \<Rightarrow> Some (FInt32 (xs @ [v])) | Some f \<Rightarrow> Some f)
      else find_field m n')"
  by (auto simp: add_int32_def split: option.split field.split)

lemma find_field_add_int64 [simp]:
  "find_field (add_int64 m n v) n' =
     (if n' = n then (case find_field m n of None \<Rightarrow> Some (FInt64 [v])
        | Some (FInt64 xs) \<Rightarrow> Some (FInt64 (xs @ [v])) | Some f \<Rightarrow> Some f)
      else find_field m n')"
  by (auto simp: add_int64_def split: option.split field.split)

lemma find_field_add_bool [simp]:
  "find_field (add_bool m n v) n' =
     (if n' = n then (case find_field m n of None \<Rightarrow> Some (FBool [v])
        | Some (FBool xs) \<Rightarrow> Some (FBool (xs @ [v])) | Some f \<Rightarrow> Some f)
      else find_field m n')"
  by (auto simp: add_bool_def split: option.split field.split)

lemma find_field_add_data [simp]:
  "find_field (add_data m n v) n' =
     (if n' = n then (case find_field m n of None \<Rightarrow> Some (FData [v])
        | Some (FData xs) \<Rightarrow> Some (FData (xs @ [v])) | Some f \<Rightarrow> Some f)
      else find_field m n')"
  by (auto simp: add_data_def split: option.split field.split)

lemma find_field_add_message [simp]:
  "find_field (add_message m n v) n' =
     (if n' = n then (case find_field m n of None \<Rightarrow> Some (FMessage [v])
        | Some (FMessage xs) \<Rightarrow> Some (FMessage (xs @ [v])) | Some f \<Rightarrow> Some f)
      else find_field m n')"
  by (auto simp: add_message_def split: option.split field.split)

lemma item_at_simps [simp]:
  "item_at [] i = None" "item_at (x # xs) 0 = Some x" "item_at (x # xs) (Suc i) = item_at xs i"
  by (simp_all add: item_at_def)

lemma found_or_simps [simp]: "found_or old (Some v) = v" "found_or old None = old"
  by (simp_all add: found_or_def)

lemmas finds = find_string_def find_string_at_def find_int32_def find_int64_def find_bool_def
  find_data_def find_message_def all_strings_def has_name_def

text \<open>A field of the right type, or no field: what makes a replace-then-find round trip.\<close>

definition string_slot :: "message \<Rightarrow> string \<Rightarrow> bool" where
  "string_slot m n = (case find_field m n of None \<Rightarrow> True | Some (FString _) \<Rightarrow> True | _ \<Rightarrow> False)"

definition int32_slot :: "message \<Rightarrow> string \<Rightarrow> bool" where
  "int32_slot m n = (case find_field m n of None \<Rightarrow> True | Some (FInt32 _) \<Rightarrow> True | _ \<Rightarrow> False)"

definition int64_slot :: "message \<Rightarrow> string \<Rightarrow> bool" where
  "int64_slot m n = (case find_field m n of None \<Rightarrow> True | Some (FInt64 _) \<Rightarrow> True | _ \<Rightarrow> False)"

definition bool_slot :: "message \<Rightarrow> string \<Rightarrow> bool" where
  "bool_slot m n = (case find_field m n of None \<Rightarrow> True | Some (FBool _) \<Rightarrow> True | _ \<Rightarrow> False)"

lemma find_replace_string:
  "string_slot m n \<Longrightarrow> find_string (replace_string m n v) n = Some v"
  by (auto simp: string_slot_def replace_string_def finds item_at_def nth_append
      split: option.splits field.splits list.splits)

lemma find_replace_int32:
  "int32_slot m n \<Longrightarrow> find_int32 (replace_int32 m n v) n = Some v"
  by (auto simp: int32_slot_def replace_int32_def finds item_at_def nth_append
      split: option.splits field.splits list.splits)

lemma find_replace_int64:
  "int64_slot m n \<Longrightarrow> find_int64 (replace_int64 m n v) n = Some v"
  by (auto simp: int64_slot_def replace_int64_def finds item_at_def nth_append
      split: option.splits field.splits list.splits)

lemma find_replace_bool:
  "bool_slot m n \<Longrightarrow> find_bool (replace_bool m n v) n = Some v"
  by (auto simp: bool_slot_def replace_bool_def finds item_at_def nth_append
      split: option.splits field.splits list.splits)

lemma find_field_replace_other [simp]:
  assumes "n' \<noteq> n"
  shows "find_field (replace_string m n s) n' = find_field m n'"
    "find_field (replace_int32 m n i) n' = find_field m n'"
    "find_field (replace_int64 m n j) n' = find_field m n'"
    "find_field (replace_bool m n b) n' = find_field m n'"
  using assms by (simp_all add: replace_string_def replace_int32_def replace_int64_def
      replace_bool_def split: option.split field.split list.split)

lemma find_field_foldl_add_string:
  "find_field (foldl (\<lambda>m v. add_string m n v) m vs) n' =
     (if n' = n \<and> vs \<noteq> [] then
        (case find_field m n of None \<Rightarrow> Some (FString vs)
         | Some (FString xs) \<Rightarrow> Some (FString (xs @ vs)) | Some f \<Rightarrow> Some f)
      else find_field m n')"
  by (induction vs arbitrary: m) (auto split: option.split field.split)

end
