(* ===== verification/MuscleLib.thy ===== *)
theory MuscleLib
  imports Muscle
begin

section \<open>MUSCLE's functions as parameters, and their documented laws\<close>

text \<open>
  One record field per MUSCLE function or constant the code uses and that computes something the
  repository does not define. \<open>Tokenize s seps\<close> is the list of tokens a \<open>StringTokenizer\<close> yields,
  \<open>PatternMatch p\<close> is \<open>StringMatcher(p).Match\<close>, \<open>FormatInt n\<close> is \<open>String("%1").Arg(n)\<close>.
\<close>

record muscle =
  Trimmed :: "string \<Rightarrow> string"
  ToLowerCase :: "string \<Rightarrow> string"
  EqualsIgnoreCase :: "string \<Rightarrow> string \<Rightarrow> bool"
  Tokenize :: "string \<Rightarrow> string \<Rightarrow> string list"
  PatternMatch :: "string \<Rightarrow> string \<Rightarrow> bool"
  ToCaseInsensitive :: "string \<Rightarrow> string"
  GetPathDepth :: "string \<Rightarrow> int"
  GetPathClause :: "nat \<Rightarrow> string \<Rightarrow> string option"
  FormatInt :: "int \<Rightarrow> string"
  InflateMessage :: "message \<Rightarrow> message option"
  PR_COMMAND_SETPARAMETERS :: uint32
  PR_COMMAND_GETPARAMETERS :: uint32
  PR_COMMAND_REMOVEPARAMETERS :: uint32
  PR_COMMAND_SETDATA :: uint32
  PR_COMMAND_REMOVEDATA :: uint32
  PR_COMMAND_JETTISONRESULTS :: uint32
  PR_COMMAND_PING :: uint32
  PR_COMMAND_NOOP :: uint32
  PR_RESULT_DATAITEMS :: uint32
  PR_RESULT_PARAMETERS :: uint32
  PR_RESULT_PONG :: uint32
  PR_NAME_KEYS :: string
  PR_NAME_SESSION_ROOT :: string
  PR_NAME_REMOVED_DATAITEMS :: string

subsection \<open>The laws\<close>

definition whitespace :: "char \<Rightarrow> bool" where
  "whitespace c \<longleftrightarrow> c \<in> {CHR '' '', CHR 0x09, CHR 0x0A, CHR 0x0B, CHR 0x0C, CHR 0x0D}"

text \<open>
  \<open>Trimmed\<close> drops the leading and the trailing whitespace. Which of the whitespace characters it
  knows besides the blank is left open.
\<close>

definition trim_by :: "(char \<Rightarrow> bool) \<Rightarrow> string \<Rightarrow> string" where
  "trim_by W s = rev (dropWhile W (rev (dropWhile W s)))"

definition trim_law :: "muscle \<Rightarrow> bool" where
  "trim_law L \<longleftrightarrow> (\<exists>W. W (CHR '' '') \<and> (\<forall>c. W c \<longrightarrow> whitespace c) \<and> Trimmed L = trim_by W)"

text \<open>\<open>ToLowerCase\<close> works byte by byte, touches upper-case ASCII letters only and is idempotent.\<close>

definition upper_ascii :: "char \<Rightarrow> bool" where
  "upper_ascii c \<longleftrightarrow> of_char c \<ge> (65::nat) \<and> of_char c \<le> (90::nat)"

definition lower_law :: "muscle \<Rightarrow> bool" where
  "lower_law L \<longleftrightarrow>
     (\<forall>s t. ToLowerCase L (s @ t) = ToLowerCase L s @ ToLowerCase L t) \<and>
     (\<forall>s. length (ToLowerCase L s) = length s) \<and>
     (\<forall>s. ToLowerCase L (ToLowerCase L s) = ToLowerCase L s) \<and>
     (\<forall>s. list_all (\<lambda>c. \<not> upper_ascii c) s \<longrightarrow> ToLowerCase L s = s)"

text \<open>\<open>EqualsIgnoreCase\<close> compares the lower-cased strings.\<close>

definition ignore_case_law :: "muscle \<Rightarrow> bool" where
  "ignore_case_law L \<longleftrightarrow>
     (\<forall>a b. EqualsIgnoreCase L a b \<longleftrightarrow> ToLowerCase L a = ToLowerCase L b)"

text \<open>
  A tokenizer over one separator character cuts the text at that character and nowhere else. The
  law speaks of the non-empty tokens: whether two separators in a row yield an empty one in
  between is left open.
\<close>

definition pieces :: "muscle \<Rightarrow> char \<Rightarrow> string \<Rightarrow> string list" where
  "pieces L c s = filter (\<lambda>t. t \<noteq> []) (Tokenize L s [c])"

definition token_law :: "muscle \<Rightarrow> bool" where
  "token_law L \<longleftrightarrow>
     (\<forall>c s. c \<notin> set s \<longrightarrow> pieces L c s = (if s = [] then [] else [s])) \<and>
     (\<forall>c s t. pieces L c (s @ c # t) = pieces L c s @ pieces L c t)"

text \<open>
  A node path \<open>/c1/../cn\<close> has depth n, and its k-th clause is a pointer into the path: the k-th
  clause followed by whatever comes after it.
\<close>

definition make_path :: "string list \<Rightarrow> string" where
  "make_path cs = concat (map (\<lambda>c. CHR ''/'' # c) cs)"

definition is_clause :: "string \<Rightarrow> bool" where
  "is_clause c \<longleftrightarrow> c \<noteq> [] \<and> CHR ''/'' \<notin> set c"

definition path_law :: "muscle \<Rightarrow> bool" where
  "path_law L \<longleftrightarrow>
     (\<forall>cs. list_all is_clause cs \<longrightarrow>
        GetPathDepth L (make_path cs) = int (length cs) \<and>
        (\<forall>k < length cs. GetPathClause L (Suc k) (make_path cs) =
           Some (cs ! k @ make_path (drop (Suc k) cs))))"

text \<open>A number is printed in decimal digits, with a minus sign when negative, and injectively.\<close>

definition digit :: "char \<Rightarrow> bool" where
  "digit c \<longleftrightarrow> of_char c \<ge> (48::nat) \<and> of_char c \<le> (57::nat)"

definition format_law :: "muscle \<Rightarrow> bool" where
  "format_law L \<longleftrightarrow>
     (\<forall>n. FormatInt L n \<noteq> [] \<and> list_all (\<lambda>c. digit c \<or> c = CHR ''-'') (FormatInt L n)) \<and>
     (\<forall>m n. FormatInt L m = FormatInt L n \<longrightarrow> m = n)"

text \<open>The glob \<open>*\<close> matches everything.\<close>

definition star_law :: "muscle \<Rightarrow> bool" where
  "star_law L \<longleftrightarrow> (\<forall>s. PatternMatch L ''*'' s)"

text \<open>
  The labels of the switch in \<open>MessageReceived\<close> are distinct (the compiler insists), and MUSCLE's
  reserved field names are none of BeShare's.
\<close>

definition label_law :: "muscle \<Rightarrow> bool" where
  "label_law L \<longleftrightarrow>
     distinct [PR_RESULT_DATAITEMS L, PR_RESULT_PARAMETERS L, PR_RESULT_PONG L, 2, 5, 6]"

definition keys_law :: "muscle \<Rightarrow> bool" where
  "keys_law L \<longleftrightarrow>
     PR_NAME_KEYS L \<notin> {''session'', ''text'', ''private'', ''when'', ''version'', ''uptime'', ''onlinetime''}"

definition muscle_laws :: "muscle \<Rightarrow> bool" where
  "muscle_laws L \<longleftrightarrow> trim_law L \<and> lower_law L \<and> ignore_case_law L \<and> token_law L \<and> path_law L \<and>
     format_law L \<and> star_law L \<and> label_law L \<and> keys_law L"

subsection \<open>What the laws give\<close>

lemma dropWhile_split: "\<exists>a. s = a @ dropWhile P s \<and> list_all P a"
  by (rule exI [of _ "takeWhile P s"]) (auto simp: list_all_iff dest: set_takeWhileD)

lemma dropWhile_hd: "s = [] \<or> \<not> P (hd s) \<Longrightarrow> dropWhile P s = s"
  by (cases s) auto

lemma trim_by_split: "\<exists>a b. s = a @ trim_by W s @ b \<and> list_all W a \<and> list_all W b"
proof -
  obtain a where a: "s = a @ dropWhile W s" "list_all W a"
    using dropWhile_split by blast
  obtain b where b: "rev (dropWhile W s) = b @ rev (trim_by W s)" "list_all W b"
    using dropWhile_split [of "rev (dropWhile W s)" W] by (auto simp: trim_by_def)
  from b(1) have "dropWhile W s = trim_by W s @ rev b"
    by (metis rev_append rev_rev_ident)
  with a b(2) show ?thesis by (intro exI [of _ a] exI [of _ "rev b"]) auto
qed

lemma trim_by_last: "trim_by W s \<noteq> [] \<Longrightarrow> \<not> W (last (trim_by W s))"
  unfolding trim_by_def by (simp add: last_rev hd_dropWhile)

lemma trim_by_hd:
  assumes "trim_by W s \<noteq> []"
  shows "\<not> W (hd (trim_by W s))"
proof -
  obtain b where b: "dropWhile W s = trim_by W s @ rev b"
    using dropWhile_split [of "rev (dropWhile W s)" W]
    by (metis trim_by_def rev_append rev_rev_ident)
  with assms have "hd (dropWhile W s) = hd (trim_by W s)" "dropWhile W s \<noteq> []" by auto
  then show ?thesis by (metis hd_dropWhile)
qed

lemma trim_by_fixed: "s = [] \<or> \<not> W (hd s) \<and> \<not> W (last s) \<Longrightarrow> trim_by W s = s"
  unfolding trim_by_def by (auto simp: dropWhile_hd hd_rev)

lemma trim_by_fixed_iff: "trim_by W s = s \<longleftrightarrow> s = [] \<or> \<not> W (hd s) \<and> \<not> W (last s)"
  using trim_by_fixed trim_by_hd trim_by_last by metis

lemma trim_split:
  assumes "trim_law L"
  obtains a b where "s = a @ Trimmed L s @ b" "list_all whitespace a" "list_all whitespace b"
  using assms trim_by_split [of s] unfolding trim_law_def by (metis list.pred_mono_strong)

lemma set_Trimmed: "trim_law L \<Longrightarrow> set (Trimmed L s) \<subseteq> set s"
  by (metis UnCI set_append subsetI trim_split)

lemma length_Trimmed: "trim_law L \<Longrightarrow> length (Trimmed L s) \<le> length s"
  by (metis add.commute le_add1 length_append trim_split add_le_mono1 le_add2 order_trans)

lemma Trimmed_idem [simp]: "trim_law L \<Longrightarrow> Trimmed L (Trimmed L s) = Trimmed L s"
  by (metis trim_by_fixed_iff trim_by_hd trim_by_last trim_law_def)

lemma Trimmed_Nil [simp]: "trim_law L \<Longrightarrow> Trimmed L [] = []"
  using length_Trimmed [of L "[]"] by simp

lemma Trimmed_no_blank:
  assumes "trim_law L" "Trimmed L s \<noteq> []"
  shows "hd (Trimmed L s) \<noteq> CHR '' ''" "last (Trimmed L s) \<noteq> CHR '' ''"
  using assms trim_by_hd trim_by_last unfolding trim_law_def by metis+

lemma Trimmed_unchanged:
  "trim_law L \<Longrightarrow> s = [] \<or> \<not> whitespace (hd s) \<and> \<not> whitespace (last s) \<Longrightarrow> Trimmed L s = s"
  using trim_by_fixed unfolding trim_law_def by metis

text \<open>A trimmed text stays trimmed behind a prefix that does not start with whitespace.\<close>

lemma Trimmed_prefixed:
  assumes "trim_law L" "Trimmed L s = s" "s \<noteq> []" "\<not> whitespace c"
  shows "Trimmed L (c # p @ s) = c # p @ s"
proof -
  obtain W where W: "\<forall>c. W c \<longrightarrow> whitespace c" "Trimmed L = trim_by W"
    using assms(1) by (auto simp: trim_law_def)
  with assms(2,3) have "\<not> W (last s)" by (simp add: trim_by_fixed_iff)
  with assms(3,4) W show ?thesis by (auto intro: trim_by_fixed)
qed

lemma lower_chars:
  assumes "lower_law L"
  shows "c \<in> set s \<Longrightarrow> \<not> upper_ascii c \<Longrightarrow> c \<in> set (ToLowerCase L s)"
proof -
  assume "c \<in> set s" and c: "\<not> upper_ascii c"
  then obtain a b where "s = a @ [c] @ b" by (metis append_Cons append_Nil split_list)
  moreover have "ToLowerCase L [c] = [c]" using assms c by (simp add: lower_law_def)
  ultimately show ?thesis using assms by (simp only: lower_law_def) auto
qed

lemma pieces_single: "token_law L \<Longrightarrow> c \<notin> set s \<Longrightarrow> s \<noteq> [] \<Longrightarrow> pieces L c s = [s]"
  by (simp add: token_law_def)

lemma pieces_Nil [simp]: "token_law L \<Longrightarrow> pieces L c [] = []"
  by (simp add: token_law_def)

lemma pieces_append: "token_law L \<Longrightarrow> pieces L c (s @ c # t) = pieces L c s @ pieces L c t"
  by (simp add: token_law_def)

lemma pieces_no_sep:
  assumes "token_law L"
  shows "t \<in> set (pieces L c s) \<Longrightarrow> c \<notin> set t \<and> t \<noteq> [] \<and> set t \<subseteq> set s"
proof (induction "length s" arbitrary: s rule: less_induct)
  case less
  show ?case
  proof (cases "c \<in> set s")
    case True
    then obtain a b where s: "s = a @ c # b" by (meson split_list)
    with less.prems assms have "t \<in> set (pieces L c a) \<or> t \<in> set (pieces L c b)"
      by (simp add: pieces_append)
    with less.hyps [of a] less.hyps [of b] s show ?thesis by auto
  next
    case False
    with less.prems assms show ?thesis by (auto simp: token_law_def split: if_splits)
  qed
qed

lemma path_depth:
  "path_law L \<Longrightarrow> list_all is_clause cs \<Longrightarrow> GetPathDepth L (make_path cs) = int (length cs)"
  by (simp add: path_law_def)

lemma path_clause:
  "path_law L \<Longrightarrow> list_all is_clause cs \<Longrightarrow> k < length cs \<Longrightarrow>
   GetPathClause L (Suc k) (make_path cs) = Some (cs ! k @ make_path (drop (Suc k) cs))"
  by (simp add: path_law_def)

lemma make_path_simps [simp]:
  "make_path [] = []" "make_path (c # cs) = CHR ''/'' # c @ make_path cs"
  by (simp_all add: make_path_def)

end
