(* ===== verification/Protocol.thy ===== *)
theory Protocol
  imports MuscleLib
begin

section \<open>The BeShare wire protocol: constants and paths\<close>

text \<open>
  \<open>core/BeShareProtocol.h\<close>: the numbers and field names that are the wire contract, and the two
  functions that build routing and subscription paths. A field name that is a macro of the header
  is an abbreviation here, so that messages built with it evaluate.
\<close>

definition kDefaultServerPort :: uint16 where "kDefaultServerPort = 2960"

definition kDefaultTransferPort :: uint16 where "kDefaultTransferPort = 7000"

definition kTransferPortRange :: uint16 where "kTransferPortRange = 50"

definition kSharedFileBatchSize :: nat where "kSharedFileBatchSize = 50"

definition kServerKeepAliveMicroseconds :: uint64 where
  "kServerKeepAliveMicroseconds = 5 * 60 * 1000000"

text \<open>The client-to-client codes, numbered from 0 in the order of the enumeration.\<close>

definition NET_CLIENT_CONNECTED_TO_SERVER :: uint32 where [simp]: "NET_CLIENT_CONNECTED_TO_SERVER = 0"

definition NET_CLIENT_DISCONNECTED_FROM_SERVER :: uint32 where [simp]: "NET_CLIENT_DISCONNECTED_FROM_SERVER = 1"

definition NET_CLIENT_NEW_CHAT_TEXT :: uint32 where [simp]: "NET_CLIENT_NEW_CHAT_TEXT = 2"

definition NET_CLIENT_CONNECT_BACK_REQUEST :: uint32 where [simp]: "NET_CLIENT_CONNECT_BACK_REQUEST = 3"

definition NET_CLIENT_CHECK_FILE_COUNT :: uint32 where [simp]: "NET_CLIENT_CHECK_FILE_COUNT = 4"

definition NET_CLIENT_PING :: uint32 where [simp]: "NET_CLIENT_PING = 5"

definition NET_CLIENT_PONG :: uint32 where [simp]: "NET_CLIENT_PONG = 6"

definition NET_CLIENT_SCAN_THREAD_REPORT :: uint32 where [simp]: "NET_CLIENT_SCAN_THREAD_REPORT = 7"

text \<open>Depths of the clauses of a node path \<open>/host/session/beshare/files/name\<close>.\<close>

definition ROOT_DEPTH :: nat where [simp]: "ROOT_DEPTH = 0"

definition HOST_NAME_DEPTH :: nat where [simp]: "HOST_NAME_DEPTH = 1"

definition SESSION_ID_DEPTH :: nat where [simp]: "SESSION_ID_DEPTH = 2"

definition BESHARE_HOME_DEPTH :: nat where [simp]: "BESHARE_HOME_DEPTH = 3"

definition USER_NAME_DEPTH :: nat where [simp]: "USER_NAME_DEPTH = 4"

definition FILE_INFO_DEPTH :: nat where [simp]: "FILE_INFO_DEPTH = 5"

text \<open>The transfer codes count up from the four-character constant 'tshr'.\<close>

definition TRANSFER_COMMAND_CONNECTED_TO_PEER :: uint32 where [simp]: "TRANSFER_COMMAND_CONNECTED_TO_PEER = 0x74736872"

definition TRANSFER_COMMAND_DISCONNECTED_FROM_PEER :: uint32 where [simp]: "TRANSFER_COMMAND_DISCONNECTED_FROM_PEER = 0x74736872 + 1"

definition TRANSFER_COMMAND_FILE_LIST :: uint32 where [simp]: "TRANSFER_COMMAND_FILE_LIST = 0x74736872 + 2"

definition TRANSFER_COMMAND_FILE_HEADER :: uint32 where [simp]: "TRANSFER_COMMAND_FILE_HEADER = 0x74736872 + 3"

definition TRANSFER_COMMAND_FILE_DATA :: uint32 where [simp]: "TRANSFER_COMMAND_FILE_DATA = 0x74736872 + 4"

definition TRANSFER_COMMAND_DEPRECATED :: uint32 where [simp]: "TRANSFER_COMMAND_DEPRECATED = 0x74736872 + 5"

definition TRANSFER_COMMAND_NOTIFY_QUEUED :: uint32 where [simp]: "TRANSFER_COMMAND_NOTIFY_QUEUED = 0x74736872 + 6"

definition TRANSFER_COMMAND_MD5_SEND_READ_DONE :: uint32 where [simp]: "TRANSFER_COMMAND_MD5_SEND_READ_DONE = 0x74736872 + 7"

definition TRANSFER_COMMAND_MD5_RECV_READ_DONE :: uint32 where [simp]: "TRANSFER_COMMAND_MD5_RECV_READ_DONE = 0x74736872 + 8"

definition TRANSFER_COMMAND_PEER_ID :: uint32 where [simp]: "TRANSFER_COMMAND_PEER_ID = 0x74736872 + 9"

definition TRANSFER_COMMAND_REJECTED :: uint32 where [simp]: "TRANSFER_COMMAND_REJECTED = 0x74736872 + 10"

definition MUNGE_MODE_NONE :: int32 where [simp]: "MUNGE_MODE_NONE = 0"

definition MUNGE_MODE_XOR :: int32 where [simp]: "MUNGE_MODE_XOR = 1"

text \<open>Node paths we publish under our own session, and the field names of the messages.\<close>

abbreviation BESHARE_NODE_NAME :: string where "BESHARE_NODE_NAME \<equiv> ''beshare/name''"
abbreviation BESHARE_NODE_USER_STATUS :: string where "BESHARE_NODE_USER_STATUS \<equiv> ''beshare/userstatus''"
abbreviation BESHARE_NODE_FILE_COUNT :: string where "BESHARE_NODE_FILE_COUNT \<equiv> ''beshare/filecount''"
abbreviation BESHARE_NODE_BANDWIDTH :: string where "BESHARE_NODE_BANDWIDTH \<equiv> ''beshare/bandwidth''"
abbreviation BESHARE_NODE_UPLOAD_STATS :: string where "BESHARE_NODE_UPLOAD_STATS \<equiv> ''beshare/uploadstats''"
abbreviation BESHARE_NODE_FILES_PATH :: string where "BESHARE_NODE_FILES_PATH \<equiv> ''beshare/files/''"
abbreviation BESHARE_NODE_FIREWALLED_PATH :: string where "BESHARE_NODE_FIREWALLED_PATH \<equiv> ''beshare/fires/''"
abbreviation BESHARE_SUBSCRIBE_ALL :: string where "BESHARE_SUBSCRIBE_ALL \<equiv> ''SUBSCRIBE:beshare/*''"
abbreviation BESHARE_FIELD_NAME :: string where "BESHARE_FIELD_NAME \<equiv> ''name''"
abbreviation BESHARE_FIELD_PORT :: string where "BESHARE_FIELD_PORT \<equiv> ''port''"
abbreviation BESHARE_FIELD_INSTALL_ID :: string where "BESHARE_FIELD_INSTALL_ID \<equiv> ''installid''"
abbreviation BESHARE_FIELD_VERSION_NAME :: string where "BESHARE_FIELD_VERSION_NAME \<equiv> ''version_name''"
abbreviation BESHARE_FIELD_VERSION_NUMBER :: string where "BESHARE_FIELD_VERSION_NUMBER \<equiv> ''version_num''"
abbreviation BESHARE_FIELD_LEGACY_VERSION :: string where "BESHARE_FIELD_LEGACY_VERSION \<equiv> ''version''"
abbreviation BESHARE_FIELD_BOT :: string where "BESHARE_FIELD_BOT \<equiv> ''bot''"
abbreviation BESHARE_FIELD_SUPPORTS_PARTIAL_HASHING :: string where "BESHARE_FIELD_SUPPORTS_PARTIAL_HASHING \<equiv> ''supports_partial_hashing''"
abbreviation BESHARE_FIELD_SUPPORTS_SSL :: string where "BESHARE_FIELD_SUPPORTS_SSL \<equiv> ''supports_ssl''"
abbreviation BESHARE_FIELD_SUPPORTS_RANGES :: string where "BESHARE_FIELD_SUPPORTS_RANGES \<equiv> ''supports_ranges''"
abbreviation BESHARE_FIELD_USER_STATUS :: string where "BESHARE_FIELD_USER_STATUS \<equiv> ''userstatus''"
abbreviation BESHARE_FIELD_FILE_COUNT :: string where "BESHARE_FIELD_FILE_COUNT \<equiv> ''filecount''"
abbreviation BESHARE_FIELD_BANDWIDTH_LABEL :: string where "BESHARE_FIELD_BANDWIDTH_LABEL \<equiv> ''label''"
abbreviation BESHARE_FIELD_BANDWIDTH_BITS :: string where "BESHARE_FIELD_BANDWIDTH_BITS \<equiv> ''bps''"
abbreviation BESHARE_FIELD_UPLOADS_CURRENT :: string where "BESHARE_FIELD_UPLOADS_CURRENT \<equiv> ''cur''"
abbreviation BESHARE_FIELD_UPLOADS_MAX :: string where "BESHARE_FIELD_UPLOADS_MAX \<equiv> ''max''"
abbreviation BESHARE_FIELD_FILE_NAME :: string where "BESHARE_FIELD_FILE_NAME \<equiv> ''beshare:File Name''"
abbreviation BESHARE_FIELD_FILE_SIZE :: string where "BESHARE_FIELD_FILE_SIZE \<equiv> ''beshare:File Size''"
abbreviation BESHARE_FIELD_MODIFICATION_TIME :: string where "BESHARE_FIELD_MODIFICATION_TIME \<equiv> ''beshare:Modification Time''"
abbreviation BESHARE_FIELD_PATH :: string where "BESHARE_FIELD_PATH \<equiv> ''beshare:Path''"
abbreviation BESHARE_FIELD_KIND :: string where "BESHARE_FIELD_KIND \<equiv> ''beshare:Kind''"
abbreviation BESHARE_FIELD_FROM_SESSION :: string where "BESHARE_FIELD_FROM_SESSION \<equiv> ''beshare:FromSession''"
abbreviation BESHARE_FIELD_FROM_USER_NAME :: string where "BESHARE_FIELD_FROM_USER_NAME \<equiv> ''beshare:FromUserName''"
abbreviation BESHARE_FIELD_FILE_LIST_NAMES :: string where "BESHARE_FIELD_FILE_LIST_NAMES \<equiv> ''files''"
abbreviation BESHARE_FIELD_FILE_LIST_OFFSETS :: string where "BESHARE_FIELD_FILE_LIST_OFFSETS \<equiv> ''offsets''"
abbreviation BESHARE_FIELD_FILE_LIST_MD5 :: string where "BESHARE_FIELD_FILE_LIST_MD5 \<equiv> ''md5''"
abbreviation BESHARE_FIELD_MUNGE_MODE :: string where "BESHARE_FIELD_MUNGE_MODE \<equiv> ''mm''"
abbreviation BESHARE_FIELD_CHECKSUM :: string where "BESHARE_FIELD_CHECKSUM \<equiv> ''chk''"
abbreviation BESHARE_FIELD_DATA :: string where "BESHARE_FIELD_DATA \<equiv> ''data''"
abbreviation BESHARE_FIELD_TIME_LEFT :: string where "BESHARE_FIELD_TIME_LEFT \<equiv> ''timeleft''"
abbreviation BESHARE_FIELD_SESSION :: string where "BESHARE_FIELD_SESSION \<equiv> ''session''"
abbreviation BESHARE_FIELD_TEXT :: string where "BESHARE_FIELD_TEXT \<equiv> ''text''"
abbreviation BESHARE_FIELD_PRIVATE :: string where "BESHARE_FIELD_PRIVATE \<equiv> ''private''"
abbreviation BESHARE_FIELD_WHEN :: string where "BESHARE_FIELD_WHEN \<equiv> ''when''"
abbreviation BESHARE_FIELD_UPTIME :: string where "BESHARE_FIELD_UPTIME \<equiv> ''uptime''"
abbreviation BESHARE_FIELD_ONLINE_TIME :: string where "BESHARE_FIELD_ONLINE_TIME \<equiv> ''onlinetime''"
abbreviation BESHARE_ACTION_PREFIX :: string where "BESHARE_ACTION_PREFIX \<equiv> ''/me ''"

text \<open>\<open>core/HiTuxShareVersion.h\<close>.\<close>

abbreviation HITUX_SHARE_NAME :: string where "HITUX_SHARE_NAME \<equiv> ''HiTuxShare''"
abbreviation HITUX_SHARE_VERSION_STRING :: string where "HITUX_SHARE_VERSION_STRING \<equiv> ''0.1.0''"

definition MakeQuerySubscriptionPath :: "string \<Rightarrow> string \<Rightarrow> bool \<Rightarrow> string" where
  "MakeQuerySubscriptionPath sessionExpression fileExpression isFirewalled =
     ''SUBSCRIBE:/*/'' @ sessionExpression @ ''/beshare/'' @
     (if isFirewalled then ''files/'' else ''fi*/'') @ fileExpression"

definition MakeSessionTargetPath :: "string \<Rightarrow> string" where
  "MakeSessionTargetPath sessionId = ''/*/'' @ sessionId @ ''/beshare''"

lemma MakeSessionTargetPath_inj [simp]:
  "MakeSessionTargetPath a = MakeSessionTargetPath b \<longleftrightarrow> a = b"
  by (simp add: MakeSessionTargetPath_def)

lemma MakeSessionTargetPath_path:
  "MakeSessionTargetPath sid = make_path [''*'', sid, ''beshare'']"
  by (simp add: MakeSessionTargetPath_def make_path_def)

end
