(* ===== verification/RefMuscle.thy ===== *)
theory RefMuscle
  imports MuscleLib
begin

section \<open>A concrete instance of the MUSCLE laws\<close>

text \<open>
  Plain functions that satisfy every law of \<open>MuscleLib\<close>. They are not a model of MUSCLE's code;
  they show that the laws are consistent and let the witnesses evaluate the program's definitions
  on concrete inputs.
\<close>

definition ref_lower_char :: "char \<Rightarrow> char" where
  "ref_lower_char c = (if upper_ascii c then char_of (of_char c + (32::nat)) else c)"

definition ref_lower :: "string \<Rightarrow> string" where
  "ref_lower s = map ref_lower_char s"

fun ref_split :: "(char \<Rightarrow> bool) \<Rightarrow> string \<Rightarrow> string list" where
  "ref_split P [] = [[]]"
| "ref_split P (c # s) =
     (if P c then [] # ref_split P s
      else (case ref_split P s of [] \<Rightarrow> [[c]] | x # xs \<Rightarrow> (c # x) # xs))"

definition ref_tokenize :: "string \<Rightarrow> string \<Rightarrow> string list" where
  "ref_tokenize s seps = filter (\<lambda>t. t \<noteq> []) (ref_split (\<lambda>c. c \<in> set seps) s)"

fun ref_glob :: "string \<Rightarrow> string \<Rightarrow> bool" where
  "ref_glob [] s = (s = [])"
| "ref_glob (p # ps) [] = (p = CHR ''*'' \<and> ref_glob ps [])"
| "ref_glob (p # ps) (c # s) =
     (if p = CHR ''*'' then ref_glob ps (c # s) \<or> ref_glob (p # ps) s
      else (p = CHR ''?'' \<or> p = c) \<and> ref_glob ps s)"

fun ref_clause :: "nat \<Rightarrow> string \<Rightarrow> string option" where
  "ref_clause 0 s = Some s"
| "ref_clause (Suc k) s =
     (case dropWhile (\<lambda>c. c \<noteq> CHR ''/'') s of
        [] \<Rightarrow> None
      | _ # r \<Rightarrow> if k = 0 then (if r = [] then None else Some r) else ref_clause k r)"

fun ref_digits :: "nat \<Rightarrow> string" where
  "ref_digits n = (if n < 10 then [char_of (48 + n)]
     else ref_digits (n div 10) @ [char_of (48 + n mod 10)])"

definition ref_format :: "int \<Rightarrow> string" where
  "ref_format n = (if n < 0 then CHR ''-'' # ref_digits (nat (- n)) else ref_digits (nat n))"

definition ref_muscle :: muscle where
  "ref_muscle = \<lparr> Trimmed = trim_by whitespace, ToLowerCase = ref_lower,
     EqualsIgnoreCase = (\<lambda>a b. ref_lower a = ref_lower b), Tokenize = ref_tokenize,
     PatternMatch = ref_glob, ToCaseInsensitive = (\<lambda>p. p),
     GetPathDepth = (\<lambda>s. int (length (ref_tokenize s ''/''))), GetPathClause = ref_clause,
     FormatInt = ref_format, InflateMessage = Some,
     PR_COMMAND_SETPARAMETERS = 1001, PR_COMMAND_GETPARAMETERS = 1002,
     PR_COMMAND_REMOVEPARAMETERS = 1003, PR_COMMAND_SETDATA = 1004, PR_COMMAND_REMOVEDATA = 1005,
     PR_COMMAND_JETTISONRESULTS = 1006, PR_COMMAND_PING = 1007, PR_COMMAND_NOOP = 1008,
     PR_RESULT_DATAITEMS = 2001, PR_RESULT_PARAMETERS = 2002, PR_RESULT_PONG = 2003,
     PR_NAME_KEYS = ''!SnKy'', PR_NAME_SESSION_ROOT = ''!SnRt'',
     PR_NAME_REMOVED_DATAITEMS = ''!SnRd'' \<rparr>"

lemma ref_muscle_simps [simp]:
  "Trimmed ref_muscle = trim_by whitespace" "ToLowerCase ref_muscle = ref_lower"
  "EqualsIgnoreCase ref_muscle a b = (ref_lower a = ref_lower b)"
  "Tokenize ref_muscle = ref_tokenize" "PatternMatch ref_muscle = ref_glob"
  "ToCaseInsensitive ref_muscle p = p"
  "GetPathDepth ref_muscle s = int (length (ref_tokenize s ''/''))"
  "GetPathClause ref_muscle = ref_clause" "FormatInt ref_muscle = ref_format"
  "InflateMessage ref_muscle m = Some m"
  by (simp_all add: ref_muscle_def)

lemma ref_pr_simps [simp]:
  "PR_COMMAND_SETPARAMETERS ref_muscle = 1001" "PR_COMMAND_GETPARAMETERS ref_muscle = 1002"
  "PR_COMMAND_REMOVEPARAMETERS ref_muscle = 1003" "PR_COMMAND_SETDATA ref_muscle = 1004"
  "PR_COMMAND_REMOVEDATA ref_muscle = 1005" "PR_COMMAND_JETTISONRESULTS ref_muscle = 1006"
  "PR_COMMAND_PING ref_muscle = 1007" "PR_COMMAND_NOOP ref_muscle = 1008"
  "PR_RESULT_DATAITEMS ref_muscle = 2001" "PR_RESULT_PARAMETERS ref_muscle = 2002"
  "PR_RESULT_PONG ref_muscle = 2003" "PR_NAME_KEYS ref_muscle = ''!SnKy''"
  "PR_NAME_SESSION_ROOT ref_muscle = ''!SnRt''"
  "PR_NAME_REMOVED_DATAITEMS ref_muscle = ''!SnRd''"
  by (simp_all add: ref_muscle_def)

lemma ref_trim_law [simp]: "trim_law ref_muscle"
  unfolding trim_law_def by (intro exI [of _ whitespace]) (simp add: whitespace_def)

subsection \<open>Case folding\<close>

lemma not_upper_lower: "\<not> upper_ascii (ref_lower_char c)"
  by (auto simp: ref_lower_char_def upper_ascii_def)

lemma ref_lower_char_idem: "\<not> upper_ascii c \<Longrightarrow> ref_lower_char c = c"
  by (simp add: ref_lower_char_def)

lemma ref_lower_law [simp]: "lower_law ref_muscle"
  by (auto simp: lower_law_def ref_lower_def list_all_iff ref_lower_char_idem not_upper_lower
      intro: map_idI)

lemma ref_ignore_case_law [simp]: "ignore_case_law ref_muscle"
  by (simp add: ignore_case_law_def)

subsection \<open>Tokens and node paths\<close>

lemma ref_split_nonempty: "ref_split P s \<noteq> []"
  by (induction s) (auto split: list.splits)

lemma ref_split_piece: "list_all (\<lambda>c. \<not> P c) e \<Longrightarrow> ref_split P e = [e]"
  by (induction e) auto

lemma ref_split_append:
  "list_all (\<lambda>c. \<not> P c) e \<Longrightarrow> P c \<Longrightarrow> ref_split P (e @ c # s) = e # ref_split P s"
  by (induction e) auto

lemma ref_split_cut: "P c \<Longrightarrow> ref_split P (a @ c # b) = ref_split P a @ ref_split P b"
  by (induction a) (auto split: list.splits simp: ref_split_nonempty)

lemma ref_tokenize_single: "ref_tokenize s [c] = filter (\<lambda>t. t \<noteq> []) (ref_split (\<lambda>x. x = c) s)"
  by (simp add: ref_tokenize_def)

lemma ref_pieces: "pieces ref_muscle c s = filter (\<lambda>t. t \<noteq> []) (ref_split (\<lambda>x. x = c) s)"
  by (simp add: pieces_def ref_tokenize_single)

lemma ref_token_law [simp]: "token_law ref_muscle"
proof -
  have "ref_split (\<lambda>x. x = c) s = [s]" if "c \<notin> set s" for c and s :: string
    using that by (intro ref_split_piece) (auto simp: list_all_iff)
  then show ?thesis by (simp add: token_law_def ref_pieces ref_split_cut)
qed

lemma ref_split_path:
  "list_all is_clause cs \<Longrightarrow> ref_split (\<lambda>x. x = CHR ''/'') (make_path cs) = [] # cs"
proof (induction cs)
  case (Cons c cs)
  then have c: "list_all (\<lambda>x. x \<noteq> CHR ''/'') c" by (auto simp: is_clause_def list_all_iff)
  show ?case
  proof (cases cs)
    case Nil
    with ref_split_piece [OF c] show ?thesis by simp
  next
    case (Cons d ds)
    with ref_split_append [OF c, of "CHR ''/''" "d @ make_path ds"] Cons.IH Cons.prems
    show ?thesis by (auto split: list.splits)
  qed
qed simp

lemma ref_clause_path:
  "list_all is_clause cs \<Longrightarrow> CHR ''/'' \<notin> set x \<Longrightarrow> k < length cs \<Longrightarrow>
   ref_clause (Suc k) (x @ make_path cs) = Some (cs ! k @ make_path (drop (Suc k) cs))"
proof (induction k arbitrary: x cs)
  case (0 x cs)
  then obtain c ds where [simp]: "cs = c # ds" and "c \<noteq> []" by (cases cs) (auto simp: is_clause_def)
  have "dropWhile (\<lambda>c. c \<noteq> CHR ''/'') (x @ CHR ''/'' # r) = CHR ''/'' # r" for r
    using 0(2) by (induction x) auto
  with \<open>c \<noteq> []\<close> show ?case by simp
next
  case (Suc k x cs)
  then obtain c ds where cs [simp]: "cs = c # ds" by (cases cs) auto
  have dw: "dropWhile (\<lambda>c. c \<noteq> CHR ''/'') (x @ CHR ''/'' # r) = CHR ''/'' # r" for r
    using Suc.prems(2) by (induction x) auto
  have "ref_clause (Suc k) (c @ make_path ds) = Some (ds ! k @ make_path (drop (Suc k) ds))"
    using Suc.prems by (intro Suc.IH) (auto simp: is_clause_def)
  then show ?case using dw by simp
qed

lemma ref_path_law [simp]: "path_law ref_muscle"
proof -
  have "length (filter (\<lambda>t. t \<noteq> []) cs) = length cs" if "list_all is_clause cs" for cs
    using that by (auto simp: list_all_iff is_clause_def intro!: arg_cong [of _ _ length] filter_True)
  then show ?thesis
    using ref_clause_path [of _ "[]"]
    by (auto simp: path_law_def ref_tokenize_single ref_split_path)
qed

subsection \<open>Numbers and patterns\<close>

declare ref_digits.simps [simp del]

lemma ref_digits_chars: "ref_digits n \<noteq> [] \<and> list_all digit (ref_digits n)"
proof (induction n rule: ref_digits.induct)
  case (1 n)
  then show ?case
    by (subst (1 2) ref_digits.simps) (auto simp: list_all_iff digit_def [of "char_of _"])
qed

definition ref_value :: "string \<Rightarrow> nat" where
  "ref_value s = foldl (\<lambda>a c. 10 * a + (of_char c - 48)) 0 s"

lemma ref_value_digits: "ref_value (ref_digits n) = n"
proof (induction n rule: ref_digits.induct)
  case (1 n)
  then show ?case by (subst ref_digits.simps) (auto simp: ref_value_def)
qed

lemma ref_digits_inj: "ref_digits m = ref_digits n \<Longrightarrow> m = n"
  by (metis ref_value_digits)

lemma minus_not_digit: "\<not> digit CHR ''-''"
  by (simp add: digit_def)

lemma ref_digits_no_minus: "ref_digits n \<noteq> CHR ''-'' # s"
  using ref_digits_chars [of n] minus_not_digit by (auto simp: list_all_iff)

lemma ref_format_law [simp]: "format_law ref_muscle"
proof -
  have "ref_format n \<noteq> [] \<and> list_all (\<lambda>c. digit c \<or> c = CHR ''-'') (ref_format n)" for n
    using ref_digits_chars by (auto simp: ref_format_def list_all_iff)
  moreover have "m = n" if eq: "ref_format m = ref_format n" for m n
  proof (cases "m < 0"; cases "n < 0")
    assume "m < 0" "n < 0"
    with eq have "nat (- m) = nat (- n)"
      by (intro ref_digits_inj) (simp add: ref_format_def)
    with \<open>m < 0\<close> \<open>n < 0\<close> show ?thesis by simp
  next
    assume "\<not> m < 0" "\<not> n < 0"
    with eq have "nat m = nat n"
      by (intro ref_digits_inj) (simp add: ref_format_def)
    with \<open>\<not> m < 0\<close> \<open>\<not> n < 0\<close> show ?thesis by simp
  next
    assume "m < 0" "\<not> n < 0"
    with eq have "ref_digits (nat n) = CHR ''-'' # ref_digits (nat (- m))"
      by (simp add: ref_format_def)
    then show ?thesis using ref_digits_no_minus by blast
  next
    assume "\<not> m < 0" "n < 0"
    with eq have "ref_digits (nat m) = CHR ''-'' # ref_digits (nat (- n))"
      by (simp add: ref_format_def)
    then show ?thesis using ref_digits_no_minus by blast
  qed
  ultimately show ?thesis by (simp add: format_law_def)
qed

lemma ref_glob_star: "ref_glob ''*'' s"
  by (induction s) auto

lemma ref_other_laws [simp]: "star_law ref_muscle" "label_law ref_muscle" "keys_law ref_muscle"
  by (simp_all add: star_law_def label_law_def keys_law_def ref_glob_star)

lemma ref_muscle_laws [simp]: "muscle_laws ref_muscle"
  by (simp add: muscle_laws_def)

end
