(* ===== verification/ChatInput.thy ===== *)
theory ChatInput
  imports Protocol RefMuscle
begin

section \<open>What the user types: commands and aliases\<close>

text \<open>
  \<open>core/ChatMessage.h\<close>, \<open>core/ChatCommandParser\<close> and \<open>core/ChatAliases\<close>: the classification of
  chat lines, the parser that turns a line into a command, and the alias table with its
  single-pass expansion.
\<close>

subsection \<open>Chat messages\<close>

datatype LogMessageType =
    LOG_INFORMATION_MESSAGE
  | LOG_WARNING_MESSAGE
  | LOG_ERROR_MESSAGE
  | LOG_LOCAL_USER_CHAT_MESSAGE
  | LOG_REMOTE_USER_CHAT_MESSAGE
  | LOG_USER_EVENT_MESSAGE
  | LOG_UPLOAD_EVENT_MESSAGE

record ChatMessage =
  msg_type :: LogMessageType
  senderSessionId :: string
  senderName :: string
  msg_text :: string
  isPrivate :: bool
  isAction :: bool
  isFromLocalUser :: bool
  isHighlighted :: bool

definition chat_message :: "LogMessageType \<Rightarrow> string \<Rightarrow> ChatMessage" where
  "chat_message messageType messageText =
     \<lparr> msg_type = messageType, senderSessionId = [], senderName = [], msg_text = messageText,
       isPrivate = False, isAction = False, isFromLocalUser = False, isHighlighted = False \<rparr>"

subsection \<open>Commands\<close>

datatype ChatCommandType =
    CHAT_COMMAND_NONE | CHAT_COMMAND_UNKNOWN | CHAT_COMMAND_ACTION | CHAT_COMMAND_NICK
  | CHAT_COMMAND_STATUS | CHAT_COMMAND_AWAY | CHAT_COMMAND_MESSAGE | CHAT_COMMAND_PING
  | CHAT_COMMAND_CONNECT | CHAT_COMMAND_DISCONNECT | CHAT_COMMAND_START_QUERY
  | CHAT_COMMAND_STOP_QUERY | CHAT_COMMAND_GET | CHAT_COMMAND_IGNORE | CHAT_COMMAND_WATCH
  | CHAT_COMMAND_AUTOPRIV | CHAT_COMMAND_ALIAS | CHAT_COMMAND_UNALIAS | CHAT_COMMAND_CLEAR
  | CHAT_COMMAND_HELP | CHAT_COMMAND_INFO | CHAT_COMMAND_QUIT

record ChatCommand =
  cmd_type :: ChatCommandType
  commandName :: string
  cmd_target :: string
  cmd_argument :: string

definition empty_command :: ChatCommand where
  "empty_command = \<lparr> cmd_type = CHAT_COMMAND_NONE, commandName = [], cmd_target = [], cmd_argument = [] \<rparr>"

text \<open>A row: the name, the command type, whether the first word after it addresses somebody.\<close>

definition kCommandTable :: "(string \<times> ChatCommandType \<times> bool) list" where
  "kCommandTable =
    [(''nick'', CHAT_COMMAND_NICK, False),
     (''status'', CHAT_COMMAND_STATUS, False),
     (''away'', CHAT_COMMAND_AWAY, False),
     (''msg'', CHAT_COMMAND_MESSAGE, True),
     (''ping'', CHAT_COMMAND_PING, True),
     (''connect'', CHAT_COMMAND_CONNECT, False),
     (''start'', CHAT_COMMAND_START_QUERY, False),
     (''query'', CHAT_COMMAND_START_QUERY, False),
     (''stop'', CHAT_COMMAND_STOP_QUERY, False),
     (''get'', CHAT_COMMAND_GET, False),
     (''ignore'', CHAT_COMMAND_IGNORE, False),
     (''watch'', CHAT_COMMAND_WATCH, False),
     (''autopriv'', CHAT_COMMAND_AUTOPRIV, False),
     (''alias'', CHAT_COMMAND_ALIAS, True),
     (''unalias'', CHAT_COMMAND_UNALIAS, False),
     (''disconnect'', CHAT_COMMAND_DISCONNECT, False),
     (''clear'', CHAT_COMMAND_CLEAR, False),
     (''help'', CHAT_COMMAND_HELP, False),
     (''info'', CHAT_COMMAND_INFO, False),
     (''quit'', CHAT_COMMAND_QUIT, False)]"

text \<open>Splits \<open>word rest\<close> at the first blank; the rest is trimmed, and empty without a blank.\<close>

definition split_word :: "muscle \<Rightarrow> string \<Rightarrow> string \<times> string" where
  "split_word L s =
     (let i = index_of (CHR '' '') s
      in if 0 \<le> i then (substring s 0 i, Trimmed L (substring_from s (i + 1))) else (s, []))"

definition ParseCommandWord :: "muscle \<Rightarrow> string \<Rightarrow> ChatCommand" where
  "ParseCommandWord L withoutSlash =
     (let (commandWord, remainder) = split_word L withoutSlash;
          command = empty_command\<lparr>commandName := commandWord\<rparr>
      in case find (\<lambda>row. fst row = ToLowerCase L commandWord) kCommandTable of
           None \<Rightarrow> command\<lparr>cmd_type := CHAT_COMMAND_UNKNOWN\<rparr>
         | Some (_, ty, takesTarget) \<Rightarrow>
             if takesTarget
             then command\<lparr>cmd_type := ty, cmd_target := fst (split_word L remainder),
                          cmd_argument := snd (split_word L remainder)\<rparr>
             else command\<lparr>cmd_type := ty, cmd_argument := remainder\<rparr>)"

definition Parse :: "muscle \<Rightarrow> string \<Rightarrow> ChatCommand" where
  "Parse L input =
     (let trimmedInput = Trimmed L input
      in if trimmedInput = [] then empty_command
         else if \<not> starts_with trimmedInput ''/'' then empty_command\<lparr>cmd_argument := trimmedInput\<rparr>
         else if starts_with trimmedInput ''//''
           then empty_command\<lparr>cmd_argument := substring_from trimmedInput 1\<rparr>
         else if trimmedInput = ''/me'' \<or> starts_with trimmedInput BESHARE_ACTION_PREFIX
           then empty_command\<lparr>cmd_type := CHAT_COMMAND_ACTION, commandName := ''me'',
                              cmd_argument := trimmedInput\<rparr>
         else ParseCommandWord L (substring_from trimmedInput 1))"

text \<open>The table behind \<open>/help\<close>: command name, arguments (a null pointer is \<^const>\<open>None\<close>), text.\<close>

definition GetHelpEntries :: "(string \<times> string option \<times> string) list" where
  "GetHelpEntries =
    [(''away'', Some ''[message]'', ''Set yourself away, with an optional message''),
     (''clear'', None, ''Clear the chat log''),
     (''connect'', Some ''[server]'', ''Connect to a server''),
     (''disconnect'', None, ''Disconnect from the server''),
     (''help'', None, ''Show this help text''),
     (''info'', None, ''Show connection and server information''),
     (''me'', Some ''<action>'', ''Send an action, e.g. /me waves''),
     (''msg'', Some ''<user> <text>'', ''Send a private message''),
     (''nick'', Some ''<name>'', ''Change your user name''),
     (''ping'', Some ''<user>'', ''Measure the round trip to another client''),
     (''quit'', None, ''Quit HiTuxShare''),
     (''start'', Some ''<pattern>'', ''Search shared files, e.g. /start *.hpkg''),
     (''stop'', None, ''Stop the running search''),
     (''get'', Some ''<number>'', ''Download a numbered search result''),
     (''alias'', Some ''<name> <text>'', ''Make /name expand to some text''),
     (''autopriv'', Some ''[users]'', ''Always notify me about these users, focused or not''),
     (''ignore'', Some ''[users]'', ''Hide chat from these users; no argument clears''),
     (''unalias'', Some ''<name>'', ''Remove an alias''),
     (''watch'', Some ''[users]'', ''Highlight and notify for these users''),
     (''status'', Some ''<status>'', ''Set your status string'')]"

subsection \<open>Aliases\<close>

type_synonym aliases = "(string \<times> string) list"

definition SetAlias :: "muscle \<Rightarrow> string \<Rightarrow> string \<Rightarrow> aliases \<Rightarrow> aliases" where
  "SetAlias L name val fAliases =
     (let cleanName = ToLowerCase L (Trimmed L name)
      in if cleanName = [] \<or> Trimmed L val = [] then fAliases
         else ht_put cleanName (Trimmed L val) fAliases)"

definition RemoveAlias :: "muscle \<Rightarrow> string \<Rightarrow> aliases \<Rightarrow> bool \<times> aliases" where
  "RemoveAlias L name fAliases =
     (let k = ToLowerCase L (Trimmed L name)
      in (map_of fAliases k \<noteq> None, ht_remove k fAliases))"

definition ClearAliases :: "aliases \<Rightarrow> aliases" where
  "ClearAliases fAliases = []"

definition Expand :: "muscle \<Rightarrow> aliases \<Rightarrow> string \<Rightarrow> string" where
  "Expand L fAliases input =
     (let trimmed = Trimmed L input
      in if \<not> starts_with trimmed ''/'' \<or> starts_with trimmed ''//'' then input
         else let (word, remainder) = split_word L (substring_from trimmed 1)
              in case map_of fAliases (ToLowerCase L word) of
                   None \<Rightarrow> input
                 | Some val \<Rightarrow> if remainder \<noteq> [] then val @ '' '' @ remainder else val)"

subsection \<open>Facts about splitting\<close>

lemma split_word_none [simp]: "CHR '' '' \<notin> set w \<Longrightarrow> split_word L w = (w, [])"
  by (simp add: split_word_def)

lemma split_word_blank [simp]:
  "CHR '' '' \<notin> set w \<Longrightarrow> split_word L (w @ CHR '' '' # r) = (w, Trimmed L r)"
  using substring_upto [of w "CHR '' '' # r"] by (simp add: split_word_def)

lemma split_word_no_blank: "CHR '' '' \<notin> set (fst (split_word L s))"
proof (cases "CHR '' '' \<in> set s")
  case True
  then show ?thesis by (elim index_of_split) simp
qed simp

lemma command_names_distinct: "distinct (map fst kCommandTable)"
  by (simp add: kCommandTable_def)

lemma find_command:
  assumes "(n, ty, tt) \<in> set kCommandTable"
  shows "find (\<lambda>row. fst row = n) kCommandTable = Some (n, ty, tt)"
proof -
  have "find (\<lambda>row. fst row = n) xs = Some (n, r)"
    if "distinct (map fst xs)" "(n, r) \<in> set xs" for xs :: "(string \<times> ChatCommandType \<times> bool) list" and r
    using that by (induction xs) force+
  then show ?thesis using assms command_names_distinct by blast
qed

lemma Parse_command_word:
  assumes "trim_law L" and "Trimmed L input = CHR ''/'' # w"
    and "w \<noteq> ''me''" "\<not> prefix ''me '' w" "\<not> prefix ''/'' w"
  shows "Parse L input = ParseCommandWord L w"
  using assms by (simp add: Parse_def)

text \<open>The alias table's invariant: distinct, lower-case, non-empty keys and trimmed, non-empty values.\<close>

definition aliases_ok :: "muscle \<Rightarrow> aliases \<Rightarrow> bool" where
  "aliases_ok L al \<longleftrightarrow> ht_ok al \<and>
     list_all (\<lambda>(k, v). k \<noteq> [] \<and> ToLowerCase L k = k \<and> v \<noteq> [] \<and> Trimmed L v = v) al"

lemma aliases_ok_Set:
  assumes "trim_law L" "lower_law L" "aliases_ok L al"
  shows "aliases_ok L (SetAlias L n v al)"
  using assms set_ht_put_subset [of "ToLowerCase L (Trimmed L n)" "Trimmed L v" al]
  by (auto simp: SetAlias_def aliases_ok_def Let_def list_all_iff lower_law_def)

lemma aliases_ok_Remove: "aliases_ok L al \<Longrightarrow> aliases_ok L (snd (RemoveAlias L n al))"
  by (auto simp: RemoveAlias_def aliases_ok_def Let_def list_all_iff)

subsection \<open>Properties\<close>

text \<open>
  Every row of the command table is reachable under any spelling of its name that lower-cases
  to it: a line \<open>/word rest\<close> is parsed as that command, the word is kept as typed, and the rest is
  split into target and argument exactly for the commands that address somebody.
\<close>

theorem parse_known_command:
  assumes "trim_law L" "lower_law L" "(n, ty, takesTarget) \<in> set kCommandTable"
    and w: "ToLowerCase L w = n" and input: "Trimmed L input = ''/'' @ w @ '' '' @ r"
  shows "Parse L input =
    (if takesTarget
     then \<lparr>cmd_type = ty, commandName = w, cmd_target = fst (split_word L (Trimmed L r)),
           cmd_argument = snd (split_word L (Trimmed L r))\<rparr>
     else \<lparr>cmd_type = ty, commandName = w, cmd_target = [], cmd_argument = Trimmed L r\<rparr>)"
proof -
  have n: "CHR '' '' \<notin> set n" "CHR ''/'' \<notin> set n" "n \<noteq> ''me''"
    using assms(3) by (auto simp: kCommandTable_def)
  have blank: "CHR '' '' \<notin> set w" and slash: "CHR ''/'' \<notin> set w"
    using n w lower_chars [OF assms(2)] by (auto simp: upper_ascii_def)
  have "w \<noteq> ''me''"
    using n(3) w assms(2) by (auto simp: lower_law_def upper_ascii_def)
  then have "\<not> prefix ''me '' (w @ '' '' @ r)"
    using blank by (auto simp: prefix_def append_eq_Cons_conv Cons_eq_append_conv)
  moreover have "\<not> prefix ''/'' (w @ '' '' @ r)"
    using slash by (cases w) auto
  moreover have "w @ '' '' @ r \<noteq> ''me''"
  proof -
    have "CHR '' '' \<in> set (w @ '' '' @ r)" "CHR '' '' \<notin> set ''me''" by simp_all
    then show ?thesis by metis
  qed
  ultimately have "Parse L input = ParseCommandWord L (w @ '' '' @ r)"
    using input assms(1) by (intro Parse_command_word) auto
  then show ?thesis
    using blank find_command [OF assms(3)] w by (simp add: ParseCommandWord_def empty_command_def)
qed

theorem parse_known_command_witness:
  "Parse ref_muscle '' /MSG bob hi there '' =
     \<lparr>cmd_type = CHAT_COMMAND_MESSAGE, commandName = ''MSG'', cmd_target = ''bob'',
      cmd_argument = ''hi there''\<rparr>"
proof -
  have row: "(''msg'', CHAT_COMMAND_MESSAGE, True) \<in> set kCommandTable"
    by (simp add: kCommandTable_def)
  have w: "ToLowerCase ref_muscle ''MSG'' = ''msg''" by code_simp
  have input: "Trimmed ref_muscle '' /MSG bob hi there '' = ''/'' @ ''MSG'' @ '' '' @ ''bob hi there''"
    by code_simp
  have "split_word ref_muscle (Trimmed ref_muscle ''bob hi there'') = (''bob'', ''hi there'')"
    by code_simp
  then show ?thesis
    using parse_known_command [OF ref_trim_law ref_lower_law row w input] by simp
qed

text \<open>
  Any text the user may want to say can be said: for every non-empty trimmed text there is a
  line that parses to ordinary chat with exactly that text, the text itself unless it starts with
  a slash, and the text behind one more slash when it does.
\<close>

theorem parse_literal_text:
  assumes "trim_law L" "Trimmed L s = s" "s \<noteq> []"
  shows "Parse L (if starts_with s ''/'' then CHR ''/'' # s else s) = empty_command\<lparr>cmd_argument := s\<rparr>"
proof (cases "starts_with s ''/''")
  case True
  have "Trimmed L (CHR ''/'' # s) = CHR ''/'' # s"
    using Trimmed_prefixed [of L s "CHR ''/''" "[]"] assms by (simp add: whitespace_def)
  with True show ?thesis by (auto simp: Parse_def prefix_def)
qed (use assms in \<open>simp add: Parse_def\<close>)

theorem parse_literal_text_witness:
  "Parse ref_muscle ''//me waves'' = empty_command\<lparr>cmd_argument := ''/me waves''\<rparr>"
proof -
  have t: "Trimmed ref_muscle ''/me waves'' = ''/me waves''" by code_simp
  show ?thesis using parse_literal_text [OF ref_trim_law t] by simp
qed

text \<open>
  Defining an alias makes exactly its own command word expand to its value, with whatever
  was typed behind it appended and no second expansion; every other word expands as before.
\<close>

theorem alias_expansion:
  assumes "trim_law L" "lower_law L" and k: "ToLowerCase L (Trimmed L name) = k" "k \<noteq> []"
    and v: "Trimmed L val \<noteq> []"
    and input: "Trimmed L input = CHR ''/'' # w" "\<not> starts_with w ''/''"
  shows "Expand L (SetAlias L name val al) input =
     (if ToLowerCase L (fst (split_word L w)) = k
      then Trimmed L val @ (if snd (split_word L w) = [] then [] else '' '' @ snd (split_word L w))
      else Expand L al input)"
  using assms by (auto simp: Expand_def SetAlias_def Let_def split: prod.splits option.splits)

theorem alias_expansion_witness:
  "Expand ref_muscle (SetAlias ref_muscle ''G'' ''/msg '' [(''h'', ''/help'')]) ''/g alice hello'' =
     ''/msg alice hello''"
proof -
  have k: "ToLowerCase ref_muscle (Trimmed ref_muscle ''G'') = ''g''" by code_simp
  have v: "Trimmed ref_muscle ''/msg '' \<noteq> []" by code_simp
  have i: "Trimmed ref_muscle ''/g alice hello'' = CHR ''/'' # ''g alice hello''" by code_simp
  have s: "split_word ref_muscle ''g alice hello'' = (''g'', ''alice hello'')" by code_simp
  have l: "ToLowerCase ref_muscle ''g'' = ''g''" "Trimmed ref_muscle ''/msg '' = ''/msg''"
    by code_simp+
  show ?thesis
    using alias_expansion [OF ref_trim_law ref_lower_law k _ v i, of "[(''h'', ''/help'')]"] s l by simp
qed

end
