(* ===== verification/UserFilters.thy ===== *)
theory UserFilters
  imports MuscleLib RefMuscle
begin

section \<open>User filters: ignore, watch and auto-private lists\<close>

text \<open>
  \<open>core/UserFilterSet\<close>: a filter is one comma-separated string (\<open>fPattern\<close>); its entries are what
  \<open>SplitEntries\<close> reads from it. The lemmas show that the string operations act on that list of
  entries as a set-like list would, which is what the locale \<open>entry_list\<close> states.
\<close>

definition SplitEntries :: "muscle \<Rightarrow> string \<Rightarrow> string list" where
  "SplitEntries L fPattern =
     filter (\<lambda>e. e \<noteq> []) (map (Trimmed L) (Tokenize L fPattern '',''))"

definition SetPattern :: "muscle \<Rightarrow> string \<Rightarrow> string" where
  "SetPattern L pat = Trimmed L pat"

definition AddEntry :: "muscle \<Rightarrow> string \<Rightarrow> string \<Rightarrow> string" where
  "AddEntry L entry fPattern =
     (let trimmed = Trimmed L entry
      in if trimmed = [] then fPattern
         else if list_ex (\<lambda>e. EqualsIgnoreCase L e trimmed) (SplitEntries L fPattern) then fPattern
         else (if fPattern \<noteq> [] then fPattern @ '','' else fPattern) @ trimmed)"

text \<open>The loop of \<open>RemoveEntry\<close>: the string rebuilt so far and whether anything was dropped.\<close>

fun rebuild :: "muscle \<Rightarrow> string \<Rightarrow> string list \<Rightarrow> string \<Rightarrow> bool \<Rightarrow> bool \<times> string" where
  "rebuild L trimmed [] rebuilt removedAny = (removedAny, rebuilt)"
| "rebuild L trimmed (e # es) rebuilt removedAny =
     (if EqualsIgnoreCase L e trimmed then rebuild L trimmed es rebuilt True
      else rebuild L trimmed es ((if rebuilt \<noteq> [] then rebuilt @ '','' else rebuilt) @ e) removedAny)"

definition RemoveEntry :: "muscle \<Rightarrow> string \<Rightarrow> string \<Rightarrow> bool \<times> string" where
  "RemoveEntry L entry fPattern =
     rebuild L (Trimmed L entry) (SplitEntries L fPattern) [] False"

definition ClearFilter :: "string \<Rightarrow> string" where
  "ClearFilter fPattern = []"

fun match_entries :: "muscle \<Rightarrow> string list \<Rightarrow> string \<Rightarrow> string \<Rightarrow> bool" where
  "match_entries L [] userName sessionId = False"
| "match_entries L (entry # es) userName sessionId =
     (if entry = sessionId then True
      else if userName = [] then match_entries L es userName sessionId
      else if PatternMatch L (ToCaseInsensitive L entry) userName then True
      else match_entries L es userName sessionId)"

definition Matches :: "muscle \<Rightarrow> string \<Rightarrow> string \<Rightarrow> string \<Rightarrow> bool" where
  "Matches L fPattern userName sessionId =
     (if fPattern = [] then False else match_entries L (SplitEntries L fPattern) userName sessionId)"

subsection \<open>Entries of a pattern string\<close>

lemma SplitEntries_pieces:
  assumes "trim_law L"
  shows "SplitEntries L p = filter (\<lambda>e. e \<noteq> []) (map (Trimmed L) (pieces L (CHR '','') p))"
proof -
  have "filter (\<lambda>e. e \<noteq> []) (map (Trimmed L) ts) =
        filter (\<lambda>e. e \<noteq> []) (map (Trimmed L) (filter (\<lambda>t. t \<noteq> []) ts))" for ts
    using assms by (induction ts) auto
  then show ?thesis by (simp add: SplitEntries_def pieces_def)
qed

lemma SplitEntries_Nil [simp]: "trim_law L \<Longrightarrow> token_law L \<Longrightarrow> SplitEntries L [] = []"
  by (simp add: SplitEntries_pieces)

lemma SplitEntries_comma:
  "trim_law L \<Longrightarrow> token_law L \<Longrightarrow>
   SplitEntries L (s @ CHR '','' # t) = SplitEntries L s @ SplitEntries L t"
  by (simp add: SplitEntries_pieces pieces_append)

text \<open>A clean entry reads back as itself.\<close>

definition clean_entry :: "muscle \<Rightarrow> string \<Rightarrow> bool" where
  "clean_entry L e \<longleftrightarrow> e \<noteq> [] \<and> Trimmed L e = e \<and> CHR '','' \<notin> set e"

lemma SplitEntries_single:
  "trim_law L \<Longrightarrow> token_law L \<Longrightarrow> clean_entry L e \<Longrightarrow> SplitEntries L e = [e]"
  by (simp add: SplitEntries_pieces pieces_single clean_entry_def)

lemma SplitEntries_clean:
  assumes "trim_law L" "token_law L"
  shows "list_all (clean_entry L) (SplitEntries L p)"
proof -
  have "clean_entry L (Trimmed L t)" if "t \<in> set (pieces L (CHR '','') p)" "Trimmed L t \<noteq> []" for t
    using that pieces_no_sep [OF assms(2)] set_Trimmed [OF assms(1), of t] assms
    by (auto simp: clean_entry_def)
  then show ?thesis using assms(1) by (auto simp: SplitEntries_pieces list_all_iff)
qed

lemma SplitEntries_extend:
  assumes "trim_law L" "token_law L" "clean_entry L e"
  shows "SplitEntries L ((if p \<noteq> [] then p @ '','' else p) @ e) = SplitEntries L p @ [e]"
  using assms by (simp add: SplitEntries_comma SplitEntries_single)

lemma rebuild_fst: "fst (rebuild L t es r b) \<longleftrightarrow> b \<or> list_ex (\<lambda>e. EqualsIgnoreCase L e t) es"
  by (induction es arbitrary: r b) auto

lemma rebuild_entries:
  assumes "trim_law L" "token_law L"
  shows "list_all (clean_entry L) es \<Longrightarrow>
    SplitEntries L (snd (rebuild L t es r b)) =
    SplitEntries L r @ filter (\<lambda>e. \<not> EqualsIgnoreCase L e t) es"
proof (induction es arbitrary: r b)
  case (Cons e es)
  then show ?case
    using SplitEntries_extend [OF assms, of e r] by simp
qed simp

lemma match_entries_iff:
  "match_entries L es u s \<longleftrightarrow>
     (\<exists>e \<in> set es. e = s \<or> u \<noteq> [] \<and> PatternMatch L (ToCaseInsensitive L e) u)"
  by (induction es) auto

lemma Matches_iff:
  assumes "trim_law L" "token_law L"
  shows "Matches L p u s \<longleftrightarrow>
     (\<exists>e \<in> set (SplitEntries L p). e = s \<or> u \<noteq> [] \<and> PatternMatch L (ToCaseInsensitive L e) u)"
  using assms by (auto simp: Matches_def match_entries_iff)

subsection \<open>The interface of an entry list\<close>

text \<open>
  What the front-end relies on when it edits a filter one entry at a time: an abstract list of
  entries, an insertion that ignores what is already there up to an equivalence, and a removal of
  everything equivalent.
\<close>

locale entry_list =
  fixes entries :: "'p \<Rightarrow> 'e list"
    and add :: "'e \<Rightarrow> 'p \<Rightarrow> 'p"
    and remove :: "'e \<Rightarrow> 'p \<Rightarrow> bool \<times> 'p"
    and same :: "'e \<Rightarrow> 'e \<Rightarrow> bool"
    and valid :: "'e \<Rightarrow> bool"
  assumes same_refl: "same e e"
    and same_sym: "same e e' \<Longrightarrow> same e' e"
    and same_trans: "same e e' \<Longrightarrow> same e' e'' \<Longrightarrow> same e e''"
    and entries_add: "valid e \<Longrightarrow> entries (add e p) =
      (if \<exists>x \<in> set (entries p). same x e then entries p else entries p @ [e])"
    and entries_remove: "valid e \<Longrightarrow> entries (snd (remove e p)) = filter (\<lambda>x. \<not> same x e) (entries p)"
    and remove_found: "valid e \<Longrightarrow> fst (remove e p) \<longleftrightarrow> (\<exists>x \<in> set (entries p). same x e)"
begin

lemma add_twice: "valid e \<Longrightarrow> entries (add e (add e p)) = entries (add e p)"
  using same_refl by (auto simp: entries_add)

lemma add_remove_new:
  "valid e \<Longrightarrow> \<not> (\<exists>x \<in> set (entries p). same x e) \<Longrightarrow> entries (snd (remove e (add e p))) = entries p"
  using same_refl by (auto simp: entries_add entries_remove intro: filter_True)

lemma remove_gone: "valid e \<Longrightarrow> \<not> fst (remove e (snd (remove e p)))"
  by (auto simp: remove_found entries_remove)

lemma add_present: "valid e \<Longrightarrow> \<exists>x \<in> set (entries (add e p)). same x e"
  using same_refl by (auto simp: entries_add)

lemma add_keeps_distinct:
  assumes "valid e" "distinct (entries p)"
    and apart: "\<And>x y. x \<in> set (entries p) \<Longrightarrow> y \<in> set (entries p) \<Longrightarrow> same x y \<Longrightarrow> x = y"
  shows "distinct (entries (add e p)) \<and>
    (\<forall>x y. x \<in> set (entries (add e p)) \<longrightarrow> y \<in> set (entries (add e p)) \<longrightarrow> same x y \<longrightarrow> x = y)"
  using assms same_refl same_sym by (auto simp: entries_add)

end

text \<open>
  \<open>UserFilterSet\<close> is an entry list, with entries compared up to case. The MUSCLE laws the string
  operations rest on are part of what makes an entry valid, so the interpretation holds for every
  library parameter.
\<close>

abbreviation filter_entry :: "muscle \<Rightarrow> string \<Rightarrow> bool" where
  "filter_entry L e \<equiv> trim_law L \<and> token_law L \<and> ignore_case_law L \<and> clean_entry L e"

lemma AddEntry_entries:
  "filter_entry L e \<Longrightarrow> SplitEntries L (AddEntry L e p) =
     (if \<exists>x \<in> set (SplitEntries L p). ToLowerCase L x = ToLowerCase L e then SplitEntries L p
      else SplitEntries L p @ [e])"
  using SplitEntries_extend [of L e p]
  by (auto simp: AddEntry_def clean_entry_def ignore_case_law_def list_ex_iff)

lemma RemoveEntry_entries:
  "filter_entry L e \<Longrightarrow> SplitEntries L (snd (RemoveEntry L e p)) =
     filter (\<lambda>x. ToLowerCase L x \<noteq> ToLowerCase L e) (SplitEntries L p)"
  using SplitEntries_clean [of L p]
  by (simp add: RemoveEntry_def rebuild_entries ignore_case_law_def clean_entry_def)

lemma RemoveEntry_found:
  "filter_entry L e \<Longrightarrow> fst (RemoveEntry L e p) \<longleftrightarrow>
     (\<exists>x \<in> set (SplitEntries L p). ToLowerCase L x = ToLowerCase L e)"
  by (simp add: RemoveEntry_def rebuild_fst ignore_case_law_def clean_entry_def list_ex_iff)

interpretation uf: entry_list "SplitEntries L" "AddEntry L" "RemoveEntry L"
    "\<lambda>a b. ToLowerCase L a = ToLowerCase L b" "filter_entry L" for L
  by unfold_locales (simp_all add: AddEntry_entries RemoveEntry_entries RemoveEntry_found)

subsection \<open>Properties\<close>

text \<open>
  Adding an entry makes the filter match exactly the users it matched before and those the
  new entry names, by session ID or by its pattern; an entry already there up to case changes
  nothing, and removing a newly added entry gives back a filter that matches the same users.
\<close>

theorem filter_add_remove:
  assumes "filter_entry L e"
  shows "(Matches L (AddEntry L e p) u s \<longleftrightarrow> Matches L p u s \<or>
      (\<not> (\<exists>x \<in> set (SplitEntries L p). ToLowerCase L x = ToLowerCase L e) \<and>
       (e = s \<or> u \<noteq> [] \<and> PatternMatch L (ToCaseInsensitive L e) u))) \<and>
    (\<not> (\<exists>x \<in> set (SplitEntries L p). ToLowerCase L x = ToLowerCase L e) \<longrightarrow>
      Matches L (snd (RemoveEntry L e (AddEntry L e p))) u s = Matches L p u s)"
  using assms uf.add_remove_new [OF assms, of p] by (auto simp: Matches_iff AddEntry_entries)

theorem filter_add_remove_witness:
  "Matches ref_muscle (AddEntry ref_muscle ''bob*'' ''alice, 42'') ''bobby'' ''7'' \<and>
   \<not> Matches ref_muscle (snd (RemoveEntry ref_muscle ''bob*''
        (AddEntry ref_muscle ''bob*'' ''alice, 42''))) ''bobby'' ''7''"
proof -
  have e: "filter_entry ref_muscle ''bob*''"
  proof -
    have "clean_entry ref_muscle ''bob*''" by code_simp
    then show ?thesis by simp
  qed
  have new: "\<not> (\<exists>x \<in> set (SplitEntries ref_muscle ''alice, 42'').
      ToLowerCase ref_muscle x = ToLowerCase ref_muscle ''bob*'')" by code_simp
  have old: "\<not> Matches ref_muscle ''alice, 42'' ''bobby'' ''7''" by code_simp
  have hit: "PatternMatch ref_muscle (ToCaseInsensitive ref_muscle ''bob*'') ''bobby''" by code_simp
  show ?thesis
    using filter_add_remove [OF e, of "''alice, 42''" "''bobby''" "''7''"] new old hit by blast
qed

end
