(* ===== verification/Users.thy ===== *)
theory Users
  imports MuscleLib RefMuscle
begin

section \<open>Users known on one server\<close>

text \<open>
  \<open>core/UserRecord.h\<close> and \<open>core/UserRegistry\<close>: the record that is filled in piece by piece as
  node updates arrive, the table of records keyed by session ID, and the resolution of what the
  user typed to session IDs.
\<close>

record UserRecord =
  u_sessionId :: string
  u_userName :: string
  u_hostName :: string
  u_userStatus :: string
  u_clientVersion :: string
  u_bandwidthLabel :: string
  u_port :: int32
  u_installId :: uint64
  u_fileCount :: uint32
  u_bandwidthBitsPerSecond :: uint32
  u_uploadsCurrent :: uint32
  u_uploadsMax :: uint32
  u_isBot :: bool
  u_isFirewalled :: bool
  u_supportsPartialHashing :: bool
  u_supportsSsl :: bool
  u_supportsRanges :: bool

definition empty_user :: UserRecord where
  "empty_user =
    \<lparr> u_sessionId = [], u_userName = [], u_hostName = [], u_userStatus = [], u_clientVersion = [],
      u_bandwidthLabel = [], u_port = 0, u_installId = 0, u_fileCount = 0,
      u_bandwidthBitsPerSecond = 0, u_uploadsCurrent = 0, u_uploadsMax = 0, u_isBot = False,
      u_isFirewalled = False, u_supportsPartialHashing = False, u_supportsSsl = False,
      u_supportsRanges = False \<rparr>"

definition GetDisplayName :: "UserRecord \<Rightarrow> string" where
  "GetDisplayName user = (if u_userName user \<noteq> [] then u_userName user else u_sessionId user)"

type_synonym registry = "(string \<times> UserRecord) list"

text \<open>
  \<open>GetOrCreateUser\<close> returns a pointer into the table; the model returns the table that has the
  record, and the caller's writes through the pointer are \<open>UpdateUser\<close>.
\<close>

definition GetOrCreateUser :: "string \<Rightarrow> registry \<Rightarrow> bool \<times> registry" where
  "GetOrCreateUser sid fUsers =
     (case map_of fUsers sid of
        Some _ \<Rightarrow> (False, fUsers)
      | None \<Rightarrow> (True, ht_put sid (empty_user\<lparr>u_sessionId := sid\<rparr>) fUsers))"

definition UpdateUser :: "string \<Rightarrow> (UserRecord \<Rightarrow> UserRecord) \<Rightarrow> registry \<Rightarrow> registry" where
  "UpdateUser sid f fUsers =
     (case map_of fUsers sid of Some u \<Rightarrow> ht_put sid (f u) fUsers | None \<Rightarrow> fUsers)"

definition FindUser :: "registry \<Rightarrow> string \<Rightarrow> UserRecord option" where
  "FindUser fUsers sid = map_of fUsers sid"

definition RemoveUser :: "string \<Rightarrow> registry \<Rightarrow> UserRecord option \<times> registry" where
  "RemoveUser sid fUsers =
     (case map_of fUsers sid of
        None \<Rightarrow> (None, fUsers)
      | Some user \<Rightarrow> (Some user, ht_remove sid fUsers))"

definition ClearUsers :: "registry \<Rightarrow> registry" where
  "ClearUsers fUsers = []"

definition GetUserCount :: "registry \<Rightarrow> nat" where
  "GetUserCount fUsers = length fUsers"

definition GetDisplayNameForSession :: "registry \<Rightarrow> string \<Rightarrow> string" where
  "GetDisplayNameForSession fUsers sid =
     (case map_of fUsers sid of None \<Rightarrow> sid | Some user \<Rightarrow> GetDisplayName user)"

definition ResolveToSessionIds :: "muscle \<Rightarrow> registry \<Rightarrow> string \<Rightarrow> string list" where
  "ResolveToSessionIds L fUsers nameOrSessionId =
     (if nameOrSessionId = [] then []
      else if map_of fUsers nameOrSessionId \<noteq> None then [nameOrSessionId]
      else let matches = map fst (filter (\<lambda>(k, u). u_userName u = nameOrSessionId) fUsers)
           in if matches \<noteq> [] then matches
              else if index_of (CHR ''*'') nameOrSessionId < 0 \<and> index_of (CHR ''?'') nameOrSessionId < 0
                then matches
              else map fst (filter (\<lambda>(k, u). PatternMatch L nameOrSessionId (u_userName u)) fUsers))"

subsection \<open>The interface the connection relies on\<close>

text \<open>
  A session registry: every record is filed under its own session ID, a first mention creates a
  blank record, an update touches one record, a removal forgets it.
\<close>

locale session_registry =
  fixes find_user :: "'r \<Rightarrow> string \<Rightarrow> 'u option"
    and create :: "string \<Rightarrow> 'r \<Rightarrow> bool \<times> 'r"
    and update :: "string \<Rightarrow> ('u \<Rightarrow> 'u) \<Rightarrow> 'r \<Rightarrow> 'r"
    and drop_user :: "string \<Rightarrow> 'r \<Rightarrow> 'u option \<times> 'r"
    and blank :: "string \<Rightarrow> 'u"
    and ident :: "'u \<Rightarrow> string"
    and okr :: "'r \<Rightarrow> bool"
  assumes find_create: "find_user (snd (create k r)) k' =
      (if k' = k \<and> find_user r k = None then Some (blank k) else find_user r k')"
    and create_new: "fst (create k r) \<longleftrightarrow> find_user r k = None"
    and find_update: "find_user (update k f r) k' =
      (if k' = k then map_option f (find_user r k) else find_user r k')"
    and find_drop: "find_user (snd (drop_user k r)) k' = (if k' = k then None else find_user r k')"
    and drop_result: "fst (drop_user k r) = find_user r k"
    and ident_blank: "ident (blank k) = k"
    and okr_ops: "okr r \<Longrightarrow> okr (snd (create k r)) \<and> okr (update k f r) \<and> okr (snd (drop_user k r))"
begin

definition filed :: "'r \<Rightarrow> bool" where
  "filed r \<longleftrightarrow> okr r \<and> (\<forall>k u. find_user r k = Some u \<longrightarrow> ident u = k)"

lemma filed_create: "filed r \<Longrightarrow> filed (snd (create k r))"
  using okr_ops by (auto simp: filed_def find_create ident_blank split: if_splits)

lemma filed_update:
  "filed r \<Longrightarrow> (\<And>u. ident (f u) = ident u) \<Longrightarrow> filed (update k f r)"
  using okr_ops by (auto simp: filed_def find_update split: if_splits)

lemma filed_drop: "filed r \<Longrightarrow> filed (snd (drop_user k r))"
  using okr_ops by (auto simp: filed_def find_drop)

lemma known_after_update:
  "dom (find_user (update k f (snd (create k r)))) = insert k (dom (find_user r))"
  by (auto simp: find_update find_create dom_def split: if_splits)

lemma known_after_drop: "dom (find_user (snd (drop_user k r))) = dom (find_user r) - {k}"
  by (auto simp: find_drop dom_def split: if_splits)

lemma find_after_update:
  "find_user (update k f (snd (create k r))) k' =
     (if k' = k then Some (f (case find_user r k of None \<Rightarrow> blank k | Some u \<Rightarrow> u))
      else find_user r k')"
  by (auto simp: find_update find_create split: option.split)

end

interpretation reg: session_registry FindUser GetOrCreateUser UpdateUser RemoveUser
    "\<lambda>k. empty_user\<lparr>u_sessionId := k\<rparr>" u_sessionId ht_ok
  by unfold_locales
    (auto simp: FindUser_def GetOrCreateUser_def UpdateUser_def RemoveUser_def split: option.split)

lemma FindUser_Nil [simp]: "FindUser [] sid = None"
  by (simp add: FindUser_def)

lemma filed_Nil [simp]: "reg.filed []"
  by (simp add: reg.filed_def)

subsection \<open>Properties\<close>

lemma distinct_keys_filter: "ht_ok t \<Longrightarrow> distinct (map fst (filter P t))"
  by (simp add: ht_ok_def distinct_map_filter)

text \<open>
  Resolving what the user typed yields each session at most once and only sessions that are
  known; a known session ID resolves to itself whatever the names are; and a word that is no
  session ID, nobody's exact name and has no wildcard resolves to nobody.
\<close>

theorem resolve_sound:
  assumes "ht_ok reg"
  shows "distinct (ResolveToSessionIds L reg q) \<and>
    set (ResolveToSessionIds L reg q) \<subseteq> {k. FindUser reg k \<noteq> None} \<and>
    (q \<noteq> [] \<and> FindUser reg q \<noteq> None \<longrightarrow> ResolveToSessionIds L reg q = [q]) \<and>
    (FindUser reg q = None \<and> (\<forall>k u. FindUser reg k = Some u \<longrightarrow> u_userName u \<noteq> q) \<and>
     CHR ''*'' \<notin> set q \<and> CHR ''?'' \<notin> set q \<longrightarrow> ResolveToSessionIds L reg q = [])"
  using assms distinct_keys_filter [OF assms]
  by (auto simp: ResolveToSessionIds_def FindUser_def Let_def ht_ok_mem filter_empty_conv)

theorem resolve_sound_witness:
  "ResolveToSessionIds ref_muscle
     [(''1'', empty_user\<lparr>u_sessionId := ''1'', u_userName := ''2''\<rparr>), (''2'', empty_user\<lparr>u_sessionId := ''2''\<rparr>)]
     ''2'' = [''2'']"
proof -
  let ?r = "[(''1'', empty_user\<lparr>u_sessionId := ''1'', u_userName := ''2''\<rparr>),
             (''2'', empty_user\<lparr>u_sessionId := ''2''\<rparr>)]"
  have "ht_ok ?r" "FindUser ?r ''2'' \<noteq> None" by (simp_all add: ht_ok_def FindUser_def)
  then show ?thesis using resolve_sound [of ?r ref_muscle "''2''"] by blast
qed

end
