(* ===== verification/Share.thy ===== *)
theory Share
  imports MuscleLib RefMuscle
begin

section \<open>Finding what to share: MIME types and the folder scan\<close>

text \<open>
  \<open>core/MimeTypeGuesser\<close> and \<open>core/ShareScanner\<close>. The operating system appears as parameters:
  what \<open>readdir\<close> and \<open>stat\<close> answer, the lines \<open>fgets\<close> reads from the freedesktop glob database, and
  when the other thread raises the abort flag. The scanning thread is modelled twice: as the
  function that walks the tree, which records the critical sections it executes, and as a step
  relation in which those critical sections interleave with the owner's calls.
\<close>

subsection \<open>MIME types\<close>

record MimeTypeGuesser =
  fTypesByExtension :: "(string \<times> string) list"
  fIsLoaded :: bool

definition new_guesser :: MimeTypeGuesser where
  "new_guesser = \<lparr> fTypesByExtension = [], fIsLoaded = False \<rparr>"

definition kBuiltInTypes :: "string list" where
  "kBuiltInTypes = [
    ''txt'', ''text/plain'', ''html'', ''text/html'',
    ''css'', ''text/css'', ''csv'', ''text/csv'',
    ''xml'', ''application/xml'', ''json'', ''application/json'',
    ''pdf'', ''application/pdf'', ''zip'', ''application/zip'',
    ''gz'', ''application/gzip'', ''bz2'', ''application/x-bzip2'',
    ''xz'', ''application/x-xz'', ''tar'', ''application/x-tar'',
    ''7z'', ''application/x-7z-compressed'', ''rar'', ''application/vnd.rar'',
    ''png'', ''image/png'', ''jpg'', ''image/jpeg'',
    ''jpeg'', ''image/jpeg'', ''gif'', ''image/gif'',
    ''bmp'', ''image/bmp'', ''svg'', ''image/svg+xml'',
    ''webp'', ''image/webp'', ''ico'', ''image/vnd.microsoft.icon'',
    ''mp3'', ''audio/mpeg'', ''ogg'', ''audio/ogg'',
    ''flac'', ''audio/flac'', ''wav'', ''audio/x-wav'',
    ''m4a'', ''audio/mp4'', ''opus'', ''audio/opus'',
    ''mp4'', ''video/mp4'', ''mkv'', ''video/x-matroska'',
    ''avi'', ''video/x-msvideo'', ''webm'', ''video/webm'',
    ''mov'', ''video/quicktime'', ''iso'', ''application/vnd.efi.iso'',
    ''c'', ''text/x-csrc'', ''h'', ''text/x-chdr'',
    ''cpp'', ''text/x-c++src'', ''hpp'', ''text/x-c++hdr'',
    ''py'', ''text/x-python'', ''sh'', ''application/x-shellscript'',
    ''md'', ''text/markdown'', ''hpkg'', ''application/x-vnd.haiku-package'']"

fun load_pairs :: "string list \<Rightarrow> (string \<times> string) list \<Rightarrow> (string \<times> string) list" where
  "load_pairs (ext # ty # rest) types = load_pairs rest (ht_put ext ty types)"
| "load_pairs _ types = types"

definition LoadBuiltInTypes :: "(string \<times> string) list \<Rightarrow> (string \<times> string) list" where
  "LoadBuiltInTypes types = load_pairs kBuiltInTypes types"

text \<open>One line \<open>type:glob\<close> of the database; everything but a plain \<open>*.ext\<close> glob is skipped.\<close>

definition LoadGlobLine :: "muscle \<Rightarrow> string \<Rightarrow> (string \<times> string) list \<Rightarrow> (string \<times> string) list" where
  "LoadGlobLine L line types =
     (if starts_with line ''#'' then types
      else let entry = Trimmed L line; colonIndex = index_of (CHR '':'') entry
           in if colonIndex \<le> 0 then types
              else let mimeType = substring entry 0 colonIndex;
                       glob = substring_from entry (colonIndex + 1)
                   in if \<not> starts_with glob ''*.'' \<or> length glob < 3 then types
                      else let extension = ToLowerCase L (substring_from glob 2)
                           in if 0 \<le> index_of (CHR ''*'') extension \<or>
                                 0 \<le> index_of (CHR 0x5B) extension \<or>
                                 0 \<le> index_of (CHR ''?'') extension
                              then types else ht_put extension mimeType types)"

definition LoadSystemDatabase ::
  "muscle \<Rightarrow> string list option \<Rightarrow> (string \<times> string) list \<Rightarrow> bool \<times> (string \<times> string) list" where
  "LoadSystemDatabase L globs types =
     (case globs of None \<Rightarrow> (False, types) | Some ls \<Rightarrow> (True, fold (LoadGlobLine L) ls types))"

definition EnsureLoaded :: "muscle \<Rightarrow> string list option \<Rightarrow> MimeTypeGuesser \<Rightarrow> MimeTypeGuesser" where
  "EnsureLoaded L globs g =
     (if fIsLoaded g then g
      else \<lparr> fTypesByExtension = snd (LoadSystemDatabase L globs (LoadBuiltInTypes (fTypesByExtension g))),
             fIsLoaded = True \<rparr>)"

definition GuessMimeType ::
  "muscle \<Rightarrow> string list option \<Rightarrow> string \<Rightarrow> MimeTypeGuesser \<Rightarrow> string \<times> MimeTypeGuesser" where
  "GuessMimeType L globs fileName g =
     (let dotIndex = last_index_of (CHR ''.'') fileName
      in if dotIndex < 0 \<or> dotIndex = int (length fileName) - 1 then ([], g)
         else let g' = EnsureLoaded L globs g;
                  extension = ToLowerCase L (substring_from fileName (dotIndex + 1))
              in ((case map_of (fTypesByExtension g') extension of Some t \<Rightarrow> t | None \<Rightarrow> []), g'))"

text \<open>Loading lazily is not observable: a guesser answers as one that was loaded at the start.\<close>

definition guesser_ok :: "muscle \<Rightarrow> string list option \<Rightarrow> MimeTypeGuesser \<Rightarrow> bool" where
  "guesser_ok L globs g \<longleftrightarrow> g = new_guesser \<or> g = EnsureLoaded L globs new_guesser"

lemma guesser_ok_guess: "guesser_ok L globs g \<Longrightarrow> guesser_ok L globs (snd (GuessMimeType L globs n g))"
  by (auto simp: guesser_ok_def GuessMimeType_def Let_def EnsureLoaded_def)

lemma guess_stable:
  "guesser_ok L globs g \<Longrightarrow> fst (GuessMimeType L globs n g) = fst (GuessMimeType L globs n new_guesser)"
  by (auto simp: guesser_ok_def GuessMimeType_def Let_def EnsureLoaded_def new_guesser_def)

subsection \<open>The scan\<close>

record SharedFile =
  sf_fileName :: string
  sf_relativePath :: string
  sf_absolutePath :: string
  sf_kind :: string
  sf_fileSize :: int64
  sf_modificationTime :: int32

datatype file_stat = StatDirectory | StatRegular int64 int64 | StatOther

record scan_env =
  readdir :: "string \<Rightarrow> string list option"
  stat_path :: "string \<Rightarrow> file_stat option"
  abort_flag :: "nat \<Rightarrow> bool"
  globs :: "string list option"

definition kMaximumScanDepth :: nat where
  "kMaximumScanDepth = 32"

text \<open>The critical sections the thread executes, in order.\<close>

datatype scan_action = Claim string | CountDuplicate | AddPending SharedFile | SetFinished

text \<open>
  The thread's state: names claimed, its guesser, how often it has read the abort flag, and the
  critical sections executed so far.
\<close>

record scan =
  claimed :: "string list"
  guesser :: MimeTypeGuesser
  flag_reads :: nat
  actions :: "scan_action list"

definition start_scan_state :: "MimeTypeGuesser \<Rightarrow> scan" where
  "start_scan_state g = \<lparr> claimed = [], guesser = g, flag_reads = 0, actions = [] \<rparr>"

definition read_flag :: "scan_env \<Rightarrow> scan \<Rightarrow> bool \<times> scan" where
  "read_flag E s = (abort_flag E (flag_reads s), s\<lparr>flag_reads := Suc (flag_reads s)\<rparr>)"

text \<open>A regular file: claim its leaf name or count the duplicate, then build and add its record.\<close>

definition ScanFile ::
  "muscle \<Rightarrow> scan_env \<Rightarrow> string \<Rightarrow> string \<Rightarrow> string \<Rightarrow> int64 \<Rightarrow> int64 \<Rightarrow> scan \<Rightarrow> scan" where
  "ScanFile L E entryName relativePath fullPath st_size st_mtime s =
     (if entryName \<in> set (claimed s) then s\<lparr>actions := actions s @ [CountDuplicate]\<rparr>
      else let (kind, g) = GuessMimeType L (globs E) entryName (guesser s);
               shared = \<lparr> sf_fileName = entryName, sf_relativePath = relativePath,
                          sf_absolutePath = fullPath, sf_kind = kind, sf_fileSize = st_size,
                          sf_modificationTime = ucast st_mtime \<rparr>
           in s\<lparr>claimed := claimed s @ [entryName], guesser := g,
                actions := actions s @ [Claim entryName, AddPending shared]\<rparr>)"

text \<open>
  The walk. The first argument is how many levels may still be opened: \<open>kMaximumScanDepth + 1\<close> at
  the share root (depth 0), none once the depth exceeds the maximum.
\<close>

function (sequential) ScanDirectory :: "muscle \<Rightarrow> scan_env \<Rightarrow> nat \<Rightarrow> string \<Rightarrow> string \<Rightarrow> scan \<Rightarrow> scan"
  and ScanEntries :: "muscle \<Rightarrow> scan_env \<Rightarrow> nat \<Rightarrow> string \<Rightarrow> string \<Rightarrow> string list \<Rightarrow> scan \<Rightarrow> scan" where
  "ScanDirectory L E 0 directoryPath relativePath s = s"
| "ScanDirectory L E (Suc levels) directoryPath relativePath s =
     (case readdir E directoryPath of
        None \<Rightarrow> s
      | Some es \<Rightarrow> ScanEntries L E levels directoryPath relativePath es s)"
| "ScanEntries L E levels directoryPath relativePath [] s = s"
| "ScanEntries L E levels directoryPath relativePath (entryName # es) s =
     (case read_flag E s of (shouldAbort, s1) \<Rightarrow>
        if shouldAbort then s1
        else if entryName = ''.'' \<or> entryName = ''..'' then
          ScanEntries L E levels directoryPath relativePath es s1
        else if starts_with entryName ''.'' then
          ScanEntries L E levels directoryPath relativePath es s1
        else
          (case stat_path E (directoryPath @ ''/'' @ entryName) of
             None \<Rightarrow> ScanEntries L E levels directoryPath relativePath es s1
           | Some StatDirectory \<Rightarrow>
               ScanEntries L E levels directoryPath relativePath es
                 (ScanDirectory L E levels (directoryPath @ ''/'' @ entryName)
                    (if relativePath = [] then entryName else relativePath @ ''/'' @ entryName) s1)
           | Some StatOther \<Rightarrow> ScanEntries L E levels directoryPath relativePath es s1
           | Some (StatRegular st_size st_mtime) \<Rightarrow>
               ScanEntries L E levels directoryPath relativePath es
                 (ScanFile L E entryName relativePath (directoryPath @ ''/'' @ entryName)
                    st_size st_mtime s1)))"
  by pat_completeness auto
termination
  by (relation "measures [case_sum (\<lambda>(L, E, n, _). n) (\<lambda>(L, E, n, _). n),
        case_sum (\<lambda>_. 0) (\<lambda>(L, E, n, p, r, es, s). Suc (length es))]") auto

definition ScanThread :: "muscle \<Rightarrow> scan_env \<Rightarrow> string \<Rightarrow> MimeTypeGuesser \<Rightarrow> scan" where
  "ScanThread L E fShareDirectory g =
     (let s = ScanDirectory L E (Suc kMaximumScanDepth) fShareDirectory [] (start_scan_state g)
      in s\<lparr>actions := actions s @ [SetFinished]\<rparr>)"

subsubsection \<open>What a walk records\<close>

fun found_files :: "scan_action list \<Rightarrow> SharedFile list" where
  "found_files [] = []"
| "found_files (AddPending f # as) = f # found_files as"
| "found_files (_ # as) = found_files as"

fun duplicates :: "scan_action list \<Rightarrow> nat" where
  "duplicates [] = 0"
| "duplicates (CountDuplicate # as) = Suc (duplicates as)"
| "duplicates (_ # as) = duplicates as"

fun claims :: "scan_action list \<Rightarrow> string list" where
  "claims [] = []"
| "claims (Claim n # as) = n # claims as"
| "claims (_ # as) = claims as"

lemma found_files_append [simp]: "found_files (as @ bs) = found_files as @ found_files bs"
  by (induction as rule: found_files.induct) auto

lemma duplicates_append [simp]: "duplicates (as @ bs) = duplicates as + duplicates bs"
  by (induction as rule: duplicates.induct) auto

lemma claims_append [simp]: "claims (as @ bs) = claims as @ claims bs"
  by (induction as rule: claims.induct) auto

text \<open>\<open>readdir\<close> yields non-empty names without a slash.\<close>

definition readdir_law :: "scan_env \<Rightarrow> bool" where
  "readdir_law E \<longleftrightarrow> (\<forall>p es n. readdir E p = Some es \<longrightarrow> n \<in> set es \<longrightarrow> is_clause n)"

text \<open>
  A record that describes a file below the share root: it names the folders on the way, none of
  them (nor the file) hidden and not more of them than the depth cap, and carries what \<open>stat\<close> said.
\<close>

definition visible :: "string \<Rightarrow> bool" where
  "visible n \<longleftrightarrow> is_clause n \<and> \<not> starts_with n ''.''"

definition shared_from :: "scan_env \<Rightarrow> string \<Rightarrow> SharedFile \<Rightarrow> bool" where
  "shared_from E root f \<longleftrightarrow> (\<exists>folders st_mtime.
     list_all visible (folders @ [sf_fileName f]) \<and> length folders \<le> kMaximumScanDepth \<and>
     sf_relativePath f = drop 1 (make_path folders) \<and>
     sf_absolutePath f = root @ make_path (folders @ [sf_fileName f]) \<and>
     stat_path E (sf_absolutePath f) = Some (StatRegular (sf_fileSize f) st_mtime) \<and>
     sf_modificationTime f = ucast st_mtime)"

definition walk_ok :: "scan_env \<Rightarrow> string \<Rightarrow> scan \<Rightarrow> bool" where
  "walk_ok E root s \<longleftrightarrow>
     claims (actions s) = claimed s \<and> map sf_fileName (found_files (actions s)) = claimed s \<and>
     distinct (claimed s) \<and> list_all (shared_from E root) (found_files (actions s)) \<and>
     SetFinished \<notin> set (actions s)"

lemma walk_ok_start [simp]: "walk_ok E root (start_scan_state g)"
  by (simp add: walk_ok_def start_scan_state_def)

lemma walk_ok_flag [simp]: "walk_ok E root (s\<lparr>flag_reads := n\<rparr>) = walk_ok E root s"
  by (simp add: walk_ok_def)

lemma walk_ok_file:
  assumes "walk_ok E root s" "list_all visible (folders @ [entryName])"
    "length folders \<le> kMaximumScanDepth"
    "stat_path E (root @ make_path (folders @ [entryName])) = Some (StatRegular st_size st_mtime)"
  shows "walk_ok E root (ScanFile L E entryName (drop 1 (make_path folders))
           (root @ make_path (folders @ [entryName])) st_size st_mtime s)"
  using assms unfolding walk_ok_def ScanFile_def shared_from_def
  by (auto simp: Let_def split: prod.split)

lemma make_path_snoc: "make_path (cs @ [c]) = make_path cs @ ''/'' @ c"
  by (simp add: make_path_def)

lemma relative_child:
  "list_all visible cs \<Longrightarrow>
   (if drop 1 (make_path cs) = [] then c else drop 1 (make_path cs) @ ''/'' @ c) =
   drop 1 (make_path (cs @ [c]))"
  by (cases cs) (auto simp: make_path_snoc visible_def is_clause_def)

lemma walk_ok_walk:
  assumes "readdir_law E"
  shows "list_all visible folders \<Longrightarrow> length folders + levels = Suc kMaximumScanDepth \<Longrightarrow>
      dir = root @ make_path folders \<Longrightarrow> rel = drop 1 (make_path folders) \<Longrightarrow>
      walk_ok E root s \<Longrightarrow> walk_ok E root (ScanDirectory L E levels dir rel s)"
    and "list_all visible folders \<Longrightarrow> length folders + levels = kMaximumScanDepth \<Longrightarrow>
      dir = root @ make_path folders \<Longrightarrow> rel = drop 1 (make_path folders) \<Longrightarrow>
      list_all is_clause es \<Longrightarrow>
      walk_ok E root s \<Longrightarrow> walk_ok E root (ScanEntries L E levels dir rel es s)"
  using assms
proof (induction L E levels dir rel s and L E levels dir rel es s
    arbitrary: folders and folders rule: ScanDirectory_ScanEntries.induct)
  case (2 L E levels dir rel s)
  show ?case
  proof (cases "readdir E dir")
    case (Some es)
    then have "list_all is_clause es"
      using "2.prems" by (auto simp: readdir_law_def list_all_iff)
    with Some show ?thesis using "2.IH" [OF Some] "2.prems" by simp
  qed (use "2.prems" in simp)
next
  case (4 L E levels dir rel entryName es s)
  define s1 where "s1 = s\<lparr>flag_reads := Suc (flag_reads s)\<rparr>"
  define full where "full = dir @ ''/'' @ entryName"
  have full: "full = root @ make_path (folders @ [entryName])"
    using "4.prems" by (simp add: full_def make_path_snoc)
  have flag: "read_flag E s = (abort_flag E (flag_reads s), s1)"
    by (simp add: read_flag_def s1_def)
  have s1: "walk_ok E root s1" using "4.prems" by (simp add: s1_def)
  have es: "list_all is_clause es" "is_clause entryName" using "4.prems" by simp_all
  note IH = "4.IH" [OF flag [symmetric]]
  consider "abort_flag E (flag_reads s)" | "entryName = ''.'' \<or> entryName = ''..'' \<or> starts_with entryName ''.''"
    "\<not> abort_flag E (flag_reads s)"
    | "\<not> abort_flag E (flag_reads s)" "\<not> starts_with entryName ''.''" by blast
  then show ?case
  proof cases
    case 1
    then show ?thesis using flag s1 by simp
  next
    case 2
    have "walk_ok E root (ScanEntries L E levels dir rel es s1)"
      using 2 IH(1) IH(2) es s1 "4.prems" by (cases "entryName = ''.'' \<or> entryName = ''..''") auto
    then show ?thesis using 2 flag by auto
  next
    case 3
    then have vis: "list_all visible (folders @ [entryName])"
      using es "4.prems" by (simp add: visible_def [of entryName])
    have dots: "\<not> (entryName = ''.'' \<or> entryName = ''..'')" using 3 by auto
    show ?thesis
    proof (cases "stat_path E full")
      case None
      then show ?thesis using 3 dots flag IH(3) es s1 "4.prems" by (simp add: full_def)
    next
      case (Some st)
      show ?thesis
      proof (cases st)
        case StatDirectory
        have child: "(if rel = [] then entryName else rel @ ''/'' @ entryName) =
            drop 1 (make_path (folders @ [entryName]))"
          unfolding "4.prems"(4) by (rule relative_child [OF "4.prems"(1)])
        have "walk_ok E root (ScanDirectory L E levels full
                (if rel = [] then entryName else rel @ ''/'' @ entryName) s1)"
          unfolding full_def
        proof (rule IH(4) [OF 3(1) dots 3(2) _ refl vis])
          show "stat_path E (dir @ ''/'' @ entryName) = Some StatDirectory"
            using Some StatDirectory by (simp add: full_def)
          show "dir @ ''/'' @ entryName = root @ make_path (folders @ [entryName])"
            using full by (simp add: full_def)
        qed (use child s1 "4.prems" in simp_all)
        from IH(5) [OF 3(1) dots 3(2) _ refl "4.prems"(1-4) es(1) this [unfolded full_def]] "4.prems"(7)
        have "walk_ok E root (ScanEntries L E levels dir rel es
            (ScanDirectory L E levels full
              (if rel = [] then entryName else rel @ ''/'' @ entryName) s1))"
          using Some StatDirectory unfolding full_def by blast
        then show ?thesis
          using 3 dots flag Some StatDirectory by (simp add: full_def del: append.simps)
      next
        case (StatRegular st_size st_mtime)
        have "walk_ok E root (ScanFile L E entryName rel full st_size st_mtime s1)"
          using walk_ok_file [OF s1 vis] Some StatRegular full "4.prems" by simp
        then show ?thesis
          using 3 dots flag IH(6) es Some StatRegular "4.prems" by (simp add: full_def)
      next
        case StatOther
        then show ?thesis using 3 dots flag IH(7) es Some s1 "4.prems" by (simp add: full_def)
      qed
    qed
  qed
qed simp_all

subsection \<open>The scanner as its owner sees it\<close>

text \<open>
  \<open>scan_program\<close> stands for the background thread: the critical sections it still has to execute.
  The walk runs under \<open>E\<close>, whose \<open>abort_flag\<close> says which of its readings find the flag raised;
  \<open>pthread_join\<close> is executing the rest of the program.
\<close>

record ShareScanner =
  fShareDirectory :: string
  fMimeTypes :: MimeTypeGuesser
  fPendingFiles :: "SharedFile list"
  fClaimedNames :: "string list"
  fDuplicateNameCount :: uint32
  fThreadRunning :: bool
  fScanFinished :: bool
  fShouldAbort :: bool
  scan_program :: "scan_action list"

definition new_scanner :: ShareScanner where
  "new_scanner =
    \<lparr> fShareDirectory = [], fMimeTypes = new_guesser, fPendingFiles = [], fClaimedNames = [],
      fDuplicateNameCount = 0, fThreadRunning = False, fScanFinished = False,
      fShouldAbort = False, scan_program = [] \<rparr>"

fun exec_action :: "scan_action \<Rightarrow> ShareScanner \<Rightarrow> ShareScanner" where
  "exec_action (Claim n) sc = sc\<lparr>fClaimedNames := fClaimedNames sc @ [n]\<rparr>"
| "exec_action CountDuplicate sc = sc\<lparr>fDuplicateNameCount := fDuplicateNameCount sc + 1\<rparr>"
| "exec_action (AddPending f) sc = sc\<lparr>fPendingFiles := fPendingFiles sc @ [f]\<rparr>"
| "exec_action SetFinished sc = sc\<lparr>fScanFinished := True\<rparr>"

definition join_thread :: "ShareScanner \<Rightarrow> ShareScanner" where
  "join_thread sc = fold exec_action (scan_program sc) (sc\<lparr>scan_program := []\<rparr>)"

definition SetShareDirectory :: "string \<Rightarrow> ShareScanner \<Rightarrow> ShareScanner" where
  "SetShareDirectory shareDirectory sc = sc\<lparr>fShareDirectory := shareDirectory\<rparr>"

definition StopScan :: "ShareScanner \<Rightarrow> ShareScanner" where
  "StopScan sc =
     (if \<not> fThreadRunning sc then sc
      else (join_thread (sc\<lparr>fShouldAbort := True\<rparr>))\<lparr>fThreadRunning := False\<rparr>)"

text \<open>\<open>created\<close> says whether \<open>pthread_create\<close> succeeds.\<close>

definition StartScan :: "muscle \<Rightarrow> scan_env \<Rightarrow> bool \<Rightarrow> ShareScanner \<Rightarrow> ShareScanner" where
  "StartScan L E created sc =
     (let sc1 = StopScan sc
      in if fShareDirectory sc1 = [] then sc1
         else let sc2 = sc1\<lparr>fPendingFiles := [], fClaimedNames := [], fDuplicateNameCount := 0,
                            fScanFinished := False, fShouldAbort := False\<rparr>
              in if \<not> created then sc2
                 else let walk = ScanThread L E (fShareDirectory sc2) (fMimeTypes sc2)
                      in sc2\<lparr>fThreadRunning := True, scan_program := actions walk,
                             fMimeTypes := guesser walk\<rparr>)"

definition IsScanning :: "ShareScanner \<Rightarrow> bool" where
  "IsScanning sc = (if \<not> fThreadRunning sc then False else \<not> fScanFinished sc)"

definition TakeDiscoveredFiles :: "ShareScanner \<Rightarrow> SharedFile list \<times> ShareScanner" where
  "TakeDiscoveredFiles sc = (fPendingFiles sc, sc\<lparr>fPendingFiles := []\<rparr>)"

definition TakeScanFinished :: "ShareScanner \<Rightarrow> bool \<times> ShareScanner" where
  "TakeScanFinished sc = (fScanFinished sc, sc\<lparr>fScanFinished := False\<rparr>)"

definition GetDuplicateNameCount :: "ShareScanner \<Rightarrow> uint32" where
  "GetDuplicateNameCount sc = fDuplicateNameCount sc"

subsubsection \<open>Interleavings of one scan with the owner's calls\<close>

text \<open>The scanner, the files the owner has received, and how often it was told of the end.\<close>

record scan_world =
  scanner :: ShareScanner
  delivered :: "SharedFile list"
  finish_reports :: nat

inductive scan_step :: "scan_world \<Rightarrow> scan_world \<Rightarrow> bool" where
  thread_step: "scan_program (scanner w) = a # rest \<Longrightarrow>
    scan_step w (w\<lparr>scanner := exec_action a ((scanner w)\<lparr>scan_program := rest\<rparr>)\<rparr>)"
| take_files: "TakeDiscoveredFiles (scanner w) = (fs, sc) \<Longrightarrow>
    scan_step w (w\<lparr>scanner := sc, delivered := delivered w @ fs\<rparr>)"
| take_finished: "TakeScanFinished (scanner w) = (b, sc) \<Longrightarrow>
    scan_step w (w\<lparr>scanner := sc, finish_reports := finish_reports w + (if b then 1 else 0)\<rparr>)"

inductive scan_reach :: "ShareScanner \<Rightarrow> scan_world \<Rightarrow> bool" for sc where
  reach_start: "scan_reach sc \<lparr> scanner = sc, delivered = [], finish_reports = 0 \<rparr>"
| reach_step: "scan_reach sc w \<Longrightarrow> scan_step w w' \<Longrightarrow> scan_reach sc w'"

inductive_cases scan_stepE: "scan_step w w'"

text \<open>What is delivered, pending and still to be found is always the whole list of the walk.\<close>

definition scan_inv :: "scan_action list \<Rightarrow> scan_world \<Rightarrow> bool" where
  "scan_inv all w \<longleftrightarrow>
     delivered w @ fPendingFiles (scanner w) @ found_files (scan_program (scanner w)) = found_files all \<and>
     fDuplicateNameCount (scanner w) + of_nat (duplicates (scan_program (scanner w))) =
       of_nat (duplicates all) \<and>
     fThreadRunning (scanner w) \<and>
     (if scan_program (scanner w) = []
      then finish_reports w + (if fScanFinished (scanner w) then 1 else 0) = 1
      else finish_reports w = 0 \<and> \<not> fScanFinished (scanner w) \<and>
        (\<exists>as. scan_program (scanner w) = as @ [SetFinished] \<and> SetFinished \<notin> set as))"

lemma scan_inv_thread:
  assumes "scan_inv all w" "scan_program (scanner w) = a # rest"
  shows "scan_inv all (w\<lparr>scanner := exec_action a ((scanner w)\<lparr>scan_program := rest\<rparr>)\<rparr>)"
proof -
  obtain as where as: "a # rest = as @ [SetFinished]" "SetFinished \<notin> set as"
    using assms by (auto simp: scan_inv_def)
  show ?thesis
  proof (cases as)
    case Nil
    then show ?thesis using assms as by (simp add: scan_inv_def)
  next
    case (Cons b bs)
    then have "rest = bs @ [SetFinished]" "b = a" "a \<noteq> SetFinished" "SetFinished \<notin> set bs"
      using as by auto
    then show ?thesis using assms by (cases a) (auto simp: scan_inv_def add.assoc)
  qed
qed

lemma scan_inv_step: "scan_step w w' \<Longrightarrow> scan_inv all w \<Longrightarrow> scan_inv all w'"
  by (cases rule: scan_step.cases, assumption)
    (simp add: scan_inv_thread,
     auto simp: scan_inv_def TakeDiscoveredFiles_def TakeScanFinished_def split: if_splits)

lemma scan_inv_reach: "scan_reach sc w \<Longrightarrow>
    scan_inv all \<lparr> scanner = sc, delivered = [], finish_reports = 0 \<rparr> \<Longrightarrow> scan_inv all w"
  by (induction rule: scan_reach.induct) (auto intro: scan_inv_step)

lemma walk_ok_thread:
  assumes "readdir_law E"
  shows "walk_ok E dir (ScanDirectory L E (Suc kMaximumScanDepth) dir [] (start_scan_state g))"
  by (rule walk_ok_walk(1) [OF assms, of "[]"]) simp_all

lemma scan_program_start:
  assumes "readdir_law E" "fShareDirectory sc \<noteq> []"
  obtains as where "actions (ScanThread L E (fShareDirectory sc) g) = as @ [SetFinished]"
    "SetFinished \<notin> set as"
  using walk_ok_thread [OF assms(1)] by (auto simp: ScanThread_def Let_def walk_ok_def)

lemma join_keeps:
  "fShareDirectory (join_thread sc) = fShareDirectory sc" "fMimeTypes (join_thread sc) = fMimeTypes sc"
proof -
  have "fShareDirectory (fold exec_action as sc) = fShareDirectory sc \<and>
        fMimeTypes (fold exec_action as sc) = fMimeTypes sc" for as sc
  proof (induction as arbitrary: sc)
    case (Cons a as) then show ?case by (cases a) auto
  qed simp
  then show "fShareDirectory (join_thread sc) = fShareDirectory sc"
    "fMimeTypes (join_thread sc) = fMimeTypes sc" by (simp_all add: join_thread_def)
qed

lemma StopScan_keeps [simp]:
  "fShareDirectory (StopScan sc) = fShareDirectory sc" "fMimeTypes (StopScan sc) = fMimeTypes sc"
  by (simp_all add: StopScan_def join_keeps)

lemma scan_inv_init:
  assumes "readdir_law E" "fShareDirectory sc \<noteq> []"
  shows "scan_inv (actions (ScanThread L E (fShareDirectory sc) (fMimeTypes sc)))
           \<lparr> scanner = StartScan L E True sc, delivered = [], finish_reports = 0 \<rparr>"
proof -
  obtain as where "actions (ScanThread L E (fShareDirectory sc) (fMimeTypes sc)) = as @ [SetFinished]"
    "SetFinished \<notin> set as" using scan_program_start [OF assms] by blast
  with assms show ?thesis by (simp add: scan_inv_def StartScan_def Let_def)
qed

subsection \<open>Properties\<close>

text \<open>
  What a scan publishes, whatever the folder tree and the moment of an abort: every leaf name at
  most once, no hidden file and nothing out of a hidden folder, nothing deeper than the cap, and
  each record names the regular file it stands for by its real path and carries its size.
\<close>

theorem scan_publishes:
  assumes "readdir_law E"
  shows "let fs = found_files (actions (ScanThread L E root g))
         in distinct (map sf_fileName fs) \<and> list_all (shared_from E root) fs"
  using walk_ok_thread [OF assms, of root L g]
  by (auto simp: walk_ok_def ScanThread_def Let_def)

text \<open>A share folder with a hidden file, a sub-folder and a name that occurs twice.\<close>

definition demo_env :: scan_env where
  "demo_env =
    \<lparr> readdir = (\<lambda>p. if p = ''/s'' then Some [''.'', ''..'', ''.h'', ''a'', ''d'']
                   else if p = ''/s/d'' then Some [''a'', ''b''] else None),
      stat_path = (\<lambda>p. if p = ''/s/d'' then Some StatDirectory else Some (StatRegular 5 7)),
      abort_flag = (\<lambda>_. False), globs = None \<rparr>"

lemma demo_env_law: "readdir_law demo_env"
  by (auto simp: readdir_law_def demo_env_def is_clause_def split: if_splits)

theorem scan_publishes_witness:
  "let fs = found_files (actions (ScanThread ref_muscle demo_env ''/s'' new_guesser))
   in map sf_fileName fs = [''a'', ''b''] \<and> distinct (map sf_fileName fs) \<and>
      list_all (shared_from demo_env ''/s'') fs"
proof -
  have "map sf_fileName (found_files (actions
      (ScanThread ref_muscle demo_env ''/s'' new_guesser))) = [''a'', ''b'']" by code_simp
  then show ?thesis
    using scan_publishes [OF demo_env_law, of ref_muscle "''/s''" new_guesser] by (simp add: Let_def)
qed

text \<open>
  C18. Hand-over between the scanning thread and its owner, for every interleaving: the owner has
  received a prefix of what the walk finds, in order, nothing lost and nothing twice; the end is
  reported at most once and only when no file is still to come; and once the thread is done and the
  owner has emptied the list, it has every file and the exact (32-bit) count of duplicates.
\<close>

theorem scan_handover:
  assumes "readdir_law E" "fShareDirectory sc \<noteq> []" "scan_reach (StartScan L E True sc) w"
  shows "let walk = actions (ScanThread L E (fShareDirectory sc) (fMimeTypes sc))
         in prefix (delivered w) (found_files walk) \<and> finish_reports w \<le> 1 \<and>
            (finish_reports w = 1 \<longrightarrow>
               delivered w @ fPendingFiles (scanner w) = found_files walk \<and>
               GetDuplicateNameCount (scanner w) = of_nat (duplicates walk))"
proof -
  have inv: "scan_inv (actions (ScanThread L E (fShareDirectory sc) (fMimeTypes sc))) w"
    using scan_inv_reach assms(3) scan_inv_init [OF assms(1,2)] by blast
  then have "prefix (delivered w) (found_files (actions (ScanThread L E (fShareDirectory sc) (fMimeTypes sc))))"
    by (metis prefixI scan_inv_def)
  with inv show ?thesis
    unfolding scan_inv_def GetDuplicateNameCount_def Let_def
    by (cases "scan_program (scanner w) = []") (auto split: if_splits)
qed

theorem scan_handover_witness:
  "\<exists>w. scan_reach (StartScan ref_muscle demo_env True (new_scanner\<lparr>fShareDirectory := ''/s''\<rparr>)) w \<and>
       finish_reports w \<le> 1"
proof -
  let ?sc = "new_scanner\<lparr>fShareDirectory := ''/s''\<rparr>"
  let ?w = "\<lparr> scanner = StartScan ref_muscle demo_env True ?sc, delivered = [], finish_reports = 0 \<rparr>"
  have "scan_reach (StartScan ref_muscle demo_env True ?sc) ?w" by (rule reach_start)
  then show ?thesis
    using scan_handover [OF demo_env_law, of ?sc ref_muscle ?w] by (auto simp: Let_def)
qed

text \<open>
  A scan whose end has been reported is never again seen as over until it is stopped:
  \<open>TakeScanFinished\<close> clears the very flag \<open>IsScanning\<close> consults, and nothing sets it again, so
  after the report \<open>IsScanning\<close> answers true with the thread long gone.
\<close>

theorem scanning_after_report:
  assumes "readdir_law E" "fShareDirectory sc \<noteq> []" "scan_reach (StartScan L E True sc) w"
    "finish_reports w = 1"
  shows "scan_program (scanner w) = [] \<and> IsScanning (scanner w) \<and>
    \<not> IsScanning (StopScan (scanner w))"
proof -
  have "scan_inv (actions (ScanThread L E (fShareDirectory sc) (fMimeTypes sc))) w"
    using scan_inv_reach assms(3) scan_inv_init [OF assms(1,2)] by blast
  with assms(4) show ?thesis
    by (auto simp: scan_inv_def IsScanning_def StopScan_def split: if_splits)
qed

lemma scan_reach_run:
  assumes "scan_reach sc w"
  shows "scan_reach sc (w\<lparr>scanner := join_thread (scanner w)\<rparr>)"
  using assms
proof (induction "scan_program (scanner w)" arbitrary: w)
  case Nil
  then have "w\<lparr>scanner := join_thread (scanner w)\<rparr> = w" by (simp add: join_thread_def)
  with Nil show ?case by simp
next
  case (Cons a as)
  define w1 where "w1 = w\<lparr>scanner := exec_action a ((scanner w)\<lparr>scan_program := as\<rparr>)\<rparr>"
  have prog: "scan_program (exec_action a sc) = scan_program sc" for a sc by (cases a) auto
  have comm: "(exec_action a sc)\<lparr>scan_program := p\<rparr> = exec_action a (sc\<lparr>scan_program := p\<rparr>)" for a p sc
    by (cases a) auto
  have "scan_reach sc w1"
    using Cons.prems thread_step [of w a as] Cons.hyps(2) by (auto simp: w1_def intro: reach_step)
  moreover have "as = scan_program (scanner w1)" by (simp add: w1_def prog)
  ultimately have "scan_reach sc (w1\<lparr>scanner := join_thread (scanner w1)\<rparr>)" by (rule Cons.hyps(1) [rotated])
  moreover have "join_thread (scanner w1) = join_thread (scanner w)"
    using Cons.hyps(2) [symmetric] by (simp add: w1_def join_thread_def prog comm)
  ultimately show ?case by (simp add: w1_def)
qed

theorem scanning_after_report_witness:
  "\<exists>w. scan_reach (StartScan ref_muscle demo_env True (new_scanner\<lparr>fShareDirectory := ''/s''\<rparr>)) w \<and>
       scan_program (scanner w) = [] \<and> IsScanning (scanner w)"
proof -
  let ?sc = "new_scanner\<lparr>fShareDirectory := ''/s''\<rparr>"
  let ?S = "StartScan ref_muscle demo_env True ?sc"
  let ?w = "\<lparr> scanner = join_thread ?S, delivered = [], finish_reports = 0 \<rparr>"
  have r: "scan_reach ?S ?w" using scan_reach_run [OF reach_start] by simp
  have s0: "fShareDirectory ?sc \<noteq> []" by simp
  have inv: "scan_inv (actions (ScanThread ref_muscle demo_env (fShareDirectory ?sc) (fMimeTypes ?sc))) ?w"
    using scan_inv_reach [OF r] scan_inv_init [OF demo_env_law s0] by blast
  have prog: "scan_program (fold exec_action as sc) = scan_program sc" for as sc
  proof (induction as arbitrary: sc)
    case (Cons a as) then show ?case by (cases a) auto
  qed simp
  have fin: "scan_program (join_thread ?S) = []" by (simp add: join_thread_def prog)
  with inv have "fScanFinished (join_thread ?S)" by (auto simp: scan_inv_def split: if_splits)
  then have "TakeScanFinished (scanner ?w) = (True, (join_thread ?S)\<lparr>fScanFinished := False\<rparr>)"
    by (simp add: TakeScanFinished_def)
  from take_finished [OF this] r
  have "scan_reach ?S (?w\<lparr>scanner := (join_thread ?S)\<lparr>fScanFinished := False\<rparr>, finish_reports := 1\<rparr>)"
    by (auto intro: reach_step)
  from scanning_after_report [OF demo_env_law s0 this] this show ?thesis by auto
qed

text \<open>
  The type guessed for a file name does not depend on which files were asked about before, nor
  on the letter case of its extension, and a name without an extension has no type.
\<close>

theorem guess_by_extension:
  assumes "guesser_ok L db g" "lower_law L" "CHR ''.'' \<notin> set ext" "CHR ''.'' \<notin> set ext'"
    "ToLowerCase L ext = ToLowerCase L ext'" "ext \<noteq> []"
  shows "fst (GuessMimeType L db (stem @ ''.'' @ ext) g) =
           fst (GuessMimeType L db (stem' @ ''.'' @ ext') new_guesser) \<and>
         guesser_ok L db (snd (GuessMimeType L db name g)) \<and>
         (CHR ''.'' \<notin> set name \<longrightarrow> fst (GuessMimeType L db name g) = [])"
proof -
  have e': "ext' \<noteq> []" using assms(2,5,6) unfolding lower_law_def by (metis length_0_conv)
  have a: "last_index_of (CHR ''.'') (stem @ CHR ''.'' # e) = int (length stem)"
    if "CHR ''.'' \<notin> set e" for stem e using that by simp
  have "fst (GuessMimeType L db (stem @ ''.'' @ ext) g) =
        fst (GuessMimeType L db (stem @ ''.'' @ ext) new_guesser)" by (rule guess_stable [OF assms(1)])
  also have "\<dots> = fst (GuessMimeType L db (stem' @ ''.'' @ ext') new_guesser)"
    using assms(3-6) e' by (simp add: GuessMimeType_def Let_def a)
  finally show ?thesis
    using guesser_ok_guess [OF assms(1)] by (simp add: GuessMimeType_def)
qed

theorem guess_by_extension_witness:
  "fst (GuessMimeType ref_muscle None ''x.PDF'' new_guesser) = ''application/pdf'' \<and>
   fst (GuessMimeType ref_muscle None ''x.PDF'' new_guesser) =
     fst (GuessMimeType ref_muscle None ''y.z.pdf'' new_guesser)"
proof -
  have h: "ToLowerCase ref_muscle ''PDF'' = ToLowerCase ref_muscle ''pdf''"
    "fst (GuessMimeType ref_muscle None ''x.PDF'' new_guesser) = ''application/pdf''" by code_simp+
  show ?thesis
    using guess_by_extension [of ref_muscle None new_guesser "''PDF''" "''pdf''" "''x''" "''y.z''" "[]"] h
    by (simp add: guesser_ok_def)
qed

end
