(* ===== verification/ServerConnection.thy ===== *)
theory ServerConnection
  imports Protocol ChatInput Users Share RefMuscle
begin

section \<open>One connection to a BeShare server\<close>

text \<open>
  \<open>core/ServerConnection\<close> with the data it reports (\<open>core/FileResult.h\<close>) and the listener it
  reports to (\<open>core/ServerConnectionListener.h\<close>). The connection is one record; what it puts on the
  wire (\<open>c_out\<close>) and the callbacks it makes (\<open>c_events\<close>) are ordered logs in it. The network
  underneath is a parameter: the readings of the clock, whether the transceiver accepts a message,
  and whether its thread and its session can be started.
\<close>

subsection \<open>Data\<close>

datatype ConnectionState = CONNECTION_DISCONNECTED | CONNECTION_CONNECTING | CONNECTION_CONNECTED

record FileResult =
  fr_sessionId :: string
  fr_fileName :: string
  fr_path :: string
  fr_kind :: string
  fr_fileSize :: int64
  fr_modificationTime :: int32
  fr_isFirewalled :: bool
  fr_attributes :: message

datatype conn_event =
    ConnectionStateChanged ConnectionState
  | LocalSessionIdAssigned string string
  | UserUpdated UserRecord bool
  | UserLeft UserRecord
  | ChatMessageReceived ChatMessage
  | QueryResultAdded FileResult
  | QueryResultRemoved string string
  | QueryResultsCleared
  | QuerySweepStateChanged bool
  | PingReplyReceived UserRecord uint64 string

datatype status = B_NO_ERROR | B_BAD_ARGUMENT | B_OTHER_ERROR string

record connection =
  c_listener :: bool
  c_users :: registry
  c_state :: ConnectionState
  c_localUserName :: string
  c_localUserStatus :: string
  c_localSessionId :: string
  c_serverAddress :: string
  c_serverPort :: uint16
  c_installId :: uint64
  c_queryActive :: bool
  c_sessionMatcher :: string
  c_fileNameMatcher :: string
  c_pingCount :: int32
  c_firewalled :: bool
  c_advertisedPort :: int32
  c_publishedFileCount :: uint32
  c_lastTrafficTime :: uint64
  c_loginTime :: uint64
  c_hasPublishedIdentity :: bool
  c_thread :: bool
  c_out :: "message list"
  c_events :: "conn_event list"
  c_ticks :: nat

text \<open>
  \<open>clock E k\<close> is the k-th reading of \<open>GetRunTime64\<close>; an error is given by its text.
\<close>

record conn_env =
  clock :: "nat \<Rightarrow> uint64"
  accepts :: "message \<Rightarrow> bool"
  start_thread :: "string option"
  connect_session :: "string \<Rightarrow> uint16 \<Rightarrow> string option"

definition new_connection :: connection where
  "new_connection =
    \<lparr> c_listener = False, c_users = [], c_state = CONNECTION_DISCONNECTED,
      c_localUserName = ''binky'', c_localUserStatus = ''here'', c_localSessionId = [],
      c_serverAddress = [], c_serverPort = kDefaultServerPort, c_installId = 0,
      c_queryActive = False, c_sessionMatcher = [], c_fileNameMatcher = [], c_pingCount = 0,
      c_firewalled = False, c_advertisedPort = 0, c_publishedFileCount = 0,
      c_lastTrafficTime = 0, c_loginTime = 0, c_hasPublishedIdentity = False, c_thread = False,
      c_out = [], c_events = [], c_ticks = 0 \<rparr>"

definition SetListener :: "bool \<Rightarrow> connection \<Rightarrow> connection" where
  "SetListener present c = c\<lparr>c_listener := present\<rparr>"

definition SetInstallId :: "uint64 \<Rightarrow> connection \<Rightarrow> connection" where
  "SetInstallId installId c = c\<lparr>c_installId := installId\<rparr>"

abbreviation IsConnected :: "connection \<Rightarrow> bool" where
  "IsConnected c \<equiv> c_state c = CONNECTION_CONNECTED"

subsection \<open>Notification helpers\<close>

definition notify :: "conn_event \<Rightarrow> connection \<Rightarrow> connection" where
  "notify ev c = (if c_listener c then c\<lparr>c_events := c_events c @ [ev]\<rparr> else c)"

definition SetConnectionState :: "ConnectionState \<Rightarrow> connection \<Rightarrow> connection" where
  "SetConnectionState st c =
     (if st = c_state c then c else notify (ConnectionStateChanged st) (c\<lparr>c_state := st\<rparr>))"

definition ReportToUser :: "LogMessageType \<Rightarrow> string \<Rightarrow> connection \<Rightarrow> connection" where
  "ReportToUser ty t c = notify (ChatMessageReceived (chat_message ty t)) c"

definition NotifyUserUpdated :: "string \<Rightarrow> bool \<Rightarrow> connection \<Rightarrow> connection" where
  "NotifyUserUpdated sid isNewUser c =
     (case FindUser (c_users c) sid of
        None \<Rightarrow> c
      | Some user \<Rightarrow> notify (UserUpdated user isNewUser) c)"

text \<open>The session clause of a node path; the rest of the path is cut off at its first slash.\<close>

definition ExtractSessionId :: "muscle \<Rightarrow> string \<Rightarrow> string" where
  "ExtractSessionId L nodePath =
     (case GetPathClause L SESSION_ID_DEPTH nodePath of
        None \<Rightarrow> []
      | Some sid \<Rightarrow>
          let slashIndex = index_of (CHR ''/'') sid
          in if slashIndex \<ge> 0 then substring sid 0 slashIndex else sid)"

subsection \<open>Outgoing helpers\<close>

definition read_clock :: "conn_env \<Rightarrow> connection \<Rightarrow> uint64 \<times> connection" where
  "read_clock E c = (clock E (c_ticks c), c\<lparr>c_ticks := Suc (c_ticks c)\<rparr>)"

definition SendToServer :: "conn_env \<Rightarrow> message \<Rightarrow> connection \<Rightarrow> connection" where
  "SendToServer E m c =
     (if accepts E m
      then let (now, c1) = read_clock E (c\<lparr>c_out := c_out c @ [m]\<rparr>) in c1\<lparr>c_lastTrafficTime := now\<rparr>
      else c)"

definition SetDataNodeValue ::
  "muscle \<Rightarrow> conn_env \<Rightarrow> string \<Rightarrow> message \<Rightarrow> connection \<Rightarrow> connection" where
  "SetDataNodeValue L E nodePath v c =
     SendToServer E (add_message (new_message (PR_COMMAND_SETDATA L)) nodePath v) c"

definition PublishLocalUserName :: "muscle \<Rightarrow> conn_env \<Rightarrow> connection \<Rightarrow> connection" where
  "PublishLocalUserName L E c =
     (let n0 = new_message 0;
          n1 = add_string n0 BESHARE_FIELD_NAME (c_localUserName c);
          n2 = add_int32 n1 BESHARE_FIELD_PORT (c_advertisedPort c);
          n3 = add_int64 n2 BESHARE_FIELD_INSTALL_ID (c_installId c);
          n4 = add_string n3 BESHARE_FIELD_VERSION_NAME HITUX_SHARE_NAME;
          n5 = add_string n4 BESHARE_FIELD_VERSION_NUMBER HITUX_SHARE_VERSION_STRING
      in SetDataNodeValue L E BESHARE_NODE_NAME n5 c)"

definition PublishLocalUserStatus :: "muscle \<Rightarrow> conn_env \<Rightarrow> connection \<Rightarrow> connection" where
  "PublishLocalUserStatus L E c =
     SetDataNodeValue L E BESHARE_NODE_USER_STATUS
       (add_string (new_message 0) BESHARE_FIELD_USER_STATUS (c_localUserStatus c)) c"

definition SubscribeToUsers :: "muscle \<Rightarrow> conn_env \<Rightarrow> connection \<Rightarrow> connection" where
  "SubscribeToUsers L E c =
     SendToServer E (add_bool (new_message (PR_COMMAND_SETPARAMETERS L)) BESHARE_SUBSCRIBE_ALL True) c"

definition RequestSessionParameters :: "muscle \<Rightarrow> conn_env \<Rightarrow> connection \<Rightarrow> connection" where
  "RequestSessionParameters L E c = SendToServer E (new_message (PR_COMMAND_GETPARAMETERS L)) c"

subsection \<open>What the front-end calls\<close>

definition DisconnectFromServer :: "connection \<Rightarrow> connection" where
  "DisconnectFromServer c =
     (let wasActive = (c_state c \<noteq> CONNECTION_DISCONNECTED);
          c1 = c\<lparr>c_thread := False, c_users := ClearUsers (c_users c), c_localSessionId := [],
                 c_hasPublishedIdentity := False, c_loginTime := 0, c_queryActive := False\<rparr>;
          c2 = notify QueryResultsCleared c1
      in if wasActive
         then SetConnectionState CONNECTION_DISCONNECTED
                (ReportToUser LOG_INFORMATION_MESSAGE ''Disconnected from server.'' c2)
         else c2)"

definition ConnectToServer ::
  "conn_env \<Rightarrow> string \<Rightarrow> uint16 \<Rightarrow> connection \<Rightarrow> status \<times> connection" where
  "ConnectToServer E hostName p c =
     (let c0 = DisconnectFromServer c
      in if hostName = [] then (B_BAD_ARGUMENT, c0)
         else
           let c1 = c0\<lparr>c_serverAddress := hostName,
                       c_serverPort := (if p > 0 then p else kDefaultServerPort)\<rparr>
           in case start_thread E of
                Some err \<Rightarrow>
                  (B_OTHER_ERROR err,
                   ReportToUser LOG_ERROR_MESSAGE (''Could not start the network thread: '' @ err) c1)
              | None \<Rightarrow>
                  let c2 = c1\<lparr>c_thread := True\<rparr>
                  in case connect_session E (c_serverAddress c2) (c_serverPort c2) of
                       Some err \<Rightarrow>
                         (B_OTHER_ERROR err,
                          ReportToUser LOG_ERROR_MESSAGE
                            (''Could not connect to '' @ c_serverAddress c2 @ '': '' @ err)
                            (c2\<lparr>c_thread := False\<rparr>))
                     | None \<Rightarrow>
                         (B_NO_ERROR,
                          ReportToUser LOG_INFORMATION_MESSAGE
                            (''Connecting to '' @ c_serverAddress c2 @ ''...'')
                            (SetConnectionState CONNECTION_CONNECTING c2)))"

definition SetLocalUserName :: "muscle \<Rightarrow> conn_env \<Rightarrow> string \<Rightarrow> connection \<Rightarrow> connection" where
  "SetLocalUserName L E n c =
     (if n = [] then c
      else if n = c_localUserName c then c
      else let c1 = c\<lparr>c_localUserName := n\<rparr>
           in if IsConnected c1 then PublishLocalUserName L E c1 else c1)"

definition SetLocalUserStatus :: "muscle \<Rightarrow> conn_env \<Rightarrow> string \<Rightarrow> connection \<Rightarrow> connection" where
  "SetLocalUserStatus L E s c =
     (if s = c_localUserStatus c then c
      else let c1 = c\<lparr>c_localUserStatus := s\<rparr>
           in if IsConnected c1 then PublishLocalUserStatus L E c1 else c1)"

definition chat_text_message :: "muscle \<Rightarrow> string \<Rightarrow> string \<Rightarrow> string \<Rightarrow> message" where
  "chat_text_message L localId targetSessionId t =
     (let m1 = add_string (new_message NET_CLIENT_NEW_CHAT_TEXT) (PR_NAME_KEYS L)
                 (MakeSessionTargetPath targetSessionId);
          m2 = add_string m1 BESHARE_FIELD_SESSION localId;
          m3 = add_string m2 BESHARE_FIELD_TEXT t
      in if targetSessionId \<noteq> ''*'' then add_bool m3 BESHARE_FIELD_PRIVATE True else m3)"

definition SendChatText ::
  "muscle \<Rightarrow> conn_env \<Rightarrow> string \<Rightarrow> string \<Rightarrow> connection \<Rightarrow> connection" where
  "SendChatText L E targetSessionId t c =
     (if \<not> IsConnected c \<or> t = [] then c
      else SendToServer E (chat_text_message L (c_localSessionId c) targetSessionId t) c)"

definition SendPing :: "muscle \<Rightarrow> conn_env \<Rightarrow> string \<Rightarrow> connection \<Rightarrow> connection" where
  "SendPing L E targetSessionId c =
     (if \<not> IsConnected c then c
      else let m1 = add_string (new_message NET_CLIENT_PING) (PR_NAME_KEYS L)
                      (MakeSessionTargetPath targetSessionId);
               m2 = add_string m1 BESHARE_FIELD_SESSION (c_localSessionId c);
               (now, c1) = read_clock E c
           in SendToServer E (add_int64 m2 BESHARE_FIELD_WHEN now) c1)"

definition StopQuery :: "muscle \<Rightarrow> conn_env \<Rightarrow> connection \<Rightarrow> connection" where
  "StopQuery L E c =
     (if \<not> c_queryActive c then c
      else let c1 = c\<lparr>c_queryActive := False\<rparr>;
               c2 = (if IsConnected c1
                     then SendToServer E
                            (add_string (new_message (PR_COMMAND_JETTISONRESULTS L)) (PR_NAME_KEYS L)
                               ''beshare/fi*/*'')
                            (SendToServer E
                               (add_string (new_message (PR_COMMAND_REMOVEPARAMETERS L)) (PR_NAME_KEYS L)
                                  ''SUBSCRIBE:*beshare/fi*'') c1)
                     else c1)
           in notify (QuerySweepStateChanged False) (notify QueryResultsCleared c2))"

definition or_star :: "string \<Rightarrow> string" where
  "or_star e = (if e \<noteq> [] then e else ''*'')"

definition StartQuery ::
  "muscle \<Rightarrow> conn_env \<Rightarrow> string \<Rightarrow> string \<Rightarrow> connection \<Rightarrow> connection" where
  "StartQuery L E sessionExpression fileExpression c =
     (if \<not> IsConnected c then c
      else
        let c1 = StopQuery L E c;
            subscription = MakeQuerySubscriptionPath (or_star sessionExpression)
                             (or_star fileExpression) (c_firewalled c1);
            c2 = SendToServer E (add_bool (new_message (PR_COMMAND_SETPARAMETERS L)) subscription True) c1;
            pingMessage = add_int32 (new_message (PR_COMMAND_PING L)) ''count'' (c_pingCount c2);
            c3 = SendToServer E pingMessage (c2\<lparr>c_pingCount := c_pingCount c2 + 1\<rparr>);
            c4 = c3\<lparr>c_queryActive := True, c_sessionMatcher := or_star sessionExpression,
                    c_fileNameMatcher := or_star fileExpression\<rparr>
        in notify (QuerySweepStateChanged True) c4)"

definition UnpublishAllSharedFiles :: "muscle \<Rightarrow> conn_env \<Rightarrow> connection \<Rightarrow> connection" where
  "UnpublishAllSharedFiles L E c =
     (let c1 = c\<lparr>c_publishedFileCount := 0\<rparr>
      in if \<not> IsConnected c1 then c1
         else SendToServer E
                (add_string (new_message (PR_COMMAND_REMOVEDATA L)) (PR_NAME_KEYS L) ''beshare/fi*es'') c1)"

definition SetFirewalled :: "muscle \<Rightarrow> conn_env \<Rightarrow> bool \<Rightarrow> connection \<Rightarrow> connection" where
  "SetFirewalled L E firewalled c =
     (if firewalled = c_firewalled c then c
      else let c1 = c\<lparr>c_firewalled := firewalled\<rparr>
           in if IsConnected c1 \<and> c_publishedFileCount c1 > 0
              then UnpublishAllSharedFiles L E c1 else c1)"

definition SetAdvertisedPort :: "muscle \<Rightarrow> conn_env \<Rightarrow> int32 \<Rightarrow> connection \<Rightarrow> connection" where
  "SetAdvertisedPort L E p c =
     (if p = c_advertisedPort c then c
      else let c1 = c\<lparr>c_advertisedPort := p\<rparr>
           in if IsConnected c1 then PublishLocalUserName L E c1 else c1)"

definition GetFilesNodePath :: "connection \<Rightarrow> string" where
  "GetFilesNodePath c =
     (if c_firewalled c then BESHARE_NODE_FIREWALLED_PATH else BESHARE_NODE_FILES_PATH)"

definition file_info :: "SharedFile \<Rightarrow> message" where
  "file_info f =
     (let m1 = add_int64 (new_message 0) BESHARE_FIELD_FILE_SIZE (sf_fileSize f);
          m2 = add_int32 m1 BESHARE_FIELD_MODIFICATION_TIME (sf_modificationTime f);
          m3 = add_string m2 BESHARE_FIELD_PATH (sf_relativePath f)
      in if sf_kind f \<noteq> [] then add_string m3 BESHARE_FIELD_KIND (sf_kind f) else m3)"

text \<open>The loop of \<open>PublishSharedFiles\<close>: the batch being filled and the count of its nodes.\<close>

fun publish_loop ::
  "muscle \<Rightarrow> conn_env \<Rightarrow> string \<Rightarrow> SharedFile list \<Rightarrow> message option \<Rightarrow> nat \<Rightarrow> connection \<Rightarrow> connection" where
  "publish_loop L E filesNodePath [] batch batchCount c =
     (case batch of None \<Rightarrow> c | Some b \<Rightarrow> SendToServer E b c)"
| "publish_loop L E filesNodePath (file # files) batch batchCount c =
     (let (b, n) = (case batch of None \<Rightarrow> (new_message (PR_COMMAND_SETDATA L), 0) | Some b \<Rightarrow> (b, batchCount));
          b' = add_message b (filesNodePath @ sf_fileName file) (file_info file);
          c1 = c\<lparr>c_publishedFileCount := c_publishedFileCount c + 1\<rparr>
      in if Suc n \<ge> kSharedFileBatchSize
         then publish_loop L E filesNodePath files None (Suc n) (SendToServer E b' c1)
         else publish_loop L E filesNodePath files (Some b') (Suc n) c1)"

definition PublishSharedFiles ::
  "muscle \<Rightarrow> conn_env \<Rightarrow> SharedFile list \<Rightarrow> connection \<Rightarrow> connection" where
  "PublishSharedFiles L E files c =
     (if \<not> IsConnected c \<or> files = [] then c
      else publish_loop L E (GetFilesNodePath c) files None 0 c)"

definition PublishSharedFileCount :: "muscle \<Rightarrow> conn_env \<Rightarrow> uint32 \<Rightarrow> connection \<Rightarrow> connection" where
  "PublishSharedFileCount L E fileCount c =
     (if \<not> IsConnected c then c
      else SetDataNodeValue L E BESHARE_NODE_FILE_COUNT
             (add_int32 (new_message 0) BESHARE_FIELD_FILE_COUNT fileCount) c)"

definition PerformIdleTasks :: "muscle \<Rightarrow> conn_env \<Rightarrow> connection \<Rightarrow> connection" where
  "PerformIdleTasks L E c =
     (if \<not> IsConnected c then c
      else let (now, c1) = read_clock E c
           in if now > c_lastTrafficTime c1 + kServerKeepAliveMicroseconds
              then SendToServer E (new_message (PR_COMMAND_NOOP L)) c1
              else c1)"

subsection \<open>Incoming message handlers\<close>

definition HandleNodeRemoved :: "muscle \<Rightarrow> string \<Rightarrow> connection \<Rightarrow> connection" where
  "HandleNodeRemoved L nodePath c =
     (let pathDepth = GetPathDepth L nodePath;
          isUserGone =
            (if pathDepth = int SESSION_ID_DEPTH then True
             else if pathDepth = int USER_NAME_DEPTH
               then (case GetPathClause L USER_NAME_DEPTH nodePath of
                       None \<Rightarrow> False | Some n \<Rightarrow> starts_with n ''name'')
             else False)
      in if pathDepth = int FILE_INFO_DEPTH
         then (let sid = ExtractSessionId L nodePath
               in case GetPathClause L FILE_INFO_DEPTH nodePath of
                    Some fileNameClause \<Rightarrow>
                      if sid \<noteq> [] then notify (QueryResultRemoved sid fileNameClause) c else c
                  | None \<Rightarrow> c)
         else if \<not> isUserGone then c
         else let sid = ExtractSessionId L nodePath
              in if sid = [] then c
                 else case RemoveUser sid (c_users c) of
                        (None, _) \<Rightarrow> c
                      | (Some departedUser, users) \<Rightarrow>
                          notify (UserLeft departedUser) (c\<lparr>c_users := users\<rparr>))"

text \<open>The name node: everything it carries is optional, and what is absent is left alone.\<close>

definition read_host_name :: "muscle \<Rightarrow> string \<Rightarrow> UserRecord \<Rightarrow> UserRecord" where
  "read_host_name L nodePath u =
     (case GetPathClause L HOST_NAME_DEPTH nodePath of
        None \<Rightarrow> u
      | Some hostName \<Rightarrow>
          let slashIndex = index_of (CHR ''/'') hostName
          in u\<lparr>u_hostName := (if slashIndex \<ge> 0 then substring hostName 0 slashIndex else hostName)\<rparr>)"

definition read_version :: "message \<Rightarrow> UserRecord \<Rightarrow> UserRecord" where
  "read_version m u =
     (case (find_string m BESHARE_FIELD_VERSION_NAME, find_string m BESHARE_FIELD_VERSION_NUMBER) of
        (Some versionName, Some versionNumber) \<Rightarrow> u\<lparr>u_clientVersion := versionName @ '' v'' @ versionNumber\<rparr>
      | _ \<Rightarrow>
          (case find_string m BESHARE_FIELD_LEGACY_VERSION of
             Some legacyVersion \<Rightarrow>
               u\<lparr>u_clientVersion := (if legacyVersion \<noteq> [] \<and> digit (hd legacyVersion)
                                     then ''BeShare v'' @ legacyVersion else legacyVersion)\<rparr>
           | None \<Rightarrow> u))"

definition read_name_node :: "muscle \<Rightarrow> string \<Rightarrow> message \<Rightarrow> UserRecord \<Rightarrow> UserRecord" where
  "read_name_node L nodePath m u0 =
     (let u1 = u0\<lparr>u_userName := found_or (u_userName u0) (find_string m BESHARE_FIELD_NAME)\<rparr>;
          u2 = read_host_name L nodePath u1;
          u3 = u2\<lparr>u_port := found_or (u_port u2) (find_int32 m BESHARE_FIELD_PORT),
                 u_installId := found_or (u_installId u2) (find_int64 m BESHARE_FIELD_INSTALL_ID),
                 u_isBot := found_or (u_isBot u2) (find_bool m BESHARE_FIELD_BOT),
                 u_supportsPartialHashing :=
                   found_or (u_supportsPartialHashing u2) (find_bool m BESHARE_FIELD_SUPPORTS_PARTIAL_HASHING),
                 u_supportsSsl := found_or (u_supportsSsl u2) (find_bool m BESHARE_FIELD_SUPPORTS_SSL),
                 u_supportsRanges := found_or (u_supportsRanges u2) (find_bool m BESHARE_FIELD_SUPPORTS_RANGES)\<rparr>
      in read_version m u3)"

text \<open>One node of a user: did the record change, and the record afterwards.\<close>

definition apply_user_node ::
  "muscle \<Rightarrow> string \<Rightarrow> string \<Rightarrow> message \<Rightarrow> UserRecord \<Rightarrow> bool \<times> UserRecord" where
  "apply_user_node L nodePath nodeName m u =
     (if starts_with nodeName ''name'' then (True, read_name_node L nodePath m u)
      else if starts_with nodeName ''userstatus'' then
        (case find_string m BESHARE_FIELD_USER_STATUS of
           Some st \<Rightarrow> (True, u\<lparr>u_userStatus := st\<rparr>) | None \<Rightarrow> (False, u))
      else if starts_with nodeName ''uploadstats'' then
        (case (find_int32 m BESHARE_FIELD_UPLOADS_CURRENT, find_int32 m BESHARE_FIELD_UPLOADS_MAX) of
           (Some cur, Some mx) \<Rightarrow> (True, u\<lparr>u_uploadsCurrent := cur, u_uploadsMax := mx\<rparr>)
         | _ \<Rightarrow> (False, u))
      else if starts_with nodeName ''bandwidth'' then
        (case (find_string m BESHARE_FIELD_BANDWIDTH_LABEL, find_int32 m BESHARE_FIELD_BANDWIDTH_BITS) of
           (Some label, Some bits) \<Rightarrow>
             (True, u\<lparr>u_bandwidthLabel := label, u_bandwidthBitsPerSecond := bits\<rparr>)
         | _ \<Rightarrow> (False, u))
      else if starts_with nodeName ''filecount'' then
        (case find_int32 m BESHARE_FIELD_FILE_COUNT of
           Some n \<Rightarrow> (True, u\<lparr>u_fileCount := n\<rparr>) | None \<Rightarrow> (False, u))
      else if starts_with nodeName ''fires'' then (True, u\<lparr>u_isFirewalled := True\<rparr>)
      else if starts_with nodeName ''files'' then (True, u\<lparr>u_isFirewalled := False\<rparr>)
      else (False, u))"

definition HandleUserNode ::
  "muscle \<Rightarrow> string \<Rightarrow> string \<Rightarrow> message \<Rightarrow> connection \<Rightarrow> connection" where
  "HandleUserNode L sid nodePath m c =
     (case GetPathClause L USER_NAME_DEPTH nodePath of
        None \<Rightarrow> c
      | Some nodeName \<Rightarrow>
          (case GetOrCreateUser sid (c_users c) of (isNewUser, users) \<Rightarrow>
             (case FindUser users sid of
                None \<Rightarrow> c\<lparr>c_users := users\<rparr>
              | Some user \<Rightarrow>
                  (case apply_user_node L nodePath nodeName m user of (didChange, user') \<Rightarrow>
                     let c1 = c\<lparr>c_users := UpdateUser sid (\<lambda>_. user') users\<rparr>
                     in if didChange \<or> isNewUser then NotifyUserUpdated sid isNewUser c1 else c1))))"

definition HandleFileNode ::
  "muscle \<Rightarrow> string \<Rightarrow> string \<Rightarrow> message \<Rightarrow> connection \<Rightarrow> connection" where
  "HandleFileNode L sid nodePath m c =
     (if \<not> c_queryActive c then c
      else case GetPathClause L FILE_INFO_DEPTH nodePath of
        None \<Rightarrow> c
      | Some fileNameClause \<Rightarrow>
          if \<not> PatternMatch L (c_sessionMatcher c) sid \<or>
             \<not> PatternMatch L (c_fileNameMatcher c) fileNameClause then c
          else case InflateMessage L m of
            None \<Rightarrow> c
          | Some inflated \<Rightarrow>
              notify (QueryResultAdded
                \<lparr> fr_sessionId = sid, fr_fileName = fileNameClause,
                  fr_path = found_or [] (find_string inflated BESHARE_FIELD_PATH),
                  fr_kind = found_or [] (find_string inflated BESHARE_FIELD_KIND),
                  fr_fileSize = found_or 0 (find_int64 inflated BESHARE_FIELD_FILE_SIZE),
                  fr_modificationTime =
                    found_or 0 (find_int32 inflated BESHARE_FIELD_MODIFICATION_TIME),
                  fr_isFirewalled =
                    (case GetPathClause L USER_NAME_DEPTH nodePath of
                       None \<Rightarrow> False
                     | Some shareClause \<Rightarrow> 2 < length shareClause \<and> shareClause ! 2 = CHR ''r''),
                  fr_attributes = inflated \<rparr>) c)"

definition HandleNodeUpdated :: "muscle \<Rightarrow> string \<Rightarrow> message \<Rightarrow> connection \<Rightarrow> connection" where
  "HandleNodeUpdated L nodePath m c =
     (let pathDepth = GetPathDepth L nodePath
      in if pathDepth < int USER_NAME_DEPTH then c
         else let sid = ExtractSessionId L nodePath
              in if sid = [] then c
                 else if pathDepth = int FILE_INFO_DEPTH then HandleFileNode L sid nodePath m c
                 else if sid = c_localSessionId c then c
                 else HandleUserNode L sid nodePath m c)"

definition HandleDataItems :: "muscle \<Rightarrow> message \<Rightarrow> connection \<Rightarrow> connection" where
  "HandleDataItems L m c =
     (let c1 = fold (HandleNodeRemoved L) (all_strings m (PR_NAME_REMOVED_DATAITEMS L)) c
      in fold (\<lambda>fieldName c. case find_message m fieldName of
                 Some nodeData \<Rightarrow> HandleNodeUpdated L fieldName nodeData c
               | None \<Rightarrow> c)
           (message_field_names m) c1)"

definition HandleChatText :: "message \<Rightarrow> connection \<Rightarrow> connection" where
  "HandleChatText m c =
     (case (find_string m BESHARE_FIELD_SESSION, find_string m BESHARE_FIELD_TEXT) of
        (Some sender, Some t) \<Rightarrow>
          if sender = c_localSessionId c then c
          else let action = starts_with t BESHARE_ACTION_PREFIX
               in notify (ChatMessageReceived
                    \<lparr> msg_type = LOG_REMOTE_USER_CHAT_MESSAGE, senderSessionId = sender,
                      senderName = GetDisplayNameForSession (c_users c) sender,
                      msg_text = (if action then substring_from t (int (length BESHARE_ACTION_PREFIX)) else t),
                      isPrivate = has_name m BESHARE_FIELD_PRIVATE, isAction = action,
                      isFromLocalUser = False, isHighlighted = False \<rparr>) c
      | _ \<Rightarrow> c)"

definition pong_reply ::
  "muscle \<Rightarrow> string \<Rightarrow> string \<Rightarrow> uint64 \<Rightarrow> uint64 \<Rightarrow> message \<Rightarrow> message" where
  "pong_reply L localId replyTo now onlineTime m =
     (let m1 = set_what NET_CLIENT_PONG m;
          m2 = add_string (remove_name m1 (PR_NAME_KEYS L)) (PR_NAME_KEYS L) (MakeSessionTargetPath replyTo);
          m3 = add_string (remove_name m2 BESHARE_FIELD_SESSION) BESHARE_FIELD_SESSION localId;
          m4 = add_string (remove_name m3 BESHARE_FIELD_LEGACY_VERSION) BESHARE_FIELD_LEGACY_VERSION
                 (HITUX_SHARE_NAME @ '' v'' @ HITUX_SHARE_VERSION_STRING);
          m5 = add_int64 (remove_name m4 BESHARE_FIELD_UPTIME) BESHARE_FIELD_UPTIME now
      in add_int64 (remove_name m5 BESHARE_FIELD_ONLINE_TIME) BESHARE_FIELD_ONLINE_TIME onlineTime)"

definition HandlePing :: "muscle \<Rightarrow> conn_env \<Rightarrow> message \<Rightarrow> connection \<Rightarrow> connection" where
  "HandlePing L E m c =
     (case find_string m BESHARE_FIELD_SESSION of
        None \<Rightarrow> c
      | Some replyTo \<Rightarrow>
          (case read_clock E c of (now, c1) \<Rightarrow>
             SendToServer E
               (pong_reply L (c_localSessionId c1) replyTo now
                  (if c_loginTime c1 > 0 then now - c_loginTime c1 else 0) m) c1))"

definition HandlePong :: "conn_env \<Rightarrow> message \<Rightarrow> connection \<Rightarrow> connection" where
  "HandlePong E m c =
     (case (find_string m BESHARE_FIELD_SESSION, find_int64 m BESHARE_FIELD_WHEN) of
        (Some sender, Some sentAt) \<Rightarrow>
          let user = (case FindUser (c_users c) sender of
                        Some u \<Rightarrow> u | None \<Rightarrow> empty_user\<lparr>u_sessionId := sender\<rparr>);
              peerVersion = found_or [] (find_string m BESHARE_FIELD_LEGACY_VERSION);
              (now, c1) = read_clock E c
          in notify (PingReplyReceived user (now - sentAt) peerVersion) c1
      | _ \<Rightarrow> c)"

definition HandleParameters :: "muscle \<Rightarrow> message \<Rightarrow> connection \<Rightarrow> connection" where
  "HandleParameters L m c =
     (case find_string m (PR_NAME_SESSION_ROOT L) of
        None \<Rightarrow> c
      | Some sessionRoot \<Rightarrow>
          let lastSlashIndex = last_index_of (CHR ''/'') sessionRoot
          in if lastSlashIndex < 0 then c
             else let c1 = c\<lparr>c_localSessionId := substring_from sessionRoot (lastSlashIndex + 1),
                             c_hasPublishedIdentity := True\<rparr>
                  in notify (LocalSessionIdAssigned (c_localSessionId c1)
                       (substring sessionRoot 1 lastSlashIndex)) c1)"

subsection \<open>Transceiver callbacks\<close>

definition SessionConnected :: "muscle \<Rightarrow> conn_env \<Rightarrow> string \<Rightarrow> connection \<Rightarrow> connection" where
  "SessionConnected L E connectedTo c =
     (let (now, c0) = read_clock E c;
          c1 = SetConnectionState CONNECTION_CONNECTED (c0\<lparr>c_loginTime := now\<rparr>);
          c2 = ReportToUser LOG_INFORMATION_MESSAGE (''Connected to '' @ connectedTo @ ''.'') c1
      in RequestSessionParameters L E (SubscribeToUsers L E
           (PublishLocalUserStatus L E (PublishLocalUserName L E c2))))"

definition SessionDisconnected :: "connection \<Rightarrow> connection" where
  "SessionDisconnected c =
     (let c1 = c\<lparr>c_users := ClearUsers (c_users c), c_localSessionId := [], c_hasPublishedIdentity := False\<rparr>
      in SetConnectionState CONNECTION_DISCONNECTED
           (ReportToUser LOG_ERROR_MESSAGE ''Connection to server lost.'' c1))"

definition SessionDetached :: "connection \<Rightarrow> connection" where
  "SessionDetached c =
     (if c_state c \<noteq> CONNECTION_DISCONNECTED
      then SetConnectionState CONNECTION_DISCONNECTED
             (c\<lparr>c_users := ClearUsers (c_users c), c_localSessionId := [], c_hasPublishedIdentity := False\<rparr>)
      else c)"

definition HandleQueryPong :: "message \<Rightarrow> connection \<Rightarrow> connection" where
  "HandleQueryPong m c =
     (case find_int32 m ''count'' of
        Some count \<Rightarrow>
          if sint count \<ge> sint (c_pingCount c - 1) then notify (QuerySweepStateChanged False) c else c
      | None \<Rightarrow> c)"

definition MessageReceived :: "muscle \<Rightarrow> conn_env \<Rightarrow> message \<Rightarrow> connection \<Rightarrow> connection" where
  "MessageReceived L E m c =
     (if what m = PR_RESULT_DATAITEMS L then HandleDataItems L m c
      else if what m = PR_RESULT_PARAMETERS L then HandleParameters L m c
      else if what m = PR_RESULT_PONG L then HandleQueryPong m c
      else if what m = NET_CLIENT_NEW_CHAT_TEXT then HandleChatText m c
      else if what m = NET_CLIENT_PING then HandlePing L E m c
      else if what m = NET_CLIENT_PONG then HandlePong E m c
      else c)"

end
