(* ===== verification/ConnectionLaws.thy ===== *)
theory ConnectionLaws
  imports ServerConnection
begin

section \<open>What the server connection guarantees\<close>

text \<open>
  The lemmas and properties of \<open>ServerConnection\<close>: which fields each helper leaves alone, the
  user list a listener can build from its callbacks and why it is always the registry, the silence
  of a connection that is not up, and the conversations (chat, ping, query, publishing) end to end.
\<close>

subsection \<open>Frames\<close>

lemma notify_frame [simp]:
  "c_listener (notify ev c) = c_listener c" "c_users (notify ev c) = c_users c"
  "c_state (notify ev c) = c_state c" "c_out (notify ev c) = c_out c"
  "c_localSessionId (notify ev c) = c_localSessionId c" "c_queryActive (notify ev c) = c_queryActive c"
  "c_ticks (notify ev c) = c_ticks c" "c_pingCount (notify ev c) = c_pingCount c"
  "c_sessionMatcher (notify ev c) = c_sessionMatcher c"
  "c_fileNameMatcher (notify ev c) = c_fileNameMatcher c"
  "c_publishedFileCount (notify ev c) = c_publishedFileCount c"
  "c_lastTrafficTime (notify ev c) = c_lastTrafficTime c"
  "c_thread (notify ev c) = c_thread c" "c_firewalled (notify ev c) = c_firewalled c"
  by (simp_all add: notify_def)

lemma notify_events:
  "c_events (notify ev c) = (if c_listener c then c_events c @ [ev] else c_events c)"
  by (simp add: notify_def)

lemma Send_frame [simp]:
  "c_listener (SendToServer E m c) = c_listener c" "c_users (SendToServer E m c) = c_users c"
  "c_state (SendToServer E m c) = c_state c" "c_events (SendToServer E m c) = c_events c"
  "c_localSessionId (SendToServer E m c) = c_localSessionId c"
  "c_queryActive (SendToServer E m c) = c_queryActive c"
  "c_pingCount (SendToServer E m c) = c_pingCount c"
  "c_sessionMatcher (SendToServer E m c) = c_sessionMatcher c"
  "c_fileNameMatcher (SendToServer E m c) = c_fileNameMatcher c"
  "c_publishedFileCount (SendToServer E m c) = c_publishedFileCount c"
  "c_firewalled (SendToServer E m c) = c_firewalled c" "c_thread (SendToServer E m c) = c_thread c"
  by (simp_all add: SendToServer_def read_clock_def)

lemma Send_out: "c_out (SendToServer E m c) = c_out c @ (if accepts E m then [m] else [])"
  by (simp add: SendToServer_def read_clock_def)

lemma read_clock_frame [simp]:
  "c_listener (snd (read_clock E c)) = c_listener c" "c_users (snd (read_clock E c)) = c_users c"
  "c_state (snd (read_clock E c)) = c_state c" "c_events (snd (read_clock E c)) = c_events c"
  "c_out (snd (read_clock E c)) = c_out c"
  by (simp_all add: read_clock_def)

lemma Report_frame [simp]:
  "c_users (ReportToUser ty t c) = c_users c" "c_state (ReportToUser ty t c) = c_state c"
  "c_listener (ReportToUser ty t c) = c_listener c" "c_out (ReportToUser ty t c) = c_out c"
  by (simp_all add: ReportToUser_def)

lemma SetState_frame [simp]:
  "c_users (SetConnectionState s c) = c_users c" "c_state (SetConnectionState s c) = s"
  "c_listener (SetConnectionState s c) = c_listener c" "c_out (SetConnectionState s c) = c_out c"
  by (simp_all add: SetConnectionState_def)

lemma NotifyUser_frame [simp]:
  "c_users (NotifyUserUpdated sid b c) = c_users c" "c_state (NotifyUserUpdated sid b c) = c_state c"
  "c_listener (NotifyUserUpdated sid b c) = c_listener c" "c_out (NotifyUserUpdated sid b c) = c_out c"
  "c_localSessionId (NotifyUserUpdated sid b c) = c_localSessionId c"
  by (simp_all add: NotifyUserUpdated_def split: option.split)

subsection \<open>The listener's view\<close>

text \<open>
  What a front-end knows of the users that only ever hears the callbacks: an update files the user
  it carries, a departure forgets it, and the loss of the connection forgets everyone.
\<close>

fun view_step :: "conn_event \<Rightarrow> (string \<rightharpoonup> UserRecord) \<Rightarrow> (string \<rightharpoonup> UserRecord)" where
  "view_step (UserUpdated u isNew) v = v(u_sessionId u \<mapsto> u)"
| "view_step (UserLeft u) v = v(u_sessionId u := None)"
| "view_step (ConnectionStateChanged st) v = (if st = CONNECTION_DISCONNECTED then Map.empty else v)"
| "view_step _ v = v"

definition listener_view :: "conn_event list \<Rightarrow> (string \<rightharpoonup> UserRecord)" where
  "listener_view evs = fold view_step evs Map.empty"

lemma listener_view_snoc [simp]: "listener_view (evs @ [e]) = view_step e (listener_view evs)"
  by (simp add: listener_view_def)

lemma listener_view_Nil [simp]: "listener_view [] = Map.empty"
  by (simp add: listener_view_def)

definition conn_inv :: "connection \<Rightarrow> bool" where
  "conn_inv c \<longleftrightarrow> c_listener c \<and> reg.filed (c_users c) \<and>
     listener_view (c_events c) = FindUser (c_users c) \<and>
     (c_state c = CONNECTION_DISCONNECTED \<longrightarrow> c_users c = [])"

definition neutral :: "conn_event \<Rightarrow> bool" where
  "neutral ev \<longleftrightarrow> (\<forall>v. view_step ev v = v)"

lemma neutral_events [simp]:
  "neutral (LocalSessionIdAssigned a b)" "neutral (ChatMessageReceived cm)"
  "neutral (QueryResultAdded r)" "neutral (QueryResultRemoved a b)" "neutral QueryResultsCleared"
  "neutral (QuerySweepStateChanged b1)" "neutral (PingReplyReceived u n v)"
  by (simp_all add: neutral_def)

lemma conn_inv_notify [simp]: "neutral ev \<Longrightarrow> conn_inv c \<Longrightarrow> conn_inv (notify ev c)"
  by (simp add: conn_inv_def notify_events neutral_def)

lemma conn_inv_send [simp]: "conn_inv (SendToServer E m c) = conn_inv c"
  by (simp add: conn_inv_def)

lemma conn_inv_same:
  "conn_inv c \<Longrightarrow> c_listener c' = c_listener c \<Longrightarrow> c_users c' = c_users c \<Longrightarrow>
   c_state c' = c_state c \<Longrightarrow> c_events c' = c_events c \<Longrightarrow> conn_inv c'"
  by (simp add: conn_inv_def)

lemma conn_inv_report [simp]: "conn_inv c \<Longrightarrow> conn_inv (ReportToUser ty t c)"
  by (simp add: ReportToUser_def)

lemma conn_inv_up: "conn_inv c \<Longrightarrow> st \<noteq> CONNECTION_DISCONNECTED \<Longrightarrow> conn_inv (SetConnectionState st c)"
  by (auto simp: conn_inv_def SetConnectionState_def notify_events)

text \<open>Going down: users cleared first, then the state reported.\<close>

lemma conn_inv_down:
  assumes "c_listener c" "c_users c = []" "c_state c = CONNECTION_DISCONNECTED \<longrightarrow> listener_view (c_events c) = Map.empty"
  shows "conn_inv (SetConnectionState CONNECTION_DISCONNECTED c)"
  using assms by (auto simp: conn_inv_def SetConnectionState_def notify_events fun_eq_iff)

lemma conn_inv_fields:
  "conn_inv c \<Longrightarrow> c_listener c" "conn_inv c \<Longrightarrow> reg.filed (c_users c)"
  "conn_inv c \<Longrightarrow> listener_view (c_events c) = FindUser (c_users c)"
  "conn_inv c \<Longrightarrow> c_state c = CONNECTION_DISCONNECTED \<Longrightarrow> c_users c = []"
  by (simp_all add: conn_inv_def)

lemma read_version_ident [simp]: "u_sessionId (read_version m u) = u_sessionId u"
  by (simp add: read_version_def split: option.split)

lemma read_host_name_ident [simp]: "u_sessionId (read_host_name L p u) = u_sessionId u"
  by (simp add: read_host_name_def Let_def split: option.split)

lemma read_name_node_ident [simp]: "u_sessionId (read_name_node L p m u) = u_sessionId u"
  by (simp add: read_name_node_def Let_def)

text \<open>The outcomes of one node: unchanged and not reported, or reported under the same session ID.\<close>

definition node_outcome :: "UserRecord \<Rightarrow> bool \<times> UserRecord \<Rightarrow> bool" where
  "node_outcome u r \<longleftrightarrow> u_sessionId (snd r) = u_sessionId u \<and> (\<not> fst r \<longrightarrow> snd r = u)"

lemma node_outcome_True: "u_sessionId u' = u_sessionId u \<Longrightarrow> node_outcome u (True, u')"
  by (simp add: node_outcome_def)

lemma node_outcome_False: "node_outcome u (False, u)"
  by (simp add: node_outcome_def)

lemma node_outcome_if: "node_outcome u x \<Longrightarrow> node_outcome u y \<Longrightarrow> node_outcome u (if b then x else y)"
  by simp

lemma node_outcome_option:
  "(\<And>v. node_outcome u (f v)) \<Longrightarrow> node_outcome u (case r of Some v \<Rightarrow> f v | None \<Rightarrow> (False, u))"
  by (simp add: node_outcome_False split: option.split)

lemma node_outcome_pair:
  "(\<And>v w. node_outcome u (f v w)) \<Longrightarrow>
   node_outcome u (case (r1, r2) of (Some v, Some w) \<Rightarrow> f v w | _ \<Rightarrow> (False, u))"
  by (simp add: node_outcome_False split: option.split)

lemma apply_user_node_outcome: "node_outcome u (apply_user_node L p n m u)"
  unfolding apply_user_node_def
  by (intro node_outcome_if node_outcome_option node_outcome_pair node_outcome_True
      node_outcome_False) simp_all

lemma apply_user_node_ident: "u_sessionId (snd (apply_user_node L p n m u)) = u_sessionId u"
  using apply_user_node_outcome [of u L p n m] by (simp add: node_outcome_def)

lemma apply_user_node_unchanged:
  "\<not> fst (apply_user_node L p n m u) \<Longrightarrow> snd (apply_user_node L p n m u) = u"
  using apply_user_node_outcome [of u L p n m] by (simp add: node_outcome_def)

lemma conn_inv_user_node:
  assumes "conn_inv c" "c_state c \<noteq> CONNECTION_DISCONNECTED"
  shows "conn_inv (HandleUserNode L sid p m c)"
proof (cases "GetPathClause L USER_NAME_DEPTH p")
  case None
  then show ?thesis using assms by (simp add: HandleUserNode_def)
next
  case (Some nodeName)
  obtain isNew users where cr: "GetOrCreateUser sid (c_users c) = (isNew, users)" by fastforce
  have fu: "reg.filed users"
    using reg.filed_create [of "c_users c" sid] cr conn_inv_fields(2) [OF assms(1)] by simp
  have isnew: "isNew \<longleftrightarrow> FindUser (c_users c) sid = None"
    using reg.create_new [of sid "c_users c"] cr by simp
  have others: "FindUser users k = FindUser (c_users c) k" if "k \<noteq> sid" for k
    using reg.find_create [of sid "c_users c" k] cr that by simp
  obtain user where u: "FindUser users sid = Some user"
    using reg.find_create [of sid "c_users c" sid] cr by (cases "FindUser (c_users c) sid") auto
  obtain ch user' where a: "apply_user_node L p nodeName m user = (ch, user')" by fastforce
  have id': "u_sessionId user' = sid"
    using apply_user_node_ident [of L p nodeName m user] a u fu by (simp add: reg.filed_def)
  have filed': "reg.filed (UpdateUser sid (\<lambda>_. user') users)"
    using fu id' by (auto simp: reg.filed_def reg.find_update reg.okr_ops split: if_splits)
  have found': "FindUser (UpdateUser sid (\<lambda>_. user') users) = (FindUser (c_users c))(sid \<mapsto> user')"
    by (rule ext) (simp add: reg.find_update u others)
  define c1 where "c1 = c\<lparr>c_users := UpdateUser sid (\<lambda>_. user') users\<rparr>"
  have look: "FindUser (c_users c1) sid = Some user'" by (simp add: c1_def found')
  have eq: "HandleUserNode L sid p m c = (if ch \<or> isNew then notify (UserUpdated user' isNew) c1 else c1)"
    using Some cr u a look by (simp add: HandleUserNode_def NotifyUserUpdated_def c1_def)
  have c1: "c_listener c1" "reg.filed (c_users c1)" "c_state c1 \<noteq> CONNECTION_DISCONNECTED"
    "c_events c1 = c_events c" "FindUser (c_users c1) = (listener_view (c_events c))(sid \<mapsto> user')"
    using assms conn_inv_fields [OF assms(1)] filed' found' by (simp_all add: c1_def)
  show ?thesis
  proof (cases "ch \<or> isNew")
    case True
    with c1 eq id' show ?thesis by (simp add: conn_inv_def notify_events)
  next
    case False
    then have "user' = user" using apply_user_node_unchanged [of L p nodeName m user] a by simp
    moreover have "FindUser (c_users c) sid = Some user"
      using False isnew u reg.find_create [of sid "c_users c" sid] cr by simp
    ultimately have "FindUser (c_users c1) = listener_view (c_events c)"
      using c1(5) conn_inv_fields(3) [OF assms(1)] by (simp add: map_upd_triv)
    with False c1 eq show ?thesis by (simp add: conn_inv_def)
  qed
qed

lemma conn_inv_node_removed: "conn_inv c \<Longrightarrow> conn_inv (HandleNodeRemoved L p c)"
proof -
  assume inv: "conn_inv c"
  have "conn_inv (case RemoveUser sid (c_users c) of (None, _) \<Rightarrow> c
           | (Some departedUser, users) \<Rightarrow> notify (UserLeft departedUser) (c\<lparr>c_users := users\<rparr>))" for sid
  proof (cases "RemoveUser sid (c_users c)")
    case (Pair r users)
    show ?thesis
    proof (cases r)
      case (Some u)
      have "FindUser (c_users c) sid = Some u" using reg.drop_result [of sid "c_users c"] Pair Some by simp
      moreover from this have "u_sessionId u = sid"
        using conn_inv_fields(2) [OF inv] by (simp add: reg.filed_def)
      moreover have "FindUser users = (FindUser (c_users c))(sid := None)"
        using reg.find_drop [of sid "c_users c"] Pair by (auto simp: fun_eq_iff)
      moreover have "reg.filed users"
        using reg.filed_drop [OF conn_inv_fields(2) [OF inv], of sid] Pair by simp
      moreover have "c_users c \<noteq> []" using \<open>FindUser (c_users c) sid = Some u\<close> by auto
      ultimately show ?thesis using inv Pair Some by (auto simp: conn_inv_def notify_events)
    qed (use inv Pair in simp)
  qed
  then show ?thesis using inv by (simp add: HandleNodeRemoved_def Let_def split: option.split)
qed

subsection \<open>Every operation\<close>

text \<open>The calls a front-end can make, and the callbacks the transceiver thread makes.\<close>

datatype conn_op =
    OpConnect string uint16 | OpDisconnect | OpSetName string | OpSetStatus string
  | OpSetInstallId uint64
  | OpSendChat string string | OpSendPing string | OpStartQuery string string | OpStopQuery
  | OpSetFirewalled bool | OpSetPort int32 | OpPublish "SharedFile list" | OpUnpublish
  | OpPublishCount uint32 | OpIdle
  | CbConnected string | CbDisconnected | CbDetached | CbMessage message

fun run_op :: "muscle \<Rightarrow> conn_env \<Rightarrow> conn_op \<Rightarrow> connection \<Rightarrow> connection" where
  "run_op L E (OpConnect h p) c = snd (ConnectToServer E h p c)"
| "run_op L E OpDisconnect c = DisconnectFromServer c"
| "run_op L E (OpSetName n) c = SetLocalUserName L E n c"
| "run_op L E (OpSetStatus s) c = SetLocalUserStatus L E s c"
| "run_op L E (OpSetInstallId i) c = SetInstallId i c"
| "run_op L E (OpSendChat to t) c = SendChatText L E to t c"
| "run_op L E (OpSendPing to) c = SendPing L E to c"
| "run_op L E (OpStartQuery se fe) c = StartQuery L E se fe c"
| "run_op L E OpStopQuery c = StopQuery L E c"
| "run_op L E (OpSetFirewalled b) c = SetFirewalled L E b c"
| "run_op L E (OpSetPort p) c = SetAdvertisedPort L E p c"
| "run_op L E (OpPublish fs) c = PublishSharedFiles L E fs c"
| "run_op L E OpUnpublish c = UnpublishAllSharedFiles L E c"
| "run_op L E (OpPublishCount n) c = PublishSharedFileCount L E n c"
| "run_op L E OpIdle c = PerformIdleTasks L E c"
| "run_op L E (CbConnected a) c = SessionConnected L E a c"
| "run_op L E CbDisconnected c = SessionDisconnected c"
| "run_op L E CbDetached c = SessionDetached c"
| "run_op L E (CbMessage m) c = MessageReceived L E m c"

fun is_callback :: "conn_op \<Rightarrow> bool" where
  "is_callback (CbConnected _) = True"
| "is_callback CbDisconnected = True"
| "is_callback CbDetached = True"
| "is_callback (CbMessage _) = True"
| "is_callback _ = False"

text \<open>
  Any history of calls and callbacks. The transceiver delivers a message only while there is a
  session, that is not to a disconnected connection.
\<close>

inductive conn_reach :: "muscle \<Rightarrow> conn_env \<Rightarrow> connection \<Rightarrow> bool" for L E where
  conn_start: "conn_reach L E (SetListener True new_connection)"
| conn_op: "conn_reach L E c \<Longrightarrow>
    (\<forall>m. op = CbMessage m \<longrightarrow> c_state c \<noteq> CONNECTION_DISCONNECTED) \<Longrightarrow>
    conn_reach L E (run_op L E op c)"

lemma SetDataNodeValue_inv [simp]: "conn_inv (SetDataNodeValue L E n v c) = conn_inv c"
  by (simp add: SetDataNodeValue_def)

lemma PublishName_inv [simp]: "conn_inv (PublishLocalUserName L E c) = conn_inv c"
  by (simp add: PublishLocalUserName_def Let_def)

lemma PublishStatus_inv [simp]: "conn_inv (PublishLocalUserStatus L E c) = conn_inv c"
  by (simp add: PublishLocalUserStatus_def)

lemma conn_inv_updates [simp]:
  "conn_inv (c\<lparr>c_localUserName := a\<rparr>) = conn_inv c" "conn_inv (c\<lparr>c_localUserStatus := a\<rparr>) = conn_inv c"
  "conn_inv (c\<lparr>c_installId := i\<rparr>) = conn_inv c" "conn_inv (c\<lparr>c_queryActive := b\<rparr>) = conn_inv c"
  "conn_inv (c\<lparr>c_pingCount := n\<rparr>) = conn_inv c" "conn_inv (c\<lparr>c_sessionMatcher := a\<rparr>) = conn_inv c"
  "conn_inv (c\<lparr>c_fileNameMatcher := a\<rparr>) = conn_inv c" "conn_inv (c\<lparr>c_firewalled := b\<rparr>) = conn_inv c"
  "conn_inv (c\<lparr>c_advertisedPort := n\<rparr>) = conn_inv c" "conn_inv (c\<lparr>c_ticks := k\<rparr>) = conn_inv c"
  "conn_inv (c\<lparr>c_publishedFileCount := n\<rparr>) = conn_inv c" "conn_inv (c\<lparr>c_loginTime := t\<rparr>) = conn_inv c"
  "conn_inv (c\<lparr>c_serverAddress := a\<rparr>) = conn_inv c" "conn_inv (c\<lparr>c_serverPort := w\<rparr>) = conn_inv c"
  "conn_inv (c\<lparr>c_thread := b\<rparr>) = conn_inv c" "conn_inv (c\<lparr>c_localSessionId := a\<rparr>) = conn_inv c"
  "conn_inv (c\<lparr>c_hasPublishedIdentity := b\<rparr>) = conn_inv c"
  by (simp_all add: conn_inv_def)

lemma read_clock_inv [simp]: "conn_inv (snd (read_clock E c)) = conn_inv c"
  by (simp add: read_clock_def)

lemma publish_loop_inv [simp]: "conn_inv c \<Longrightarrow> conn_inv (publish_loop L E p fs b n c)"
proof (induction L E p fs b n c rule: publish_loop.induct)
  case (2 L E p f fs b n c)
  then show ?case by (cases b) (simp_all add: Let_def)
qed (simp split: option.split)

lemma conn_inv_empty_users:
  assumes "conn_inv c"
  shows "c_listener c" "c_state c = CONNECTION_DISCONNECTED \<Longrightarrow> listener_view (c_events c) = Map.empty"
  using assms by (auto simp: conn_inv_def fun_eq_iff)

lemma Disconnect_inv: "conn_inv c \<Longrightarrow> conn_inv (DisconnectFromServer c)"
proof -
  assume inv: "conn_inv c"
  let ?c1 = "c\<lparr>c_thread := False, c_users := ClearUsers (c_users c), c_localSessionId := [],
               c_hasPublishedIdentity := False, c_loginTime := 0, c_queryActive := False\<rparr>"
  have n: "listener_view (c_events (notify ev c')) = listener_view (c_events c')" if "neutral ev" for ev c'
    using that by (simp add: notify_events neutral_def)
  show ?thesis
  proof (cases "c_state c = CONNECTION_DISCONNECTED")
    case True
    then show ?thesis using inv conn_inv_empty_users [OF inv]
      by (simp add: DisconnectFromServer_def ClearUsers_def conn_inv_def n fun_eq_iff)
  next
    case False
    then show ?thesis using conn_inv_empty_users(1) [OF inv]
      by (simp add: DisconnectFromServer_def ClearUsers_def Let_def conn_inv_down)
  qed
qed

lemma SessionDisconnected_inv: "conn_inv c \<Longrightarrow> conn_inv (SessionDisconnected c)"
  unfolding SessionDisconnected_def Let_def ClearUsers_def
  by (rule conn_inv_down)
    (auto simp: ReportToUser_def notify_events conn_inv_def fun_eq_iff)

lemma SessionDetached_inv: "conn_inv c \<Longrightarrow> conn_inv (SessionDetached c)"
  unfolding SessionDetached_def ClearUsers_def
  using conn_inv_down [of "c\<lparr>c_users := [], c_localSessionId := [], c_hasPublishedIdentity := False\<rparr>"]
  by (simp add: conn_inv_def)

lemma Connect_inv: "conn_inv c \<Longrightarrow> conn_inv (snd (ConnectToServer E h p c))"
  using Disconnect_inv [of c]
  by (simp add: ConnectToServer_def Let_def conn_inv_up split: option.split)

lemma SessionConnected_inv: "conn_inv c \<Longrightarrow> conn_inv (SessionConnected L E a c)"
  by (simp add: SessionConnected_def read_clock_def SubscribeToUsers_def RequestSessionParameters_def
      conn_inv_up)

lemma HandleFileNode_inv [simp]: "conn_inv c \<Longrightarrow> conn_inv (HandleFileNode L sid p m c)"
  by (simp add: HandleFileNode_def split: option.split)

lemma HandleFileNode_state [simp]: "c_state (HandleFileNode L sid p m c) = c_state c"
  by (simp add: HandleFileNode_def split: option.split)

lemma HandleUserNode_state [simp]: "c_state (HandleUserNode L sid p m c) = c_state c"
  by (simp add: HandleUserNode_def Let_def split: option.split prod.split)

lemma HandleNodeRemoved_state [simp]: "c_state (HandleNodeRemoved L p c) = c_state c"
  by (simp add: HandleNodeRemoved_def Let_def split: option.split prod.split)

text \<open>A handler that keeps the invariant while connected, and does not change the state.\<close>

definition keeps :: "(connection \<Rightarrow> connection) \<Rightarrow> bool" where
  "keeps f \<longleftrightarrow> (\<forall>c. c_state (f c) = c_state c \<and>
     (conn_inv c \<longrightarrow> c_state c \<noteq> CONNECTION_DISCONNECTED \<longrightarrow> conn_inv (f c)))"

lemma keeps_fold: "(\<And>x. keeps (f x)) \<Longrightarrow> keeps (fold f xs)"
proof (induction xs)
  case (Cons x xs)
  then show ?case by (simp add: keeps_def)
qed (simp add: keeps_def)

lemma keeps_removed: "keeps (HandleNodeRemoved L p)"
  by (simp add: keeps_def conn_inv_node_removed)

lemma keeps_updated: "keeps (HandleNodeUpdated L p m)"
  by (simp add: keeps_def HandleNodeUpdated_def Let_def conn_inv_user_node)

lemma keeps_items: "keeps (HandleDataItems L m)"
proof -
  have "keeps (fold (\<lambda>n c. case find_message m n of Some nd \<Rightarrow> HandleNodeUpdated L n nd c | None \<Rightarrow> c) ns)" for ns
  proof (rule keeps_fold)
    fix n show "keeps (\<lambda>c. case find_message m n of Some nd \<Rightarrow> HandleNodeUpdated L n nd c | None \<Rightarrow> c)"
      using keeps_updated by (cases "find_message m n") (simp_all add: keeps_def)
  qed
  moreover have "keeps (fold (HandleNodeRemoved L) ps)" for ps
    by (rule keeps_fold) (rule keeps_removed)
  ultimately show ?thesis by (simp add: keeps_def HandleDataItems_def)
qed

lemma keeps_message: "keeps (MessageReceived L E m)"
proof -
  have "keeps (HandleParameters L m)" "keeps (HandleQueryPong m)" "keeps (HandleChatText m)"
    "keeps (HandlePing L E m)" "keeps (HandlePong E m)"
    by (simp_all add: keeps_def HandleParameters_def HandleQueryPong_def HandleChatText_def
        HandlePing_def HandlePong_def read_clock_def Let_def split: option.split)
  then show ?thesis using keeps_items by (simp add: keeps_def MessageReceived_def)
qed

lemma conn_inv_op:
  assumes "conn_inv c" "\<forall>m. op = CbMessage m \<longrightarrow> c_state c \<noteq> CONNECTION_DISCONNECTED"
  shows "conn_inv (run_op L E op c)"
  using assms
proof (cases op)
  case (OpStartQuery se fe)
  then show ?thesis using assms by (simp add: StartQuery_def StopQuery_def Let_def)
next
  case (CbMessage m)
  then show ?thesis using assms keeps_message [of L E m] by (simp add: keeps_def)
qed (simp_all add: Connect_inv Disconnect_inv SessionConnected_inv SessionDisconnected_inv
    SessionDetached_inv SetLocalUserName_def SetLocalUserStatus_def SetInstallId_def
    SendChatText_def SendPing_def StopQuery_def SetFirewalled_def SetAdvertisedPort_def
    PublishSharedFiles_def UnpublishAllSharedFiles_def PublishSharedFileCount_def
    PerformIdleTasks_def read_clock_def Let_def)

lemma conn_reach_inv: "conn_reach L E c \<Longrightarrow> conn_inv c"
proof (induction rule: conn_reach.induct)
  case conn_start
  then show ?case
    by (simp add: conn_inv_def SetListener_def new_connection_def fun_eq_iff)
next
  case (conn_op c op)
  then show ?case using conn_inv_op by simp
qed

subsection \<open>Properties: the user list\<close>

text \<open>
  C8. For every history of calls, callbacks and messages, a listener that only replays what it was
  told knows exactly the users the connection knows, with their complete current state; each
  record is filed under its own session ID; and a disconnected connection knows nobody.
\<close>

theorem user_list_is_view:
  assumes "conn_reach L E c"
  shows "listener_view (c_events c) = FindUser (c_users c) \<and> reg.filed (c_users c) \<and>
    (c_state c = CONNECTION_DISCONNECTED \<longrightarrow> GetUserCount (c_users c) = 0)"
  using conn_reach_inv [OF assms] by (simp add: conn_inv_def GetUserCount_def)

definition demo_net :: conn_env where
  "demo_net = \<lparr> clock = (\<lambda>k. of_nat (100 + k)), accepts = (\<lambda>_. True), start_thread = None,
                connect_session = (\<lambda>_ _. None) \<rparr>"

definition name_update :: "string \<Rightarrow> string \<Rightarrow> message" where
  "name_update path n = add_message (new_message (PR_RESULT_DATAITEMS ref_muscle)) path
     (add_string (new_message 0) BESHARE_FIELD_NAME n)"

theorem user_list_is_view_witness:
  "let c = run_op ref_muscle demo_net (CbMessage (name_update ''/h/7/beshare/name'' ''ann''))
             (run_op ref_muscle demo_net (OpConnect ''s'' 0) (SetListener True new_connection))
   in map_option u_userName (listener_view (c_events c) ''7'') = Some ''ann''"
proof -
  let ?c1 = "run_op ref_muscle demo_net (OpConnect ''s'' 0) (SetListener True new_connection)"
  let ?c2 = "run_op ref_muscle demo_net (CbMessage (name_update ''/h/7/beshare/name'' ''ann'')) ?c1"
  have up: "c_state ?c1 \<noteq> CONNECTION_DISCONNECTED" by code_simp
  have "conn_reach ref_muscle demo_net ?c1" by (rule conn_op [OF conn_start]) simp
  then have "conn_reach ref_muscle demo_net ?c2" by (rule conn_op) (simp add: up del: run_op.simps)
  from user_list_is_view [OF this] have "listener_view (c_events ?c2) = FindUser (c_users ?c2)" by simp
  moreover have "map_option u_userName (FindUser (c_users ?c2) ''7'') = Some ''ann''" by code_simp
  ultimately show ?thesis by (simp only: Let_def)
qed

subsection \<open>Properties: conversations\<close>

lemma publish_loop_connected: "c_state (publish_loop L E p fs b n c) = c_state c"
proof (induction L E p fs b n c rule: publish_loop.induct)
  case (2 L E p f fs b n c)
  then show ?case by (cases b) (simp_all add: Let_def)
qed (simp split: option.split)

lemma Disconnect_out [simp]: "c_out (DisconnectFromServer c) = c_out c"
  by (simp add: DisconnectFromServer_def Let_def)

lemma Connect_out: "c_out (snd (ConnectToServer E h p c)) = c_out c"
  by (simp add: ConnectToServer_def Let_def split: option.split)

text \<open>
  Nothing the front-end calls puts a message on the wire while the connection is not up, whatever
  the call: publishing, chatting, querying, pinging, the keepalive, all are silent.
\<close>

theorem silent_unless_connected:
  assumes "\<not> IsConnected c" "\<not> is_callback op"
  shows "c_out (run_op L E op c) = c_out c"
  using assms
  by (cases op) (simp_all add: Connect_out SetLocalUserName_def SetLocalUserStatus_def
      SetInstallId_def SendChatText_def SendPing_def StartQuery_def StopQuery_def SetFirewalled_def
      SetAdvertisedPort_def PublishSharedFiles_def UnpublishAllSharedFiles_def
      PublishSharedFileCount_def PerformIdleTasks_def Let_def)

theorem silent_unless_connected_witness:
  "c_out (run_op ref_muscle demo_net (OpSendChat ''*'' ''hi'') new_connection) = []"
  using silent_unless_connected [of new_connection "OpSendChat ''*'' ''hi''" ref_muscle demo_net]
  by (simp add: new_connection_def)

lemma chat_fields:
  assumes "keys_law L"
  shows "what (chat_text_message L sid to t) = NET_CLIENT_NEW_CHAT_TEXT"
    "find_string (chat_text_message L sid to t) BESHARE_FIELD_SESSION = Some sid"
    "find_string (chat_text_message L sid to t) BESHARE_FIELD_TEXT = Some t"
    "has_name (chat_text_message L sid to t) BESHARE_FIELD_PRIVATE \<longleftrightarrow> to \<noteq> ''*''"
    "find_string (chat_text_message L sid to t) (PR_NAME_KEYS L) = Some (MakeSessionTargetPath to)"
  using assms by (auto simp: chat_text_message_def Let_def finds keys_law_def item_at_def)

lemma received_client_message:
  assumes "label_law L" "what m \<in> {2, 5, 6}"
  shows "MessageReceived L E m c =
    (if what m = 2 then HandleChatText m c else if what m = 5 then HandlePing L E m c
     else HandlePong E m c)"
  using assms by (auto simp: MessageReceived_def label_law_def)

text \<open>
  C14. A chat line arrives as it was sent. The one message \<open>SendChatText\<close> emits is addressed to the
  target; the receiver reports exactly one line, from the sender's session under the name it knows
  for it, private iff it was directed, an action with the prefix removed iff it starts with
  \<open>/me \<close>, unchanged otherwise; and the copy the server relays to the sender itself is dropped.
\<close>

theorem chat_round_trip:
  assumes "keys_law L" "label_law L" "IsConnected a" "t \<noteq> []" "\<forall>m. accepts E m"
    "c_listener b" "c_localSessionId b \<noteq> c_localSessionId a"
  shows "\<exists>m. c_out (SendChatText L E to t a) = c_out a @ [m] \<and>
    find_string m (PR_NAME_KEYS L) = Some (MakeSessionTargetPath to) \<and>
    MessageReceived L E m (SendChatText L E to t a) = SendChatText L E to t a \<and>
    c_events (MessageReceived L E m b) = c_events b @ [ChatMessageReceived
      \<lparr> msg_type = LOG_REMOTE_USER_CHAT_MESSAGE, senderSessionId = c_localSessionId a,
        senderName = GetDisplayNameForSession (c_users b) (c_localSessionId a),
        msg_text = (if starts_with t ''/me '' then drop 4 t else t), isPrivate = (to \<noteq> ''*''),
        isAction = starts_with t ''/me '', isFromLocalUser = False, isHighlighted = False \<rparr>]"
proof -
  let ?m = "chat_text_message L (c_localSessionId a) to t"
  note f = chat_fields [OF assms(1), of "c_localSessionId a" to t]
  have recv: "MessageReceived L E ?m c = HandleChatText ?m c" for c
    using received_client_message [OF assms(2), of ?m] f(1) by simp
  have "c_out (SendChatText L E to t a) = c_out a @ [?m]"
    using assms(3-5) by (simp add: SendChatText_def Send_out)
  moreover have "MessageReceived L E ?m (SendChatText L E to t a) = SendChatText L E to t a"
    unfolding recv using f assms(3) by (simp add: HandleChatText_def SendChatText_def)
  moreover have "c_events (MessageReceived L E ?m b) = c_events b @ [ChatMessageReceived
      \<lparr> msg_type = LOG_REMOTE_USER_CHAT_MESSAGE, senderSessionId = c_localSessionId a,
        senderName = GetDisplayNameForSession (c_users b) (c_localSessionId a),
        msg_text = (if starts_with t ''/me '' then drop 4 t else t), isPrivate = (to \<noteq> ''*''),
        isAction = starts_with t ''/me '', isFromLocalUser = False, isHighlighted = False \<rparr>]"
    unfolding recv using f assms(6,7)
    by (simp add: HandleChatText_def notify_events substring_from_def del: prefix_code)
  ultimately show ?thesis using f(5) by blast
qed

definition demo_conn :: "string \<Rightarrow> connection" where
  "demo_conn sid = new_connection\<lparr>c_listener := True, c_state := CONNECTION_CONNECTED,
     c_localSessionId := sid\<rparr>"

lemma demo_conn_simps [simp]:
  "c_listener (demo_conn i)" "c_state (demo_conn i) = CONNECTION_CONNECTED"
  "c_localSessionId (demo_conn i) = i" "c_out (demo_conn i) = []" "c_events (demo_conn i) = []"
  "c_users (demo_conn i) = []" "c_ticks (demo_conn i) = 0"
  by (simp_all add: demo_conn_def new_connection_def)

lemma demo_net_simps [simp]: "accepts demo_net m" "clock demo_net k = of_nat (100 + k)"
  by (simp_all add: demo_net_def)

theorem chat_round_trip_witness:
  "\<exists>m. c_out (SendChatText ref_muscle demo_net ''2'' ''/me waves'' (demo_conn ''1'')) = [m] \<and>
    c_events (MessageReceived ref_muscle demo_net m (demo_conn ''2'')) = [ChatMessageReceived
      \<lparr> msg_type = LOG_REMOTE_USER_CHAT_MESSAGE, senderSessionId = ''1'', senderName = ''1'',
        msg_text = ''waves'', isPrivate = True, isAction = True, isFromLocalUser = False,
        isHighlighted = False \<rparr>]"
  using chat_round_trip [of ref_muscle "demo_conn ''1''" "''/me waves''" demo_net "demo_conn ''2''" "''2''"]
  by (auto simp: GetDisplayNameForSession_def)

lemma ping_fields:
  assumes "keys_law L"
  shows "what (add_int64 (add_string (add_string (new_message NET_CLIENT_PING) (PR_NAME_KEYS L) k)
           BESHARE_FIELD_SESSION sid) BESHARE_FIELD_WHEN t) = NET_CLIENT_PING"
    "find_string (add_int64 (add_string (add_string (new_message NET_CLIENT_PING) (PR_NAME_KEYS L) k)
       BESHARE_FIELD_SESSION sid) BESHARE_FIELD_WHEN t) BESHARE_FIELD_SESSION = Some sid"
    "find_int64 (add_int64 (add_string (add_string (new_message NET_CLIENT_PING) (PR_NAME_KEYS L) k)
       BESHARE_FIELD_SESSION sid) BESHARE_FIELD_WHEN t) BESHARE_FIELD_WHEN = Some t"
  using assms by (auto simp: finds keys_law_def item_at_def)

lemma pong_fields:
  assumes "keys_law L"
  shows "what (pong_reply L sid to now onl m) = NET_CLIENT_PONG"
    "find_string (pong_reply L sid to now onl m) BESHARE_FIELD_SESSION = Some sid"
    "find_int64 (pong_reply L sid to now onl m) BESHARE_FIELD_WHEN = find_int64 m BESHARE_FIELD_WHEN"
    "find_string (pong_reply L sid to now onl m) BESHARE_FIELD_LEGACY_VERSION = Some ''HiTuxShare v0.1.0''"
    "find_string (pong_reply L sid to now onl m) (PR_NAME_KEYS L) = Some (MakeSessionTargetPath to)"
  using assms by (auto simp: pong_reply_def Let_def finds keys_law_def item_at_def)

text \<open>
  A ping comes back: whoever receives the message \<open>SendPing\<close> emits answers it to its sender, with
  its own session and version and the time stamp unaltered, and the sender then reports one reply,
  naming the peer (or a blank record with its session ID, if unknown) and the time between its two
  clock readings.
\<close>

theorem ping_round_trip:
  assumes "keys_law L" "label_law L" "IsConnected a" "\<forall>m. accepts E m" "\<forall>m. accepts E' m" "c_listener a"
  shows "\<exists>ping pong. c_out (SendPing L E to a) = c_out a @ [ping] \<and>
    c_out (MessageReceived L E' ping b) = c_out b @ [pong] \<and>
    find_string pong (PR_NAME_KEYS L) = Some (MakeSessionTargetPath (c_localSessionId a)) \<and>
    c_events (MessageReceived L E pong (SendPing L E to a)) = c_events a @ [PingReplyReceived
      (case FindUser (c_users a) (c_localSessionId b) of Some u \<Rightarrow> u
       | None \<Rightarrow> empty_user\<lparr>u_sessionId := c_localSessionId b\<rparr>)
      (clock E (c_ticks a + 2) - clock E (c_ticks a)) ''HiTuxShare v0.1.0'']"
proof -
  let ?ping = "add_int64 (add_string (add_string (new_message NET_CLIENT_PING) (PR_NAME_KEYS L)
    (MakeSessionTargetPath to)) BESHARE_FIELD_SESSION (c_localSessionId a)) BESHARE_FIELD_WHEN (clock E (c_ticks a))"
  let ?now = "clock E' (c_ticks b)"
  let ?pong = "pong_reply L (c_localSessionId b) (c_localSessionId a) ?now
    (if c_loginTime b > 0 then ?now - c_loginTime b else 0) ?ping"
  note pi = ping_fields [OF assms(1), of "MakeSessionTargetPath to" "c_localSessionId a" "clock E (c_ticks a)"]
  note po = pong_fields [OF assms(1), of "c_localSessionId b" "c_localSessionId a" ?now _ ?ping]
  have 1: "MessageReceived L E' ?ping b = HandlePing L E' ?ping b"
    using received_client_message [OF assms(2), of ?ping] pi(1) by simp
  have 2: "MessageReceived L E ?pong c = HandlePong E ?pong c" for c
    using received_client_message [OF assms(2), of ?pong] po(1) by simp
  have "c_out (SendPing L E to a) = c_out a @ [?ping]"
    using assms(3,4) by (simp add: SendPing_def read_clock_def Send_out)
  moreover have "c_out (MessageReceived L E' ?ping b) = c_out b @ [?pong]"
    unfolding 1 HandlePing_def using pi assms(5) by (simp add: read_clock_def Send_out)
  moreover have "c_events (MessageReceived L E ?pong (SendPing L E to a)) =
     c_events a @ [PingReplyReceived
      (case FindUser (c_users a) (c_localSessionId b) of Some u \<Rightarrow> u
       | None \<Rightarrow> empty_user\<lparr>u_sessionId := c_localSessionId b\<rparr>)
      (clock E (c_ticks a + 2) - clock E (c_ticks a)) ''HiTuxShare v0.1.0'']"
    unfolding 2 HandlePong_def using po pi assms(3,4,6)
    by (simp add: SendPing_def read_clock_def SendToServer_def notify_def Let_def)
  ultimately show ?thesis using po(5) by blast
qed

theorem ping_round_trip_witness:
  "\<exists>ping pong. c_out (SendPing ref_muscle demo_net ''2'' (demo_conn ''1'')) = [ping] \<and>
    c_out (MessageReceived ref_muscle demo_net ping (demo_conn ''2'')) = [pong] \<and>
    c_events (MessageReceived ref_muscle demo_net pong (SendPing ref_muscle demo_net ''2'' (demo_conn ''1''))) =
      [PingReplyReceived (empty_user\<lparr>u_sessionId := ''2''\<rparr>) 2 ''HiTuxShare v0.1.0'']"
  using ping_round_trip [of ref_muscle "demo_conn ''1''" demo_net demo_net "''2''" "demo_conn ''2''"]
  by auto

subsection \<open>Properties: node paths and users\<close>

lemma extract_session:
  assumes "path_law L" "list_all is_clause (h # sid # rest)"
  shows "ExtractSessionId L (make_path (h # sid # rest)) = sid"
proof -
  have "GetPathClause L (Suc 1) (make_path (h # sid # rest)) = Some (sid @ make_path rest)"
    using path_clause [OF assms, of 1] by simp
  moreover have "CHR ''/'' \<notin> set sid" using assms(2) by (simp add: is_clause_def)
  ultimately show ?thesis
    by (cases rest) (simp_all add: ExtractSessionId_def Let_def eval_nat_numeral)
qed

lemma user_node_clause:
  assumes "path_law L" "list_all is_clause (h # sid # b # n # rest)"
  shows "GetPathClause L USER_NAME_DEPTH (make_path (h # sid # b # n # rest)) = Some (n @ make_path rest)"
  using path_clause [OF assms, of 3] by (simp add: eval_nat_numeral)

lemma is_clause_simps [simp]:
  "is_clause ''beshare''" "is_clause ''name''" "is_clause ''files''" "is_clause ''fires''"
  by (simp_all add: is_clause_def)

text \<open>
  A session whose own node comes back is kept out of the user list only once the server has told
  us our session ID. The connection subscribes before it asks for that ID, so a name node of our
  own that is delivered first enters the list, and learning the ID afterwards does not take it out;
  from then on every further update of our own nodes is ignored, so the stale entry stays.
\<close>

theorem own_session_entry:
  assumes "path_law L" "is_clause h" "is_clause sid" "c_localSessionId c \<noteq> sid"
    "find_string params (PR_NAME_SESSION_ROOT L) = Some (make_path [h, sid])"
  shows "let p = make_path [h, sid, ''beshare'', ''name''];
             c1 = HandleNodeUpdated L p m c; c2 = HandleParameters L params c1
         in c_localSessionId c2 = sid \<and> FindUser (c_users c2) sid \<noteq> None \<and>
            HandleNodeUpdated L p m' c2 = c2"
proof -
  let ?p = "make_path [h, sid, ''beshare'', ''name'']"
  have cl: "list_all is_clause [h, sid, ''beshare'', ''name'']" using assms by simp
  have d: "GetPathDepth L ?p = 4" using path_depth [OF assms(1) cl] by simp
  have e: "ExtractSessionId L ?p = sid" using extract_session [OF assms(1) cl] .
  have sid: "sid \<noteq> []" using assms(3) by (simp add: is_clause_def)
  have n: "GetPathClause L USER_NAME_DEPTH ?p = Some ''name''"
    using user_node_clause [OF assms(1) cl] by simp
  have upd: "HandleNodeUpdated L ?p m'' k = (if sid = c_localSessionId k then k else HandleUserNode L sid ?p m'' k)"
    for m'' k using d e sid by (simp add: HandleNodeUpdated_def)
  let ?c1 = "HandleNodeUpdated L ?p m c"
  have c1: "?c1 = HandleUserNode L sid ?p m c" using upd assms(4) by auto
  have listed: "FindUser (c_users ?c1) sid \<noteq> None"
  proof -
    obtain isNew users where cr: "GetOrCreateUser sid (c_users c) = (isNew, users)" by fastforce
    obtain u where u: "FindUser users sid = Some u"
      using reg.find_create [of sid "c_users c" sid] cr by (cases "FindUser (c_users c) sid") auto
    obtain ch u' where a: "apply_user_node L ?p ''name'' m u = (ch, u')" by fastforce
    have "c_users ?c1 = UpdateUser sid (\<lambda>_. u') users"
      unfolding c1 using n cr u a by (simp add: HandleUserNode_def Let_def del: make_path_simps)
    then show ?thesis using u by (simp add: reg.find_update)
  qed
  have root: "make_path [h, sid] = (CHR ''/'' # h) @ CHR ''/'' # sid" by simp
  have "CHR ''/'' \<notin> set sid" using assms(3) by (simp add: is_clause_def)
  then have last: "last_index_of (CHR ''/'') (make_path [h, sid]) = int (length (CHR ''/'' # h))"
    unfolding root by (rule last_index_of_append)
  then have id2: "c_localSessionId (HandleParameters L params ?c1) = sid"
    using assms(5) unfolding root by (simp add: HandleParameters_def substring_from_def nat_add_distrib)
  have "c_users (HandleParameters L params ?c1) = c_users ?c1"
    by (simp add: HandleParameters_def Let_def split: option.split)
  with listed id2 show ?thesis by (simp only: Let_def upd) simp
qed

definition demo_params :: message where
  "demo_params = add_string (new_message (PR_RESULT_PARAMETERS ref_muscle))
     (PR_NAME_SESSION_ROOT ref_muscle) ''/h/7''"

theorem own_session_entry_witness:
  "let c1 = HandleNodeUpdated ref_muscle ''/h/7/beshare/name'' (new_message 0) (demo_conn []);
       c2 = HandleParameters ref_muscle demo_params c1
   in c_localSessionId c2 = ''7'' \<and> FindUser (c_users c2) ''7'' \<noteq> None"
proof -
  have "find_string demo_params (PR_NAME_SESSION_ROOT ref_muscle) = Some (make_path [''h'', ''7''])"
    by (simp add: demo_params_def finds)
  then show ?thesis
    using own_session_entry [of ref_muscle "''h''" "''7''" "demo_conn []" demo_params "new_message 0"]
    by (simp add: is_clause_def Let_def)
qed

text \<open>
  Users leave in either of the two shapes the server reports: the removal of the session node and
  the removal of its name node both drop the record and announce its last state, once; a second
  removal of the same user is silent, and the removal of any other leaf changes nothing.
\<close>

theorem user_departure:
  assumes "path_law L" "is_clause h" "is_clause sid" "is_clause leaf" "c_listener c"
    "FindUser (c_users c) sid = Some u" "p \<in> {[h, sid], [h, sid, ''beshare'', ''name'']}"
  shows "let c' = HandleNodeRemoved L (make_path p) c
         in FindUser (c_users c') = (FindUser (c_users c))(sid := None) \<and>
            c_events c' = c_events c @ [UserLeft u] \<and>
            HandleNodeRemoved L (make_path p) c' = c' \<and>
            (\<not> starts_with leaf ''name'' \<longrightarrow> HandleNodeRemoved L (make_path [h, sid, ''beshare'', leaf]) c = c)"
proof -
  have cl: "list_all is_clause p" "list_all is_clause [h, sid, ''beshare'', leaf]"
    using assms(2-4,7) by auto
  have e: "ExtractSessionId L (make_path p) = sid"
    using assms(7) extract_session [OF assms(1), of h sid] cl(1) by (auto simp del: make_path_simps)
  have sid: "sid \<noteq> []" using assms(3) by (simp add: is_clause_def)
  have gone: "HandleNodeRemoved L (make_path p) k =
      (case RemoveUser sid (c_users k) of (None, _) \<Rightarrow> k
       | (Some d, us) \<Rightarrow> notify (UserLeft d) (k\<lparr>c_users := us\<rparr>))" for k
  proof (cases "p = [h, sid]")
    case True
    with path_depth [OF assms(1) cl(1)] have "GetPathDepth L (make_path p) = 2" by simp
    then show ?thesis using e sid by (simp add: HandleNodeRemoved_def)
  next
    case False
    then have p: "p = [h, sid, ''beshare'', ''name'']" using assms(7) by simp
    then have "GetPathDepth L (make_path p) = 4" using path_depth [OF assms(1) cl(1)] by simp
    moreover have "GetPathClause L USER_NAME_DEPTH (make_path p) = Some ''name''"
      using user_node_clause [OF assms(1) cl(1) [unfolded p]] p by simp
    ultimately show ?thesis using e sid by (simp add: HandleNodeRemoved_def)
  qed
  obtain us where r: "RemoveUser sid (c_users c) = (Some u, us)"
    using reg.drop_result [of sid "c_users c"] assms(6) by (cases "RemoveUser sid (c_users c)") simp
  have us: "FindUser us = (FindUser (c_users c))(sid := None)"
    using reg.find_drop [of sid "c_users c"] r by (simp add: fun_eq_iff)
  then have r2: "fst (RemoveUser sid us) = None" using reg.drop_result [of sid us] by simp
  have other: "HandleNodeRemoved L (make_path [h, sid, ''beshare'', leaf]) c = c"
    if "\<not> starts_with leaf ''name''"
    using path_depth [OF assms(1) cl(2)] user_node_clause [OF assms(1) cl(2)] that
    by (simp add: HandleNodeRemoved_def del: prefix_code)
  show ?thesis using r us r2 other assms(5)
    by (auto simp: gone notify_def Let_def simp del: make_path_simps prefix_code split: prod.splits option.splits)
qed

theorem user_departure_witness:
  "c_events (HandleNodeRemoved ref_muscle ''/h/7''
     ((demo_conn ''1'')\<lparr>c_users := [(''7'', empty_user\<lparr>u_sessionId := ''7''\<rparr>)]\<rparr>)) =
     [UserLeft (empty_user\<lparr>u_sessionId := ''7''\<rparr>)]"
  using user_departure [of ref_muscle "''h''" "''7''" "''x''"
      "(demo_conn ''1'')\<lparr>c_users := [(''7'', empty_user\<lparr>u_sessionId := ''7''\<rparr>)]\<rparr>"
      "empty_user\<lparr>u_sessionId := ''7''\<rparr>" "[''h'', ''7'']"]
  by (simp add: is_clause_def Let_def FindUser_def demo_conn_def new_connection_def)

subsection \<open>Properties: order of node updates\<close>

text \<open>The leaves that carry a user's state.\<close>

datatype user_leaf = LeafName | LeafStatus | LeafUploads | LeafBandwidth | LeafFileCount

fun leaf_text :: "user_leaf \<Rightarrow> string" where
  "leaf_text LeafName = ''name''"
| "leaf_text LeafStatus = ''userstatus''"
| "leaf_text LeafUploads = ''uploadstats''"
| "leaf_text LeafBandwidth = ''bandwidth''"
| "leaf_text LeafFileCount = ''filecount''"

definition leaf_update :: "muscle \<Rightarrow> string \<Rightarrow> user_leaf \<Rightarrow> message \<Rightarrow> UserRecord \<Rightarrow> UserRecord" where
  "leaf_update L p lf m u = snd (apply_user_node L p (leaf_text lf) m u)"

lemma leaf_update_simps:
  "leaf_update L p LeafName m u = read_name_node L p m u"
  "leaf_update L p LeafStatus m u = u\<lparr>u_userStatus := found_or (u_userStatus u) (find_string m ''userstatus'')\<rparr>"
  "leaf_update L p LeafUploads m u =
     (case (find_int32 m ''cur'', find_int32 m ''max'') of
        (Some a, Some b) \<Rightarrow> u\<lparr>u_uploadsCurrent := a, u_uploadsMax := b\<rparr> | _ \<Rightarrow> u)"
  "leaf_update L p LeafBandwidth m u =
     (case (find_string m ''label'', find_int32 m ''bps'') of
        (Some a, Some b) \<Rightarrow> u\<lparr>u_bandwidthLabel := a, u_bandwidthBitsPerSecond := b\<rparr> | _ \<Rightarrow> u)"
  "leaf_update L p LeafFileCount m u = u\<lparr>u_fileCount := found_or (u_fileCount u) (find_int32 m ''filecount'')\<rparr>"
  by (simp_all add: leaf_update_def apply_user_node_def split: option.split)

lemma read_version_fields [simp]:
  "u_userStatus (read_version m u) = u_userStatus u" "u_fileCount (read_version m u) = u_fileCount u"
  by (simp_all add: read_version_def split: option.split)

lemma read_host_fields [simp]:
  "u_userStatus (read_host_name L p u) = u_userStatus u" "u_fileCount (read_host_name L p u) = u_fileCount u"
  by (simp_all add: read_host_name_def Let_def split: option.split)

lemma read_name_fields [simp]:
  "u_userStatus (read_name_node L p m u) = u_userStatus u" "u_fileCount (read_name_node L p m u) = u_fileCount u"
  by (simp_all add: read_name_node_def Let_def)

text \<open>An update of a field the name node does not carry passes through reading one.\<close>

lemma read_name_node_comm:
  assumes "\<And>v. read_version m (g v) = g (read_version m v)"
    "\<And>v. read_host_name L p (g v) = g (read_host_name L p v)"
    "\<And>v x. (g v)\<lparr>u_userName := x\<rparr> = g (v\<lparr>u_userName := x\<rparr>)"
    "\<And>v a b d e f h. (g v)\<lparr>u_port := a, u_installId := b, u_isBot := d, u_supportsPartialHashing := e,
        u_supportsSsl := f, u_supportsRanges := h\<rparr> = g (v\<lparr>u_port := a, u_installId := b, u_isBot := d,
        u_supportsPartialHashing := e, u_supportsSsl := f, u_supportsRanges := h\<rparr>)"
    "\<And>v. u_userName (g v) = u_userName v" "\<And>v. u_port (g v) = u_port v"
    "\<And>v. u_installId (g v) = u_installId v" "\<And>v. u_isBot (g v) = u_isBot v"
    "\<And>v. u_supportsPartialHashing (g v) = u_supportsPartialHashing v"
    "\<And>v. u_supportsSsl (g v) = u_supportsSsl v" "\<And>v. u_supportsRanges (g v) = u_supportsRanges v"
  shows "read_name_node L p m (g u) = g (read_name_node L p m u)"
  unfolding read_name_node_def Let_def assms ..

lemma read_name_comm:
  "read_name_node L p m (u\<lparr>u_userStatus := s\<rparr>) = (read_name_node L p m u)\<lparr>u_userStatus := s\<rparr>"
  "read_name_node L p m (u\<lparr>u_uploadsCurrent := a, u_uploadsMax := b\<rparr>) =
     (read_name_node L p m u)\<lparr>u_uploadsCurrent := a, u_uploadsMax := b\<rparr>"
  "read_name_node L p m (u\<lparr>u_bandwidthLabel := s, u_bandwidthBitsPerSecond := b\<rparr>) =
     (read_name_node L p m u)\<lparr>u_bandwidthLabel := s, u_bandwidthBitsPerSecond := b\<rparr>"
  "read_name_node L p m (u\<lparr>u_fileCount := a\<rparr>) = (read_name_node L p m u)\<lparr>u_fileCount := a\<rparr>"
  by (rule read_name_node_comm;
      simp add: read_version_def read_host_name_def Let_def split: option.split)+

text \<open>
  A user's state arrives in pieces and in no guaranteed order, and the order does not matter: two
  updates of different leaves of the same user give the same record whichever comes first, and so
  the registry entry of a user that both updates reach is the same.
\<close>

theorem node_order_irrelevant:
  assumes "lf \<noteq> lf'"
  shows "leaf_update L p lf m (leaf_update L p' lf' m' u) = leaf_update L p' lf' m' (leaf_update L p lf m u)"
  using assms
  by (cases lf; cases lf')
    (simp_all add: leaf_update_simps read_name_comm split: option.split)

theorem node_order_irrelevant_witness:
  "leaf_update ref_muscle ''/h/7/beshare/name'' LeafName (add_string (new_message 0) ''name'' ''ann'')
     (leaf_update ref_muscle ''/h/7/beshare/filecount'' LeafFileCount (add_int32 (new_message 0) ''filecount'' 3) empty_user) =
   leaf_update ref_muscle ''/h/7/beshare/filecount'' LeafFileCount (add_int32 (new_message 0) ''filecount'' 3)
     (leaf_update ref_muscle ''/h/7/beshare/name'' LeafName (add_string (new_message 0) ''name'' ''ann'') empty_user)"
  using node_order_irrelevant [of LeafName LeafFileCount] by blast

end
