(* ===== verification/Publishing.thy ===== *)
theory Publishing
  imports ConnectionLaws
begin

section \<open>Publishing, queries and connecting\<close>

text \<open>
  What the server connection puts on the wire when it comes up, when it publishes a share and when
  it runs a query, and which of the server's results it lets through.
\<close>

subsection \<open>Batches\<close>

definition shared_entries :: "string \<Rightarrow> SharedFile list \<Rightarrow> (string \<times> field) list" where
  "shared_entries p files = map (\<lambda>f. (p @ sf_fileName f, FMessage [file_info f])) files"

definition batch_of :: "muscle \<Rightarrow> string \<Rightarrow> SharedFile list \<Rightarrow> message" where
  "batch_of L p files = Message (PR_COMMAND_SETDATA L) (shared_entries p files)"

lemma batch_of_snoc:
  assumes "distinct (map sf_fileName (files @ [f]))"
  shows "add_message (batch_of L p files) (p @ sf_fileName f) (file_info f) = batch_of L p (files @ [f])"
proof -
  have new: "p @ sf_fileName f \<notin> fst ` set (shared_entries p files)"
    using assms by (auto simp: shared_entries_def)
  then have "map_of (shared_entries p files) (p @ sf_fileName f) = None"
    by (simp add: map_of_eq_None_iff)
  with new show ?thesis
    by (simp add: add_message_def find_field_def batch_of_def set_field_def ht_put_absent)
      (simp add: shared_entries_def)
qed

lemma new_batch: "new_message (PR_COMMAND_SETDATA L) = batch_of L p []"
  by (simp add: new_message_def batch_of_def shared_entries_def)

text \<open>The batches the loop sends from a partly filled one on.\<close>

definition good_batches :: "SharedFile list \<Rightarrow> SharedFile list list \<Rightarrow> bool" where
  "good_batches files bs \<longleftrightarrow> concat bs = files \<and>
     (\<forall>b\<in>set bs. b \<noteq> [] \<and> length b \<le> kSharedFileBatchSize) \<and>
     (\<forall>b\<in>set (butlast bs). length b = kSharedFileBatchSize)"

lemma publish_loop_batches:
  assumes "\<forall>m. accepts E m"
  shows "length cur < kSharedFileBatchSize \<Longrightarrow> distinct (map sf_fileName (cur @ files)) \<Longrightarrow>
    batch = (if cur = [] then None else Some (batch_of L p cur)) \<Longrightarrow> (cur \<noteq> [] \<longrightarrow> n = length cur) \<Longrightarrow>
    \<exists>bs. good_batches (cur @ files) bs \<and>
      c_out (publish_loop L E p files batch n c) = c_out c @ map (batch_of L p) bs \<and>
      c_publishedFileCount (publish_loop L E p files batch n c) =
        c_publishedFileCount c + of_nat (length files)"
proof (induction files arbitrary: cur batch n c)
  case Nil
  show ?case
  proof (cases cur)
    case Nil
    then show ?thesis using Nil.prems by (intro exI [of _ "[]"]) (simp add: good_batches_def)
  next
    case (Cons f fs)
    then show ?thesis using Nil.prems assms
      by (intro exI [of _ "[cur]"]) (simp add: good_batches_def Send_out)
  qed
next
  case (Cons f files)
  define c1 where "c1 = c\<lparr>c_publishedFileCount := c_publishedFileCount c + 1\<rparr>"
  have d: "distinct (map sf_fileName (cur @ [f]))" using Cons.prems(2) by auto
  have start: "(case batch of None \<Rightarrow> (new_message (PR_COMMAND_SETDATA L), 0) | Some b \<Rightarrow> (b, n)) =
      (batch_of L p cur, length cur)"
    using Cons.prems(3,4) by (simp add: new_batch [of L p])
  have step: "publish_loop L E p (f # files) batch n c =
      (if Suc (length cur) \<ge> kSharedFileBatchSize
       then publish_loop L E p files None (Suc (length cur)) (SendToServer E (batch_of L p (cur @ [f])) c1)
       else publish_loop L E p files (Some (batch_of L p (cur @ [f]))) (Suc (length cur)) c1)"
    by (simp add: start batch_of_snoc [OF d] c1_def Let_def)
  show ?case
  proof (cases "Suc (length cur) \<ge> kSharedFileBatchSize")
    case True
    then have full: "length (cur @ [f]) = kSharedFileBatchSize" using Cons.prems(1) by simp
    let ?c2 = "SendToServer E (batch_of L p (cur @ [f])) c1"
    have "\<exists>bs. good_batches ([] @ files) bs \<and>
      c_out (publish_loop L E p files None (Suc (length cur)) ?c2) = c_out ?c2 @ map (batch_of L p) bs \<and>
      c_publishedFileCount (publish_loop L E p files None (Suc (length cur)) ?c2) =
        c_publishedFileCount ?c2 + of_nat (length files)"
      by (rule Cons.IH) (use Cons.prems(2) in \<open>simp_all add: kSharedFileBatchSize_def\<close>)
    then obtain bs where bs: "good_batches files bs"
      "c_out (publish_loop L E p files None (Suc (length cur)) ?c2) = c_out ?c2 @ map (batch_of L p) bs"
      "c_publishedFileCount (publish_loop L E p files None (Suc (length cur)) ?c2) =
        c_publishedFileCount ?c2 + of_nat (length files)" by auto
    have "good_batches (cur @ f # files) ((cur @ [f]) # bs)"
      using bs(1) full by (auto simp: good_batches_def)
    moreover have "c_out ?c2 = c_out c @ [batch_of L p (cur @ [f])]"
      using assms by (simp add: Send_out c1_def)
    moreover have "c_publishedFileCount ?c2 = c_publishedFileCount c + 1" by (simp add: c1_def)
    ultimately show ?thesis using True bs(2,3) unfolding step
      by (intro exI [of _ "(cur @ [f]) # bs"]) (simp add: algebra_simps)
  next
    case False
    have "\<exists>bs. good_batches ((cur @ [f]) @ files) bs \<and>
      c_out (publish_loop L E p files (Some (batch_of L p (cur @ [f]))) (Suc (length cur)) c1) =
        c_out c1 @ map (batch_of L p) bs \<and>
      c_publishedFileCount (publish_loop L E p files (Some (batch_of L p (cur @ [f]))) (Suc (length cur)) c1) =
        c_publishedFileCount c1 + of_nat (length files)"
      by (rule Cons.IH) (use Cons.prems(2) False in auto)
    then show ?thesis using False unfolding step by (auto simp: c1_def algebra_simps)
  qed
qed

text \<open>
  C17. Publishing a share sends every file exactly once, in order, in batches of at most the batch size,
  all but the last one full and none empty; each node is named by the file's leaf name under the
  path that fits the firewall flag; and the published count grows by the number of files.
\<close>

theorem publish_batches:
  assumes "\<forall>m. accepts E m" "IsConnected c" "distinct (map sf_fileName files)"
  shows "\<exists>bs. concat bs = files \<and> (\<forall>b\<in>set bs. 0 < length b \<and> length b \<le> 50) \<and>
      (\<forall>b\<in>set (butlast bs). length b = 50) \<and>
      c_out (PublishSharedFiles L E files c) = c_out c @ map (batch_of L (GetFilesNodePath c)) bs \<and>
      c_publishedFileCount (PublishSharedFiles L E files c) =
        c_publishedFileCount c + of_nat (length files)"
proof (cases "files = []")
  case True
  then show ?thesis by (intro exI [of _ "[]"]) (simp add: PublishSharedFiles_def)
next
  case False
  then show ?thesis
    using publish_loop_batches [OF assms(1), of "[]" files None L "GetFilesNodePath c" 0 c] assms(2,3)
    by (auto simp: good_batches_def PublishSharedFiles_def kSharedFileBatchSize_def)
qed

definition demo_file :: SharedFile where
  "demo_file = \<lparr> sf_fileName = ''a'', sf_relativePath = [], sf_absolutePath = ''/s/a'', sf_kind = [],
        sf_fileSize = 3, sf_modificationTime = 0 \<rparr>"

theorem publish_batches_witness:
  "c_publishedFileCount (PublishSharedFiles ref_muscle demo_net [demo_file] (demo_conn ''1'')) = 1"
proof -
  have "c_publishedFileCount (demo_conn ''1'') = 0" by (simp add: demo_conn_def new_connection_def)
  then show ?thesis
    using publish_batches [of demo_net "demo_conn ''1''" "[demo_file]" ref_muscle] by auto
qed

text \<open>
  What is published can be read back: the file node a peer receives for a published file, on the
  path of our share, is reported to a running query that matches it as one result with the name,
  size, time, sub-path and type of the file, and with the firewall flag of the share it is under.
\<close>

theorem published_file_found:
  assumes "path_law L" "is_clause h" "is_clause sid" "is_clause (sf_fileName f)"
    "c_listener q" "c_queryActive q" "PatternMatch L (c_sessionMatcher q) sid"
    "PatternMatch L (c_fileNameMatcher q) (sf_fileName f)"
    "InflateMessage L (file_info f) = Some (file_info f)"
  shows "let node = make_path [h, sid] @ ''/'' @ GetFilesNodePath c @ sf_fileName f
         in c_events (HandleNodeUpdated L node (file_info f) q) = c_events q @ [QueryResultAdded
             \<lparr> fr_sessionId = sid, fr_fileName = sf_fileName f, fr_path = sf_relativePath f,
               fr_kind = sf_kind f, fr_fileSize = sf_fileSize f,
               fr_modificationTime = sf_modificationTime f, fr_isFirewalled = c_firewalled c,
               fr_attributes = file_info f \<rparr>]"
proof -
  define share where "share = (if c_firewalled c then ''fires'' else ''files'')"
  let ?cs = "[h, sid, ''beshare'', share, sf_fileName f]"
  have cl: "list_all is_clause ?cs" using assms(2-4) by (simp add: share_def)
  have path: "make_path [h, sid] @ ''/'' @ GetFilesNodePath c @ sf_fileName f = make_path ?cs"
    by (simp add: GetFilesNodePath_def share_def)
  have d: "GetPathDepth L (make_path ?cs) = 5" using path_depth [OF assms(1) cl] by simp
  have e: "ExtractSessionId L (make_path ?cs) = sid" using extract_session [OF assms(1) cl] .
  have n: "GetPathClause L USER_NAME_DEPTH (make_path ?cs) = Some (share @ make_path [sf_fileName f])"
    using user_node_clause [OF assms(1) cl] .
  have fn: "GetPathClause L FILE_INFO_DEPTH (make_path ?cs) = Some (sf_fileName f)"
    using path_clause [OF assms(1) cl, of 4] by (simp add: eval_nat_numeral)
  have sid: "sid \<noteq> []" using assms(3) by (simp add: is_clause_def)
  have info: "find_string (file_info f) BESHARE_FIELD_PATH = Some (sf_relativePath f)"
    "found_or [] (find_string (file_info f) BESHARE_FIELD_KIND) = sf_kind f"
    "find_int64 (file_info f) BESHARE_FIELD_FILE_SIZE = Some (sf_fileSize f)"
    "find_int32 (file_info f) BESHARE_FIELD_MODIFICATION_TIME = Some (sf_modificationTime f)"
    by (auto simp: file_info_def Let_def finds)
  have wall: "(2 < length (share @ make_path [sf_fileName f]) \<and> (share @ make_path [sf_fileName f]) ! 2 = CHR ''r'')
      = c_firewalled c" by (simp add: share_def eval_nat_numeral)
  have "HandleNodeUpdated L (make_path ?cs) (file_info f) q = HandleFileNode L sid (make_path ?cs) (file_info f) q"
    using d e sid by (simp add: HandleNodeUpdated_def del: make_path_simps)
  also have "c_events \<dots> = c_events q @ [QueryResultAdded
             \<lparr> fr_sessionId = sid, fr_fileName = sf_fileName f, fr_path = sf_relativePath f,
               fr_kind = sf_kind f, fr_fileSize = sf_fileSize f,
               fr_modificationTime = sf_modificationTime f, fr_isFirewalled = c_firewalled c,
               fr_attributes = file_info f \<rparr>]"
    unfolding HandleFileNode_def n fn using assms(5-9) info wall
    by (simp add: notify_events del: make_path_simps)
  finally show ?thesis unfolding Let_def path .
qed

theorem published_file_found_witness:
  "let q = (demo_conn ''1'')\<lparr>c_queryActive := True, c_sessionMatcher := ''*'', c_fileNameMatcher := ''a*''\<rparr>
   in length (c_events (HandleNodeUpdated ref_muscle ''/h/7/beshare/files/a'' (file_info demo_file) q)) = 1"
proof -
  let ?q = "(demo_conn ''1'')\<lparr>c_queryActive := True, c_sessionMatcher := ''*'', c_fileNameMatcher := ''a*''\<rparr>"
  have "is_clause ''h''" "is_clause ''7''" "is_clause (sf_fileName demo_file)"
    "PatternMatch ref_muscle (c_sessionMatcher ?q) ''7''"
    "PatternMatch ref_muscle (c_fileNameMatcher ?q) (sf_fileName demo_file)"
    "GetFilesNodePath (demo_conn ''1'') = ''beshare/files/''"
    by (simp_all add: is_clause_def demo_file_def GetFilesNodePath_def demo_conn_def new_connection_def)
  then show ?thesis
    using published_file_found [of ref_muscle "''h''" "''7''" demo_file ?q "demo_conn ''1''"]
    by (simp add: Let_def demo_file_def)
qed

subsection \<open>Queries\<close>

lemma StopQuery_frame [simp]:
  "c_state (StopQuery L E c) = c_state c" "c_pingCount (StopQuery L E c) = c_pingCount c"
  "c_listener (StopQuery L E c) = c_listener c"
  "c_queryActive (StopQuery L E c) = False" "c_firewalled (StopQuery L E c) = c_firewalled c"
  by (simp_all add: StopQuery_def Let_def)

text \<open>The messages and the callbacks of stopping: nothing unless a query runs.\<close>

lemma StopQuery_effect:
  assumes "IsConnected c" "\<forall>m. accepts E m" "c_listener c"
  shows "c_events (StopQuery L E c) = c_events c @
      (if c_queryActive c then [QueryResultsCleared, QuerySweepStateChanged False] else [])"
    "map what (c_out (StopQuery L E c)) = map what (c_out c) @
      (if c_queryActive c then [PR_COMMAND_REMOVEPARAMETERS L, PR_COMMAND_JETTISONRESULTS L] else [])"
  using assms by (simp_all add: StopQuery_def Let_def notify_events Send_out)

definition ping_answer :: "muscle \<Rightarrow> int32 \<Rightarrow> message" where
  "ping_answer L n = add_int32 (new_message (PR_RESULT_PONG L)) ''count'' n"

lemma HandleQueryPong_answer:
  "HandleQueryPong (ping_answer L n) c =
     (if sint n \<ge> sint (c_pingCount c - 1) then notify (QuerySweepStateChanged False) c else c)"
  by (simp add: HandleQueryPong_def ping_answer_def finds)

lemma pred_of_successor: "(n :: int32) + 1 - 1 = n"
  by simp

text \<open>
  Starting a query replaces the running one: its results are cleared and its subscription and
  backlog withdrawn before the new subscription goes out, followed by a ping with a fresh count.
  The server's answer to that ping ends the sweep; a late answer to an earlier ping, which carries a
  smaller count, is ignored.
\<close>

theorem query_replaces:
  assumes "IsConnected c" "\<forall>m. accepts E m" "c_listener c" "label_law L" "sint k < sint (c_pingCount c)"
  shows "let c' = StartQuery L E se fe c in
    c_queryActive c' \<and> c_sessionMatcher c' = or_star se \<and> c_fileNameMatcher c' = or_star fe \<and>
    map what (c_out c') = map what (c_out c) @
      (if c_queryActive c then [PR_COMMAND_REMOVEPARAMETERS L, PR_COMMAND_JETTISONRESULTS L] else []) @
      [PR_COMMAND_SETPARAMETERS L, PR_COMMAND_PING L] \<and>
    find_bool (c_out c' ! (length (c_out c') - 2))
      (MakeQuerySubscriptionPath (or_star se) (or_star fe) (c_firewalled c)) = Some True \<and>
    find_int32 (last (c_out c')) ''count'' = Some (c_pingCount c) \<and>
    c_events c' = c_events c @
      (if c_queryActive c then [QueryResultsCleared, QuerySweepStateChanged False] else []) @
      [QuerySweepStateChanged True] \<and>
    MessageReceived L E (ping_answer L k) c' = c' \<and>
    c_events (MessageReceived L E (ping_answer L (c_pingCount c)) c') =
      c_events c' @ [QuerySweepStateChanged False]"
proof -
  let ?c' = "StartQuery L E se fe c"
  let ?sub = "add_bool (new_message (PR_COMMAND_SETPARAMETERS L))
      (MakeQuerySubscriptionPath (or_star se) (or_star fe) (c_firewalled c)) True"
  let ?ping = "add_int32 (new_message (PR_COMMAND_PING L)) ''count'' (c_pingCount c)"
  note stop = StopQuery_effect [OF assms(1-3), of L]
  have out: "c_out ?c' = c_out (StopQuery L E c) @ [?sub, ?ping]"
    using assms(1,2) by (simp add: StartQuery_def Let_def Send_out)
  have ev: "c_events ?c' = c_events (StopQuery L E c) @ [QuerySweepStateChanged True]"
    using assms(1,3) by (simp add: StartQuery_def Let_def notify_events)
  have rest: "c_queryActive ?c'" "c_sessionMatcher ?c' = or_star se" "c_fileNameMatcher ?c' = or_star fe"
    "c_pingCount ?c' = c_pingCount c + 1" "c_listener ?c'"
    using assms(1,3) by (simp_all add: StartQuery_def Let_def)
  have recv: "MessageReceived L E (ping_answer L n) ?c' = HandleQueryPong (ping_answer L n) ?c'" for n
    using assms(4) by (auto simp: MessageReceived_def ping_answer_def label_law_def)
  have pongs: "MessageReceived L E (ping_answer L k) ?c' = ?c'"
    "c_events (MessageReceived L E (ping_answer L (c_pingCount c)) ?c') =
       c_events ?c' @ [QuerySweepStateChanged False]"
    unfolding recv HandleQueryPong_answer rest(4) pred_of_successor
    using rest(5) assms(5) by (simp_all add: notify_events)
  have msgs: "c_out ?c' ! (length (c_out ?c') - 2) = ?sub" "last (c_out ?c') = ?ping"
    unfolding out by (simp_all add: nth_append)
  show ?thesis
    unfolding Let_def msgs using stop out ev rest(1-3) pongs by (simp add: finds)
qed

theorem query_replaces_witness:
  "let c' = StartQuery ref_muscle demo_net ''*'' ''*.txt'' ((demo_conn ''1'')\<lparr>c_pingCount := 5\<rparr>)
   in MessageReceived ref_muscle demo_net (ping_answer ref_muscle 4) c' = c' \<and>
      map what (c_out c') = [1001, 1007]"
proof -
  have "\<not> c_queryActive ((demo_conn ''1'')\<lparr>c_pingCount := 5\<rparr>)"
    by (simp add: demo_conn_def new_connection_def)
  then show ?thesis
    using query_replaces [of "(demo_conn ''1'')\<lparr>c_pingCount := 5\<rparr>" demo_net ref_muscle 4 "''*''" "''*.txt''"]
    by (simp add: Let_def)
qed

text \<open>
  Results of a query that is no longer wanted never reach the listener: whatever node arrives, a
  result is reported only while a query is active and only if its session and its name match the
  criteria of that query; stopping reports nothing more.
\<close>

theorem stale_results_dropped:
  assumes "QueryResultAdded r \<in> set (c_events (HandleNodeUpdated L p m c)) - set (c_events c)"
  shows "c_queryActive c \<and> PatternMatch L (c_sessionMatcher c) (fr_sessionId r) \<and>
    PatternMatch L (c_fileNameMatcher c) (fr_fileName r) \<and>
    c_events (HandleFileNode L s p m (StopQuery L E c)) = c_events (StopQuery L E c)"
proof -
  have user: "QueryResultAdded r \<notin> set (c_events (HandleUserNode L s p m c)) - set (c_events c)" for s
    by (auto simp: HandleUserNode_def NotifyUserUpdated_def notify_events Let_def
        split: option.splits prod.splits if_splits)
  have "QueryResultAdded r \<in> set (c_events (HandleFileNode L (ExtractSessionId L p) p m c)) - set (c_events c)"
    using assms user by (auto simp: HandleNodeUpdated_def Let_def split: if_splits)
  then show ?thesis
    by (auto simp: HandleFileNode_def notify_events split: option.splits if_splits)
qed

theorem stale_results_dropped_witness:
  "let q = (demo_conn ''1'')\<lparr>c_queryActive := True, c_sessionMatcher := ''*'', c_fileNameMatcher := ''a*''\<rparr>
   in \<exists>r. QueryResultAdded r \<in>
       set (c_events (HandleNodeUpdated ref_muscle ''/h/7/beshare/files/a'' (new_message 0) q)) \<and>
     PatternMatch ref_muscle ''a*'' (fr_fileName r)"
proof -
  let ?q = "(demo_conn ''1'')\<lparr>c_queryActive := True, c_sessionMatcher := ''*'', c_fileNameMatcher := ''a*''\<rparr>"
  let ?r = "\<lparr> fr_sessionId = ''7'', fr_fileName = ''a'', fr_path = [], fr_kind = [], fr_fileSize = 0,
     fr_modificationTime = 0, fr_isFirewalled = False, fr_attributes = new_message 0 \<rparr>"
  have "c_events (HandleNodeUpdated ref_muscle ''/h/7/beshare/files/a'' (new_message 0) ?q) =
      [QueryResultAdded ?r]"
    by code_simp
  then have "QueryResultAdded ?r \<in>
      set (c_events (HandleNodeUpdated ref_muscle ''/h/7/beshare/files/a'' (new_message 0) ?q)) - set (c_events ?q)"
    by simp
  from stale_results_dropped [OF this] this show ?thesis unfolding Let_def by auto
qed

subsection \<open>Coming up\<close>

text \<open>
  When the session comes up the connection reports the new state first, then announces itself: it
  publishes its name node (with port, installation ID and version) and its status before it
  subscribes to the others, and asks for its session parameters last.
\<close>

theorem connect_announces:
  assumes "\<forall>m. accepts E m" "c_listener c" "c_state c = CONNECTION_CONNECTING"
  shows "let c' = SessionConnected L E addr c in
    IsConnected c' \<and> c_loginTime c' = clock E (c_ticks c) \<and>
    c_events c' = c_events c @ [ConnectionStateChanged CONNECTION_CONNECTED,
      ChatMessageReceived (chat_message LOG_INFORMATION_MESSAGE (''Connected to '' @ addr @ ''.''))] \<and>
    (\<exists>n. c_out c' = c_out c @
      [add_message (new_message (PR_COMMAND_SETDATA L)) BESHARE_NODE_NAME n,
       add_message (new_message (PR_COMMAND_SETDATA L)) BESHARE_NODE_USER_STATUS
         (add_string (new_message 0) BESHARE_FIELD_USER_STATUS (c_localUserStatus c)),
       add_bool (new_message (PR_COMMAND_SETPARAMETERS L)) BESHARE_SUBSCRIBE_ALL True,
       new_message (PR_COMMAND_GETPARAMETERS L)] \<and>
      find_string n BESHARE_FIELD_NAME = Some (c_localUserName c) \<and>
      find_int32 n BESHARE_FIELD_PORT = Some (c_advertisedPort c) \<and>
      find_int64 n BESHARE_FIELD_INSTALL_ID = Some (c_installId c))"
  using assms
  by (simp add: SessionConnected_def read_clock_def SetConnectionState_def ReportToUser_def
      notify_def PublishLocalUserName_def PublishLocalUserStatus_def SetDataNodeValue_def
      SubscribeToUsers_def RequestSessionParameters_def SendToServer_def Let_def finds)
    (rule exI, rule conjI, rule refl, simp)

theorem connect_announces_witness:
  "length (c_out (SessionConnected ref_muscle demo_net ''s'' ((demo_conn [])\<lparr>c_state := CONNECTION_CONNECTING\<rparr>))) = 4"
  using connect_announces [of demo_net "(demo_conn [])\<lparr>c_state := CONNECTION_CONNECTING\<rparr>" ref_muscle "''s''"]
  by (auto simp: Let_def)

text \<open>
  A failed attempt leaves the connection disconnected with its network thread stopped and says
  why, a successful one leaves it connecting to the host asked for, on the default port if none
  was given; either way every user and the old session ID are gone.
\<close>

theorem connect_outcome:
  assumes "c_listener c" "host \<noteq> []"
  shows "let (st, c') = ConnectToServer E host p c in
    c_users c' = [] \<and> c_localSessionId c' = [] \<and> \<not> c_queryActive c' \<and>
    (st = B_NO_ERROR \<longleftrightarrow> c_state c' = CONNECTION_CONNECTING) \<and>
    (st \<noteq> B_NO_ERROR \<longleftrightarrow> c_state c' = CONNECTION_DISCONNECTED) \<and>
    (c_thread c' \<longleftrightarrow> st = B_NO_ERROR) \<and>
    c_serverAddress c' = host \<and> c_serverPort c' = (if p = 0 then 2960 else p) \<and>
    (\<forall>err. st = B_OTHER_ERROR err \<longrightarrow> last (c_events c') \<in>
       {ChatMessageReceived (chat_message LOG_ERROR_MESSAGE (''Could not start the network thread: '' @ err)),
        ChatMessageReceived (chat_message LOG_ERROR_MESSAGE (''Could not connect to '' @ host @ '': '' @ err))})"
proof -
  let ?d = "DisconnectFromServer c"
  have d: "c_users ?d = []" "c_localSessionId ?d = []" "\<not> c_queryActive ?d" "\<not> c_thread ?d"
    "c_state ?d = CONNECTION_DISCONNECTED" "c_listener ?d"
    using assms(1) by (simp_all add: DisconnectFromServer_def ClearUsers_def Let_def
        SetConnectionState_def ReportToUser_def)
  have "((0::uint16) < p) = (p \<noteq> 0)" by (simp add: word_neq_0_conv)
  with d assms(2) show ?thesis
    by (auto simp: ConnectToServer_def Let_def ReportToUser_def notify_def SetConnectionState_def
        kDefaultServerPort_def split: option.split)
qed

theorem connect_outcome_witness:
  "let (st, c') = ConnectToServer demo_net ''s'' 0 (demo_conn ''1'') in
     st = B_NO_ERROR \<and> c_state c' = CONNECTION_CONNECTING \<and> c_serverPort c' = 2960"
proof -
  have "fst (ConnectToServer demo_net ''s'' 0 (demo_conn ''1'')) = B_NO_ERROR"
    by (simp add: ConnectToServer_def demo_net_def)
  then show ?thesis using connect_outcome [of "demo_conn ''1''" "''s''" demo_net 0]
    by (auto simp: Let_def split: prod.splits)
qed

end
