(* ===== verification/FileDownload.thy ===== *)
theory FileDownload
  imports Protocol RefMuscle
begin

section \<open>One download\<close>

text \<open>
  \<open>core/FileDownload\<close>: one connection to one peer that receives one or more files. Everything that
  arrives comes from a stranger. The file system and the clock are the \<open>world\<close> the download acts
  on: the files and folders that exist, which \<open>mkdir\<close> and \<open>fopen\<close> calls succeed, and how many bytes
  the disk still takes; the callbacks made to the listener are an ordered log (\<open>dl_events\<close>), each
  with the state and error text the listener reads at that moment.
\<close>

subsection \<open>The world\<close>

record world =
  w_files :: "string \<rightharpoonup> uint8 list"
  w_dirs :: "string list"
  w_mkdir_ok :: "string \<Rightarrow> bool"
  w_fopen_ok :: "string \<Rightarrow> bool"
  w_room :: nat
  w_clock :: "nat \<Rightarrow> uint64"
  w_ticks :: nat

definition read_now :: "world \<Rightarrow> uint64 \<times> world" where
  "read_now w = (w_clock w (w_ticks w), w\<lparr>w_ticks := Suc (w_ticks w)\<rparr>)"

definition PathExists :: "world \<Rightarrow> string \<Rightarrow> bool" where
  "PathExists w p \<longleftrightarrow> w_files w p \<noteq> None \<or> p \<in> set (w_dirs w)"

text \<open>\<open>mkdir\<close>: an existing path is EEXIST, which the caller accepts.\<close>

definition mkdir :: "string \<Rightarrow> world \<Rightarrow> bool \<times> world" where
  "mkdir p w =
     (if PathExists w p then (True, w)
      else if w_mkdir_ok w p then (True, w\<lparr>w_dirs := w_dirs w @ [p]\<rparr>)
      else (False, w))"

fun make_components :: "string list \<Rightarrow> string \<Rightarrow> world \<Rightarrow> bool \<times> world" where
  "make_components [] pathSoFar w = (True, w)"
| "make_components (c # cs) pathSoFar w =
     (case mkdir (pathSoFar @ ''/'' @ c) w of (ok, w1) \<Rightarrow>
        if ok then make_components cs (pathSoFar @ ''/'' @ c) w1 else (False, w1))"

definition CreateDirectoryTree :: "muscle \<Rightarrow> string \<Rightarrow> world \<Rightarrow> bool \<times> world" where
  "CreateDirectoryTree L directoryPath w =
     (if directoryPath = [] then (False, w)
      else make_components (Tokenize L directoryPath ''/'') [] w)"

text \<open>\<open>fopen\<close> for writing creates or truncates; \<open>fwrite\<close> appends what fits.\<close>

definition open_for_writing :: "string \<Rightarrow> world \<Rightarrow> bool \<times> world" where
  "open_for_writing p w =
     (if w_fopen_ok w p \<and> p \<notin> set (w_dirs w) then (True, w\<lparr>w_files := (w_files w)(p \<mapsto> [])\<rparr>)
      else (False, w))"

definition write_file :: "string \<Rightarrow> uint8 list \<Rightarrow> world \<Rightarrow> nat \<times> world" where
  "write_file p bs w =
     (let n = min (length bs) (w_room w)
      in (n, w\<lparr>w_files := (w_files w)(p \<mapsto> (case w_files w p of None \<Rightarrow> [] | Some old \<Rightarrow> old) @ take n bs),
               w_room := w_room w - n\<rparr>))"

definition remove_file :: "string \<Rightarrow> world \<Rightarrow> world" where
  "remove_file p w = w\<lparr>w_files := (w_files w)(p := None)\<rparr>"

subsection \<open>The download\<close>

datatype DownloadState =
    DOWNLOAD_IDLE | DOWNLOAD_CONNECTING | DOWNLOAD_REQUESTING | DOWNLOAD_QUEUED_REMOTELY
  | DOWNLOAD_TRANSFERRING | DOWNLOAD_FINISHED | DOWNLOAD_FAILED

record RequestedFile =
  rq_fileName :: string
  rq_path :: string
  rq_expectedSize :: int64

datatype dl_event =
    DlStateChanged DownloadState string
  | DlProgress
  | DlFileCompleted string

datatype dl_status = DlOk | DlBadArgument | DlError string

record download =
  dl_listener :: bool
  dl_retainFilePaths :: bool
  dl_rateLimit :: uint32
  dl_downloadDirectory :: string
  dl_remoteSessionId :: string
  dl_remoteUserName :: string
  dl_localSessionId :: string
  dl_localUserName :: string
  dl_errorText :: string
  dl_requestedFiles :: "RequestedFile list"
  dl_state :: DownloadState
  dl_outputFile :: "string option"
  dl_outputPath :: string
  dl_currentFileName :: string
  dl_currentFileSize :: int64
  dl_currentFileBytesDone :: int64
  dl_totalBytesDone :: int64
  dl_totalBytesExpected :: int64
  dl_completedFileCount :: uint32
  dl_samples :: "(uint64 \<times> uint32) list"
  dl_thread :: bool
  dl_inputPolicy :: "uint32 option"
  dl_sent :: "message list"
  dl_events :: "dl_event list"
  dl_world :: world

definition kMaximumTransferSamples :: nat where "kMaximumTransferSamples = 32"

definition kRateWindowMicroseconds :: uint64 where "kRateWindowMicroseconds = 5 * 1000000"

definition kMaximumRenameAttempts :: nat where "kMaximumRenameAttempts = 64"

definition new_download :: "string \<Rightarrow> world \<Rightarrow> download" where
  "new_download directory w =
    \<lparr> dl_listener = False, dl_retainFilePaths = False, dl_rateLimit = 0,
      dl_downloadDirectory = directory, dl_remoteSessionId = [], dl_remoteUserName = [],
      dl_localSessionId = [], dl_localUserName = [], dl_errorText = [], dl_requestedFiles = [],
      dl_state = DOWNLOAD_IDLE, dl_outputFile = None, dl_outputPath = [], dl_currentFileName = [],
      dl_currentFileSize = 0, dl_currentFileBytesDone = 0, dl_totalBytesDone = 0,
      dl_totalBytesExpected = 0, dl_completedFileCount = 0, dl_samples = [], dl_thread = False,
      dl_inputPolicy = None, dl_sent = [], dl_events = [], dl_world = w \<rparr>"

definition IsFinished :: "download \<Rightarrow> bool" where
  "IsFinished d \<longleftrightarrow> dl_state d = DOWNLOAD_FINISHED \<or> dl_state d = DOWNLOAD_FAILED"

definition SetDlListener :: "bool \<Rightarrow> download \<Rightarrow> download" where
  "SetDlListener present d = d\<lparr>dl_listener := present\<rparr>"

definition SetRemoteUserName :: "string \<Rightarrow> download \<Rightarrow> download" where
  "SetRemoteUserName n d = d\<lparr>dl_remoteUserName := n\<rparr>"

definition SetDlRateLimit :: "uint32 \<Rightarrow> download \<Rightarrow> download" where
  "SetDlRateLimit n d = d\<lparr>dl_rateLimit := n\<rparr>"

definition SetDlRetainFilePaths :: "bool \<Rightarrow> download \<Rightarrow> download" where
  "SetDlRetainFilePaths b d = d\<lparr>dl_retainFilePaths := b\<rparr>"

definition dl_emit :: "dl_event \<Rightarrow> download \<Rightarrow> download" where
  "dl_emit ev d = (if dl_listener d then d\<lparr>dl_events := dl_events d @ [ev]\<rparr> else d)"

definition SetState :: "DownloadState \<Rightarrow> download \<Rightarrow> download" where
  "SetState st d =
     (if st = dl_state d then d
      else dl_emit (DlStateChanged st (dl_errorText d)) (d\<lparr>dl_state := st\<rparr>))"

definition AddRequestedFile :: "string \<Rightarrow> string \<Rightarrow> int64 \<Rightarrow> download \<Rightarrow> download" where
  "AddRequestedFile fileName path expectedSize d =
     (let d1 = d\<lparr>dl_requestedFiles := dl_requestedFiles d @
                   [\<lparr> rq_fileName = fileName, rq_path = path, rq_expectedSize = expectedSize \<rparr>]\<rparr>
      in if sint expectedSize > 0
         then d1\<lparr>dl_totalBytesExpected := dl_totalBytesExpected d1 + expectedSize\<rparr> else d1)"

text \<open>
  What the transceiver answers: an error text if its thread or the connection cannot be started.
\<close>

record dl_env =
  start_dl_thread :: "string option"
  connect_peer :: "string \<Rightarrow> uint16 \<Rightarrow> string option"

definition Start ::
  "dl_env \<Rightarrow> string \<Rightarrow> uint16 \<Rightarrow> string \<Rightarrow> string \<Rightarrow> string \<Rightarrow> download \<Rightarrow> dl_status \<times> download" where
  "Start E hostName p remoteSessionId localSessionId localUserName d =
     (if dl_requestedFiles d = [] then (DlBadArgument, d)
      else if hostName = [] \<or> p = 0 then
        (DlBadArgument, SetState DOWNLOAD_FAILED (d\<lparr>dl_errorText := ''Peer is not accepting connections''\<rparr>))
      else
        let d1 = d\<lparr>dl_remoteSessionId := remoteSessionId, dl_localSessionId := localSessionId,
                   dl_localUserName := localUserName\<rparr>
        in case start_dl_thread E of
             Some err \<Rightarrow> (DlError err, SetState DOWNLOAD_FAILED (d1\<lparr>dl_errorText := err\<rparr>))
           | None \<Rightarrow>
               let d2 = d1\<lparr>dl_thread := True\<rparr>;
                   d3 = (if dl_rateLimit d2 > 0 then d2\<lparr>dl_inputPolicy := Some (dl_rateLimit d2)\<rparr> else d2)
               in case connect_peer E hostName p of
                    Some err \<Rightarrow>
                      (DlError err,
                       SetState DOWNLOAD_FAILED (d3\<lparr>dl_thread := False, dl_errorText := err\<rparr>))
                  | None \<Rightarrow> (DlOk, SetState DOWNLOAD_CONNECTING d3))"

definition CloseOutputFile :: "download \<Rightarrow> download" where
  "CloseOutputFile d = (if dl_outputFile d \<noteq> None then d\<lparr>dl_outputFile := None\<rparr> else d)"

definition Abort :: "string \<Rightarrow> download \<Rightarrow> download" where
  "Abort reason d =
     (if IsFinished d then d
      else let d1 = CloseOutputFile (d\<lparr>dl_thread := False\<rparr>);
               d2 = (if dl_outputPath d1 \<noteq> []
                     then d1\<lparr>dl_world := remove_file (dl_outputPath d1) (dl_world d1)\<rparr> else d1)
           in SetState DOWNLOAD_FAILED (d2\<lparr>dl_errorText := reason\<rparr>))"

definition GetBytesPerSecond :: "download \<Rightarrow> int64 \<times> download" where
  "GetBytesPerSecond d =
     (if length (dl_samples d) < 2 then (0, d)
      else let (t, w) = read_now (dl_world d);
               d1 = d\<lparr>dl_world := w\<rparr>;
               oldest = fst (hd (dl_samples d));
               elapsed = (if t > oldest then t - oldest else 0)
           in if elapsed = 0 then (0, d1)
              else ((sum_list (map (\<lambda>x. ucast (snd x)) (dl_samples d)) * 1000000) div elapsed, d1))"

subsection \<open>Outgoing\<close>

definition SendPeerIdentity :: "download \<Rightarrow> download" where
  "SendPeerIdentity d =
     d\<lparr>dl_sent := dl_sent d @
       [add_string (add_string (new_message TRANSFER_COMMAND_PEER_ID) BESHARE_FIELD_FROM_SESSION
          (dl_localSessionId d)) BESHARE_FIELD_FROM_USER_NAME (dl_localUserName d)]\<rparr>"

definition add_request :: "RequestedFile \<Rightarrow> message \<Rightarrow> message" where
  "add_request r m =
     (let m1 = add_string m BESHARE_FIELD_FILE_LIST_NAMES (rq_fileName r);
          m2 = add_int64 m1 BESHARE_FIELD_FILE_LIST_OFFSETS 0;
          m3 = add_string m2 BESHARE_FIELD_PATH (rq_path r)
      in add_data m3 BESHARE_FIELD_FILE_LIST_MD5 [0])"

definition file_list_message :: "download \<Rightarrow> message" where
  "file_list_message d =
     (let m1 = add_string (new_message TRANSFER_COMMAND_FILE_LIST) BESHARE_FIELD_FROM_SESSION
                 (dl_localSessionId d);
          m2 = add_string m1 BESHARE_FIELD_FROM_USER_NAME (dl_localUserName d);
          m3 = add_int32 m2 BESHARE_FIELD_MUNGE_MODE MUNGE_MODE_XOR
      in fold add_request (dl_requestedFiles d) m3)"

definition SendFileList :: "download \<Rightarrow> download" where
  "SendFileList d = d\<lparr>dl_sent := dl_sent d @ [file_list_message d]\<rparr>"

subsection \<open>Files\<close>

definition unsafe_char :: "char \<Rightarrow> bool" where
  "unsafe_char c \<longleftrightarrow> c = CHR ''/'' \<or> c = CHR 0x5C \<or> of_char c < (32::nat)"

text \<open>
  The loop that strips leading dots and dashes. Every round shortens the text, so as many rounds as
  it has characters are enough.
\<close>

fun strip_leading :: "muscle \<Rightarrow> nat \<Rightarrow> string \<Rightarrow> string" where
  "strip_leading L 0 s = s"
| "strip_leading L (Suc k) s =
     (if starts_with s ''.'' \<or> starts_with s ''-''
      then strip_leading L k (Trimmed L (substring_from s 1)) else s)"

definition SanitizePathComponent :: "muscle \<Rightarrow> string \<Rightarrow> string" where
  "SanitizePathComponent L component =
     (let safe = map (\<lambda>c. if unsafe_char c then CHR ''_'' else c) component;
          trimmed = Trimmed L safe;
          stripped = strip_leading L (length trimmed) trimmed
      in if stripped = ''.'' \<or> stripped = ''..'' then [] else stripped)"

fun append_components :: "muscle \<Rightarrow> string list \<Rightarrow> string \<Rightarrow> string" where
  "append_components L [] directory = directory"
| "append_components L (c # cs) directory =
     (let safe = SanitizePathComponent L c
      in append_components L cs (if safe \<noteq> [] then directory @ ''/'' @ safe else directory))"

text \<open>The first free name \<open>stem (n).ext\<close> from an attempt number on.\<close>

definition numbered :: "muscle \<Rightarrow> string \<Rightarrow> string \<Rightarrow> string \<Rightarrow> nat \<Rightarrow> string" where
  "numbered L directory stem extension attempt =
     directory @ ''/'' @ stem @ '' ('' @ FormatInt L (int attempt) @ '')'' @ extension"

fun find_free :: "world \<Rightarrow> (nat \<Rightarrow> string) \<Rightarrow> nat \<Rightarrow> nat \<Rightarrow> string option" where
  "find_free w name attempt 0 = None"
| "find_free w name attempt (Suc k) =
     (if PathExists w (name attempt) then find_free w name (Suc attempt) k else Some (name attempt))"

definition choose_path :: "muscle \<Rightarrow> world \<Rightarrow> string \<Rightarrow> string \<Rightarrow> string option" where
  "choose_path L w directory safeName =
     (let candidate = directory @ ''/'' @ safeName
      in if \<not> PathExists w candidate then Some candidate
         else let dotIndex = last_index_of (CHR ''.'') safeName;
                  stem = (if dotIndex > 0 then substring safeName 0 dotIndex else safeName);
                  extension = (if dotIndex > 0 then substring_from safeName dotIndex else [])
              in find_free w (numbered L directory stem extension) 2 (kMaximumRenameAttempts - 2))"

definition OpenOutputFile :: "muscle \<Rightarrow> string \<Rightarrow> string \<Rightarrow> download \<Rightarrow> bool \<times> download" where
  "OpenOutputFile L fileName relativePath d =
     (let safeName = SanitizePathComponent L fileName
      in if safeName = [] then (False, d)
         else
           let directory =
                 (if dl_retainFilePaths d
                  then append_components L (Tokenize L relativePath ''/'') (dl_downloadDirectory d)
                  else dl_downloadDirectory d);
               (created, w1) = CreateDirectoryTree L directory (dl_world d);
               d1 = d\<lparr>dl_world := w1\<rparr>
           in if \<not> created then (False, d1)
              else case choose_path L w1 directory safeName of
                     None \<Rightarrow> (False, d1)
                   | Some candidate \<Rightarrow>
                       (case open_for_writing candidate w1 of (opened, w2) \<Rightarrow>
                          if opened
                          then (True, d1\<lparr>dl_world := w2, dl_outputFile := Some candidate,
                                         dl_outputPath := candidate\<rparr>)
                          else (False, d1\<lparr>dl_world := w2\<rparr>)))"

definition FinishCurrentFile :: "download \<Rightarrow> download" where
  "FinishCurrentFile d =
     (if dl_outputFile d = None then d
      else
        let d1 = CloseOutputFile d;
            isComplete = (sint (dl_currentFileSize d1) \<le> 0 \<or>
                          sint (dl_currentFileBytesDone d1) \<ge> sint (dl_currentFileSize d1));
            d2 = (if isComplete
                  then dl_emit (DlFileCompleted (dl_outputPath d1))
                         (d1\<lparr>dl_completedFileCount := dl_completedFileCount d1 + 1\<rparr>)
                  else d1\<lparr>dl_world := remove_file (dl_outputPath d1) (dl_world d1)\<rparr>)
        in d2\<lparr>dl_outputPath := [], dl_currentFileBytesDone := 0, dl_currentFileSize := 0\<rparr>)"

fun checksum_loop :: "nat \<Rightarrow> uint32 \<Rightarrow> uint8 list \<Rightarrow> uint32" where
  "checksum_loop i acc [] = acc"
| "checksum_loop i acc (b # bs) = checksum_loop (Suc i) (acc + push_bit (i mod 24) (ucast b)) bs"

definition CalculateChecksum :: "uint8 list \<Rightarrow> uint32" where
  "CalculateChecksum bs = checksum_loop 0 0 bs"

unbundle bit_operations_syntax

definition munge :: "uint8 list \<Rightarrow> uint8 list" where
  "munge bs = map (\<lambda>b. b XOR 0xFF) bs"

subsection \<open>Incoming\<close>

definition HandleFileHeader :: "muscle \<Rightarrow> message \<Rightarrow> download \<Rightarrow> download" where
  "HandleFileHeader L m d0 =
     (let d = FinishCurrentFile d0
      in case (find_string m BESHARE_FIELD_FILE_NAME, find_int64 m BESHARE_FIELD_FILE_SIZE) of
           (Some fileName, Some fileSize) \<Rightarrow>
             let d1 = d\<lparr>dl_remoteSessionId :=
                          found_or (dl_remoteSessionId d) (find_string m BESHARE_FIELD_FROM_SESSION)\<rparr>;
                 relativePath = found_or [] (find_string m BESHARE_FIELD_PATH);
                 d2 = d1\<lparr>dl_currentFileName := fileName, dl_currentFileSize := fileSize,
                         dl_currentFileBytesDone := 0\<rparr>;
                 (opened, d3) = OpenOutputFile L fileName relativePath d2
             in if \<not> opened then Abort (''Could not create a file for '' @ fileName) d3
                else SetState DOWNLOAD_TRANSFERRING d3
         | _ \<Rightarrow> Abort ''Peer sent a malformed file header'' d)"

text \<open>
  The rate window: more samples than the maximum, or a head older than the window, lose their head;
  the clock is read once per round that has more than one sample to judge by age.
\<close>

fun prune_samples ::
  "(uint64 \<times> uint32) list \<Rightarrow> world \<Rightarrow> (uint64 \<times> uint32) list \<times> world" where
  "prune_samples [] w = ([], w)"
| "prune_samples (x # xs) w =
     (if length (x # xs) > kMaximumTransferSamples then prune_samples xs w
      else if length (x # xs) > 1 then
        (case read_now w of (t, w1) \<Rightarrow>
           if t - fst x > kRateWindowMicroseconds then prune_samples xs w1 else (x # xs, w1))
      else (x # xs, w))"

text \<open>The data that arrives, checked against its checksum, then decoded.\<close>

definition decode_chunk :: "message \<Rightarrow> uint8 list \<Rightarrow> string + uint8 list" where
  "decode_chunk m data =
     (if (case find_int32 m BESHARE_FIELD_CHECKSUM of
            Some expected \<Rightarrow> CalculateChecksum data \<noteq> expected | None \<Rightarrow> False)
      then Inl ''Checksum mismatch -- the data arrived corrupted''
      else let mungeMode = found_or MUNGE_MODE_NONE (find_int32 m BESHARE_FIELD_MUNGE_MODE)
           in if mungeMode = MUNGE_MODE_XOR then Inr (munge data)
              else if mungeMode \<noteq> MUNGE_MODE_NONE
                then Inl ''Peer used a data encoding we do not understand''
              else Inr data)"

definition HandleFileData :: "message \<Rightarrow> download \<Rightarrow> download" where
  "HandleFileData m d =
     (case dl_outputFile d of
        None \<Rightarrow> d
      | Some p \<Rightarrow>
          (case find_data m BESHARE_FIELD_DATA of
             None \<Rightarrow> FinishCurrentFile d
           | Some data \<Rightarrow>
               (case decode_chunk m data of
                  Inl reason \<Rightarrow> Abort reason d
                | Inr writable \<Rightarrow>
                    (case write_file p writable (dl_world d) of (written, w1) \<Rightarrow>
                       let d1 = d\<lparr>dl_world := w1\<rparr>
                       in if written \<noteq> length data then Abort ''Could not write to disk'' d1
                          else
                            let byteCount = of_nat (length data);
                                d2 = d1\<lparr>dl_currentFileBytesDone := dl_currentFileBytesDone d1 + byteCount,
                                        dl_totalBytesDone := dl_totalBytesDone d1 + byteCount\<rparr>;
                                (t, w2) = read_now (dl_world d2);
                                (ss, w3) = prune_samples (dl_samples d2 @ [(t, of_nat (length data))]) w2;
                                d3 = dl_emit DlProgress (d2\<lparr>dl_samples := ss, dl_world := w3\<rparr>)
                            in if sint (dl_currentFileSize d3) \<ge> 0 \<and>
                                  sint (dl_currentFileBytesDone d3) \<ge> sint (dl_currentFileSize d3)
                               then FinishCurrentFile d3 else d3))))"

definition HandleRejected :: "muscle \<Rightarrow> message \<Rightarrow> download \<Rightarrow> download" where
  "HandleRejected L m d =
     (let reason = ''The peer refused the request'' @
           (case find_int64 m BESHARE_FIELD_TIME_LEFT of
              Some secondsLeft \<Rightarrow>
                if sint secondsLeft > 0
                then '' (banned for '' @ FormatInt L (sint secondsLeft div 60) @ '' more minutes)'' else []
            | None \<Rightarrow> [])
      in Abort reason d)"

subsection \<open>Transceiver callbacks\<close>

definition DlSessionConnected :: "download \<Rightarrow> download" where
  "DlSessionConnected d = SendFileList (SendPeerIdentity (SetState DOWNLOAD_REQUESTING d))"

definition DlSessionDisconnected :: "download \<Rightarrow> download" where
  "DlSessionDisconnected d =
     (if IsFinished d then d
      else if dl_outputFile d \<noteq> None then Abort ''Peer disconnected during transfer'' d
      else
        let d1 = CloseOutputFile d;
            d2 = SetState (if dl_completedFileCount d1 > 0 then DOWNLOAD_FINISHED else DOWNLOAD_FAILED) d1
        in if dl_completedFileCount d2 = 0 \<and> dl_errorText d2 = []
           then d2\<lparr>dl_errorText := ''Peer disconnected without sending anything''\<rparr> else d2)"

definition DlMessageReceived :: "muscle \<Rightarrow> message \<Rightarrow> download \<Rightarrow> download" where
  "DlMessageReceived L m d =
     (if what m = TRANSFER_COMMAND_FILE_HEADER then HandleFileHeader L m d
      else if what m = TRANSFER_COMMAND_FILE_DATA then HandleFileData m d
      else if what m = TRANSFER_COMMAND_PEER_ID then
        (case find_string m BESHARE_FIELD_FROM_USER_NAME of
           Some announcedName \<Rightarrow>
             if announcedName \<noteq> [] then d\<lparr>dl_remoteUserName := announcedName\<rparr> else d
         | None \<Rightarrow> d)
      else if what m = TRANSFER_COMMAND_NOTIFY_QUEUED then SetState DOWNLOAD_QUEUED_REMOTELY d
      else if what m = TRANSFER_COMMAND_REJECTED then HandleRejected L m d
      else d)"

end
