(* ===== verification/DownloadLaws.thy ===== *)
theory DownloadLaws
  imports FileDownload
begin

section \<open>What a download guarantees against a hostile peer\<close>

text \<open>
  The lemmas and properties of \<open>FileDownload\<close>: names are made safe, every file written lies below
  the download folder, nothing that existed before is changed or removed, and how a download ends.
\<close>

subsection \<open>Signed sizes\<close>

lemma sint_of_nat64: "n < 2 ^ 63 \<Longrightarrow> sint (of_nat n :: int64) = int n"
  by (simp add: signed_of_nat signed_take_bit_int_eq_self)

subsection \<open>Sanitised names\<close>

lemma set_strip_leading: "trim_law L \<Longrightarrow> set (strip_leading L k s) \<subseteq> set s"
proof (induction k arbitrary: s)
  case (Suc k)
  have "set (Trimmed L (substring_from s 1)) \<subseteq> set s"
    using set_Trimmed [OF Suc.prems] set_substring_from by blast
  then show ?case using Suc.IH [OF Suc.prems, of "Trimmed L (substring_from s 1)"] Suc.prems by auto
qed simp

lemma strip_leading_done:
  "trim_law L \<Longrightarrow> length s \<le> k \<Longrightarrow>
   \<not> starts_with (strip_leading L k s) ''.'' \<and> \<not> starts_with (strip_leading L k s) ''-''"
proof (induction k arbitrary: s)
  case (Suc k)
  have "length (Trimmed L (substring_from s 1)) \<le> k"
    using length_Trimmed [OF Suc.prems(1), of "substring_from s 1"] Suc.prems(2)
    by (simp add: substring_from_def)
  then show ?case using Suc.IH [OF Suc.prems(1)] by simp
qed simp

lemma strip_leading_trimmed:
  "trim_law L \<Longrightarrow> Trimmed L s = s \<Longrightarrow> Trimmed L (strip_leading L k s) = strip_leading L k s"
  by (induction k arbitrary: s) simp_all

lemma strip_leading_fixed:
  "\<not> starts_with s ''.'' \<Longrightarrow> \<not> starts_with s ''-'' \<Longrightarrow> strip_leading L k s = s"
  by (cases k) simp_all

definition safe_component :: "string \<Rightarrow> bool" where
  "safe_component c \<longleftrightarrow> c \<noteq> [] \<and> list_all (\<lambda>x. \<not> unsafe_char x) c \<and> c \<noteq> ''.'' \<and> c \<noteq> ''..''"

lemma sanitized_chars:
  assumes "trim_law L"
  shows "list_all (\<lambda>x. \<not> unsafe_char x) (SanitizePathComponent L s)"
proof -
  define safe where "safe = map (\<lambda>c. if unsafe_char c then CHR ''_'' else c) s"
  have "list_all (\<lambda>x. \<not> unsafe_char x) safe"
    by (auto simp: safe_def list_all_iff unsafe_char_def)
  moreover have "set (SanitizePathComponent L s) \<subseteq> set safe"
    using set_strip_leading [OF assms, of "length (Trimmed L safe)" "Trimmed L safe"]
      set_Trimmed [OF assms, of safe]
    by (auto simp: SanitizePathComponent_def safe_def Let_def)
  ultimately show ?thesis by (auto simp: list_all_iff)
qed

lemma sanitized_start:
  assumes "trim_law L"
  shows "\<not> starts_with (SanitizePathComponent L s) ''.'' \<and> \<not> starts_with (SanitizePathComponent L s) ''-''"
proof -
  define t where "t = Trimmed L (map (\<lambda>c. if unsafe_char c then CHR ''_'' else c) s)"
  have "SanitizePathComponent L s \<in> {strip_leading L (length t) t, []}"
    by (auto simp: SanitizePathComponent_def t_def Let_def)
  then show ?thesis using strip_leading_done [OF assms, of t "length t"] by auto
qed

lemma sanitized_safe: "trim_law L \<Longrightarrow> SanitizePathComponent L s \<noteq> [] \<Longrightarrow> safe_component (SanitizePathComponent L s)"
  using sanitized_chars [of L s] sanitized_start [of L s]
  by (auto simp: safe_component_def)

lemma sanitized_trimmed:
  assumes "trim_law L"
  shows "Trimmed L (SanitizePathComponent L s) = SanitizePathComponent L s"
  using assms by (simp add: SanitizePathComponent_def Let_def strip_leading_trimmed)

lemma sanitize_fixed:
  assumes "list_all (\<lambda>x. \<not> unsafe_char x) s" "Trimmed L s = s"
    "\<not> starts_with s ''.''" "\<not> starts_with s ''-''"
  shows "SanitizePathComponent L s = s"
proof -
  have "map (\<lambda>c. if unsafe_char c then CHR ''_'' else c) s = s"
    using assms(1) by (simp add: list_all_iff map_idI)
  with assms show ?thesis by (auto simp: SanitizePathComponent_def Let_def strip_leading_fixed)
qed

lemma safe_is_clause: "safe_component c \<Longrightarrow> is_clause c"
  by (auto simp: safe_component_def is_clause_def list_all_iff unsafe_char_def)

text \<open>
  C9. A sanitised name is safe to use as one component of a path: it has no separator of either kind
  and no control character, it does not start with a dot or a dash (so it is none of the names that
  navigate), sanitising it again changes nothing, and a name that is already safe and trimmed is
  kept as it is.
\<close>

theorem sanitize_is_safe:
  assumes "trim_law L"
  shows "let r = SanitizePathComponent L s
    in (r = [] \<or> safe_component r) \<and> CHR ''/'' \<notin> set r \<and> CHR 0x5C \<notin> set r \<and>
       \<not> starts_with r ''.'' \<and> \<not> starts_with r ''-'' \<and> SanitizePathComponent L r = r \<and>
       (safe_component s \<and> Trimmed L s = s \<and> \<not> starts_with s ''.'' \<and> \<not> starts_with s ''-'' \<longrightarrow> r = s)"
proof -
  let ?r = "SanitizePathComponent L s"
  have c: "list_all (\<lambda>x. \<not> unsafe_char x) ?r" by (rule sanitized_chars [OF assms])
  have "CHR ''/'' \<notin> set ?r" "CHR 0x5C \<notin> set ?r"
    using c by (auto simp: list_all_iff unsafe_char_def)
  moreover have "SanitizePathComponent L ?r = ?r"
    using sanitize_fixed [OF c sanitized_trimmed [OF assms]] sanitized_start [OF assms, of s] by simp
  moreover have "safe_component s \<and> Trimmed L s = s \<and> \<not> starts_with s ''.'' \<and> \<not> starts_with s ''-'' \<longrightarrow> ?r = s"
    using sanitize_fixed [of s L] unfolding safe_component_def by blast
  ultimately show ?thesis
    using sanitized_safe [OF assms, of s] sanitized_start [OF assms, of s] unfolding Let_def by blast
qed

theorem sanitize_is_safe_witness:
  "SanitizePathComponent ref_muscle ''../../.ssh'' = ''_.._.ssh'' \<and>
   \<not> starts_with (SanitizePathComponent ref_muscle ''../../.ssh'') ''.''"
proof -
  have "SanitizePathComponent ref_muscle ''../../.ssh'' = ''_.._.ssh''" by code_simp
  then show ?thesis using sanitize_is_safe [OF ref_trim_law, of "''../../.ssh''"] unfolding Let_def by blast
qed

subsection \<open>Where files go\<close>

text \<open>A path below a folder: one or more safe components.\<close>

definition contained :: "string \<Rightarrow> string \<Rightarrow> bool" where
  "contained D p \<longleftrightarrow> (\<exists>cs. cs \<noteq> [] \<and> list_all safe_component cs \<and> p = D @ make_path cs)"

lemma append_components_safe:
  assumes "trim_law L"
  shows "\<exists>ds. list_all safe_component ds \<and> append_components L cs D = D @ make_path ds"
proof (induction cs arbitrary: D)
  case Nil
  then show ?case by (intro exI [of _ "[]"]) simp
next
  case (Cons c cs)
  let ?s = "SanitizePathComponent L c"
  show ?case
  proof (cases "?s = []")
    case True
    with Cons.IH [of D] show ?thesis by (simp add: Let_def)
  next
    case False
    obtain ds where "list_all safe_component ds"
      "append_components L cs (D @ ''/'' @ ?s) = (D @ ''/'' @ ?s) @ make_path ds"
      using Cons.IH by blast
    then show ?thesis using False sanitized_safe [OF assms False]
      by (intro exI [of _ "?s # ds"]) (simp add: Let_def)
  qed
qed

lemma format_safe: "format_law L \<Longrightarrow> list_all (\<lambda>x. \<not> unsafe_char x) (FormatInt L n)"
proof -
  assume "format_law L"
  then have "list_all (\<lambda>c. digit c \<or> c = CHR ''-'') (FormatInt L n)" by (simp add: format_law_def)
  then show ?thesis
    by (rule list.pred_mono_strong) (auto simp: digit_def unsafe_char_def)
qed

lemma numbered_safe:
  assumes "format_law L" "list_all (\<lambda>x. \<not> unsafe_char x) stem" "list_all (\<lambda>x. \<not> unsafe_char x) ext"
  shows "\<exists>c. safe_component c \<and> numbered L D stem ext n = D @ ''/'' @ c"
proof -
  let ?c = "stem @ '' ('' @ FormatInt L (int n) @ '')'' @ ext"
  have "CHR ''('' \<in> set ?c" by simp
  then have "?c \<noteq> ''.''" "?c \<noteq> ''..''" by fastforce+
  then have "safe_component ?c"
    using assms format_safe [OF assms(1), of "int n"] by (simp add: safe_component_def unsafe_char_def)
  then show ?thesis by (intro exI [of _ ?c]) (simp add: numbered_def)
qed

lemma find_free_new:
  "find_free w name a k = Some p \<Longrightarrow> \<not> PathExists w p \<and> (\<exists>n. p = name n)"
  by (induction w name a k rule: find_free.induct) (auto split: if_splits)

lemma list_all_part:
  "list_all P s \<Longrightarrow> list_all P (substring s i j)" "list_all P s \<Longrightarrow> list_all P (substring_from s i)"
  using set_substring [of s i j] set_substring_from [of s i] by (auto simp: list_all_iff)

lemma choose_path_safe:
  assumes "format_law L" "safe_component name" "choose_path L w D name = Some p"
  shows "\<not> PathExists w p \<and> (\<exists>c. safe_component c \<and> p = D @ ''/'' @ c)"
proof -
  have chars: "list_all (\<lambda>x. \<not> unsafe_char x) name" using assms(2) by (simp add: safe_component_def)
  show ?thesis
  proof (cases "PathExists w (D @ ''/'' @ name)")
    case False
    then show ?thesis using assms(2,3) by (auto simp: choose_path_def)
  next
    case True
    let ?dot = "last_index_of (CHR ''.'') name"
    define stem where "stem = (if ?dot > 0 then substring name 0 ?dot else name)"
    define ext where "ext = (if ?dot > 0 then substring_from name ?dot else [])"
    have "find_free w (numbered L D stem ext) 2 (kMaximumRenameAttempts - 2) = Some p"
      using assms(3) True by (simp add: choose_path_def stem_def ext_def Let_def)
    then obtain n where "\<not> PathExists w p" "p = numbered L D stem ext n" using find_free_new by blast
    moreover have "list_all (\<lambda>x. \<not> unsafe_char x) stem" "list_all (\<lambda>x. \<not> unsafe_char x) ext"
      using chars by (simp_all add: stem_def ext_def list_all_part)
    ultimately show ?thesis using numbered_safe [OF assms(1)] by blast
  qed
qed

lemma mkdir_files [simp]: "w_files (snd (mkdir p w)) = w_files w"
  by (simp add: mkdir_def)

lemma make_components_files [simp]: "w_files (snd (make_components cs p w)) = w_files w"
proof (induction cs arbitrary: p w)
  case (Cons c cs)
  obtain ok w1 where m: "mkdir (p @ ''/'' @ c) w = (ok, w1)" by fastforce
  then have "w_files w1 = w_files w" using mkdir_files [of "p @ ''/'' @ c" w] by simp
  then show ?case using m Cons.IH by simp
qed simp

lemma CreateDirectoryTree_files [simp]: "w_files (snd (CreateDirectoryTree L p w)) = w_files w"
  by (simp add: CreateDirectoryTree_def)

text \<open>Opening: a fresh, empty file below the download folder, or nothing but folders.\<close>

lemma OpenOutputFile_cases:
  assumes "trim_law L" "format_law L"
  shows "(\<exists>w. w_files w = w_files (dl_world d) \<and> OpenOutputFile L n rp d = (False, d\<lparr>dl_world := w\<rparr>)) \<or>
    (\<exists>p w. contained (dl_downloadDirectory d) p \<and> w_files (dl_world d) p = None \<and>
       w_files w = (w_files (dl_world d))(p \<mapsto> []) \<and>
       OpenOutputFile L n rp d = (True, d\<lparr>dl_world := w, dl_outputFile := Some p, dl_outputPath := p\<rparr>))"
proof -
  let ?safe = "SanitizePathComponent L n"
  let ?dir = "if dl_retainFilePaths d
      then append_components L (Tokenize L rp ''/'') (dl_downloadDirectory d) else dl_downloadDirectory d"
  obtain created w1 where cdt: "CreateDirectoryTree L ?dir (dl_world d) = (created, w1)" by fastforce
  have w1: "w_files w1 = w_files (dl_world d)"
    using CreateDirectoryTree_files [of L ?dir "dl_world d"] cdt by simp
  obtain ds where ds: "list_all safe_component ds" "?dir = dl_downloadDirectory d @ make_path ds"
  proof (cases "dl_retainFilePaths d")
    case True
    then show ?thesis
      using append_components_safe [OF assms(1), of "Tokenize L rp ''/''" "dl_downloadDirectory d"] that
      by auto
  next
    case False
    then show ?thesis using that [of "[]"] by simp
  qed
  consider "?safe = []" | "?safe \<noteq> []" "\<not> created" | "?safe \<noteq> []" "created" "choose_path L w1 ?dir ?safe = None"
    | p where "?safe \<noteq> []" "created" "choose_path L w1 ?dir ?safe = Some p" by fastforce
  then show ?thesis
  proof cases
    case 1
    then show ?thesis by (intro disjI1 exI [of _ "dl_world d"]) (simp add: OpenOutputFile_def)
  next
    case 2
    then show ?thesis using cdt w1
      by (intro disjI1 exI [of _ w1]) (simp add: OpenOutputFile_def Let_def)
  next
    case 3
    then show ?thesis using cdt w1
      by (intro disjI1 exI [of _ w1]) (simp add: OpenOutputFile_def Let_def)
  next
    case 4
    obtain c where c: "\<not> PathExists w1 p" "safe_component c" "p = ?dir @ ''/'' @ c"
      using choose_path_safe [OF assms(2) sanitized_safe [OF assms(1) 4(1)] 4(3)] by blast
    have "p = dl_downloadDirectory d @ make_path (ds @ [c])"
      using c(3) ds(2) by (simp add: make_path_def)
    then have in_dir: "contained (dl_downloadDirectory d) p"
      unfolding contained_def using ds(1) c(2) by (intro exI [of _ "ds @ [c]"]) simp
    have new: "w_files (dl_world d) p = None" using c(1) w1 by (simp add: PathExists_def)
    show ?thesis
    proof (cases "w_fopen_ok w1 p \<and> p \<notin> set (w_dirs w1)")
      case True
      then have "OpenOutputFile L n rp d = (True, d\<lparr>dl_world := w1\<lparr>w_files := (w_files w1)(p \<mapsto> [])\<rparr>,
          dl_outputFile := Some p, dl_outputPath := p\<rparr>)"
        using 4 cdt by (simp add: OpenOutputFile_def Let_def open_for_writing_def)
      then show ?thesis using in_dir new w1
        by (intro disjI2 exI [of _ p] exI [of _ "w1\<lparr>w_files := (w_files w1)(p \<mapsto> [])\<rparr>"]) simp
    next
      case False
      then have "OpenOutputFile L n rp d = (False, d\<lparr>dl_world := w1\<rparr>)"
        using 4 cdt by (simp add: OpenOutputFile_def Let_def open_for_writing_def)
      then show ?thesis using w1 by blast
    qed
  qed
qed

subsection \<open>Every history\<close>

datatype dl_op =
    DlAddRequest string string int64 | DlStart dl_env string uint16 string string string
  | DlAbort string | DlConnected | DlDisconnected | DlMessage message
  | DlSetRetain bool | DlSetRate uint32 | DlSetUserName string

fun run_dl :: "muscle \<Rightarrow> dl_op \<Rightarrow> download \<Rightarrow> download" where
  "run_dl L (DlAddRequest n p sz) d = AddRequestedFile n p sz d"
| "run_dl L (DlStart E h p r l u) d = snd (Start E h p r l u d)"
| "run_dl L (DlAbort reason) d = Abort reason d"
| "run_dl L DlConnected d = DlSessionConnected d"
| "run_dl L DlDisconnected d = DlSessionDisconnected d"
| "run_dl L (DlMessage m) d = DlMessageReceived L m d"
| "run_dl L (DlSetRetain b) d = SetDlRetainFilePaths b d"
| "run_dl L (DlSetRate n) d = SetDlRateLimit n d"
| "run_dl L (DlSetUserName n) d = SetRemoteUserName n d"

text \<open>
  \<open>F\<close> is what was on disk at the start. It is still there unchanged; everything else lies below the
  download folder; and the path the download holds is none of \<open>F\<close>'s.
\<close>

definition dl_inv :: "string \<Rightarrow> (string \<rightharpoonup> uint8 list) \<Rightarrow> download \<Rightarrow> bool" where
  "dl_inv D F d \<longleftrightarrow> dl_downloadDirectory d = D \<and>
     (\<forall>p v. F p = Some v \<longrightarrow> w_files (dl_world d) p = Some v) \<and>
     (\<forall>p. w_files (dl_world d) p \<noteq> None \<longrightarrow> F p \<noteq> None \<or> contained D p) \<and>
     (dl_outputPath d = [] \<or> F (dl_outputPath d) = None) \<and>
     (\<forall>p. dl_outputFile d = Some p \<longrightarrow> dl_outputPath d = p \<and> p \<noteq> [] \<and> contained D p \<and> F p = None)"

lemma dl_inv_same:
  "dl_inv D F d \<Longrightarrow> dl_downloadDirectory d' = dl_downloadDirectory d \<Longrightarrow>
   w_files (dl_world d') = w_files (dl_world d) \<Longrightarrow> dl_outputPath d' = dl_outputPath d \<Longrightarrow>
   dl_outputFile d' = dl_outputFile d \<Longrightarrow> dl_inv D F d'"
  by (simp add: dl_inv_def)

lemma dl_inv_updates [simp]:
  "dl_inv D F (d\<lparr>dl_remoteSessionId := a\<rparr>) = dl_inv D F d" "dl_inv D F (d\<lparr>dl_remoteUserName := a\<rparr>) = dl_inv D F d"
  "dl_inv D F (d\<lparr>dl_localSessionId := a\<rparr>) = dl_inv D F d" "dl_inv D F (d\<lparr>dl_localUserName := a\<rparr>) = dl_inv D F d"
  "dl_inv D F (d\<lparr>dl_errorText := a\<rparr>) = dl_inv D F d" "dl_inv D F (d\<lparr>dl_requestedFiles := rs\<rparr>) = dl_inv D F d"
  "dl_inv D F (d\<lparr>dl_state := st\<rparr>) = dl_inv D F d" "dl_inv D F (d\<lparr>dl_currentFileName := a\<rparr>) = dl_inv D F d"
  "dl_inv D F (d\<lparr>dl_currentFileSize := n\<rparr>) = dl_inv D F d" "dl_inv D F (d\<lparr>dl_currentFileBytesDone := n\<rparr>) = dl_inv D F d"
  "dl_inv D F (d\<lparr>dl_totalBytesDone := n\<rparr>) = dl_inv D F d" "dl_inv D F (d\<lparr>dl_totalBytesExpected := n\<rparr>) = dl_inv D F d"
  "dl_inv D F (d\<lparr>dl_completedFileCount := c\<rparr>) = dl_inv D F d" "dl_inv D F (d\<lparr>dl_samples := ss\<rparr>) = dl_inv D F d"
  "dl_inv D F (d\<lparr>dl_thread := b\<rparr>) = dl_inv D F d" "dl_inv D F (d\<lparr>dl_inputPolicy := io\<rparr>) = dl_inv D F d"
  "dl_inv D F (d\<lparr>dl_sent := ms\<rparr>) = dl_inv D F d" "dl_inv D F (d\<lparr>dl_events := evs\<rparr>) = dl_inv D F d"
  "dl_inv D F (d\<lparr>dl_retainFilePaths := b\<rparr>) = dl_inv D F d" "dl_inv D F (d\<lparr>dl_rateLimit := c\<rparr>) = dl_inv D F d"
  by (simp_all add: dl_inv_def)

lemma dl_emit_inv [simp]: "dl_inv D F (dl_emit ev d) = dl_inv D F d"
  by (simp add: dl_emit_def)

lemma SetState_inv [simp]: "dl_inv D F (SetState st d) = dl_inv D F d"
  by (simp add: SetState_def)

lemma CloseOutputFile_inv: "dl_inv D F d \<Longrightarrow> dl_inv D F (CloseOutputFile d)"
  by (auto simp: dl_inv_def CloseOutputFile_def)

lemma CloseOutputFile_fields [simp]:
  "dl_outputFile (CloseOutputFile d) = None" "dl_outputPath (CloseOutputFile d) = dl_outputPath d"
  "dl_world (CloseOutputFile d) = dl_world d" "dl_state (CloseOutputFile d) = dl_state d"
  "dl_completedFileCount (CloseOutputFile d) = dl_completedFileCount d"
  "dl_events (CloseOutputFile d) = dl_events d" "dl_listener (CloseOutputFile d) = dl_listener d"
  "dl_currentFileSize (CloseOutputFile d) = dl_currentFileSize d"
  "dl_currentFileBytesDone (CloseOutputFile d) = dl_currentFileBytesDone d"
  "dl_errorText (CloseOutputFile d) = dl_errorText d"
  by (simp_all add: CloseOutputFile_def)

text \<open>Removing the path the download holds.\<close>

lemma remove_own_inv:
  "dl_inv D F d \<Longrightarrow> dl_outputFile d = None \<Longrightarrow> dl_outputPath d \<noteq> [] \<Longrightarrow>
   dl_inv D F (d\<lparr>dl_world := remove_file (dl_outputPath d) (dl_world d)\<rparr>)"
  by (auto simp: dl_inv_def remove_file_def)

lemma Abort_inv: "dl_inv D F d \<Longrightarrow> dl_inv D F (Abort reason d)"
proof -
  assume "dl_inv D F d"
  then have c: "dl_inv D F (CloseOutputFile (d\<lparr>dl_thread := False\<rparr>))" by (simp add: CloseOutputFile_inv)
  then show ?thesis using \<open>dl_inv D F d\<close> remove_own_inv [OF c]
    by (simp add: Abort_def Let_def)
qed

lemma clear_path_inv: "dl_inv D F d \<Longrightarrow> dl_outputFile d = None \<Longrightarrow> dl_inv D F (d\<lparr>dl_outputPath := []\<rparr>)"
  by (simp add: dl_inv_def)

lemma FinishCurrentFile_inv: "dl_inv D F d \<Longrightarrow> dl_inv D F (FinishCurrentFile d)"
proof (cases "dl_outputFile d")
  case (Some p)
  assume inv: "dl_inv D F d"
  let ?d1 = "CloseOutputFile d"
  let ?complete = "sint (dl_currentFileSize ?d1) \<le> 0 \<or> sint (dl_currentFileBytesDone ?d1) \<ge> sint (dl_currentFileSize ?d1)"
  let ?d2 = "if ?complete
             then dl_emit (DlFileCompleted (dl_outputPath ?d1)) (?d1\<lparr>dl_completedFileCount := dl_completedFileCount ?d1 + 1\<rparr>)
             else ?d1\<lparr>dl_world := remove_file (dl_outputPath ?d1) (dl_world ?d1)\<rparr>"
  have "dl_outputPath ?d1 \<noteq> []" using inv Some by (auto simp: dl_inv_def)
  then have "dl_inv D F ?d2" "dl_outputFile ?d2 = None"
    using CloseOutputFile_inv [OF inv] remove_own_inv [of D F ?d1] by (simp_all add: dl_emit_def)
  then have "dl_inv D F (?d2\<lparr>dl_outputPath := []\<rparr>)" by (rule clear_path_inv)
  moreover have "FinishCurrentFile d = ?d2\<lparr>dl_outputPath := [], dl_currentFileBytesDone := 0, dl_currentFileSize := 0\<rparr>"
    using Some by (simp only: FinishCurrentFile_def Let_def) simp
  ultimately show ?thesis by simp
qed (simp add: FinishCurrentFile_def)

lemma OpenOutputFile_inv:
  assumes "trim_law L" "format_law L" "dl_inv D F d"
  shows "dl_inv D F (snd (OpenOutputFile L n rp d))"
proof -
  have ne: "p \<noteq> []" if "contained D p" for p
    using that unfolding contained_def by (metis append_is_Nil_conv make_path_simps(2) neq_Nil_conv)
  show ?thesis
    using OpenOutputFile_cases [OF assms(1,2), of d n rp]
  proof (elim disjE exE conjE)
    fix w assume "w_files w = w_files (dl_world d)" "OpenOutputFile L n rp d = (False, d\<lparr>dl_world := w\<rparr>)"
    then show ?thesis using assms(3) by (simp add: dl_inv_def)
  next
    fix p w assume o: "contained (dl_downloadDirectory d) p" "w_files (dl_world d) p = None"
      "w_files w = (w_files (dl_world d))(p \<mapsto> [])"
      "OpenOutputFile L n rp d = (True, d\<lparr>dl_world := w, dl_outputFile := Some p, dl_outputPath := p\<rparr>)"
    have "F p = None" using o(2) assms(3) unfolding dl_inv_def by (metis not_Some_eq)
    then show ?thesis using o assms(3) ne by (auto simp: dl_inv_def)
  qed
qed

lemma HandleFileHeader_inv:
  assumes "trim_law L" "format_law L" "dl_inv D F d"
  shows "dl_inv D F (HandleFileHeader L m d)"
proof -
  let ?d = "FinishCurrentFile d"
  have inv: "dl_inv D F ?d" using assms(3) by (rule FinishCurrentFile_inv)
  show ?thesis
  proof (cases "find_string m BESHARE_FIELD_FILE_NAME")
    case None
    then show ?thesis using inv by (simp add: HandleFileHeader_def Abort_inv)
  next
    case n: (Some n)
    show ?thesis
    proof (cases "find_int64 m BESHARE_FIELD_FILE_SIZE")
      case None
      then show ?thesis using n inv by (simp add: HandleFileHeader_def Abort_inv)
    next
      case (Some sz)
      define d2 where "d2 = ?d\<lparr>dl_remoteSessionId := found_or (dl_remoteSessionId ?d)
          (find_string m BESHARE_FIELD_FROM_SESSION), dl_currentFileName := n, dl_currentFileSize := sz,
          dl_currentFileBytesDone := 0\<rparr>"
      obtain ok d3 where o: "OpenOutputFile L n (found_or [] (find_string m BESHARE_FIELD_PATH)) d2 = (ok, d3)"
        by fastforce
      have "dl_inv D F d2" using inv by (simp add: d2_def)
      then have "dl_inv D F d3" using OpenOutputFile_inv [OF assms(1,2)] o by (metis snd_conv)
      moreover have "HandleFileHeader L m d =
          (if \<not> ok then Abort (''Could not create a file for '' @ n) d3 else SetState DOWNLOAD_TRANSFERRING d3)"
        unfolding HandleFileHeader_def Let_def using n Some o by (simp add: d2_def)
      ultimately show ?thesis by (simp add: Abort_inv)
    qed
  qed
qed

lemma write_own_inv:
  assumes "dl_inv D F d" "dl_outputFile d = Some p"
  shows "dl_inv D F (d\<lparr>dl_world := snd (write_file p bs (dl_world d))\<rparr>)"
  using assms by (auto simp: dl_inv_def write_file_def Let_def)

lemma read_now_files [simp]: "w_files (snd (read_now w)) = w_files w"
  by (simp add: read_now_def)

lemma prune_samples_files [simp]: "w_files (snd (prune_samples ss w)) = w_files w"
proof (induction ss w rule: prune_samples.induct)
  case (2 x xs w)
  obtain t w1 where r: "read_now w = (t, w1)" by fastforce
  then have "w_files w1 = w_files w" using read_now_files [of w] by simp
  then show ?case using 2 r by simp
qed simp

text \<open>What one data message does once it decodes.\<close>

definition count_bytes :: "uint8 list \<Rightarrow> download \<Rightarrow> download" where
  "count_bytes data d =
     (let byteCount = of_nat (length data);
          d2 = d\<lparr>dl_currentFileBytesDone := dl_currentFileBytesDone d + byteCount,
                 dl_totalBytesDone := dl_totalBytesDone d + byteCount\<rparr>;
          (t, w2) = read_now (dl_world d2);
          (ss, w3) = prune_samples (dl_samples d2 @ [(t, of_nat (length data))]) w2
      in dl_emit DlProgress (d2\<lparr>dl_samples := ss, dl_world := w3\<rparr>))"

lemma HandleFileData_decoded:
  assumes "dl_outputFile d = Some p" "find_data m BESHARE_FIELD_DATA = Some data"
    "decode_chunk m data = Inr bs" "write_file p bs (dl_world d) = (n, w1)"
  shows "HandleFileData m d =
    (if n \<noteq> length data then Abort ''Could not write to disk'' (d\<lparr>dl_world := w1\<rparr>)
     else let d3 = count_bytes data (d\<lparr>dl_world := w1\<rparr>)
          in if sint (dl_currentFileSize d3) \<ge> 0 \<and> sint (dl_currentFileBytesDone d3) \<ge> sint (dl_currentFileSize d3)
             then FinishCurrentFile d3 else d3)"
  using assms by (simp add: HandleFileData_def count_bytes_def Let_def split: prod.split)

lemma count_bytes_frame [simp]:
  "w_files (dl_world (count_bytes data d)) = w_files (dl_world d)"
  "dl_downloadDirectory (count_bytes data d) = dl_downloadDirectory d"
  "dl_outputPath (count_bytes data d) = dl_outputPath d"
  "dl_outputFile (count_bytes data d) = dl_outputFile d" "dl_state (count_bytes data d) = dl_state d"
  "dl_currentFileSize (count_bytes data d) = dl_currentFileSize d"
  "dl_currentFileBytesDone (count_bytes data d) = dl_currentFileBytesDone d + of_nat (length data)"
  "dl_completedFileCount (count_bytes data d) = dl_completedFileCount d"
  "dl_listener (count_bytes data d) = dl_listener d"
  "dl_events (count_bytes data d) = dl_events d @ (if dl_listener d then [DlProgress] else [])"
proof -
  obtain t w2 where t: "read_now (dl_world d) = (t, w2)" by fastforce
  obtain ss w3 where p: "prune_samples (dl_samples d @ [(t, of_nat (length data))]) w2 = (ss, w3)" by fastforce
  have "w_files w3 = w_files (dl_world d)"
    using prune_samples_files [of "dl_samples d @ [(t, of_nat (length data))]" w2]
      read_now_files [of "dl_world d"] t p by simp
  then show "w_files (dl_world (count_bytes data d)) = w_files (dl_world d)"
    "dl_downloadDirectory (count_bytes data d) = dl_downloadDirectory d"
    "dl_outputPath (count_bytes data d) = dl_outputPath d"
    "dl_outputFile (count_bytes data d) = dl_outputFile d" "dl_state (count_bytes data d) = dl_state d"
    "dl_currentFileSize (count_bytes data d) = dl_currentFileSize d"
    "dl_currentFileBytesDone (count_bytes data d) = dl_currentFileBytesDone d + of_nat (length data)"
    "dl_completedFileCount (count_bytes data d) = dl_completedFileCount d"
    "dl_listener (count_bytes data d) = dl_listener d"
    "dl_events (count_bytes data d) = dl_events d @ (if dl_listener d then [DlProgress] else [])"
    by (simp_all add: count_bytes_def t p dl_emit_def Let_def)
qed

lemma count_bytes_inv [simp]: "dl_inv D F d \<Longrightarrow> dl_inv D F (count_bytes data d)"
  by (erule dl_inv_same) simp_all

lemma HandleFileData_inv:
  assumes "dl_inv D F d"
  shows "dl_inv D F (HandleFileData m d)"
proof (cases "dl_outputFile d")
  case None
  then show ?thesis using assms by (simp add: HandleFileData_def)
next
  case p: (Some p)
  show ?thesis
  proof (cases "find_data m BESHARE_FIELD_DATA")
    case None
    then show ?thesis using assms p by (simp add: HandleFileData_def FinishCurrentFile_inv)
  next
    case data: (Some data)
    show ?thesis
    proof (cases "decode_chunk m data")
      case (Inl r)
      then show ?thesis using assms p data by (simp add: HandleFileData_def Abort_inv)
    next
      case (Inr bs)
      obtain n w1 where w: "write_file p bs (dl_world d) = (n, w1)" by fastforce
      have "dl_inv D F (d\<lparr>dl_world := w1\<rparr>)" using write_own_inv [OF assms p, of bs] w by simp
      then show ?thesis
        unfolding HandleFileData_decoded [OF p data Inr w] by (simp add: Let_def Abort_inv FinishCurrentFile_inv)
    qed
  qed
qed

lemma run_dl_inv:
  assumes "trim_law L" "format_law L" "dl_inv D F d"
  shows "dl_inv D F (run_dl L op d)"
  using assms
proof (cases op)
  case (DlMessage m)
  then show ?thesis using assms
    by (simp add: DlMessageReceived_def HandleFileHeader_inv HandleFileData_inv HandleRejected_def
        Abort_inv split: option.split)
qed (simp_all add: AddRequestedFile_def Start_def Let_def Abort_inv DlSessionConnected_def
    SendFileList_def SendPeerIdentity_def DlSessionDisconnected_def CloseOutputFile_inv
    SetDlRetainFilePaths_def SetDlRateLimit_def SetRemoteUserName_def split: option.split)

lemma run_dls_inv:
  "trim_law L \<Longrightarrow> format_law L \<Longrightarrow> dl_inv D F d \<Longrightarrow> dl_inv D F (fold (run_dl L) ops d)"
  by (induction ops arbitrary: d) (simp_all add: run_dl_inv)

text \<open>
  C1. Whatever a peer sends and the user does, in any order: every file that was on disk before is still
  there with its content unchanged, and every file there is now was there before or lies below the
  download folder under safe names. In particular no message can overwrite, truncate or delete an
  existing file, and giving up removes nothing but what this download wrote.
\<close>

theorem existing_files_untouched:
  assumes "trim_law L" "format_law L"
  shows "let d = fold (run_dl L) ops (new_download D w)
    in (\<forall>p v. w_files w p = Some v \<longrightarrow> w_files (dl_world d) p = Some v) \<and>
       (\<forall>p. w_files (dl_world d) p \<noteq> None \<longrightarrow> w_files w p \<noteq> None \<or> contained D p)"
proof -
  have "dl_inv D (w_files w) (new_download D w)" by (simp add: dl_inv_def new_download_def)
  from run_dls_inv [OF assms this, of ops] show ?thesis by (simp add: dl_inv_def Let_def)
qed

definition demo_world :: world where
  "demo_world = \<lparr> w_files = Map.empty(''/d/a.txt'' \<mapsto> [1, 2]), w_dirs = [''/d''],
     w_mkdir_ok = (\<lambda>_. True), w_fopen_ok = (\<lambda>_. True), w_room = 1000,
     w_clock = (\<lambda>k. of_nat k), w_ticks = 0 \<rparr>"

definition header_message :: "string \<Rightarrow> int64 \<Rightarrow> message" where
  "header_message n sz = add_int64 (add_string (new_message TRANSFER_COMMAND_FILE_HEADER)
     BESHARE_FIELD_FILE_NAME n) BESHARE_FIELD_FILE_SIZE sz"

theorem existing_files_untouched_witness:
  "let d = fold (run_dl ref_muscle) [DlMessage (header_message ''a.txt'' 5)] (new_download ''/d'' demo_world)
   in w_files (dl_world d) ''/d/a.txt'' = Some [1, 2] \<and> dl_outputFile d = Some ''/d/a (2).txt''"
proof -
  have "w_files demo_world ''/d/a.txt'' = Some [1, 2]" by (simp add: demo_world_def)
  moreover have "dl_outputFile (DlMessageReceived ref_muscle (header_message ''a.txt'' 5)
      (new_download ''/d'' demo_world)) = Some ''/d/a (2).txt''" by code_simp
  ultimately show ?thesis
    using existing_files_untouched [of ref_muscle "[DlMessage (header_message ''a.txt'' 5)]" "''/d''" demo_world]
    by (simp add: Let_def)
qed

subsection \<open>How a file ends\<close>

text \<open>The byte counter is the length of what has been written to the open file.\<close>

definition dl_count :: "download \<Rightarrow> bool" where
  "dl_count d \<longleftrightarrow> (\<forall>p. dl_outputFile d = Some p \<longrightarrow> dl_outputPath d = p \<and> (\<exists>bs. w_files (dl_world d) p = Some bs \<and>
     dl_currentFileBytesDone d = of_nat (length bs)))"

lemma dl_count_closed: "dl_outputFile d = None \<Longrightarrow> dl_count d"
  by (simp add: dl_count_def)

lemma dl_count_same:
  "dl_count d \<Longrightarrow> w_files (dl_world d') = w_files (dl_world d) \<Longrightarrow> dl_outputFile d' = dl_outputFile d \<Longrightarrow>
   dl_outputPath d' = dl_outputPath d \<Longrightarrow> dl_currentFileBytesDone d' = dl_currentFileBytesDone d \<Longrightarrow> dl_count d'"
  by (simp add: dl_count_def)

lemma DlState_frame [simp]:
  "dl_outputFile (SetState st d) = dl_outputFile d" "dl_outputPath (SetState st d) = dl_outputPath d"
  "dl_world (SetState st d) = dl_world d" "dl_currentFileBytesDone (SetState st d) = dl_currentFileBytesDone d"
  "dl_currentFileSize (SetState st d) = dl_currentFileSize d" "dl_state (SetState st d) = st"
  "dl_completedFileCount (SetState st d) = dl_completedFileCount d"
  "dl_errorText (SetState st d) = dl_errorText d" "dl_listener (SetState st d) = dl_listener d"
  by (simp_all add: SetState_def dl_emit_def)

lemma SetState_count [simp]: "dl_count (SetState st d) = dl_count d"
  by (simp add: dl_count_def)

lemma Abort_closed: "\<not> IsFinished d \<Longrightarrow> dl_outputFile (Abort r d) = None"
  by (simp add: Abort_def Let_def)

lemma Abort_count: "dl_count d \<Longrightarrow> dl_count (Abort r d)"
  by (cases "IsFinished d") (simp_all add: Abort_def [of r d] dl_count_closed Let_def)

lemma Finish_closed: "dl_outputFile (FinishCurrentFile d) = None"
  by (simp add: FinishCurrentFile_def Let_def dl_emit_def)

lemma OpenOutputFile_count:
  assumes "trim_law L" "format_law L" "dl_outputFile d = None" "dl_currentFileBytesDone d = 0"
  shows "dl_count (snd (OpenOutputFile L n rp d))"
  using OpenOutputFile_cases [OF assms(1,2), of d n rp] assms(3,4) by (auto simp: dl_count_def)

lemma HandleFileHeader_count:
  assumes "trim_law L" "format_law L"
  shows "dl_count (HandleFileHeader L m d)"
proof -
  let ?d = "FinishCurrentFile d"
  have closed: "dl_count ?d" by (simp add: dl_count_closed Finish_closed)
  show ?thesis
  proof (cases "\<exists>n sz. find_string m BESHARE_FIELD_FILE_NAME = Some n \<and> find_int64 m BESHARE_FIELD_FILE_SIZE = Some sz")
    case False
    then have "HandleFileHeader L m d = Abort ''Peer sent a malformed file header'' ?d"
      by (auto simp: HandleFileHeader_def Let_def split: option.split)
    then show ?thesis using closed Abort_count by simp
  next
    case True
    then obtain n sz where f: "find_string m BESHARE_FIELD_FILE_NAME = Some n"
      "find_int64 m BESHARE_FIELD_FILE_SIZE = Some sz" by blast
    define d2 where "d2 = ?d\<lparr>dl_remoteSessionId := found_or (dl_remoteSessionId ?d)
        (find_string m BESHARE_FIELD_FROM_SESSION), dl_currentFileName := n, dl_currentFileSize := sz,
        dl_currentFileBytesDone := 0\<rparr>"
    obtain ok d3 where o: "OpenOutputFile L n (found_or [] (find_string m BESHARE_FIELD_PATH)) d2 = (ok, d3)"
      by fastforce
    have "dl_count d3"
      using OpenOutputFile_count [OF assms, of d2 n "found_or [] (find_string m BESHARE_FIELD_PATH)"] o
      by (simp add: d2_def Finish_closed)
    moreover have "HandleFileHeader L m d =
        (if \<not> ok then Abort (''Could not create a file for '' @ n) d3 else SetState DOWNLOAD_TRANSFERRING d3)"
      unfolding HandleFileHeader_def Let_def using f o by (simp add: d2_def)
    ultimately show ?thesis by (simp add: Abort_count)
  qed
qed

lemma decode_length: "decode_chunk m data = Inr bs \<Longrightarrow> length bs = length data"
  by (auto simp: decode_chunk_def munge_def Let_def split: if_splits)

lemma HandleFileData_count:
  assumes "dl_count d" "\<not> IsFinished d"
  shows "dl_count (HandleFileData m d)"
proof (cases "dl_outputFile d")
  case None
  then show ?thesis using assms by (simp add: HandleFileData_def)
next
  case p: (Some p)
  show ?thesis
  proof (cases "find_data m BESHARE_FIELD_DATA")
    case None
    then show ?thesis using p by (simp add: HandleFileData_def dl_count_closed Finish_closed)
  next
    case data: (Some data)
    show ?thesis
    proof (cases "decode_chunk m data")
      case (Inl r)
      then show ?thesis using assms p data by (simp add: HandleFileData_def Abort_count)
    next
      case (Inr bs)
      obtain n w1 where w: "write_file p bs (dl_world d) = (n, w1)" by fastforce
      have fin: "\<not> IsFinished (d\<lparr>dl_world := w1\<rparr>)" using assms(2) by (simp add: IsFinished_def)
      obtain old where old: "w_files (dl_world d) p = Some old" "dl_currentFileBytesDone d = of_nat (length old)"
        "dl_outputPath d = p" using assms(1) p by (auto simp: dl_count_def)
      show ?thesis
      proof (cases "n = length data")
        case True
        then have "w_files w1 p = Some (old @ bs)"
          using w old decode_length [OF Inr] by (auto simp: write_file_def Let_def)
        then have "dl_count (count_bytes data (d\<lparr>dl_world := w1\<rparr>))"
          using p old decode_length [OF Inr] by (simp add: dl_count_def)
        then show ?thesis
          unfolding HandleFileData_decoded [OF p data Inr w] Let_def
          using True by (simp add: dl_count_closed Finish_closed)
      next
        case False
        then show ?thesis
          unfolding HandleFileData_decoded [OF p data Inr w]
          by (simp add: dl_count_closed Abort_closed [OF fin])
      qed
    qed
  qed
qed

text \<open>
  Histories in which nothing is delivered to a finished download: its transceiver has been shut down.
\<close>

fun delivery :: "dl_op \<Rightarrow> bool" where
  "delivery (DlMessage _) = True"
| "delivery DlConnected = True"
| "delivery _ = False"

inductive dl_reach :: "muscle \<Rightarrow> download \<Rightarrow> download \<Rightarrow> bool" for L d0 where
  dl_start: "dl_reach L d0 d0"
| dl_next: "dl_reach L d0 d \<Longrightarrow> (delivery op \<longrightarrow> \<not> IsFinished d) \<Longrightarrow> dl_reach L d0 (run_dl L op d)"

lemma Abort_count_any: "dl_count d \<Longrightarrow> dl_count (run_dl L (DlAbort r) d)"
  by (simp add: Abort_count)

lemma run_dl_count:
  assumes "trim_law L" "format_law L" "dl_count d" "delivery op \<longrightarrow> \<not> IsFinished d"
  shows "dl_count (run_dl L op d)"
proof (cases op)
  case (DlMessage m)
  have "dl_count (d\<lparr>dl_remoteUserName := f\<rparr>)" for f
    using assms(3) by (simp add: dl_count_def)
  then show ?thesis using assms DlMessage
    by (auto simp: DlMessageReceived_def HandleFileHeader_count HandleFileData_count HandleRejected_def
        Abort_count split: option.split)
next
  case (DlStart E h p r l u)
  then show ?thesis using assms
    by (auto simp: Start_def Let_def dl_count_def split: option.split)
next
  case (DlAbort r)
  then show ?thesis using assms by (simp add: Abort_count)
next
  case DlDisconnected
  then show ?thesis using assms
    by (auto simp: DlSessionDisconnected_def Let_def Abort_count dl_count_closed)
qed (use assms in \<open>simp_all add: AddRequestedFile_def Let_def DlSessionConnected_def
    SendFileList_def SendPeerIdentity_def dl_count_def SetDlRetainFilePaths_def SetDlRateLimit_def
    SetRemoteUserName_def\<close>)

lemma dl_reach_count:
  "dl_reach L d0 d \<Longrightarrow> trim_law L \<Longrightarrow> format_law L \<Longrightarrow> dl_count d0 \<Longrightarrow> dl_count d"
  by (induction rule: dl_reach.induct) (simp_all add: run_dl_count)

text \<open>
  C19. Only complete files are kept and reported: when a file is closed after any history, it stays on
  disk and is announced iff it has at least the number of bytes the header promised (or the header
  promised none); a shorter one is deleted and not counted. Either way the session goes on: a size
  that disagrees with the header does not end it.
\<close>

theorem only_complete_files_kept:
  assumes "trim_law L" "format_law L" "dl_reach L (SetDlListener True (new_download D w)) d"
    "dl_outputFile d = Some p" "w_files (dl_world d) p = Some bs" "length bs < 2 ^ 63" "dl_listener d"
  shows "let d' = FinishCurrentFile d in dl_state d' = dl_state d \<and> dl_thread d' = dl_thread d \<and>
    (if sint (dl_currentFileSize d) \<le> int (length bs)
     then w_files (dl_world d') p = Some bs \<and> dl_events d' = dl_events d @ [DlFileCompleted p] \<and>
       dl_completedFileCount d' = dl_completedFileCount d + 1
     else w_files (dl_world d') p = None \<and> dl_events d' = dl_events d \<and>
       dl_completedFileCount d' = dl_completedFileCount d)"
proof -
  have "dl_count (SetDlListener True (new_download D w))"
    by (simp add: dl_count_def SetDlListener_def new_download_def)
  from dl_reach_count [OF assms(3,1,2) this]
  have c: "dl_outputPath d = p" "dl_currentFileBytesDone d = of_nat (length bs)"
    using assms(4,5) by (auto simp: dl_count_def)
  have "sint (of_nat (length bs) :: int64) = int (length bs)"
    using assms(6) by (simp add: sint_of_nat64)
  then show ?thesis using c assms(4,5,7)
    by (auto simp: FinishCurrentFile_def CloseOutputFile_def Let_def dl_emit_def remove_file_def)
qed

theorem only_complete_files_kept_witness:
  "\<exists>d. dl_reach ref_muscle (SetDlListener True (new_download ''/d'' demo_world)) d \<and>
     w_files (dl_world (FinishCurrentFile d)) ''/d/b'' = None \<and> dl_outputFile d = Some ''/d/b''"
proof -
  let ?init = "SetDlListener True (new_download ''/d'' demo_world)"
  let ?d = "run_dl ref_muscle (DlMessage (header_message ''b'' 5)) ?init"
  have r: "dl_reach ref_muscle ?init ?d"
    by (rule dl_next [OF dl_start]) (simp add: IsFinished_def SetDlListener_def new_download_def)
  have f: "dl_outputFile ?d = Some ''/d/b''" "w_files (dl_world ?d) ''/d/b'' = Some []"
    "sint (dl_currentFileSize ?d) = 5" "dl_listener ?d" by code_simp+
  show ?thesis
    using only_complete_files_kept [OF ref_trim_law ref_format_law r f(1,2)] f r
    by (intro exI [of _ ?d]) (simp add: Let_def del: run_dl.simps)
qed

subsection \<open>The rate window\<close>

lemma prune_samples_length:
  "length (fst (prune_samples ss w)) \<le> kMaximumTransferSamples \<and> suffix (fst (prune_samples ss w)) ss \<and>
   (ss \<noteq> [] \<longrightarrow> fst (prune_samples ss w) \<noteq> [])"
proof (induction ss w rule: prune_samples.induct)
  case (2 x xs w)
  obtain t w1 where r: "read_now w = (t, w1)" by fastforce
  show ?case using 2 r by (auto simp: kMaximumTransferSamples_def suffix_ConsI)
qed simp

text \<open>
  The rate estimate works on a bounded window: after a chunk is recorded at most the maximum number
  of samples is kept, they are the most recent ones in order, and the newest is always among them.
\<close>

theorem rate_window:
  "let ss' = fst (prune_samples (ss @ [x]) w)
   in length ss' \<le> 32 \<and> suffix ss' (ss @ [x]) \<and> ss' \<noteq> [] \<and> last ss' = x"
proof -
  let ?r = "fst (prune_samples (ss @ [x]) w)"
  have r: "length ?r \<le> kMaximumTransferSamples" "suffix ?r (ss @ [x])" "?r \<noteq> []"
    using prune_samples_length [of "ss @ [x]" w] by auto
  then obtain pre where "ss @ [x] = pre @ ?r" by (auto simp: suffix_def)
  then have "last ?r = x" using r(3) by (metis last_appendR last_snoc)
  with r show ?thesis by (simp add: Let_def kMaximumTransferSamples_def)
qed

theorem rate_window_witness:
  "length (fst (prune_samples (replicate 40 (0, 1) @ [(5, 2)]) demo_world)) \<le> 32"
  using rate_window [of "replicate 40 (0, 1)" "(5, 2)" demo_world] by (simp add: Let_def)

subsection \<open>How a session ends\<close>

text \<open>
  When the peer hangs up before sending anything, the listener is told of the failure before the
  reason is recorded: the callback sees an empty error text, and the text that explains it is set
  only afterwards, when nobody is told.
\<close>

theorem failure_reported_without_reason:
  assumes "\<not> IsFinished d" "dl_outputFile d = None" "dl_completedFileCount d = 0" "dl_errorText d = []"
    "dl_listener d"
  shows "dl_events (DlSessionDisconnected d) = dl_events d @ [DlStateChanged DOWNLOAD_FAILED []] \<and>
    dl_errorText (DlSessionDisconnected d) = ''Peer disconnected without sending anything''"
  using assms
  by (auto simp: DlSessionDisconnected_def CloseOutputFile_def SetState_def IsFinished_def dl_emit_def)

theorem failure_reported_without_reason_witness:
  "dl_events (DlSessionDisconnected (SetDlListener True (new_download ''/d'' demo_world))) =
     [DlStateChanged DOWNLOAD_FAILED []]"
proof -
  let ?x = "SetDlListener True (new_download ''/d'' demo_world)"
  have h: "\<not> IsFinished ?x" "dl_outputFile ?x = None" "dl_completedFileCount ?x = 0"
    "dl_errorText ?x = []" "dl_listener ?x" "dl_events ?x = []"
    by (simp_all add: SetDlListener_def new_download_def IsFinished_def)
  show ?thesis using failure_reported_without_reason [OF h(1-5)] h(6) by simp
qed

text \<open>
  A complete download whose last file is empty ends as a failure: an empty file is only closed by
  the next header, so when the peer hangs up after it, the file that was fully received is deleted
  and the whole transfer is reported as aborted.
\<close>

theorem trailing_empty_file_lost:
  assumes "trim_law L" "format_law L" "\<not> IsFinished d" "dl_outputFile d = None"
    "m = header_message n 0" "dl_outputFile (DlMessageReceived L m d) = Some p" "p \<noteq> []"
  shows "let d' = DlSessionDisconnected (DlMessageReceived L m d)
    in dl_state d' = DOWNLOAD_FAILED \<and> dl_errorText d' = ''Peer disconnected during transfer'' \<and>
       w_files (dl_world d') p = None"
proof -
  let ?h = "DlMessageReceived L m d"
  have h: "?h = HandleFileHeader L m d" by (simp add: DlMessageReceived_def assms(5) header_message_def)
  have path: "dl_outputPath ?h = p"
    using HandleFileHeader_count [OF assms(1,2), of m d] assms(6) unfolding h dl_count_def by blast
  have f: "find_string m BESHARE_FIELD_FILE_NAME = Some n" "find_int64 m BESHARE_FIELD_FILE_SIZE = Some 0"
    by (simp_all add: assms(5) header_message_def finds)
  have "\<not> IsFinished ?h"
  proof (rule ccontr)
    assume fin: "\<not> \<not> IsFinished ?h"
    define d2 where "d2 = d\<lparr>dl_remoteSessionId := found_or (dl_remoteSessionId d)
        (find_string m BESHARE_FIELD_FROM_SESSION), dl_currentFileName := n, dl_currentFileSize := 0,
        dl_currentFileBytesDone := 0\<rparr>"
    obtain ok d3 where o: "OpenOutputFile L n (found_or [] (find_string m BESHARE_FIELD_PATH)) d2 = (ok, d3)"
      by fastforce
    have "HandleFileHeader L m d =
        (if \<not> ok then Abort (''Could not create a file for '' @ n) d3 else SetState DOWNLOAD_TRANSFERRING d3)"
      unfolding HandleFileHeader_def Let_def using f o assms(4) by (simp add: d2_def FinishCurrentFile_def)
    moreover have "\<not> ok \<Longrightarrow> dl_outputFile d3 = None"
      using OpenOutputFile_cases [OF assms(1,2), of d2 n "found_or [] (find_string m BESHARE_FIELD_PATH)"]
        o assms(4) by (auto simp: d2_def)
    ultimately show False using fin assms(6)
      by (auto simp: h IsFinished_def Abort_def Let_def split: if_splits)
  qed
  then show ?thesis using assms(6,7) path
    by (simp add: DlSessionDisconnected_def Abort_def Let_def remove_file_def)
qed

theorem trailing_empty_file_lost_witness:
  "let d' = DlSessionDisconnected (DlMessageReceived ref_muscle (header_message ''b'' 0) (new_download ''/d'' demo_world))
   in dl_state d' = DOWNLOAD_FAILED \<and> w_files (dl_world d') ''/d/b'' = None"
proof -
  have "\<not> IsFinished (new_download ''/d'' demo_world)" "dl_outputFile (new_download ''/d'' demo_world) = None"
    by (simp_all add: IsFinished_def new_download_def)
  moreover have "dl_outputFile (DlMessageReceived ref_muscle (header_message ''b'' 0) (new_download ''/d'' demo_world)) =
      Some ''/d/b''" by code_simp
  ultimately show ?thesis
    using trailing_empty_file_lost [OF ref_trim_law ref_format_law, of "new_download ''/d'' demo_world"
        "header_message ''b'' 0" "''b''" "''/d/b''"] by (simp add: Let_def)
qed

end
