(* ===== verification/FileUploadServer.thy ===== *)
theory FileUploadServer
  imports FileDownload Share ChatInput
begin

section \<open>Serving our files\<close>

text \<open>
  \<open>core/FileUploadServer\<close>: the table of peers that download from us, the resolution of what they ask
  for against the share, the cap on how many are served at once, and the chunk pump that sends one
  chunk per drained output queue. A \<open>FILE*\<close> open for reading is the bytes not read yet; what
  \<open>fopen\<close> finds under a path is a parameter, as are the answers of the transceiver.
\<close>

definition kUploadChunkSize :: nat where "kUploadChunkSize = 32 * 1024"

record PeerUpload =
  pu_peerAddress :: string
  pu_remoteSessionId :: string
  pu_remoteUserName :: string
  pu_requestedFiles :: "SharedFile list"
  pu_currentFile :: "uint8 list option"
  pu_currentFileName :: string
  pu_currentFileSize :: int64
  pu_bytesSent :: int64
  pu_mungeMode :: int32
  pu_nextFileIndex :: nat
  pu_isQueued :: bool

definition new_peer :: PeerUpload where
  "new_peer = \<lparr> pu_peerAddress = [], pu_remoteSessionId = [], pu_remoteUserName = [],
     pu_requestedFiles = [], pu_currentFile = None, pu_currentFileName = [], pu_currentFileSize = 0,
     pu_bytesSent = 0, pu_mungeMode = MUNGE_MODE_NONE, pu_nextFileIndex = 0, pu_isQueued = False \<rparr>"

datatype up_event = UploadsChanged | UploadReport LogMessageType string

record upload_server =
  us_listener :: bool
  us_sharedFiles :: "(string \<times> SharedFile) list"
  us_peers :: "(string \<times> PeerUpload) list"
  us_localSessionId :: string
  us_localUserName :: string
  us_listenPort :: uint16
  us_maxSimultaneousUploads :: uint32
  us_rateLimit :: uint32
  us_thread :: bool
  us_outputPolicy :: "uint32 option"
  us_acceptPort :: "uint16 option"
  us_sent :: "(string \<times> message) list"
  us_drainRequests :: "string list"
  us_events :: "up_event list"

record up_env =
  open_file :: "string \<Rightarrow> uint8 list option"
  start_up_thread :: bool
  put_accept :: "uint16 \<Rightarrow> uint16 option"

definition new_server :: upload_server where
  "new_server = \<lparr> us_listener = False, us_sharedFiles = [], us_peers = [], us_localSessionId = [],
     us_localUserName = [], us_listenPort = 0, us_maxSimultaneousUploads = 4, us_rateLimit = 0,
     us_thread = False, us_outputPolicy = None, us_acceptPort = None, us_sent = [],
     us_drainRequests = [], us_events = [] \<rparr>"

definition up_emit :: "up_event \<Rightarrow> upload_server \<Rightarrow> upload_server" where
  "up_emit ev s = (if us_listener s then s\<lparr>us_events := us_events s @ [ev]\<rparr> else s)"

definition SetUpListener :: "bool \<Rightarrow> upload_server \<Rightarrow> upload_server" where
  "SetUpListener b s = s\<lparr>us_listener := b\<rparr>"

definition SetMaxSimultaneousUploads :: "uint32 \<Rightarrow> upload_server \<Rightarrow> upload_server" where
  "SetMaxSimultaneousUploads n s = s\<lparr>us_maxSimultaneousUploads := max n 1\<rparr>"

definition SetUpRateLimit :: "uint32 \<Rightarrow> upload_server \<Rightarrow> upload_server" where
  "SetUpRateLimit n s = s\<lparr>us_rateLimit := n\<rparr>"

definition SetSharedFiles :: "(string \<times> SharedFile) list \<Rightarrow> upload_server \<Rightarrow> upload_server" where
  "SetSharedFiles fs s = s\<lparr>us_sharedFiles := fs\<rparr>"

definition SetLocalIdentity :: "string \<Rightarrow> string \<Rightarrow> upload_server \<Rightarrow> upload_server" where
  "SetLocalIdentity sid n s = s\<lparr>us_localSessionId := sid, us_localUserName := n\<rparr>"

record UploadStatus =
  up_peerName :: string
  up_fileName :: string
  up_fileSize :: int64
  up_bytesSent :: int64
  up_isSending :: bool
  up_isQueued :: bool

definition peer_label :: "PeerUpload \<Rightarrow> string" where
  "peer_label p = (if pu_remoteUserName p \<noteq> [] then pu_remoteUserName p else pu_peerAddress p)"

definition GetUploadStatuses :: "upload_server \<Rightarrow> UploadStatus list" where
  "GetUploadStatuses s = map (\<lambda>(k, p).
     \<lparr> up_peerName = peer_label p, up_fileName = pu_currentFileName p,
       up_fileSize = pu_currentFileSize p, up_bytesSent = pu_bytesSent p,
       up_isSending = (pu_currentFile p \<noteq> None), up_isQueued = pu_isQueued p \<rparr>) (us_peers s)"

subsection \<open>Listening\<close>

definition CloseCurrentFile :: "PeerUpload \<Rightarrow> PeerUpload" where
  "CloseCurrentFile p =
     p\<lparr>pu_currentFile := None, pu_currentFileName := [], pu_currentFileSize := 0, pu_bytesSent := 0\<rparr>"

definition StopListening :: "upload_server \<Rightarrow> upload_server" where
  "StopListening s =
     (let s1 = (if us_listenPort s \<noteq> 0 then s\<lparr>us_acceptPort := None\<rparr> else s)
      in s1\<lparr>us_thread := False, us_peers := [], us_listenPort := 0\<rparr>)"

text \<open>The walk over the ports: the offset and how many are left to try.\<close>

fun try_ports :: "up_env \<Rightarrow> uint16 \<Rightarrow> uint16 \<Rightarrow> nat \<Rightarrow> (uint16 \<times> uint16) option" where
  "try_ports E preferredPort offset 0 = None"
| "try_ports E preferredPort offset (Suc k) =
     (case put_accept E (preferredPort + offset) of
        Some actualPort \<Rightarrow> Some (preferredPort + offset, if actualPort > 0 then actualPort else preferredPort + offset)
      | None \<Rightarrow> try_ports E preferredPort (offset + 1) k)"

definition StartListening ::
  "up_env \<Rightarrow> uint16 \<Rightarrow> uint16 \<Rightarrow> upload_server \<Rightarrow> uint16 \<times> upload_server" where
  "StartListening E preferredPort portRange s =
     (let s1 = StopListening s
      in if \<not> start_up_thread E then (0, s1)
         else let s2 = s1\<lparr>us_thread := True\<rparr>;
                  s3 = (if us_rateLimit s2 > 0 then s2\<lparr>us_outputPolicy := Some (us_rateLimit s2)\<rparr> else s2)
              in case try_ports E preferredPort 0 (unat portRange) of
                   Some (candidate, p) \<Rightarrow> (p, s3\<lparr>us_acceptPort := Some candidate, us_listenPort := p\<rparr>)
                 | None \<Rightarrow> (0, s3\<lparr>us_thread := False\<rparr>))"

subsection \<open>Serving\<close>

definition SendToPeer :: "string \<Rightarrow> message \<Rightarrow> upload_server \<Rightarrow> upload_server" where
  "SendToPeer sid m s = s\<lparr>us_sent := us_sent s @ [(sid, m)]\<rparr>"

definition CountActiveUploads :: "upload_server \<Rightarrow> nat" where
  "CountActiveUploads s =
     length (filter (\<lambda>(k, p). \<not> pu_isQueued p \<and> pu_requestedFiles p \<noteq> []) (us_peers s))"

definition put_peer :: "string \<Rightarrow> PeerUpload \<Rightarrow> upload_server \<Rightarrow> upload_server" where
  "put_peer sid p s = s\<lparr>us_peers := ht_put sid p (us_peers s)\<rparr>"

text \<open>Close the current file and open the next one that can still be opened.\<close>

function next_file :: "up_env \<Rightarrow> PeerUpload \<Rightarrow> SharedFile option \<times> PeerUpload" where
  "next_file E p0 =
     (let p = CloseCurrentFile p0
      in if pu_nextFileIndex p \<ge> length (pu_requestedFiles p) then (None, p)
         else let f = pu_requestedFiles p ! pu_nextFileIndex p;
                  p1 = p\<lparr>pu_nextFileIndex := Suc (pu_nextFileIndex p)\<rparr>
              in case open_file E (sf_absolutePath f) of
                   None \<Rightarrow> next_file E p1
                 | Some content \<Rightarrow>
                     (Some f, p1\<lparr>pu_currentFile := Some content, pu_currentFileName := sf_fileName f,
                                 pu_currentFileSize := sf_fileSize f, pu_bytesSent := 0\<rparr>))"
  by pat_completeness auto
termination
  by (relation "measure (\<lambda>(E, p). length (pu_requestedFiles p) - pu_nextFileIndex p)")
    (auto simp: CloseCurrentFile_def)

declare next_file.simps [simp del]

definition file_header :: "string \<Rightarrow> SharedFile \<Rightarrow> message" where
  "file_header localId f =
     (let m1 = add_string (new_message TRANSFER_COMMAND_FILE_HEADER) BESHARE_FIELD_FILE_NAME (sf_fileName f);
          m2 = add_int64 m1 BESHARE_FIELD_FILE_SIZE (sf_fileSize f);
          m3 = add_string m2 BESHARE_FIELD_FROM_SESSION localId;
          m4 = add_string m3 BESHARE_FIELD_PATH (sf_relativePath f)
      in if sf_kind f \<noteq> [] then add_string m4 BESHARE_FIELD_KIND (sf_kind f) else m4)"

definition BeginNextFile :: "up_env \<Rightarrow> string \<Rightarrow> upload_server \<Rightarrow> bool \<times> upload_server" where
  "BeginNextFile E sid s =
     (case map_of (us_peers s) sid of
        None \<Rightarrow> (False, s)
      | Some peer \<Rightarrow>
          (case next_file E peer of
             (None, p) \<Rightarrow> (False, put_peer sid p s)
           | (Some f, p) \<Rightarrow>
               (True, up_emit UploadsChanged (SendToPeer sid (file_header (us_localSessionId s) f) (put_peer sid p s)))))"

text \<open>The server has a copy of the checksum of its own.\<close>

definition UpCalculateChecksum :: "uint8 list \<Rightarrow> uint32" where
  "UpCalculateChecksum bs = checksum_loop 0 0 bs"

lemma same_checksum [simp]: "UpCalculateChecksum = CalculateChecksum"
  by (simp add: fun_eq_iff UpCalculateChecksum_def CalculateChecksum_def)

definition encode_chunk :: "int32 \<Rightarrow> uint8 list \<Rightarrow> message" where
  "encode_chunk mode bytes =
     (let buffer = (if mode = MUNGE_MODE_XOR then munge bytes else bytes);
          m1 = add_data (new_message TRANSFER_COMMAND_FILE_DATA) BESHARE_FIELD_DATA buffer;
          m2 = add_int32 m1 BESHARE_FIELD_CHECKSUM (UpCalculateChecksum buffer)
      in add_int32 m2 BESHARE_FIELD_MUNGE_MODE mode)"

text \<open>Reading and sending one chunk of a file that has some.\<close>

definition send_chunk :: "string \<Rightarrow> PeerUpload \<Rightarrow> uint8 list \<Rightarrow> upload_server \<Rightarrow> upload_server" where
  "send_chunk sid peer rest s =
     (let bytes = take kUploadChunkSize rest;
          p1 = peer\<lparr>pu_currentFile := Some (drop kUploadChunkSize rest)\<rparr>;
          s1 = SendToPeer sid (encode_chunk (pu_mungeMode p1) bytes) s;
          s2 = put_peer sid (p1\<lparr>pu_bytesSent := pu_bytesSent p1 + of_nat (length bytes)\<rparr>) s1
      in up_emit UploadsChanged (s2\<lparr>us_drainRequests := us_drainRequests s2 @ [sid]\<rparr>))"

definition first_queued :: "(string \<times> PeerUpload) list \<Rightarrow> (string \<times> PeerUpload) option" where
  "first_queued ps = find (\<lambda>(k, p). pu_isQueued p \<and> pu_requestedFiles p \<noteq> []) ps"

subsubsection \<open>The pump terminates\<close>

text \<open>
  The work left: files not opened yet and peers still waiting. Every round of the pump opens a file or
  releases a waiting peer.
\<close>

definition peer_work :: "PeerUpload \<Rightarrow> nat" where
  "peer_work p = (length (pu_requestedFiles p) - pu_nextFileIndex p) + (if pu_isQueued p then 1 else 0)"

definition work :: "upload_server \<Rightarrow> nat" where
  "work s = sum_list (map (\<lambda>e. peer_work (snd e)) (us_peers s))"

definition skip_file :: "PeerUpload \<Rightarrow> PeerUpload" where
  "skip_file p = (CloseCurrentFile p)\<lparr>pu_nextFileIndex := Suc (pu_nextFileIndex p)\<rparr>"

definition wanted_file :: "PeerUpload \<Rightarrow> SharedFile" where
  "wanted_file p = pu_requestedFiles p ! pu_nextFileIndex p"

definition opened_file :: "uint8 list \<Rightarrow> PeerUpload \<Rightarrow> PeerUpload" where
  "opened_file content p = (skip_file p)\<lparr>pu_currentFile := Some content,
     pu_currentFileName := sf_fileName (wanted_file p), pu_currentFileSize := sf_fileSize (wanted_file p)\<rparr>"

lemma skip_file_fields [simp]:
  "pu_requestedFiles (skip_file p) = pu_requestedFiles p" "pu_isQueued (skip_file p) = pu_isQueued p"
  "pu_mungeMode (skip_file p) = pu_mungeMode p" "pu_nextFileIndex (skip_file p) = Suc (pu_nextFileIndex p)"
  "pu_currentFile (skip_file p) = None" "pu_peerAddress (skip_file p) = pu_peerAddress p"
  "pu_remoteUserName (skip_file p) = pu_remoteUserName p"
  by (simp_all add: skip_file_def CloseCurrentFile_def)

lemma opened_file_fields [simp]:
  "pu_requestedFiles (opened_file c p) = pu_requestedFiles p" "pu_isQueued (opened_file c p) = pu_isQueued p"
  "pu_mungeMode (opened_file c p) = pu_mungeMode p" "pu_nextFileIndex (opened_file c p) = Suc (pu_nextFileIndex p)"
  "pu_currentFile (opened_file c p) = Some c" "pu_peerAddress (opened_file c p) = pu_peerAddress p"
  "pu_remoteUserName (opened_file c p) = pu_remoteUserName p"
  by (simp_all add: opened_file_def)

lemma CloseCurrentFile_fields [simp]:
  "pu_requestedFiles (CloseCurrentFile p) = pu_requestedFiles p" "pu_isQueued (CloseCurrentFile p) = pu_isQueued p"
  "pu_mungeMode (CloseCurrentFile p) = pu_mungeMode p" "pu_nextFileIndex (CloseCurrentFile p) = pu_nextFileIndex p"
  "pu_currentFile (CloseCurrentFile p) = None" "pu_peerAddress (CloseCurrentFile p) = pu_peerAddress p"
  "pu_remoteUserName (CloseCurrentFile p) = pu_remoteUserName p"
  by (simp_all add: CloseCurrentFile_def)

lemma next_file_unfold:
  "next_file E p =
     (if pu_nextFileIndex p \<ge> length (pu_requestedFiles p) then (None, CloseCurrentFile p)
      else case open_file E (sf_absolutePath (wanted_file p)) of
             None \<Rightarrow> next_file E (skip_file p)
           | Some content \<Rightarrow> (Some (wanted_file p), opened_file content p))"
  by (subst next_file.simps)
    (simp add: Let_def wanted_file_def opened_file_def skip_file_def CloseCurrentFile_def split: option.split)

text \<open>Induction over the files that are skipped because they cannot be opened.\<close>

lemma next_file_induct:
  assumes "\<And>p. (pu_nextFileIndex p < length (pu_requestedFiles p) \<Longrightarrow>
      open_file E (sf_absolutePath (wanted_file p)) = None \<Longrightarrow> P (skip_file p)) \<Longrightarrow> P p"
  shows "P p"
proof (induction "length (pu_requestedFiles p) - pu_nextFileIndex p" arbitrary: p rule: less_induct)
  case less
  show ?case by (rule assms, rule less.hyps) simp
qed

lemma next_file_frame:
  "pu_requestedFiles (snd (next_file E p)) = pu_requestedFiles p \<and> pu_isQueued (snd (next_file E p)) = pu_isQueued p \<and>
   pu_mungeMode (snd (next_file E p)) = pu_mungeMode p \<and>
   pu_peerAddress (snd (next_file E p)) = pu_peerAddress p \<and> pu_remoteUserName (snd (next_file E p)) = pu_remoteUserName p"
  by (induction p rule: next_file_induct [where E = E]) (subst (1 2 3 4 5) next_file_unfold, simp split: option.split)

lemma next_file_index:
  "(case next_file E p of (None, p') \<Rightarrow> pu_nextFileIndex p \<le> pu_nextFileIndex p'
    | (Some f, p') \<Rightarrow> pu_nextFileIndex p < pu_nextFileIndex p' \<and> pu_nextFileIndex p' \<le> length (pu_requestedFiles p))"
proof (induction p rule: next_file_induct [where E = E])
  case (1 p)
  show ?case
  proof (cases "pu_nextFileIndex p < length (pu_requestedFiles p) \<and> open_file E (sf_absolutePath (wanted_file p)) = None")
    case True
    then have "next_file E p = next_file E (skip_file p)" by (subst next_file_unfold) simp
    then show ?thesis using 1 True by (auto split: prod.splits option.splits)
  next
    case False
    then show ?thesis by (subst next_file_unfold) (auto split: option.split)
  qed
qed

lemma work_put_peer:
  assumes "map_of (us_peers s) sid = Some p"
  shows "work (put_peer sid p' s) + peer_work p = work s + peer_work p'"
  using sum_list_ht_put [OF assms, of peer_work p'] by (simp add: work_def put_peer_def)

lemma work_emit [simp]: "work (up_emit ev s) = work s" "work (SendToPeer sid m s) = work s"
  by (simp_all add: work_def up_emit_def SendToPeer_def)

lemma peer_work_le:
  "map_of (us_peers s) sid = Some p \<Longrightarrow> peer_work p \<le> work s"
  unfolding work_def by (induction "us_peers s" arbitrary: s) (auto, force intro: member_le_sum_list dest: map_of_SomeD)

lemma BeginNextFile_work:
  assumes "BeginNextFile E sid s = (ok, s1)"
  shows "if ok then work s1 < work s else work s1 \<le> work s"
proof (cases "map_of (us_peers s) sid")
  case None
  then show ?thesis using assms by (auto simp: BeginNextFile_def)
next
  case (Some p)
  obtain r p' where n: "next_file E p = (r, p')" by fastforce
  have fr: "pu_requestedFiles p' = pu_requestedFiles p" "pu_isQueued p' = pu_isQueued p"
    using next_file_frame [of E p] n by simp_all
  note w = work_put_peer [OF Some, of p']
  show ?thesis
  proof (cases r)
    case None
    then have "peer_work p' \<le> peer_work p"
      using next_file_index [where E = E and p = p] n fr by (simp add: peer_work_def)
    then show ?thesis using assms Some n None w by (auto simp: BeginNextFile_def)
  next
    case (Some f)
    then have "peer_work p' < peer_work p"
      using next_file_index [where E = E and p = p] n fr by (simp add: peer_work_def) arith
    then show ?thesis
      using assms \<open>map_of (us_peers s) sid = Some p\<close> n Some w by (auto simp: BeginNextFile_def)
  qed
qed

lemma release_work:
  assumes "map_of (us_peers s) sid = Some peer" "pu_isQueued peer"
  shows "work (put_peer sid (peer\<lparr>pu_isQueued := False\<rparr>) s) < work s"
  using work_put_peer [OF assms(1), of "peer\<lparr>pu_isQueued := False\<rparr>"] assms(2) by (simp add: peer_work_def)

lemma first_queued_Some:
  "first_queued ps = Some (k, p) \<Longrightarrow> (k, p) \<in> set ps \<and> pu_isQueued p \<and> pu_requestedFiles p \<noteq> []"
  by (auto simp: first_queued_def find_Some_iff in_set_conv_nth)

text \<open>
  The three functions of the pump call one another. A waiting peer is released by clearing its flag;
  the table keys are distinct, so the peer found is the one under its key.
\<close>

function SendNextChunk :: "up_env \<Rightarrow> string \<Rightarrow> upload_server \<Rightarrow> upload_server"
  and StartNextQueuedPeer :: "up_env \<Rightarrow> upload_server \<Rightarrow> upload_server" where
  "SendNextChunk E sid s =
     (case map_of (us_peers s) sid of
        None \<Rightarrow> s
      | Some peer \<Rightarrow>
          (case pu_currentFile peer of
             None \<Rightarrow> s
           | Some rest \<Rightarrow>
               if rest = [] then
                 (case BeginNextFile E sid s of (ok, s1) \<Rightarrow>
                    if ok then SendNextChunk E sid s1
                    else up_emit UploadsChanged (StartNextQueuedPeer E s1))
               else send_chunk sid peer rest s))"
| "StartNextQueuedPeer E s =
     (if CountActiveUploads s \<ge> unat (us_maxSimultaneousUploads s) then s
      else case first_queued (us_peers s) of
             None \<Rightarrow> s
           | Some (sid, p0) \<Rightarrow>
               (case map_of (us_peers s) sid of
                  None \<Rightarrow> s
                | Some peer \<Rightarrow>
                    if \<not> pu_isQueued peer then s
                    else (case BeginNextFile E sid (put_peer sid (peer\<lparr>pu_isQueued := False\<rparr>) s) of (ok, s1) \<Rightarrow>
                            if ok then SendNextChunk E sid s1 else s1)))"
  by pat_completeness auto
termination
proof (relation "measures [case_sum (\<lambda>(E, sid, s). work s) (\<lambda>(E, s). work s),
        case_sum (\<lambda>_. 1) (\<lambda>_. 0)]", goal_cases)
  case 2
  then show ?case by (auto dest!: BeginNextFile_work [OF sym] BeginNextFile_work)
next
  case 3
  then show ?case by (auto dest!: BeginNextFile_work [OF sym] BeginNextFile_work)
next
  case 4
  then show ?case
    by (auto dest!: BeginNextFile_work [OF sym] BeginNextFile_work dest: release_work less_trans)
qed simp

declare SendNextChunk.simps [simp del] StartNextQueuedPeer.simps [simp del]

subsection \<open>Requests and callbacks\<close>

text \<open>The files a request resolves to, and how many of its names we do not share.\<close>

definition resolve_names :: "(string \<times> SharedFile) list \<Rightarrow> string list \<Rightarrow> SharedFile list" where
  "resolve_names shared names = List.map_filter (map_of shared) names"

definition request_report :: "muscle \<Rightarrow> PeerUpload \<Rightarrow> nat \<Rightarrow> up_event" where
  "request_report L peer unknownCount =
     (if pu_requestedFiles peer = []
      then UploadReport LOG_WARNING_MESSAGE
             (peer_label peer @ '' asked for '' @ FormatInt L (int unknownCount) @ '' file(s) we do not share.'')
      else UploadReport LOG_UPLOAD_EVENT_MESSAGE
             (peer_label peer @ '' is downloading '' @
              FormatInt L (int (length (pu_requestedFiles peer))) @ '' file(s) from us.''))"

definition HandleFileList :: "muscle \<Rightarrow> up_env \<Rightarrow> string \<Rightarrow> message \<Rightarrow> upload_server \<Rightarrow> upload_server" where
  "HandleFileList L E sid m s =
     (case map_of (us_peers s) sid of
        None \<Rightarrow> s
      | Some peer \<Rightarrow>
          let names = all_strings m BESHARE_FIELD_FILE_LIST_NAMES;
              files = resolve_names (us_sharedFiles s) names;
              unknownCount = length (filter (\<lambda>n. map_of (us_sharedFiles s) n = None) names);
              peer1 = peer\<lparr>
                pu_remoteSessionId := found_or (pu_remoteSessionId peer) (find_string m BESHARE_FIELD_FROM_SESSION),
                pu_remoteUserName := found_or (pu_remoteUserName peer) (find_string m BESHARE_FIELD_FROM_USER_NAME),
                pu_mungeMode := (if find_int32 m BESHARE_FIELD_MUNGE_MODE = Some MUNGE_MODE_XOR
                                 then MUNGE_MODE_XOR else pu_mungeMode peer),
                pu_requestedFiles := files, pu_nextFileIndex := 0\<rparr>;
              s1 = up_emit (request_report L peer1 unknownCount) (put_peer sid peer1 s)
          in if CountActiveUploads s1 \<ge> unat (us_maxSimultaneousUploads s1)
             then up_emit UploadsChanged
                    (SendToPeer sid (new_message TRANSFER_COMMAND_NOTIFY_QUEUED)
                      (put_peer sid (peer1\<lparr>pu_isQueued := True\<rparr>) s1))
             else (case BeginNextFile E sid (put_peer sid (peer1\<lparr>pu_isQueued := False\<rparr>) s1) of (ok, s2) \<Rightarrow>
                     if ok then SendNextChunk E sid s2 else s2))"

definition UpSessionAccepted :: "string \<Rightarrow> string \<Rightarrow> upload_server \<Rightarrow> upload_server" where
  "UpSessionAccepted sid peerAddress s =
     up_emit UploadsChanged (put_peer sid (new_peer\<lparr>pu_peerAddress := peerAddress\<rparr>) s)"

definition UpSessionDetached :: "up_env \<Rightarrow> string \<Rightarrow> upload_server \<Rightarrow> upload_server" where
  "UpSessionDetached E sid s =
     (let s1 = (if map_of (us_peers s) sid \<noteq> None then s\<lparr>us_peers := ht_remove sid (us_peers s)\<rparr> else s)
      in up_emit UploadsChanged (StartNextQueuedPeer E s1))"

definition UpMessageReceived ::
  "muscle \<Rightarrow> up_env \<Rightarrow> message \<Rightarrow> string \<Rightarrow> upload_server \<Rightarrow> upload_server" where
  "UpMessageReceived L E m sid s =
     (case map_of (us_peers s) sid of
        None \<Rightarrow> s
      | Some peer \<Rightarrow>
          if what m = TRANSFER_COMMAND_PEER_ID then
            up_emit UploadsChanged (put_peer sid (peer\<lparr>
              pu_remoteSessionId := found_or (pu_remoteSessionId peer) (find_string m BESHARE_FIELD_FROM_SESSION),
              pu_remoteUserName := found_or (pu_remoteUserName peer) (find_string m BESHARE_FIELD_FROM_USER_NAME)\<rparr>) s)
          else if what m = TRANSFER_COMMAND_FILE_LIST then HandleFileList L E sid m s
          else s)"

text \<open>The notification carries the session it was requested for.\<close>

definition OutputQueuesDrained :: "up_env \<Rightarrow> string option \<Rightarrow> upload_server \<Rightarrow> upload_server" where
  "OutputQueuesDrained E notification s =
     (case notification of
        None \<Rightarrow> s
      | Some sid \<Rightarrow>
          (case map_of (us_peers s) sid of
             None \<Rightarrow> s
           | Some peer \<Rightarrow>
               if pu_currentFile peer \<noteq> None then SendNextChunk E sid s
               else (case BeginNextFile E sid s of (ok, s1) \<Rightarrow>
                       if ok then SendNextChunk E sid s1 else s1)))"

end
