(* ===== verification/UploadLaws.thy ===== *)
theory UploadLaws
  imports FileUploadServer
begin

section \<open>What the upload server guarantees\<close>

text \<open>
  The lemmas and properties of \<open>FileUploadServer\<close>. Its chunk pump is three mutually recursive
  functions; the locale \<open>pump_invariant\<close> says what a predicate on the server must survive (opening
  the next file, releasing a waiting peer, sending a chunk, a callback) to survive the pump, and is
  interpreted for the request table, for the cap on active uploads and for the stream each peer gets.
\<close>

subsection \<open>Invariants of the pump\<close>

locale pump_invariant =
  fixes P :: "upload_server \<Rightarrow> bool" and E :: up_env
  assumes begin_next: "P s \<Longrightarrow> map_of (us_peers s) sid = Some p \<Longrightarrow> pu_currentFile p = Some [] \<Longrightarrow>
      P (snd (BeginNextFile E sid s))"
    and release: "P s \<Longrightarrow> map_of (us_peers s) sid = Some p \<Longrightarrow> pu_isQueued p \<Longrightarrow>
      CountActiveUploads s < unat (us_maxSimultaneousUploads s) \<Longrightarrow>
      P (snd (BeginNextFile E sid (put_peer sid (p\<lparr>pu_isQueued := False\<rparr>) s)))"
    and chunk: "P s \<Longrightarrow> map_of (us_peers s) sid = Some p \<Longrightarrow> pu_currentFile p = Some rest \<Longrightarrow>
      rest \<noteq> [] \<Longrightarrow> P (send_chunk sid p rest s)"
    and callback: "P s \<Longrightarrow> P (up_emit ev s)"
begin

lemma pump_env:
  "E' = E \<Longrightarrow> P s \<Longrightarrow> P (SendNextChunk E' sid s)" "E' = E \<Longrightarrow> P s \<Longrightarrow> P (StartNextQueuedPeer E' s)"
proof (induction E' sid s and E' s rule: SendNextChunk_StartNextQueuedPeer.induct)
  case (1 E' sid s)
  note 1 = 1(1,2,4) 1(3) and [simp] = 1(3)
  show ?case
  proof (cases "map_of (us_peers s) sid")
    case None
    then show ?thesis using 1(3) by (simp add: SendNextChunk.simps)
  next
    case p: (Some p)
    show ?thesis
    proof (cases "pu_currentFile p")
      case None
      then show ?thesis using p 1(3) by (simp add: SendNextChunk.simps)
    next
      case (Some rest)
      show ?thesis
      proof (cases "rest = []")
        case True
        obtain ok s1 where b: "BeginNextFile E sid s = (ok, s1)" by fastforce
        then have "P s1" using begin_next [OF 1(3) p] Some True by simp
        then show ?thesis using 1(1,2) p Some True b callback by (subst SendNextChunk.simps) auto
      next
        case False
        then show ?thesis using chunk [OF 1(3) p Some] p Some by (simp add: SendNextChunk.simps)
      qed
    qed
  qed
next
  case (2 E' s)
  note 2 = 2(1,3) 2(2) and [simp] = 2(2)
  show ?case
  proof (cases "CountActiveUploads s \<ge> unat (us_maxSimultaneousUploads s)")
    case True
    then show ?thesis using 2(2) by (simp add: StartNextQueuedPeer.simps)
  next
    case room: False
    show ?thesis
    proof (cases "first_queued (us_peers s)")
      case None
      then show ?thesis using 2(2) room by (simp add: StartNextQueuedPeer.simps)
    next
      case (Some kp)
      obtain sid p0 where kp: "kp = (sid, p0)" by fastforce
      show ?thesis
      proof (cases "map_of (us_peers s) sid")
        case None
        then show ?thesis using 2(2) room Some kp by (simp add: StartNextQueuedPeer.simps)
      next
        case p: (Some p)
        show ?thesis
        proof (cases "pu_isQueued p")
          case True
          obtain ok s1 where b: "BeginNextFile E sid (put_peer sid (p\<lparr>pu_isQueued := False\<rparr>) s) = (ok, s1)"
            by fastforce
          then have "P s1" using release [OF 2(2) p True] room by simp
          then show ?thesis using 2(1) room Some kp p True b by (subst StartNextQueuedPeer.simps) auto
        next
          case False
          then show ?thesis using 2(2) room Some kp p by (simp add: StartNextQueuedPeer.simps)
        qed
      qed
    qed
  qed
qed

lemma pump: "P s \<Longrightarrow> P (SendNextChunk E sid s)" "P s \<Longrightarrow> P (StartNextQueuedPeer E s)"
  using pump_env by blast+

lemma drained: "P s \<Longrightarrow>
   (\<And>sid p. map_of (us_peers s) sid = Some p \<Longrightarrow> pu_currentFile p = None \<Longrightarrow> P (snd (BeginNextFile E sid s))) \<Longrightarrow>
   P (OutputQueuesDrained E n s)"
  by (auto simp: OutputQueuesDrained_def pump split: option.split prod.split)
    (metis pump(1) snd_conv)+

end

subsection \<open>The request table\<close>

lemma put_peer_fields [simp]:
  "us_peers (put_peer sid p s) = ht_put sid p (us_peers s)"
  "us_sharedFiles (put_peer sid p s) = us_sharedFiles s"
  "us_maxSimultaneousUploads (put_peer sid p s) = us_maxSimultaneousUploads s"
  "us_sent (put_peer sid p s) = us_sent s" "us_localSessionId (put_peer sid p s) = us_localSessionId s"
  by (simp_all add: put_peer_def)

lemma up_emit_fields [simp]:
  "us_peers (up_emit ev s) = us_peers s" "us_sharedFiles (up_emit ev s) = us_sharedFiles s"
  "us_maxSimultaneousUploads (up_emit ev s) = us_maxSimultaneousUploads s"
  "us_sent (up_emit ev s) = us_sent s" "us_localSessionId (up_emit ev s) = us_localSessionId s"
  by (simp_all add: up_emit_def)

lemma SendToPeer_fields [simp]:
  "us_peers (SendToPeer sid m s) = us_peers s" "us_sharedFiles (SendToPeer sid m s) = us_sharedFiles s"
  "us_maxSimultaneousUploads (SendToPeer sid m s) = us_maxSimultaneousUploads s"
  "us_sent (SendToPeer sid m s) = us_sent s @ [(sid, m)]"
  "us_localSessionId (SendToPeer sid m s) = us_localSessionId s"
  by (simp_all add: SendToPeer_def)

lemma send_chunk_fields [simp]:
  "us_peers (send_chunk sid p rest s) = ht_put sid (p\<lparr>pu_currentFile := Some (drop kUploadChunkSize rest),
     pu_bytesSent := pu_bytesSent p + of_nat (length (take kUploadChunkSize rest))\<rparr>) (us_peers s)"
  "us_sharedFiles (send_chunk sid p rest s) = us_sharedFiles s"
  "us_maxSimultaneousUploads (send_chunk sid p rest s) = us_maxSimultaneousUploads s"
  "us_sent (send_chunk sid p rest s) =
     us_sent s @ [(sid, encode_chunk (pu_mungeMode p) (take kUploadChunkSize rest))]"
  "us_localSessionId (send_chunk sid p rest s) = us_localSessionId s"
  by (simp_all add: send_chunk_def Let_def)

lemma BeginNextFile_fields:
  "us_sharedFiles (snd (BeginNextFile E sid s)) = us_sharedFiles s"
  "us_maxSimultaneousUploads (snd (BeginNextFile E sid s)) = us_maxSimultaneousUploads s"
  "us_localSessionId (snd (BeginNextFile E sid s)) = us_localSessionId s"
  "us_peers (snd (BeginNextFile E sid s)) = (case map_of (us_peers s) sid of None \<Rightarrow> us_peers s
     | Some p \<Rightarrow> ht_put sid (snd (next_file E p)) (us_peers s))"
  by (simp_all add: BeginNextFile_def split: option.split prod.split)

text \<open>Share, cap, peers and what each of them asked for stay as they are.\<close>

definition table_inv ::
  "(string \<times> SharedFile) list \<Rightarrow> uint32 \<Rightarrow> (string \<Rightarrow> SharedFile list option) \<Rightarrow> upload_server \<Rightarrow> bool" where
  "table_inv S n R s \<longleftrightarrow> us_sharedFiles s = S \<and> us_maxSimultaneousUploads s = n \<and> ht_ok (us_peers s) \<and>
     (\<lambda>k. map_option pu_requestedFiles (map_of (us_peers s) k)) = R"

lemma table_inv_put:
  "table_inv S n R s \<Longrightarrow> map_of (us_peers s) sid = Some p \<Longrightarrow> pu_requestedFiles p' = pu_requestedFiles p \<Longrightarrow>
   table_inv S n R (put_peer sid p' s)"
  by (auto simp: table_inv_def fun_eq_iff dest: spec [of _ sid])

lemma table_inv_same:
  "table_inv S n R s \<Longrightarrow> us_sharedFiles s' = us_sharedFiles s \<Longrightarrow>
   us_maxSimultaneousUploads s' = us_maxSimultaneousUploads s \<Longrightarrow> us_peers s' = us_peers s \<Longrightarrow> table_inv S n R s'"
  by (simp add: table_inv_def)

lemma table_inv_begin: "table_inv S n R s \<Longrightarrow> table_inv S n R (snd (BeginNextFile E sid s))"
proof (cases "map_of (us_peers s) sid")
  case None
  assume "table_inv S n R s"
  then show ?thesis using None by (simp add: table_inv_def BeginNextFile_fields)
next
  case (Some p)
  assume t: "table_inv S n R s"
  have "table_inv S n R (put_peer sid (snd (next_file E p)) s)"
    by (rule table_inv_put [OF t Some]) (simp add: next_file_frame)
  then show ?thesis by (rule table_inv_same) (simp_all add: BeginNextFile_fields Some)
qed

interpretation table: pump_invariant "table_inv S n R" E for S n R E
proof
  fix s sid p
  assume a: "table_inv S n R s" "map_of (us_peers s) sid = Some p"
  show "table_inv S n R (snd (BeginNextFile E sid s))" using table_inv_begin [OF a(1)] .
  show "table_inv S n R (snd (BeginNextFile E sid (put_peer sid (p\<lparr>pu_isQueued := False\<rparr>) s)))"
    by (rule table_inv_begin, rule table_inv_put [OF a]) simp
  fix rest
  show "table_inv S n R (send_chunk sid p rest s)"
    using a by (auto simp: table_inv_def fun_eq_iff dest: spec [of _ sid])
qed (simp add: table_inv_def)

subsection \<open>The cap\<close>

definition active :: "PeerUpload \<Rightarrow> nat" where
  "active p = (if \<not> pu_isQueued p \<and> pu_requestedFiles p \<noteq> [] then 1 else 0)"

lemma CountActiveUploads_sum: "CountActiveUploads s = sum_list (map (\<lambda>e. active (snd e)) (us_peers s))"
proof -
  have "length (filter (\<lambda>(k, p). \<not> pu_isQueued p \<and> pu_requestedFiles p \<noteq> []) ps) =
      sum_list (map (\<lambda>e. active (snd e)) ps)" for ps :: "(string \<times> PeerUpload) list"
    by (induction ps) (auto simp: active_def)
  then show ?thesis by (simp add: CountActiveUploads_def)
qed

lemma Count_put:
  "map_of (us_peers s) sid = Some p \<Longrightarrow>
   CountActiveUploads (put_peer sid p' s) + active p = CountActiveUploads s + active p'"
  using sum_list_ht_put [of "us_peers s" sid p active p'] by (simp add: CountActiveUploads_sum)

lemma Count_put_new:
  "map_of (us_peers s) sid = None \<Longrightarrow>
   CountActiveUploads (put_peer sid p' s) = CountActiveUploads s + active p'"
  by (simp add: CountActiveUploads_sum ht_put_absent map_of_eq_None_iff)

lemma Count_same: "us_peers s' = us_peers s \<Longrightarrow> CountActiveUploads s' = CountActiveUploads s"
  by (simp add: CountActiveUploads_def)

definition capped :: "upload_server \<Rightarrow> bool" where
  "capped s \<longleftrightarrow> CountActiveUploads s \<le> unat (us_maxSimultaneousUploads s)"

lemma Count_begin: "CountActiveUploads (snd (BeginNextFile E sid s)) = CountActiveUploads s"
proof (cases "map_of (us_peers s) sid")
  case None
  then show ?thesis by (simp add: CountActiveUploads_def BeginNextFile_fields)
next
  case (Some p)
  have "active (snd (next_file E p)) = active p" by (simp add: active_def next_file_frame)
  moreover have "CountActiveUploads (snd (BeginNextFile E sid s)) = CountActiveUploads (put_peer sid (snd (next_file E p)) s)"
    by (rule Count_same) (simp add: BeginNextFile_fields Some)
  ultimately show ?thesis using Count_put [OF Some, of "snd (next_file E p)"] by simp
qed

lemma active_le: "active p \<le> 1"
  by (simp add: active_def)

lemma capped_release:
  assumes "capped s" "map_of (us_peers s) sid = Some p" "CountActiveUploads s < unat (us_maxSimultaneousUploads s)"
  shows "capped (snd (BeginNextFile E sid (put_peer sid p' s)))"
  using Count_put [OF assms(2), of p'] assms(3) active_le [of p']
  by (simp add: capped_def Count_begin BeginNextFile_fields)

interpretation cap: pump_invariant capped E for E
proof
  fix s sid p
  assume a: "capped s" "map_of (us_peers s) sid = Some p"
  show "capped (snd (BeginNextFile E sid s))"
    using a by (simp add: capped_def Count_begin BeginNextFile_fields)
  show "CountActiveUploads s < unat (us_maxSimultaneousUploads s) \<Longrightarrow>
      capped (snd (BeginNextFile E sid (put_peer sid (p\<lparr>pu_isQueued := False\<rparr>) s)))"
    by (rule capped_release [OF a])
  fix rest
  let ?p = "p\<lparr>pu_currentFile := Some (drop kUploadChunkSize rest),
     pu_bytesSent := pu_bytesSent p + of_nat (length (take kUploadChunkSize rest))\<rparr>"
  have "CountActiveUploads (send_chunk sid p rest s) = CountActiveUploads (put_peer sid ?p s)"
    by (rule Count_same) simp
  moreover have "active ?p = active p" by (simp add: active_def)
  ultimately show "capped (send_chunk sid p rest s)"
    using a Count_put [OF a(2), of ?p] by (simp add: capped_def)
qed (simp add: capped_def CountActiveUploads_def)

subsection \<open>Every history\<close>

datatype up_op =
    UpAccept string string | UpDetach string | UpMessage string message | UpDrained "string option"
  | UpShare "(string \<times> SharedFile) list" | UpIdentity string string | UpStop | UpListen uint16 uint16

fun run_up :: "muscle \<Rightarrow> up_env \<Rightarrow> up_op \<Rightarrow> upload_server \<Rightarrow> upload_server" where
  "run_up L E (UpAccept sid addr) s = UpSessionAccepted sid addr s"
| "run_up L E (UpDetach sid) s = UpSessionDetached E sid s"
| "run_up L E (UpMessage sid m) s = UpMessageReceived L E m sid s"
| "run_up L E (UpDrained n) s = OutputQueuesDrained E n s"
| "run_up L E (UpShare fs) s = SetSharedFiles fs s"
| "run_up L E (UpIdentity sid n) s = SetLocalIdentity sid n s"
| "run_up L E UpStop s = StopListening s"
| "run_up L E (UpListen p r) s = snd (StartListening E p r s)"

lemma capped_put:
  assumes "capped s" "map_of (us_peers s) sid = Some p" "active p' \<le> active p"
  shows "capped (put_peer sid p' s)"
  using Count_put [OF assms(2), of p'] assms(1,3) by (simp add: capped_def)

lemma capped_same:
  "capped s \<Longrightarrow> us_peers s' = us_peers s \<Longrightarrow> us_maxSimultaneousUploads s' = us_maxSimultaneousUploads s \<Longrightarrow> capped s'"
  by (simp add: capped_def CountActiveUploads_def)

lemma HandleFileList_capped:
  assumes "capped s"
  shows "capped (HandleFileList L E sid m s)"
proof (cases "map_of (us_peers s) sid")
  case None
  then show ?thesis using assms by (simp add: HandleFileList_def)
next
  case (Some p)
  define p1 where "p1 = p\<lparr>
      pu_remoteSessionId := found_or (pu_remoteSessionId p) (find_string m BESHARE_FIELD_FROM_SESSION),
      pu_remoteUserName := found_or (pu_remoteUserName p) (find_string m BESHARE_FIELD_FROM_USER_NAME),
      pu_mungeMode := (if find_int32 m BESHARE_FIELD_MUNGE_MODE = Some MUNGE_MODE_XOR
                       then MUNGE_MODE_XOR else pu_mungeMode p),
      pu_requestedFiles := resolve_names (us_sharedFiles s) (all_strings m BESHARE_FIELD_FILE_LIST_NAMES),
      pu_nextFileIndex := 0\<rparr>"
  define s1 where "s1 = up_emit (request_report L p1
      (length (filter (\<lambda>n. map_of (us_sharedFiles s) n = None) (all_strings m BESHARE_FIELD_FILE_LIST_NAMES))))
      (put_peer sid p1 s)"
  have s1: "us_peers s1 = ht_put sid p1 (us_peers s)" "us_maxSimultaneousUploads s1 = us_maxSimultaneousUploads s"
    by (simp_all add: s1_def)
  have c1: "CountActiveUploads s1 + active p = CountActiveUploads s + active p1"
    using Count_put [OF Some, of p1] Count_same [of s1 "put_peer sid p1 s"] s1 by simp
  have look: "map_of (us_peers s1) sid = Some p1" using s1 by simp
  show ?thesis
  proof (cases "CountActiveUploads s1 \<ge> unat (us_maxSimultaneousUploads s1)")
    case True
    let ?q = "put_peer sid (p1\<lparr>pu_isQueued := True\<rparr>) s1"
    have eq: "HandleFileList L E sid m s = up_emit UploadsChanged
        (SendToPeer sid (new_message TRANSFER_COMMAND_NOTIFY_QUEUED) ?q)"
      using True unfolding HandleFileList_def Let_def Some option.case p1_def [symmetric] s1_def [symmetric]
      by simp
    have "CountActiveUploads ?q + active p1 = CountActiveUploads s1"
      using Count_put [OF look, of "p1\<lparr>pu_isQueued := True\<rparr>"] by (simp add: active_def)
    then have "capped ?q" using c1 assms s1 by (simp add: capped_def)
    then show ?thesis unfolding eq by (rule capped_same) simp_all
  next
    case False
    let ?q = "put_peer sid (p1\<lparr>pu_isQueued := False\<rparr>) s1"
    obtain ok s2 where b: "BeginNextFile E sid ?q = (ok, s2)" by fastforce
    have eq: "HandleFileList L E sid m s = (if ok then SendNextChunk E sid s2 else s2)"
      using False b unfolding HandleFileList_def Let_def Some option.case p1_def [symmetric] s1_def [symmetric]
      by simp
    have "capped s1" using False by (simp add: capped_def)
    then have "capped s2" using capped_release [OF _ look] False b by (metis not_le snd_conv)
    then show ?thesis unfolding eq by (simp add: cap.pump)
  qed
qed

lemma Count_remove: "CountActiveUploads (s\<lparr>us_peers := ht_remove sid (us_peers s)\<rparr>) \<le> CountActiveUploads s"
proof -
  have "length (filter A (filter B xs)) \<le> length (filter A xs)" for A B and xs :: "(string \<times> PeerUpload) list"
    by (induction xs) auto
  then show ?thesis by (simp add: CountActiveUploads_def ht_remove_def del: filter_filter)
qed

lemma run_up_capped: "capped s \<Longrightarrow> capped (run_up L E op s)"
proof (cases op)
  case (UpAccept sid addr)
  assume c: "capped s"
  have "active (new_peer\<lparr>pu_peerAddress := addr\<rparr>) = 0" by (simp add: active_def new_peer_def)
  then have "CountActiveUploads (put_peer sid (new_peer\<lparr>pu_peerAddress := addr\<rparr>) s) \<le> CountActiveUploads s"
    using Count_put [of s sid _ "new_peer\<lparr>pu_peerAddress := addr\<rparr>"]
      Count_put_new [of s sid "new_peer\<lparr>pu_peerAddress := addr\<rparr>"]
    by (cases "map_of (us_peers s) sid") force+
  then have "capped (put_peer sid (new_peer\<lparr>pu_peerAddress := addr\<rparr>) s)"
    using c by (simp add: capped_def)
  then show ?thesis using UpAccept cap.callback by (simp add: UpSessionAccepted_def)
next
  case (UpDetach sid)
  assume c: "capped s"
  have "capped (s\<lparr>us_peers := ht_remove sid (us_peers s)\<rparr>)"
    using c Count_remove [of sid s] by (simp add: capped_def)
  then show ?thesis using UpDetach c by (simp add: UpSessionDetached_def cap.pump cap.callback)
next
  case (UpMessage sid m)
  assume c: "capped s"
  have "capped (put_peer sid (p\<lparr>pu_remoteSessionId := a, pu_remoteUserName := b\<rparr>) s)"
    if "map_of (us_peers s) sid = Some p" for p a b
    by (rule capped_put [OF c that]) (simp add: active_def)
  then show ?thesis using c UpMessage
    by (simp add: UpMessageReceived_def HandleFileList_capped cap.callback split: option.split)
next
  case (UpDrained n)
  assume c: "capped s"
  have "capped (snd (BeginNextFile E sid s))" for sid
    using c by (simp add: capped_def Count_begin BeginNextFile_fields)
  then show ?thesis using UpDrained cap.drained [OF c] by simp
qed (auto simp: capped_def CountActiveUploads_def SetSharedFiles_def SetLocalIdentity_def
    StopListening_def StartListening_def Let_def split: option.split)

subsubsection \<open>The cap itself stays\<close>

interpretation max: pump_invariant "\<lambda>s. us_maxSimultaneousUploads s = n" E for n E
  by unfold_locales (simp_all add: BeginNextFile_fields)

lemma run_up_max: "us_maxSimultaneousUploads (run_up L E op s) = us_maxSimultaneousUploads s"
proof (cases op)
  case (UpMessage sid m)
  have "us_maxSimultaneousUploads (HandleFileList L E sid m s) = us_maxSimultaneousUploads s"
    unfolding HandleFileList_def
    by (auto simp: Let_def max.pump split: option.split prod.split)
      (metis BeginNextFile_fields(2) max.pump(1) put_peer_fields(3) snd_conv up_emit_fields(3))+
  then show ?thesis using UpMessage by (simp add: UpMessageReceived_def split: option.split)
next
  case (UpDrained n)
  then show ?thesis
    using max.drained [of s "us_maxSimultaneousUploads s"] by (simp add: BeginNextFile_fields)
qed (simp_all add: UpSessionAccepted_def UpSessionDetached_def Let_def max.pump SetSharedFiles_def
    SetLocalIdentity_def StopListening_def StartListening_def split: option.split)

lemma run_ups_capped: "capped s \<Longrightarrow> capped (fold (run_up L E) ops s)"
  by (induction ops arbitrary: s) (simp_all add: run_up_capped)



subsection \<open>Nothing but the share is ever read\<close>

text \<open>Every file the server may open is one of the paths \<open>P\<close>.\<close>

definition confined :: "string set \<Rightarrow> upload_server \<Rightarrow> bool" where
  "confined P s \<longleftrightarrow> (\<forall>n f. map_of (us_sharedFiles s) n = Some f \<longrightarrow> sf_absolutePath f \<in> P) \<and>
     (\<forall>k p. map_of (us_peers s) k = Some p \<longrightarrow> (\<forall>f \<in> set (pu_requestedFiles p). sf_absolutePath f \<in> P))"

lemma confined_put:
  "confined P s \<Longrightarrow> (\<forall>f \<in> set (pu_requestedFiles p). sf_absolutePath f \<in> P) \<Longrightarrow> confined P (put_peer sid p s)"
  by (simp add: confined_def)

lemma confined_same:
  "confined P s \<Longrightarrow> us_sharedFiles s' = us_sharedFiles s \<Longrightarrow> us_peers s' = us_peers s \<Longrightarrow> confined P s'"
  by (simp add: confined_def)

lemma confined_peer:
  "confined P s \<Longrightarrow> map_of (us_peers s) sid = Some p \<Longrightarrow> \<forall>f \<in> set (pu_requestedFiles p). sf_absolutePath f \<in> P"
  by (simp add: confined_def)

lemma confined_begin: "confined P s \<Longrightarrow> confined P (snd (BeginNextFile E sid s))"
proof (cases "map_of (us_peers s) sid")
  case None
  assume "confined P s"
  then show ?thesis using None by (simp add: confined_def BeginNextFile_fields)
next
  case (Some p)
  assume c: "confined P s"
  have "confined P (put_peer sid (snd (next_file E p)) s)"
    by (rule confined_put [OF c]) (use confined_peer [OF c Some] in \<open>simp add: next_file_frame\<close>)
  then show ?thesis by (rule confined_same) (simp_all add: BeginNextFile_fields Some)
qed

interpretation confined: pump_invariant "confined P" E for P E
proof
  fix s sid p
  assume a: "confined P s" "map_of (us_peers s) sid = Some p"
  note c = confined_peer [OF a]
  show "confined P (snd (BeginNextFile E sid s))" using confined_begin [OF a(1)] .
  show "confined P (snd (BeginNextFile E sid (put_peer sid (p\<lparr>pu_isQueued := False\<rparr>) s)))"
    by (rule confined_begin, rule confined_put [OF a(1)]) (simp add: c)
  fix rest
  show "confined P (send_chunk sid p rest s)" using a c by (simp add: confined_def)
qed (simp add: confined_def)

definition same_on :: "string set \<Rightarrow> up_env \<Rightarrow> up_env \<Rightarrow> bool" where
  "same_on P E E' \<longleftrightarrow> (\<forall>p \<in> P. open_file E p = open_file E' p) \<and>
     start_up_thread E = start_up_thread E' \<and> put_accept E = put_accept E'"

lemma next_file_same:
  assumes "same_on P E E'"
  shows "\<forall>f \<in> set (pu_requestedFiles p). sf_absolutePath f \<in> P \<Longrightarrow> next_file E p = next_file E' p"
proof (induction p rule: next_file_induct [where E = E])
  case (1 p)
  show ?case
  proof (cases "pu_nextFileIndex p < length (pu_requestedFiles p)")
    case True
    then have "wanted_file p \<in> set (pu_requestedFiles p)" by (simp add: wanted_file_def)
    then have "open_file E (sf_absolutePath (wanted_file p)) = open_file E' (sf_absolutePath (wanted_file p))"
      using 1 assms by (simp add: same_on_def)
    then show ?thesis using 1 True by (subst (1 2) next_file_unfold) (simp split: option.split)
  next
    case False
    then show ?thesis by (subst (1 2) next_file_unfold) simp
  qed
qed

lemma begin_same:
  assumes "same_on P E E'" "confined P s"
  shows "BeginNextFile E sid s = BeginNextFile E' sid s"
  using next_file_same [OF assms(1)] confined_peer [OF assms(2)]
  by (auto simp: BeginNextFile_def split: option.split)

lemma pump_same:
  "same_on P E E' \<Longrightarrow> confined P s \<Longrightarrow> SendNextChunk E sid s = SendNextChunk E' sid s"
  "same_on P E E' \<Longrightarrow> confined P s \<Longrightarrow> StartNextQueuedPeer E s = StartNextQueuedPeer E' s"
proof (induction E sid s and E s rule: SendNextChunk_StartNextQueuedPeer.induct)
  case (1 E sid s)
  obtain ok s1 where b: "BeginNextFile E sid s = (ok, s1)" by fastforce
  have b': "BeginNextFile E' sid s = (ok, s1)" using begin_same [OF 1(3,4)] b by simp
  have "confined P s1" using confined_begin [OF 1(4), of E sid] b by simp
  then show ?case using 1 b b'
    by (subst (1 2) SendNextChunk.simps) (auto split: option.split)
next
  case (2 E s)
  show ?case
  proof (cases "first_queued (us_peers s)")
    case None
    then show ?thesis by (subst (1 2) StartNextQueuedPeer.simps) simp
  next
    case (Some kp)
    obtain sid p0 where kp: "kp = (sid, p0)" by fastforce
    show ?thesis
    proof (cases "map_of (us_peers s) sid")
      case None
      then show ?thesis using Some kp by (subst (1 2) StartNextQueuedPeer.simps) simp
    next
      case p: (Some p)
      let ?s0 = "put_peer sid (p\<lparr>pu_isQueued := False\<rparr>) s"
      have c0: "confined P ?s0"
        by (rule confined_put [OF 2(3)]) (use confined_peer [OF 2(3) p] in simp)
      obtain ok s1 where b: "BeginNextFile E sid ?s0 = (ok, s1)" by fastforce
      have b': "BeginNextFile E' sid ?s0 = (ok, s1)" using begin_same [OF 2(2) c0] b by simp
      have "confined P s1" using confined_begin [OF c0, of E sid] b by simp
      then show ?thesis using 2 Some kp p b b'
        by (subst (1 2) StartNextQueuedPeer.simps) auto
    qed
  qed
qed

lemma resolve_confined:
  "confined P s \<Longrightarrow> f \<in> set (resolve_names (us_sharedFiles s) ns) \<Longrightarrow> sf_absolutePath f \<in> P"
  by (auto simp: confined_def resolve_names_def List.map_filter_def)

lemma HandleFileList_parts:
  assumes "map_of (us_peers s) sid = Some p"
  obtains p1 s1 where "pu_requestedFiles p1 = resolve_names (us_sharedFiles s) (all_strings m BESHARE_FIELD_FILE_LIST_NAMES)"
    "pu_nextFileIndex p1 = 0" "pu_currentFile p1 = pu_currentFile p" "pu_isQueued p1 = pu_isQueued p"
    "pu_mungeMode p1 = (if find_int32 m BESHARE_FIELD_MUNGE_MODE = Some MUNGE_MODE_XOR then MUNGE_MODE_XOR else pu_mungeMode p)"
    "us_sharedFiles s1 = us_sharedFiles s" "us_peers s1 = ht_put sid p1 (us_peers s)"
    "us_maxSimultaneousUploads s1 = us_maxSimultaneousUploads s" "us_sent s1 = us_sent s"
    "us_localSessionId s1 = us_localSessionId s"
    "\<And>E. HandleFileList L E sid m s =
       (if CountActiveUploads s1 \<ge> unat (us_maxSimultaneousUploads s1)
        then up_emit UploadsChanged (SendToPeer sid (new_message TRANSFER_COMMAND_NOTIFY_QUEUED)
               (put_peer sid (p1\<lparr>pu_isQueued := True\<rparr>) s1))
        else (case BeginNextFile E sid (put_peer sid (p1\<lparr>pu_isQueued := False\<rparr>) s1) of (ok, s2) \<Rightarrow>
                if ok then SendNextChunk E sid s2 else s2))"
proof -
  define p1 where "p1 = p\<lparr>
      pu_remoteSessionId := found_or (pu_remoteSessionId p) (find_string m BESHARE_FIELD_FROM_SESSION),
      pu_remoteUserName := found_or (pu_remoteUserName p) (find_string m BESHARE_FIELD_FROM_USER_NAME),
      pu_mungeMode := (if find_int32 m BESHARE_FIELD_MUNGE_MODE = Some MUNGE_MODE_XOR
                       then MUNGE_MODE_XOR else pu_mungeMode p),
      pu_requestedFiles := resolve_names (us_sharedFiles s) (all_strings m BESHARE_FIELD_FILE_LIST_NAMES),
      pu_nextFileIndex := 0\<rparr>"
  define s1 where "s1 = up_emit (request_report L p1
      (length (filter (\<lambda>n. map_of (us_sharedFiles s) n = None) (all_strings m BESHARE_FIELD_FILE_LIST_NAMES))))
      (put_peer sid p1 s)"
  show ?thesis
  proof (rule that [of p1 s1])
    fix E
    show "HandleFileList L E sid m s =
       (if CountActiveUploads s1 \<ge> unat (us_maxSimultaneousUploads s1)
        then up_emit UploadsChanged (SendToPeer sid (new_message TRANSFER_COMMAND_NOTIFY_QUEUED)
               (put_peer sid (p1\<lparr>pu_isQueued := True\<rparr>) s1))
        else (case BeginNextFile E sid (put_peer sid (p1\<lparr>pu_isQueued := False\<rparr>) s1) of (ok, s2) \<Rightarrow>
                if ok then SendNextChunk E sid s2 else s2))"
      unfolding HandleFileList_def Let_def assms option.case p1_def [symmetric] s1_def [symmetric] ..
  qed (simp_all add: p1_def s1_def)
qed

lemma HandleFileList_confined:
  assumes "confined P s" "same_on P E E'"
  shows "confined P (HandleFileList L E sid m s) \<and> HandleFileList L E sid m s = HandleFileList L E' sid m s"
proof (cases "map_of (us_peers s) sid")
  case None
  then show ?thesis using assms by (simp add: HandleFileList_def)
next
  case (Some p)
  obtain p1 s1 where h: "pu_requestedFiles p1 = resolve_names (us_sharedFiles s) (all_strings m BESHARE_FIELD_FILE_LIST_NAMES)"
    "us_sharedFiles s1 = us_sharedFiles s" "us_peers s1 = ht_put sid p1 (us_peers s)"
    "\<And>E. HandleFileList L E sid m s =
       (if CountActiveUploads s1 \<ge> unat (us_maxSimultaneousUploads s1)
        then up_emit UploadsChanged (SendToPeer sid (new_message TRANSFER_COMMAND_NOTIFY_QUEUED)
               (put_peer sid (p1\<lparr>pu_isQueued := True\<rparr>) s1))
        else (case BeginNextFile E sid (put_peer sid (p1\<lparr>pu_isQueued := False\<rparr>) s1) of (ok, s2) \<Rightarrow>
                if ok then SendNextChunk E sid s2 else s2))"
    by (rule HandleFileList_parts [OF Some, where m = m and L = L]) (rule that, assumption+)
  have req: "\<forall>f \<in> set (pu_requestedFiles p1). sf_absolutePath f \<in> P"
    using h(1) resolve_confined [OF assms(1)] by simp
  have c1: "confined P s1" using assms(1) h(2,3) req by (simp add: confined_def)
  have c: "confined P (put_peer sid (p1\<lparr>pu_isQueued := b\<rparr>) s1)" for b
    by (rule confined_put [OF c1]) (simp add: req)
  obtain ok s2 where b: "BeginNextFile E sid (put_peer sid (p1\<lparr>pu_isQueued := False\<rparr>) s1) = (ok, s2)" by fastforce
  have b': "BeginNextFile E' sid (put_peer sid (p1\<lparr>pu_isQueued := False\<rparr>) s1) = (ok, s2)"
    using begin_same [OF assms(2) c, of sid] b by simp
  have c2: "confined P s2" using confined_begin [OF c, of E sid] b by (metis snd_conv)
  have q: "confined P (up_emit ev (SendToPeer sid m' (put_peer sid (p1\<lparr>pu_isQueued := True\<rparr>) s1)))" for ev m'
    by (rule confined_same [OF c]) simp_all
  show ?thesis
    unfolding h(4) b b' using q c2 pump_same(1) [OF assms(2) c2] by (simp add: confined.pump)
qed

definition shares_within :: "string set \<Rightarrow> up_op \<Rightarrow> bool" where
  "shares_within P op \<longleftrightarrow> (\<forall>fs n f. op = UpShare fs \<longrightarrow> map_of fs n = Some f \<longrightarrow> sf_absolutePath f \<in> P)"

lemma run_up_confined:
  assumes "confined P s" "same_on P E E'" "shares_within P op"
  shows "confined P (run_up L E op s) \<and> run_up L E op s = run_up L E' op s"
proof (cases op)
  case (UpAccept sid addr)
  have "confined P (put_peer sid (new_peer\<lparr>pu_peerAddress := addr\<rparr>) s)"
    by (rule confined_put [OF assms(1)]) (simp add: new_peer_def)
  then show ?thesis using UpAccept by (simp add: UpSessionAccepted_def confined.callback)
next
  case (UpDetach sid)
  have "confined P (s\<lparr>us_peers := ht_remove sid (us_peers s)\<rparr>)"
    using assms(1) by (simp add: confined_def)
  then show ?thesis using UpDetach assms(1) pump_same(2) [OF assms(2)]
    by (auto simp: UpSessionDetached_def confined.pump confined.callback)
next
  case (UpMessage sid m)
  have "confined P (put_peer sid (p\<lparr>pu_remoteSessionId := a, pu_remoteUserName := b\<rparr>) s)"
    if "map_of (us_peers s) sid = Some p" for p a b
    by (rule confined_put [OF assms(1)]) (use confined_peer [OF assms(1) that] in simp)
  moreover have "confined P (HandleFileList L E sid m s)"
    "HandleFileList L E' sid m s = HandleFileList L E sid m s"
    using HandleFileList_confined [OF assms(1,2), of L sid m] by metis+
  ultimately show ?thesis using UpMessage assms(1)
    by (auto simp: UpMessageReceived_def confined.callback split: option.split)
next
  case (UpDrained n)
  have "OutputQueuesDrained E n s = OutputQueuesDrained E' n s"
    using begin_same [OF assms(2,1)] pump_same(1) [OF assms(2)] assms(1) confined_begin [OF assms(1)]
    by (auto simp: OutputQueuesDrained_def split: option.split prod.split) (metis snd_conv)
  then show ?thesis using UpDrained confined.drained [OF assms(1)] confined_begin [OF assms(1)] by simp
next
  case (UpShare fs)
  then show ?thesis using assms by (simp add: SetSharedFiles_def confined_def shares_within_def)
next
  case (UpListen q r)
  have "try_ports E q i k = try_ports E' q i k" for i k
    using assms(2) by (induction k arbitrary: i) (simp_all add: same_on_def split: option.split)
  then have "StartListening E q r s = StartListening E' q r s"
    using assms(2) by (simp add: StartListening_def same_on_def Let_def)
  then show ?thesis using UpListen assms(1)
    by (auto simp: StartListening_def StopListening_def confined_def Let_def split: option.split)
qed (use assms(1) in \<open>auto simp: SetLocalIdentity_def StopListening_def confined_def\<close>)

text \<open>
  C4. No request can reach a file that was never shared: whatever peers send, the behaviour of the
  server, and in particular everything it sends, is the same for any two file systems that agree
  on the paths of the files offered in the share.
\<close>

theorem only_shared_files_read:
  assumes "same_on P E E'" "list_all (shares_within P) ops"
  shows "fold (run_up L E) ops new_server = fold (run_up L E') ops new_server"
proof -
  have "confined P s \<Longrightarrow> list_all (shares_within P) ops \<Longrightarrow>
      fold (run_up L E) ops s = fold (run_up L E') ops s" for s
  proof (induction ops arbitrary: s)
    case (Cons op ops)
    have "confined P (run_up L E op s)" "run_up L E' op s = run_up L E op s"
      using run_up_confined [OF Cons.prems(1) assms(1), of op L] Cons.prems(2) by auto
    then show ?case using Cons by simp
  qed simp
  then show ?thesis using assms(2) by (simp add: confined_def new_server_def)
qed

theorem only_shared_files_read_witness:
  "let E = \<lparr> open_file = (\<lambda>p. Some [1]), start_up_thread = True, put_accept = Some \<rparr>;
       E' = \<lparr> open_file = (\<lambda>p. if p = ''/s/a'' then Some [1] else None), start_up_thread = True, put_accept = Some \<rparr>;
       f = \<lparr> sf_fileName = ''a'', sf_relativePath = [], sf_absolutePath = ''/s/a'', sf_kind = [],
             sf_fileSize = 1, sf_modificationTime = 0 \<rparr>;
       ops = [UpShare [(''a'', f)], UpAccept ''1'' ''x'']
   in fold (run_up ref_muscle E) ops new_server = fold (run_up ref_muscle E') ops new_server"
  unfolding Let_def
  by (rule only_shared_files_read [of "{''/s/a''}"]) (auto simp: same_on_def shares_within_def split: if_splits)

subsection \<open>Slots\<close>

text \<open>
  C38. The last free slot is never given out on request: the peer that asks is itself counted among the
  active ones before the check, so with one slot left it is told to wait and gets nothing. With a
  cap of one, a request is never served directly, even by an idle server.
\<close>

theorem last_slot_refused:
  assumes "map_of (us_peers s) sid = Some p" "\<not> pu_isQueued p" "pu_requestedFiles p = []"
    "resolve_names (us_sharedFiles s) (all_strings m BESHARE_FIELD_FILE_LIST_NAMES) \<noteq> []"
    "CountActiveUploads s + 1 = unat (us_maxSimultaneousUploads s)"
  shows "us_sent (HandleFileList L E sid m s) = us_sent s @ [(sid, new_message TRANSFER_COMMAND_NOTIFY_QUEUED)] \<and>
    map_option pu_isQueued (map_of (us_peers (HandleFileList L E sid m s)) sid) = Some True"
proof -
  obtain p1 s1 where h: "pu_requestedFiles p1 = resolve_names (us_sharedFiles s) (all_strings m BESHARE_FIELD_FILE_LIST_NAMES)"
    "pu_isQueued p1 = pu_isQueued p" "us_peers s1 = ht_put sid p1 (us_peers s)"
    "us_maxSimultaneousUploads s1 = us_maxSimultaneousUploads s" "us_sent s1 = us_sent s"
    "\<And>E. HandleFileList L E sid m s =
       (if CountActiveUploads s1 \<ge> unat (us_maxSimultaneousUploads s1)
        then up_emit UploadsChanged (SendToPeer sid (new_message TRANSFER_COMMAND_NOTIFY_QUEUED)
               (put_peer sid (p1\<lparr>pu_isQueued := True\<rparr>) s1))
        else (case BeginNextFile E sid (put_peer sid (p1\<lparr>pu_isQueued := False\<rparr>) s1) of (ok, s2) \<Rightarrow>
                if ok then SendNextChunk E sid s2 else s2))"
    by (rule HandleFileList_parts [OF assms(1), where m = m and L = L]) (rule that, assumption+)
  have "CountActiveUploads s1 + active p = CountActiveUploads s + active p1"
    using Count_put [OF assms(1), of p1] Count_same [of s1 "put_peer sid p1 s"] h(3) by simp
  moreover have "active p = 0" "active p1 = 1" using assms(2-4) h(1,2) by (simp_all add: active_def)
  ultimately have "CountActiveUploads s1 \<ge> unat (us_maxSimultaneousUploads s1)" using assms(5) h(4) by simp
  then show ?thesis unfolding h(6) using h(5) by simp
qed

definition demo_shared :: SharedFile where
  "demo_shared = \<lparr> sf_fileName = ''a'', sf_relativePath = [], sf_absolutePath = ''/s/a'', sf_kind = [],
     sf_fileSize = 3, sf_modificationTime = 0 \<rparr>"

definition demo_request :: message where
  "demo_request = add_string (new_message TRANSFER_COMMAND_FILE_LIST) BESHARE_FIELD_FILE_LIST_NAMES ''a''"

definition demo_up_env :: up_env where
  "demo_up_env = \<lparr> open_file = (\<lambda>p. if p = ''/s/a'' then Some [1, 2, 3] else None),
     start_up_thread = True, put_accept = Some \<rparr>"

definition demo_server :: "uint32 \<Rightarrow> upload_server" where
  "demo_server n = new_server\<lparr>us_maxSimultaneousUploads := n, us_sharedFiles := [(''a'', demo_shared)],
     us_peers := [(''1'', new_peer)]\<rparr>"

lemma demo_server_simps [simp]:
  "us_peers (demo_server n) = [(''1'', new_peer)]" "us_sharedFiles (demo_server n) = [(''a'', demo_shared)]"
  "us_maxSimultaneousUploads (demo_server n) = n" "us_sent (demo_server n) = []"
  "CountActiveUploads (demo_server n) = 0"
  by (simp_all add: demo_server_def new_server_def CountActiveUploads_def new_peer_def)

lemma demo_request_names: "all_strings demo_request ''files'' = [''a'']"
  by (simp add: demo_request_def finds)

lemma new_peer_simps [simp]: "\<not> pu_isQueued new_peer" "pu_requestedFiles new_peer = []" "pu_currentFile new_peer = None"
  by (simp_all add: new_peer_def)

theorem last_slot_refused_witness:
  "us_sent (HandleFileList ref_muscle demo_up_env ''1'' demo_request (demo_server 1)) =
     [(''1'', new_message TRANSFER_COMMAND_NOTIFY_QUEUED)]"
  using last_slot_refused [of "demo_server 1" "''1''" new_peer demo_request ref_muscle demo_up_env]
  by (simp add: demo_request_names resolve_names_def List.map_filter_def)

text \<open>
  C39. A peer that has got everything keeps its slot until it disconnects: at the cap, finishing the last
  file of a peer starts none of the waiting ones, although that is when the code looks for one.
\<close>

theorem finished_peer_keeps_slot:
  assumes "map_of (us_peers s) sid = Some p" "pu_currentFile p = Some []"
    "length (pu_requestedFiles p) \<le> pu_nextFileIndex p"
    "CountActiveUploads s \<ge> unat (us_maxSimultaneousUploads s)"
  shows "us_sent (SendNextChunk E sid s) = us_sent s \<and>
    (\<forall>k. k \<noteq> sid \<longrightarrow> map_of (us_peers (SendNextChunk E sid s)) k = map_of (us_peers s) k)"
proof -
  have n: "next_file E p = (None, CloseCurrentFile p)"
    using assms(3) by (subst next_file_unfold) simp
  have b: "BeginNextFile E sid s = (False, put_peer sid (CloseCurrentFile p) s)"
    using assms(1) n by (simp add: BeginNextFile_def)
  have "CountActiveUploads (put_peer sid (CloseCurrentFile p) s) = CountActiveUploads s"
    using Count_put [OF assms(1), of "CloseCurrentFile p"] by (simp add: active_def)
  then have "StartNextQueuedPeer E (put_peer sid (CloseCurrentFile p) s) = put_peer sid (CloseCurrentFile p) s"
    using assms(4) by (simp add: StartNextQueuedPeer.simps)
  then show ?thesis using assms(1,2) b by (simp add: SendNextChunk.simps)
qed

theorem finished_peer_keeps_slot_witness:
  "let done = new_peer\<lparr>pu_requestedFiles := [demo_shared], pu_nextFileIndex := 1, pu_currentFile := Some []\<rparr>;
       waiting = new_peer\<lparr>pu_requestedFiles := [demo_shared], pu_isQueued := True\<rparr>;
       s = (demo_server 1)\<lparr>us_peers := [(''1'', done), (''2'', waiting)]\<rparr>
   in us_sent (SendNextChunk demo_up_env ''1'' s) = []"
proof -
  let ?done = "new_peer\<lparr>pu_requestedFiles := [demo_shared], pu_nextFileIndex := 1, pu_currentFile := Some []\<rparr>"
  let ?s = "(demo_server 1)\<lparr>us_peers := [(''1'', ?done),
      (''2'', new_peer\<lparr>pu_requestedFiles := [demo_shared], pu_isQueued := True\<rparr>)]\<rparr>"
  have "CountActiveUploads ?s \<ge> unat (us_maxSimultaneousUploads ?s)" by (simp add: CountActiveUploads_def)
  then show ?thesis using finished_peer_keeps_slot [of ?s "''1''" ?done demo_up_env] by (simp add: Let_def)
qed

subsection \<open>Listening\<close>

lemma try_ports_first:
  "try_ports E q i k = Some (c, a) \<Longrightarrow>
   \<exists>j < k. c = q + i + of_nat j \<and> (\<exists>r. put_accept E c = Some r \<and> a = (if r > 0 then r else c)) \<and>
     (\<forall>j' < j. put_accept E (q + i + of_nat j') = None)"
proof (induction k arbitrary: i)
  case (Suc k)
  show ?case
  proof (cases "put_accept E (q + i)")
    case (Some r)
    then show ?thesis using Suc.prems by (intro exI [of _ 0]) auto
  next
    case None
    then obtain j where j: "j < k" "c = q + (i + 1) + of_nat j"
      "\<exists>r. put_accept E c = Some r \<and> a = (if r > 0 then r else c)"
      "\<forall>j' < j. put_accept E (q + (i + 1) + of_nat j') = None"
      using Suc.IH [of "i + 1"] Suc.prems by auto
    have "\<forall>j' < Suc j. put_accept E (q + i + of_nat j') = None"
    proof (intro allI impI)
      fix j' assume "j' < Suc j"
      then show "put_accept E (q + i + of_nat j') = None"
        using None j(4) by (cases j') (auto simp: algebra_simps)
    qed
    then show ?thesis using j(1-3) by (intro exI [of _ "Suc j"]) (auto simp: algebra_simps)
  qed
qed simp

lemma try_ports_none: "try_ports E q i k = None \<Longrightarrow> \<forall>j < k. put_accept E (q + i + of_nat j) = None"
proof (induction k arbitrary: i)
  case (Suc k)
  have n: "put_accept E (q + i) = None" "try_ports E q (i + 1) k = None"
    using Suc.prems by (simp_all split: option.splits)
  show ?case
  proof (intro allI impI)
    fix j assume "j < Suc k"
    then show "put_accept E (q + i + of_nat j) = None"
      using n(1) Suc.IH [OF n(2)] by (cases j) (auto simp: algebra_simps)
  qed
qed simp

text \<open>
  Listening takes the first port of the range that can be bound. If it succeeds, the port is
  reported, every port before it was tried and refused, and no peer is left from before; if no port
  of the range can be bound, the result is 0, the network thread is stopped and no port is open.
\<close>

theorem listen_outcome:
  assumes "start_up_thread E"
  shows "let (p, s') = StartListening E q width s in
    us_peers s' = [] \<and> us_listenPort s' = p \<and>
    (if \<forall>j < unat width. put_accept E (q + of_nat j) = None then p = 0 \<and> \<not> us_thread s'
     else us_thread s' \<and> (\<exists>j < unat width. us_acceptPort s' = Some (q + of_nat j) \<and>
       (\<forall>j' < j. put_accept E (q + of_nat j') = None) \<and>
       (\<exists>r. put_accept E (q + of_nat j) = Some r \<and> p = (if r > 0 then r else q + of_nat j))))"
proof (cases "try_ports E q 0 (unat width)")
  case None
  then show ?thesis using assms try_ports_none [OF None]
    by (simp add: StartListening_def StopListening_def Let_def)
next
  case (Some ca)
  obtain c a where ca: "ca = (c, a)" by fastforce
  obtain j where j: "j < unat width" "c = q + of_nat j" "\<forall>j' < j. put_accept E (q + of_nat j') = None"
    "\<exists>r. put_accept E c = Some r \<and> a = (if r > 0 then r else c)"
    using try_ports_first [of E q 0 "unat width" c a] Some ca by auto
  have "\<not> (\<forall>j < unat width. put_accept E (q + of_nat j) = None)" using j by auto
  moreover have "\<exists>k < unat width. Some c = Some (q + of_nat k) \<and> (\<forall>j' < k. put_accept E (q + of_nat j') = None) \<and>
      (\<exists>r. put_accept E (q + of_nat k) = Some r \<and> a = (if r > 0 then r else q + of_nat k))"
    using j by blast
  ultimately show ?thesis using assms Some ca
    by (simp add: StartListening_def StopListening_def Let_def del: not_all)
qed

theorem listen_outcome_witness:
  "fst (StartListening (demo_up_env\<lparr>put_accept := (\<lambda>p. if p = 7001 then Some 7001 else None)\<rparr>)
     7000 50 new_server) = 7001"
proof -
  define F where "F = demo_up_env\<lparr>put_accept := (\<lambda>p. if p = 7001 then Some 7001 else None)\<rparr>"
  define w :: uint16 where "w = 50"
  have up: "start_up_thread F" by (simp add: F_def demo_up_env_def)
  have acc: "put_accept F p = (if p = 7001 then Some 7001 else None)" for p by (simp add: F_def)
  obtain p s' where r: "StartListening F 7000 w new_server = (p, s')" by fastforce
  have "1 < unat w" by (simp add: w_def)
  moreover have "put_accept F (7000 + of_nat 1) \<noteq> None" by (simp add: acc)
  ultimately have some: "\<not> (\<forall>j < unat w. put_accept F (7000 + of_nat j) = None)" by (meson)
  obtain j q where "put_accept F (7000 + of_nat j) = Some q" "p = (if q > 0 then q else 7000 + of_nat j)"
    using listen_outcome [OF up, of 7000 w new_server] unfolding r Let_def prod.case if_not_P [OF some] by blast
  then have "p = 7001" by (simp add: acc split: if_splits)
  with r show ?thesis by (simp add: F_def w_def)
qed

end
