(* ===== verification/FileTransfer.thy ===== *)
theory FileTransfer
  imports UploadLaws DownloadLaws
begin

section \<open>A transfer end to end\<close>

text \<open>
  What the uploader sends is what the downloader stores. The chunk encoding is a codec (the locale
  \<open>chunk_codec\<close>, interpreted on \<open>encode_chunk\<close> and \<open>decode_chunk\<close>); the stream a peer is owed is
  computed from its request and the disk, and the pump sends exactly that stream, one piece per
  drained queue; a downloader fed with the stream of a file ends up with that file.
\<close>

subsection \<open>The chunk codec\<close>

locale chunk_codec =
  fixes encode :: "'mode \<Rightarrow> 'b list \<Rightarrow> 'm"
    and decode :: "'m \<Rightarrow> 'e + 'b list"
  assumes decode_encode: "decode (encode mode bs) = Inr bs"
begin

definition decode_all :: "'m list \<Rightarrow> 'b list" where
  "decode_all ms = concat (map (\<lambda>m. case decode m of Inl _ \<Rightarrow> [] | Inr bs \<Rightarrow> bs) ms)"

lemma decode_all_encode: "decode_all (map (encode mode) bss) = concat bss"
  by (simp add: decode_all_def decode_encode comp_def)

lemma encode_inj: "encode mode bs = encode mode bs' \<Longrightarrow> bs = bs'"
  using decode_encode by (metis sum.inject(2))

end

text \<open>The receiver's view of a data message: the data field, checked and decoded.\<close>

definition receive_chunk :: "message \<Rightarrow> string + uint8 list" where
  "receive_chunk m = (case find_data m BESHARE_FIELD_DATA of
     None \<Rightarrow> Inl ''no data'' | Some data \<Rightarrow> decode_chunk m data)"

definition mode_of :: "bool \<Rightarrow> int32" where
  "mode_of munged = (if munged then MUNGE_MODE_XOR else MUNGE_MODE_NONE)"

lemma munge_munge [simp]: "munge (munge bs) = bs"
  by (simp add: munge_def comp_def xor.assoc)

lemma length_munge [simp]: "length (munge bs) = length bs"
  by (simp add: munge_def)

lemma encode_fields [simp]:
  "what (encode_chunk mode bs) = TRANSFER_COMMAND_FILE_DATA"
  "find_data (encode_chunk mode bs) ''data'' = Some (if mode = 1 then munge bs else bs)"
  "find_int32 (encode_chunk mode bs) ''chk'' = Some (CalculateChecksum (if mode = 1 then munge bs else bs))"
  "find_int32 (encode_chunk mode bs) ''mm'' = Some mode"
  by (simp_all add: encode_chunk_def Let_def finds)

lemma decode_encode_chunk:
  "mode \<in> {0, 1} \<Longrightarrow> decode_chunk (encode_chunk mode bs) (if mode = 1 then munge bs else bs) = Inr bs"
  by (auto simp: decode_chunk_def Let_def)

interpretation wire: chunk_codec "\<lambda>x. encode_chunk (mode_of x)" receive_chunk
  by unfold_locales (simp add: receive_chunk_def decode_chunk_def mode_of_def)

subsection \<open>The checksum\<close>

lemma checksum_loop_acc: "checksum_loop i acc bs = acc + checksum_loop i 0 bs"
proof (induction bs arbitrary: i acc)
  case (Cons b bs)
  show ?case
    using Cons [of "Suc i" "acc + push_bit (i mod 24) (ucast b)"] Cons [of "Suc i" "push_bit (i mod 24) (ucast b)"]
    by simp
qed simp

lemma checksum_loop_append:
  "checksum_loop i 0 (xs @ ys) = checksum_loop i 0 xs + checksum_loop (i + length xs) 0 ys"
proof (induction xs arbitrary: i)
  case (Cons x xs)
  have "checksum_loop i 0 ((x # xs) @ ys) = push_bit (i mod 24) (ucast x) + checksum_loop (Suc i) 0 (xs @ ys)"
    using checksum_loop_acc [of "Suc i" "push_bit (i mod 24) (ucast x)" "xs @ ys"] by simp
  moreover have "checksum_loop i 0 (x # xs) = push_bit (i mod 24) (ucast x) + checksum_loop (Suc i) 0 xs"
    using checksum_loop_acc [of "Suc i" "push_bit (i mod 24) (ucast x)" xs] by simp
  ultimately show ?case using Cons.IH by (simp add: add.assoc)
qed simp

lemma shifted_byte_inj:
  fixes b b' :: uint8
  assumes "k < 24" "push_bit k (ucast b :: uint32) = push_bit k (ucast b')"
  shows "b = b'"
proof -
  have u: "unat (push_bit k (ucast x :: uint32)) = unat x * 2 ^ k" for x :: uint8
  proof -
    have "unat x < 2 ^ 8" by (rule order.strict_trans2 [OF unsigned_less]) simp
    then have "unat x * 2 ^ k < 2 ^ 8 * 2 ^ k" by simp
    also have "\<dots> \<le> 2 ^ 8 * (2 ^ 24 :: nat)" using assms(1) by (intro mult_left_mono power_increasing) simp_all
    finally have "unat x * 2 ^ k < 2 ^ 32" by simp
    then have "take_bit 32 (push_bit k (unat x)) = push_bit k (unat x)"
      by (simp add: take_bit_nat_eq_self_iff push_bit_eq_mult)
    moreover have "take_bit 32 (unat x) = unat x"
      using \<open>unat x < 2 ^ 8\<close> by (simp add: take_bit_nat_eq_self_iff)
    ultimately show ?thesis
      by (simp add: unsigned_push_bit_eq unsigned_ucast_eq) (simp add: push_bit_eq_mult)
  qed
  have "unat b * 2 ^ k = unat b' * 2 ^ k" using u [of b] u [of b'] assms(2) by simp
  then show ?thesis by (simp add: word_unat_eq_iff)
qed

text \<open>
  The checksum is BeShare's weak one, but it catches every corruption of a single byte of a chunk:
  whatever the position and whatever the wrong value, the sums differ and the chunk is refused.
\<close>

theorem checksum_detects_byte:
  assumes "b \<noteq> b'"
  shows "CalculateChecksum (xs @ b # ys) \<noteq> CalculateChecksum (xs @ b' # ys) \<and>
    (find_int32 m BESHARE_FIELD_CHECKSUM = Some (CalculateChecksum (xs @ b # ys)) \<longrightarrow>
     (\<exists>reason. decode_chunk m (xs @ b' # ys) = Inl reason))"
proof -
  have c: "CalculateChecksum (xs @ x # ys) =
      checksum_loop 0 0 xs + (push_bit (length xs mod 24) (ucast x) + checksum_loop (Suc (length xs)) 0 ys)" for x
    using checksum_loop_append [of 0 xs "x # ys"]
      checksum_loop_acc [of "Suc (length xs)" "push_bit (length xs mod 24) (ucast x)" ys]
    by (simp add: CalculateChecksum_def)
  have "push_bit (length xs mod 24) (ucast b :: uint32) \<noteq> push_bit (length xs mod 24) (ucast b')"
    using shifted_byte_inj [of "length xs mod 24" b b'] assms by auto
  then have ne: "CalculateChecksum (xs @ b # ys) \<noteq> CalculateChecksum (xs @ b' # ys)"
    unfolding c by simp
  then show ?thesis by (auto simp: decode_chunk_def)
qed

theorem checksum_detects_byte_witness:
  "CalculateChecksum [1, 2, 3] \<noteq> CalculateChecksum [1, 7, 3]"
  using checksum_detects_byte [of 2 7 "[1]" "[3]"] by simp

text \<open>
  A chunk survives the wire: for either encoding, the receiver that gets the message the sender
  built accepts it and recovers the bytes that were read from the file.
\<close>

theorem chunk_round_trip:
  "receive_chunk (encode_chunk (mode_of munged) bs) = Inr bs \<and>
   wire.decode_all (map (encode_chunk (mode_of munged)) bss) = concat bss"
  using wire.decode_encode [of munged bs] wire.decode_all_encode [of munged bss] by simp

subsection \<open>The stream a peer is owed\<close>

function chunks :: "nat \<Rightarrow> 'a list \<Rightarrow> 'a list list" where
  "chunks n xs = (if xs = [] \<or> n = 0 then [] else take n xs # chunks n (drop n xs))"
  by pat_completeness auto
termination by (relation "measure (\<lambda>(n, xs). length xs)") auto

declare chunks.simps [simp del]

lemma chunks_Nil [simp]: "chunks n [] = []"
  by (simp add: chunks.simps)

lemma chunks_step: "xs \<noteq> [] \<Longrightarrow> n > 0 \<Longrightarrow> chunks n xs = take n xs # chunks n (drop n xs)"
  by (subst chunks.simps) simp

lemma concat_chunks: "n > 0 \<Longrightarrow> concat (chunks n xs) = xs"
proof (induction n xs rule: chunks.induct)
  case (1 n xs)
  then show ?case by (cases "xs = []") (simp_all add: chunks_step)
qed

definition file_stream :: "up_env \<Rightarrow> string \<Rightarrow> int32 \<Rightarrow> SharedFile \<Rightarrow> message list" where
  "file_stream E localId mode f = (case open_file E (sf_absolutePath f) of
     None \<Rightarrow> []
   | Some content \<Rightarrow> file_header localId f # map (encode_chunk mode) (chunks kUploadChunkSize content))"

definition pending :: "up_env \<Rightarrow> string \<Rightarrow> PeerUpload \<Rightarrow> message list" where
  "pending E localId p =
     (case pu_currentFile p of
        None \<Rightarrow> [] | Some rest \<Rightarrow> map (encode_chunk (pu_mungeMode p)) (chunks kUploadChunkSize rest)) @
     concat (map (file_stream E localId (pu_mungeMode p)) (drop (pu_nextFileIndex p) (pu_requestedFiles p)))"

definition sent_to :: "string \<Rightarrow> upload_server \<Rightarrow> message list" where
  "sent_to k s = map snd (filter (\<lambda>e. fst e = k) (us_sent s))"

lemma chunk_size_pos [simp]: "0 < kUploadChunkSize"
  by (simp add: kUploadChunkSize_def)

lemma pending_next_file:
  assumes "pu_currentFile p = None \<or> pu_currentFile p = Some []"
  shows "pending E l p = (case next_file E p of
      (None, p') \<Rightarrow> pending E l p' | (Some f, p') \<Rightarrow> file_header l f # pending E l p')"
  using assms
proof (induction p rule: next_file_induct [where E = E])
  case (1 p)
  have owed: "pending E l p = concat (map (file_stream E l (pu_mungeMode p)) (drop (pu_nextFileIndex p) (pu_requestedFiles p)))"
    using "1.prems" by (auto simp: pending_def)
  show ?case
  proof (cases "pu_nextFileIndex p < length (pu_requestedFiles p)")
    case True
    then have d: "drop (pu_nextFileIndex p) (pu_requestedFiles p) =
        wanted_file p # drop (Suc (pu_nextFileIndex p)) (pu_requestedFiles p)"
      by (simp add: wanted_file_def Cons_nth_drop_Suc)
    show ?thesis
    proof (cases "open_file E (sf_absolutePath (wanted_file p))")
      case None
      then have "pending E l p = pending E l (skip_file p)"
        unfolding owed d by (simp add: pending_def file_stream_def)
      moreover have "next_file E p = next_file E (skip_file p)"
        using True None by (subst next_file_unfold) simp
      ultimately show ?thesis using "1.IH" [OF True None] by simp
    next
      case (Some c)
      then have "next_file E p = (Some (wanted_file p), opened_file c p)"
        using True by (subst next_file_unfold) simp
      then show ?thesis unfolding owed d using Some by (simp add: pending_def file_stream_def)
    qed
  next
    case False
    then have "next_file E p = (None, CloseCurrentFile p)" by (subst next_file_unfold) simp
    then show ?thesis unfolding owed using False by (simp add: pending_def)
  qed
qed

lemma pending_chunk:
  assumes "pu_currentFile p = Some rest" "rest \<noteq> []"
  shows "pending E l p = encode_chunk (pu_mungeMode p) (take kUploadChunkSize rest) #
    pending E l (p\<lparr>pu_currentFile := Some (drop kUploadChunkSize rest), pu_bytesSent := n\<rparr>)"
  using assms by (simp add: pending_def chunks_step)

lemma sent_to_simps:
  "sent_to k (put_peer sid p s) = sent_to k s" "sent_to k (up_emit ev s) = sent_to k s"
  "sent_to k (SendToPeer sid m s) = sent_to k s @ (if sid = k then [m] else [])"
  "sent_to k (send_chunk sid p rest s) = sent_to k s @
     (if sid = k then [encode_chunk (pu_mungeMode p) (take kUploadChunkSize rest)] else [])"
  by (simp_all add: sent_to_def)

text \<open>Sent so far, followed by what is still owed, is the same list \<open>T\<close> at all times.\<close>

definition stream_inv :: "(string \<Rightarrow> message list) \<Rightarrow> up_env \<Rightarrow> string \<Rightarrow> upload_server \<Rightarrow> bool" where
  "stream_inv T E l s \<longleftrightarrow> us_localSessionId s = l \<and>
     (\<forall>k p. map_of (us_peers s) k = Some p \<longrightarrow>
        (pu_isQueued p \<longrightarrow> pu_currentFile p = None) \<and> sent_to k s @ pending E l p = T k)"

lemma stream_begin:
  assumes "stream_inv T E l s" "map_of (us_peers s) sid = Some p"
    "pu_currentFile p' = None \<or> pu_currentFile p' = Some []" "\<not> pu_isQueued p'" "pending E l p' = pending E l p"
  shows "stream_inv T E l (snd (BeginNextFile E sid (put_peer sid p' s)))"
proof -
  obtain r q where n: "next_file E p' = (r, q)" by fastforce
  have q: "\<not> pu_isQueued q" using next_file_frame [of E p'] n assms(4) by simp
  have look: "map_of (us_peers (put_peer sid p' s)) sid = Some p'" by simp
  have lid: "us_localSessionId s = l" using assms(1) by (simp add: stream_inv_def)
  show ?thesis
  proof (cases r)
    case None
    then have "pending E l q = pending E l p" using pending_next_file [OF assms(3), of E l] n assms(5) by simp
    moreover have "snd (BeginNextFile E sid (put_peer sid p' s)) = put_peer sid q (put_peer sid p' s)"
      using look n None by (simp add: BeginNextFile_def)
    ultimately show ?thesis using assms(1,2) q by (auto simp: stream_inv_def sent_to_simps)
  next
    case (Some f)
    then have "file_header l f # pending E l q = pending E l p"
      using pending_next_file [OF assms(3), of E l] n assms(5) by simp
    moreover have "snd (BeginNextFile E sid (put_peer sid p' s)) = up_emit UploadsChanged
        (SendToPeer sid (file_header l f) (put_peer sid q (put_peer sid p' s)))"
      using look n Some lid by (simp add: BeginNextFile_def)
    ultimately show ?thesis using assms(1,2) q by (auto simp: stream_inv_def sent_to_simps)
  qed
qed

lemma put_same: "map_of (us_peers s) sid = Some p \<Longrightarrow> put_peer sid p s = s"
proof -
  have "map_of ps sid = Some p \<Longrightarrow> ht_put sid p ps = ps" for ps
    by (induction ps) (auto split: if_splits)
  then show "map_of (us_peers s) sid = Some p \<Longrightarrow> put_peer sid p s = s" by (simp add: put_peer_def)
qed

interpretation stream: pump_invariant "stream_inv T E l" E for T E l
proof
  fix s sid p
  assume a: "stream_inv T E l s" "map_of (us_peers s) sid = Some p"
  have q: "pu_isQueued p \<longrightarrow> pu_currentFile p = None" using a by (simp add: stream_inv_def)
  show "pu_currentFile p = Some [] \<Longrightarrow> stream_inv T E l (snd (BeginNextFile E sid s))"
    using stream_begin [OF a, of p] q put_same [OF a(2)] by auto
  show "pu_isQueued p \<Longrightarrow> stream_inv T E l (snd (BeginNextFile E sid (put_peer sid (p\<lparr>pu_isQueued := False\<rparr>) s)))"
    by (rule stream_begin [OF a]) (use q in \<open>simp_all add: pending_def\<close>)
  fix rest
  assume c: "pu_currentFile p = Some rest" "rest \<noteq> []"
  have t: "sent_to sid s @ pending E l p = T sid" using a by (simp add: stream_inv_def)
  show "stream_inv T E l (send_chunk sid p rest s)"
    using a q c t [unfolded pending_chunk [OF c, of E l "pu_bytesSent p + of_nat (length (take kUploadChunkSize rest))"]]
    by (auto simp: stream_inv_def sent_to_simps)
qed (simp add: stream_inv_def sent_to_simps)

subsection \<open>Every drained queue moves the stream on\<close>

interpretation grows: pump_invariant "\<lambda>s :: upload_server. prefix base (us_sent s) \<and> ids \<subseteq> dom (map_of (us_peers s))" E for base ids E
proof
  fix s :: upload_server and sid p
  assume a: "prefix base (us_sent s) \<and> ids \<subseteq> dom (map_of (us_peers s))" "map_of (us_peers s) sid = Some p"
  have g: "prefix base (us_sent t) \<and> ids \<subseteq> dom (map_of (us_peers t)) \<Longrightarrow>
      prefix base (us_sent (snd (BeginNextFile E sid t))) \<and>
      ids \<subseteq> dom (map_of (us_peers (snd (BeginNextFile E sid t))))" for t :: upload_server
    by (auto simp: BeginNextFile_def prefix_def split: option.split prod.split)
  show "prefix base (us_sent (snd (BeginNextFile E sid s))) \<and>
      ids \<subseteq> dom (map_of (us_peers (snd (BeginNextFile E sid s))))" by (rule g [OF a(1)])
  show "prefix base (us_sent (snd (BeginNextFile E sid (put_peer sid (p\<lparr>pu_isQueued := False\<rparr>) s)))) \<and>
      ids \<subseteq> dom (map_of (us_peers (snd (BeginNextFile E sid (put_peer sid (p\<lparr>pu_isQueued := False\<rparr>) s)))))"
    by (rule g) (use a in auto)
  fix rest
  show "prefix base (us_sent (send_chunk sid p rest s)) \<and> ids \<subseteq> dom (map_of (us_peers (send_chunk sid p rest s)))"
    using a by (auto simp: prefix_def)
qed simp

lemma sent_to_prefix: "prefix (us_sent s) (us_sent s') \<Longrightarrow> prefix (sent_to k s) (sent_to k s')"
  by (auto simp: prefix_def sent_to_def)

lemma pump_sent: "prefix (sent_to k s) (sent_to k (SendNextChunk E sid s))"
  using grows.pump(1) [of "us_sent s" s "{}" E sid] sent_to_prefix by blast

lemma stream_drained:
  "stream_inv T E l s \<Longrightarrow> map_of (us_peers s) sid = Some p \<Longrightarrow> \<not> pu_isQueued p \<Longrightarrow>
   stream_inv T E l (OutputQueuesDrained E (Some sid) s)"
proof -
  assume a: "stream_inv T E l s" "map_of (us_peers s) sid = Some p" "\<not> pu_isQueued p"
  have b: "pu_currentFile p = None \<Longrightarrow> stream_inv T E l (snd (BeginNextFile E sid s))"
    using stream_begin [OF a(1,2), of p] a(3) put_same [OF a(2)] by auto
  show ?thesis
  proof (cases "pu_currentFile p")
    case None
    obtain ok s1 where "BeginNextFile E sid s = (ok, s1)" by fastforce
    then show ?thesis using b None a(2) by (simp add: OutputQueuesDrained_def stream.pump)
  next
    case (Some rest)
    then show ?thesis using a by (simp add: OutputQueuesDrained_def stream.pump)
  qed
qed

text \<open>While something is owed, a drained queue sends at least one more message of it.\<close>

lemma drained_progress:
  assumes "map_of (us_peers s) sid = Some p" "pending E l p \<noteq> []" "us_localSessionId s = l"
  shows "length (sent_to sid s) < length (sent_to sid (OutputQueuesDrained E (Some sid) s))"
proof -
  have opened: "length (sent_to sid s) < length (sent_to sid (snd (BeginNextFile E sid s)))" "fst (BeginNextFile E sid s)"
    if "pu_currentFile p = None \<or> pu_currentFile p = Some []"
  proof -
    obtain r q where n: "next_file E p = (r, q)" by fastforce
    have "r \<noteq> None"
    proof
      assume none: "r = None"
      then have "pending E l p = pending E l q" using pending_next_file [OF that, of E l] n by simp
      moreover have "pending E l q = []"
      proof -
        have "next_file E p = (None, q) \<Longrightarrow> pu_currentFile q = None \<and> pu_nextFileIndex q \<ge> length (pu_requestedFiles q)"
        proof (induction p rule: next_file_induct [where E = E])
          case (1 p)
          show ?case
          proof (cases "pu_nextFileIndex p < length (pu_requestedFiles p) \<and> open_file E (sf_absolutePath (wanted_file p)) = None")
            case True
            then have "next_file E p = next_file E (skip_file p)" by (subst next_file_unfold) simp
            then show ?thesis using 1 True by simp
          next
            case False
            then have "\<not> pu_nextFileIndex p < length (pu_requestedFiles p)" "q = CloseCurrentFile p"
              using "1.prems" by (subst (asm) next_file_unfold, auto split: if_splits option.splits)+
            then show ?thesis by simp
          qed
        qed
        then show ?thesis using n none by (simp add: pending_def)
      qed
      ultimately show False using assms(2) by simp
    qed
    then obtain f where "r = Some f" by auto
    then show "length (sent_to sid s) < length (sent_to sid (snd (BeginNextFile E sid s)))" "fst (BeginNextFile E sid s)"
      using assms(1) n by (simp_all add: BeginNextFile_def sent_to_simps)
  qed
  obtain ok s1 where b: "BeginNextFile E sid s = (ok, s1)" by fastforce
  have mono: "length (sent_to sid t) \<le> length (sent_to sid (SendNextChunk E sid t))" for t
    using pump_sent [of sid t E sid] by (rule prefix_length_le)
  show ?thesis
  proof (cases "pu_currentFile p")
    case None
    then show ?thesis using opened b assms(1) mono [of s1] by (simp add: OutputQueuesDrained_def)
  next
    case (Some rest)
    show ?thesis
    proof (cases "rest = []")
      case True
      then have "SendNextChunk E sid s = SendNextChunk E sid s1"
        using opened b assms(1) Some by (subst SendNextChunk.simps) simp
      then show ?thesis using opened b assms(1) Some True mono [of s1] by (simp add: OutputQueuesDrained_def)
    next
      case False
      then have "SendNextChunk E sid s = send_chunk sid p rest s"
        using assms(1) Some by (subst SendNextChunk.simps) simp
      then show ?thesis using assms(1) Some by (simp add: OutputQueuesDrained_def sent_to_simps)
    qed
  qed
qed

text \<open>A peer that is being served is not put on hold by the pump.\<close>

interpretation serving: pump_invariant
  "\<lambda>s :: upload_server. \<exists>p. map_of (us_peers s) sid0 = Some p \<and> \<not> pu_isQueued p" E for sid0 E
proof
  fix s :: upload_server and sid p
  assume a: "\<exists>p. map_of (us_peers s) sid0 = Some p \<and> \<not> pu_isQueued p" "map_of (us_peers s) sid = Some p"
  have g: "\<exists>p. map_of (us_peers t) sid0 = Some p \<and> \<not> pu_isQueued p \<Longrightarrow>
      \<exists>p. map_of (us_peers (snd (BeginNextFile E sid t))) sid0 = Some p \<and> \<not> pu_isQueued p" for t :: upload_server
    by (auto simp: BeginNextFile_fields next_file_frame split: option.split)
  show "\<exists>p. map_of (us_peers (snd (BeginNextFile E sid s))) sid0 = Some p \<and> \<not> pu_isQueued p" by (rule g [OF a(1)])
  show "\<exists>q. map_of (us_peers (snd (BeginNextFile E sid (put_peer sid (p\<lparr>pu_isQueued := False\<rparr>) s)))) sid0 = Some q \<and>
      \<not> pu_isQueued q" by (rule g) (use a in auto)
  fix rest
  show "\<exists>q. map_of (us_peers (send_chunk sid p rest s)) sid0 = Some q \<and> \<not> pu_isQueued q"
    using a by auto
qed simp

lemma serving_drained:
  assumes "\<exists>p. map_of (us_peers s) sid0 = Some p \<and> \<not> pu_isQueued p"
  shows "\<exists>p. map_of (us_peers (OutputQueuesDrained E n s)) sid0 = Some p \<and> \<not> pu_isQueued p"
  by (rule serving.drained [OF assms])
    (use assms in \<open>auto simp: BeginNextFile_fields next_file_frame split: option.split\<close>)

lemma drained_steps:
  assumes "stream_inv T E l s" "map_of (us_peers s) sid = Some p" "\<not> pu_isQueued p"
  shows "let s' = ((\<lambda>s. OutputQueuesDrained E (Some sid) s) ^^ n) s
    in stream_inv T E l s' \<and> (\<exists>p. map_of (us_peers s') sid = Some p \<and> \<not> pu_isQueued p) \<and>
       min (length (T sid)) (length (sent_to sid s) + n) \<le> length (sent_to sid s')"
proof (induction n)
  case 0
  then show ?case using assms by simp
next
  case (Suc n)
  let ?s = "((\<lambda>s. OutputQueuesDrained E (Some sid) s) ^^ n) s"
  let ?s' = "OutputQueuesDrained E (Some sid) ?s"
  obtain q where q: "stream_inv T E l ?s" "map_of (us_peers ?s) sid = Some q" "\<not> pu_isQueued q"
    "min (length (T sid)) (length (sent_to sid s) + n) \<le> length (sent_to sid ?s)"
    using Suc by (auto simp: Let_def)
  have inv: "stream_inv T E l ?s'" by (rule stream_drained [OF q(1-3)])
  have up: "\<exists>p. map_of (us_peers ?s') sid = Some p \<and> \<not> pu_isQueued p"
    by (rule serving_drained) (use q in blast)
  have T: "sent_to sid ?s @ pending E l q = T sid" "us_localSessionId ?s = l"
    using q(1,2) by (simp_all add: stream_inv_def)
  have "min (length (T sid)) (length (sent_to sid s) + Suc n) \<le> length (sent_to sid ?s')"
  proof (cases "pending E l q = []")
    case True
    then have "sent_to sid ?s = T sid" using T by simp
    moreover obtain q' where "map_of (us_peers ?s') sid = Some q'" using up by blast
    then have "sent_to sid ?s' @ pending E l q' = T sid" using inv by (simp add: stream_inv_def)
    moreover have "prefix (us_sent ?s) (us_sent ?s')"
      using grows.drained [of "us_sent ?s" ?s "{}" E "Some sid"]
      by (auto simp: BeginNextFile_def prefix_def split: option.split prod.split)
    then have "prefix (sent_to sid ?s) (sent_to sid ?s')" by (rule sent_to_prefix)
    ultimately show ?thesis by (metis min.coboundedI1 prefix_length_le)
  next
    case False
    then show ?thesis using drained_progress [OF q(2) False T(2)] q(4) by simp
  qed
  then show ?case using inv up by (simp add: Let_def)
qed

subsection \<open>A request is served in full\<close>

definition quiet :: "upload_server \<Rightarrow> bool" where
  "quiet s \<longleftrightarrow> list_all (\<lambda>(k, q). pu_isQueued q \<longrightarrow> pu_currentFile q = None) (us_peers s)"

lemma quietD: "quiet s \<Longrightarrow> map_of (us_peers s) k = Some q \<Longrightarrow> pu_isQueued q \<Longrightarrow> pu_currentFile q = None"
  by (auto simp: quiet_def list_all_iff dest: map_of_SomeD)

text \<open>The requested files of a message, and the stream they make.\<close>

definition requested_stream :: "up_env \<Rightarrow> upload_server \<Rightarrow> PeerUpload \<Rightarrow> message \<Rightarrow> message list" where
  "requested_stream E s p m = concat (map (file_stream E (us_localSessionId s)
     (if find_int32 m BESHARE_FIELD_MUNGE_MODE = Some MUNGE_MODE_XOR then MUNGE_MODE_XOR else pu_mungeMode p))
     (resolve_names (us_sharedFiles s) (all_strings m BESHARE_FIELD_FILE_LIST_NAMES)))"

lemma drained_all:
  assumes "stream_inv T E l s" "map_of (us_peers s) sid = Some p" "\<not> pu_isQueued p" "length (T sid) \<le> n"
  shows "sent_to sid (((\<lambda>s. OutputQueuesDrained E (Some sid) s) ^^ n) s) = T sid"
proof -
  let ?s = "((\<lambda>s. OutputQueuesDrained E (Some sid) s) ^^ n) s"
  obtain q where q: "stream_inv T E l ?s" "map_of (us_peers ?s) sid = Some q"
    "min (length (T sid)) (length (sent_to sid s) + n) \<le> length (sent_to sid ?s)"
    using drained_steps [OF assms(1-3), of n] by (auto simp: Let_def)
  have "sent_to sid ?s @ pending E l q = T sid" using q(1,2) by (simp add: stream_inv_def)
  then show ?thesis using q(3) assms(4) by (metis append_eq_conv_conj le_antisym length_append min.absorb1
      le_add1 take_all trans_le_add2)
qed

lemma request_served_stream:
  assumes "map_of (us_peers s) sid = Some p" "pu_currentFile p = None" "quiet s"
    "CountActiveUploads s + 1 < unat (us_maxSimultaneousUploads s)"
    "length (sent_to sid s @ requested_stream E s p m) \<le> n"
  shows "sent_to sid (((\<lambda>s. OutputQueuesDrained E (Some sid) s) ^^ n) (HandleFileList L E sid m s)) =
    sent_to sid s @ requested_stream E s p m"
proof -
  let ?l = "us_localSessionId s"
  obtain p1 s1 where h: "pu_requestedFiles p1 = resolve_names (us_sharedFiles s) (all_strings m BESHARE_FIELD_FILE_LIST_NAMES)"
    "pu_nextFileIndex p1 = 0" "pu_currentFile p1 = pu_currentFile p"
    "pu_mungeMode p1 = (if find_int32 m BESHARE_FIELD_MUNGE_MODE = Some MUNGE_MODE_XOR then MUNGE_MODE_XOR else pu_mungeMode p)"
    "us_peers s1 = ht_put sid p1 (us_peers s)" "us_maxSimultaneousUploads s1 = us_maxSimultaneousUploads s"
    "us_sent s1 = us_sent s" "us_localSessionId s1 = ?l"
    "\<And>E. HandleFileList L E sid m s =
       (if CountActiveUploads s1 \<ge> unat (us_maxSimultaneousUploads s1)
        then up_emit UploadsChanged (SendToPeer sid (new_message TRANSFER_COMMAND_NOTIFY_QUEUED)
               (put_peer sid (p1\<lparr>pu_isQueued := True\<rparr>) s1))
        else (case BeginNextFile E sid (put_peer sid (p1\<lparr>pu_isQueued := False\<rparr>) s1) of (ok, s2) \<Rightarrow>
                if ok then SendNextChunk E sid s2 else s2))"
    by (rule HandleFileList_parts [OF assms(1), where m = m and L = L]) (rule that, assumption+)
  define p2 where "p2 = p1\<lparr>pu_isQueued := False\<rparr>"
  define s2 where "s2 = put_peer sid p2 s1"
  have "CountActiveUploads s1 + active p = CountActiveUploads s + active p1"
    using Count_put [OF assms(1), of p1] Count_same [of s1 "put_peer sid p1 s"] h(5) by simp
  then have "CountActiveUploads s1 < unat (us_maxSimultaneousUploads s1)"
    unfolding h(6) using active_le [of p1] assms(4) by linarith
  then have served: "HandleFileList L E sid m s =
      (case BeginNextFile E sid s2 of (ok, t) \<Rightarrow> if ok then SendNextChunk E sid t else t)"
    using h(9) by (simp add: s2_def p2_def)
  define T where "T k = sent_to k s @ (if k = sid then requested_stream E s p m else
      case map_of (us_peers s) k of None \<Rightarrow> [] | Some q \<Rightarrow> pending E ?l q)" for k
  have p2: "map_of (us_peers s2) sid = Some p2" "pu_currentFile p2 = None" "\<not> pu_isQueued p2"
    using h(3) assms(2) by (simp_all add: s2_def p2_def)
  have "pending E ?l p2 = requested_stream E s p m"
    using h(1-4) assms(2) by (simp add: p2_def pending_def requested_stream_def)
  then have inv: "stream_inv T E ?l s2"
    using h(5,7,8) assms(2,3) by (auto simp: stream_inv_def s2_def p2_def T_def sent_to_def dest: quietD)
  have begun: "stream_inv T E ?l (snd (BeginNextFile E sid s2))"
    using stream_begin [OF inv p2(1), of p2] p2 put_same [OF p2(1)] by simp
  have up: "\<exists>q. map_of (us_peers (snd (BeginNextFile E sid s2))) sid = Some q \<and> \<not> pu_isQueued q"
    using p2 by (auto simp: BeginNextFile_fields next_file_frame split: option.split)
  have "stream_inv T E ?l (HandleFileList L E sid m s) \<and>
      (\<exists>q. map_of (us_peers (HandleFileList L E sid m s)) sid = Some q \<and> \<not> pu_isQueued q)"
    unfolding served using begun up stream.pump(1) [OF begun] serving.pump(1) [OF up]
    by (auto split: prod.split)
  then obtain q where "stream_inv T E ?l (HandleFileList L E sid m s)"
    "map_of (us_peers (HandleFileList L E sid m s)) sid = Some q" "\<not> pu_isQueued q" by blast
  from drained_all [OF this, of n] show ?thesis using assms(5) by (simp add: T_def)
qed

subsection \<open>The receiving end\<close>

lemma prune_samples_room [simp]: "w_room (snd (prune_samples ss w)) = w_room w"
proof (induction ss w rule: prune_samples.induct)
  case (2 x xs w)
  then show ?case by (simp add: read_now_def)
qed simp

lemma count_bytes_room [simp]: "w_room (dl_world (count_bytes data d)) = w_room (dl_world d)"
proof -
  obtain t w2 where t: "read_now (dl_world d) = (t, w2)" by fastforce
  obtain ss w3 where p: "prune_samples (dl_samples d @ [(t, of_nat (length data))]) w2 = (ss, w3)" by fastforce
  have "w_room w3 = w_room w2"
    using prune_samples_room [of "dl_samples d @ [(t, of_nat (length data))]" w2] p by simp
  then show ?thesis using t p by (auto simp: count_bytes_def dl_emit_def Let_def read_now_def)
qed

text \<open>A download in the middle of a file: what it has and what it still expects.\<close>

definition receiving :: "string \<Rightarrow> uint8 list \<Rightarrow> uint8 list \<Rightarrow> download \<Rightarrow> bool" where
  "receiving p got rest d \<longleftrightarrow> dl_outputFile d = Some p \<and> dl_outputPath d = p \<and>
     w_files (dl_world d) p = Some got \<and> dl_currentFileBytesDone d = of_nat (length got) \<and>
     dl_currentFileSize d = of_nat (length (got @ rest)) \<and> length (got @ rest) < 2 ^ 63 \<and>
     length rest \<le> w_room (dl_world d) \<and> dl_listener d"

definition stored :: "string \<Rightarrow> uint8 list \<Rightarrow> uint32 \<Rightarrow> download \<Rightarrow> bool" where
  "stored p content count d \<longleftrightarrow> dl_outputFile d = None \<and> w_files (dl_world d) p = Some content \<and>
     dl_events d \<noteq> [] \<and> last (dl_events d) = DlFileCompleted p \<and> dl_completedFileCount d = count"

lemma chunk_received:
  assumes "receiving p got (bs @ rest) d" "bs \<noteq> []"
  shows "let d' = DlMessageReceived L (encode_chunk (mode_of b) bs) d
    in (if rest = [] then stored p (got @ bs) (dl_completedFileCount d + 1) d'
        else receiving p (got @ bs) rest d' \<and> dl_completedFileCount d' = dl_completedFileCount d) \<and>
       dl_state d' = dl_state d"
proof -
  define m where "m = encode_chunk (mode_of b) bs"
  define data where "data = (if mode_of b = 1 then munge bs else bs)"
  note r = assms(1) [unfolded receiving_def]
  have len: "length data = length bs" by (simp add: data_def)
  have data: "find_data m BESHARE_FIELD_DATA = Some data" by (simp add: m_def data_def)
  have dec: "decode_chunk m data = Inr bs"
    unfolding m_def data_def by (rule decode_encode_chunk) (simp add: mode_of_def)
  define w1 where "w1 = snd (write_file p bs (dl_world d))"
  have w: "write_file p bs (dl_world d) = (length bs, w1)"
    using r by (simp add: w1_def write_file_def Let_def)
  have w1: "w_files w1 p = Some (got @ bs)" "w_room w1 = w_room (dl_world d) - length bs"
    using r by (simp_all add: w1_def write_file_def Let_def)
  define d3 where "d3 = count_bytes data (d\<lparr>dl_world := w1\<rparr>)"
  have d3: "DlMessageReceived L m d =
      (if sint (dl_currentFileSize d3) \<ge> 0 \<and> sint (dl_currentFileBytesDone d3) \<ge> sint (dl_currentFileSize d3)
       then FinishCurrentFile d3 else d3)"
    using HandleFileData_decoded [of d p m data bs, OF _ data dec w] r len
    by (simp add: DlMessageReceived_def m_def d3_def Let_def)
  have size: "sint (dl_currentFileSize d3) = int (length (got @ bs @ rest))"
    using r by (simp add: d3_def sint_of_nat64 del: of_nat_add)
  have "dl_currentFileBytesDone d3 = of_nat (length (got @ bs))"
    using r len by (simp add: d3_def)
  then have cur: "sint (dl_currentFileBytesDone d3) = int (length (got @ bs))"
    using r by (simp add: sint_of_nat64 del: of_nat_add)
  have fields: "dl_outputFile d3 = Some p" "dl_outputPath d3 = p" "w_files (dl_world d3) p = Some (got @ bs)"
    "dl_listener d3" "dl_completedFileCount d3 = dl_completedFileCount d"
    "w_room (dl_world d3) = w_room (dl_world d) - length bs" "dl_state d3 = dl_state d"
    using r w1 by (simp_all add: d3_def)
  show ?thesis
  proof (cases "rest = []")
    case True
    then have "DlMessageReceived L m d = FinishCurrentFile d3" unfolding d3 using size cur by simp
    then show ?thesis using True size cur fields
      by (simp add: m_def stored_def FinishCurrentFile_def Let_def dl_emit_def)
  next
    case False
    then have "DlMessageReceived L m d = d3" unfolding d3 using size cur by simp
    moreover have "length rest \<le> w_room (dl_world d) - length bs" using r by auto
    ultimately show ?thesis using False r fields len
      by (simp add: m_def receiving_def) (simp add: d3_def)
  qed
qed

lemma chunks_received:
  assumes "receiving p got rest d" "rest \<noteq> []" "n > 0"
  shows "stored p (got @ rest) (dl_completedFileCount d + 1)
    (fold (DlMessageReceived L) (map (encode_chunk (mode_of b)) (chunks n rest)) d)"
  using assms
proof (induction n rest arbitrary: got d rule: chunks.induct)
  case (1 n rest)
  let ?c = "take n rest" and ?r = "drop n rest"
  let ?d = "DlMessageReceived L (encode_chunk (mode_of b) ?c) d"
  have step: "if ?r = [] then stored p (got @ ?c) (dl_completedFileCount d + 1) ?d
      else receiving p (got @ ?c) ?r ?d \<and> dl_completedFileCount ?d = dl_completedFileCount d"
    using conjunct1 [OF chunk_received [of p got ?c ?r d L b, unfolded Let_def]] "1.prems" by simp
  have unf: "chunks n rest = ?c # chunks n ?r" using "1.prems" by (intro chunks_step) auto
  show ?case
  proof (cases "?r = []")
    case True
    then show ?thesis unfolding unf using step by simp
  next
    case False
    then have "stored p ((got @ ?c) @ ?r) (dl_completedFileCount ?d + 1)
        (fold (DlMessageReceived L) (map (encode_chunk (mode_of b)) (chunks n ?r)) ?d)"
      using "1.IH" [of "got @ ?c" ?d] "1.prems" step by simp
    then show ?thesis unfolding unf using step False by simp
  qed
qed

text \<open>
  C10. A request that finds a free slot is served in full and in order: after the request and enough
  drained queues, the peer has been sent, after whatever it had before, exactly the stream of the
  files it named that we share, in the order it named them, and nothing else.
\<close>

theorem request_served:
  assumes "map_of (us_peers s) sid = Some p" "pu_currentFile p = None" "quiet s"
    "CountActiveUploads s + 1 < unat (us_maxSimultaneousUploads s)"
    "length (sent_to sid s @ requested_stream E s p m) \<le> n"
  shows "sent_to sid (((\<lambda>s. OutputQueuesDrained E (Some sid) s) ^^ n) (HandleFileList L E sid m s)) =
    sent_to sid s @ requested_stream E s p m"
  by (rule request_served_stream [OF assms])

lemma demo_stream:
  "chunks kUploadChunkSize [1, 2, 3 :: uint8] = [[1, 2, 3]]"
  "open_file demo_up_env (sf_absolutePath demo_shared) = Some [1, 2, 3]"
  "resolve_names [(''a'', demo_shared)] [''a''] = [demo_shared]"
  by (simp_all add: chunks_step kUploadChunkSize_def demo_up_env_def demo_shared_def resolve_names_def List.map_filter_def)

lemma demo_server_ready:
  "map_of (us_peers (demo_server 4)) ''1'' = Some new_peer" "quiet (demo_server 4)" "sent_to k (demo_server 4) = []"
  "CountActiveUploads (demo_server 4) + 1 < unat (us_maxSimultaneousUploads (demo_server 4))"
  "us_localSessionId (demo_server n) = []"
  by (simp_all add: quiet_def sent_to_def) (simp add: demo_server_def new_server_def)

theorem request_served_witness:
  "sent_to ''1'' (((\<lambda>s. OutputQueuesDrained demo_up_env (Some ''1'') s) ^^ 3)
     (HandleFileList ref_muscle demo_up_env ''1'' demo_request (demo_server 4))) =
   [file_header [] demo_shared, encode_chunk 0 [1, 2, 3]]"
proof -
  have "find_int32 demo_request ''mm'' = None" by (simp add: demo_request_def finds)
  then have r: "requested_stream demo_up_env (demo_server 4) new_peer demo_request =
      [file_header [] demo_shared, encode_chunk 0 [1, 2, 3]]"
    by (simp add: requested_stream_def demo_request_names demo_stream demo_server_ready file_stream_def) (simp add: new_peer_def)
  show ?thesis
    using request_served [OF demo_server_ready(1) _ demo_server_ready(2,4), where m = demo_request and n = 3
        and E = demo_up_env and L = ref_muscle]
    unfolding r demo_server_ready(3) by (simp del: funpow.simps)
qed

subsection \<open>From the request to the file on disk\<close>

lemma request_field:
  "n \<notin> {BESHARE_FIELD_FILE_LIST_NAMES, BESHARE_FIELD_FILE_LIST_OFFSETS, BESHARE_FIELD_PATH, BESHARE_FIELD_FILE_LIST_MD5} \<Longrightarrow>
   find_field (fold add_request rs m) n = find_field m n"
  by (induction rs arbitrary: m) (simp_all add: add_request_def Let_def)

lemma request_names:
  "find_field m BESHARE_FIELD_FILE_LIST_NAMES = (if xs = [] then None else Some (FString xs)) \<Longrightarrow>
   all_strings (fold add_request rs m) BESHARE_FIELD_FILE_LIST_NAMES = xs @ map rq_fileName rs"
proof (induction rs arbitrary: m xs)
  case (Cons r rs)
  have "find_field (add_request r m) BESHARE_FIELD_FILE_LIST_NAMES = Some (FString (xs @ [rq_fileName r]))"
    using Cons.prems by (simp add: add_request_def Let_def)
  then show ?case using Cons.IH [of "add_request r m" "xs @ [rq_fileName r]"] by simp
qed (simp add: all_strings_def)

lemma file_list_fields [simp]:
  "what (file_list_message d) = TRANSFER_COMMAND_FILE_LIST"
  "all_strings (file_list_message d) ''files'' = map rq_fileName (dl_requestedFiles d)"
  "find_int32 (file_list_message d) ''mm'' = Some 1"
proof -
  have "what (fold add_request rs m) = what m" for rs m
    by (induction rs arbitrary: m) (simp_all add: add_request_def Let_def)
  then show "what (file_list_message d) = TRANSFER_COMMAND_FILE_LIST" by (simp add: file_list_message_def Let_def)
  show "all_strings (file_list_message d) ''files'' = map rq_fileName (dl_requestedFiles d)"
    unfolding file_list_message_def Let_def by (subst request_names [where xs = "[]"]) simp_all
  show "find_int32 (file_list_message d) ''mm'' = Some 1"
    unfolding file_list_message_def Let_def find_int32_def find_field_def [symmetric]
    by (simp add: request_field finds)
qed

lemma OpenOutputFile_room [simp]: "w_room (dl_world (snd (OpenOutputFile L n rp d))) = w_room (dl_world d)"
proof -
  have "w_room (snd (mkdir q w)) = w_room w" for q w by (simp add: mkdir_def)
  then have "w_room w' = w_room w" if "mkdir q w = (b, w')" for q w b w' using that by (metis snd_conv)
  then have "w_room (snd (make_components cs q w)) = w_room w" for cs q w
    by (induction cs arbitrary: q w) (auto split: prod.split)
  then have "w_room (snd (CreateDirectoryTree L q w)) = w_room w" for q w
    by (simp add: CreateDirectoryTree_def)
  then show ?thesis
    by (auto simp: OpenOutputFile_def Let_def open_for_writing_def split: prod.split option.split) (metis snd_conv)+
qed

lemma header_opens:
  assumes "trim_law L" "format_law L" "dl_outputFile d = None" "dl_listener d"
    "dl_outputFile (DlMessageReceived L (file_header l f) d) = Some p"
    "sf_fileSize f = of_nat (length c)" "length c < 2 ^ 63" "length c \<le> w_room (dl_world d)"
  shows "receiving p [] c (DlMessageReceived L (file_header l f) d) \<and>
    dl_completedFileCount (DlMessageReceived L (file_header l f) d) = dl_completedFileCount d \<and>
    dl_state (DlMessageReceived L (file_header l f) d) = DOWNLOAD_TRANSFERRING"
proof -
  let ?m = "file_header l f"
  have f: "what ?m = TRANSFER_COMMAND_FILE_HEADER" "find_string ?m BESHARE_FIELD_FILE_NAME = Some (sf_fileName f)"
    "find_int64 ?m BESHARE_FIELD_FILE_SIZE = Some (of_nat (length c))"
    using assms(6) by (simp_all add: file_header_def Let_def finds)
  define d2 where "d2 = d\<lparr>dl_remoteSessionId := found_or (dl_remoteSessionId d)
      (find_string ?m BESHARE_FIELD_FROM_SESSION), dl_currentFileName := sf_fileName f,
      dl_currentFileSize := of_nat (length c), dl_currentFileBytesDone := 0\<rparr>"
  obtain ok d3 where o: "OpenOutputFile L (sf_fileName f) (found_or [] (find_string ?m BESHARE_FIELD_PATH)) d2 = (ok, d3)"
    by fastforce
  have h: "DlMessageReceived L ?m d =
      (if \<not> ok then Abort (''Could not create a file for '' @ sf_fileName f) d3 else SetState DOWNLOAD_TRANSFERRING d3)"
    unfolding DlMessageReceived_def HandleFileHeader_def Let_def using f o assms(3)
    by (simp add: d2_def FinishCurrentFile_def)
  have room: "w_room (dl_world d3) = w_room (dl_world d)"
    using OpenOutputFile_room [of L "sf_fileName f" "found_or [] (find_string ?m BESHARE_FIELD_PATH)" d2]
    unfolding o by (simp add: d2_def)
  have none: "dl_outputFile d2 = None" using assms(3) by (simp add: d2_def)
  have cases: "(ok \<and> (\<exists>q w. w_files w q = Some [] \<and> d3 = d2\<lparr>dl_world := w, dl_outputFile := Some q, dl_outputPath := q\<rparr>)) \<or>
      (\<not> ok \<and> dl_outputFile d3 = None)"
    using OpenOutputFile_cases [OF assms(1,2), of d2 "sf_fileName f" "found_or [] (find_string ?m BESHARE_FIELD_PATH)"]
    unfolding o
  proof (elim disjE exE conjE)
    fix w assume "(ok, d3) = (False, d2\<lparr>dl_world := w\<rparr>)"
    then show ?thesis using none by simp
  next
    fix q w assume "w_files w = (w_files (dl_world d2))(q \<mapsto> [])"
      "(ok, d3) = (True, d2\<lparr>dl_world := w, dl_outputFile := Some q, dl_outputPath := q\<rparr>)"
    then show ?thesis by (intro disjI1 conjI exI [of _ q] exI [of _ w]) simp_all
  qed
  have "ok"
  proof (rule ccontr)
    assume "\<not> ok"
    then have "dl_outputFile (DlMessageReceived L ?m d) = None"
      using h cases by (auto simp: Abort_def Let_def)
    then show False using assms(5) by simp
  qed
  then obtain q w where q: "w_files w q = Some []" "d3 = d2\<lparr>dl_world := w, dl_outputFile := Some q, dl_outputPath := q\<rparr>"
    using cases by blast
  have "q = p" using assms(5) h q \<open>ok\<close> by simp
  then show ?thesis using h q \<open>ok\<close> room assms(4,7,8) by (simp add: receiving_def) (simp add: d2_def)
qed

text \<open>
  C3. From the request to the file on disk: the download's own request, handled by a server that shares
  the file and has a free slot, makes the server send messages that, delivered in order to the
  download, store exactly the bytes of the shared file in a new file and report it as complete.
\<close>

theorem transfer_end_to_end:
  assumes "trim_law L" "format_law L"
    "map_of (us_peers s) sid = Some peer" "pu_currentFile peer = None" "quiet s" "sent_to sid s = []"
    "CountActiveUploads s + 1 < unat (us_maxSimultaneousUploads s)"
    "resolve_names (us_sharedFiles s) (map rq_fileName (dl_requestedFiles d)) = [f]"
    "open_file E (sf_absolutePath f) = Some c" "c \<noteq> []" "sf_fileSize f = of_nat (length c)" "length c < 2 ^ 63"
    "dl_outputFile d = None" "dl_listener d" "length c \<le> w_room (dl_world d)"
    "dl_outputFile (DlMessageReceived L (file_header (us_localSessionId s) f) d) = Some p"
    "Suc (length (chunks kUploadChunkSize c)) \<le> n"
  shows "let s' = ((\<lambda>s. OutputQueuesDrained E (Some sid) s) ^^ n) (HandleFileList L E sid (file_list_message d) s)
    in stored p c (dl_completedFileCount d + 1) (fold (DlMessageReceived L) (sent_to sid s') d)"
proof -
  have stream: "requested_stream E s peer (file_list_message d) =
      file_header (us_localSessionId s) f # map (encode_chunk (mode_of True)) (chunks kUploadChunkSize c)"
    using assms(8,9) by (simp add: requested_stream_def file_stream_def mode_of_def)
  then have sent: "sent_to sid (((\<lambda>s. OutputQueuesDrained E (Some sid) s) ^^ n)
        (HandleFileList L E sid (file_list_message d) s)) =
      file_header (us_localSessionId s) f # map (encode_chunk (mode_of True)) (chunks kUploadChunkSize c)"
    using request_served_stream [OF assms(3-5,7), of E "file_list_message d" n L] assms(6,17) by simp
  have "receiving p [] c (DlMessageReceived L (file_header (us_localSessionId s) f) d)"
    "dl_completedFileCount (DlMessageReceived L (file_header (us_localSessionId s) f) d) = dl_completedFileCount d"
    using header_opens [OF assms(1,2,13,14,16,11,12,15)] by simp_all
  from chunks_received [OF this(1) assms(10) chunk_size_pos, of L True] this(2)
  show ?thesis unfolding sent Let_def by simp
qed

definition demo_download :: download where
  "demo_download = AddRequestedFile ''a'' [] 3 (SetDlListener True (new_download ''/d'' demo_world))"

lemma demo_download_fields:
  "dl_outputFile demo_download = None" "dl_listener demo_download" "dl_completedFileCount demo_download = 0"
  "map rq_fileName (dl_requestedFiles demo_download) = [''a'']" "w_room (dl_world demo_download) = 1000"
  "dl_outputFile (DlMessageReceived ref_muscle (file_header [] demo_shared) demo_download) = Some ''/d/a''"
  by code_simp+

theorem transfer_end_to_end_witness:
  "let s' = ((\<lambda>s. OutputQueuesDrained demo_up_env (Some ''1'') s) ^^ 2)
       (HandleFileList ref_muscle demo_up_env ''1'' (file_list_message demo_download) (demo_server 4))
   in stored ''/d/a'' [1, 2, 3] 1 (fold (DlMessageReceived ref_muscle) (sent_to ''1'' s') demo_download)"
proof -
  have size: "sf_fileSize demo_shared = of_nat (length [1, 2, 3 :: uint8])" by (simp add: demo_shared_def)
  have n: "Suc (length (chunks kUploadChunkSize [1, 2, 3 :: uint8])) \<le> 2" by (simp add: demo_stream)
  have files: "resolve_names (us_sharedFiles (demo_server 4)) (map rq_fileName (dl_requestedFiles demo_download)) = [demo_shared]"
    by (simp add: demo_download_fields demo_stream)
  have opens: "dl_outputFile (DlMessageReceived ref_muscle (file_header (us_localSessionId (demo_server 4)) demo_shared)
      demo_download) = Some ''/d/a''" by (simp add: demo_server_ready demo_download_fields)
  have room: "length [1, 2, 3 :: uint8] \<le> w_room (dl_world demo_download)" by (simp add: demo_download_fields)
  show ?thesis
    using transfer_end_to_end [OF ref_trim_law ref_format_law demo_server_ready(1) new_peer_simps(3)
        demo_server_ready(2,3,4) files demo_stream(2) _ size _ demo_download_fields(1,2) room opens n]
    by (simp add: demo_download_fields Let_def del: funpow.simps)
qed

end
