(* ===== verification/DownloadManager.thy ===== *)
theory DownloadManager
  imports FileDownload ChatInput Users ServerConnection
begin

section \<open>The download list and its queue\<close>

text \<open>
  \<open>core/DownloadManager\<close>: which downloads exist, which of them wait for a slot, and how requests for
  results become sessions. A \<open>FileDownload*\<close> is an address; the manager owns the objects, so the
  objects alive are those in its list. The downloads share one file system and clock, which is the
  manager's \<open>dm_world\<close> while none of them runs. What a download tells its listener is delivered to
  the manager in order, when its method returns.
\<close>

record QueuedStart =
  qs_download :: nat
  qs_hostName :: string
  qs_port :: uint16
  qs_remoteSessionId :: string
  qs_localSessionId :: string
  qs_localUserName :: string

datatype dm_event =
    DownloadListChanged
  | DownloadChanged nat
  | DownloadReport LogMessageType string

record download_manager =
  dm_listener :: bool
  dm_downloadDirectory :: string
  dm_retainFilePaths :: bool
  dm_downloads :: "(nat \<times> download) list"
  dm_queuedStarts :: "QueuedStart list"
  dm_maxSimultaneousDownloads :: uint32
  dm_rateLimit :: uint32
  dm_autoClearFinished :: bool
  dm_world :: world
  dm_events :: "dm_event list"

text \<open>
  What the manager relies on: the transceivers of its downloads, and the allocator, which returns an
  address that no living object has.
\<close>

record dm_env =
  dm_transceiver :: dl_env
  new_address :: "nat list \<Rightarrow> nat"

definition fresh_law :: "dm_env \<Rightarrow> bool" where
  "fresh_law E \<longleftrightarrow> (\<forall>alive. new_address E alive \<notin> set alive)"

definition new_manager :: "world \<Rightarrow> download_manager" where
  "new_manager w = \<lparr> dm_listener = False, dm_downloadDirectory = [], dm_retainFilePaths = False,
     dm_downloads = [], dm_queuedStarts = [], dm_maxSimultaneousDownloads = 3, dm_rateLimit = 0,
     dm_autoClearFinished = False, dm_world = w, dm_events = [] \<rparr>"

definition SetDmListener :: "bool \<Rightarrow> download_manager \<Rightarrow> download_manager" where
  "SetDmListener b m = m\<lparr>dm_listener := b\<rparr>"

definition SetDownloadDirectory :: "string \<Rightarrow> download_manager \<Rightarrow> download_manager" where
  "SetDownloadDirectory p m = m\<lparr>dm_downloadDirectory := p\<rparr>"

definition SetRetainFilePaths :: "bool \<Rightarrow> download_manager \<Rightarrow> download_manager" where
  "SetRetainFilePaths b m = m\<lparr>dm_retainFilePaths := b\<rparr>"

definition SetMaxSimultaneousDownloads :: "uint32 \<Rightarrow> download_manager \<Rightarrow> download_manager" where
  "SetMaxSimultaneousDownloads n m = m\<lparr>dm_maxSimultaneousDownloads := max n 1\<rparr>"

definition SetDmRateLimit :: "uint32 \<Rightarrow> download_manager \<Rightarrow> download_manager" where
  "SetDmRateLimit n m = m\<lparr>dm_rateLimit := n\<rparr>"

definition SetAutoClearFinished :: "bool \<Rightarrow> download_manager \<Rightarrow> download_manager" where
  "SetAutoClearFinished b m = m\<lparr>dm_autoClearFinished := b\<rparr>"

definition GetDownloadAt :: "nat \<Rightarrow> download_manager \<Rightarrow> download option" where
  "GetDownloadAt i m = (if i < length (dm_downloads m) then Some (snd (dm_downloads m ! i)) else None)"

definition dm_notify :: "dm_event \<Rightarrow> download_manager \<Rightarrow> download_manager" where
  "dm_notify ev m = (if dm_listener m then m\<lparr>dm_events := dm_events m @ [ev]\<rparr> else m)"

fun position :: "nat \<Rightarrow> nat list \<Rightarrow> nat option" where
  "position a [] = None"
| "position a (b # bs) = (if b = a then Some 0 else map_option Suc (position a bs))"

definition FindIndexOf :: "nat \<Rightarrow> download_manager \<Rightarrow> nat option" where
  "FindIndexOf a m = position a (map fst (dm_downloads m))"

definition is_running :: "download \<Rightarrow> bool" where
  "is_running d \<longleftrightarrow> dl_state d \<noteq> DOWNLOAD_IDLE \<and> \<not> IsFinished d"

definition CountRunningDownloads :: "download_manager \<Rightarrow> nat" where
  "CountRunningDownloads m = length (filter (\<lambda>(a, d). is_running d) (dm_downloads m))"

text \<open>A method call on one download: the shared world goes in and out, the callbacks come out.\<close>

definition call_download ::
  "nat \<Rightarrow> (download \<Rightarrow> download) \<Rightarrow> download_manager \<Rightarrow> dl_event list \<times> download_manager" where
  "call_download a f m =
     (case map_of (dm_downloads m) a of
        None \<Rightarrow> ([], m)
      | Some d \<Rightarrow>
          let d1 = f (d\<lparr>dl_world := dm_world m, dl_events := []\<rparr>)
          in (dl_events d1, m\<lparr>dm_downloads := ht_put a (d1\<lparr>dl_events := []\<rparr>) (dm_downloads m),
                            dm_world := dl_world d1\<rparr>))"

subsection \<open>What the manager does with the callbacks\<close>

text \<open>
  \<open>next\<close> is \<open>_StartNextQueuedDownload\<close>, which is defined below and calls these. The state and the
  error text are those the download had at the moment of the callback.
\<close>

definition DownloadStateChanged ::
  "(download_manager \<Rightarrow> download_manager) \<Rightarrow> nat \<Rightarrow> DownloadState \<Rightarrow> string \<Rightarrow>
   download_manager \<Rightarrow> download_manager" where
  "DownloadStateChanged next a st errorText m =
     (case (FindIndexOf a m, map_of (dm_downloads m) a) of
        (Some index, Some d) \<Rightarrow>
          let m1 = (if st = DOWNLOAD_FAILED
                    then dm_notify (DownloadReport LOG_ERROR_MESSAGE
                           (''Download from '' @
                            (if dl_remoteUserName d \<noteq> [] then dl_remoteUserName d else dl_remoteSessionId d) @
                            '' failed: '' @ errorText)) m
                    else m);
              m2 = dm_notify (DownloadChanged index) m1
          in if st = DOWNLOAD_FINISHED \<or> st = DOWNLOAD_FAILED then next m2 else m2
      | _ \<Rightarrow> m)"

definition DownloadProgress :: "nat \<Rightarrow> download_manager \<Rightarrow> download_manager" where
  "DownloadProgress a m =
     (case FindIndexOf a m of Some index \<Rightarrow> dm_notify (DownloadChanged index) m | None \<Rightarrow> m)"

definition DownloadFileCompleted :: "nat \<Rightarrow> string \<Rightarrow> download_manager \<Rightarrow> download_manager" where
  "DownloadFileCompleted a localPath m =
     (let m1 = (case FindIndexOf a m of Some index \<Rightarrow> dm_notify (DownloadChanged index) m | None \<Rightarrow> m)
      in dm_notify (DownloadReport LOG_INFORMATION_MESSAGE (''Finished downloading '' @ localPath)) m1)"

fun deliver ::
  "(download_manager \<Rightarrow> download_manager) \<Rightarrow> nat \<Rightarrow> dl_event \<Rightarrow> download_manager \<Rightarrow> download_manager" where
  "deliver next a (DlStateChanged st txt) m = DownloadStateChanged next a st txt m"
| "deliver next a DlProgress m = DownloadProgress a m"
| "deliver next a (DlFileCompleted p) m = DownloadFileCompleted a p m"

text \<open>
  The call that \<open>_StartNextQueuedDownload\<close> makes, and the loop itself. Starting a download that cannot be started reports its failure to the
  manager, which comes back here, so the loop is nested in itself; every round takes one element off
  the queue, and as much fuel as the queue is long is enough (\<open>StartNext_unfold\<close> in
  \<open>ManagerLaws\<close>).
\<close>

definition start_queued :: "dm_env \<Rightarrow> QueuedStart \<Rightarrow> download \<Rightarrow> dl_status \<times> download" where
  "start_queued E q = Start (dm_transceiver E) (qs_hostName q) (qs_port q) (qs_remoteSessionId q)
     (qs_localSessionId q) (qs_localUserName q)"

definition start_one ::
  "dm_env \<Rightarrow> (download_manager \<Rightarrow> download_manager) \<Rightarrow> QueuedStart \<Rightarrow> download_manager \<Rightarrow> download_manager" where
  "start_one E next q m =
     (let status = (case map_of (dm_downloads m) (qs_download q) of
                      Some d \<Rightarrow> fst (start_queued E q (d\<lparr>dl_world := dm_world m, dl_events := []\<rparr>))
                    | None \<Rightarrow> DlOk);
          (evs, m1) = call_download (qs_download q) (\<lambda>d. snd (start_queued E q d)) m;
          m2 = fold (deliver next (qs_download q)) evs m1
      in if status \<noteq> DlOk
         then dm_notify (DownloadReport LOG_ERROR_MESSAGE (''Could not reach that peer: '' @
                (case map_of (dm_downloads m2) (qs_download q) of Some d \<Rightarrow> dl_errorText d | None \<Rightarrow> []))) m2
         else m2)"

primrec start_next :: "dm_env \<Rightarrow> nat \<Rightarrow> download_manager \<Rightarrow> download_manager" where
  "start_next E 0 m = m"
| "start_next E (Suc k) m =
     (case dm_queuedStarts m of
        [] \<Rightarrow> m
      | q # qs \<Rightarrow>
          if CountRunningDownloads m \<ge> unat (dm_maxSimultaneousDownloads m) then m
          else
            let m1 = m\<lparr>dm_queuedStarts := qs\<rparr>
            in if FindIndexOf (qs_download q) m1 = None then start_next E k m1
               else start_next E k (start_one E (start_next E k) q m1))"

definition StartNextQueuedDownload :: "dm_env \<Rightarrow> download_manager \<Rightarrow> download_manager" where
  "StartNextQueuedDownload E m = start_next E (length (dm_queuedStarts m)) m"

text \<open>A method of a download is called and the manager hears of it.\<close>

definition on_download ::
  "dm_env \<Rightarrow> nat \<Rightarrow> (download \<Rightarrow> download) \<Rightarrow> download_manager \<Rightarrow> download_manager" where
  "on_download E a f m =
     (case call_download a f m of (evs, m1) \<Rightarrow> fold (deliver (StartNextQueuedDownload E) a) evs m1)"

subsection \<open>Requests\<close>

definition group_results :: "FileResult list \<Rightarrow> (string \<times> FileResult list) list" where
  "group_results rs = fold (\<lambda>r t.
     ht_put (fr_sessionId r) ((case map_of t (fr_sessionId r) of None \<Rightarrow> [] | Some g \<Rightarrow> g) @ [r]) t) rs []"

definition make_download :: "download_manager \<Rightarrow> UserRecord \<Rightarrow> FileResult list \<Rightarrow> download" where
  "make_download m sharer files =
     (let d1 = SetDlListener True (new_download (dm_downloadDirectory m) (dm_world m));
          d2 = SetRemoteUserName (GetDisplayName sharer) (SetDlRetainFilePaths (dm_retainFilePaths m) d1);
          d3 = fold (\<lambda>r. AddRequestedFile (fr_fileName r) (fr_path r) (fr_fileSize r)) files d2
      in SetDlRateLimit (dm_rateLimit m) d3)"

definition start_group ::
  "muscle \<Rightarrow> dm_env \<Rightarrow> registry \<Rightarrow> string \<Rightarrow> string \<Rightarrow> string \<times> FileResult list \<Rightarrow>
   bool \<times> download_manager \<Rightarrow> bool \<times> download_manager" where
  "start_group L E users localSessionId localUserName g state =
     (case g of (sessionId, files) \<Rightarrow> case state of (listChanged, m) \<Rightarrow>
       (case FindUser users sessionId of
          None \<Rightarrow> (listChanged, dm_notify (DownloadReport LOG_ERROR_MESSAGE
                    ''That user has left, so their files are gone too.'') m)
        | Some sharer \<Rightarrow>
            if u_isFirewalled sharer \<or> sint (u_port sharer) \<le> 0
            then (listChanged, dm_notify (DownloadReport LOG_WARNING_MESSAGE (GetDisplayName sharer @
                   '' is behind a firewall. Downloading from firewalled peers needs connect-back, which is not implemented yet.'')) m)
            else
              let a = new_address E (map fst (dm_downloads m));
                  m1 = m\<lparr>dm_downloads := dm_downloads m @ [(a, make_download m sharer files)],
                         dm_queuedStarts := dm_queuedStarts m @
                           [\<lparr> qs_download = a, qs_hostName = u_hostName sharer, qs_port = ucast (u_port sharer),
                              qs_remoteSessionId = sessionId, qs_localSessionId = localSessionId,
                              qs_localUserName = localUserName \<rparr>]\<rparr>
              in (True, dm_notify (DownloadReport LOG_INFORMATION_MESSAGE (''Asking '' @ GetDisplayName sharer @
                    '' for '' @ FormatInt L (int (length files)) @ '' file(s).'')) m1)))"

definition StartDownloads ::
  "muscle \<Rightarrow> dm_env \<Rightarrow> FileResult list \<Rightarrow> registry \<Rightarrow> string \<Rightarrow> string \<Rightarrow>
   download_manager \<Rightarrow> download_manager" where
  "StartDownloads L E results users localSessionId localUserName m =
     (if results = [] then m
      else case fold (start_group L E users localSessionId localUserName) (group_results results) (False, m) of
             (listChanged, m1) \<Rightarrow>
               StartNextQueuedDownload E (if listChanged then dm_notify DownloadListChanged m1 else m1))"

subsection \<open>Stopping and clearing\<close>

definition AbortDownload :: "dm_env \<Rightarrow> nat \<Rightarrow> download_manager \<Rightarrow> download_manager" where
  "AbortDownload E i m =
     (if i \<ge> length (dm_downloads m) then m
      else on_download E (fst (dm_downloads m ! i)) (Abort ''Cancelled'') m)"

definition ClearFinishedDownloads :: "download_manager \<Rightarrow> download_manager" where
  "ClearFinishedDownloads m =
     (let kept = filter (\<lambda>(a, d). \<not> IsFinished d) (dm_downloads m);
          m1 = m\<lparr>dm_downloads := kept\<rparr>
      in if length kept < length (dm_downloads m) then dm_notify DownloadListChanged m1 else m1)"

definition DmPerformIdleTasks :: "download_manager \<Rightarrow> download_manager" where
  "DmPerformIdleTasks m = (if dm_autoClearFinished m then ClearFinishedDownloads m else m)"

text \<open>The loop of \<open>AbortAll\<close> over the positions of the list, which no callback changes.\<close>

definition AbortAll :: "dm_env \<Rightarrow> download_manager \<Rightarrow> download_manager" where
  "AbortAll E m = fold (\<lambda>i m. on_download E (fst (dm_downloads m ! i)) (Abort ''Shutting down'') m)
     [0..<length (dm_downloads m)] m"

end
