(* ===== verification/ManagerLaws.thy ===== *)
theory ManagerLaws
  imports DownloadManager DownloadLaws
begin

section \<open>What the download manager guarantees\<close>

text \<open>
  The lemmas and properties of \<open>DownloadManager\<close>. Starting what waits is a loop nested in itself
  through the callbacks; the locale \<open>manager_invariant\<close> says what a predicate on the manager must
  survive (a report, a queue entry that is dropped, a download that is started) and concludes that it
  survives the loop and every callback. The fuel of the loop, the frame, the cap and the absence of
  idle slots are interpretations or inductions over it.
\<close>

subsection \<open>Frames\<close>

lemma dm_notify_fields [simp]:
  "dm_downloads (dm_notify ev m) = dm_downloads m" "dm_queuedStarts (dm_notify ev m) = dm_queuedStarts m"
  "dm_maxSimultaneousDownloads (dm_notify ev m) = dm_maxSimultaneousDownloads m"
  "dm_world (dm_notify ev m) = dm_world m" "dm_listener (dm_notify ev m) = dm_listener m"
  "CountRunningDownloads (dm_notify ev m) = CountRunningDownloads m"
  "FindIndexOf a (dm_notify ev m) = FindIndexOf a m"
  "dm_autoClearFinished (dm_notify ev m) = dm_autoClearFinished m"
  by (simp_all add: dm_notify_def CountRunningDownloads_def FindIndexOf_def)

lemma call_download_fields [simp]:
  "dm_queuedStarts (snd (call_download a f m)) = dm_queuedStarts m"
  "dm_maxSimultaneousDownloads (snd (call_download a f m)) = dm_maxSimultaneousDownloads m"
  "dm_listener (snd (call_download a f m)) = dm_listener m"
  by (simp_all add: call_download_def Let_def split: option.split)

lemma position_None [simp]: "position a as = None \<longleftrightarrow> a \<notin> set as"
  by (induction as) auto

lemma FindIndexOf_None [simp]: "FindIndexOf a m = None \<longleftrightarrow> map_of (dm_downloads m) a = None"
  by (simp add: FindIndexOf_def map_of_eq_None_iff)

lemma CountRunning_queue [simp]: "CountRunningDownloads (m\<lparr>dm_queuedStarts := qs\<rparr>) = CountRunningDownloads m"
  by (simp add: CountRunningDownloads_def)

subsection \<open>The loop as an induction\<close>

locale manager_invariant =
  fixes P :: "download_manager \<Rightarrow> bool" and E :: dm_env
  assumes notified: "P m \<Longrightarrow> P (dm_notify ev m)"
    and dropped: "P m \<Longrightarrow> dm_queuedStarts m = q # qs \<Longrightarrow>
      CountRunningDownloads m < unat (dm_maxSimultaneousDownloads m) \<Longrightarrow> P (m\<lparr>dm_queuedStarts := qs\<rparr>)"
    and started: "P m \<Longrightarrow> dm_queuedStarts m = q # qs \<Longrightarrow>
      CountRunningDownloads m < unat (dm_maxSimultaneousDownloads m) \<Longrightarrow>
      P (snd (call_download (qs_download q) (\<lambda>d. snd (start_queued E q d)) (m\<lparr>dm_queuedStarts := qs\<rparr>)))"
begin

lemma delivered: "(\<And>m. P m \<Longrightarrow> P (next m)) \<Longrightarrow> P m \<Longrightarrow> P (deliver next a ev m)"
  by (cases ev)
    (auto simp: DownloadStateChanged_def DownloadProgress_def DownloadFileCompleted_def Let_def notified
      split: option.split)

lemma all_delivered: "(\<And>m. P m \<Longrightarrow> P (next m)) \<Longrightarrow> P m \<Longrightarrow> P (fold (deliver next a) evs m)"
  by (induction evs arbitrary: m) (simp_all add: delivered)

lemma one_started:
  "P (snd (call_download (qs_download q) (\<lambda>d. snd (start_queued E q d)) m)) \<Longrightarrow>
   (\<And>m. P m \<Longrightarrow> P (next m)) \<Longrightarrow> P (start_one E next q m)"
  by (cases "call_download (qs_download q) (\<lambda>d. snd (start_queued E q d)) m")
    (simp add: start_one_def Let_def all_delivered notified)

lemma start_next: "P m \<Longrightarrow> P (start_next E k m)"
proof (induction k arbitrary: m)
  case (Suc k)
  show ?case
  proof (cases "dm_queuedStarts m = [] \<or> CountRunningDownloads m \<ge> unat (dm_maxSimultaneousDownloads m)")
    case True
    then show ?thesis using Suc.prems by (auto split: list.split)
  next
    case False
    then obtain q qs where q: "dm_queuedStarts m = q # qs" "CountRunningDownloads m < unat (dm_maxSimultaneousDownloads m)"
      by (cases "dm_queuedStarts m") auto
    have "P (start_one E (start_next E k) q (m\<lparr>dm_queuedStarts := qs\<rparr>))"
      by (rule one_started [OF started [OF Suc.prems q]]) (rule Suc.IH)
    then show ?thesis using q Suc.IH dropped [OF Suc.prems q] by (simp add: Let_def)
  qed
qed simp

lemma StartNext: "P m \<Longrightarrow> P (StartNextQueuedDownload E m)"
  by (simp add: StartNextQueuedDownload_def start_next)

lemma called: "P (snd (call_download a f m)) \<Longrightarrow> P (on_download E a f m)"
  by (cases "call_download a f m") (simp add: on_download_def all_delivered StartNext)

end

subsection \<open>The fuel is enough\<close>

interpretation shrinking: manager_invariant "\<lambda>m. length (dm_queuedStarts m) \<le> n" E for n E
  by unfold_locales simp_all

lemma deliver_cong:
  assumes "\<And>m. length (dm_queuedStarts m) \<le> n \<Longrightarrow> nx' m = nx m \<and> length (dm_queuedStarts (nx m)) \<le> n"
    "length (dm_queuedStarts m) \<le> n"
  shows "fold (deliver nx' a) evs m = fold (deliver nx a) evs m \<and>
    length (dm_queuedStarts (fold (deliver nx a) evs m)) \<le> n"
  using assms(2)
proof (induction evs arbitrary: m)
  case (Cons ev evs)
  have "deliver nx' a ev m = deliver nx a ev m \<and> length (dm_queuedStarts (deliver nx a ev m)) \<le> n"
    using Cons.prems assms(1)
    by (cases ev)
      (simp_all add: DownloadStateChanged_def DownloadProgress_def DownloadFileCompleted_def Let_def split: option.split)
  then show ?case using Cons.IH [of "deliver nx a ev m"] by simp
qed simp

lemma start_one_cong:
  assumes "\<And>m. length (dm_queuedStarts m) \<le> n \<Longrightarrow> nx' m = nx m \<and> length (dm_queuedStarts (nx m)) \<le> n"
    "length (dm_queuedStarts m) \<le> n"
  shows "start_one E nx' q m = start_one E nx q m \<and> length (dm_queuedStarts (start_one E nx q m)) \<le> n"
proof -
  obtain evs m1 where c: "call_download (qs_download q) (\<lambda>d. snd (start_queued E q d)) m = (evs, m1)" by fastforce
  then have "length (dm_queuedStarts m1) \<le> n"
    using call_download_fields(1) [of "qs_download q" "\<lambda>d. snd (start_queued E q d)" m] assms(2) by simp
  from deliver_cong [where nx = nx and nx' = nx' and a = "qs_download q" and evs = evs, OF assms(1) this] c
  show ?thesis by (simp add: start_one_def Let_def)
qed

lemma start_next_fuel:
  "length (dm_queuedStarts m) \<le> k \<Longrightarrow> length (dm_queuedStarts m) \<le> k' \<Longrightarrow> start_next E k' m = start_next E k m"
proof (induction k arbitrary: k' m)
  case 0
  then show ?case by (cases k') simp_all
next
  case (Suc k)
  show ?case
  proof (cases "dm_queuedStarts m = [] \<or> CountRunningDownloads m \<ge> unat (dm_maxSimultaneousDownloads m)")
    case True
    then show ?thesis by (cases k') (auto split: list.split)
  next
    case False
    then obtain q qs where q: "dm_queuedStarts m = q # qs" by (cases "dm_queuedStarts m") auto
    then obtain k2 where k2: "k' = Suc k2" using Suc.prems by (cases k') auto
    have agree: "start_next E k2 t = start_next E k t \<and> length (dm_queuedStarts (start_next E k t)) \<le> length qs"
      if "length (dm_queuedStarts t) \<le> length qs" for t
      using Suc.IH [of t k2] Suc.prems q k2 that shrinking.start_next [of t "length qs" E k] by simp
    have "start_one E (start_next E k2) q (m\<lparr>dm_queuedStarts := qs\<rparr>) = start_one E (start_next E k) q (m\<lparr>dm_queuedStarts := qs\<rparr>) \<and>
        length (dm_queuedStarts (start_one E (start_next E k) q (m\<lparr>dm_queuedStarts := qs\<rparr>))) \<le> length qs"
      by (rule start_one_cong) (simp_all add: agree)
    then show ?thesis using q False k2 agree by (simp add: Let_def)
  qed
qed

text \<open>
  The loop as the code has it: one entry, its start with the callbacks it makes, and again.
\<close>

lemma StartNext_unfold:
  "StartNextQueuedDownload E m =
     (case dm_queuedStarts m of
        [] \<Rightarrow> m
      | q # qs \<Rightarrow>
          if CountRunningDownloads m \<ge> unat (dm_maxSimultaneousDownloads m) then m
          else if map_of (dm_downloads m) (qs_download q) = None
            then StartNextQueuedDownload E (m\<lparr>dm_queuedStarts := qs\<rparr>)
          else StartNextQueuedDownload E (start_one E (StartNextQueuedDownload E) q (m\<lparr>dm_queuedStarts := qs\<rparr>)))"
proof (cases "dm_queuedStarts m = [] \<or> CountRunningDownloads m \<ge> unat (dm_maxSimultaneousDownloads m)")
  case True
  then show ?thesis by (auto simp: StartNextQueuedDownload_def split: list.split)
next
  case False
  then obtain q qs where q: "dm_queuedStarts m = q # qs" by (cases "dm_queuedStarts m") auto
  have agree: "StartNextQueuedDownload E t = start_next E (length qs) t \<and>
      length (dm_queuedStarts (start_next E (length qs) t)) \<le> length qs"
    if "length (dm_queuedStarts t) \<le> length qs" for t
    using start_next_fuel [of t "length qs" "length (dm_queuedStarts t)" E] that
      shrinking.start_next [of t "length qs" E "length qs"]
    by (simp add: StartNextQueuedDownload_def)
  have one: "start_one E (StartNextQueuedDownload E) q (m\<lparr>dm_queuedStarts := qs\<rparr>) =
      start_one E (start_next E (length qs)) q (m\<lparr>dm_queuedStarts := qs\<rparr>) \<and>
      length (dm_queuedStarts (start_one E (start_next E (length qs)) q (m\<lparr>dm_queuedStarts := qs\<rparr>))) \<le> length qs"
    by (rule start_one_cong) (simp_all add: agree)
  then have "StartNextQueuedDownload E m =
      (if map_of (dm_downloads m) (qs_download q) = None then start_next E (length qs) (m\<lparr>dm_queuedStarts := qs\<rparr>)
       else start_next E (length qs) (start_one E (StartNextQueuedDownload E) q (m\<lparr>dm_queuedStarts := qs\<rparr>)))"
    using q False by (subst StartNextQueuedDownload_def) (simp add: Let_def)
  then show ?thesis using q False agree one by simp
qed

subsection \<open>Running downloads\<close>

definition run_bit :: "download \<Rightarrow> nat" where
  "run_bit d = (if is_running d then 1 else 0)"

lemma run_bit_le: "run_bit d \<le> 1"
  by (simp add: run_bit_def)

lemma run_bit_same [simp]:
  "run_bit (d\<lparr>dl_world := w, dl_events := es\<rparr>) = run_bit d" "run_bit (d\<lparr>dl_events := es\<rparr>) = run_bit d"
  by (simp_all add: run_bit_def is_running_def IsFinished_def)

lemma CountRunning_sum: "CountRunningDownloads m = sum_list (map (\<lambda>e. run_bit (snd e)) (dm_downloads m))"
proof -
  have "length (filter (\<lambda>(a, d). is_running d) t) = sum_list (map (\<lambda>e. run_bit (snd e)) t)" for t
    by (induction t) (auto simp: run_bit_def)
  then show ?thesis by (simp add: CountRunningDownloads_def)
qed

lemma Count_call:
  assumes "map_of (dm_downloads m) a = Some d"
  shows "CountRunningDownloads (snd (call_download a f m)) + run_bit d =
    CountRunningDownloads m + run_bit (f (d\<lparr>dl_world := dm_world m, dl_events := []\<rparr>))"
  using assms sum_list_ht_put [OF assms, of run_bit]
  by (simp add: call_download_def CountRunning_sum Let_def)

lemma Count_call_le: "CountRunningDownloads (snd (call_download a f m)) \<le> CountRunningDownloads m + 1"
proof (cases "map_of (dm_downloads m) a")
  case (Some d)
  then show ?thesis using Count_call [OF Some, of f] run_bit_le [of "f (d\<lparr>dl_world := dm_world m, dl_events := []\<rparr>)"] by simp
qed (simp add: call_download_def)

subsection \<open>The cap\<close>

interpretation capped: manager_invariant
  "\<lambda>m. dm_maxSimultaneousDownloads m = n \<and> CountRunningDownloads m \<le> max b (unat n)" E for n b E
proof
  fix m q qs
  assume "dm_maxSimultaneousDownloads m = n \<and> CountRunningDownloads m \<le> max b (unat n)"
    "CountRunningDownloads m < unat (dm_maxSimultaneousDownloads m)"
  then show "dm_maxSimultaneousDownloads (snd (call_download (qs_download q) (\<lambda>d. snd (start_queued E q d))
        (m\<lparr>dm_queuedStarts := qs\<rparr>))) = n \<and>
      CountRunningDownloads (snd (call_download (qs_download q) (\<lambda>d. snd (start_queued E q d))
        (m\<lparr>dm_queuedStarts := qs\<rparr>))) \<le> max b (unat n)"
    using Count_call_le [of "qs_download q" "\<lambda>d. snd (start_queued E q d)" "m\<lparr>dm_queuedStarts := qs\<rparr>"] by simp
qed simp_all

text \<open>
  What the front end and the network do to the manager. A download that is not running has no
  session, so nothing is delivered to it.
\<close>

datatype dm_op =
    DmStart "FileResult list" registry string string | DmAbort nat | DmClear | DmIdle | DmAbortAll
  | DmMessage nat message | DmConnected nat | DmDisconnected nat
  | DmDirectory string | DmRetain bool | DmRate uint32 | DmAutoClear bool

definition session_event ::
  "dm_env \<Rightarrow> nat \<Rightarrow> (download \<Rightarrow> download) \<Rightarrow> download_manager \<Rightarrow> download_manager" where
  "session_event E a f m =
     (case map_of (dm_downloads m) a of
        Some d \<Rightarrow> if is_running d then on_download E a f m else m
      | None \<Rightarrow> m)"

fun run_dm :: "muscle \<Rightarrow> dm_env \<Rightarrow> dm_op \<Rightarrow> download_manager \<Rightarrow> download_manager" where
  "run_dm L E (DmStart rs users l n) m = StartDownloads L E rs users l n m"
| "run_dm L E (DmAbort i) m = AbortDownload E i m"
| "run_dm L E DmClear m = ClearFinishedDownloads m"
| "run_dm L E DmIdle m = DmPerformIdleTasks m"
| "run_dm L E DmAbortAll m = AbortAll E m"
| "run_dm L E (DmMessage a x) m = session_event E a (DlMessageReceived L x) m"
| "run_dm L E (DmConnected a) m = session_event E a DlSessionConnected m"
| "run_dm L E (DmDisconnected a) m = session_event E a DlSessionDisconnected m"
| "run_dm L E (DmDirectory p) m = SetDownloadDirectory p m"
| "run_dm L E (DmRetain b) m = SetRetainFilePaths b m"
| "run_dm L E (DmRate n) m = SetDmRateLimit n m"
| "run_dm L E (DmAutoClear b) m = SetAutoClearFinished b m"

lemma Abort_stops [simp]: "run_bit (Abort r d) = 0"
  by (simp add: run_bit_def is_running_def Abort_def IsFinished_def SetState_def dl_emit_def Let_def)

lemma make_download_fields [simp]:
  "dl_state (make_download m u fs) = DOWNLOAD_IDLE" "dl_listener (make_download m u fs)"
  "dl_events (make_download m u fs) = []" "dl_remoteUserName (make_download m u fs) = GetDisplayName u"
  "dl_requestedFiles (make_download m u fs) = map (\<lambda>r. \<lparr> rq_fileName = fr_fileName r, rq_path = fr_path r,
     rq_expectedSize = fr_fileSize r \<rparr>) fs"
proof -
  let ?add = "\<lambda>r. AddRequestedFile (fr_fileName r) (fr_path r) (fr_fileSize r)"
  have f: "dl_state (fold ?add fs d) = dl_state d \<and> dl_listener (fold ?add fs d) = dl_listener d \<and>
      dl_events (fold ?add fs d) = dl_events d \<and> dl_remoteUserName (fold ?add fs d) = dl_remoteUserName d \<and>
      dl_requestedFiles (fold ?add fs d) = dl_requestedFiles d @ map (\<lambda>r. \<lparr> rq_fileName = fr_fileName r,
        rq_path = fr_path r, rq_expectedSize = fr_fileSize r \<rparr>) fs" for d
    by (induction fs arbitrary: d) (simp_all add: AddRequestedFile_def Let_def)
  then show "dl_state (make_download m u fs) = DOWNLOAD_IDLE" "dl_listener (make_download m u fs)"
    "dl_events (make_download m u fs) = []" "dl_remoteUserName (make_download m u fs) = GetDisplayName u"
    "dl_requestedFiles (make_download m u fs) = map (\<lambda>r. \<lparr> rq_fileName = fr_fileName r, rq_path = fr_path r,
     rq_expectedSize = fr_fileSize r \<rparr>) fs"
    by (simp_all add: make_download_def Let_def SetDlListener_def SetDlRetainFilePaths_def SetRemoteUserName_def
        SetDlRateLimit_def new_download_def)
qed

lemma start_group_fields:
  "dm_maxSimultaneousDownloads (snd (start_group L E us l n g st)) = dm_maxSimultaneousDownloads (snd st)"
  "CountRunningDownloads (snd (start_group L E us l n g st)) = CountRunningDownloads (snd st)"
  by (auto simp: start_group_def Let_def CountRunning_sum run_bit_def is_running_def split: prod.split option.split)

lemma start_groups_fields:
  "dm_maxSimultaneousDownloads (snd (fold (start_group L E us l n) gs st)) = dm_maxSimultaneousDownloads (snd st)"
  "CountRunningDownloads (snd (fold (start_group L E us l n) gs st)) = CountRunningDownloads (snd st)"
  by (induction gs arbitrary: st) (simp_all add: start_group_fields)

lemma Clear_fields [simp]:
  "dm_maxSimultaneousDownloads (ClearFinishedDownloads m) = dm_maxSimultaneousDownloads m"
  "CountRunningDownloads (ClearFinishedDownloads m) = CountRunningDownloads m"
  "dm_queuedStarts (ClearFinishedDownloads m) = dm_queuedStarts m"
proof -
  have "sum_list (map (\<lambda>e. run_bit (snd e)) (filter (\<lambda>(a, d). \<not> IsFinished d) t)) = sum_list (map (\<lambda>e. run_bit (snd e)) t)" for t
    by (induction t) (auto simp: run_bit_def is_running_def)
  then show "dm_maxSimultaneousDownloads (ClearFinishedDownloads m) = dm_maxSimultaneousDownloads m"
    "CountRunningDownloads (ClearFinishedDownloads m) = CountRunningDownloads m"
    "dm_queuedStarts (ClearFinishedDownloads m) = dm_queuedStarts m"
    by (simp_all add: ClearFinishedDownloads_def Let_def CountRunning_sum)
qed

lemma stopping_capped:
  assumes "dm_maxSimultaneousDownloads m = n \<and> CountRunningDownloads m \<le> max b (unat n)"
    "\<And>d. map_of (dm_downloads m) a = Some d \<Longrightarrow>
       run_bit (f (d\<lparr>dl_world := dm_world m, dl_events := []\<rparr>)) \<le> run_bit d"
  shows "dm_maxSimultaneousDownloads (on_download E a f m) = n \<and> CountRunningDownloads (on_download E a f m) \<le> max b (unat n)"
proof (rule capped.called)
  show "dm_maxSimultaneousDownloads (snd (call_download a f m)) = n \<and>
      CountRunningDownloads (snd (call_download a f m)) \<le> max b (unat n)"
  proof (cases "map_of (dm_downloads m) a")
    case (Some d)
    then show ?thesis using assms(1) assms(2) [OF Some] Count_call [OF Some, of f] by simp
  qed (use assms(1) in \<open>simp add: call_download_def\<close>)
qed

lemma run_dm_capped:
  assumes "dm_maxSimultaneousDownloads m = n \<and> CountRunningDownloads m \<le> max b (unat n)"
  shows "dm_maxSimultaneousDownloads (run_dm L E op m) = n \<and> CountRunningDownloads (run_dm L E op m) \<le> max b (unat n)"
proof -
  have session: "dm_maxSimultaneousDownloads (session_event E a f m) = n \<and>
      CountRunningDownloads (session_event E a f m) \<le> max b (unat n)" for a f
  proof (cases "map_of (dm_downloads m) a")
    case (Some d)
    then show ?thesis using assms stopping_capped [OF assms, of a f E] run_bit_le
      by (auto simp: session_event_def run_bit_def split: if_splits)
  qed (use assms in \<open>simp add: session_event_def\<close>)
  show ?thesis
  proof (cases op)
    case (DmStart rs us l k)
    obtain asked m1 where g: "fold (start_group L E us l k) (group_results rs) (False, m) = (asked, m1)" by fastforce
    have "dm_maxSimultaneousDownloads m1 = n \<and> CountRunningDownloads m1 \<le> max b (unat n)"
      using assms start_groups_fields [of L E us l k "group_results rs" "(False, m)"] g by simp
    then have "dm_maxSimultaneousDownloads (StartNextQueuedDownload E m2) = n \<and>
        CountRunningDownloads (StartNextQueuedDownload E m2) \<le> max b (unat n)"
      if "m2 \<in> {m1, dm_notify DownloadListChanged m1}" for m2
      using that by (intro capped.StartNext) auto
    then show ?thesis using DmStart g assms by (simp add: StartDownloads_def)
  next
    case (DmAbort i)
    then show ?thesis using assms stopping_capped [OF assms, of "fst (dm_downloads m ! i)" "Abort ''Cancelled''"]
      by (simp add: AbortDownload_def)
  next
    case DmAbortAll
    have "dm_maxSimultaneousDownloads x = n \<and> CountRunningDownloads x \<le> max b (unat n) \<Longrightarrow>
        dm_maxSimultaneousDownloads (fold (\<lambda>i m. on_download E (fst (dm_downloads m ! i)) (Abort r) m) is x) = n \<and>
        CountRunningDownloads (fold (\<lambda>i m. on_download E (fst (dm_downloads m ! i)) (Abort r) m) is x) \<le> max b (unat n)"
      for "is" x r
    proof (induction "is" arbitrary: x)
      case (Cons i "is")
      have "dm_maxSimultaneousDownloads (on_download E (fst (dm_downloads x ! i)) (Abort r) x) = n \<and>
          CountRunningDownloads (on_download E (fst (dm_downloads x ! i)) (Abort r) x) \<le> max b (unat n)"
        by (rule stopping_capped [OF Cons.prems]) simp
      from Cons.IH [OF this] show ?case by simp
    qed simp
    then show ?thesis using DmAbortAll assms by (simp add: AbortAll_def)
  qed (use assms session in \<open>simp_all add: DmPerformIdleTasks_def SetDownloadDirectory_def SetRetainFilePaths_def
      SetDmRateLimit_def SetAutoClearFinished_def CountRunningDownloads_def
      del: Clear_fields(2)\<close>, simp_all add: Clear_fields(2) CountRunningDownloads_def [symmetric])
qed

text \<open>
  The cap is a setting and may change at any time; the setter itself neither starts nor stops anything. \<open>caps\<close> are
  the caps that were in force in a history: the one a manager is made with and those that were set.
\<close>

datatype capped_op = CapOp dm_op | CapSet uint32

fun run_capped :: "muscle \<Rightarrow> dm_env \<Rightarrow> capped_op \<Rightarrow> download_manager \<Rightarrow> download_manager" where
  "run_capped L E (CapOp op) m = run_dm L E op m"
| "run_capped L E (CapSet n) m = SetMaxSimultaneousDownloads n m"

fun caps :: "capped_op list \<Rightarrow> nat list" where
  "caps [] = [3]"
| "caps (CapOp op # ops) = caps ops"
| "caps (CapSet n # ops) = unat (max n 1) # caps ops"

lemma run_capped_step:
  "CountRunningDownloads (run_capped L E op m) \<le> max (CountRunningDownloads m) (unat (dm_maxSimultaneousDownloads m))"
proof (cases op)
  case (CapOp x)
  then show ?thesis using run_dm_capped [of m "dm_maxSimultaneousDownloads m" "CountRunningDownloads m"] by simp
qed (simp add: SetMaxSimultaneousDownloads_def CountRunningDownloads_def)

lemma run_dm_keeps_cap [simp]: "dm_maxSimultaneousDownloads (run_dm L E op m) = dm_maxSimultaneousDownloads m"
  using run_dm_capped [of m "dm_maxSimultaneousDownloads m" "CountRunningDownloads m"] by simp

lemma run_capped_bound:
  "CountRunningDownloads m \<le> b \<Longrightarrow> unat (dm_maxSimultaneousDownloads m) \<le> b \<Longrightarrow> list_all (\<lambda>n. n \<le> b) (caps ops) \<Longrightarrow>
   CountRunningDownloads (fold (run_capped L E) ops m) \<le> b"
proof (induction ops arbitrary: m)
  case (Cons op ops)
  have "unat (dm_maxSimultaneousDownloads (run_capped L E op m)) \<le> b"
    using Cons.prems(2,3) by (cases op) (simp_all add: SetMaxSimultaneousDownloads_def)
  moreover have "CountRunningDownloads (run_capped L E op m) \<le> b"
    using run_capped_step [of L E op m] Cons.prems(1,2) by simp
  moreover have "list_all (\<lambda>n. n \<le> b) (caps ops)" using Cons.prems(3) by (cases op) simp_all
  ultimately show ?case using Cons.IH by simp
qed simp

text \<open>
  C12. The cap on simultaneous downloads: whatever the user asks for, cancels or clears, whatever the sessions
  deliver and however the cap is set in between, no step makes more downloads run than the cap in force allows, or,
  when the cap was lowered below what is running, more than there were; so never do more run than the largest
  of the caps so far allowed.
\<close>

theorem downloads_capped:
  "let m = fold (run_capped L E) ops (new_manager w)
   in CountRunningDownloads (run_capped L E op m) \<le> max (CountRunningDownloads m) (unat (dm_maxSimultaneousDownloads m)) \<and>
      CountRunningDownloads m \<le> Max (set (caps ops))"
proof -
  have "caps ops \<noteq> []" "3 \<in> set (caps ops)" by (induction ops rule: caps.induct) auto
  then have "list_all (\<lambda>n. n \<le> Max (set (caps ops))) (caps ops)" "3 \<le> Max (set (caps ops))" by (auto simp: list_all_iff)
  then have "CountRunningDownloads (fold (run_capped L E) ops (new_manager w)) \<le> Max (set (caps ops))"
    by (intro run_capped_bound) (simp_all add: new_manager_def CountRunningDownloads_def)
  then show ?thesis using run_capped_step unfolding Let_def by blast
qed

text \<open>
  A cap that was raised is not used at once: the setter starts nothing, so what waits goes on waiting until some
  other event lets the manager look at its queue.
\<close>

theorem raised_cap_waits:
  "CountRunningDownloads (SetMaxSimultaneousDownloads n m) = CountRunningDownloads m \<and>
   dm_queuedStarts (SetMaxSimultaneousDownloads n m) = dm_queuedStarts m"
  by (simp add: SetMaxSimultaneousDownloads_def CountRunningDownloads_def)

subsection \<open>Every change of state is reported\<close>

text \<open>
  From \<open>d0\<close> to \<open>d\<close> the log only grows, no download becomes idle again, and if the state differs the
  listener was told the new one.
\<close>

definition reports :: "download \<Rightarrow> download \<Rightarrow> bool" where
  "reports d0 d \<longleftrightarrow> dl_listener d = dl_listener d0 \<and> prefix (dl_events d0) (dl_events d) \<and>
     (dl_state d = dl_state d0 \<or> dl_state d \<noteq> DOWNLOAD_IDLE \<and>
        (dl_listener d0 \<longrightarrow> (\<exists>txt. DlStateChanged (dl_state d) txt \<in> set (dl_events d))))"

lemma reports_updates [simp]:
  "reports d0 (d\<lparr>dl_remoteSessionId := a\<rparr>) = reports d0 d" "reports d0 (d\<lparr>dl_remoteUserName := a\<rparr>) = reports d0 d"
  "reports d0 (d\<lparr>dl_localSessionId := a\<rparr>) = reports d0 d" "reports d0 (d\<lparr>dl_localUserName := a\<rparr>) = reports d0 d"
  "reports d0 (d\<lparr>dl_errorText := a\<rparr>) = reports d0 d" "reports d0 (d\<lparr>dl_thread := b\<rparr>) = reports d0 d"
  "reports d0 (d\<lparr>dl_currentFileName := a\<rparr>) = reports d0 d" "reports d0 (d\<lparr>dl_currentFileSize := n\<rparr>) = reports d0 d"
  "reports d0 (d\<lparr>dl_currentFileBytesDone := n\<rparr>) = reports d0 d" "reports d0 (d\<lparr>dl_totalBytesDone := n\<rparr>) = reports d0 d"
  "reports d0 (d\<lparr>dl_completedFileCount := c\<rparr>) = reports d0 d" "reports d0 (d\<lparr>dl_samples := ss\<rparr>) = reports d0 d"
  "reports d0 (d\<lparr>dl_inputPolicy := io\<rparr>) = reports d0 d" "reports d0 (d\<lparr>dl_sent := ms\<rparr>) = reports d0 d"
  "reports d0 (d\<lparr>dl_world := w\<rparr>) = reports d0 d" "reports d0 (d\<lparr>dl_outputFile := f\<rparr>) = reports d0 d"
  "reports d0 (d\<lparr>dl_outputPath := p\<rparr>) = reports d0 d"
  by (simp_all add: reports_def)

lemma reports_refl [simp]: "reports d d"
  by (simp add: reports_def)

lemma reports_emit: "reports d0 d \<Longrightarrow> reports d0 (dl_emit ev d)"
  by (auto simp: reports_def dl_emit_def prefix_def)

lemma reports_SetState: "reports d0 d \<Longrightarrow> st \<noteq> DOWNLOAD_IDLE \<Longrightarrow> reports d0 (SetState st d)"
  by (auto simp: reports_def SetState_def dl_emit_def prefix_def)

lemma reports_Close [simp]: "reports d0 (CloseOutputFile d) = reports d0 d"
  by (simp add: CloseOutputFile_def)

lemma reports_Abort: "reports d0 d \<Longrightarrow> reports d0 (Abort r d)"
  by (simp add: Abort_def Let_def reports_SetState)

lemma reports_Finish: "reports d0 d \<Longrightarrow> reports d0 (FinishCurrentFile d)"
  by (simp add: FinishCurrentFile_def Let_def reports_emit)

lemma reports_Open [simp]: "reports d0 (snd (OpenOutputFile L n p d)) = reports d0 d"
  by (simp add: OpenOutputFile_def Let_def split: prod.split option.split)

lemma reports_header: "reports d0 d \<Longrightarrow> reports d0 (HandleFileHeader L x d)"
proof -
  assume "reports d0 d"
  then have fin: "reports d0 (FinishCurrentFile d)" by (rule reports_Finish)
  show ?thesis
  proof (cases "find_string x BESHARE_FIELD_FILE_NAME = None \<or> find_int64 x BESHARE_FIELD_FILE_SIZE = None")
    case True
    then show ?thesis using fin by (auto simp: HandleFileHeader_def Let_def reports_Abort split: option.split)
  next
    case False
    then obtain n sz where f: "find_string x BESHARE_FIELD_FILE_NAME = Some n"
      "find_int64 x BESHARE_FIELD_FILE_SIZE = Some sz" by auto
    define d2 where "d2 = (FinishCurrentFile d)\<lparr>dl_remoteSessionId := found_or (dl_remoteSessionId (FinishCurrentFile d))
        (find_string x BESHARE_FIELD_FROM_SESSION), dl_currentFileName := n, dl_currentFileSize := sz,
        dl_currentFileBytesDone := 0\<rparr>"
    obtain ok d3 where o: "OpenOutputFile L n (found_or [] (find_string x BESHARE_FIELD_PATH)) d2 = (ok, d3)"
      by fastforce
    have "reports d0 d3"
      using reports_Open [of d0 L n "found_or [] (find_string x BESHARE_FIELD_PATH)" d2] fin
      unfolding o by (simp add: d2_def)
    moreover have "HandleFileHeader L x d =
        (if \<not> ok then Abort (''Could not create a file for '' @ n) d3 else SetState DOWNLOAD_TRANSFERRING d3)"
      unfolding HandleFileHeader_def Let_def using f o by (simp add: d2_def)
    ultimately show ?thesis by (simp add: reports_Abort reports_SetState)
  qed
qed

lemma reports_data: "reports d0 d \<Longrightarrow> reports d0 (HandleFileData x d)"
  by (auto simp: HandleFileData_def Let_def reports_Finish reports_Abort reports_emit
      split: option.split sum.split prod.split)

lemma reports_message: "reports d0 d \<Longrightarrow> reports d0 (DlMessageReceived L x d)"
  by (simp add: DlMessageReceived_def reports_header reports_data reports_SetState HandleRejected_def Let_def
      reports_Abort split: option.split)

lemma reports_connected: "reports d0 d \<Longrightarrow> reports d0 (DlSessionConnected d)"
  by (simp add: DlSessionConnected_def SendFileList_def SendPeerIdentity_def reports_SetState)

lemma reports_disconnected: "reports d0 d \<Longrightarrow> reports d0 (DlSessionDisconnected d)"
  by (simp add: DlSessionDisconnected_def Let_def reports_Abort reports_SetState)

lemma reports_start: "reports d0 d \<Longrightarrow> reports d0 (snd (start_queued E q d))"
  by (simp add: start_queued_def Start_def Let_def reports_SetState split: option.split)

subsection \<open>No slot stays idle\<close>

definition saturated :: "download_manager \<Rightarrow> bool" where
  "saturated m \<longleftrightarrow> dm_queuedStarts m = [] \<or> CountRunningDownloads m \<ge> unat (dm_maxSimultaneousDownloads m)"

lemma start_next_saturates: "length (dm_queuedStarts m) \<le> k \<Longrightarrow> saturated (start_next E k m)"
proof (induction k arbitrary: m)
  case (Suc k)
  show ?case
  proof (cases "saturated m")
    case True
    then show ?thesis by (auto simp: saturated_def split: list.split)
  next
    case False
    then obtain q qs where q: "dm_queuedStarts m = q # qs" "\<not> CountRunningDownloads m \<ge> unat (dm_maxSimultaneousDownloads m)"
      by (cases "dm_queuedStarts m") (auto simp: saturated_def)
    have "length (dm_queuedStarts (start_one E (start_next E k) q (m\<lparr>dm_queuedStarts := qs\<rparr>))) \<le> length qs"
      by (rule shrinking.one_started) (simp_all add: shrinking.start_next)
    then show ?thesis using q Suc by (simp add: Let_def)
  qed
qed (simp add: saturated_def)

lemma StartNext_saturates: "saturated (StartNextQueuedDownload E m)"
  by (simp add: StartNextQueuedDownload_def start_next_saturates)

lemma saturated_notify [simp]: "saturated (dm_notify ev m) = saturated m"
  by (simp add: saturated_def)

text \<open>The set of objects and who listens to them do not change in the loop.\<close>

definition alive :: "nat list \<Rightarrow> download_manager \<Rightarrow> bool" where
  "alive as m \<longleftrightarrow> map fst (dm_downloads m) = as \<and> (\<forall>(a, d) \<in> set (dm_downloads m). dl_listener d)"

lemma alive_call:
  assumes "alive as m" "\<And>d. dl_listener d \<Longrightarrow> dl_listener (f d)"
  shows "alive as (snd (call_download a f m))"
proof (cases "map_of (dm_downloads m) a")
  case (Some d)
  then have mem: "(a, d) \<in> set (dm_downloads m)" by (rule map_of_SomeD)
  then have "a \<in> fst ` set (dm_downloads m)" by force
  moreover have "dl_listener d" using assms(1) mem by (auto simp: alive_def)
  ultimately show ?thesis using Some assms
    by (auto simp: call_download_def alive_def Let_def dest: set_mp [OF set_ht_put_subset])
qed (use assms(1) in \<open>simp add: call_download_def\<close>)

lemma reports_listener: "reports d (f d) \<Longrightarrow> dl_listener d \<Longrightarrow> dl_listener (f d)"
  by (simp add: reports_def)

interpretation living: manager_invariant "alive as" E for "as" E
proof
  fix m q qs
  assume "alive as m"
  then have "alive as (m\<lparr>dm_queuedStarts := qs\<rparr>)" by (simp add: alive_def)
  then show "alive as (snd (call_download (qs_download q) (\<lambda>d. snd (start_queued E q d)) (m\<lparr>dm_queuedStarts := qs\<rparr>)))"
    by (rule alive_call) (rule reports_listener [OF reports_start [OF reports_refl]])
qed (simp_all add: alive_def dm_notify_def)

lemma deliver_saturated: "saturated m \<Longrightarrow> saturated (deliver (StartNextQueuedDownload E) a ev m)"
  by (cases ev)
    (auto simp: DownloadStateChanged_def DownloadProgress_def DownloadFileCompleted_def Let_def
      StartNext_saturates split: option.split)

lemma deliver_end_saturates:
  assumes "alive as m" "a \<in> set as" "DlStateChanged st txt \<in> set evs" "st \<in> {DOWNLOAD_FINISHED, DOWNLOAD_FAILED}"
  shows "saturated (fold (deliver (StartNextQueuedDownload E) a) evs m)"
proof -
  have keep: "saturated x \<Longrightarrow> saturated (fold (deliver (StartNextQueuedDownload E) a) es x)" for es x
    by (induction es arbitrary: x) (simp_all add: deliver_saturated)
  show ?thesis using assms(1,3)
  proof (induction evs arbitrary: m)
    case (Cons ev evs)
    have al: "alive as (deliver (StartNextQueuedDownload E) a ev m)"
      by (rule living.delivered) (simp_all add: living.StartNext Cons.prems)
    show ?case
    proof (cases "ev = DlStateChanged st txt")
      case True
      have "map_of (dm_downloads m) a \<noteq> None"
        using Cons.prems(1) assms(2) by (auto simp: alive_def map_of_eq_None_iff)
      then obtain d i where "map_of (dm_downloads m) a = Some d" "FindIndexOf a m = Some i"
        by (cases "FindIndexOf a m") auto
      then have "saturated (deliver (StartNextQueuedDownload E) a ev m)"
        using True assms(4) by (auto simp: DownloadStateChanged_def Let_def StartNext_saturates)
      then show ?thesis by (simp add: keep)
    next
      case False
      then show ?thesis using Cons al by simp
    qed
  qed simp
qed

lemma on_download_saturated:
  assumes "alive as m" "saturated m" "\<And>d. reports d (f d)"
  shows "saturated (on_download E a f m) \<and> alive as (on_download E a f m)"
proof
  have al: "alive as (snd (call_download a f m))"
    by (rule alive_call [OF assms(1)]) (rule reports_listener [OF assms(3)])
  show "alive as (on_download E a f m)" by (rule living.called [OF al])
  show "saturated (on_download E a f m)"
  proof (cases "map_of (dm_downloads m) a")
    case None
    then show ?thesis using assms(2) by (simp add: on_download_def call_download_def)
  next
    case (Some d)
    let ?d = "d\<lparr>dl_world := dm_world m, dl_events := []\<rparr>"
    obtain m1 where c: "call_download a f m = (dl_events (f ?d), m1)"
      using Some by (simp add: call_download_def Let_def)
    have mem: "a \<in> set as" "dl_listener d"
      using assms(1) map_of_SomeD [OF Some] by (auto simp: alive_def) force
    have r: "reports ?d (f ?d)" by (rule assms(3))
    show ?thesis
    proof (cases "run_bit (f ?d) \<ge> run_bit d")
      case True
      then have "saturated m1"
        using assms(2) Count_call [OF Some, of f] call_download_fields [of a f m] c by (auto simp: saturated_def)
      then have "saturated (fold (deliver (StartNextQueuedDownload E) a) es m1)" for es
        by (induction es arbitrary: m1) (simp_all add: deliver_saturated)
      then show ?thesis by (simp add: on_download_def c)
    next
      case False
      then have "is_running d" "\<not> is_running (f ?d)" by (auto simp: run_bit_def split: if_splits)
      then have "dl_state (f ?d) \<noteq> dl_state ?d" "dl_state (f ?d) = DOWNLOAD_IDLE \<or> dl_state (f ?d) \<in> {DOWNLOAD_FINISHED, DOWNLOAD_FAILED}"
        by (auto simp: is_running_def IsFinished_def)
      then obtain reason where "DlStateChanged (dl_state (f ?d)) reason \<in> set (dl_events (f ?d))"
        "dl_state (f ?d) \<in> {DOWNLOAD_FINISHED, DOWNLOAD_FAILED}"
        using r mem(2) by (auto simp: reports_def)
      moreover have "alive as m1" using al c by simp
      ultimately show ?thesis using deliver_end_saturates [OF _ mem(1)] by (simp add: on_download_def c)
    qed
  qed
qed

lemma listening_alive: "(\<exists>as. alive as m) \<longleftrightarrow> (\<forall>(a, d) \<in> set (dm_downloads m). dl_listener d)"
  by (auto simp: alive_def)

lemma start_group_listening:
  "\<exists>as. alive as (snd st) \<Longrightarrow> \<exists>as. alive as (snd (start_group L E us l n g st))"
  unfolding listening_alive
  by (auto simp: start_group_def Let_def split: prod.splits option.splits if_splits)

lemma start_groups_listening:
  "\<exists>as. alive as (snd st) \<Longrightarrow> \<exists>as. alive as (snd (fold (start_group L E us l n) gs st))"
  by (induction gs arbitrary: st) (simp_all add: start_group_listening)

lemma run_dm_saturated:
  assumes "\<exists>as. alive as m" "saturated m"
  shows "saturated (run_dm L E op m) \<and> (\<exists>as. alive as (run_dm L E op m))"
proof -
  obtain "as" where al: "alive as m" using assms(1) by blast
  note called = on_download_saturated [OF al assms(2)]
  have session: "(\<And>d. reports d (f d)) \<Longrightarrow> saturated (session_event E a f m) \<and> (\<exists>as. alive as (session_event E a f m))" for a f
    using called [of f E a] assms by (auto simp: session_event_def split: option.split)
  have cleared: "saturated (ClearFinishedDownloads m) \<and> (\<exists>as. alive as (ClearFinishedDownloads m))"
    using assms unfolding listening_alive
    by (simp add: saturated_def) (auto simp: ClearFinishedDownloads_def Let_def)
  show ?thesis
  proof (cases op)
    case (DmStart rs us l k)
    obtain b m1 where g: "fold (start_group L E us l k) (group_results rs) (False, m) = (b, m1)" by fastforce
    have "\<exists>as. alive as m1"
      using start_groups_listening [of "(False, m)" L E us l k "group_results rs"] assms(1) g by simp
    then obtain bs where "alive bs m1" by blast
    then have "alive bs (StartNextQueuedDownload E m1)" "alive bs (StartNextQueuedDownload E (dm_notify DownloadListChanged m1))"
      by (simp_all add: living.StartNext living.notified)
    then show ?thesis using DmStart g assms by (auto simp: StartDownloads_def StartNext_saturates)
  next
    case (DmAbort i)
    then show ?thesis using assms called [of "Abort ''Cancelled''"] reports_Abort by (auto simp: AbortDownload_def)
  next
    case DmAbortAll
    have "alive as x \<and> saturated x \<Longrightarrow>
        alive as (fold (\<lambda>i m. on_download E (fst (dm_downloads m ! i)) (Abort r) m) is x) \<and>
        saturated (fold (\<lambda>i m. on_download E (fst (dm_downloads m ! i)) (Abort r) m) is x)" for "is" x r
    proof (induction "is" arbitrary: x)
      case (Cons i "is")
      then show ?case using on_download_saturated [of "as" x "Abort r" E] reports_Abort by simp
    qed simp
    then show ?thesis using DmAbortAll al assms(2) by (auto simp: AbortAll_def)
  next
    case (DmMessage a x)
    then show ?thesis using session [of "DlMessageReceived L x" a] by (simp add: reports_message)
  next
    case (DmConnected a)
    then show ?thesis using session [of DlSessionConnected a] by (simp add: reports_connected)
  next
    case (DmDisconnected a)
    then show ?thesis using session [of DlSessionDisconnected a] by (simp add: reports_disconnected)
  qed (use assms cleared in \<open>auto simp: DmPerformIdleTasks_def SetDownloadDirectory_def SetRetainFilePaths_def
      SetDmRateLimit_def SetAutoClearFinished_def saturated_def CountRunningDownloads_def alive_def\<close>)
qed

text \<open>
  C20. No slot stays idle while a download waits: after every user action and every session event,
  either nothing waits for a slot or as many downloads run as the cap allows. So a waiting download
  is started as soon as a running one ends, however it ends.
\<close>

theorem no_idle_slot:
  "let m = fold (run_dm L E) ops (SetMaxSimultaneousDownloads n (new_manager w))
   in dm_queuedStarts m = [] \<or> unat (dm_maxSimultaneousDownloads m) \<le> CountRunningDownloads m"
proof -
  let ?m = "SetMaxSimultaneousDownloads n (new_manager w)"
  have "\<exists>as. alive as m \<Longrightarrow> saturated m \<Longrightarrow> saturated (fold (run_dm L E) ops m)" for m
  proof (induction ops arbitrary: m)
    case (Cons op ops)
    then show ?case using run_dm_saturated [OF Cons.prems, of L E op] by simp
  qed simp
  moreover have "\<exists>as. alive as ?m" "saturated ?m"
    unfolding listening_alive by (simp_all add: SetMaxSimultaneousDownloads_def new_manager_def saturated_def)
  ultimately show ?thesis by (simp add: saturated_def Let_def)
qed

subsection \<open>One session per sharer\<close>

text \<open>Who is asked, in the order the user picked them, and whether they can be asked at all.\<close>

definition sharers :: "FileResult list \<Rightarrow> string list" where
  "sharers rs = rev (remdups (rev (map fr_sessionId rs)))"

definition reachable :: "registry \<Rightarrow> string \<Rightarrow> bool" where
  "reachable users k = (case FindUser users k of None \<Rightarrow> False
     | Some u \<Rightarrow> \<not> u_isFirewalled u \<and> sint (u_port u) > 0)"

definition request_of :: "FileResult \<Rightarrow> RequestedFile" where
  "request_of r = \<lparr> rq_fileName = fr_fileName r, rq_path = fr_path r, rq_expectedSize = fr_fileSize r \<rparr>"

lemma sharers_snoc: "sharers (rs @ [r]) =
    (if fr_sessionId r \<in> set (sharers rs) then sharers rs else sharers rs @ [fr_sessionId r])"
  by (simp add: sharers_def)

lemma distinct_sharers: "distinct (sharers rs)"
  by (simp add: sharers_def)

lemma ht_put_map:
  "distinct ks \<Longrightarrow> ht_put k v (map (\<lambda>x. (x, F x)) ks) =
     map (\<lambda>x. (x, (F(k := v)) x)) (if k \<in> set ks then ks else ks @ [k])"
  by (induction ks) auto

lemma group_results_eq: "group_results rs = map (\<lambda>k. (k, filter (\<lambda>r. fr_sessionId r = k) rs)) (sharers rs)"
proof (induction rs rule: rev_induct)
  case (snoc r rs)
  let ?k = "fr_sessionId r" and ?F = "\<lambda>k. filter (\<lambda>r. fr_sessionId r = k) rs"
  have "map_of (map (\<lambda>k. (k, ?F k)) ks) ?k = (if ?k \<in> set ks then Some (?F ?k) else None)" for ks
    by (induction ks) auto
  moreover have "?k \<notin> set (sharers rs) \<Longrightarrow> ?F ?k = []"
    by (auto simp: sharers_def filter_empty_conv intro: rev_image_eqI)
  ultimately have "group_results (rs @ [r]) = ht_put ?k (?F ?k @ [r]) (map (\<lambda>k. (k, ?F k)) (sharers rs))"
    using snoc.IH by (simp add: group_results_def)
  also have "\<dots> = map (\<lambda>k. (k, filter (\<lambda>r. fr_sessionId r = k) (rs @ [r]))) (sharers (rs @ [r]))"
    by (subst ht_put_map [OF distinct_sharers]) (auto simp: sharers_snoc)
  finally show ?case .
qed (simp add: group_results_def sharers_def)

text \<open>What identifies a download to the user does not change in the loop.\<close>

definition wanted :: "download \<Rightarrow> string \<times> RequestedFile list" where
  "wanted d = (dl_remoteUserName d, dl_requestedFiles d)"

definition orders :: "download_manager \<Rightarrow> (string \<times> RequestedFile list) list" where
  "orders m = map (\<lambda>(a, d). wanted d) (dm_downloads m)"

lemma ht_put_same:
  "map_of t a = Some d \<Longrightarrow> g d' = g d \<Longrightarrow> map (\<lambda>(a, d). g d) (ht_put a d' t) = map (\<lambda>(a, d). g d) t"
  by (induction t) (auto split: if_splits)

lemma start_queued_wanted [simp]: "wanted (snd (start_queued E q d)) = wanted d"
  by (simp add: start_queued_def Start_def Let_def wanted_def SetState_def dl_emit_def split: option.split)

interpretation ordered: manager_invariant "\<lambda>m. orders m = X" E for X E
proof
  fix m q qs
  assume o: "orders m = X"
  let ?m = "m\<lparr>dm_queuedStarts := qs\<rparr>"
  show "orders (snd (call_download (qs_download q) (\<lambda>d. snd (start_queued E q d)) ?m)) = X"
  proof (cases "map_of (dm_downloads m) (qs_download q)")
    case (Some d)
    have "wanted (x\<lparr>dl_events := es\<rparr>) = wanted x" "wanted (x\<lparr>dl_world := w, dl_events := es\<rparr>) = wanted x" for x es w
      by (simp_all add: wanted_def)
    then show ?thesis using o Some
      by (simp add: call_download_def Let_def orders_def ht_put_same)
  qed (use o in \<open>simp add: call_download_def orders_def\<close>)
qed (simp_all add: orders_def)

lemma start_group_orders:
  "orders (snd (start_group L E users l n g st)) = orders (snd st) @
     (if reachable users (fst g) then [(GetDisplayName (the (FindUser users (fst g))), map request_of (snd g))] else [])"
  by (auto simp: start_group_def orders_def Let_def reachable_def wanted_def request_of_def
      split: prod.split option.split)

lemma start_groups_orders:
  "orders (snd (fold (start_group L E users l n) gs st)) = orders (snd st) @
     map (\<lambda>g. (GetDisplayName (the (FindUser users (fst g))), map request_of (snd g))) (filter (\<lambda>g. reachable users (fst g)) gs)"
  by (induction gs arbitrary: st) (simp_all add: start_group_orders)

text \<open>
  C21. Picking results makes one download per reachable sharer, in the order they were first picked,
  and each asks for exactly the files picked from that sharer, in order; nothing is asked of a sharer
  who left or cannot be reached, and the downloads there were keep their place.
\<close>

theorem one_session_per_sharer:
  "orders (StartDownloads L E results users l n m) = orders m @
     map (\<lambda>k. (GetDisplayName (the (FindUser users k)),
               map request_of (filter (\<lambda>r. fr_sessionId r = k) results)))
       (filter (reachable users) (sharers results))"
proof (cases "results = []")
  case False
  obtain b m1 where g: "fold (start_group L E users l n) (group_results results) (False, m) = (b, m1)" by fastforce
  have o: "orders m1 = orders m @ map (\<lambda>k. (GetDisplayName (the (FindUser users k)),
      map request_of (filter (\<lambda>r. fr_sessionId r = k) results))) (filter (reachable users) (sharers results))"
    using start_groups_orders [of L E users l n "group_results results" "(False, m)"] g
    by (simp add: group_results_eq filter_map comp_def)
  have "orders (dm_notify ev x) = orders x" for ev x by (simp add: orders_def)
  then show ?thesis using False g o
    by (simp add: StartDownloads_def) (simp add: ordered.StartNext)
qed (simp add: StartDownloads_def sharers_def)

subsection \<open>Cancelling what waits\<close>

lemma StartNext_empty: "dm_queuedStarts m = [] \<Longrightarrow> StartNextQueuedDownload E m = m"
  by (simp add: StartNextQueuedDownload_def)

text \<open>
  C37. A download that was cancelled while it waited is started all the same: it is still in the list,
  so the check for cancelled entries does not see it, and the next free slot connects it to its peer.
\<close>

theorem cancelled_download_starts:
  assumes "dm_queuedStarts m = [q]" "map_of (dm_downloads m) (qs_download q) = Some d"
    "dl_state d = DOWNLOAD_FAILED" "dl_requestedFiles d \<noteq> []" "dl_listener d"
    "qs_hostName q \<noteq> []" "qs_port q \<noteq> 0"
    "start_dl_thread (dm_transceiver E) = None" "connect_peer (dm_transceiver E) (qs_hostName q) (qs_port q) = None"
    "CountRunningDownloads m < unat (dm_maxSimultaneousDownloads m)"
  shows "map_option dl_state (map_of (dm_downloads (StartNextQueuedDownload E m)) (qs_download q)) =
    Some DOWNLOAD_CONNECTING"
proof -
  let ?a = "qs_download q" and ?m = "m\<lparr>dm_queuedStarts := []\<rparr>"
  let ?d = "d\<lparr>dl_world := dm_world m, dl_events := []\<rparr>"
  obtain d1 where st: "start_queued E q ?d = (DlOk, d1)" "dl_state d1 = DOWNLOAD_CONNECTING"
    "\<exists>reason. dl_events d1 = [DlStateChanged DOWNLOAD_CONNECTING reason]"
    using assms by (auto simp: start_queued_def Start_def Let_def SetState_def dl_emit_def)
  then obtain reason where ev: "dl_events d1 = [DlStateChanged DOWNLOAD_CONNECTING reason]" by blast
  define m1 where "m1 = ?m\<lparr>dm_downloads := ht_put ?a (d1\<lparr>dl_events := []\<rparr>) (dm_downloads m), dm_world := dl_world d1\<rparr>"
  have "call_download ?a (\<lambda>d. snd (start_queued E q d)) ?m = ([DlStateChanged DOWNLOAD_CONNECTING reason], m1)"
    using assms(2) st(1) ev by (simp add: call_download_def m1_def Let_def)
  moreover obtain i where "FindIndexOf ?a m1 = Some i"
    by (cases "FindIndexOf ?a m1") (auto simp: m1_def)
  ultimately have "start_one E (StartNextQueuedDownload E) q ?m = dm_notify (DownloadChanged i) m1"
    using assms(2) st(1) by (simp add: start_one_def Let_def DownloadStateChanged_def m1_def)
  then have "StartNextQueuedDownload E m = StartNextQueuedDownload E (dm_notify (DownloadChanged i) m1)"
    using assms(1,2,10) by (subst StartNext_unfold) simp
  also have "\<dots> = dm_notify (DownloadChanged i) m1" by (rule StartNext_empty) (simp add: m1_def)
  finally show ?thesis using st(2) by (simp add: m1_def)
qed

definition demo_dm_env :: dm_env where
  "demo_dm_env = \<lparr> dm_transceiver = \<lparr> start_dl_thread = None, connect_peer = (\<lambda>_ _. None) \<rparr>,
     new_address = (\<lambda>alive. Suc (fold max alive 0)) \<rparr>"

definition demo_result :: "string \<Rightarrow> FileResult" where
  "demo_result k = \<lparr> fr_sessionId = k, fr_fileName = ''a'', fr_path = [], fr_kind = [], fr_fileSize = 3,
     fr_modificationTime = 0, fr_isFirewalled = False, fr_attributes = new_message 0 \<rparr>"

definition demo_users :: registry where
  "demo_users = [(''1'', empty_user\<lparr>u_sessionId := ''1'', u_hostName := ''h'', u_port := 7000\<rparr>),
     (''2'', empty_user\<lparr>u_sessionId := ''2'', u_hostName := ''g'', u_port := 7000\<rparr>)]"

text \<open>
  Two downloads with a cap of one; the waiting one is cancelled and the manager is asked for the next
  one with the first one gone.
\<close>

definition demo_manager :: download_manager where
  "demo_manager = AbortDownload demo_dm_env 1
     (StartDownloads ref_muscle demo_dm_env [demo_result ''1'', demo_result ''2''] demo_users ''9'' ''me''
       (SetMaxSimultaneousDownloads 1 (new_manager demo_world)))"

theorem cancelled_download_starts_witness:
  "map_option dl_state (map_of (dm_downloads (StartNextQueuedDownload demo_dm_env
     (snd (call_download 1 DlSessionDisconnected demo_manager)))) 2) = Some DOWNLOAD_CONNECTING"
proof -
  let ?m = "snd (call_download 1 DlSessionDisconnected demo_manager)"
  let ?q = "\<lparr> qs_download = 2, qs_hostName = ''g'', qs_port = 7000, qs_remoteSessionId = ''2'',
     qs_localSessionId = ''9'', qs_localUserName = ''me'' \<rparr>"
  have q: "dm_queuedStarts ?m = [?q]" by code_simp
  have "map_option (\<lambda>d. (dl_state d, dl_requestedFiles d \<noteq> [], dl_listener d)) (map_of (dm_downloads ?m) 2) =
      Some (DOWNLOAD_FAILED, True, True)" by code_simp
  then obtain d where d: "map_of (dm_downloads ?m) (qs_download ?q) = Some d" "dl_state d = DOWNLOAD_FAILED"
    "dl_requestedFiles d \<noteq> []" "dl_listener d" by auto
  have free: "CountRunningDownloads ?m < unat (dm_maxSimultaneousDownloads ?m)" by code_simp
  show ?thesis
    using cancelled_download_starts [OF q d _ _ _ _ free, of demo_dm_env] by (simp add: demo_dm_env_def)
qed

end
