(* ===== verification/ConnectionManager.thy ===== *)
theory ConnectionManager
  imports ServerConnection
begin

section \<open>Several servers at once\<close>

text \<open>
  \<open>core/ConnectionManager\<close>: the connections the front end has, each an object with an address, and
  the operations that are applied to all of them. Each connection has the network of its own server;
  a new object gets the address the allocator gives it. The list is in the order of creation.
\<close>

definition kMaximumConnections :: nat where "kMaximumConnections = 8"

record ResolvedUser =
  ru_connection :: "nat option"
  ru_sessionId :: string
  ru_displayName :: string

record connection_manager =
  cm_listener :: bool
  cm_connections :: "(nat \<times> connection) list"

record cm_env =
  net :: "nat \<Rightarrow> conn_env"
  new_object :: "nat list \<Rightarrow> nat"

definition new_connections :: connection_manager where
  "new_connections = \<lparr> cm_listener = False, cm_connections = [] \<rparr>"

text \<open>A loop over the connections that calls one method on each.\<close>

definition on_all :: "(nat \<Rightarrow> connection \<Rightarrow> connection) \<Rightarrow> connection_manager \<Rightarrow> connection_manager" where
  "on_all f m = m\<lparr>cm_connections := map (\<lambda>(a, c). (a, f a c)) (cm_connections m)\<rparr>"

definition CmSetListener :: "bool \<Rightarrow> connection_manager \<Rightarrow> connection_manager" where
  "CmSetListener present m = on_all (\<lambda>a. SetListener present) (m\<lparr>cm_listener := present\<rparr>)"

definition FindByAddress :: "muscle \<Rightarrow> string \<Rightarrow> connection_manager \<Rightarrow> nat option" where
  "FindByAddress L serverAddress m =
     map_option fst (find (\<lambda>(a, c). EqualsIgnoreCase L (c_serverAddress c) serverAddress) (cm_connections m))"

definition AddConnection ::
  "muscle \<Rightarrow> cm_env \<Rightarrow> string \<Rightarrow> uint16 \<Rightarrow> connection_manager \<Rightarrow> nat option \<times> connection_manager" where
  "AddConnection L E serverAddress p m =
     (case FindByAddress L serverAddress m of
        Some existing \<Rightarrow> (Some existing, m)
      | None \<Rightarrow>
          if length (cm_connections m) \<ge> kMaximumConnections then (None, m)
          else let a = new_object E (map fst (cm_connections m));
                   c = SetListener (cm_listener m) new_connection
               in (Some a, m\<lparr>cm_connections := cm_connections m @ [(a, snd (ConnectToServer (net E a) serverAddress p c))]\<rparr>))"

text \<open>
  \<open>RemoveConnection\<close> and \<open>RemoveAll\<close> detach the listener and disconnect before they delete; the
  object that is torn down is gone from the list, and what it did on its way out is the second
  result.
\<close>

definition tear_down :: "connection \<Rightarrow> connection" where
  "tear_down c = DisconnectFromServer (SetListener False c)"

definition RemoveConnection ::
  "nat \<Rightarrow> connection_manager \<Rightarrow> bool \<times> connection option \<times> connection_manager" where
  "RemoveConnection a m =
     (case map_of (cm_connections m) a of
        None \<Rightarrow> (False, None, m)
      | Some c \<Rightarrow> (True, Some (tear_down c), m\<lparr>cm_connections := ht_remove a (cm_connections m)\<rparr>))"

definition RemoveAll :: "connection_manager \<Rightarrow> connection list \<times> connection_manager" where
  "RemoveAll m = (map (\<lambda>(a, c). tear_down c) (cm_connections m), m\<lparr>cm_connections := []\<rparr>)"

definition CmGetAt :: "nat \<Rightarrow> connection_manager \<Rightarrow> nat option" where
  "CmGetAt i m = (if i < length (cm_connections m) then Some (fst (cm_connections m ! i)) else None)"

definition GetPrimary :: "connection_manager \<Rightarrow> nat option" where
  "GetPrimary m =
     (case find (\<lambda>(a, c). IsConnected c) (cm_connections m) of
        Some (a, c) \<Rightarrow> Some a
      | None \<Rightarrow> (case cm_connections m of [] \<Rightarrow> None | (a, c) # _ \<Rightarrow> Some a))"

definition GetConnectedCount :: "connection_manager \<Rightarrow> nat" where
  "GetConnectedCount m = length (filter (\<lambda>(a, c). IsConnected c) (cm_connections m))"

definition IsAnyConnected :: "connection_manager \<Rightarrow> bool" where
  "IsAnyConnected m \<longleftrightarrow> GetConnectedCount m > 0"

definition GetTotalUserCount :: "connection_manager \<Rightarrow> uint32" where
  "GetTotalUserCount m = sum_list (map (\<lambda>(a, c). of_nat (GetUserCount (c_users c))) (cm_connections m))"

subsection \<open>Applied to every connection\<close>

definition CmSetInstallId :: "uint64 \<Rightarrow> connection_manager \<Rightarrow> connection_manager" where
  "CmSetInstallId installId = on_all (\<lambda>a. SetInstallId installId)"

definition CmSetLocalUserName :: "muscle \<Rightarrow> cm_env \<Rightarrow> string \<Rightarrow> connection_manager \<Rightarrow> connection_manager" where
  "CmSetLocalUserName L E userName = on_all (\<lambda>a. SetLocalUserName L (net E a) userName)"

definition CmSetLocalUserStatus :: "muscle \<Rightarrow> cm_env \<Rightarrow> string \<Rightarrow> connection_manager \<Rightarrow> connection_manager" where
  "CmSetLocalUserStatus L E s = on_all (\<lambda>a. SetLocalUserStatus L (net E a) s)"

definition CmSetFirewalled :: "muscle \<Rightarrow> cm_env \<Rightarrow> bool \<Rightarrow> connection_manager \<Rightarrow> connection_manager" where
  "CmSetFirewalled L E b = on_all (\<lambda>a. SetFirewalled L (net E a) b)"

definition CmSetAdvertisedPort :: "muscle \<Rightarrow> cm_env \<Rightarrow> int32 \<Rightarrow> connection_manager \<Rightarrow> connection_manager" where
  "CmSetAdvertisedPort L E p = on_all (\<lambda>a. SetAdvertisedPort L (net E a) p)"

definition ConnectAll :: "cm_env \<Rightarrow> connection_manager \<Rightarrow> connection_manager" where
  "ConnectAll E = on_all (\<lambda>a c.
     if c_state c = CONNECTION_DISCONNECTED \<and> c_serverAddress c \<noteq> []
     then snd (ConnectToServer (net E a) (c_serverAddress c) (c_serverPort c) c) else c)"

definition DisconnectAll :: "connection_manager \<Rightarrow> connection_manager" where
  "DisconnectAll = on_all (\<lambda>a. DisconnectFromServer)"

definition CmPerformIdleTasks :: "muscle \<Rightarrow> cm_env \<Rightarrow> connection_manager \<Rightarrow> connection_manager" where
  "CmPerformIdleTasks L E = on_all (\<lambda>a. PerformIdleTasks L (net E a))"

definition SendChatToAll :: "muscle \<Rightarrow> cm_env \<Rightarrow> string \<Rightarrow> connection_manager \<Rightarrow> connection_manager" where
  "SendChatToAll L E t = on_all (\<lambda>a c. if IsConnected c then SendChatText L (net E a) ''*'' t c else c)"

definition StartQueryOnAll ::
  "muscle \<Rightarrow> cm_env \<Rightarrow> string \<Rightarrow> string \<Rightarrow> connection_manager \<Rightarrow> connection_manager" where
  "StartQueryOnAll L E se fe = on_all (\<lambda>a c. if IsConnected c then StartQuery L (net E a) se fe c else c)"

definition StopQueryOnAll :: "muscle \<Rightarrow> cm_env \<Rightarrow> connection_manager \<Rightarrow> connection_manager" where
  "StopQueryOnAll L E = on_all (\<lambda>a. StopQuery L (net E a))"

definition IsAnyQueryActive :: "connection_manager \<Rightarrow> bool" where
  "IsAnyQueryActive m \<longleftrightarrow> list_ex (\<lambda>(a, c). c_queryActive c) (cm_connections m)"

definition PublishSharedFilesOnAll ::
  "muscle \<Rightarrow> cm_env \<Rightarrow> SharedFile list \<Rightarrow> connection_manager \<Rightarrow> connection_manager" where
  "PublishSharedFilesOnAll L E fs = on_all (\<lambda>a. PublishSharedFiles L (net E a) fs)"

definition CmUnpublishAllSharedFiles :: "muscle \<Rightarrow> cm_env \<Rightarrow> connection_manager \<Rightarrow> connection_manager" where
  "CmUnpublishAllSharedFiles L E = on_all (\<lambda>a. UnpublishAllSharedFiles L (net E a))"

definition PublishSharedFileCountOnAll ::
  "muscle \<Rightarrow> cm_env \<Rightarrow> uint32 \<Rightarrow> connection_manager \<Rightarrow> connection_manager" where
  "PublishSharedFileCountOnAll L E n = on_all (\<lambda>a. PublishSharedFileCount L (net E a) n)"

subsection \<open>Users across servers\<close>

definition ResolveToUsers :: "muscle \<Rightarrow> string \<Rightarrow> connection_manager \<Rightarrow> ResolvedUser list" where
  "ResolveToUsers L nameOrSessionId m =
     concat (map (\<lambda>(a, c). map (\<lambda>sid.
         \<lparr> ru_connection = Some a, ru_sessionId = sid,
           ru_displayName = GetDisplayNameForSession (c_users c) sid \<rparr>)
       (ResolveToSessionIds L (c_users c) nameOrSessionId)) (cm_connections m))"

definition FindUserBySessionId :: "string \<Rightarrow> connection_manager \<Rightarrow> ResolvedUser" where
  "FindUserBySessionId sid m =
     (case find (\<lambda>(a, c). FindUser (c_users c) sid \<noteq> None) (cm_connections m) of
        Some (a, c) \<Rightarrow>
          \<lparr> ru_connection = Some a, ru_sessionId = sid,
            ru_displayName = (case FindUser (c_users c) sid of Some u \<Rightarrow> GetDisplayName u | None \<Rightarrow> []) \<rparr>
      | None \<Rightarrow> \<lparr> ru_connection = None, ru_sessionId = [], ru_displayName = [] \<rparr>)"

end
