(* ===== verification/ServersLaws.thy ===== *)
theory ServersLaws
  imports ConnectionManager ConnectionLaws
begin

section \<open>What holds across the servers\<close>

text \<open>
  The lemmas and properties of \<open>ConnectionManager\<close>. A law of one connection becomes a law of all of
  them by the locale \<open>connection_law\<close>: what a fresh connection satisfies and every call and callback
  keeps holds for every connection the manager has, whatever is done to the manager. It is
  interpreted on the invariant of \<open>ConnectionLaws\<close>.
\<close>

subsection \<open>What can happen\<close>

text \<open>
  The calls of the front end on the manager and on one of its connections, and what the transceivers
  deliver. As before a message is delivered only while there is a session.
\<close>

datatype cm_op =
    CmAdd string uint16 | CmRemove nat | CmRemoveAll | CmConnectAll | CmDisconnectAll | CmIdle
  | CmInstallId uint64 | CmName string | CmStatus string | CmFirewalled bool | CmPort int32
  | CmChat string | CmQuery string string | CmStopQuery
  | CmPublish "SharedFile list" | CmUnpublish | CmCount uint32
  | CmOne nat conn_op

definition on_one :: "nat \<Rightarrow> (connection \<Rightarrow> connection) \<Rightarrow> connection_manager \<Rightarrow> connection_manager" where
  "on_one k f m = m\<lparr>cm_connections := map (\<lambda>(a, c). (a, if a = k then f c else c)) (cm_connections m)\<rparr>"

definition deliverable :: "conn_op \<Rightarrow> connection \<Rightarrow> bool" where
  "deliverable op c \<longleftrightarrow> (case op of CbMessage m \<Rightarrow> c_state c \<noteq> CONNECTION_DISCONNECTED | _ \<Rightarrow> True)"

fun run_cm :: "muscle \<Rightarrow> cm_env \<Rightarrow> cm_op \<Rightarrow> connection_manager \<Rightarrow> connection_manager" where
  "run_cm L E (CmAdd h p) m = snd (AddConnection L E h p m)"
| "run_cm L E (CmRemove a) m = snd (snd (RemoveConnection a m))"
| "run_cm L E CmRemoveAll m = snd (RemoveAll m)"
| "run_cm L E CmConnectAll m = ConnectAll E m"
| "run_cm L E CmDisconnectAll m = DisconnectAll m"
| "run_cm L E CmIdle m = CmPerformIdleTasks L E m"
| "run_cm L E (CmInstallId i) m = CmSetInstallId i m"
| "run_cm L E (CmName n) m = CmSetLocalUserName L E n m"
| "run_cm L E (CmStatus s) m = CmSetLocalUserStatus L E s m"
| "run_cm L E (CmFirewalled b) m = CmSetFirewalled L E b m"
| "run_cm L E (CmPort p) m = CmSetAdvertisedPort L E p m"
| "run_cm L E (CmChat t) m = SendChatToAll L E t m"
| "run_cm L E (CmQuery se fe) m = StartQueryOnAll L E se fe m"
| "run_cm L E CmStopQuery m = StopQueryOnAll L E m"
| "run_cm L E (CmPublish fs) m = PublishSharedFilesOnAll L E fs m"
| "run_cm L E CmUnpublish m = CmUnpublishAllSharedFiles L E m"
| "run_cm L E (CmCount n) m = PublishSharedFileCountOnAll L E n m"
| "run_cm L E (CmOne a op) m = on_one a (\<lambda>c. if deliverable op c then run_op L (net E a) op c else c) m"

text \<open>Every operation on all connections is, on each, one call or none.\<close>

fun part_of :: "cm_op \<Rightarrow> nat \<Rightarrow> connection \<Rightarrow> conn_op option" where
  "part_of CmConnectAll a c = (if c_state c = CONNECTION_DISCONNECTED \<and> c_serverAddress c \<noteq> []
     then Some (OpConnect (c_serverAddress c) (c_serverPort c)) else None)"
| "part_of CmDisconnectAll a c = Some OpDisconnect"
| "part_of CmIdle a c = Some OpIdle"
| "part_of (CmInstallId i) a c = Some (OpSetInstallId i)"
| "part_of (CmName n) a c = Some (OpSetName n)"
| "part_of (CmStatus s) a c = Some (OpSetStatus s)"
| "part_of (CmFirewalled b) a c = Some (OpSetFirewalled b)"
| "part_of (CmPort p) a c = Some (OpSetPort p)"
| "part_of (CmChat t) a c = (if IsConnected c then Some (OpSendChat ''*'' t) else None)"
| "part_of (CmQuery se fe) a c = (if IsConnected c then Some (OpStartQuery se fe) else None)"
| "part_of CmStopQuery a c = Some OpStopQuery"
| "part_of (CmPublish fs) a c = Some (OpPublish fs)"
| "part_of CmUnpublish a c = Some OpUnpublish"
| "part_of (CmCount n) a c = Some (OpPublishCount n)"
| "part_of (CmOne k op) a c = (if a = k \<and> deliverable op c then Some op else None)"
| "part_of _ a c = None"

fun structural :: "cm_op \<Rightarrow> bool" where
  "structural (CmAdd h p) = True"
| "structural (CmRemove a) = True"
| "structural CmRemoveAll = True"
| "structural _ = False"

definition step_one :: "muscle \<Rightarrow> cm_env \<Rightarrow> cm_op \<Rightarrow> nat \<Rightarrow> connection \<Rightarrow> connection" where
  "step_one L E op a c = (case part_of op a c of None \<Rightarrow> c | Some p \<Rightarrow> run_op L (net E a) p c)"

lemma run_cm_each:
  "\<not> structural op \<Longrightarrow> cm_connections (run_cm L E op m) = map (\<lambda>(a, c). (a, step_one L E op a c)) (cm_connections m)"
  by (cases op)
    (auto simp: step_one_def on_one_def on_all_def ConnectAll_def DisconnectAll_def CmPerformIdleTasks_def CmSetInstallId_def
      CmSetLocalUserName_def CmSetLocalUserStatus_def CmSetFirewalled_def CmSetAdvertisedPort_def SendChatToAll_def
      StartQueryOnAll_def StopQueryOnAll_def PublishSharedFilesOnAll_def CmUnpublishAllSharedFiles_def
      PublishSharedFileCountOnAll_def fun_eq_iff)

lemma run_cm_listener [simp]: "cm_listener (run_cm L E op m) = cm_listener m"
  by (cases op)
    (auto simp: on_one_def on_all_def ConnectAll_def DisconnectAll_def CmPerformIdleTasks_def CmSetInstallId_def
      CmSetLocalUserName_def CmSetLocalUserStatus_def CmSetFirewalled_def CmSetAdvertisedPort_def SendChatToAll_def
      StartQueryOnAll_def StopQueryOnAll_def PublishSharedFilesOnAll_def CmUnpublishAllSharedFiles_def
      PublishSharedFileCountOnAll_def AddConnection_def RemoveConnection_def RemoveAll_def Let_def
      split: option.split)

subsection \<open>Laws of one connection become laws of all\<close>

locale connection_law =
  fixes I :: "connection \<Rightarrow> bool" and L :: muscle and E :: cm_env
  assumes fresh: "I (SetListener True new_connection)"
    and kept: "I c \<Longrightarrow> deliverable op c \<Longrightarrow> I (run_op L (net E a) op c)"
begin

definition everywhere :: "connection_manager \<Rightarrow> bool" where
  "everywhere m \<longleftrightarrow> cm_listener m \<and> (\<forall>(a, c) \<in> set (cm_connections m). I c)"

lemma added: "everywhere m \<Longrightarrow> everywhere (snd (AddConnection L E h p m))"
  using kept [OF fresh, of "OpConnect h p"]
  by (auto simp: everywhere_def AddConnection_def Let_def deliverable_def split: option.split)

lemma part_deliverable: "part_of op a c = Some x \<Longrightarrow> deliverable x c"
  by (cases op) (auto simp: deliverable_def split: if_splits)

lemma stepped: "everywhere m \<Longrightarrow> everywhere (run_cm L E op m)"
proof (cases "structural op")
  case False
  assume "everywhere m"
  then show ?thesis using kept part_deliverable
    by (fastforce simp: everywhere_def run_cm_each [OF False] step_one_def split: option.split)
next
  case True
  assume e: "everywhere m"
  show ?thesis
  proof (cases op)
    case (CmAdd h p)
    then show ?thesis using added [OF e] by simp
  qed (use True e in \<open>auto simp: everywhere_def RemoveConnection_def RemoveAll_def split: option.split\<close>)
qed

lemma always: "everywhere m \<Longrightarrow> everywhere (fold (run_cm L E) ops m)"
  by (induction ops arbitrary: m) (simp_all add: stepped)

lemma from_start: "everywhere (fold (run_cm L E) ops (CmSetListener True new_connections))"
  by (rule always) (simp add: everywhere_def CmSetListener_def new_connections_def on_all_def)

end

interpretation views: connection_law conn_inv L E for L E
proof
  show "conn_inv (SetListener True new_connection)"
    using conn_reach_inv [OF conn_start] .
  show "conn_inv c \<Longrightarrow> deliverable op c \<Longrightarrow> conn_inv (run_op L (net E a) op c)" for c op a
    by (rule conn_inv_op) (auto simp: deliverable_def)
qed

text \<open>
  On every server at once, whatever the front end does and the servers send: what the callbacks of
  a connection told is exactly what that connection knows, so no event of one server shows up in
  the view of another.
\<close>

theorem views_on_every_server:
  assumes "map_of (cm_connections (fold (run_cm L E) ops (CmSetListener True new_connections))) a = Some c"
  shows "listener_view (c_events c) = FindUser (c_users c) \<and>
    (c_state c = CONNECTION_DISCONNECTED \<longrightarrow> GetUserCount (c_users c) = 0)"
  using views.from_start [of L E ops] map_of_SomeD [OF assms]
  by (auto simp: views.everywhere_def conn_inv_def GetUserCount_def)

subsection \<open>One connection per server\<close>

lemma small_frames [simp]:
  "c_serverAddress (notify ev c) = c_serverAddress c" "c_serverAddress (SendToServer E m c) = c_serverAddress c"
  "c_serverAddress (SetConnectionState st c) = c_serverAddress c" "c_serverAddress (ReportToUser ty t c) = c_serverAddress c"
  "c_serverAddress (NotifyUserUpdated k b c) = c_serverAddress c" "c_serverAddress (SetDataNodeValue L E p m c) = c_serverAddress c"
  "c_serverAddress (PublishLocalUserName L E c) = c_serverAddress c"
  "c_serverAddress (PublishLocalUserStatus L E c) = c_serverAddress c"
  "c_serverAddress (snd (read_clock E c)) = c_serverAddress c" "c_serverAddress (DisconnectFromServer c) = c_serverAddress c"
  "c_serverAddress (UnpublishAllSharedFiles L E c) = c_serverAddress c" "c_serverAddress (StopQuery L E c) = c_serverAddress c"
  by (simp_all add: notify_def SendToServer_def SetConnectionState_def ReportToUser_def NotifyUserUpdated_def
      SetDataNodeValue_def PublishLocalUserName_def PublishLocalUserStatus_def read_clock_def DisconnectFromServer_def
      UnpublishAllSharedFiles_def StopQuery_def Let_def split: option.split)

lemma publish_loop_address [simp]: "c_serverAddress (publish_loop L E p fs b n c) = c_serverAddress c"
  by (induction L E p fs b n c rule: publish_loop.induct) (simp_all add: Let_def split: option.split prod.split)

lemma node_address:
  "c_serverAddress (HandleNodeRemoved L p c) = c_serverAddress c" "c_serverAddress (HandleNodeUpdated L p m c) = c_serverAddress c"
  by (auto simp: HandleNodeRemoved_def HandleNodeUpdated_def HandleFileNode_def HandleUserNode_def Let_def
      split: option.split prod.split)

lemma items_address [simp]: "c_serverAddress (HandleDataItems L m c) = c_serverAddress c"
proof -
  have "c_serverAddress (fold (HandleNodeRemoved L) ps c) = c_serverAddress c" for ps c
    by (induction ps arbitrary: c) (simp_all add: node_address)
  moreover have "c_serverAddress (fold (\<lambda>n c. case find_message m n of Some nd \<Rightarrow> HandleNodeUpdated L n nd c | None \<Rightarrow> c) ns c) =
      c_serverAddress c" for ns c
    by (induction ns arbitrary: c) (simp_all add: node_address split: option.split)
  ultimately show ?thesis by (simp add: HandleDataItems_def)
qed

lemma message_address [simp]: "c_serverAddress (MessageReceived L E m c) = c_serverAddress c"
  by (simp add: MessageReceived_def HandleParameters_def HandleQueryPong_def HandleChatText_def HandlePing_def
      HandlePong_def read_clock_def Let_def split: option.split)

lemma connect_address:
  "c_serverAddress (snd (ConnectToServer E h p c)) = (if h = [] then c_serverAddress c else h)"
  by (simp add: ConnectToServer_def Let_def split: option.split)

fun is_connect :: "conn_op \<Rightarrow> bool" where
  "is_connect (OpConnect h p) = True"
| "is_connect _ = False"

lemma run_op_address:
  "\<not> is_connect op \<Longrightarrow> c_serverAddress (run_op L E op c) = c_serverAddress c"
  by (cases op)
    (simp_all add: SetLocalUserName_def SetLocalUserStatus_def SetInstallId_def SendChatText_def SendPing_def
      StartQuery_def SetFirewalled_def SetAdvertisedPort_def PublishSharedFiles_def PublishSharedFileCount_def
      PerformIdleTasks_def SessionConnected_def SessionDisconnected_def SessionDetached_def SubscribeToUsers_def
      RequestSessionParameters_def read_clock_def Let_def split: option.split)

definition servers :: "muscle \<Rightarrow> connection_manager \<Rightarrow> string list" where
  "servers L m = map (\<lambda>(a, c). ToLowerCase L (c_serverAddress c)) (cm_connections m)"

fun redials :: "cm_op \<Rightarrow> bool" where
  "redials (CmOne a (OpConnect h p)) = True"
| "redials _ = False"

lemma part_connects:
  "\<not> redials op \<Longrightarrow> part_of op a c = Some x \<Longrightarrow> is_connect x \<Longrightarrow> x = OpConnect (c_serverAddress c) (c_serverPort c)"
proof (cases op)
  case (CmOne k y)
  then show "\<not> redials op \<Longrightarrow> part_of op a c = Some x \<Longrightarrow> is_connect x \<Longrightarrow> x = OpConnect (c_serverAddress c) (c_serverPort c)"
    by (cases y) (auto split: if_splits)
qed (auto split: if_splits)

lemma step_one_address:
  assumes "\<not> redials op"
  shows "c_serverAddress (step_one L E op a c) = c_serverAddress c"
proof (cases "part_of op a c")
  case (Some x)
  then show ?thesis using part_connects [OF assms Some]
    by (cases "is_connect x") (simp_all add: step_one_def connect_address run_op_address)
qed (simp add: step_one_def)

lemma FindByAddress_None:
  "ignore_case_law L \<Longrightarrow> FindByAddress L h m = None \<longleftrightarrow> ToLowerCase L h \<notin> set (servers L m)"
  by (fastforce simp: FindByAddress_def servers_def ignore_case_law_def find_None_iff image_iff)

lemma servers_step:
  assumes "ignore_case_law L" "\<not> redials op" "distinct (servers L m)" "length (servers L m) \<le> kMaximumConnections"
  shows "distinct (servers L (run_cm L E op m)) \<and> length (servers L (run_cm L E op m)) \<le> kMaximumConnections"
proof (cases "structural op")
  case False
  have "servers L (run_cm L E op m) = servers L m"
    using assms(2) by (auto simp: servers_def run_cm_each [OF False] step_one_address)
  then show ?thesis using assms(3,4) by simp
next
  case True
  then consider h p where "op = CmAdd h p" | a where "op = CmRemove a" | "op = CmRemoveAll" by (cases op) auto
  then show ?thesis
  proof cases
    case 1
    show ?thesis
    proof (cases "FindByAddress L h m = None \<and> length (cm_connections m) < kMaximumConnections")
      case True
      then have "servers L (run_cm L E op m) = servers L m @ [ToLowerCase L h]"
        using 1 by (simp add: AddConnection_def servers_def Let_def connect_address SetListener_def new_connection_def)
      then show ?thesis using True assms FindByAddress_None [OF assms(1)] by (simp add: servers_def)
    next
      case False
      then have "run_cm L E op m = m" using 1 by (auto simp: AddConnection_def split: option.split)
      then show ?thesis using assms by simp
    qed
  next
    case 2
    have "servers L (m\<lparr>cm_connections := ht_remove a (cm_connections m)\<rparr>) =
        map (\<lambda>(a, c). ToLowerCase L (c_serverAddress c)) (filter (\<lambda>e. fst e \<noteq> a) (cm_connections m))" for a
      by (simp add: servers_def ht_remove_def)
    then show ?thesis using 2 assms(3,4)
      by (auto simp: RemoveConnection_def distinct_map_filter servers_def ht_remove_def split: option.split
          intro: order_trans [OF length_filter_le])
  next
    case 3
    then show ?thesis by (simp add: RemoveAll_def servers_def)
  qed
qed

lemma servers_history:
  assumes "ignore_case_law L" "list_all (\<lambda>op. \<not> redials op) ops" "distinct (servers L m)"
    "length (servers L m) \<le> kMaximumConnections"
  shows "distinct (servers L (fold (run_cm L E) ops m)) \<and>
    length (servers L (fold (run_cm L E) ops m)) \<le> kMaximumConnections"
  using assms(2-4)
proof (induction ops arbitrary: m)
  case (Cons op ops)
  have "distinct (servers L (run_cm L E op m)) \<and> length (servers L (run_cm L E op m)) \<le> kMaximumConnections"
    by (rule servers_step [OF assms(1)]) (use Cons.prems in simp_all)
  then show ?case using Cons.IH [of "run_cm L E op m"] Cons.prems(1) by simp
qed simp

text \<open>
  There is at most one connection per server, compared without regard to case, and never more than
  the maximum, whatever is added, removed, connected or delivered.
\<close>

theorem one_connection_per_server:
  assumes "ignore_case_law L" "list_all (\<lambda>op. \<not> redials op) ops"
  shows "distinct (servers L (fold (run_cm L E) ops new_connections)) \<and>
    length (servers L (fold (run_cm L E) ops new_connections)) \<le> kMaximumConnections"
proof (rule servers_history [OF assms(1,2)])
  show "distinct (servers L new_connections)" "length (servers L new_connections) \<le> kMaximumConnections"
    by (simp_all add: servers_def new_connections_def)
qed

definition demo_cm_env :: cm_env where
  "demo_cm_env = \<lparr> net = (\<lambda>_. demo_net), new_object = (\<lambda>alive. Suc (fold max alive 0)) \<rparr>"

theorem one_connection_per_server_witness:
  "length (servers ref_muscle (fold (run_cm ref_muscle demo_cm_env) [CmAdd ''h'' 1, CmAdd ''H'' 2, CmConnectAll]
     new_connections)) \<le> kMaximumConnections"
proof -
  have "ignore_case_law ref_muscle" using ref_muscle_laws by (simp add: muscle_laws_def)
  then show ?thesis
    by (rule one_connection_per_server [THEN conjunct2]) simp
qed

theorem views_on_every_server_witness:
  "let m = fold (run_cm ref_muscle demo_cm_env)
       [CmAdd ''s'' 0, CmOne 1 (CbMessage (name_update ''/h/7/beshare/name'' ''ann''))] (CmSetListener True new_connections)
   in map_option (\<lambda>c. map_option u_userName (listener_view (c_events c) ''7'')) (map_of (cm_connections m) 1) = Some (Some ''ann'')"
proof -
  let ?ops = "[CmAdd ''s'' 0, CmOne 1 (CbMessage (name_update ''/h/7/beshare/name'' ''ann''))]"
  let ?c1 = "run_op ref_muscle demo_net (OpConnect ''s'' 0) (SetListener True new_connection)"
  let ?c2 = "run_op ref_muscle demo_net (CbMessage (name_update ''/h/7/beshare/name'' ''ann'')) ?c1"
  have up: "c_state ?c1 \<noteq> CONNECTION_DISCONNECTED" by code_simp
  have m: "map_of (cm_connections (fold (run_cm ref_muscle demo_cm_env) ?ops (CmSetListener True new_connections))) 1 = Some ?c2"
    using up by (simp add: AddConnection_def FindByAddress_def CmSetListener_def new_connections_def on_all_def
        kMaximumConnections_def demo_cm_env_def on_one_def deliverable_def Let_def)
  have "map_option u_userName (FindUser (c_users ?c2) ''7'') = Some ''ann''" by code_simp
  then show ?thesis using views_on_every_server [OF m] unfolding Let_def m by (simp del: run_op.simps)
qed

subsection \<open>What is lost on the way to a new connection\<close>

text \<open>The first thing a connection with the default identity tells its server.\<close>

lemma fresh_connection:
  assumes "h \<noteq> []" "start_thread E = None" "connect_session E h (if p > 0 then p else kDefaultServerPort) = None"
  shows "c_localUserName (snd (ConnectToServer E h p (SetListener b new_connection))) = ''binky''"
    "c_installId (snd (ConnectToServer E h p (SetListener b new_connection))) = 0"
    "c_out (snd (ConnectToServer E h p (SetListener b new_connection))) = []"
    "c_advertisedPort (snd (ConnectToServer E h p (SetListener b new_connection))) = 0"
  using assms
  by (simp_all add: ConnectToServer_def DisconnectFromServer_def SetListener_def new_connection_def
      notify_def SetConnectionState_def ReportToUser_def Let_def)

lemma announces_default:
  assumes "\<And>msg. accepts E msg" "c_localUserName c = ''binky''" "c_installId c = 0" "c_out c = []" "c_advertisedPort c = 0"
  shows "\<exists>node. find_message (hd (c_out (SessionConnected L E x c))) BESHARE_NODE_NAME = Some node \<and>
       find_string node BESHARE_FIELD_NAME = Some ''binky'' \<and> find_int64 node BESHARE_FIELD_INSTALL_ID = Some 0"
proof -
  define node where "node = add_string (add_string (add_int64 (add_int32 (add_string (new_message 0) BESHARE_FIELD_NAME ''binky'')
      BESHARE_FIELD_PORT 0) BESHARE_FIELD_INSTALL_ID 0) BESHARE_FIELD_VERSION_NAME HITUX_SHARE_NAME)
      BESHARE_FIELD_VERSION_NUMBER HITUX_SHARE_VERSION_STRING"
  have "hd (c_out (SessionConnected L E x c)) = add_message (new_message (PR_COMMAND_SETDATA L)) BESHARE_NODE_NAME node"
    using assms
    by (simp add: SessionConnected_def read_clock_def SetConnectionState_def ReportToUser_def notify_def
        PublishLocalUserName_def PublishLocalUserStatus_def SetDataNodeValue_def SendToServer_def SubscribeToUsers_def
        RequestSessionParameters_def Let_def node_def)
  moreover have "find_string node BESHARE_FIELD_NAME = Some ''binky''" "find_int64 node BESHARE_FIELD_INSTALL_ID = Some 0"
    by (simp_all add: node_def finds)
  ultimately show ?thesis by (auto simp: find_message_def)
qed

text \<open>
  The name and the installation ID that are set before a connection exists reach nobody: they are
  handed to the connections there are and kept nowhere, so a connection that is added later
  introduces itself to its server under the default name with the installation ID zero.
\<close>

theorem identity_of_new_connection:
  assumes "h \<noteq> []" "start_thread (net E a) = None" "connect_session (net E a) h p = None"
    "\<And>msg. accepts (net E a) msg" "a = new_object E []" "p > 0"
  shows "\<exists>c. cm_connections (fold (run_cm L E) [CmInstallId i, CmName n, CmAdd h p, CmOne a (CbConnected x)]
      (CmSetListener True new_connections)) = [(a, c)] \<and>
    (\<exists>node. find_message (hd (c_out c)) BESHARE_NODE_NAME = Some node \<and>
       find_string node BESHARE_FIELD_NAME = Some ''binky'' \<and> find_int64 node BESHARE_FIELD_INSTALL_ID = Some 0)"
proof -
  let ?c0 = "snd (ConnectToServer (net E a) h p (SetListener True new_connection))"
  have "cm_connections (fold (run_cm L E) [CmInstallId i, CmName n, CmAdd h p, CmOne a (CbConnected x)]
      (CmSetListener True new_connections)) = [(a, SessionConnected L (net E a) x ?c0)]"
    using assms(5)
    by (simp add: CmSetListener_def new_connections_def on_all_def CmSetInstallId_def CmSetLocalUserName_def
        AddConnection_def FindByAddress_def kMaximumConnections_def Let_def on_one_def deliverable_def)
  moreover have "\<exists>node. find_message (hd (c_out (SessionConnected L (net E a) x ?c0))) BESHARE_NODE_NAME = Some node \<and>
       find_string node BESHARE_FIELD_NAME = Some ''binky'' \<and> find_int64 node BESHARE_FIELD_INSTALL_ID = Some 0"
    using assms fresh_connection [of h "net E a" p True] by (intro announces_default) simp_all
  ultimately show ?thesis by auto
qed

theorem identity_of_new_connection_witness:
  "\<exists>c. cm_connections (fold (run_cm ref_muscle demo_cm_env) [CmInstallId 77, CmName ''ann'', CmAdd ''h'' 1, CmOne 1 (CbConnected ''x'')]
      (CmSetListener True new_connections)) = [(1, c)] \<and>
    (\<exists>node. find_message (hd (c_out c)) BESHARE_NODE_NAME = Some node \<and>
       find_string node BESHARE_FIELD_NAME = Some ''binky'' \<and> find_int64 node BESHARE_FIELD_INSTALL_ID = Some 0)"
  by (rule identity_of_new_connection) (simp_all add: demo_cm_env_def demo_net_def)

text \<open>
  A server that was left cannot be joined again by adding it: after everything was disconnected,
  adding a server that is still in the list returns the old connection and does not dial it, so every
  connection stays disconnected.
\<close>

theorem adding_a_known_server:
  assumes "FindByAddress L h m = Some a"
  shows "AddConnection L E h p (DisconnectAll m) = (Some a, DisconnectAll m) \<and> \<not> IsAnyConnected (DisconnectAll m)"
proof -
  have down: "c_state (DisconnectFromServer c) = CONNECTION_DISCONNECTED" for c
    by (simp add: DisconnectFromServer_def Let_def SetConnectionState_def ReportToUser_def notify_def)
  have same: "find (\<lambda>(a, c). EqualsIgnoreCase L (c_serverAddress c) h) (map (\<lambda>(a, c). (a, DisconnectFromServer c)) cs) =
      map_option (\<lambda>(a, c). (a, DisconnectFromServer c)) (find (\<lambda>(a, c). EqualsIgnoreCase L (c_serverAddress c) h) cs)" for cs
    by (induction cs) auto
  have "FindByAddress L h (DisconnectAll m) = Some a"
    using assms by (auto simp: FindByAddress_def DisconnectAll_def on_all_def same)
  moreover have "filter ((\<lambda>(a, c). IsConnected c) \<circ> (\<lambda>(a, c). (a, DisconnectFromServer c))) cs = []" for cs
    using down by (induction cs) auto
  ultimately show ?thesis
    by (simp add: AddConnection_def IsAnyConnected_def GetConnectedCount_def DisconnectAll_def on_all_def)
qed

theorem adding_a_known_server_witness:
  "let m = run_cm ref_muscle demo_cm_env (CmAdd ''h'' 1) (CmSetListener True new_connections)
   in AddConnection ref_muscle demo_cm_env ''h'' 1 (DisconnectAll m) = (Some 1, DisconnectAll m)"
proof -
  have "FindByAddress ref_muscle ''h'' (run_cm ref_muscle demo_cm_env (CmAdd ''h'' 1) (CmSetListener True new_connections)) = Some 1"
    by code_simp
  then show ?thesis using adding_a_known_server unfolding Let_def by blast
qed


end
