(* ===== verification/Settings.thy ===== *)
theory Settings
  imports FileDownload
begin

section \<open>The settings\<close>

text \<open>
  \<open>core/ApplicationSettings\<close>: everything the program remembers is one \<open>muscle::Message\<close> (\<open>fSettings\<close>),
  which is also the file format. A getter reads a field and repairs what it finds; a setter replaces
  it. The model's state is the message. The environment variables, the random number and MUSCLE's
  archive format are parameters; the files are the \<open>world\<close> of the downloads.
\<close>

subsection \<open>Field names and defaults\<close>

definition kFieldUserName :: string where "kFieldUserName = ''username''"
definition kFieldUserStatus :: string where "kFieldUserStatus = ''userstatus''"
definition kFieldAwayStatus :: string where "kFieldAwayStatus = ''awaystatus''"
definition kFieldServerAddress :: string where "kFieldServerAddress = ''server''"
definition kFieldServerPort :: string where "kFieldServerPort = ''serverport''"
definition kFieldInstallId :: string where "kFieldInstallId = ''installid''"
definition kFieldConnectOnStartup :: string where "kFieldConnectOnStartup = ''connectonstartup''"
definition kFieldNotificationsEnabled :: string where "kFieldNotificationsEnabled = ''notifications''"
definition kFieldDownloadDirectory :: string where "kFieldDownloadDirectory = ''downloaddir''"
definition kFieldRetainFilePaths :: string where "kFieldRetainFilePaths = ''retainfilepaths''"
definition kFieldMaxDownloads :: string where "kFieldMaxDownloads = ''maxdownloads''"
definition kFieldMaxUploads :: string where "kFieldMaxUploads = ''maxuploads''"
definition kFieldMaxDownloadRate :: string where "kFieldMaxDownloadRate = ''maxdownloadrate''"
definition kFieldMaxUploadRate :: string where "kFieldMaxUploadRate = ''maxuploadrate''"
definition kFieldFirewalled :: string where "kFieldFirewalled = ''firewalled''"
definition kFieldAutoClear :: string where "kFieldAutoClear = ''autoclear''"
definition kFieldChatFontPointSize :: string where "kFieldChatFontPointSize = ''chatfontsize''"
definition kFieldExtraServers :: string where "kFieldExtraServers = ''extraserver''"
definition kFieldAutoUpdateServers :: string where "kFieldAutoUpdateServers = ''autoupdateservers''"
definition kFieldRecentUserNames :: string where "kFieldRecentUserNames = ''usernamelist''"
definition kFieldRecentStatuses :: string where "kFieldRecentStatuses = ''userstatuslist''"
definition kFieldColumnLayoutPrefix :: string where "kFieldColumnLayoutPrefix = ''columns:''"
definition kFieldChatLogging :: string where "kFieldChatLogging = ''chatlogging''"
definition kFieldLogDirectory :: string where "kFieldLogDirectory = ''logdir''"
definition kFieldIgnorePattern :: string where "kFieldIgnorePattern = ''ignorepattern''"
definition kFieldWatchPattern :: string where "kFieldWatchPattern = ''watchpattern''"
definition kFieldAutoPrivPattern :: string where "kFieldAutoPrivPattern = ''autoprivpattern''"
definition kFieldAliasName :: string where "kFieldAliasName = ''aliasname''"
definition kFieldAliasValue :: string where "kFieldAliasValue = ''aliasvalue''"
definition kFieldShareDirectory :: string where "kFieldShareDirectory = ''sharedir''"
definition kFieldFileSharingEnabled :: string where "kFieldFileSharingEnabled = ''sharingenabled''"
definition kFieldServerList :: string where "kFieldServerList = ''serverlist''"

definition kMaximumRememberedNames :: nat where "kMaximumRememberedNames = 12"
definition kMaximumRememberedServers :: nat where "kMaximumRememberedServers = 16"
definition kDefaultMaxDownloads :: uint32 where "kDefaultMaxDownloads = 3"
definition kDefaultMaxUploads :: uint32 where "kDefaultMaxUploads = 4"
definition kMaximumSessionLimit :: uint32 where "kMaximumSessionLimit = 32"
definition kMaximumSettingsFileSize :: nat where "kMaximumSettingsFileSize = 4 * 1024 * 1024"
definition kDefaultUserName :: string where "kDefaultUserName = ''binky''"
definition kDefaultUserStatus :: string where "kDefaultUserStatus = ''here''"
definition kDefaultAwayStatus :: string where "kDefaultAwayStatus = ''away''"
definition kDefaultServerAddress :: string where "kDefaultServerAddress = ''beshare.tycomsystems.com''"
definition kDefaultServerList :: "string list" where
  "kDefaultServerList = [''beshare.tycomsystems.com'', ''beshare.agmsmith.ca'']"

lemmas field_names =
  kFieldUserName_def kFieldUserStatus_def kFieldAwayStatus_def kFieldServerAddress_def
  kFieldServerPort_def kFieldInstallId_def kFieldConnectOnStartup_def kFieldNotificationsEnabled_def
  kFieldDownloadDirectory_def kFieldRetainFilePaths_def kFieldMaxDownloads_def kFieldMaxUploads_def
  kFieldMaxDownloadRate_def kFieldMaxUploadRate_def kFieldFirewalled_def kFieldAutoClear_def
  kFieldChatFontPointSize_def kFieldExtraServers_def kFieldAutoUpdateServers_def kFieldRecentUserNames_def
  kFieldRecentStatuses_def kFieldColumnLayoutPrefix_def kFieldChatLogging_def kFieldLogDirectory_def
  kFieldIgnorePattern_def kFieldWatchPattern_def kFieldAutoPrivPattern_def kFieldAliasName_def
  kFieldAliasValue_def kFieldShareDirectory_def kFieldFileSharingEnabled_def kFieldServerList_def

record settings_env =
  getenv :: "string \<Rightarrow> string option"
  random64 :: uint64
  FlattenToDataIO :: "message \<Rightarrow> uint8 list"
  UnflattenFromDataIO :: "nat \<Rightarrow> uint8 list \<Rightarrow> message \<Rightarrow> bool \<times> message"

subsection \<open>Folders\<close>

definition GetEnvironmentVariable :: "settings_env \<Rightarrow> string \<Rightarrow> string" where
  "GetEnvironmentVariable V name = (case getenv V name of Some v \<Rightarrow> v | None \<Rightarrow> [])"

definition GetConfigDirectoryPath :: "settings_env \<Rightarrow> string" where
  "GetConfigDirectoryPath V =
     (let configHome = GetEnvironmentVariable V ''XDG_CONFIG_HOME'';
          homeDirectory = GetEnvironmentVariable V ''HOME''
      in if configHome \<noteq> [] then configHome @ ''/hituxshare''
         else if homeDirectory = [] then []
         else homeDirectory @ ''/.config'' @ ''/hituxshare'')"

definition GetSettingsFilePath :: "settings_env \<Rightarrow> string" where
  "GetSettingsFilePath V =
     (if GetConfigDirectoryPath V = [] then [] else GetConfigDirectoryPath V @ ''/settings.msg'')"

definition GetDefaultDownloadDirectoryPath :: "settings_env \<Rightarrow> string" where
  "GetDefaultDownloadDirectoryPath V =
     (let homeDirectory = GetEnvironmentVariable V ''HOME''
      in if homeDirectory = [] then [] else homeDirectory @ ''/Downloads/HiTuxShare'')"

definition GetDefaultShareDirectoryPath :: "settings_env \<Rightarrow> string" where
  "GetDefaultShareDirectoryPath V =
     (let homeDirectory = GetEnvironmentVariable V ''HOME''
      in if homeDirectory = [] then [] else homeDirectory @ ''/HiTuxShare/shared'')"

definition GetDefaultLogDirectoryPath :: "settings_env \<Rightarrow> string" where
  "GetDefaultLogDirectoryPath V =
     (let stateHome = GetEnvironmentVariable V ''XDG_STATE_HOME'';
          homeDirectory = GetEnvironmentVariable V ''HOME''
      in if stateHome \<noteq> [] then stateHome @ ''/hituxshare/logs''
         else if homeDirectory = [] then []
         else homeDirectory @ ''/.local/state'' @ ''/hituxshare/logs'')"

subsection \<open>The file\<close>

datatype settings_status = SettingsOk | SettingsBadObject | SettingsNotFound | SettingsError

definition Load :: "settings_env \<Rightarrow> world \<Rightarrow> message \<Rightarrow> settings_status \<times> message" where
  "Load V w m =
     (if GetSettingsFilePath V = [] then (SettingsBadObject, m)
      else case w_files w (GetSettingsFilePath V) of
        None \<Rightarrow> (SettingsNotFound, m)
      | Some bytes \<Rightarrow>
          (case UnflattenFromDataIO V kMaximumSettingsFileSize bytes m of
             (ok, m') \<Rightarrow> (if ok then SettingsOk else SettingsError, m')))"

definition Save :: "muscle \<Rightarrow> settings_env \<Rightarrow> message \<Rightarrow> world \<Rightarrow> settings_status \<times> world" where
  "Save L V m w =
     (case CreateDirectoryTree L (GetConfigDirectoryPath V) w of (ok, w1) \<Rightarrow>
        if \<not> ok then (SettingsError, w1)
        else if GetSettingsFilePath V = [] then (SettingsBadObject, w1)
        else case open_for_writing (GetSettingsFilePath V) w1 of (opened, w2) \<Rightarrow>
          if \<not> opened then (SettingsError, w2)
          else case write_file (GetSettingsFilePath V) (FlattenToDataIO V m) w2 of (written, w3) \<Rightarrow>
            (if written = length (FlattenToDataIO V m) then SettingsOk else SettingsError, w3))"

subsection \<open>Texts and lists of texts\<close>

definition GetString :: "string \<Rightarrow> string \<Rightarrow> message \<Rightarrow> string" where
  "GetString fieldName defaultValue m =
     (case find_string m fieldName of
        None \<Rightarrow> defaultValue | Some v \<Rightarrow> if v = [] then defaultValue else v)"

definition SetString :: "string \<Rightarrow> string \<Rightarrow> message \<Rightarrow> message" where
  "SetString fieldName v m = replace_string m fieldName v"

definition GetStringList :: "string \<Rightarrow> message \<Rightarrow> string list" where
  "GetStringList fieldName m = filter (\<lambda>v. v \<noteq> []) (all_strings m fieldName)"

definition SetStringList :: "string \<Rightarrow> string list \<Rightarrow> message \<Rightarrow> message" where
  "SetStringList fieldName vs m =
     foldl (\<lambda>m v. add_string m fieldName v) (remove_name m fieldName) vs"

text \<open>The list a value is promoted in: every spelling of it goes, it goes to the front, the tail is cut.\<close>

definition promote :: "muscle \<Rightarrow> nat \<Rightarrow> string \<Rightarrow> string list \<Rightarrow> string list" where
  "promote L maxItems v vs = take maxItems (v # filter (\<lambda>x. \<not> EqualsIgnoreCase L x v) vs)"

definition RememberInList :: "muscle \<Rightarrow> string \<Rightarrow> string \<Rightarrow> nat \<Rightarrow> message \<Rightarrow> message" where
  "RememberInList L fieldName v maxItems m =
     (if v = [] then m
      else SetStringList fieldName (promote L maxItems v (GetStringList fieldName m)) m)"

subsection \<open>The settings, one by one\<close>

definition GetUserName :: "message \<Rightarrow> string" where
  "GetUserName = GetString kFieldUserName kDefaultUserName"

definition SetUserName :: "string \<Rightarrow> message \<Rightarrow> message" where
  "SetUserName v = SetString kFieldUserName v"

definition GetUserStatus :: "message \<Rightarrow> string" where
  "GetUserStatus = GetString kFieldUserStatus kDefaultUserStatus"

definition SetUserStatus :: "string \<Rightarrow> message \<Rightarrow> message" where
  "SetUserStatus v = SetString kFieldUserStatus v"

definition GetAwayStatus :: "message \<Rightarrow> string" where
  "GetAwayStatus = GetString kFieldAwayStatus kDefaultAwayStatus"

definition SetAwayStatus :: "string \<Rightarrow> message \<Rightarrow> message" where
  "SetAwayStatus v = SetString kFieldAwayStatus v"

definition GetServerAddress :: "message \<Rightarrow> string" where
  "GetServerAddress = GetString kFieldServerAddress kDefaultServerAddress"

definition SetServerAddress :: "string \<Rightarrow> message \<Rightarrow> message" where
  "SetServerAddress v = SetString kFieldServerAddress v"

definition GetDownloadDirectory :: "settings_env \<Rightarrow> message \<Rightarrow> string" where
  "GetDownloadDirectory V = GetString kFieldDownloadDirectory (GetDefaultDownloadDirectoryPath V)"

definition StSetDownloadDirectory :: "string \<Rightarrow> message \<Rightarrow> message" where
  "StSetDownloadDirectory v = SetString kFieldDownloadDirectory v"

definition GetShareDirectory :: "settings_env \<Rightarrow> message \<Rightarrow> string" where
  "GetShareDirectory V = GetString kFieldShareDirectory (GetDefaultShareDirectoryPath V)"

definition StSetShareDirectory :: "string \<Rightarrow> message \<Rightarrow> message" where
  "StSetShareDirectory v = SetString kFieldShareDirectory v"

definition GetLogDirectory :: "settings_env \<Rightarrow> message \<Rightarrow> string" where
  "GetLogDirectory V = GetString kFieldLogDirectory (GetDefaultLogDirectoryPath V)"

definition StSetLogDirectory :: "string \<Rightarrow> message \<Rightarrow> message" where
  "StSetLogDirectory v = SetString kFieldLogDirectory v"

definition GetIgnorePattern :: "message \<Rightarrow> string" where
  "GetIgnorePattern = GetString kFieldIgnorePattern []"

definition SetIgnorePattern :: "string \<Rightarrow> message \<Rightarrow> message" where
  "SetIgnorePattern v = SetString kFieldIgnorePattern v"

definition GetWatchPattern :: "message \<Rightarrow> string" where
  "GetWatchPattern = GetString kFieldWatchPattern []"

definition SetWatchPattern :: "string \<Rightarrow> message \<Rightarrow> message" where
  "SetWatchPattern v = SetString kFieldWatchPattern v"

definition GetAutoPrivPattern :: "message \<Rightarrow> string" where
  "GetAutoPrivPattern = GetString kFieldAutoPrivPattern []"

definition SetAutoPrivPattern :: "string \<Rightarrow> message \<Rightarrow> message" where
  "SetAutoPrivPattern v = SetString kFieldAutoPrivPattern v"

definition GetAutoUpdateServerList :: "message \<Rightarrow> bool" where
  "GetAutoUpdateServerList m = found_or False (find_bool m kFieldAutoUpdateServers)"

definition SetAutoUpdateServerList :: "bool \<Rightarrow> message \<Rightarrow> message" where
  "SetAutoUpdateServerList v m = replace_bool m kFieldAutoUpdateServers v"

definition GetFileSharingEnabled :: "message \<Rightarrow> bool" where
  "GetFileSharingEnabled m = found_or False (find_bool m kFieldFileSharingEnabled)"

definition SetFileSharingEnabled :: "bool \<Rightarrow> message \<Rightarrow> message" where
  "SetFileSharingEnabled v m = replace_bool m kFieldFileSharingEnabled v"

definition GetFirewalled :: "message \<Rightarrow> bool" where
  "GetFirewalled m = found_or False (find_bool m kFieldFirewalled)"

definition StSetFirewalled :: "bool \<Rightarrow> message \<Rightarrow> message" where
  "StSetFirewalled v m = replace_bool m kFieldFirewalled v"

definition GetAutoClearFinishedTransfers :: "message \<Rightarrow> bool" where
  "GetAutoClearFinishedTransfers m = found_or False (find_bool m kFieldAutoClear)"

definition SetAutoClearFinishedTransfers :: "bool \<Rightarrow> message \<Rightarrow> message" where
  "SetAutoClearFinishedTransfers v m = replace_bool m kFieldAutoClear v"

definition GetChatLoggingEnabled :: "message \<Rightarrow> bool" where
  "GetChatLoggingEnabled m = found_or False (find_bool m kFieldChatLogging)"

definition SetChatLoggingEnabled :: "bool \<Rightarrow> message \<Rightarrow> message" where
  "SetChatLoggingEnabled v m = replace_bool m kFieldChatLogging v"

definition GetRetainFilePaths :: "message \<Rightarrow> bool" where
  "GetRetainFilePaths m = found_or False (find_bool m kFieldRetainFilePaths)"

definition StSetRetainFilePaths :: "bool \<Rightarrow> message \<Rightarrow> message" where
  "StSetRetainFilePaths v m = replace_bool m kFieldRetainFilePaths v"

definition GetNotificationsEnabled :: "message \<Rightarrow> bool" where
  "GetNotificationsEnabled m = found_or True (find_bool m kFieldNotificationsEnabled)"

definition SetNotificationsEnabled :: "bool \<Rightarrow> message \<Rightarrow> message" where
  "SetNotificationsEnabled v m = replace_bool m kFieldNotificationsEnabled v"

definition GetConnectOnStartup :: "message \<Rightarrow> bool" where
  "GetConnectOnStartup m = found_or False (find_bool m kFieldConnectOnStartup)"

definition SetConnectOnStartup :: "bool \<Rightarrow> message \<Rightarrow> message" where
  "SetConnectOnStartup v m = replace_bool m kFieldConnectOnStartup v"

definition GetServerList :: "message \<Rightarrow> string list" where
  "GetServerList m =
     (let serverList = GetStringList kFieldServerList m
      in if serverList = [] then kDefaultServerList else serverList)"

definition SetServerList :: "string list \<Rightarrow> message \<Rightarrow> message" where
  "SetServerList vs = SetStringList kFieldServerList vs"

definition RememberServer :: "muscle \<Rightarrow> string \<Rightarrow> message \<Rightarrow> message" where
  "RememberServer L v = RememberInList L kFieldServerList v kMaximumRememberedServers"

definition GetExtraServers :: "message \<Rightarrow> string list" where
  "GetExtraServers = GetStringList kFieldExtraServers"

definition SetExtraServers :: "string list \<Rightarrow> message \<Rightarrow> message" where
  "SetExtraServers vs = SetStringList kFieldExtraServers vs"

definition GetRecentUserNames :: "message \<Rightarrow> string list" where
  "GetRecentUserNames = GetStringList kFieldRecentUserNames"

definition RememberUserName :: "muscle \<Rightarrow> string \<Rightarrow> message \<Rightarrow> message" where
  "RememberUserName L v = RememberInList L kFieldRecentUserNames v kMaximumRememberedNames"

definition GetRecentStatuses :: "message \<Rightarrow> string list" where
  "GetRecentStatuses = GetStringList kFieldRecentStatuses"

definition RememberStatus :: "muscle \<Rightarrow> string \<Rightarrow> message \<Rightarrow> message" where
  "RememberStatus L v = RememberInList L kFieldRecentStatuses v kMaximumRememberedNames"

definition GetColumnLayout :: "string \<Rightarrow> message \<Rightarrow> uint8 list option" where
  "GetColumnLayout viewName m = find_data m (kFieldColumnLayoutPrefix @ viewName)"

definition SetColumnLayout :: "string \<Rightarrow> uint8 list option \<Rightarrow> message \<Rightarrow> message" where
  "SetColumnLayout viewName data m =
     (let m1 = remove_name m (kFieldColumnLayoutPrefix @ viewName)
      in case data of
           None \<Rightarrow> m1
         | Some bs \<Rightarrow> if bs \<noteq> [] then add_data m1 (kFieldColumnLayoutPrefix @ viewName) bs else m1)"

definition GetServerPort :: "message \<Rightarrow> uint16" where
  "GetServerPort m =
     (case find_int32 m kFieldServerPort of
        None \<Rightarrow> kDefaultServerPort
      | Some stored \<Rightarrow>
          if sint stored \<le> 0 \<or> sint stored > 65535 then kDefaultServerPort else ucast stored)"

definition SetServerPort :: "uint16 \<Rightarrow> message \<Rightarrow> message" where
  "SetServerPort p m = replace_int32 m kFieldServerPort (ucast p)"

definition muscleClamp :: "uint32 \<Rightarrow> uint32 \<Rightarrow> uint32 \<Rightarrow> uint32" where
  "muscleClamp v lo hi = (if v < lo then lo else if v > hi then hi else v)"

definition GetMaxSimultaneousDownloads :: "message \<Rightarrow> uint32" where
  "GetMaxSimultaneousDownloads m =
     (case find_int32 m kFieldMaxDownloads of
        None \<Rightarrow> kDefaultMaxDownloads
      | Some stored \<Rightarrow> if sint stored \<le> 0 then kDefaultMaxDownloads else min stored kMaximumSessionLimit)"

definition StSetMaxSimultaneousDownloads :: "uint32 \<Rightarrow> message \<Rightarrow> message" where
  "StSetMaxSimultaneousDownloads v m =
     replace_int32 m kFieldMaxDownloads (muscleClamp v 1 kMaximumSessionLimit)"

definition GetMaxSimultaneousUploads :: "message \<Rightarrow> uint32" where
  "GetMaxSimultaneousUploads m =
     (case find_int32 m kFieldMaxUploads of
        None \<Rightarrow> kDefaultMaxUploads
      | Some stored \<Rightarrow> if sint stored \<le> 0 then kDefaultMaxUploads else min stored kMaximumSessionLimit)"

definition StSetMaxSimultaneousUploads :: "uint32 \<Rightarrow> message \<Rightarrow> message" where
  "StSetMaxSimultaneousUploads v m =
     replace_int32 m kFieldMaxUploads (muscleClamp v 1 kMaximumSessionLimit)"

definition GetMaxDownloadRate :: "message \<Rightarrow> uint32" where
  "GetMaxDownloadRate m =
     (case find_int32 m kFieldMaxDownloadRate of
        None \<Rightarrow> 0 | Some stored \<Rightarrow> if sint stored < 0 then 0 else stored)"

definition SetMaxDownloadRate :: "uint32 \<Rightarrow> message \<Rightarrow> message" where
  "SetMaxDownloadRate v m = replace_int32 m kFieldMaxDownloadRate v"

definition GetMaxUploadRate :: "message \<Rightarrow> uint32" where
  "GetMaxUploadRate m =
     (case find_int32 m kFieldMaxUploadRate of
        None \<Rightarrow> 0 | Some stored \<Rightarrow> if sint stored < 0 then 0 else stored)"

definition SetMaxUploadRate :: "uint32 \<Rightarrow> message \<Rightarrow> message" where
  "SetMaxUploadRate v m = replace_int32 m kFieldMaxUploadRate v"

definition GetChatFontPointSize :: "message \<Rightarrow> uint32" where
  "GetChatFontPointSize m =
     (case find_int32 m kFieldChatFontPointSize of
        None \<Rightarrow> 0 | Some stored \<Rightarrow> if sint stored \<le> 0 then 0 else muscleClamp stored 6 32)"

definition SetChatFontPointSize :: "uint32 \<Rightarrow> message \<Rightarrow> message" where
  "SetChatFontPointSize v m = replace_int32 m kFieldChatFontPointSize v"

text \<open>The aliases are two parallel lists; a name without a value is skipped.\<close>

definition GetAliases :: "message \<Rightarrow> (string \<times> string) list" where
  "GetAliases m = fold (\<lambda>(n, v). ht_put n v)
     (zip (all_strings m kFieldAliasName) (all_strings m kFieldAliasValue)) []"

definition SetAliases :: "(string \<times> string) list \<Rightarrow> message \<Rightarrow> message" where
  "SetAliases aliases m =
     foldl (\<lambda>m (n, v). add_string (add_string m kFieldAliasName n) kFieldAliasValue v)
       (remove_name (remove_name m kFieldAliasName) kFieldAliasValue) aliases"

definition GetInstallId :: "settings_env \<Rightarrow> message \<Rightarrow> uint64 \<times> message" where
  "GetInstallId V m =
     (case find_int64 m kFieldInstallId of
        Some stored \<Rightarrow>
          if stored \<noteq> 0 then (stored, m)
          else (random64 V, replace_int64 m kFieldInstallId (random64 V))
      | None \<Rightarrow> (random64 V, replace_int64 m kFieldInstallId (random64 V)))"

end
