(* ===== verification/SettingsLaws.thy ===== *)
theory SettingsLaws
  imports Settings DownloadLaws
begin

section \<open>What the settings keep\<close>

text \<open>
  A setting is a getter and a setter over the fields of the archive that are its own. The locale
  states what the program relies on when it stores one, its interpretations give it for the settings
  of the program. \<open>preferences\<close> is the abstract view: a record of plain values, one operation of
  the program changing one of them.
\<close>

subsection \<open>One setting\<close>

locale setting =
  fixes get :: "message \<Rightarrow> 'a"
    and store :: "'a \<Rightarrow> message \<Rightarrow> message"
    and own :: "string list"
    and slot :: "message \<Rightarrow> bool"
    and repaired :: "'a \<Rightarrow> 'a"
  assumes read_back: "slot m \<Longrightarrow> get (store v m) = repaired v"
    and slot_store: "slot m \<Longrightarrow> slot (store v m)"
    and reads_own: "(\<And>n. n \<in> set own \<Longrightarrow> find_field m' n = find_field m n) \<Longrightarrow> get m' = get m \<and> slot m' = slot m"
    and writes_own: "n \<notin> set own \<Longrightarrow> find_field (store v m) n = find_field m n"
begin

lemma last_store: "slot m \<Longrightarrow> get (store v (store u m)) = repaired v"
  using read_back slot_store by blast

lemma stores: "slot m \<Longrightarrow> vs \<noteq> [] \<Longrightarrow> get (fold store vs m) = repaired (last vs)"
proof (induction vs arbitrary: m)
  case (Cons v vs)
  then show ?case by (cases "vs = []") (auto simp: read_back slot_store)
qed simp

text \<open>An operation that keeps off the own fields leaves the setting alone.\<close>

lemma undisturbed:
  assumes "\<And>n. n \<in> set own \<Longrightarrow> find_field (f m) n = find_field m n"
  shows "get (f m) = get m" "slot (f m) = slot m"
  using reads_own [of "f m" m] assms by blast+

end

lemma slot_cong:
  assumes "find_field m' n = find_field m n"
  shows "string_slot m' n = string_slot m n" "int32_slot m' n = int32_slot m n" "bool_slot m' n = bool_slot m n"
    "int64_slot m' n = int64_slot m n" "find_string m' n = find_string m n" "find_int32 m' n = find_int32 m n"
    "find_bool m' n = find_bool m n" "find_int64 m' n = find_int64 m n" "all_strings m' n = all_strings m n"
    "find_data m' n = find_data m n"
  using assms by (simp_all add: string_slot_def int32_slot_def bool_slot_def int64_slot_def finds)

lemma slot_replace [simp]:
  "string_slot m n \<Longrightarrow> string_slot (replace_string m n s) n"
  "int32_slot m n \<Longrightarrow> int32_slot (replace_int32 m n i) n"
  "bool_slot m n \<Longrightarrow> bool_slot (replace_bool m n b) n"
  "int64_slot m n \<Longrightarrow> int64_slot (replace_int64 m n j) n"
  by (auto simp: string_slot_def int32_slot_def bool_slot_def int64_slot_def replace_string_def replace_int32_def
      replace_bool_def replace_int64_def split: option.splits field.splits list.splits)

lemma text_setting:
  "setting (GetString n d) (SetString n) [n] (\<lambda>m. string_slot m n) (\<lambda>v. if v = [] then d else v)"
  by unfold_locales (auto simp: GetString_def SetString_def find_replace_string dest: slot_cong)

lemma flag_setting:
  "setting (\<lambda>m. found_or d (find_bool m n)) (\<lambda>v m. replace_bool m n v) [n] (\<lambda>m. bool_slot m n) (\<lambda>v. v)"
  by unfold_locales (auto simp: find_replace_bool dest: slot_cong)

lemma number_setting:
  assumes "\<And>m. get m = (case find_int32 m n of None \<Rightarrow> d | Some i \<Rightarrow> g i)"
    and "\<And>v m. store v m = replace_int32 m n (h v)"
  shows "setting get store [n] (\<lambda>m. int32_slot m n) (\<lambda>v. g (h v))"
  by unfold_locales (auto simp: assms find_replace_int32 dest: slot_cong)

lemma all_strings_SetStringList: "all_strings (SetStringList n vs m) n = vs"
  by (simp add: SetStringList_def all_strings_def find_field_foldl_add_string)

lemma find_field_SetStringList: "n' \<noteq> n \<Longrightarrow> find_field (SetStringList n vs m) n' = find_field m n'"
  by (simp add: SetStringList_def find_field_foldl_add_string)

lemma list_setting:
  "setting (GetStringList n) (SetStringList n) [n] (\<lambda>m. True) (filter (\<lambda>v. v \<noteq> []))"
  by unfold_locales
    (auto simp: GetStringList_def all_strings_SetStringList find_field_SetStringList dest: slot_cong)

subsection \<open>The settings of the program\<close>

interpretation st_userName: setting GetUserName SetUserName "[kFieldUserName]" "\<lambda>m. string_slot m kFieldUserName" "\<lambda>v. if v = [] then kDefaultUserName else v"
  using text_setting [of kFieldUserName kDefaultUserName] by (simp add: GetUserName_def SetUserName_def [abs_def])

interpretation st_userStatus: setting GetUserStatus SetUserStatus "[kFieldUserStatus]" "\<lambda>m. string_slot m kFieldUserStatus" "\<lambda>v. if v = [] then kDefaultUserStatus else v"
  using text_setting [of kFieldUserStatus kDefaultUserStatus] by (simp add: GetUserStatus_def SetUserStatus_def [abs_def])

interpretation st_awayStatus: setting GetAwayStatus SetAwayStatus "[kFieldAwayStatus]" "\<lambda>m. string_slot m kFieldAwayStatus" "\<lambda>v. if v = [] then kDefaultAwayStatus else v"
  using text_setting [of kFieldAwayStatus kDefaultAwayStatus] by (simp add: GetAwayStatus_def SetAwayStatus_def [abs_def])

interpretation st_serverAddress: setting GetServerAddress SetServerAddress "[kFieldServerAddress]" "\<lambda>m. string_slot m kFieldServerAddress" "\<lambda>v. if v = [] then kDefaultServerAddress else v"
  using text_setting [of kFieldServerAddress kDefaultServerAddress] by (simp add: GetServerAddress_def SetServerAddress_def [abs_def])

interpretation st_downloadDirectory: setting "GetDownloadDirectory V" StSetDownloadDirectory "[kFieldDownloadDirectory]" "\<lambda>m. string_slot m kFieldDownloadDirectory" "\<lambda>v. if v = [] then GetDefaultDownloadDirectoryPath V else v"
  using text_setting [of kFieldDownloadDirectory "GetDefaultDownloadDirectoryPath V"] by (simp add: GetDownloadDirectory_def StSetDownloadDirectory_def [abs_def])

interpretation st_shareDirectory: setting "GetShareDirectory V" StSetShareDirectory "[kFieldShareDirectory]" "\<lambda>m. string_slot m kFieldShareDirectory" "\<lambda>v. if v = [] then GetDefaultShareDirectoryPath V else v"
  using text_setting [of kFieldShareDirectory "GetDefaultShareDirectoryPath V"] by (simp add: GetShareDirectory_def StSetShareDirectory_def [abs_def])

interpretation st_logDirectory: setting "GetLogDirectory V" StSetLogDirectory "[kFieldLogDirectory]" "\<lambda>m. string_slot m kFieldLogDirectory" "\<lambda>v. if v = [] then GetDefaultLogDirectoryPath V else v"
  using text_setting [of kFieldLogDirectory "GetDefaultLogDirectoryPath V"] by (simp add: GetLogDirectory_def StSetLogDirectory_def [abs_def])

interpretation st_ignorePattern: setting GetIgnorePattern SetIgnorePattern "[kFieldIgnorePattern]" "\<lambda>m. string_slot m kFieldIgnorePattern" "\<lambda>v. if v = [] then [] else v"
  using text_setting [of kFieldIgnorePattern "[]"] by (simp add: GetIgnorePattern_def SetIgnorePattern_def [abs_def])

interpretation st_watchPattern: setting GetWatchPattern SetWatchPattern "[kFieldWatchPattern]" "\<lambda>m. string_slot m kFieldWatchPattern" "\<lambda>v. if v = [] then [] else v"
  using text_setting [of kFieldWatchPattern "[]"] by (simp add: GetWatchPattern_def SetWatchPattern_def [abs_def])

interpretation st_autoPrivPattern: setting GetAutoPrivPattern SetAutoPrivPattern "[kFieldAutoPrivPattern]" "\<lambda>m. string_slot m kFieldAutoPrivPattern" "\<lambda>v. if v = [] then [] else v"
  using text_setting [of kFieldAutoPrivPattern "[]"] by (simp add: GetAutoPrivPattern_def SetAutoPrivPattern_def [abs_def])

interpretation st_autoUpdateServerList: setting GetAutoUpdateServerList SetAutoUpdateServerList "[kFieldAutoUpdateServers]" "\<lambda>m. bool_slot m kFieldAutoUpdateServers" "\<lambda>v. v"
  using flag_setting [of False kFieldAutoUpdateServers] by (simp add: GetAutoUpdateServerList_def [abs_def] SetAutoUpdateServerList_def [abs_def])

interpretation st_fileSharingEnabled: setting GetFileSharingEnabled SetFileSharingEnabled "[kFieldFileSharingEnabled]" "\<lambda>m. bool_slot m kFieldFileSharingEnabled" "\<lambda>v. v"
  using flag_setting [of False kFieldFileSharingEnabled] by (simp add: GetFileSharingEnabled_def [abs_def] SetFileSharingEnabled_def [abs_def])

interpretation st_firewalled: setting GetFirewalled StSetFirewalled "[kFieldFirewalled]" "\<lambda>m. bool_slot m kFieldFirewalled" "\<lambda>v. v"
  using flag_setting [of False kFieldFirewalled] by (simp add: GetFirewalled_def [abs_def] StSetFirewalled_def [abs_def])

interpretation st_autoClearFinishedTransfers: setting GetAutoClearFinishedTransfers SetAutoClearFinishedTransfers "[kFieldAutoClear]" "\<lambda>m. bool_slot m kFieldAutoClear" "\<lambda>v. v"
  using flag_setting [of False kFieldAutoClear] by (simp add: GetAutoClearFinishedTransfers_def [abs_def] SetAutoClearFinishedTransfers_def [abs_def])

interpretation st_chatLoggingEnabled: setting GetChatLoggingEnabled SetChatLoggingEnabled "[kFieldChatLogging]" "\<lambda>m. bool_slot m kFieldChatLogging" "\<lambda>v. v"
  using flag_setting [of False kFieldChatLogging] by (simp add: GetChatLoggingEnabled_def [abs_def] SetChatLoggingEnabled_def [abs_def])

interpretation st_retainFilePaths: setting GetRetainFilePaths StSetRetainFilePaths "[kFieldRetainFilePaths]" "\<lambda>m. bool_slot m kFieldRetainFilePaths" "\<lambda>v. v"
  using flag_setting [of False kFieldRetainFilePaths] by (simp add: GetRetainFilePaths_def [abs_def] StSetRetainFilePaths_def [abs_def])

interpretation st_notificationsEnabled: setting GetNotificationsEnabled SetNotificationsEnabled "[kFieldNotificationsEnabled]" "\<lambda>m. bool_slot m kFieldNotificationsEnabled" "\<lambda>v. v"
  using flag_setting [of True kFieldNotificationsEnabled] by (simp add: GetNotificationsEnabled_def [abs_def] SetNotificationsEnabled_def [abs_def])

interpretation st_connectOnStartup: setting GetConnectOnStartup SetConnectOnStartup "[kFieldConnectOnStartup]" "\<lambda>m. bool_slot m kFieldConnectOnStartup" "\<lambda>v. v"
  using flag_setting [of False kFieldConnectOnStartup] by (simp add: GetConnectOnStartup_def [abs_def] SetConnectOnStartup_def [abs_def])

interpretation st_maxSimultaneousDownloads: setting GetMaxSimultaneousDownloads StSetMaxSimultaneousDownloads "[kFieldMaxDownloads]" "\<lambda>m. int32_slot m kFieldMaxDownloads"
  "\<lambda>v. (\<lambda>i. if sint i \<le> 0 then kDefaultMaxDownloads else min i kMaximumSessionLimit) (muscleClamp v 1 kMaximumSessionLimit)"
  by (rule number_setting) (auto simp: GetMaxSimultaneousDownloads_def StSetMaxSimultaneousDownloads_def split: option.split)

interpretation st_maxSimultaneousUploads: setting GetMaxSimultaneousUploads StSetMaxSimultaneousUploads "[kFieldMaxUploads]" "\<lambda>m. int32_slot m kFieldMaxUploads"
  "\<lambda>v. (\<lambda>i. if sint i \<le> 0 then kDefaultMaxUploads else min i kMaximumSessionLimit) (muscleClamp v 1 kMaximumSessionLimit)"
  by (rule number_setting) (auto simp: GetMaxSimultaneousUploads_def StSetMaxSimultaneousUploads_def split: option.split)

interpretation st_maxDownloadRate: setting GetMaxDownloadRate SetMaxDownloadRate "[kFieldMaxDownloadRate]" "\<lambda>m. int32_slot m kFieldMaxDownloadRate"
  "\<lambda>v. (\<lambda>i. if sint i < 0 then 0 else i) (v)"
  by (rule number_setting) (auto simp: GetMaxDownloadRate_def SetMaxDownloadRate_def split: option.split)

interpretation st_maxUploadRate: setting GetMaxUploadRate SetMaxUploadRate "[kFieldMaxUploadRate]" "\<lambda>m. int32_slot m kFieldMaxUploadRate"
  "\<lambda>v. (\<lambda>i. if sint i < 0 then 0 else i) (v)"
  by (rule number_setting) (auto simp: GetMaxUploadRate_def SetMaxUploadRate_def split: option.split)

interpretation st_chatFontPointSize: setting GetChatFontPointSize SetChatFontPointSize "[kFieldChatFontPointSize]" "\<lambda>m. int32_slot m kFieldChatFontPointSize"
  "\<lambda>v. (\<lambda>i. if sint i \<le> 0 then 0 else muscleClamp i 6 32) (v)"
  by (rule number_setting) (auto simp: GetChatFontPointSize_def SetChatFontPointSize_def split: option.split)

interpretation st_serverPort: setting GetServerPort SetServerPort "[kFieldServerPort]" "\<lambda>m. int32_slot m kFieldServerPort"
  "\<lambda>v. (\<lambda>i. if sint i \<le> 0 \<or> sint i > 65535 then kDefaultServerPort else ucast i) (ucast v :: int32)"
  by (rule number_setting) (auto simp: GetServerPort_def SetServerPort_def split: option.split)

interpretation st_extraServers: setting GetExtraServers SetExtraServers "[kFieldExtraServers]" "\<lambda>m. True"
  "filter (\<lambda>v. v \<noteq> [])"
  using list_setting [of kFieldExtraServers] by (simp add: GetExtraServers_def SetExtraServers_def [abs_def])

interpretation st_serverList: setting GetServerList SetServerList "[kFieldServerList]" "\<lambda>m. True"
  "\<lambda>vs. if filter (\<lambda>v. v \<noteq> []) vs = [] then kDefaultServerList else filter (\<lambda>v. v \<noteq> []) vs"
  by unfold_locales
    (auto simp: GetServerList_def SetServerList_def GetStringList_def Let_def all_strings_SetStringList
      find_field_SetStringList dest: slot_cong)

subsection \<open>The abstract view\<close>

text \<open>
  Every field that a setting replaces has the type of that setting, or is not there. A file written
  by the program has this shape, and so has an empty archive.
\<close>

definition settings_ok :: "message \<Rightarrow> bool" where
  "settings_ok m \<longleftrightarrow>
     list_all (string_slot m) [kFieldUserName, kFieldUserStatus, kFieldAwayStatus, kFieldServerAddress,
       kFieldDownloadDirectory, kFieldShareDirectory, kFieldLogDirectory, kFieldIgnorePattern,
       kFieldWatchPattern, kFieldAutoPrivPattern] \<and>
     list_all (bool_slot m) [kFieldAutoUpdateServers, kFieldFileSharingEnabled, kFieldFirewalled, kFieldAutoClear,
       kFieldChatLogging, kFieldRetainFilePaths, kFieldNotificationsEnabled, kFieldConnectOnStartup] \<and>
     list_all (int32_slot m) [kFieldServerPort, kFieldMaxDownloads, kFieldMaxUploads, kFieldMaxDownloadRate,
       kFieldMaxUploadRate, kFieldChatFontPointSize] \<and>
     int64_slot m kFieldInstallId"

record preferences =

  pf_userName :: string
  pf_userStatus :: string
  pf_awayStatus :: string
  pf_serverAddress :: string
  pf_downloadDirectory :: string
  pf_shareDirectory :: string
  pf_logDirectory :: string
  pf_ignorePattern :: string
  pf_watchPattern :: string
  pf_autoPrivPattern :: string
  pf_autoUpdateServerList :: bool
  pf_fileSharingEnabled :: bool
  pf_firewalled :: bool
  pf_autoClearFinishedTransfers :: bool
  pf_chatLoggingEnabled :: bool
  pf_retainFilePaths :: bool
  pf_notificationsEnabled :: bool
  pf_connectOnStartup :: bool
  pf_maxSimultaneousDownloads :: uint32
  pf_maxSimultaneousUploads :: uint32
  pf_maxDownloadRate :: uint32
  pf_maxUploadRate :: uint32
  pf_chatFontPointSize :: uint32
  pf_serverPort :: uint16
  pf_servers :: "string list"
  pf_extraServers :: "string list"
  pf_recentUserNames :: "string list"
  pf_recentStatuses :: "string list"
  pf_columnLayout :: "string \<Rightarrow> uint8 list option"
  pf_aliases :: "(string \<times> string) list"
  pf_installId :: uint64

definition preferences_of :: "settings_env \<Rightarrow> message \<Rightarrow> preferences" where
  "preferences_of V m = \<lparr>
     pf_userName = GetUserName m,
     pf_userStatus = GetUserStatus m,
     pf_awayStatus = GetAwayStatus m,
     pf_serverAddress = GetServerAddress m,
     pf_downloadDirectory = GetDownloadDirectory V m,
     pf_shareDirectory = GetShareDirectory V m,
     pf_logDirectory = GetLogDirectory V m,
     pf_ignorePattern = GetIgnorePattern m,
     pf_watchPattern = GetWatchPattern m,
     pf_autoPrivPattern = GetAutoPrivPattern m,
     pf_autoUpdateServerList = GetAutoUpdateServerList m,
     pf_fileSharingEnabled = GetFileSharingEnabled m,
     pf_firewalled = GetFirewalled m,
     pf_autoClearFinishedTransfers = GetAutoClearFinishedTransfers m,
     pf_chatLoggingEnabled = GetChatLoggingEnabled m,
     pf_retainFilePaths = GetRetainFilePaths m,
     pf_notificationsEnabled = GetNotificationsEnabled m,
     pf_connectOnStartup = GetConnectOnStartup m,
     pf_maxSimultaneousDownloads = GetMaxSimultaneousDownloads m,
     pf_maxSimultaneousUploads = GetMaxSimultaneousUploads m,
     pf_maxDownloadRate = GetMaxDownloadRate m,
     pf_maxUploadRate = GetMaxUploadRate m,
     pf_chatFontPointSize = GetChatFontPointSize m,
     pf_serverPort = GetServerPort m,
     pf_servers = GetStringList kFieldServerList m,
     pf_extraServers = GetExtraServers m,
     pf_recentUserNames = GetRecentUserNames m,
     pf_recentStatuses = GetRecentStatuses m,
     pf_columnLayout = (\<lambda>view. GetColumnLayout view m),
     pf_aliases = GetAliases m,
     pf_installId = found_or 0 (find_int64 m kFieldInstallId) \<rparr>"

text \<open>What a new installation starts with.\<close>

definition default_preferences :: "settings_env \<Rightarrow> preferences" where
  "default_preferences V = \<lparr>
     pf_userName = kDefaultUserName,
     pf_userStatus = kDefaultUserStatus,
     pf_awayStatus = kDefaultAwayStatus,
     pf_serverAddress = kDefaultServerAddress,
     pf_downloadDirectory = GetDefaultDownloadDirectoryPath V,
     pf_shareDirectory = GetDefaultShareDirectoryPath V,
     pf_logDirectory = GetDefaultLogDirectoryPath V,
     pf_ignorePattern = [],
     pf_watchPattern = [],
     pf_autoPrivPattern = [],
     pf_autoUpdateServerList = False,
     pf_fileSharingEnabled = False,
     pf_firewalled = False,
     pf_autoClearFinishedTransfers = False,
     pf_chatLoggingEnabled = False,
     pf_retainFilePaths = False,
     pf_notificationsEnabled = True,
     pf_connectOnStartup = False,
     pf_maxSimultaneousDownloads = kDefaultMaxDownloads,
     pf_maxSimultaneousUploads = kDefaultMaxUploads,
     pf_maxDownloadRate = 0,
     pf_maxUploadRate = 0,
     pf_chatFontPointSize = 0,
     pf_serverPort = kDefaultServerPort,
     pf_servers = [],
     pf_extraServers = [],
     pf_recentUserNames = [],
     pf_recentStatuses = [],
     pf_columnLayout = (\<lambda>view. None),
     pf_aliases = [],
     pf_installId = 0 \<rparr>"

datatype setting_op =
    OpUserName string
  | OpUserStatus string
  | OpAwayStatus string
  | OpServerAddress string
  | OpDownloadDirectory string
  | OpShareDirectory string
  | OpLogDirectory string
  | OpIgnorePattern string
  | OpWatchPattern string
  | OpAutoPrivPattern string
  | OpAutoUpdateServerList bool
  | OpFileSharingEnabled bool
  | OpFirewalled bool
  | OpAutoClearFinishedTransfers bool
  | OpChatLoggingEnabled bool
  | OpRetainFilePaths bool
  | OpNotificationsEnabled bool
  | OpConnectOnStartup bool
  | OpMaxSimultaneousDownloads uint32
  | OpMaxSimultaneousUploads uint32
  | OpMaxDownloadRate uint32
  | OpMaxUploadRate uint32
  | OpChatFontPointSize uint32
  | OpServerPort uint16
  | OpServerList "string list"
  | OpExtraServers "string list"
  | OpRememberServer string
  | OpRememberUserName string
  | OpRememberStatus string
  | OpColumnLayout string "uint8 list option"
  | OpAliases "(string \<times> string) list"
  | OpInstallId

primrec run_setting :: "muscle \<Rightarrow> settings_env \<Rightarrow> setting_op \<Rightarrow> message \<Rightarrow> message" where
  "run_setting L V (OpUserName v) m = SetUserName v m"
| "run_setting L V (OpUserStatus v) m = SetUserStatus v m"
| "run_setting L V (OpAwayStatus v) m = SetAwayStatus v m"
| "run_setting L V (OpServerAddress v) m = SetServerAddress v m"
| "run_setting L V (OpDownloadDirectory v) m = StSetDownloadDirectory v m"
| "run_setting L V (OpShareDirectory v) m = StSetShareDirectory v m"
| "run_setting L V (OpLogDirectory v) m = StSetLogDirectory v m"
| "run_setting L V (OpIgnorePattern v) m = SetIgnorePattern v m"
| "run_setting L V (OpWatchPattern v) m = SetWatchPattern v m"
| "run_setting L V (OpAutoPrivPattern v) m = SetAutoPrivPattern v m"
| "run_setting L V (OpAutoUpdateServerList v) m = SetAutoUpdateServerList v m"
| "run_setting L V (OpFileSharingEnabled v) m = SetFileSharingEnabled v m"
| "run_setting L V (OpFirewalled v) m = StSetFirewalled v m"
| "run_setting L V (OpAutoClearFinishedTransfers v) m = SetAutoClearFinishedTransfers v m"
| "run_setting L V (OpChatLoggingEnabled v) m = SetChatLoggingEnabled v m"
| "run_setting L V (OpRetainFilePaths v) m = StSetRetainFilePaths v m"
| "run_setting L V (OpNotificationsEnabled v) m = SetNotificationsEnabled v m"
| "run_setting L V (OpConnectOnStartup v) m = SetConnectOnStartup v m"
| "run_setting L V (OpMaxSimultaneousDownloads v) m = StSetMaxSimultaneousDownloads v m"
| "run_setting L V (OpMaxSimultaneousUploads v) m = StSetMaxSimultaneousUploads v m"
| "run_setting L V (OpMaxDownloadRate v) m = SetMaxDownloadRate v m"
| "run_setting L V (OpMaxUploadRate v) m = SetMaxUploadRate v m"
| "run_setting L V (OpChatFontPointSize v) m = SetChatFontPointSize v m"
| "run_setting L V (OpServerPort v) m = SetServerPort v m"
| "run_setting L V (OpServerList vs) m = SetServerList vs m"
| "run_setting L V (OpExtraServers vs) m = SetExtraServers vs m"
| "run_setting L V (OpRememberServer v) m = RememberServer L v m"
| "run_setting L V (OpRememberUserName v) m = RememberUserName L v m"
| "run_setting L V (OpRememberStatus v) m = RememberStatus L v m"
| "run_setting L V (OpColumnLayout view data) m = SetColumnLayout view data m"
| "run_setting L V (OpAliases t) m = SetAliases t m"
| "run_setting L V OpInstallId m = snd (GetInstallId V m)"

primrec spec_step :: "muscle \<Rightarrow> settings_env \<Rightarrow> setting_op \<Rightarrow> preferences \<Rightarrow> preferences" where
  "spec_step L V (OpUserName v) p = p\<lparr>pf_userName := if v = [] then kDefaultUserName else v\<rparr>"
| "spec_step L V (OpUserStatus v) p = p\<lparr>pf_userStatus := if v = [] then kDefaultUserStatus else v\<rparr>"
| "spec_step L V (OpAwayStatus v) p = p\<lparr>pf_awayStatus := if v = [] then kDefaultAwayStatus else v\<rparr>"
| "spec_step L V (OpServerAddress v) p = p\<lparr>pf_serverAddress := if v = [] then kDefaultServerAddress else v\<rparr>"
| "spec_step L V (OpDownloadDirectory v) p = p\<lparr>pf_downloadDirectory := if v = [] then GetDefaultDownloadDirectoryPath V else v\<rparr>"
| "spec_step L V (OpShareDirectory v) p = p\<lparr>pf_shareDirectory := if v = [] then GetDefaultShareDirectoryPath V else v\<rparr>"
| "spec_step L V (OpLogDirectory v) p = p\<lparr>pf_logDirectory := if v = [] then GetDefaultLogDirectoryPath V else v\<rparr>"
| "spec_step L V (OpIgnorePattern v) p = p\<lparr>pf_ignorePattern := if v = [] then [] else v\<rparr>"
| "spec_step L V (OpWatchPattern v) p = p\<lparr>pf_watchPattern := if v = [] then [] else v\<rparr>"
| "spec_step L V (OpAutoPrivPattern v) p = p\<lparr>pf_autoPrivPattern := if v = [] then [] else v\<rparr>"
| "spec_step L V (OpAutoUpdateServerList v) p = p\<lparr>pf_autoUpdateServerList := v\<rparr>"
| "spec_step L V (OpFileSharingEnabled v) p = p\<lparr>pf_fileSharingEnabled := v\<rparr>"
| "spec_step L V (OpFirewalled v) p = p\<lparr>pf_firewalled := v\<rparr>"
| "spec_step L V (OpAutoClearFinishedTransfers v) p = p\<lparr>pf_autoClearFinishedTransfers := v\<rparr>"
| "spec_step L V (OpChatLoggingEnabled v) p = p\<lparr>pf_chatLoggingEnabled := v\<rparr>"
| "spec_step L V (OpRetainFilePaths v) p = p\<lparr>pf_retainFilePaths := v\<rparr>"
| "spec_step L V (OpNotificationsEnabled v) p = p\<lparr>pf_notificationsEnabled := v\<rparr>"
| "spec_step L V (OpConnectOnStartup v) p = p\<lparr>pf_connectOnStartup := v\<rparr>"
| "spec_step L V (OpMaxSimultaneousDownloads v) p = p\<lparr>pf_maxSimultaneousDownloads := muscleClamp v 1 kMaximumSessionLimit\<rparr>"
| "spec_step L V (OpMaxSimultaneousUploads v) p = p\<lparr>pf_maxSimultaneousUploads := muscleClamp v 1 kMaximumSessionLimit\<rparr>"
| "spec_step L V (OpMaxDownloadRate v) p = p\<lparr>pf_maxDownloadRate := if sint v < 0 then 0 else v\<rparr>"
| "spec_step L V (OpMaxUploadRate v) p = p\<lparr>pf_maxUploadRate := if sint v < 0 then 0 else v\<rparr>"
| "spec_step L V (OpChatFontPointSize v) p = p\<lparr>pf_chatFontPointSize := if sint v \<le> 0 then 0 else muscleClamp v 6 32\<rparr>"
| "spec_step L V (OpServerPort v) p = p\<lparr>pf_serverPort := if v = 0 then kDefaultServerPort else v\<rparr>"
| "spec_step L V (OpServerList vs) p = p\<lparr>pf_servers := filter (\<lambda>v. v \<noteq> []) vs\<rparr>"
| "spec_step L V (OpExtraServers vs) p = p\<lparr>pf_extraServers := filter (\<lambda>v. v \<noteq> []) vs\<rparr>"
| "spec_step L V (OpRememberServer v) p = p\<lparr>pf_servers := if v = [] then pf_servers p else promote L kMaximumRememberedServers v (pf_servers p)\<rparr>"
| "spec_step L V (OpRememberUserName v) p = p\<lparr>pf_recentUserNames := if v = [] then pf_recentUserNames p else promote L kMaximumRememberedNames v (pf_recentUserNames p)\<rparr>"
| "spec_step L V (OpRememberStatus v) p = p\<lparr>pf_recentStatuses := if v = [] then pf_recentStatuses p else promote L kMaximumRememberedNames v (pf_recentStatuses p)\<rparr>"
| "spec_step L V (OpColumnLayout view data) p = p\<lparr>pf_columnLayout := (pf_columnLayout p)(view := if data = Some [] then None else data)\<rparr>"
| "spec_step L V (OpAliases t) p = p\<lparr>pf_aliases := fold (\<lambda>(n, v). ht_put n v) t []\<rparr>"
| "spec_step L V OpInstallId p = p\<lparr>pf_installId := if pf_installId p = 0 then random64 V else pf_installId p\<rparr>"

lemmas getters = GetString_def finds GetUserName_def GetUserStatus_def
  GetAwayStatus_def GetServerAddress_def GetDownloadDirectory_def GetShareDirectory_def
  GetLogDirectory_def GetIgnorePattern_def GetWatchPattern_def GetAutoPrivPattern_def
  GetAutoUpdateServerList_def GetFileSharingEnabled_def GetFirewalled_def GetAutoClearFinishedTransfers_def
  GetChatLoggingEnabled_def GetRetainFilePaths_def GetNotificationsEnabled_def GetConnectOnStartup_def
  GetMaxSimultaneousDownloads_def GetMaxSimultaneousUploads_def GetMaxDownloadRate_def GetMaxUploadRate_def
  GetChatFontPointSize_def GetServerPort_def GetExtraServers_def GetRecentUserNames_def
  GetRecentStatuses_def GetStringList_def GetColumnLayout_def GetAliases_def

lemmas setters = SetUserName_def SetUserStatus_def SetAwayStatus_def SetServerAddress_def
  StSetDownloadDirectory_def StSetShareDirectory_def StSetLogDirectory_def SetIgnorePattern_def
  SetWatchPattern_def SetAutoPrivPattern_def SetAutoUpdateServerList_def SetFileSharingEnabled_def
  StSetFirewalled_def SetAutoClearFinishedTransfers_def SetChatLoggingEnabled_def StSetRetainFilePaths_def
  SetNotificationsEnabled_def SetConnectOnStartup_def StSetMaxSimultaneousDownloads_def StSetMaxSimultaneousUploads_def
  SetMaxDownloadRate_def SetMaxUploadRate_def SetChatFontPointSize_def SetServerPort_def
  SetString_def SetServerList_def SetExtraServers_def

subsection \<open>Every operation keeps the types\<close>

lemma slot_other [simp]:
  assumes "n' \<noteq> n"
  shows
    "string_slot (replace_string m n s) n' = string_slot m n'" "int32_slot (replace_string m n s) n' = int32_slot m n'"
    "bool_slot (replace_string m n s) n' = bool_slot m n'" "int64_slot (replace_string m n s) n' = int64_slot m n'"
    "string_slot (replace_int32 m n i) n' = string_slot m n'" "int32_slot (replace_int32 m n i) n' = int32_slot m n'"
    "bool_slot (replace_int32 m n i) n' = bool_slot m n'" "int64_slot (replace_int32 m n i) n' = int64_slot m n'"
    "string_slot (replace_int64 m n j) n' = string_slot m n'" "int32_slot (replace_int64 m n j) n' = int32_slot m n'"
    "bool_slot (replace_int64 m n j) n' = bool_slot m n'" "int64_slot (replace_int64 m n j) n' = int64_slot m n'"
    "string_slot (replace_bool m n b) n' = string_slot m n'" "int32_slot (replace_bool m n b) n' = int32_slot m n'"
    "bool_slot (replace_bool m n b) n' = bool_slot m n'" "int64_slot (replace_bool m n b) n' = int64_slot m n'"
  using assms by (simp_all add: string_slot_def int32_slot_def bool_slot_def int64_slot_def)

lemma settings_ok_frame:
  assumes "settings_ok m" and "\<And>n. n \<in> set [kFieldUserName, kFieldUserStatus, kFieldAwayStatus, kFieldServerAddress,
      kFieldDownloadDirectory, kFieldShareDirectory, kFieldLogDirectory, kFieldIgnorePattern,
      kFieldWatchPattern, kFieldAutoPrivPattern, kFieldAutoUpdateServers, kFieldFileSharingEnabled,
      kFieldFirewalled, kFieldAutoClear, kFieldChatLogging, kFieldRetainFilePaths,
      kFieldNotificationsEnabled, kFieldConnectOnStartup, kFieldServerPort, kFieldMaxDownloads,
      kFieldMaxUploads, kFieldMaxDownloadRate, kFieldMaxUploadRate, kFieldChatFontPointSize,
      kFieldInstallId] \<Longrightarrow>
      find_field m' n = find_field m n"
  shows "settings_ok m'"
  using assms(1) by (simp add: settings_ok_def string_slot_def bool_slot_def int32_slot_def int64_slot_def assms(2))

lemma find_field_SetAliases:
  "n \<noteq> kFieldAliasName \<Longrightarrow> n \<noteq> kFieldAliasValue \<Longrightarrow> find_field (SetAliases t m) n = find_field m n"
proof -
  assume n: "n \<noteq> kFieldAliasName" "n \<noteq> kFieldAliasValue"
  have "find_field (foldl (\<lambda>m (a, v). add_string (add_string m kFieldAliasName a) kFieldAliasValue v) m' t) n =
      find_field m' n" for m'
    using n by (induction t arbitrary: m') auto
  with n show ?thesis by (simp add: SetAliases_def)
qed

lemma all_strings_SetAliases:
  "all_strings (SetAliases t m) kFieldAliasName = map fst t"
  "all_strings (SetAliases t m) kFieldAliasValue = map snd t"
proof -
  have ne: "kFieldAliasName \<noteq> kFieldAliasValue" by (simp add: field_names)
  have slot: "find_field (add_string m n v) n = Some (FString (all_strings m n @ [v]))" if "string_slot m n" for m n v
    using that by (auto simp: string_slot_def all_strings_def split: option.splits field.splits)
  have "all_strings (foldl (\<lambda>m (a, v). add_string (add_string m kFieldAliasName a) kFieldAliasValue v) m' t) kFieldAliasName =
        all_strings m' kFieldAliasName @ map fst t \<and>
      all_strings (foldl (\<lambda>m (a, v). add_string (add_string m kFieldAliasName a) kFieldAliasValue v) m' t) kFieldAliasValue =
        all_strings m' kFieldAliasValue @ map snd t"
    if "string_slot m' kFieldAliasName" "string_slot m' kFieldAliasValue" for m'
    using that
  proof (induction t arbitrary: m')
    case (Cons e t)
    obtain a v where e: "e = (a, v)" by (cases e)
    let ?m = "add_string (add_string m' kFieldAliasName a) kFieldAliasValue v"
    have "find_field ?m kFieldAliasName = Some (FString (all_strings m' kFieldAliasName @ [a]))"
      using slot [OF Cons.prems(1)] ne by (simp del: find_field_add_string add: find_field_add_string [of _ kFieldAliasValue])
    moreover have "find_field ?m kFieldAliasValue = Some (FString (all_strings m' kFieldAliasValue @ [v]))"
    proof -
      have f: "find_field (add_string m' kFieldAliasName a) kFieldAliasValue = find_field m' kFieldAliasValue"
        using ne by simp
      from slot [of "add_string m' kFieldAliasName a" kFieldAliasValue v] Cons.prems(2) show ?thesis
        by (simp only: slot_cong [OF f])
    qed
    ultimately have s: "string_slot ?m kFieldAliasName" "string_slot ?m kFieldAliasValue"
      and "all_strings ?m kFieldAliasName = all_strings m' kFieldAliasName @ [a]"
      "all_strings ?m kFieldAliasValue = all_strings m' kFieldAliasValue @ [v]"
      by (simp_all only: string_slot_def all_strings_def option.case field.case)
    with Cons.IH [OF s] show ?case by (simp only: e foldl_Cons prod.case) simp
  qed simp
  from this [of "remove_name (remove_name m kFieldAliasName) kFieldAliasValue"] ne
  show "all_strings (SetAliases t m) kFieldAliasName = map fst t"
    "all_strings (SetAliases t m) kFieldAliasValue = map snd t"
    by (simp_all add: SetAliases_def string_slot_def all_strings_def)
qed

lemma aliases_stored: "GetAliases (SetAliases t m) = fold (\<lambda>(n, v). ht_put n v) t []"
  by (simp add: GetAliases_def all_strings_SetAliases zip_map_fst_snd)

lemma find_field_RememberInList:
  "n' \<noteq> n \<Longrightarrow> find_field (RememberInList L n v k m) n' = find_field m n'"
  by (simp add: RememberInList_def find_field_SetStringList)

lemma find_field_SetColumnLayout:
  "n \<noteq> kFieldColumnLayoutPrefix @ view \<Longrightarrow> find_field (SetColumnLayout view data m) n = find_field m n"
  by (cases data) (simp_all add: SetColumnLayout_def Let_def)

lemma column_layout_stored:
  "GetColumnLayout view (SetColumnLayout view data m) = (if data = Some [] then None else data)"
  by (cases data) (simp_all add: GetColumnLayout_def SetColumnLayout_def Let_def finds)

lemma list_remembered:
  "GetStringList n (RememberInList L n v k m) =
     (if v = [] then GetStringList n m else promote L k v (GetStringList n m))"
proof -
  have "filter (\<lambda>v. v \<noteq> []) (promote L k v (GetStringList n m)) = promote L k v (GetStringList n m)" if "v \<noteq> []"
    using that by (auto simp: promote_def GetStringList_def take_Cons' intro!: filter_True dest!: in_set_takeD)
  then show ?thesis by (simp add: RememberInList_def GetStringList_def all_strings_SetStringList)
qed

lemmas list_setters = SetServerList_def SetExtraServers_def RememberServer_def RememberUserName_def RememberStatus_def
lemmas list_fields = find_field_SetStringList find_field_RememberInList find_field_SetColumnLayout find_field_SetAliases

lemma settings_ok_step:
  assumes "settings_ok m"
  shows "settings_ok (run_setting L V op m)"
proof (cases op)
  case OpInstallId
  with assms show ?thesis
    by (auto simp: GetInstallId_def settings_ok_def field_names split: option.split)
qed (insert assms,
     ((simp add: setters settings_ok_def field_names; fail) |
      (rule settings_ok_frame [OF assms], auto simp: list_setters list_fields field_names; fail))+)

subsection \<open>Every operation does what the abstract view says\<close>

lemma sint_small32: "uint (w :: int32) < 2 ^ 31 \<Longrightarrow> sint w = uint w"
  unfolding sint_uint by (rule signed_take_bit_int_eq_self) (simp_all add: order_trans [OF _ uint_ge_0])

lemma clamp_range: "1 \<le> uint (muscleClamp v 1 32) \<and> uint (muscleClamp v 1 32) \<le> 32"
  by (auto simp: muscleClamp_def word_less_def word_le_def not_less)

lemma clamped_stored:
  "(if sint (muscleClamp v 1 kMaximumSessionLimit) \<le> 0 then d
    else min (muscleClamp v 1 kMaximumSessionLimit) kMaximumSessionLimit) = muscleClamp v 1 kMaximumSessionLimit"
  using clamp_range [of v] sint_small32 [of "muscleClamp v 1 32"]
  by (simp add: kMaximumSessionLimit_def min_absorb1 word_le_def)

lemma uint_port: "uint (ucast (v :: uint16) :: int32) = uint v"
  by (simp add: unsigned_ucast_eq take_bit_int_eq_self less_trans [OF uint_bounded])

lemma port_stored:
  "(if sint (ucast v :: int32) \<le> 0 \<or> sint (ucast v :: int32) > 65535 then d else ucast (ucast v :: int32)) =
   (if v = 0 then d else (v :: uint16))"
proof -
  have b: "uint v < 65536" using uint_bounded [of v] by simp
  then have "sint (ucast v :: int32) = uint v" by (simp add: sint_small32 uint_port)
  moreover have "uint v \<le> 0 \<longleftrightarrow> v = 0" by (metis uint_0_iff uint_ge_0 order_antisym order_refl)
  moreover have "ucast (ucast v :: int32) = v" by (rule ucast_up_ucast_id) (simp add: is_up)
  ultimately show ?thesis using b by simp
qed

lemma refine_UserName: "settings_ok m \<Longrightarrow>
    preferences_of V (run_setting L V (OpUserName v) m) = spec_step L V (OpUserName v) (preferences_of V m)"
  using st_userName.read_back [of m v]
  by (simp add: preferences_of_def settings_ok_def setters getters field_names)

lemma refine_UserStatus: "settings_ok m \<Longrightarrow>
    preferences_of V (run_setting L V (OpUserStatus v) m) = spec_step L V (OpUserStatus v) (preferences_of V m)"
  using st_userStatus.read_back [of m v]
  by (simp add: preferences_of_def settings_ok_def setters getters field_names)

lemma refine_AwayStatus: "settings_ok m \<Longrightarrow>
    preferences_of V (run_setting L V (OpAwayStatus v) m) = spec_step L V (OpAwayStatus v) (preferences_of V m)"
  using st_awayStatus.read_back [of m v]
  by (simp add: preferences_of_def settings_ok_def setters getters field_names)

lemma refine_ServerAddress: "settings_ok m \<Longrightarrow>
    preferences_of V (run_setting L V (OpServerAddress v) m) = spec_step L V (OpServerAddress v) (preferences_of V m)"
  using st_serverAddress.read_back [of m v]
  by (simp add: preferences_of_def settings_ok_def setters getters field_names)

lemma refine_DownloadDirectory: "settings_ok m \<Longrightarrow>
    preferences_of V (run_setting L V (OpDownloadDirectory v) m) = spec_step L V (OpDownloadDirectory v) (preferences_of V m)"
  using st_downloadDirectory.read_back [of m V v]
  by (simp add: preferences_of_def settings_ok_def setters getters field_names)

lemma refine_ShareDirectory: "settings_ok m \<Longrightarrow>
    preferences_of V (run_setting L V (OpShareDirectory v) m) = spec_step L V (OpShareDirectory v) (preferences_of V m)"
  using st_shareDirectory.read_back [of m V v]
  by (simp add: preferences_of_def settings_ok_def setters getters field_names)

lemma refine_LogDirectory: "settings_ok m \<Longrightarrow>
    preferences_of V (run_setting L V (OpLogDirectory v) m) = spec_step L V (OpLogDirectory v) (preferences_of V m)"
  using st_logDirectory.read_back [of m V v]
  by (simp add: preferences_of_def settings_ok_def setters getters field_names)

lemma refine_IgnorePattern: "settings_ok m \<Longrightarrow>
    preferences_of V (run_setting L V (OpIgnorePattern v) m) = spec_step L V (OpIgnorePattern v) (preferences_of V m)"
  using st_ignorePattern.read_back [of m v]
  by (simp add: preferences_of_def settings_ok_def setters getters field_names)

lemma refine_WatchPattern: "settings_ok m \<Longrightarrow>
    preferences_of V (run_setting L V (OpWatchPattern v) m) = spec_step L V (OpWatchPattern v) (preferences_of V m)"
  using st_watchPattern.read_back [of m v]
  by (simp add: preferences_of_def settings_ok_def setters getters field_names)

lemma refine_AutoPrivPattern: "settings_ok m \<Longrightarrow>
    preferences_of V (run_setting L V (OpAutoPrivPattern v) m) = spec_step L V (OpAutoPrivPattern v) (preferences_of V m)"
  using st_autoPrivPattern.read_back [of m v]
  by (simp add: preferences_of_def settings_ok_def setters getters field_names)

lemma refine_AutoUpdateServerList: "settings_ok m \<Longrightarrow>
    preferences_of V (run_setting L V (OpAutoUpdateServerList v) m) = spec_step L V (OpAutoUpdateServerList v) (preferences_of V m)"
  using st_autoUpdateServerList.read_back [of m v]
  by (simp add: preferences_of_def settings_ok_def setters getters field_names)

lemma refine_FileSharingEnabled: "settings_ok m \<Longrightarrow>
    preferences_of V (run_setting L V (OpFileSharingEnabled v) m) = spec_step L V (OpFileSharingEnabled v) (preferences_of V m)"
  using st_fileSharingEnabled.read_back [of m v]
  by (simp add: preferences_of_def settings_ok_def setters getters field_names)

lemma refine_Firewalled: "settings_ok m \<Longrightarrow>
    preferences_of V (run_setting L V (OpFirewalled v) m) = spec_step L V (OpFirewalled v) (preferences_of V m)"
  using st_firewalled.read_back [of m v]
  by (simp add: preferences_of_def settings_ok_def setters getters field_names)

lemma refine_AutoClearFinishedTransfers: "settings_ok m \<Longrightarrow>
    preferences_of V (run_setting L V (OpAutoClearFinishedTransfers v) m) = spec_step L V (OpAutoClearFinishedTransfers v) (preferences_of V m)"
  using st_autoClearFinishedTransfers.read_back [of m v]
  by (simp add: preferences_of_def settings_ok_def setters getters field_names)

lemma refine_ChatLoggingEnabled: "settings_ok m \<Longrightarrow>
    preferences_of V (run_setting L V (OpChatLoggingEnabled v) m) = spec_step L V (OpChatLoggingEnabled v) (preferences_of V m)"
  using st_chatLoggingEnabled.read_back [of m v]
  by (simp add: preferences_of_def settings_ok_def setters getters field_names)

lemma refine_RetainFilePaths: "settings_ok m \<Longrightarrow>
    preferences_of V (run_setting L V (OpRetainFilePaths v) m) = spec_step L V (OpRetainFilePaths v) (preferences_of V m)"
  using st_retainFilePaths.read_back [of m v]
  by (simp add: preferences_of_def settings_ok_def setters getters field_names)

lemma refine_NotificationsEnabled: "settings_ok m \<Longrightarrow>
    preferences_of V (run_setting L V (OpNotificationsEnabled v) m) = spec_step L V (OpNotificationsEnabled v) (preferences_of V m)"
  using st_notificationsEnabled.read_back [of m v]
  by (simp add: preferences_of_def settings_ok_def setters getters field_names)

lemma refine_ConnectOnStartup: "settings_ok m \<Longrightarrow>
    preferences_of V (run_setting L V (OpConnectOnStartup v) m) = spec_step L V (OpConnectOnStartup v) (preferences_of V m)"
  using st_connectOnStartup.read_back [of m v]
  by (simp add: preferences_of_def settings_ok_def setters getters field_names)

lemma refine_MaxSimultaneousDownloads: "settings_ok m \<Longrightarrow>
    preferences_of V (run_setting L V (OpMaxSimultaneousDownloads v) m) = spec_step L V (OpMaxSimultaneousDownloads v) (preferences_of V m)"
  using st_maxSimultaneousDownloads.read_back [of m v]
  by (simp add: preferences_of_def settings_ok_def setters getters field_names clamped_stored)

lemma refine_MaxSimultaneousUploads: "settings_ok m \<Longrightarrow>
    preferences_of V (run_setting L V (OpMaxSimultaneousUploads v) m) = spec_step L V (OpMaxSimultaneousUploads v) (preferences_of V m)"
  using st_maxSimultaneousUploads.read_back [of m v]
  by (simp add: preferences_of_def settings_ok_def setters getters field_names clamped_stored)

lemma refine_MaxDownloadRate: "settings_ok m \<Longrightarrow>
    preferences_of V (run_setting L V (OpMaxDownloadRate v) m) = spec_step L V (OpMaxDownloadRate v) (preferences_of V m)"
  using st_maxDownloadRate.read_back [of m v]
  by (simp add: preferences_of_def settings_ok_def setters getters field_names)

lemma refine_MaxUploadRate: "settings_ok m \<Longrightarrow>
    preferences_of V (run_setting L V (OpMaxUploadRate v) m) = spec_step L V (OpMaxUploadRate v) (preferences_of V m)"
  using st_maxUploadRate.read_back [of m v]
  by (simp add: preferences_of_def settings_ok_def setters getters field_names)

lemma refine_ChatFontPointSize: "settings_ok m \<Longrightarrow>
    preferences_of V (run_setting L V (OpChatFontPointSize v) m) = spec_step L V (OpChatFontPointSize v) (preferences_of V m)"
  using st_chatFontPointSize.read_back [of m v]
  by (simp add: preferences_of_def settings_ok_def setters getters field_names)

lemma refine_ServerPort: "settings_ok m \<Longrightarrow>
    preferences_of V (run_setting L V (OpServerPort v) m) = spec_step L V (OpServerPort v) (preferences_of V m)"
  using st_serverPort.read_back [of m v]
  by (simp add: preferences_of_def settings_ok_def setters getters field_names port_stored)

lemma refine_lists:
  "preferences_of V (run_setting L V (OpServerList vs) m) = spec_step L V (OpServerList vs) (preferences_of V m)"
  "preferences_of V (run_setting L V (OpExtraServers vs) m) = spec_step L V (OpExtraServers vs) (preferences_of V m)"
  "preferences_of V (run_setting L V (OpRememberServer v) m) = spec_step L V (OpRememberServer v) (preferences_of V m)"
  "preferences_of V (run_setting L V (OpRememberUserName v) m) = spec_step L V (OpRememberUserName v) (preferences_of V m)"
  "preferences_of V (run_setting L V (OpRememberStatus v) m) = spec_step L V (OpRememberStatus v) (preferences_of V m)"
  using st_extraServers.read_back [where m = m and v = vs]
    list_remembered [of kFieldServerList L v kMaximumRememberedServers m]
    list_remembered [of kFieldRecentUserNames L v kMaximumRememberedNames m]
    list_remembered [of kFieldRecentStatuses L v kMaximumRememberedNames m]
    all_strings_SetStringList [of kFieldServerList vs m]
  by (simp_all add: preferences_of_def list_setters getters find_field_SetStringList find_field_RememberInList field_names)

lemma refine_ColumnLayout:
  "preferences_of V (run_setting L V (OpColumnLayout view data) m) =
   spec_step L V (OpColumnLayout view data) (preferences_of V m)"
proof -
  have "GetColumnLayout x (SetColumnLayout view data m) =
      ((\<lambda>x. GetColumnLayout x m)(view := if data = Some [] then None else data)) x" for x
    using column_layout_stored [of view data m]
    by (simp add: GetColumnLayout_def find_data_def find_field_SetColumnLayout)
  then show ?thesis
    by (simp add: preferences_of_def fun_eq_iff)
      (simp add: getters find_field_SetColumnLayout field_names)
qed

lemma refine_Aliases:
  "preferences_of V (run_setting L V (OpAliases t) m) = spec_step L V (OpAliases t) (preferences_of V m)"
  using aliases_stored [of t m]
  by (simp add: preferences_of_def getters find_field_SetAliases field_names)

lemma refine_InstallId:
  assumes "settings_ok m"
  shows "preferences_of V (run_setting L V OpInstallId m) = spec_step L V OpInstallId (preferences_of V m)"
proof -
  have "find_int64 (replace_int64 m kFieldInstallId i) kFieldInstallId = Some i" for i
    using assms by (simp add: settings_ok_def find_replace_int64)
  moreover have "preferences_of V (replace_int64 m kFieldInstallId i) =
      preferences_of V m\<lparr>pf_installId := found_or 0 (find_int64 (replace_int64 m kFieldInstallId i) kFieldInstallId)\<rparr>" for i
    by (simp add: preferences_of_def getters field_names)
  ultimately show ?thesis
    by (auto simp: GetInstallId_def preferences_of_def split: option.split)
qed

lemmas refine_steps =
  refine_UserName refine_UserStatus refine_AwayStatus refine_ServerAddress
  refine_DownloadDirectory refine_ShareDirectory refine_LogDirectory refine_IgnorePattern
  refine_WatchPattern refine_AutoPrivPattern refine_AutoUpdateServerList refine_FileSharingEnabled
  refine_Firewalled refine_AutoClearFinishedTransfers refine_ChatLoggingEnabled refine_RetainFilePaths
  refine_NotificationsEnabled refine_ConnectOnStartup refine_MaxSimultaneousDownloads refine_MaxSimultaneousUploads
  refine_MaxDownloadRate refine_MaxUploadRate refine_ChatFontPointSize
  refine_ServerPort refine_lists refine_ColumnLayout refine_Aliases refine_InstallId

lemma refine_step:
  "settings_ok m \<Longrightarrow>
    preferences_of V (run_setting L V op m) = spec_step L V op (preferences_of V m)"
  by (cases op) (simp_all only: refine_steps)

lemma settings_ok_new: "settings_ok (new_message w)"
  by (simp add: settings_ok_def string_slot_def bool_slot_def int32_slot_def int64_slot_def)

lemma preferences_of_new: "preferences_of V (new_message w) = default_preferences V"
  by (simp add: preferences_of_def default_preferences_def getters GetAliases_def)

subsection \<open>What a stored number can be\<close>

lemma sint_nonneg32: "0 \<le> sint (i :: int32) \<Longrightarrow> uint i = sint i \<and> uint i < 2 ^ 31"
proof -
  assume i: "0 \<le> sint i"
  have "sint i < 2 ^ 31" using sint_lt [of i] by simp
  with i have "uint i = sint i" by (simp add: uint_sint take_bit_int_eq_self)
  with \<open>sint i < 2 ^ 31\<close> show ?thesis by simp
qed

lemma session_limit: "\<not> sint (i :: int32) \<le> 0 \<Longrightarrow> 1 \<le> min i 32 \<and> min i 32 \<le> 32"
proof -
  assume "\<not> sint i \<le> 0"
  then have "i \<noteq> 0" by auto
  then have "1 \<le> i" by (simp add: word_le_nat_alt Suc_le_eq unat_gt_0)
  then show ?thesis by (simp add: min_def)
qed

lemma port_nonzero: "0 < sint (i :: int32) \<Longrightarrow> sint i \<le> 65535 \<Longrightarrow> (ucast i :: uint16) \<noteq> 0"
proof -
  assume i: "0 < sint i" "sint i \<le> 65535"
  then have "uint i = sint i" using sint_nonneg32 [of i] by simp
  moreover from this i have "uint (ucast i :: uint16) = sint i"
    by (simp add: unsigned_ucast_eq take_bit_int_eq_self)
  ultimately show ?thesis using i by auto
qed

lemma fold_refines:
  "settings_ok m \<Longrightarrow>
   preferences_of V (fold (run_setting L V) ops m) = fold (spec_step L V) ops (preferences_of V m) \<and>
   settings_ok (fold (run_setting L V) ops m)"
  by (induction ops arbitrary: m) (simp_all add: refine_step settings_ok_step)

subsection \<open>The remembered lists\<close>

definition short_list :: "muscle \<Rightarrow> string list \<Rightarrow> bool" where
  "short_list L xs \<longleftrightarrow>
     length xs \<le> kMaximumRememberedNames \<and> [] \<notin> set xs \<and> distinct (map (ToLowerCase L) xs)"

lemma short_list_promote:
  assumes "ignore_case_law L" "short_list L xs" "v \<noteq> []"
  shows "short_list L (promote L kMaximumRememberedNames v xs)"
proof -
  let ?ys = "v # filter (\<lambda>x. \<not> EqualsIgnoreCase L x v) xs"
  have "distinct (map (ToLowerCase L) ?ys)"
    using assms by (auto simp: short_list_def ignore_case_law_def distinct_map inj_on_def)
  moreover have "[] \<notin> set ?ys" using assms by (auto simp: short_list_def)
  ultimately show ?thesis
    unfolding short_list_def promote_def by (auto simp: take_map [symmetric] distinct_take dest: in_set_takeD simp del: list.map)
qed

lemma short_list_step:
  assumes "ignore_case_law L" "short_list L (pf_recentUserNames p)" "short_list L (pf_recentStatuses p)"
  shows "short_list L (pf_recentUserNames (spec_step L V op p)) \<and> short_list L (pf_recentStatuses (spec_step L V op p))"
  using assms short_list_promote [OF assms(1)] by (cases op) simp_all

subsection \<open>Correctness\<close>

text \<open>
  C22. The archive behaves like a record of plain settings: on any archive whose fields have the types
  the program gives them, a new one or one read from disk, every sequence of operations leaves the
  settings that the same operations leave on the record, each changing its own entry and no other,
  and the types stay right. A new archive shows the defaults.
\<close>

theorem settings_refine:
  assumes "settings_ok m"
  shows "preferences_of V (fold (run_setting L V) ops m) = fold (spec_step L V) ops (preferences_of V m) \<and>
    settings_ok (fold (run_setting L V) ops m) \<and>
    preferences_of V (new_message w) = default_preferences V"
  using fold_refines [OF assms] preferences_of_new by blast

definition demo_settings_env :: settings_env where
  "demo_settings_env = \<lparr>
     getenv = (\<lambda>n. if n = ''HOME'' then Some ''/h'' else None), random64 = 77,
     FlattenToDataIO = (\<lambda>m. [0, 0, 0, 0] @ map (of_nat \<circ> of_char) (GetUserName m)),
     UnflattenFromDataIO = (\<lambda>cap bs old.
       if length bs > cap + 4 then (False, old)
       else (True, SetUserName (map (char_of \<circ> unat) (drop 4 bs)) (new_message 0))) \<rparr>"

theorem settings_refine_witness:
  "GetUserName (fold (run_setting ref_muscle demo_settings_env)
     [OpUserName ''joe'', OpMaxSimultaneousUploads 90, OpUserName ''''] (new_message 0)) = ''binky'' \<and>
   pf_maxSimultaneousUploads (preferences_of demo_settings_env
     (fold (run_setting ref_muscle demo_settings_env)
       [OpUserName ''joe'', OpMaxSimultaneousUploads 90, OpUserName ''''] (new_message 0))) = 32"
proof -
  let ?ops = "[OpUserName ''joe'', OpMaxSimultaneousUploads 90, OpUserName '''']"
  let ?p = "preferences_of demo_settings_env (fold (run_setting ref_muscle demo_settings_env) ?ops (new_message 0))"
  have "?p = fold (spec_step ref_muscle demo_settings_env) ?ops (preferences_of demo_settings_env (new_message 0))"
    using settings_refine [OF settings_ok_new [of 0]] by blast
  then have "pf_userName ?p = ''binky'' \<and> pf_maxSimultaneousUploads ?p = 32"
    by (simp add: kDefaultUserName_def muscleClamp_def kMaximumSessionLimit_def)
  then show ?thesis by (simp add: preferences_of_def)
qed

lemma settings_bounded:
  "1 \<le> GetMaxSimultaneousDownloads m \<and> GetMaxSimultaneousDownloads m \<le> 32 \<and>
   1 \<le> GetMaxSimultaneousUploads m \<and> GetMaxSimultaneousUploads m \<le> 32 \<and>
   (GetChatFontPointSize m = 0 \<or> 6 \<le> GetChatFontPointSize m \<and> GetChatFontPointSize m \<le> 32) \<and>
   uint (GetMaxDownloadRate m) < 2 ^ 31 \<and> uint (GetMaxUploadRate m) < 2 ^ 31 \<and>
   GetServerPort m \<noteq> 0 \<and> GetServerList m \<noteq> [] \<and> [] \<notin> set (GetServerList m) \<and>
   GetUserName m \<noteq> [] \<and> GetUserStatus m \<noteq> [] \<and> GetServerAddress m \<noteq> []"
proof -
  have rate: "uint (if sint i < 0 then 0 else i) < 2 ^ 31" for i :: int32
    using sint_nonneg32 [of i] by (cases "sint i < 0") (simp_all only: not_less if_True if_False uint_0_eq unsigned_0, simp_all)
  have names: "GetUserName m \<noteq> [] \<and> GetUserStatus m \<noteq> [] \<and> GetServerAddress m \<noteq> []"
    by (auto simp: GetUserName_def GetUserStatus_def GetServerAddress_def GetString_def kDefaultUserName_def
        kDefaultUserStatus_def kDefaultServerAddress_def split: option.splits)
  have "GetServerList m \<noteq> [] \<and> [] \<notin> set (GetServerList m)"
    by (simp add: GetServerList_def GetStringList_def kDefaultServerList_def Let_def)
  moreover have "1 \<le> GetMaxSimultaneousDownloads m \<and> GetMaxSimultaneousDownloads m \<le> 32"
    "1 \<le> GetMaxSimultaneousUploads m \<and> GetMaxSimultaneousUploads m \<le> 32"
    using session_limit by (simp_all add: GetMaxSimultaneousDownloads_def GetMaxSimultaneousUploads_def
        kDefaultMaxDownloads_def kDefaultMaxUploads_def kMaximumSessionLimit_def split: option.split)
  moreover have "GetChatFontPointSize m = 0 \<or> 6 \<le> GetChatFontPointSize m \<and> GetChatFontPointSize m \<le> 32"
    by (auto simp: GetChatFontPointSize_def muscleClamp_def split: option.split)
  moreover have "uint (GetMaxDownloadRate m) < 2 ^ 31" "uint (GetMaxUploadRate m) < 2 ^ 31"
    using rate by (simp_all add: GetMaxDownloadRate_def GetMaxUploadRate_def split: option.split)
  moreover have "GetServerPort m \<noteq> 0"
    using port_nonzero by (auto simp: GetServerPort_def kDefaultServerPort_def not_le split: option.split)
  ultimately show ?thesis using names by blast
qed

text \<open>
  C23. Whatever a settings file contains, of whatever types, the values the program works with stay
  within bounds: between 1 and 32 transfers at a time in each direction, a font size of 0 (the system's)
  or between 6 and 32, a port other than 0, a non-empty list of servers, a user name, a status and a
  server address that are not empty.
\<close>

theorem settings_bounds:
  "1 \<le> GetMaxSimultaneousDownloads m \<and> GetMaxSimultaneousDownloads m \<le> 32 \<and>
   1 \<le> GetMaxSimultaneousUploads m \<and> GetMaxSimultaneousUploads m \<le> 32 \<and>
   (GetChatFontPointSize m = 0 \<or> 6 \<le> GetChatFontPointSize m \<and> GetChatFontPointSize m \<le> 32) \<and>
   uint (GetMaxDownloadRate m) < 2 ^ 31 \<and> uint (GetMaxUploadRate m) < 2 ^ 31 \<and>
   GetServerPort m \<noteq> 0 \<and> GetServerList m \<noteq> [] \<and> [] \<notin> set (GetServerList m) \<and>
   GetUserName m \<noteq> [] \<and> GetUserStatus m \<noteq> [] \<and> GetServerAddress m \<noteq> []"
  by (rule settings_bounded)

text \<open>
  The remembered names and statuses are short lists without repetition: after any sequence of
  settings operations on a new archive each has at most twelve entries, none of them empty and no two
  equal up to case; and remembering a name or status puts it at the front.
\<close>

theorem remembered_lists:
  assumes "ignore_case_law L"
  shows "let m = fold (run_setting L V) ops (new_message w)
    in list_all (\<lambda>xs. length xs \<le> kMaximumRememberedNames \<and> [] \<notin> set xs \<and> distinct (map (ToLowerCase L) xs))
         [GetRecentUserNames m, GetRecentStatuses m] \<and>
       (v \<noteq> [] \<longrightarrow> hd (GetRecentUserNames (RememberUserName L v m)) = v \<and>
                   hd (GetRecentStatuses (RememberStatus L v m)) = v)"
proof -
  let ?m = "fold (run_setting L V) ops (new_message w)"
  have "short_list L (pf_recentUserNames (fold (spec_step L V) ops p)) \<and>
      short_list L (pf_recentStatuses (fold (spec_step L V) ops p))"
    if "short_list L (pf_recentUserNames p)" "short_list L (pf_recentStatuses p)" for p
    using that short_list_step [OF assms] by (induction ops arbitrary: p) (simp_all add: assms)
  from this [of "preferences_of V (new_message w)"] fold_refines [OF settings_ok_new [of w], of V L ops]
  have "short_list L (pf_recentUserNames (preferences_of V ?m))" "short_list L (pf_recentStatuses (preferences_of V ?m))"
    by (simp_all add: preferences_of_new default_preferences_def short_list_def)
  then have "short_list L (GetRecentUserNames ?m)" "short_list L (GetRecentStatuses ?m)"
    by (simp_all add: preferences_of_def)
  moreover have "v \<noteq> [] \<Longrightarrow> hd (GetRecentUserNames (RememberUserName L v ?m)) = v \<and>
      hd (GetRecentStatuses (RememberStatus L v ?m)) = v"
    by (simp add: GetRecentUserNames_def GetRecentStatuses_def RememberUserName_def RememberStatus_def
        list_remembered promote_def kMaximumRememberedNames_def)
  ultimately show ?thesis by (simp add: Let_def short_list_def)
qed

theorem remembered_lists_witness:
  "let m = fold (run_setting ref_muscle demo_settings_env)
       [OpRememberUserName ''joe'', OpRememberUserName ''ann'', OpRememberUserName ''JOE''] (new_message 0)
   in GetRecentUserNames m = [''JOE'', ''ann''] \<and> distinct (map (ToLowerCase ref_muscle) (GetRecentUserNames m))"
proof -
  let ?m = "fold (run_setting ref_muscle demo_settings_env)
       [OpRememberUserName ''joe'', OpRememberUserName ''ann'', OpRememberUserName ''JOE''] (new_message 0)"
  have "ignore_case_law ref_muscle" using ref_muscle_laws by (simp add: muscle_laws_def)
  from remembered_lists [OF this, of demo_settings_env
      "[OpRememberUserName ''joe'', OpRememberUserName ''ann'', OpRememberUserName ''JOE'']" 0 "''x''"]
  have "distinct (map (ToLowerCase ref_muscle) (GetRecentUserNames ?m))" by (simp add: Let_def)
  moreover have "GetRecentUserNames ?m = [''JOE'', ''ann'']" by code_simp
  ultimately show ?thesis by (simp add: Let_def)
qed

text \<open>
  The aliases come back as they were stored, in the order of the table, whatever the archive held
  before: names and values are two parallel lists that are always replaced together.
\<close>

theorem aliases_round_trip:
  assumes "ht_ok t"
  shows "GetAliases (SetAliases t m) = t"
proof -
  have "fold (\<lambda>(n, v). ht_put n v) t acc = acc @ t" if "ht_ok (acc @ t)" for acc
    using that
  proof (induction t arbitrary: acc)
    case (Cons e t)
    then show ?case
      using ht_put_absent [of "fst e" acc "snd e"] by (auto simp: ht_ok_def case_prod_unfold)
  qed simp
  from this [of "[]"] assms show ?thesis by (simp add: aliases_stored)
qed

theorem aliases_round_trip_witness:
  "GetAliases (SetAliases [(''hi'', ''hello all''), (''brb'', ''back soon'')]
     (SetAliases [(''x'', ''y'')] (new_message 0))) = [(''hi'', ''hello all''), (''brb'', ''back soon'')]"
  by (rule aliases_round_trip) (simp add: ht_ok_def)

definition archive_law :: "settings_env \<Rightarrow> message \<Rightarrow> bool" where
  "archive_law V m \<longleftrightarrow>
     (\<forall>cap old. length (FlattenToDataIO V m) \<le> cap + 4 \<longrightarrow>
        UnflattenFromDataIO V cap (FlattenToDataIO V m) old = (True, m))"

lemma save_then_load:
  assumes "archive_law V m" "length (FlattenToDataIO V m) \<le> kMaximumSettingsFileSize + 4"
    and "Save L V m w = (status, w')"
  shows "(status = SettingsOk \<longrightarrow> Load V w' old = (SettingsOk, m)) \<and>
    (\<forall>p. p \<noteq> GetSettingsFilePath V \<longrightarrow> w_files w' p = w_files w p)"
proof -
  let ?p = "GetSettingsFilePath V" and ?bytes = "FlattenToDataIO V m"
  obtain ok w1 where t: "CreateDirectoryTree L (GetConfigDirectoryPath V) w = (ok, w1)" by fastforce
  have f1: "w_files w1 = w_files w" using CreateDirectoryTree_files [of L "GetConfigDirectoryPath V" w] t by simp
  show ?thesis
  proof (cases "ok \<and> ?p \<noteq> [] \<and> fst (open_for_writing ?p w1)")
    case False
    with assms(3) t f1 show ?thesis
      by (auto simp: Save_def open_for_writing_def split: if_splits)
  next
    case True
    let ?w2 = "w1\<lparr>w_files := (w_files w1)(?p \<mapsto> [])\<rparr>"
    from True have "open_for_writing ?p w1 = (True, ?w2)"
      by (auto simp: open_for_writing_def split: if_splits)
    with True assms(3) t have s: "status = (if fst (write_file ?p ?bytes ?w2) = length ?bytes then SettingsOk else SettingsError)"
      "w' = snd (write_file ?p ?bytes ?w2)"
      by (simp_all add: Save_def case_prod_unfold)
    have "Load V w' old = (SettingsOk, m)" if "status = SettingsOk"
    proof -
      from that s(1) have "min (length ?bytes) (w_room w1) = length ?bytes"
        by (simp add: write_file_def Let_def split: if_splits)
      then have "w_files w' ?p = Some ?bytes" by (simp add: s(2) write_file_def Let_def)
      then show ?thesis using True assms(1,2) by (simp add: Load_def archive_law_def)
    qed
    moreover have "\<forall>p. p \<noteq> ?p \<longrightarrow> w_files w' p = w_files w p"
      by (simp add: s(2) write_file_def Let_def f1)
    ultimately show ?thesis by blast
  qed
qed

text \<open>
  C30. What was saved is what is loaded: if saving succeeds and the archive format reads back what it
  wrote, a fresh settings object in the same environment loads the same archive and reports success.
  If saving does not succeed, every file but the settings file is as it was.
\<close>

theorem save_load:
  assumes "archive_law V m" "length (FlattenToDataIO V m) \<le> kMaximumSettingsFileSize + 4"
    and "Save L V m w = (status, w')"
  shows "(status = SettingsOk \<longrightarrow> Load V w' old = (SettingsOk, m)) \<and>
    (\<forall>p. p \<noteq> GetSettingsFilePath V \<longrightarrow> w_files w' p = w_files w p)"
  by (rule save_then_load [OF assms])

theorem save_load_witness:
  "let m = SetUserName ''joe'' (new_message 0)
   in fst (Save ref_muscle demo_settings_env m demo_world) = SettingsOk \<and>
      Load demo_settings_env (snd (Save ref_muscle demo_settings_env m demo_world)) (new_message 0) = (SettingsOk, m)"
proof -
  let ?m = "SetUserName ''joe'' (new_message 0)"
  obtain status w' where s: "Save ref_muscle demo_settings_env ?m demo_world = (status, w')" by fastforce
  have ok: "fst (Save ref_muscle demo_settings_env ?m demo_world) = SettingsOk" by code_simp
  have bytes: "FlattenToDataIO demo_settings_env ?m = [0, 0, 0, 0, 106, 111, 101]" by code_simp
  have reread: "SetUserName (map (char_of \<circ> unat) [106, 111, 101 :: uint8]) (new_message 0) = ?m" by code_simp
  have law: "archive_law demo_settings_env ?m"
    using reread unfolding archive_law_def bytes by (simp add: demo_settings_env_def)
  from save_load [OF law _ s, of "new_message 0"] ok s bytes
  show ?thesis by (simp add: kMaximumSettingsFileSize_def)
qed

text \<open>
  The list of servers a new installation offers is lost with the first connection: remembering a
  server leaves that server alone in the list, because the two public servers are offered only
  while nothing is stored.
\<close>

theorem first_remember_drops_defaults:
  assumes "s \<noteq> []"
  shows "GetServerList (new_message w) = kDefaultServerList \<and>
    GetServerList (RememberServer L s (new_message w)) = [s]"
proof -
  have "GetStringList kFieldServerList (new_message w) = []" by (simp add: GetStringList_def finds)
  with assms list_remembered [of kFieldServerList L s kMaximumRememberedServers "new_message w"] show ?thesis
    by (simp add: GetServerList_def RememberServer_def promote_def kMaximumRememberedServers_def)
qed

theorem first_remember_drops_defaults_witness:
  "GetServerList (RememberServer ref_muscle ''beshare.agmsmith.ca'' (new_message 0)) = [''beshare.agmsmith.ca'']"
  using first_remember_drops_defaults [of "''beshare.agmsmith.ca''" 0 ref_muscle] by simp

end
