(* ===== verification/ChatLog.thy ===== *)
theory ChatLog
  imports ChatInput DownloadLaws
begin

section \<open>The chat log on disk\<close>

text \<open>
  \<open>core/ChatLogger\<close>: one file per server and day, appended to line by line. The files are the
  \<open>world\<close> of the downloads; the local time is a parameter of every call, \<open>strftime_now fmt\<close> being
  the formatted local time of that call, or nothing when \<open>localtime_r\<close> fails. \<open>SanitizeForFileName\<close>
  reduces a server name to characters that name one file.
\<close>

record log_clock =
  strftime_now :: "string \<Rightarrow> string option"

record chat_logger =
  cl_isEnabled :: bool
  cl_directory :: string
  cl_serverName :: string
  cl_file :: "string option"
  cl_currentPath :: string
  cl_currentDate :: string

definition TodaysDate :: "log_clock \<Rightarrow> string" where
  "TodaysDate T = (case strftime_now T ''%Y-%m-%d'' of None \<Rightarrow> ''unknown'' | Some d \<Rightarrow> d)"

definition CurrentTimeOfDay :: "log_clock \<Rightarrow> string" where
  "CurrentTimeOfDay T = (case strftime_now T ''%H:%M:%S'' of None \<Rightarrow> ''??:??:??'' | Some d \<Rightarrow> d)"

definition new_logger :: chat_logger where
  "new_logger = \<lparr> cl_isEnabled = False, cl_directory = [], cl_serverName = [], cl_file = None,
     cl_currentPath = [], cl_currentDate = [] \<rparr>"

definition CloseFile :: "chat_logger \<Rightarrow> chat_logger" where
  "CloseFile g = g\<lparr>cl_file := None, cl_currentPath := [], cl_currentDate := []\<rparr>"

definition SetEnabled :: "bool \<Rightarrow> chat_logger \<Rightarrow> chat_logger" where
  "SetEnabled enabled g =
     (if enabled = cl_isEnabled g then g
      else let g1 = g\<lparr>cl_isEnabled := enabled\<rparr> in if \<not> enabled then CloseFile g1 else g1)"

definition ClSetLogDirectory :: "string \<Rightarrow> chat_logger \<Rightarrow> chat_logger" where
  "ClSetLogDirectory directory g =
     (if directory = cl_directory g then g else CloseFile (g\<lparr>cl_directory := directory\<rparr>))"

definition SetServerName :: "string \<Rightarrow> chat_logger \<Rightarrow> chat_logger" where
  "SetServerName serverName g =
     (if serverName = cl_serverName g then g else CloseFile (g\<lparr>cl_serverName := serverName\<rparr>))"

definition safe_file_char :: "char \<Rightarrow> bool" where
  "safe_file_char c \<longleftrightarrow>
     (let n = of_char c :: nat
      in 97 \<le> n \<and> n \<le> 122 \<or> 65 \<le> n \<and> n \<le> 90 \<or> 48 \<le> n \<and> n \<le> 57 \<or>
         c = CHR ''.'' \<or> c = CHR ''-'' \<or> c = CHR ''_'')"

definition SanitizeForFileName :: "string \<Rightarrow> string" where
  "SanitizeForFileName t =
     (let safe = dropWhile (\<lambda>c. c = CHR ''.'') (map (\<lambda>c. if safe_file_char c then c else CHR ''_'') t)
      in if safe \<noteq> [] then safe else ''chat'')"

text \<open>\<open>fopen(path, "a")\<close> creates the file if it is not there and keeps what is in it.\<close>

definition open_for_appending :: "string \<Rightarrow> world \<Rightarrow> bool \<times> world" where
  "open_for_appending p w =
     (if w_fopen_ok w p \<and> p \<notin> set (w_dirs w)
      then (True, if w_files w p = None then w\<lparr>w_files := (w_files w)(p \<mapsto> [])\<rparr> else w)
      else (False, w))"

definition log_path :: "string \<Rightarrow> chat_logger \<Rightarrow> string" where
  "log_path today g =
     cl_directory g @ ''/'' @
     (if cl_serverName g \<noteq> [] then SanitizeForFileName (cl_serverName g) else ''chat'') @
     ''-'' @ today @ ''.log''"

definition EnsureFileOpen ::
  "muscle \<Rightarrow> log_clock \<Rightarrow> chat_logger \<Rightarrow> world \<Rightarrow> bool \<times> chat_logger \<times> world" where
  "EnsureFileOpen L T g w =
     (let today = TodaysDate T
      in if cl_file g \<noteq> None \<and> today = cl_currentDate g then (True, g, w)
         else let g1 = CloseFile g
              in if cl_directory g1 = [] then (False, g1, w)
                 else case CreateDirectoryTree L (cl_directory g1) w of (ok, w1) \<Rightarrow>
                   if \<not> ok then (False, g1, w1)
                   else let g2 = g1\<lparr>cl_currentDate := today, cl_currentPath := log_path today g1\<rparr>
                        in case open_for_appending (cl_currentPath g2) w1 of (opened, w2) \<Rightarrow>
                             if \<not> opened then (False, g2\<lparr>cl_currentPath := []\<rparr>, w2)
                             else (True, g2\<lparr>cl_file := Some (cl_currentPath g2)\<rparr>, w2))"

definition newline :: char where "newline = CHR 0x0A"

definition log_line :: "string \<Rightarrow> ChatMessage \<Rightarrow> string" where
  "log_line timestamp m =
     (let privateMarker = (if isPrivate m then ''[private] '' else [])
      in ''['' @ timestamp @ ''] '' @
         (if isAction m then privateMarker @ ''* '' @ senderName m @ '' '' @ msg_text m
          else if senderName m \<noteq> [] then privateMarker @ ''<'' @ senderName m @ ''> '' @ msg_text m
          else ''*** '' @ msg_text m) @ [newline])"

definition bytes_of :: "string \<Rightarrow> uint8 list" where
  "bytes_of s = map of_char s"

definition Log ::
  "muscle \<Rightarrow> log_clock \<Rightarrow> ChatMessage \<Rightarrow> chat_logger \<Rightarrow> world \<Rightarrow> chat_logger \<times> world" where
  "Log L T m g w =
     (if \<not> cl_isEnabled g then (g, w)
      else case EnsureFileOpen L T g w of (ok, g1, w1) \<Rightarrow>
        (case cl_file g1 of
           Some p \<Rightarrow> if ok then (g1, snd (write_file p (bytes_of (log_line (CurrentTimeOfDay T) m)) w1)) else (g1, w1)
         | None \<Rightarrow> (g1, w1)))"

subsection \<open>Histories\<close>

datatype log_op =
    LogEnabled bool
  | LogDirectory string
  | LogServer string
  | LogMessage log_clock ChatMessage

primrec run_log :: "muscle \<Rightarrow> log_op \<Rightarrow> chat_logger \<times> world \<Rightarrow> chat_logger \<times> world" where
  "run_log L (LogEnabled b) s = (SetEnabled b (fst s), snd s)"
| "run_log L (LogDirectory d) s = (ClSetLogDirectory d (fst s), snd s)"
| "run_log L (LogServer n) s = (SetServerName n (fst s), snd s)"
| "run_log L (LogMessage T m) s = Log L T m (fst s) (snd s)"

text \<open>Every file that was there still starts with what it held.\<close>

definition only_appended :: "world \<Rightarrow> world \<Rightarrow> bool" where
  "only_appended w w' \<longleftrightarrow>
     (\<forall>p old. w_files w p = Some old \<longrightarrow> (\<exists>new. w_files w' p = Some (old @ new)))"

lemma only_appended_refl [simp]: "only_appended w w"
  by (auto simp: only_appended_def)

lemma only_appended_trans: "only_appended a b \<Longrightarrow> only_appended b c \<Longrightarrow> only_appended a c"
  unfolding only_appended_def by (metis append.assoc)

lemma only_appended_write [simp]: "only_appended w (snd (write_file p bs w))"
  by (auto simp: only_appended_def write_file_def Let_def)

lemma only_appended_open [simp]: "only_appended w (snd (open_for_appending p w))"
  by (auto simp: only_appended_def open_for_appending_def)

lemma only_appended_tree [simp]: "only_appended w (snd (CreateDirectoryTree L p w))"
  by (auto simp: only_appended_def)

text \<open>
  The name of the file of a server and a day, and what the logger was last told: whether it is on, the folder and the
  server.
\<close>

definition log_file_name :: "string \<Rightarrow> string \<Rightarrow> string" where
  "log_file_name server day =
     (if server = [] then ''chat'' else SanitizeForFileName server) @ ''-'' @ day @ ''.log''"

fun in_force :: "log_op \<Rightarrow> bool \<times> string \<times> string \<Rightarrow> bool \<times> string \<times> string" where
  "in_force (LogEnabled b) (on, folder, server) = (b, folder, server)"
| "in_force (LogDirectory d) (on, folder, server) = (on, d, server)"
| "in_force (LogServer n) (on, folder, server) = (on, folder, n)"
| "in_force (LogMessage T m) s = s"

text \<open>The calendar has no slash, so that a day is part of one name.\<close>

definition clock_law :: "log_clock \<Rightarrow> bool" where
  "clock_law T \<longleftrightarrow> CHR ''/'' \<notin> set (TodaysDate T)"

definition touched :: "world \<Rightarrow> world \<Rightarrow> string set" where
  "touched w w' = {p. w_files w' p \<noteq> w_files w p}"

lemma touched_trans: "touched a c \<subseteq> touched a b \<union> touched b c"
  by (auto simp: touched_def)

lemma sanitized_name:
  "CHR ''/'' \<notin> set (SanitizeForFileName t)" "SanitizeForFileName t \<noteq> []" "hd (SanitizeForFileName t) \<noteq> CHR ''.''"
proof -
  have sl: "\<not> safe_file_char (CHR ''/'')" by code_simp
  let ?s = "dropWhile (\<lambda>c. c = CHR ''.'') (map (\<lambda>c. if safe_file_char c then c else CHR ''_'') t)"
  have "CHR ''/'' \<notin> set ?s" using sl by (auto dest!: set_dropWhileD)
  then show "CHR ''/'' \<notin> set (SanitizeForFileName t)" by (simp add: SanitizeForFileName_def)
  show "SanitizeForFileName t \<noteq> []" by (simp add: SanitizeForFileName_def)
  show "hd (SanitizeForFileName t) \<noteq> CHR ''.''"
    using hd_dropWhile [of "\<lambda>c. c = CHR ''.''"] by (auto simp: SanitizeForFileName_def)
qed

lemma log_file_name_safe:
  assumes "CHR ''/'' \<notin> set day"
  shows "CHR ''/'' \<notin> set (log_file_name server day) \<and> hd (log_file_name server day) \<noteq> CHR ''.''"
proof -
  let ?n = "(if server = [] then ''chat'' else SanitizeForFileName server)"
  have "CHR ''/'' \<notin> set ?n" "?n \<noteq> []" "hd ?n \<noteq> CHR ''.''" by (simp_all add: sanitized_name)
  then show ?thesis using assms by (auto simp: log_file_name_def)
qed

lemma log_path_name: "log_path day g = cl_directory g @ ''/'' @ log_file_name (cl_serverName g) day"
  by (simp add: log_path_def log_file_name_def)

text \<open>The open file is the one of the folder, the server and the date the logger has.\<close>

definition logger_ok :: "chat_logger \<Rightarrow> bool" where
  "logger_ok g \<longleftrightarrow>
     (case cl_file g of None \<Rightarrow> True
      | Some p \<Rightarrow> p = log_path (cl_currentDate g) g \<and> cl_currentPath g = p \<and> cl_directory g \<noteq> [])"

lemma logger_ok_simps [simp]:
  "logger_ok new_logger" "logger_ok (CloseFile g)"
  "logger_ok g \<Longrightarrow> logger_ok (SetEnabled b g)"
  "logger_ok g \<Longrightarrow> logger_ok (ClSetLogDirectory d g)"
  "logger_ok g \<Longrightarrow> logger_ok (SetServerName n g)"
  by (auto simp: logger_ok_def new_logger_def CloseFile_def SetEnabled_def ClSetLogDirectory_def
      SetServerName_def log_path_def Let_def split: option.split)

text \<open>Every way \<open>EnsureFileOpen\<close> can go.\<close>

lemma EnsureFileOpen_cases:
  assumes "EnsureFileOpen L T g w = (ok, g', w')"
  obtains
    (kept) "ok" "g' = g" "w' = w" "cl_file g \<noteq> None" "cl_currentDate g = TodaysDate T"
  | (failed) "\<not> ok" "cl_file g' = None" "cl_directory g' = cl_directory g" "cl_isEnabled g' = cl_isEnabled g"
      "cl_serverName g' = cl_serverName g"
      "w_files w' = w_files w"
  | (opened) "ok" "cl_directory g \<noteq> []" "cl_currentDate g' = TodaysDate T"
      "g' = g\<lparr>cl_currentDate := TodaysDate T, cl_currentPath := log_path (TodaysDate T) g,
            cl_file := Some (log_path (TodaysDate T) g)\<rparr>"
      "\<exists>w1. w_files w1 = w_files w \<and> open_for_appending (log_path (TodaysDate T) g) w1 = (True, w')"
proof -
  have path: "log_path d (CloseFile g) = log_path d g" for d
    by (simp add: log_path_def CloseFile_def)
  obtain ok1 w1 where t: "CreateDirectoryTree L (cl_directory g) w = (ok1, w1)" by fastforce
  have f: "w_files w1 = w_files w" using CreateDirectoryTree_files [of L "cl_directory g" w] t by simp
  obtain ok2 w2 where o: "open_for_appending (log_path (TodaysDate T) g) w1 = (ok2, w2)" by fastforce
  have f2: "\<not> ok2 \<Longrightarrow> w2 = w1" using o by (auto simp: open_for_appending_def split: if_splits)
  show thesis
  proof (cases "cl_file g \<noteq> None \<and> TodaysDate T = cl_currentDate g")
    case True
    with assms show ?thesis by (intro kept) (auto simp: EnsureFileOpen_def)
  next
    case no: False
    show ?thesis
    proof (cases "cl_directory g \<noteq> [] \<and> ok1 \<and> ok2")
      case True
      with assms no t o have r: "ok" "w' = w2"
        "g' = (CloseFile g)\<lparr>cl_currentDate := TodaysDate T, cl_currentPath := log_path (TodaysDate T) g,
            cl_file := Some (log_path (TodaysDate T) g)\<rparr>"
        by (auto simp: EnsureFileOpen_def Let_def path CloseFile_def log_path_def split: if_splits)
      with True f o show ?thesis by (intro opened) (auto simp: CloseFile_def)
    next
      case False
      with assms no t o f f2 show ?thesis
        by (intro failed)
          (auto simp: EnsureFileOpen_def Let_def path CloseFile_def log_path_def only_appended_def split: if_splits)
    qed
  qed
qed

lemma open_for_appending_files:
  assumes "open_for_appending p w = (True, w')"
  shows "w_files w' p = Some (case w_files w p of None \<Rightarrow> [] | Some old \<Rightarrow> old)"
    "q \<noteq> p \<Longrightarrow> w_files w' q = w_files w q"
  using assms by (auto simp: open_for_appending_def split: if_splits)

text \<open>One operation of the logger.\<close>

definition writes_only :: "string set \<Rightarrow> world \<Rightarrow> world \<Rightarrow> bool" where
  "writes_only ps w w' \<longleftrightarrow> only_appended w w' \<and> touched w w' \<subseteq> ps"

lemma writes_only_refl: "w_files w' = w_files w \<Longrightarrow> writes_only ps w w'"
  by (auto simp: writes_only_def touched_def only_appended_def)

lemma writes_only_trans: "writes_only ps a b \<Longrightarrow> writes_only ps b c \<Longrightarrow> writes_only ps a c"
  unfolding writes_only_def using only_appended_trans touched_trans by blast

lemma writes_only_open:
  assumes "open_for_appending p w1 = (True, w')" "w_files w1 = w_files w"
  shows "writes_only {p} w w'"
proof -
  have f: "w_files w' q = (if q = p then Some (case w_files w p of None \<Rightarrow> [] | Some old \<Rightarrow> old) else w_files w q)" for q
    using open_for_appending_files [OF assms(1)] assms(2) by simp
  show ?thesis by (auto simp: writes_only_def touched_def only_appended_def f)
qed

lemma writes_only_write: "writes_only {p} w (snd (write_file p bs w))"
  unfolding writes_only_def using only_appended_write [of w p bs] by (auto simp: touched_def write_file_def Let_def)

definition told :: "chat_logger \<Rightarrow> bool \<times> string \<times> string" where
  "told g = (cl_isEnabled g, cl_directory g, cl_serverName g)"

lemma Log_step:
  assumes "logger_ok g" "Log L T m g w = (g', w')"
  shows "logger_ok g' \<and> told g' = told g \<and>
    writes_only (if cl_isEnabled g \<and> cl_directory g \<noteq> [] then {log_path (TodaysDate T) g} else {}) w w'"
proof (cases "cl_isEnabled g")
  case False
  with assms show ?thesis by (simp add: Log_def writes_only_refl)
next
  case True
  obtain ok g1 w1 where e: "EnsureFileOpen L T g w = (ok, g1, w1)" by (metis prod_cases3)
  from e show ?thesis
  proof (cases rule: EnsureFileOpen_cases)
    case kept
    then obtain p where p: "cl_file g = Some p" by auto
    with assms(1) kept have "p = log_path (TodaysDate T) g" "cl_directory g \<noteq> []" by (auto simp: logger_ok_def)
    with kept assms True e p show ?thesis by (auto simp: Log_def writes_only_write)
  next
    case failed
    with True e assms show ?thesis by (auto simp: Log_def writes_only_refl logger_ok_def told_def)
  next
    case opened
    then obtain w0 where w0: "w_files w0 = w_files w" "open_for_appending (log_path (TodaysDate T) g) w0 = (True, w1)"
      by auto
    have "writes_only {log_path (TodaysDate T) g} w w'"
      using writes_only_trans [OF writes_only_open [OF w0(2,1)] writes_only_write] opened assms(2) True e
      by (auto simp: Log_def)
    with opened assms(2) True e show ?thesis
      by (auto simp: Log_def logger_ok_def log_path_def told_def)
  qed
qed

lemma run_log_step:
  assumes "logger_ok g" "run_log L op (g, v) = (g', v')"
  shows "logger_ok g' \<and> told g' = in_force op (told g) \<and>
    writes_only {p. \<exists>T m. op = LogMessage T m \<and> cl_isEnabled g \<and> cl_directory g \<noteq> [] \<and> p = log_path (TodaysDate T) g} v v'"
proof (cases op)
  case (LogMessage T m)
  have told: "told g = in_force op (told g)" using LogMessage by (simp add: told_def)
  have "{p. \<exists>T m. op = LogMessage T m \<and> cl_isEnabled g \<and> cl_directory g \<noteq> [] \<and> p = log_path (TodaysDate T) g} =
      (if cl_isEnabled g \<and> cl_directory g \<noteq> [] then {log_path (TodaysDate T) g} else {})"
    using LogMessage by auto
  then show ?thesis using LogMessage assms Log_step [OF assms(1), of L T m v g' v'] told by simp
qed (use assms in \<open>auto simp: writes_only_refl told_def SetEnabled_def ClSetLogDirectory_def SetServerName_def CloseFile_def
    logger_ok_def log_path_def Let_def split: option.splits if_splits\<close>)

lemma run_logs:
  "logger_ok g \<Longrightarrow> fold (run_log L) ops (g, v) = (g', v') \<Longrightarrow>
   logger_ok g' \<and> told g' = fold in_force ops (told g) \<and> only_appended v v'"
proof (induction ops arbitrary: g v)
  case (Cons op ops)
  obtain g1 v1 where s: "run_log L op (g, v) = (g1, v1)" by fastforce
  from run_log_step [OF Cons.prems(1) s] have "logger_ok g1" "told g1 = in_force op (told g)" "only_appended v v1"
    by (auto simp: writes_only_def)
  with Cons.IH [of g1 v1] Cons.prems(2) s show ?case using only_appended_trans by fastforce
qed simp

lemma make_components_ok:
  assumes "\<And>p. w_mkdir_ok w p"
  shows "fst (make_components cs p w) \<and> w_room (snd (make_components cs p w)) = w_room w \<and>
    w_fopen_ok (snd (make_components cs p w)) = w_fopen_ok w"
  using assms
proof (induction cs arbitrary: p w)
  case (Cons c cs)
  obtain ok w1 where m: "mkdir (p @ ''/'' @ c) w = (ok, w1)" by fastforce
  with Cons.prems have "ok" "\<And>q. w_mkdir_ok w1 q" "w_room w1 = w_room w" "w_fopen_ok w1 = w_fopen_ok w"
    by (auto simp: mkdir_def split: if_splits)
  with m Cons.IH [of w1 "p @ ''/'' @ c"] show ?case by simp
qed simp

lemma CloseFile_simps [simp]:
  "log_path d (CloseFile g) = log_path d g" "cl_directory (CloseFile g) = cl_directory g"
  "log_path d (g\<lparr>cl_currentDate := x\<rparr>) = log_path d g"
  by (simp_all add: CloseFile_def log_path_def)

lemma EnsureFileOpen_succeeds:
  assumes "logger_ok g" "cl_directory g \<noteq> []" "\<And>d. w_mkdir_ok w d"
    and "w_fopen_ok w (log_path (TodaysDate T) g)"
    and "log_path (TodaysDate T) g \<notin> set (w_dirs (snd (CreateDirectoryTree L (cl_directory g) w)))"
  shows "\<exists>g1 w1. EnsureFileOpen L T g w = (True, g1, w1) \<and>
    cl_file g1 = Some (log_path (TodaysDate T) g) \<and> cl_currentPath g1 = log_path (TodaysDate T) g \<and>
    cl_currentDate g1 = TodaysDate T \<and> w_room w1 = w_room w \<and>
    (\<forall>q. q \<noteq> log_path (TodaysDate T) g \<longrightarrow> w_files w1 q = w_files w q) \<and>
    (case w_files w1 (log_path (TodaysDate T) g) of None \<Rightarrow> [] | Some old \<Rightarrow> old) =
    (case w_files w (log_path (TodaysDate T) g) of None \<Rightarrow> [] | Some old \<Rightarrow> old)"
proof (cases "cl_file g \<noteq> None \<and> TodaysDate T = cl_currentDate g")
  case True
  with assms(1) show ?thesis by (auto simp: EnsureFileOpen_def logger_ok_def)
next
  case False
  obtain ok w1 where t: "CreateDirectoryTree L (cl_directory g) w = (ok, w1)" by fastforce
  with make_components_ok [OF assms(3), of "Tokenize L (cl_directory g) ''/''" "[]"] assms(2)
  have w1: "ok" "w_room w1 = w_room w" "w_fopen_ok w1 = w_fopen_ok w" by (auto simp: CreateDirectoryTree_def)
  have f: "w_files w1 = w_files w" using CreateDirectoryTree_files [of L "cl_directory g" w] t by simp
  show ?thesis using False assms(2,4,5) t w1 f
    by (auto simp: EnsureFileOpen_def Let_def open_for_appending_def split: option.split)
qed

subsection \<open>Correctness\<close>

text \<open>
  C29. Logging never loses anything and never strays: whatever the front end switches on and off, to whatever folder
  and server, and whatever is said, every file that was there keeps its content and at most grows at its
  end; and the only file that a step creates or lets grow is, when a message is logged while logging is on, the one in the
  folder last given that is named after the server last given and the day of that message, a name that is not
  hidden and does not leave the folder, however the server calls itself.
\<close>

theorem logs_only_append:
  assumes "\<And>T m. op = LogMessage T m \<Longrightarrow> clock_law T"
  shows "let s = fold (run_log L) ops (new_logger, w); w' = snd (run_log L op s);
       (on, folder, server) = fold in_force ops (False, [], [])
    in (\<forall>p old. w_files w p = Some old \<longrightarrow> (\<exists>new. w_files w' p = Some (old @ new))) \<and>
       (\<forall>p. w_files w' p \<noteq> w_files (snd s) p \<longrightarrow>
          on \<and> (\<exists>T m. op = LogMessage T m \<and> p = folder @ ''/'' @ log_file_name server (TodaysDate T) \<and>
            CHR ''/'' \<notin> set (log_file_name server (TodaysDate T)) \<and>
            hd (log_file_name server (TodaysDate T)) \<noteq> CHR ''.''))"
proof -
  obtain g v where s: "fold (run_log L) ops (new_logger, w) = (g, v)" by fastforce
  obtain g' v' where op: "run_log L op (g, v) = (g', v')" by fastforce
  obtain on folder server where f: "fold in_force ops (False, [], []) = (on, folder, server)" by (metis prod_cases3)
  have g: "logger_ok g" "told g = (on, folder, server)" "only_appended w v"
    using run_logs [of new_logger L ops w g v] s f by (simp_all add: told_def new_logger_def logger_ok_def)
  have w: "writes_only {p. \<exists>T m. op = LogMessage T m \<and> cl_isEnabled g \<and> cl_directory g \<noteq> [] \<and> p = log_path (TodaysDate T) g} v v'"
    using run_log_step [OF g(1) op] by blast
  have "only_appended w v'" using g(3) w only_appended_trans by (auto simp: writes_only_def)
  moreover have "on \<and> (\<exists>T m. op = LogMessage T m \<and> p = folder @ ''/'' @ log_file_name server (TodaysDate T) \<and>
      CHR ''/'' \<notin> set (log_file_name server (TodaysDate T)) \<and> hd (log_file_name server (TodaysDate T)) \<noteq> CHR ''.'')"
    if "w_files v' p \<noteq> w_files v p" for p
  proof -
    from w that obtain T m where t: "op = LogMessage T m" "cl_isEnabled g" "p = log_path (TodaysDate T) g"
      by (auto simp: writes_only_def touched_def)
    moreover have "CHR ''/'' \<notin> set (TodaysDate T)" using assms [OF t(1)] by (simp add: clock_law_def)
    ultimately show ?thesis using log_file_name_safe g(2) by (auto simp: told_def log_path_name)
  qed
  ultimately show ?thesis by (simp add: Let_def s op f only_appended_def)
qed

theorem logs_only_append_witness:
  "let m = chat_message LOG_INFORMATION_MESSAGE ''hi'';
       T = \<lparr> strftime_now = (\<lambda>f. Some ''2026-08-24'') \<rparr>;
       w' = snd (run_log ref_muscle (LogMessage T m)
              (fold (run_log ref_muscle) [LogEnabled True, LogDirectory ''/d'', LogServer ''..//x''] (new_logger, demo_world)))
   in (\<exists>new. w_files w' ''/d/a.txt'' = Some ([1, 2] @ new)) \<and> w_files w' ''/d/chat.log'' = w_files demo_world ''/d/chat.log'' \<and>
      w_files w' ''/d/__x-2026-08-24.log'' = Some (bytes_of (''[2026-08-24] *** hi'' @ [newline]))"
proof -
  let ?m = "chat_message LOG_INFORMATION_MESSAGE ''hi''"
  let ?T = "\<lparr> strftime_now = (\<lambda>f. Some ''2026-08-24'') \<rparr> :: log_clock"
  let ?ops = "[LogEnabled True, LogDirectory ''/d'', LogServer ''..//x'']"
  let ?s = "fold (run_log ref_muscle) ?ops (new_logger, demo_world)"
  let ?w = "snd (run_log ref_muscle (LogMessage ?T ?m) ?s)"
  have ok: "clock_law ?T" by (simp add: clock_law_def TodaysDate_def)
  have f: "fold in_force ?ops (False, [], []) = (True, ''/d'', ''..//x'')" by simp
  have n: "''/d/chat.log'' \<noteq> ''/d'' @ ''/'' @ log_file_name ''..//x'' (TodaysDate ?T)" by code_simp
  have a: "w_files demo_world ''/d/a.txt'' = Some [1, 2]" "w_files (snd ?s) ''/d/chat.log'' = w_files demo_world ''/d/chat.log''"
    by code_simp+
  have "w_files ?w ''/d/__x-2026-08-24.log'' = Some (bytes_of (''[2026-08-24] *** hi'' @ [newline]))"
    by code_simp
  moreover have "(\<forall>p old. w_files demo_world p = Some old \<longrightarrow> (\<exists>new. w_files ?w p = Some (old @ new))) \<and>
      (\<forall>p. w_files ?w p \<noteq> w_files (snd ?s) p \<longrightarrow>
        (\<exists>T m. LogMessage ?T ?m = LogMessage T m \<and> p = ''/d'' @ ''/'' @ log_file_name ''..//x'' (TodaysDate T)))"
    using logs_only_append [of "LogMessage ?T ?m" ref_muscle ?ops demo_world] ok
    unfolding Let_def f by (simp only: log_op.inject prod.case) blast
  ultimately show ?thesis using a n unfolding Let_def by (metis log_op.inject(4))
qed

text \<open>
  A message is logged as one line at the end of today's file of its server, whether that file was
  open, has to be opened, or yesterday's is open still, provided the folders can be made, the file can
  be opened and the disk has room.
\<close>

theorem message_logged:
  assumes "logger_ok g" "cl_isEnabled g" "cl_directory g \<noteq> []" "\<And>d. w_mkdir_ok w d"
    and "w_fopen_ok w (log_path (TodaysDate T) g)"
    and "log_path (TodaysDate T) g \<notin> set (w_dirs (snd (CreateDirectoryTree L (cl_directory g) w)))"
    and "length (log_line (CurrentTimeOfDay T) m) \<le> w_room w"
  shows "let p = log_path (TodaysDate T) g; (g', w') = Log L T m g w
    in w_files w' p = Some ((case w_files w p of None \<Rightarrow> [] | Some old \<Rightarrow> old) @
         bytes_of (log_line (CurrentTimeOfDay T) m)) \<and>
       cl_currentPath g' = p \<and> cl_file g' = Some p \<and> cl_currentDate g' = TodaysDate T \<and>
       (\<forall>q. q \<noteq> p \<longrightarrow> w_files w' q = w_files w q)"
proof -
  let ?p = "log_path (TodaysDate T) g" and ?line = "bytes_of (log_line (CurrentTimeOfDay T) m)"
  have len: "min (length ?line) (w_room w) = length ?line" using assms(7) by (simp add: bytes_of_def)
  obtain g1 w1 where e: "EnsureFileOpen L T g w = (True, g1, w1)"
    and g1: "cl_file g1 = Some ?p" "cl_currentPath g1 = ?p" "cl_currentDate g1 = TodaysDate T"
    and w1: "w_room w1 = w_room w" "\<And>q. q \<noteq> ?p \<Longrightarrow> w_files w1 q = w_files w q"
      "(case w_files w1 ?p of None \<Rightarrow> [] | Some old \<Rightarrow> old) = (case w_files w ?p of None \<Rightarrow> [] | Some old \<Rightarrow> old)"
    using EnsureFileOpen_succeeds [OF assms(1,3,4,5,6)] by metis
  from e g1(1) assms(2) have "Log L T m g w = (g1, snd (write_file ?p ?line w1))" by (simp add: Log_def)
  then show ?thesis using g1 w1 len by (simp add: Let_def write_file_def)
qed

theorem message_logged_witness:
  "let g = ClSetLogDirectory ''/d'' (SetEnabled True new_logger);
       T = \<lparr> strftime_now = (\<lambda>f. Some ''2026-08-24'') \<rparr>;
       (g', w') = Log ref_muscle T (chat_message LOG_INFORMATION_MESSAGE ''hi'') g demo_world
   in w_files w' ''/d/chat-2026-08-24.log'' = Some (bytes_of (''[2026-08-24] *** hi'' @ [newline])) \<and>
      cl_currentPath g' = ''/d/chat-2026-08-24.log''"
proof -
  let ?g = "ClSetLogDirectory ''/d'' (SetEnabled True new_logger)"
  let ?T = "\<lparr> strftime_now = (\<lambda>f. Some ''2026-08-24'') \<rparr> :: log_clock"
  let ?m = "chat_message LOG_INFORMATION_MESSAGE ''hi''"
  have p: "log_path (TodaysDate ?T) ?g = ''/d/chat-2026-08-24.log''" by code_simp
  have l: "log_line (CurrentTimeOfDay ?T) ?m = ''[2026-08-24] *** hi'' @ [newline]" by code_simp
  have d: "w_dirs (snd (CreateDirectoryTree ref_muscle (cl_directory ?g) demo_world)) = [''/d'']" by code_simp
  have f: "w_files demo_world ''/d/chat-2026-08-24.log'' = None" by code_simp
  have "logger_ok ?g" "cl_isEnabled ?g" "cl_directory ?g \<noteq> []"
    by (simp_all only: logger_ok_simps) (simp_all add: ClSetLogDirectory_def SetEnabled_def CloseFile_def new_logger_def)
  from message_logged [OF this, of demo_world ?T ref_muscle ?m]
  show ?thesis unfolding p l d Let_def
    by (simp add: f, simp add: demo_world_def newline_def case_prod_unfold)
qed

text \<open>
  A line of the log can be forged by what somebody says: the text is written as it came, so a text
  with a line break in it leaves exactly the bytes that two messages would, the second with any time,
  sender and marker the first sender chose.
\<close>

theorem log_line_forged:
  "log_line t (m\<lparr>msg_text := msg_text m @ newline # butlast (log_line t' m')\<rparr>) =
   log_line t m @ log_line t' m'"
proof -
  have "butlast (log_line t' m') @ [newline] = log_line t' m'"
    by (simp add: log_line_def Let_def butlast_append)
  then show ?thesis by (simp add: log_line_def Let_def)
qed

end
