(* ===== verification/Format.thy ===== *)
theory Format
  imports RefMuscle
begin

section \<open>Texts for sizes, times and rates\<close>

text \<open>
  \<open>core/FormatUtilities\<close>. A size is scaled in double arithmetic: the conversion of a 64-bit count
  rounds to 53 bits, half to even; the divisions by 1024 are exact; \<open>%.1f\<close> and \<open>%.0f\<close> print the
  exact value correctly rounded, half to even. The model computes the same with integers.
  \<open>strftime_at t\<close> is the formatted local time of t, or nothing when \<open>localtime_r\<close> or \<open>strftime\<close> fails.
\<close>

definition kUnitLabels :: "string list" where
  "kUnitLabels = [''bytes'', ''KB'', ''MB'', ''GB'', ''TB'', ''PB'']"

definition kUnitCount :: nat where "kUnitCount = length kUnitLabels"

definition round_half_even :: "nat \<Rightarrow> nat \<Rightarrow> nat" where
  "round_half_even n d =
     (let q = n div d; r = n mod d
      in if 2 * r < d \<or> 2 * r = d \<and> even q then q else Suc q)"

fun dropped_bits :: "nat \<Rightarrow> nat" where
  "dropped_bits n = (if n < 2 ^ 53 then 0 else Suc (dropped_bits (n div 2)))"

declare dropped_bits.simps [simp del]

definition to_double :: "nat \<Rightarrow> nat" where
  "to_double n = round_half_even n (2 ^ dropped_bits n) * 2 ^ dropped_bits n"

text \<open>The scaling loop: \<open>scaled\<close> is \<open>n / 1024 ^ unitIndex\<close> throughout.\<close>

function scale_loop :: "nat \<Rightarrow> nat \<Rightarrow> nat" where
  "scale_loop n unitIndex =
     (if n \<ge> 1024 * 1024 ^ unitIndex \<and> unitIndex + 1 < kUnitCount then scale_loop n (unitIndex + 1) else unitIndex)"
  by pat_completeness auto
termination
  by (relation "measure (\<lambda>(n, i). kUnitCount - i)") auto

declare scale_loop.simps [simp del]

fun decimal :: "nat \<Rightarrow> string" where
  "decimal n = (if n < 10 then [char_of (48 + n)] else decimal (n div 10) @ [char_of (48 + n mod 10)])"

declare decimal.simps [simp del]

definition print_scaled :: "nat \<Rightarrow> nat \<Rightarrow> string" where
  "print_scaled n unitIndex =
     (if n < 10 * 1024 ^ unitIndex
      then (let t = round_half_even (10 * n) (1024 ^ unitIndex) in decimal (t div 10) @ ''.'' @ decimal (t mod 10))
      else decimal (round_half_even n (1024 ^ unitIndex)))"

definition FormatByteSize :: "muscle \<Rightarrow> int64 \<Rightarrow> string" where
  "FormatByteSize L byteCount =
     (if sint byteCount < 0 then ''?''
      else if sint byteCount < 1024 then FormatInt L (sint byteCount) @ '' bytes''
      else let n = to_double (nat (sint byteCount));
               unitIndex = scale_loop n 0
           in print_scaled n unitIndex @ '' '' @ kUnitLabels ! unitIndex)"

definition FormatTimestamp :: "(int \<Rightarrow> string option) \<Rightarrow> int32 \<Rightarrow> string" where
  "FormatTimestamp strftime_at unixTime =
     (if sint unixTime \<le> 0 then []
      else case strftime_at (sint unixTime) of None \<Rightarrow> [] | Some s \<Rightarrow> s)"

definition FormatTransferRate :: "muscle \<Rightarrow> int64 \<Rightarrow> string" where
  "FormatTransferRate L bytesPerSecond =
     (if sint bytesPerSecond \<le> 0 then [] else FormatByteSize L bytesPerSecond @ ''/s'')"

subsection \<open>Rounding\<close>

lemma round_half_even_error:
  assumes "d > 0"
  shows "2 * n \<le> 2 * (round_half_even n d * d) + d" "2 * (round_half_even n d * d) \<le> 2 * n + d"
proof -
  define q r where "q = n div d" and "r = n mod d"
  have n: "n = q * d + r" "r < d" using assms by (simp_all add: q_def r_def)
  have v: "round_half_even n d = (if 2 * r < d \<or> 2 * r = d \<and> even q then q else Suc q)"
    by (simp add: round_half_even_def Let_def q_def r_def)
  show "2 * n \<le> 2 * (round_half_even n d * d) + d" "2 * (round_half_even n d * d) \<le> 2 * n + d"
    unfolding v using n by auto
qed

text \<open>The same as a distance.\<close>

lemma round_half_even_distance:
  assumes "d > 0"
  shows "\<bar>2 * int n - 2 * int (round_half_even n d) * int d\<bar> \<le> int d"
proof -
  have "int (2 * n) \<le> int (2 * (round_half_even n d * d) + d)"
    "int (2 * (round_half_even n d * d)) \<le> int (2 * n + d)"
    using round_half_even_error [OF assms] by (simp_all only: of_nat_le_iff)
  then show ?thesis by (simp add: abs_le_iff algebra_simps)
qed

lemma scale_loop_bounds:
  assumes "1024 ^ i \<le> n" "i < kUnitCount"
  shows "i \<le> scale_loop n i \<and> scale_loop n i < kUnitCount \<and> 1024 ^ scale_loop n i \<le> n \<and>
    (n < 1024 ^ Suc (scale_loop n i) \<or> Suc (scale_loop n i) = kUnitCount)"
  using assms
proof (induction n i rule: scale_loop.induct)
  case (1 n i)
  show ?case
  proof (cases "n \<ge> 1024 * 1024 ^ i \<and> i + 1 < kUnitCount")
    case True
    with 1 show ?thesis by (subst (1 2 3 4 5) scale_loop.simps) auto
  next
    case False
    with 1 show ?thesis by (subst (1 2 3 4 5) scale_loop.simps) auto
  qed
qed

text \<open>The conversion to a double is exact below \<open>2 ^ 53\<close>.\<close>

lemma to_double_exact: "n < 2 ^ 53 \<Longrightarrow> to_double n = n"
  by (simp add: to_double_def dropped_bits.simps round_half_even_def)

subsection \<open>Correctness\<close>

text \<open>
  A shown size is the size, to the precision shown: a count of 1024 or more below \<open>2 ^ 53\<close> is given in
  the largest unit that is not larger than it; below ten units the number shown has one decimal
  and is off by at most a twentieth of the unit, from ten units on it is whole and off by at most a half.
\<close>

theorem byte_size_shown:
  assumes "1024 \<le> sint b" "sint b < 2 ^ 53"
  shows "let n = nat (sint b) in
    \<exists>k \<in> {1..5}. 1024 ^ k \<le> n \<and> (n < 1024 ^ Suc k \<or> k = 5) \<and>
      (if n < 10 * 1024 ^ k
       then \<exists>t. FormatByteSize L b = decimal (t div 10) @ ''.'' @ decimal (t mod 10) @ '' '' @ kUnitLabels ! k \<and>
              \<bar>20 * int n - 2 * int t * 1024 ^ k\<bar> \<le> 1024 ^ k
       else \<exists>t. FormatByteSize L b = decimal t @ '' '' @ kUnitLabels ! k \<and>
              \<bar>2 * int n - 2 * int t * 1024 ^ k\<bar> \<le> 1024 ^ k)"
proof -
  define n where "n = nat (sint b)"
  define k where "k = scale_loop n 0"
  have n: "1024 \<le> n" "n < 2 ^ 53" using assms by (simp_all add: n_def le_nat_iff nat_less_iff)
  have k: "k < kUnitCount" "1024 ^ k \<le> n" "n < 1024 ^ Suc k \<or> Suc k = kUnitCount"
    using scale_loop_bounds [of 0 n] n(1) by (simp_all add: k_def kUnitCount_def kUnitLabels_def)
  have "k \<noteq> 0" using k(3) n(1) by (cases k) (auto simp: kUnitCount_def kUnitLabels_def)
  then have range: "k \<in> {1..5}" "n < 1024 ^ Suc k \<or> k = 5"
    using k by (auto simp: kUnitCount_def kUnitLabels_def)
  have shown: "FormatByteSize L b = print_scaled n k @ '' '' @ kUnitLabels ! k"
    using assms n by (simp add: FormatByteSize_def Let_def to_double_exact k_def n_def)
  have pos: "(0::nat) < 1024 ^ k" by simp
  have "if n < 10 * 1024 ^ k
       then \<exists>t. FormatByteSize L b = decimal (t div 10) @ ''.'' @ decimal (t mod 10) @ '' '' @ kUnitLabels ! k \<and>
              \<bar>20 * int n - 2 * int t * 1024 ^ k\<bar> \<le> 1024 ^ k
       else \<exists>t. FormatByteSize L b = decimal t @ '' '' @ kUnitLabels ! k \<and>
              \<bar>2 * int n - 2 * int t * 1024 ^ k\<bar> \<le> 1024 ^ k"
    using round_half_even_distance [OF pos, of "10 * n"] round_half_even_distance [OF pos, of n]
    by (auto simp: shown print_scaled_def Let_def)
  with range k(2) show ?thesis unfolding n_def [symmetric] Let_def by blast
qed

theorem byte_size_shown_witness:
  "FormatByteSize ref_muscle 1536 = ''1.5 KB'' \<and> FormatByteSize ref_muscle (10 * 1024 * 1024 - 1) = ''10.0 MB'' \<and>
   (\<exists>k \<in> {1..5}. 1024 ^ k \<le> nat (sint (1536 :: int64)))"
proof -
  have "FormatByteSize ref_muscle 1536 = ''1.5 KB''"
    by (simp add: FormatByteSize_def to_double_exact scale_loop.simps kUnitCount_def kUnitLabels_def print_scaled_def
        round_half_even_def decimal.simps, code_simp)
  moreover have "FormatByteSize ref_muscle (10 * 1024 * 1024 - 1) = ''10.0 MB''"
    by (simp add: FormatByteSize_def to_double_exact scale_loop.simps kUnitCount_def kUnitLabels_def print_scaled_def
        round_half_even_def decimal.simps, code_simp)
  moreover have "1024 \<le> sint (1536 :: int64)" "sint (1536 :: int64) < 2 ^ 53" by simp_all
  note byte_size_shown [OF this, of ref_muscle]
  ultimately show ?thesis unfolding Let_def by blast
qed

end
