(* ===== verification/Rows.thy ===== *)
theory Rows
  imports Format
begin

section \<open>Rows with an index\<close>

text \<open>
  The list models behind the views keep a vector of rows and a hash from a row's key to its number.
  The operations they share, and the locale of what makes such a pair consistent: \<open>key\<close> is the text a
  row is hashed by and \<open>ident\<close> what identifies the row, a \<open>valid\<close> row being one whose key tells its
  identity.
\<close>

text \<open>\<open>QVector::remove\<close> and \<open>_RebuildIndex\<close>.\<close>

definition remove_row :: "nat \<Rightarrow> 'e list \<Rightarrow> 'e list" where
  "remove_row r rows = take r rows @ drop (Suc r) rows"

fun rebuild_from :: "('e \<Rightarrow> 'k) \<Rightarrow> nat \<Rightarrow> 'e list \<Rightarrow> ('k \<rightharpoonup> nat) \<Rightarrow> ('k \<rightharpoonup> nat)" where
  "rebuild_from key r [] ix = ix"
| "rebuild_from key r (e # es) ix = rebuild_from key (Suc r) es (ix(key e \<mapsto> r))"

definition rebuild :: "('e \<Rightarrow> 'k) \<Rightarrow> 'e list \<Rightarrow> ('k \<rightharpoonup> nat)" where
  "rebuild key rows = rebuild_from key 0 rows Map.empty"

text \<open>What \<open>data()\<close> answers.\<close>

datatype variant = NoValue | Text string | Number int | AlignRightCenter

lemma decimal_digits: "list_all digit (decimal n)"
proof (induction n rule: decimal.induct)
  case (1 n)
  have d: "digit (char_of (48 + k))" if "k < 10" for k :: nat
    using that by (simp add: digit_def)
  show ?case using 1 d [of n] d [of "n mod 10"] by (subst decimal.simps) simp
qed

text \<open>The number in front of a key can be told from what follows.\<close>

definition decimal_value :: "string \<Rightarrow> nat" where
  "decimal_value s = foldl (\<lambda>v c. 10 * v + (of_char c - 48)) 0 s"

lemma decimal_value_decimal: "decimal_value (decimal n) = n"
proof (induction n rule: decimal.induct)
  case (1 n)
  then show ?case by (subst decimal.simps) (auto simp: decimal_value_def)
qed

lemma decimal_inject: "decimal m = decimal n \<Longrightarrow> m = n"
  by (metis decimal_value_decimal)

lemma decimal_key_inject: "decimal m @ CHR 0x0A # s = decimal n @ CHR 0x0A # t \<longleftrightarrow> m = n \<and> s = t"
proof -
  have "CHR 0x0A \<notin> set (decimal k)" for k
    using decimal_digits [of k] by (auto simp: list_all_iff digit_def)
  then have "takeWhile (\<lambda>c. c \<noteq> CHR 0x0A) (decimal k @ CHR 0x0A # s) = decimal k" for k s
    by (subst takeWhile_append2) auto
  then show ?thesis using decimal_inject by (metis same_append_eq list.inject)
qed

locale keyed_rows =
  fixes key :: "'e \<Rightarrow> 'k" and ident :: "'e \<Rightarrow> 'i" and valid :: "'e \<Rightarrow> bool"
  assumes key_ident: "valid e \<Longrightarrow> valid e' \<Longrightarrow> key e = key e' \<longleftrightarrow> ident e = ident e'"
begin

text \<open>The hash knows every row by its key, and no two rows have the same key.\<close>

definition index_ok :: "'e list \<Rightarrow> ('k \<rightharpoonup> nat) \<Rightarrow> bool" where
  "index_ok rows ix \<longleftrightarrow> (\<forall>k r. ix k = Some r \<longleftrightarrow> r < length rows \<and> key (rows ! r) = k)"

text \<open>The rows as a table from identities.\<close>

definition shown :: "'e list \<Rightarrow> 'i \<Rightarrow> 'e option" where
  "shown rows i = List.find (\<lambda>e. ident e = i) rows"

lemma index_at: "index_ok rows ix \<Longrightarrow> r < length rows \<Longrightarrow> ix (key (rows ! r)) = Some r"
  by (simp add: index_ok_def)

lemma index_found: "index_ok rows ix \<Longrightarrow> ix k = Some r \<Longrightarrow> r < length rows \<and> key (rows ! r) = k"
  by (simp add: index_ok_def)

lemma index_distinct:
  assumes "index_ok rows ix"
  shows "distinct (map key rows)"
  unfolding distinct_conv_nth
proof (intro allI impI)
  fix i j
  assume "i < length (map key rows)" "j < length (map key rows)" "i \<noteq> j"
  with index_at [OF assms, of i] index_at [OF assms, of j] show "map key rows ! i \<noteq> map key rows ! j" by auto
qed

lemma index_None:
  assumes "index_ok rows ix"
  shows "ix k = None \<longleftrightarrow> k \<notin> key ` set rows"
proof
  assume "ix k = None"
  then show "k \<notin> key ` set rows" using index_at [OF assms] by (auto simp: in_set_conv_nth)
next
  assume k: "k \<notin> key ` set rows"
  show "ix k = None"
  proof (cases "ix k")
    case (Some r)
    with k index_found [OF assms Some] show ?thesis by auto
  qed
qed

lemma index_Nil: "index_ok [] Map.empty"
  by (simp add: index_ok_def)

lemma index_append:
  assumes "index_ok rows ix" "ix (key e) = None"
  shows "index_ok (rows @ [e]) (ix(key e \<mapsto> length rows))"
proof -
  have "key (rows ! r) \<noteq> key e" if "r < length rows" for r
    using index_at [OF assms(1) that] assms(2) by auto
  with assms(1) show ?thesis
    by (auto simp: index_ok_def nth_append less_Suc_eq)
qed

lemma index_rebuild:
  assumes "distinct (map key rows)"
  shows "index_ok rows (rebuild key rows)"
proof -
  have "index_ok (before @ es) (rebuild_from key (length before) es ix)"
    if "index_ok before ix" "distinct (map key (before @ es))" for before es ix
    using that
  proof (induction es arbitrary: before ix)
    case (Cons e es)
    have "ix (key e) = None" using Cons.prems by (auto simp: index_None)
    from Cons.IH [OF index_append [OF Cons.prems(1) this]] Cons.prems(2) show ?case by (simp del: fun_upd_apply)
  qed simp
  from this [OF index_Nil] assms show ?thesis by (simp add: rebuild_def)
qed

lemma index_update:
  assumes "index_ok rows ix" "ix (key e) = Some r"
  shows "index_ok (rows[r := e]) ix"
  using assms index_found [OF assms] by (auto simp: index_ok_def nth_list_update)

lemma distinct_remove_row: "distinct (map f rows) \<Longrightarrow> distinct (map f (remove_row r rows))"
proof -
  have "map f rows = map f (take r rows) @ map f (drop r rows)" by (metis append_take_drop_id map_append)
  moreover assume "distinct (map f rows)"
  ultimately have "distinct (map f (take r rows) @ map f (drop r rows))" by simp
  moreover have "set (map f (drop (Suc r) rows)) \<subseteq> set (map f (drop r rows))"
    by (simp add: image_mono set_drop_subset_set_drop)
  moreover have "distinct (map f (drop (Suc r) rows))"
    using \<open>distinct (map f rows)\<close> by (simp add: drop_map [symmetric] distinct_drop)
  ultimately show ?thesis by (auto simp: remove_row_def)
qed

lemma index_remove: "index_ok rows ix \<Longrightarrow> index_ok (remove_row r rows) (rebuild key (remove_row r rows))"
  by (simp add: index_rebuild distinct_remove_row index_distinct)

lemma index_filter: "index_ok rows ix \<Longrightarrow> index_ok (filter P rows) (rebuild key (filter P rows))"
  by (simp add: index_rebuild distinct_map_filter index_distinct)

text \<open>What the operations do to the table that is shown.\<close>

lemma ident_distinct:
  assumes "index_ok rows ix" "list_all valid rows"
  shows "distinct (map ident rows)"
  using index_distinct [OF assms(1)] assms(2) key_ident
  by (auto simp: distinct_map inj_on_def list_all_iff)

lemma shown_None: "shown rows i = None \<longleftrightarrow> i \<notin> ident ` set rows"
  by (auto simp: shown_def find_None_iff)

lemma shown_Some_ident: "shown rows i = Some e \<Longrightarrow> ident e = i \<and> e \<in> set rows"
  by (auto simp: shown_def find_Some_iff)

lemma shown_absent [simp]: "i \<notin> ident ` set rows \<Longrightarrow> shown rows i = None"
  by (simp add: shown_None)

lemma shown_simps [simp]:
  "shown [] i = None"
  "shown (e # es) i = (if ident e = i then Some e else shown es i)"
  "shown (es @ fs) i = (case shown es i of None \<Rightarrow> shown fs i | Some e \<Rightarrow> Some e)"
  by (simp_all add: shown_def) (induction es, simp_all add: shown_def)

text \<open>Around one row.\<close>

lemma around:
  assumes "index_ok rows ix" "list_all valid rows" "r < length rows"
  obtains a x b where "rows = a @ x # b" "length a = r" "rows ! r = x"
    "ident x \<notin> ident ` set a" "ident x \<notin> ident ` set b"
proof -
  obtain a x b where rows: "rows = a @ x # b" "length a = r" "rows ! r = x"
    using id_take_nth_drop [OF assms(3)] assms(3) by (metis length_take min.absorb4)
  moreover from ident_distinct [OF assms(1,2)] have "ident x \<notin> ident ` set a" "ident x \<notin> ident ` set b"
    unfolding rows(1) by auto
  ultimately show thesis by (rule that)
qed

lemma shown_at:
  assumes "index_ok rows ix" "list_all valid rows" "r < length rows"
  shows "shown rows (ident (rows ! r)) = Some (rows ! r)"
  using around [OF assms] by (metis shown_None shown_simps(2,3) option.simps(4))

lemma shown_append:
  assumes "index_ok rows ix" "list_all valid rows" "valid e" "ix (key e) = None"
  shows "shown (rows @ [e]) = (shown rows)(ident e \<mapsto> e)"
proof -
  have "ident e \<notin> ident ` set rows"
    using assms key_ident index_None [OF assms(1), of "key e"] by (auto simp: list_all_iff)
  then show ?thesis by (auto simp: fun_eq_iff split: option.split)
qed

lemma shown_update:
  assumes "index_ok rows ix" "list_all valid rows" "valid e" "ix (key e) = Some r"
  shows "shown (rows[r := e]) = (shown rows)(ident e \<mapsto> e)"
proof -
  have r: "r < length rows" "key (rows ! r) = key e" using index_found [OF assms(1,4)] by auto
  have "valid (rows ! r)" using assms(2) r(1) by (simp add: list_all_length)
  then have same: "ident (rows ! r) = ident e" using key_ident [OF _ assms(3)] r(2) by blast
  obtain a x b where rows: "rows = a @ x # b" "length a = r" "rows ! r = x" "ident x \<notin> ident ` set a"
    by (rule around [OF assms(1,2) r(1)])
  then have "rows[r := e] = a @ e # b" by (auto simp: list_update_append)
  with rows same show ?thesis by (auto simp: fun_eq_iff split: option.split)
qed

lemma shown_filter:
  assumes "index_ok rows ix" "list_all valid rows"
  shows "shown (filter P rows) i = (case shown rows i of None \<Rightarrow> None | Some e \<Rightarrow> if P e then Some e else None)"
proof -
  have "shown (filter P es) i = (case shown es i of None \<Rightarrow> None | Some e \<Rightarrow> if P e then Some e else None)"
    if "distinct (map ident es)" for es
    using that
  proof (induction es)
    case (Cons e es)
    have "i \<notin> ident ` set (filter P es)" if "ident e = i" using Cons.prems that by auto
    with Cons show ?case by auto
  qed simp
  then show ?thesis using ident_distinct [OF assms] .
qed

lemma shown_remove_row:
  assumes "index_ok rows ix" "list_all valid rows" "r < length rows"
  shows "shown (remove_row r rows) = (shown rows)(ident (rows ! r) := None)"
proof -
  obtain a x b where rows: "rows = a @ x # b" "length a = r" "rows ! r = x" "ident x \<notin> ident ` set a"
    "ident x \<notin> ident ` set b"
    by (rule around [OF assms])
  then have "remove_row r rows = a @ b" by (simp add: remove_row_def)
  with rows show ?thesis by (auto simp: fun_eq_iff split: option.split)
qed

lemma index_map:
  assumes "index_ok rows ix" "\<And>e. key (f e) = key e"
  shows "index_ok (map f rows) ix"
  using assms unfolding index_ok_def by (metis length_map nth_map)

lemma shown_map:
  assumes "\<And>e. ident (f e) = ident e"
  shows "shown (map f rows) i = map_option f (shown rows i)"
  by (induction rows) (auto simp: assms)

end

end
