(* ===== verification/Columns.thy ===== *)
theory Columns
  imports Rows
begin

section \<open>Columns\<close>

text \<open>
  The list models number their columns by an \<open>enum Column\<close> that ends with \<open>COLUMN_COUNT\<close>. Such a type is an
  instance of the class \<open>enum\<close>, in the order of the source; a column number that Qt asks for is looked up
  in it, and a number of no column gets the \<open>default:\<close> branch. \<open>orientation\<close> is \<open>Qt::Orientation\<close>.
\<close>

datatype orientation = Horizontal | Vertical

definition column_count :: "'c::enum itself \<Rightarrow> nat" where
  "column_count T = length (enum_class.enum :: 'c list)"

definition column_at :: "int \<Rightarrow> 'c::enum option" where
  "column_at n =
     (if n < 0 \<or> n \<ge> int (length (enum_class.enum :: 'c list)) then None else Some (enum_class.enum ! nat n))"

definition header_data :: "('c::enum \<Rightarrow> string) \<Rightarrow> int \<Rightarrow> orientation \<Rightarrow> bool \<Rightarrow> variant" where
  "header_data title n orient isDisplay =
     (if orient \<noteq> Horizontal \<or> \<not> isDisplay then NoValue
      else case column_at n of None \<Rightarrow> NoValue | Some c \<Rightarrow> Text (title c))"

lemma column_at_range: "column_at n = (Some c :: 'c::enum option) \<Longrightarrow> 0 \<le> n \<and> n < int (column_count TYPE('c))"
  by (auto simp: column_at_def column_count_def split: if_splits)

lemma column_at_inj:
  assumes "column_at m = (Some c :: 'c::enum option)" "column_at n = Some c"
  shows "m = n"
proof -
  have "nat m < length (enum_class.enum :: 'c list)" "nat n < length (enum_class.enum :: 'c list)"
    "(enum_class.enum :: 'c list) ! nat m = enum_class.enum ! nat n"
    using assms column_at_range [OF assms(1)] column_at_range [OF assms(2)] by (auto simp: column_at_def split: if_splits)
  then have "nat m = nat n" using enum_distinct nth_eq_iff_index_eq by blast
  then show ?thesis using column_at_range [OF assms(1)] column_at_range [OF assms(2)] by (simp add: nat_eq_iff)
qed

lemma column_at_total: "\<exists>n. column_at n = (Some c :: 'c::enum option)"
proof -
  obtain i where "i < length (enum_class.enum :: 'c list)" "enum_class.enum ! i = c"
    using in_enum [of c] by (metis in_set_conv_nth)
  then have "column_at (int i) = Some c" by (simp add: column_at_def)
  then show ?thesis ..
qed

text \<open>
  The horizontal header has a title exactly for the columns that are counted; where the titles differ, so do
  the headers.
\<close>

lemma header_titles:
  "header_data (title :: 'c::enum \<Rightarrow> string) n Horizontal True \<noteq> NoValue \<longleftrightarrow> 0 \<le> n \<and> n < int (column_count TYPE('c))"
  by (auto simp: header_data_def column_at_def column_count_def)

lemma header_distinct:
  assumes "inj (title :: 'c::enum \<Rightarrow> string)" "header_data title m Horizontal True = header_data title n Horizontal True"
    and "header_data title m Horizontal True \<noteq> NoValue"
  shows "m = n"
  using assms by (auto simp: header_data_def dest: injD column_at_inj split: option.splits)

end
