(* ===== verification/UserList.thy ===== *)
theory UserList
  imports Columns ServersLaws
begin

section \<open>The user list on screen\<close>

text \<open>
  \<open>qt/UserListModel\<close> and the handlers of \<open>qt/MainWindow\<close> that feed it. A connection is known by its
  address; texts of Qt are the texts they were converted from. The model signals of Qt (rows inserted,
  removed, changed) are drawing and are left out; the rows and the hash are the state.
  The key of a row is kept as bytes: a session ID is the digits that the server has assigned, for which the bytes and
  the units of the \<open>QString\<close> are the same. Names of files are not, so the search results have keys in units (\<open>ResultList\<close>).
\<close>

record UserEntry =
  ue_user :: UserRecord
  ue_connection :: nat
  ue_serverName :: string

record user_list =
  ul_users :: "UserEntry list"
  ul_rowsByKey :: "string \<rightharpoonup> nat"

definition new_user_list :: user_list where
  "new_user_list = \<lparr> ul_users = [], ul_rowsByKey = Map.empty \<rparr>"

definition UlMakeKey :: "nat \<Rightarrow> string \<Rightarrow> string" where
  "UlMakeKey connection sessionId = decimal connection @ [CHR 0x0A] @ sessionId"

definition user_key :: "UserEntry \<Rightarrow> string" where
  "user_key e = UlMakeKey (ue_connection e) (u_sessionId (ue_user e))"

definition FindRow :: "nat \<Rightarrow> string \<Rightarrow> user_list \<Rightarrow> nat option" where
  "FindRow connection sessionId m = ul_rowsByKey m (UlMakeKey connection sessionId)"

definition UlRebuildIndex :: "user_list \<Rightarrow> user_list" where
  "UlRebuildIndex m = m\<lparr>ul_rowsByKey := rebuild user_key (ul_users m)\<rparr>"

definition UlUpdateUser :: "nat \<Rightarrow> string \<Rightarrow> UserRecord \<Rightarrow> user_list \<Rightarrow> user_list" where
  "UlUpdateUser connection serverName user m =
     (let entry = \<lparr> ue_user = user, ue_connection = connection, ue_serverName = serverName \<rparr>
      in case FindRow connection (u_sessionId user) m of
           Some existingRow \<Rightarrow> m\<lparr>ul_users := (ul_users m)[existingRow := entry]\<rparr>
         | None \<Rightarrow>
             m\<lparr>ul_users := ul_users m @ [entry],
               ul_rowsByKey := (ul_rowsByKey m)(UlMakeKey connection (u_sessionId user) \<mapsto> length (ul_users m))\<rparr>)"

definition UlRemoveUser :: "nat \<Rightarrow> string \<Rightarrow> user_list \<Rightarrow> user_list" where
  "UlRemoveUser connection sessionId m =
     (case FindRow connection sessionId m of
        None \<Rightarrow> m
      | Some row \<Rightarrow> UlRebuildIndex (m\<lparr>ul_users := remove_row row (ul_users m)\<rparr>))"

definition RemoveUsersForConnection :: "nat \<Rightarrow> user_list \<Rightarrow> user_list" where
  "RemoveUsersForConnection connection m =
     (let kept = filter (\<lambda>e. ue_connection e \<noteq> connection) (ul_users m)
      in if length kept = length (ul_users m) then m
         else UlRebuildIndex (m\<lparr>ul_users := kept\<rparr>))"

definition UlClear :: "user_list \<Rightarrow> user_list" where
  "UlClear m = (if ul_users m = [] then m else m\<lparr>ul_users := [], ul_rowsByKey := Map.empty\<rparr>)"

definition GetSessionIdForRow :: "int \<Rightarrow> user_list \<Rightarrow> string" where
  "GetSessionIdForRow row m =
     (if row < 0 \<or> row \<ge> int (length (ul_users m)) then [] else u_sessionId (ue_user (ul_users m ! nat row)))"

subsection \<open>What a cell shows\<close>

datatype user_column = UC_NAME | UC_STATUS | UC_CLIENT | UC_FILES | UC_SERVER | UC_HOST

instantiation user_column :: enum
begin

definition enum_user_column :: "user_column list" where "enum_user_column = [UC_NAME, UC_STATUS, UC_CLIENT, UC_FILES, UC_SERVER, UC_HOST]"
definition enum_all_user_column :: "(user_column \<Rightarrow> bool) \<Rightarrow> bool" where "enum_all_user_column P = list_all P [UC_NAME, UC_STATUS, UC_CLIENT, UC_FILES, UC_SERVER, UC_HOST]"
definition enum_ex_user_column :: "(user_column \<Rightarrow> bool) \<Rightarrow> bool" where "enum_ex_user_column P = list_ex P [UC_NAME, UC_STATUS, UC_CLIENT, UC_FILES, UC_SERVER, UC_HOST]"

instance
proof
  show "UNIV = set (enum_class.enum :: user_column list)"
    unfolding enum_user_column_def using user_column.exhaust by auto
  then show "enum_class.enum_all P = Ball UNIV P" "enum_class.enum_ex P = Bex UNIV P" for P :: "user_column \<Rightarrow> bool"
    by (simp_all only: enum_all_user_column_def enum_ex_user_column_def enum_user_column_def list_all_iff list_ex_iff)
qed (simp add: enum_user_column_def)

end

datatype user_role = UserDisplay | UserSessionId | UserAlignment | UserToolTip | UserOther

definition UlData :: "nat \<Rightarrow> user_column \<Rightarrow> user_role \<Rightarrow> user_list \<Rightarrow> variant" where
  "UlData row column role m =
     (if row \<ge> length (ul_users m) then NoValue
      else let entry = ul_users m ! row; user = ue_user entry
           in case role of
                UserSessionId \<Rightarrow> Text (u_sessionId user)
              | UserAlignment \<Rightarrow> (if column = UC_FILES then AlignRightCenter else NoValue)
              | UserToolTip \<Rightarrow>
                  Text (''Session '' @ u_sessionId user @
                    (if u_hostName user \<noteq> [] then CHR 0x0A # ''Host: '' @ u_hostName user else []) @
                    (if u_isFirewalled user then CHR 0x0A # ''Behind a firewall -- cannot accept connections'' else []) @
                    (if u_bandwidthLabel user \<noteq> [] then CHR 0x0A # ''Connection: '' @ u_bandwidthLabel user else []))
              | UserOther \<Rightarrow> NoValue
              | UserDisplay \<Rightarrow>
                  (case column of
                     UC_NAME \<Rightarrow> Text (GetDisplayName user)
                   | UC_STATUS \<Rightarrow> Text (u_userStatus user)
                   | UC_CLIENT \<Rightarrow> Text (u_clientVersion user)
                   | UC_FILES \<Rightarrow> Number (uint (u_fileCount user))
                   | UC_SERVER \<Rightarrow> Text (ue_serverName entry)
                   | UC_HOST \<Rightarrow> Text (u_hostName user)))"

definition user_title :: "user_column \<Rightarrow> string" where
  "user_title column =
     (case column of UC_NAME \<Rightarrow> ''Name'' | UC_STATUS \<Rightarrow> ''Status'' | UC_CLIENT \<Rightarrow> ''Client''
      | UC_FILES \<Rightarrow> ''Files'' | UC_SERVER \<Rightarrow> ''Server'' | UC_HOST \<Rightarrow> ''Host'')"

definition UlHeaderData :: "int \<Rightarrow> orientation \<Rightarrow> user_role \<Rightarrow> variant" where
  "UlHeaderData n orient role = header_data user_title n orient (role = UserDisplay)"

definition UlColumnCount :: "bool \<Rightarrow> nat" where
  "UlColumnCount isChild = (if isChild then 0 else column_count TYPE(user_column))"

lemma user_headers:
  "UlHeaderData n Horizontal UserDisplay \<noteq> NoValue \<longleftrightarrow> 0 \<le> n \<and> n < int (UlColumnCount False)"
  "UlHeaderData n Horizontal UserDisplay = UlHeaderData k Horizontal UserDisplay \<Longrightarrow>
     UlHeaderData n Horizontal UserDisplay \<noteq> NoValue \<Longrightarrow> n = k"
proof -
  have inj: "inj user_title" by (rule injI) (auto simp: user_title_def split: user_column.splits)
  show "UlHeaderData n Horizontal UserDisplay = UlHeaderData k Horizontal UserDisplay \<Longrightarrow>
     UlHeaderData n Horizontal UserDisplay \<noteq> NoValue \<Longrightarrow> n = k"
    using header_distinct [OF inj, of n k] by (simp add: UlHeaderData_def)
qed (simp add: UlHeaderData_def UlColumnCount_def header_titles)

subsection \<open>The handlers of the window\<close>

text \<open>
  A callback with the connection it comes from and the address that connection has at that moment.
  Only three callbacks concern the list.
\<close>

type_synonym tagged_event = "nat \<times> string \<times> conn_event"

fun feed_users :: "tagged_event \<Rightarrow> user_list \<Rightarrow> user_list" where
  "feed_users (a, addr, UserUpdated user isNewUser) m = UlUpdateUser a addr user m"
| "feed_users (a, addr, UserLeft user) m = UlRemoveUser a (u_sessionId user) m"
| "feed_users (a, addr, ConnectionStateChanged st) m =
     (if st = CONNECTION_DISCONNECTED then RemoveUsersForConnection a m else m)"
| "feed_users (a, addr, ev) m = m"

definition user_ident :: "UserEntry \<Rightarrow> nat \<times> string" where
  "user_ident e = (ue_connection e, u_sessionId (ue_user e))"

subsection \<open>Keys tell rows apart\<close>

interpretation user_rows: keyed_rows user_key user_ident "\<lambda>e. True"
proof
  fix e e' :: UserEntry
  have "user_key e = user_key e' \<Longrightarrow> user_ident e = user_ident e'"
    using decimal_key_inject by (auto simp: user_key_def user_ident_def UlMakeKey_def)
  then show "user_key e = user_key e' \<longleftrightarrow> user_ident e = user_ident e'"
    by (auto simp: user_key_def user_ident_def)
qed

definition list_ok :: "user_list \<Rightarrow> bool" where
  "list_ok m \<longleftrightarrow> user_rows.index_ok (ul_users m) (ul_rowsByKey m)"

definition listed_user :: "user_list \<Rightarrow> nat \<Rightarrow> string \<Rightarrow> UserRecord option" where
  "listed_user m a sid =
     map_option ue_user (List.find (\<lambda>e. ue_connection e = a \<and> u_sessionId (ue_user e) = sid) (ul_users m))"

lemma listed_shown: "listed_user m a sid = map_option ue_user (user_rows.shown (ul_users m) (a, sid))"
  by (simp add: listed_user_def user_rows.shown_def user_ident_def)

lemma list_ok_new: "list_ok new_user_list"
  by (simp add: list_ok_def new_user_list_def user_rows.index_Nil)

lemma UpdateUser_law:
  assumes "list_ok m"
  shows "list_ok (UlUpdateUser a s u m)"
    "listed_user (UlUpdateUser a s u m) b = (if b = a then (listed_user m a)(u_sessionId u \<mapsto> u) else listed_user m b)"
proof -
  let ?e = "\<lparr> ue_user = u, ue_connection = a, ue_serverName = s \<rparr>"
  have k: "UlMakeKey a (u_sessionId u) = user_key ?e" "user_ident ?e = (a, u_sessionId u)"
    by (simp_all add: user_key_def user_ident_def)
  note ok = assms [unfolded list_ok_def]
  have v: "list_all (\<lambda>e. True) (ul_users m)" by (simp add: list_all_iff)
  have "list_ok (UlUpdateUser a s u m) \<and>
      user_rows.shown (ul_users (UlUpdateUser a s u m)) = (user_rows.shown (ul_users m))(user_ident ?e \<mapsto> ?e)"
  proof (cases "FindRow a (u_sessionId u) m")
    case None
    then show ?thesis
      using user_rows.index_append [OF ok, of ?e] user_rows.shown_append [OF ok v, of ?e]
      by (simp add: UlUpdateUser_def list_ok_def FindRow_def k)
  next
    case (Some r)
    then show ?thesis
      using user_rows.index_update [OF ok, of ?e] user_rows.shown_update [OF ok v, of ?e]
      by (simp add: UlUpdateUser_def list_ok_def FindRow_def k)
  qed
  then show "list_ok (UlUpdateUser a s u m)"
    "listed_user (UlUpdateUser a s u m) b = (if b = a then (listed_user m a)(u_sessionId u \<mapsto> u) else listed_user m b)"
    by (auto simp: listed_shown user_ident_def fun_eq_iff)
qed

lemma RemoveUser_law:
  assumes "list_ok m"
  shows "list_ok (UlRemoveUser a sid m)"
    "listed_user (UlRemoveUser a sid m) b = (if b = a then (listed_user m a)(sid := None) else listed_user m b)"
proof -
  note ok = assms [unfolded list_ok_def]
  have v: "list_all (\<lambda>e. True) (ul_users m)" by (simp add: list_all_iff)
  have "list_ok (UlRemoveUser a sid m) \<and>
      user_rows.shown (ul_users (UlRemoveUser a sid m)) = (user_rows.shown (ul_users m))((a, sid) := None)"
  proof (cases "FindRow a sid m")
    case None
    let ?e = "\<lparr> ue_user = empty_user\<lparr>u_sessionId := sid\<rparr>, ue_connection = a, ue_serverName = [] \<rparr>"
    have k: "UlMakeKey a sid = user_key ?e" "user_ident ?e = (a, sid)"
      by (simp_all add: user_key_def user_ident_def)
    have "(a, sid) \<notin> user_ident ` set (ul_users m)"
      using None user_rows.index_None [OF ok, of "user_key ?e"] user_rows.key_ident [of ?e]
      by (auto simp: FindRow_def k)
    with None assms show ?thesis by (auto simp: UlRemoveUser_def fun_eq_iff)
  next
    case (Some r)
    then have r: "r < length (ul_users m)" "user_key (ul_users m ! r) = UlMakeKey a sid"
      using user_rows.index_found [OF ok] by (auto simp: FindRow_def)
    then have "user_ident (ul_users m ! r) = (a, sid)"
      using decimal_key_inject by (auto simp: user_key_def user_ident_def UlMakeKey_def)
    with Some r show ?thesis
      using user_rows.index_remove [OF ok] user_rows.shown_remove_row [OF ok v r(1)]
      by (simp add: UlRemoveUser_def UlRebuildIndex_def list_ok_def)
  qed
  then show "list_ok (UlRemoveUser a sid m)"
    "listed_user (UlRemoveUser a sid m) b = (if b = a then (listed_user m a)(sid := None) else listed_user m b)"
    by (auto simp: listed_shown fun_eq_iff)
qed

lemma RemoveUsersForConnection_law:
  assumes "list_ok m"
  shows "list_ok (RemoveUsersForConnection a m)"
    "listed_user (RemoveUsersForConnection a m) b = (if b = a then Map.empty else listed_user m b)"
proof -
  note ok = assms [unfolded list_ok_def]
  have v: "list_all (\<lambda>e. True) (ul_users m)" by (simp add: list_all_iff)
  let ?kept = "filter (\<lambda>e. ue_connection e \<noteq> a) (ul_users m)"
  have same: "length ?kept = length (ul_users m) \<Longrightarrow> ?kept = ul_users m"
    by (metis length_filter_less filter_True less_irrefl)
  have "list_ok (RemoveUsersForConnection a m) \<and> ul_users (RemoveUsersForConnection a m) = ?kept"
    using assms same user_rows.index_filter [OF ok]
    by (auto simp: RemoveUsersForConnection_def UlRebuildIndex_def list_ok_def Let_def)
  moreover have "user_rows.shown ?kept (b, sid) = (if b = a then None else user_rows.shown (ul_users m) (b, sid))" for sid
  proof (cases "user_rows.shown (ul_users m) (b, sid)")
    case None
    then show ?thesis by (simp add: user_rows.shown_filter [OF ok v])
  next
    case (Some e)
    then have "ue_connection e = b" using user_rows.shown_Some_ident [OF Some] by (simp add: user_ident_def)
    with Some show ?thesis by (simp add: user_rows.shown_filter [OF ok v])
  qed
  ultimately show "list_ok (RemoveUsersForConnection a m)"
    "listed_user (RemoveUsersForConnection a m) b = (if b = a then Map.empty else listed_user m b)"
    by (auto simp: listed_shown fun_eq_iff)
qed

lemma feed_users_law:
  assumes "list_ok m"
  shows "list_ok (feed_users (a, addr, ev) m) \<and>
    listed_user (feed_users (a, addr, ev) m) b = (if b = a then view_step ev (listed_user m a) else listed_user m b)"
  using assms UpdateUser_law RemoveUser_law RemoveUsersForConnection_law by (cases ev) auto

definition events_of :: "nat \<Rightarrow> tagged_event list \<Rightarrow> conn_event list" where
  "events_of a evs = map (\<lambda>(a', addr, ev). ev) (filter (\<lambda>(a', addr, ev). a' = a) evs)"

lemma fed_lists:
  "list_ok m \<Longrightarrow> list_ok (fold feed_users evs m) \<and>
   listed_user (fold feed_users evs m) a = fold view_step (events_of a evs) (listed_user m a)"
proof (induction evs arbitrary: m)
  case (Cons e evs)
  obtain b addr ev where e: "e = (b, addr, ev)" by (cases e)
  from Cons.IH [of "feed_users e m"] feed_users_law [OF Cons.prems, of b addr ev] show ?case
    by (auto simp: e events_of_def)
qed (simp add: events_of_def)

lemma listed_view: "listed_user (fold feed_users evs new_user_list) a = listener_view (events_of a evs)"
proof -
  have "listed_user new_user_list a = Map.empty"
    by (simp add: listed_user_def new_user_list_def fun_eq_iff)
  then show ?thesis using fed_lists [OF list_ok_new, of evs a] by (simp add: listener_view_def)
qed

subsection \<open>Correctness\<close>

text \<open>
  The list on screen is the users each server told of, whatever arrives from however many servers
  in whatever order: the rows of a connection are exactly what its own callbacks amount to, nobody is
  listed twice, the same session on two servers is two people, and the hash finds every row by its key,
  so that a row stands for the user it shows.
\<close>

theorem user_rows_are_views:
  "let m = fold feed_users evs new_user_list
   in (\<forall>a. listed_user m a = listener_view (events_of a evs)) \<and>
      distinct (map user_ident (ul_users m)) \<and>
      (\<forall>r < length (ul_users m). FindRow (ue_connection (ul_users m ! r)) (GetSessionIdForRow (int r) m) m = Some r)"
proof -
  let ?m = "fold feed_users evs new_user_list"
  have ok: "list_ok ?m" using fed_lists [OF list_ok_new] by blast
  have "listed_user ?m a = listener_view (events_of a evs)" for a by (rule listed_view)
  moreover have "distinct (map user_ident (ul_users ?m))"
    using user_rows.ident_distinct [OF ok [unfolded list_ok_def]] by (simp add: list_all_iff)
  moreover have "\<forall>r < length (ul_users ?m).
      FindRow (ue_connection (ul_users ?m ! r)) (GetSessionIdForRow (int r) ?m) ?m = Some r"
    using user_rows.index_at [OF ok [unfolded list_ok_def]]
    by (auto simp: FindRow_def GetSessionIdForRow_def user_key_def)
  ultimately show ?thesis by (simp add: Let_def)
qed

text \<open>
  End to end: when the window has been given the callbacks of every connection, in any interleaving
  between the servers, the users it lists for a server are exactly the users that connection knows, after
  any history of connecting, traffic, commands and disconnecting on any number of servers.
\<close>

theorem users_on_screen:
  assumes "map_of (cm_connections (fold (run_cm L E) ops (CmSetListener True new_connections))) a = Some c"
    and "events_of a evs = c_events c"
  shows "listed_user (fold feed_users evs new_user_list) a = FindUser (c_users c)"
  using listed_view [of evs a] assms(2) views.from_start [of L E ops] map_of_SomeD [OF assms(1)]
  by (auto simp: views.everywhere_def conn_inv_def)

theorem users_on_screen_witness:
  "let m = fold (run_cm ref_muscle demo_cm_env)
         [CmAdd ''s'' 0, CmOne 1 (CbMessage (name_update ''/h/7/beshare/name'' ''ann''))] (CmSetListener True new_connections);
       evs = (case map_of (cm_connections m) 1 of Some c \<Rightarrow> map (\<lambda>ev. (1, ''s'', ev)) (c_events c) | None \<Rightarrow> [])
   in map_option u_userName (listed_user (fold feed_users evs new_user_list) 1 ''7'') = Some ''ann''"
proof -
  let ?ops = "[CmAdd ''s'' 0, CmOne 1 (CbMessage (name_update ''/h/7/beshare/name'' ''ann''))]"
  let ?c1 = "run_op ref_muscle demo_net (OpConnect ''s'' 0) (SetListener True new_connection)"
  let ?c2 = "run_op ref_muscle demo_net (CbMessage (name_update ''/h/7/beshare/name'' ''ann'')) ?c1"
  let ?evs = "map (\<lambda>ev. (1, ''s'', ev)) (c_events ?c2) :: tagged_event list"
  have up: "c_state ?c1 \<noteq> CONNECTION_DISCONNECTED" by code_simp
  have m: "map_of (cm_connections (fold (run_cm ref_muscle demo_cm_env) ?ops (CmSetListener True new_connections))) 1 = Some ?c2"
    using up by (simp add: AddConnection_def FindByAddress_def CmSetListener_def new_connections_def on_all_def
        kMaximumConnections_def demo_cm_env_def on_one_def deliverable_def Let_def)
  have e: "events_of 1 ?evs = c_events ?c2" by (simp add: events_of_def comp_def filter_map)
  have "map_option u_userName (FindUser (c_users ?c2) ''7'') = Some ''ann''" by code_simp
  then show ?thesis using users_on_screen [OF m e] unfolding Let_def m by (simp del: run_op.simps)
qed

end
