(* ===== verification/Conversions.thy ===== *)
theory Conversions
  imports Rows
begin

section \<open>The two encodings of a text\<close>

text \<open>
  \<open>qt/QtConversions.h\<close>: the core has the bytes of a text (\<open>muscle::String\<close>), the front end its UTF-16 (\<open>QString\<close>).
  The conversions of Qt are parameters; what is documented of them is that they carry UTF-8 to UTF-16 and back.
  Where the front end looks into a text, or compares texts that came from the network, the model does it on the
  units of the \<open>QString\<close>: the keys of the search results and the search for one's own name. A text that is only
  passed on, joined with others or shown is modelled by its bytes; \<open>texts_as_bytes\<close> says what that rests on.
\<close>

subsection \<open>UTF-8 and UTF-16\<close>

definition scalar :: "nat \<Rightarrow> bool" where
  "scalar c \<longleftrightarrow> c < 0xD800 \<or> (0xE000 \<le> c \<and> c < 0x110000)"

definition utf8_char :: "nat \<Rightarrow> nat list" where
  "utf8_char c =
     (if c < 0x80 then [c]
      else if c < 0x800 then [0xC0 + c div 64, 0x80 + c mod 64]
      else if c < 0x10000 then [0xE0 + c div 4096, 0x80 + c div 64 mod 64, 0x80 + c mod 64]
      else [0xF0 + c div 262144, 0x80 + c div 4096 mod 64, 0x80 + c div 64 mod 64, 0x80 + c mod 64])"

definition utf8 :: "nat list \<Rightarrow> string" where
  "utf8 cs = map char_of (concat (map utf8_char cs))"

definition utf16_char :: "nat \<Rightarrow> uint16 list" where
  "utf16_char c =
     (if c < 0x10000 then [of_nat c]
      else [of_nat (0xD800 + (c - 0x10000) div 0x400), of_nat (0xDC00 + (c - 0x10000) mod 0x400)])"

definition utf16 :: "nat list \<Rightarrow> uint16 list" where
  "utf16 cs = concat (map utf16_char cs)"

lemma utf8_char_nonempty [simp]: "utf8_char c \<noteq> []" "utf16_char c \<noteq> []"
  by (simp_all add: utf8_char_def utf16_char_def)

lemma utf8_simps [simp]: "utf8 [] = []" "utf8 (cs @ ds) = utf8 cs @ utf8 ds" "utf8 cs = [] \<longleftrightarrow> cs = []"
  by (simp_all add: utf8_def)

lemma utf16_simps [simp]: "utf16 [] = []" "utf16 (cs @ ds) = utf16 cs @ utf16 ds" "utf16 cs = [] \<longleftrightarrow> cs = []"
  by (simp_all add: utf16_def)

text \<open>
  Reading UTF-8: the first character of a byte list and what is behind it, if there is a well-formed one; an
  overlong form, a surrogate and a number beyond Unicode are none.
\<close>

definition cont :: "nat \<Rightarrow> bool" where
  "cont b \<longleftrightarrow> 0x80 \<le> b \<and> b < 0xC0"

definition first_char :: "nat \<Rightarrow> nat list \<Rightarrow> (nat \<times> nat list) option" where
  "first_char a s =
     (if a < 0x80 then Some (a, s)
      else if a < 0xE0 then
        (case s of
           b # t \<Rightarrow> if 0xC2 \<le> a \<and> cont b then Some ((a - 0xC0) * 64 + (b - 0x80), t) else None
         | _ \<Rightarrow> None)
      else if a < 0xF0 then
        (case s of
           b # c # t \<Rightarrow>
             let v = (a - 0xE0) * 4096 + (b - 0x80) * 64 + (c - 0x80)
             in if cont b \<and> cont c \<and> 0x800 \<le> v \<and> scalar v then Some (v, t) else None
         | _ \<Rightarrow> None)
      else
        (case s of
           b # c # d # t \<Rightarrow>
             let v = (a - 0xF0) * 262144 + (b - 0x80) * 4096 + (c - 0x80) * 64 + (d - 0x80)
             in if cont b \<and> cont c \<and> cont d \<and> 0x10000 \<le> v \<and> scalar v then Some (v, t) else None
         | _ \<Rightarrow> None))"

lemma first_char_length: "first_char a s = Some (c, t) \<Longrightarrow> length t \<le> length s"
  by (auto simp: first_char_def Let_def split: if_splits list.splits)

lemma base_64: "y < 64 \<Longrightarrow> (x * 64 + y) div 64 = x" "y < 64 \<Longrightarrow> (x * 64 + y) mod 64 = y" "n div 4096 = n div 64 div 64"
  "n div 262144 = n div 64 div 64 div 64" for n x y :: nat
  by (simp_all add: div_mult2_eq [symmetric])

lemma first_char_sound:
  assumes "first_char a s = Some (c, t)"
  shows "scalar c" "a # s = utf8_char c @ t"
proof -
  have "scalar c \<and> a # s = utf8_char c @ t"
  proof -
    consider "a < 0x80" | "0x80 \<le> a" "a < 0xE0" | "0xE0 \<le> a" "a < 0xF0" | "0xF0 \<le> a" by linarith
    then show ?thesis
    proof cases
      case 1
      then show ?thesis using assms by (auto simp: first_char_def utf8_char_def scalar_def)
    next
      case 2
      then obtain b where s: "s = b # t" "0xC2 \<le> a" "cont b" "c = (a - 0xC0) * 64 + (b - 0x80)"
        using assms by (auto simp: first_char_def split: list.splits if_splits)
      define x y where "x = a - 0xC0" and "y = b - 0x80"
      have "a = 0xC0 + x" "b = 0x80 + y" "y < 64" "2 \<le> x" "x < 32" "c = x * 64 + y"
        using s 2 by (auto simp: x_def y_def cont_def)
      then show ?thesis by (auto simp: s(1) utf8_char_def scalar_def)
    next
      case 3
      then obtain b d where s: "s = b # d # t" "cont b" "cont d" "c = (a - 0xE0) * 4096 + (b - 0x80) * 64 + (d - 0x80)"
        "0x800 \<le> c" "scalar c"
        using assms by (auto simp: first_char_def Let_def split: list.splits if_splits)
      define x y z where "x = a - 0xE0" and "y = b - 0x80" and "z = d - 0x80"
      have v: "a = 0xE0 + x" "b = 0x80 + y" "d = 0x80 + z" "y < 64" "z < 64" "x < 16" "c = (x * 64 + y) * 64 + z"
        using s 3 by (auto simp: x_def y_def z_def cont_def algebra_simps)
      then have "c div 64 = x * 64 + y" "c mod 64 = z" by (simp_all only: base_64)
      then have "c div 64 mod 64 = y" "c div 4096 = x" "c mod 64 = z" using v by (simp_all only: base_64)
      moreover have "c < 0x10000" using v by simp
      ultimately show ?thesis using s v(1-3) by (simp add: utf8_char_def)
    next
      case 4
      then obtain b d e where s: "s = b # d # e # t" "cont b" "cont d" "cont e"
        "c = (a - 0xF0) * 262144 + (b - 0x80) * 4096 + (d - 0x80) * 64 + (e - 0x80)" "0x10000 \<le> c" "scalar c"
        using assms by (auto simp: first_char_def Let_def split: list.splits if_splits)
      define x y z w where "x = a - 0xF0" and "y = b - 0x80" and "z = d - 0x80" and "w = e - 0x80"
      have v: "a = 0xF0 + x" "b = 0x80 + y" "d = 0x80 + z" "e = 0x80 + w" "y < 64" "z < 64" "w < 64"
        "c = ((x * 64 + y) * 64 + z) * 64 + w"
        using s 4 by (auto simp: x_def y_def z_def w_def cont_def algebra_simps)
      then have "c div 64 = (x * 64 + y) * 64 + z" "c mod 64 = w" by (simp_all only: base_64)
      moreover from this v have "c div 64 div 64 = x * 64 + y" "c div 64 mod 64 = z" by (simp_all only: base_64)
      ultimately have "c div 64 mod 64 = z" "c div 4096 mod 64 = y" "c div 262144 = x" "c mod 64 = w"
        using v by (simp_all only: base_64)
      then show ?thesis using s v(1-4) by (simp add: utf8_char_def)
    qed
  qed
  then show "scalar c" "a # s = utf8_char c @ t" by auto
qed

lemma first_char_complete:
  assumes "scalar c"
  shows "\<exists>a r. utf8_char c = a # r \<and> (\<forall>s. first_char a (r @ s) = Some (c, s))"
proof -
  have sum: "(c div 64) * 64 + c mod 64 = c" by simp
  have sum3: "(c div 4096) * 4096 + (c div 64 mod 64) * 64 + c mod 64 = c"
    using mult_div_mod_eq [of 64 "c div 64"] sum unfolding base_64(3,4) by linarith
  have sum4: "(c div 262144) * 262144 + (c div 4096 mod 64) * 4096 + (c div 64 mod 64) * 64 + c mod 64 = c"
    using mult_div_mod_eq [of 64 "c div 64 div 64"] mult_div_mod_eq [of 64 "c div 64"] sum unfolding base_64(3,4) by linarith
  have m: "c mod 64 < 64" "c div 64 mod 64 < 64" "c div 4096 mod 64 < 64" by auto
  consider "c < 0x80" | "0x80 \<le> c" "c < 0x800" | "0x800 \<le> c" "c < 0x10000" | "0x10000 \<le> c" "c < 0x110000"
    using assms by (force simp: scalar_def)
  then show ?thesis
  proof cases
    case 1
    then show ?thesis by (simp add: utf8_char_def first_char_def)
  next
    case 2
    define x y where "x = c div 64" and "y = c mod 64"
    have "2 \<le> x" "x < 32" "c = x * 64 + y" "y < 64" using 2 m(1) sum by (simp_all add: x_def y_def)
    moreover have "utf8_char c = [0xC0 + x, 0x80 + y]" using 2 by (simp add: utf8_char_def x_def y_def)
    ultimately show ?thesis by (simp add: first_char_def cont_def)
  next
    case 3
    then have "c div 4096 < 16" by auto
    with 3 m(1,2) sum3 assms show ?thesis by (simp add: utf8_char_def first_char_def cont_def Let_def)
  next
    case 4
    then show ?thesis using m sum4 assms by (simp add: utf8_char_def first_char_def cont_def Let_def)
  qed
qed

text \<open>A whole text: its characters, and \<^const>\<open>None\<close> for each byte that belongs to none.\<close>

function read_utf8 :: "nat list \<Rightarrow> nat option list" where
  "read_utf8 [] = []"
| "read_utf8 (a # s) =
     (case first_char a s of Some (c, t) \<Rightarrow> Some c # read_utf8 t | None \<Rightarrow> None # read_utf8 s)"
  by pat_completeness auto
termination
  by (relation "measure length") (auto dest!: first_char_length simp: less_Suc_eq_le)

definition characters :: "string \<Rightarrow> nat list option" where
  "characters s = those (read_utf8 (map of_char s))"

lemma read_concat: "list_all scalar cs \<Longrightarrow> read_utf8 (concat (map utf8_char cs)) = map Some cs"
proof (induction cs)
  case (Cons c cs)
  then obtain a r where "utf8_char c = a # r" "\<And>s. first_char a (r @ s) = Some (c, s)"
    using first_char_complete [of c] by auto
  with Cons show ?case by simp
qed simp

lemma utf8_bytes: "scalar c \<Longrightarrow> list_all (\<lambda>b. b < 256) (utf8_char c)"
  by (auto simp: utf8_char_def scalar_def)

lemma those_map_Some: "those (map Some cs) = Some cs"
  by (induction cs) simp_all

lemma those_Some: "those xs = Some cs \<longleftrightarrow> xs = map Some cs"
  by (induction xs arbitrary: cs) (auto split: option.splits)

text \<open>Reading is the inverse of writing.\<close>

lemma characters_iff: "characters s = Some cs \<longleftrightarrow> list_all scalar cs \<and> s = utf8 cs"
proof
  have read: "list_all scalar cs \<and> bs = concat (map utf8_char cs)" if "read_utf8 bs = map Some cs" for bs
    using that
  proof (induction bs arbitrary: cs rule: read_utf8.induct)
    case (2 a s)
    then obtain c t where f: "first_char a s = Some (c, t)" by (cases "first_char a s") (auto simp: Cons_eq_map_conv)
    then obtain ds where ds: "cs = c # ds" "read_utf8 t = map Some ds" using "2.prems" by (auto simp: Cons_eq_map_conv)
    have "list_all scalar ds \<and> t = concat (map utf8_char ds)" using "2.IH"(2) [OF f refl ds(2)] .
    then show ?case using first_char_sound [OF f] ds(1) by simp
  qed simp
  then show "list_all scalar cs \<and> s = utf8 cs" if "characters s = Some cs"
  proof -
    have "list_all scalar cs \<and> map of_char s = concat (map utf8_char cs)" using that read by (simp add: characters_def those_Some)
    then show ?thesis by (auto simp: utf8_def comp_def dest: sym)
  qed
next
  assume a: "list_all scalar cs \<and> s = utf8 cs"
  have "map of_char (utf8 cs) = concat (map utf8_char cs)"
  proof -
    have "list_all (\<lambda>b. b < 256) (concat (map utf8_char cs))" using a utf8_bytes by (auto simp: list_all_iff)
    then have "map (of_char \<circ> char_of) (concat (map utf8_char cs)) = (concat (map utf8_char cs) :: nat list)"
      by (intro map_idI) (auto simp: list_all_iff)
    then show ?thesis by (simp only: utf8_def list.map_comp)
  qed
  then show "characters s = Some cs" using a read_concat by (simp add: characters_def those_map_Some)
qed

subsection \<open>The conversions\<close>

text \<open>
  Beside the conversions, what the front end asks of the units of a text: \<open>trimmed()\<close>, whether two texts of the
  same length differ in nothing but case (the comparison behind \<open>Qt::CaseInsensitive\<close>) and
  \<open>QChar::isLetterOrNumber\<close>.
\<close>

record qt_codec =
  from_utf8 :: "string \<Rightarrow> uint16 list"
  to_utf8 :: "uint16 list \<Rightarrow> string"
  q_trimmed :: "uint16 list \<Rightarrow> uint16 list"
  q_same_no_case :: "uint16 list \<Rightarrow> uint16 list \<Rightarrow> bool"
  q_letter_or_number :: "uint16 \<Rightarrow> bool"

text \<open>
  Well-formed texts are carried over as they are; nothing is said of a text that starts with the byte order mark, which
  some versions of Qt drop, nor of what is not UTF-8.
\<close>

definition no_mark :: "nat list \<Rightarrow> bool" where
  "no_mark cs \<longleftrightarrow> (case cs of [] \<Rightarrow> True | c # _ \<Rightarrow> c \<noteq> 0xFEFF)"

definition codec_law :: "qt_codec \<Rightarrow> bool" where
  "codec_law T \<longleftrightarrow>
     (\<forall>cs. list_all scalar cs \<longrightarrow> no_mark cs \<longrightarrow> from_utf8 T (utf8 cs) = utf16 cs \<and> to_utf8 T (utf16 cs) = utf8 cs)"

definition ToQString :: "qt_codec \<Rightarrow> string \<Rightarrow> uint16 list" where
  "ToQString T t = from_utf8 T t"

text \<open>The bytes go through a C string, which ends at the first zero byte.\<close>

definition ToMuscleString :: "qt_codec \<Rightarrow> uint16 list \<Rightarrow> string" where
  "ToMuscleString T t = takeWhile (\<lambda>c. c \<noteq> CHR 0x00) (to_utf8 T t)"

lemma codecD:
  assumes "codec_law T" "characters s = Some cs" "no_mark cs"
  shows "ToQString T s = utf16 cs" "to_utf8 T (utf16 cs) = s"
  using assms by (auto simp: codec_law_def ToQString_def characters_iff)

lemma no_mark_append [simp]: "no_mark cs \<Longrightarrow> no_mark ds \<Longrightarrow> no_mark (cs @ ds)"
  by (cases cs) (simp_all add: no_mark_def)

lemma characters_append: "characters s = Some cs \<Longrightarrow> characters t = Some ds \<Longrightarrow> characters (s @ t) = Some (cs @ ds)"
  by (simp add: characters_iff)

text \<open>
  A text that is well-formed UTF-8 may be taken for its \<open>QString\<close>: two of them are equal as one if they are equal as
  the other, joining and being empty mean the same, and what comes back from the front end is the text up to its
  first zero byte.
\<close>

lemma texts_as_bytes:
  assumes "codec_law T" "characters s = Some cs" "no_mark cs" "characters t = Some ds" "no_mark ds"
  shows "(ToQString T s = ToQString T t \<longleftrightarrow> s = t) \<and> ToQString T (s @ t) = ToQString T s @ ToQString T t \<and>
    (ToQString T s = [] \<longleftrightarrow> s = []) \<and> ToMuscleString T (ToQString T s) = takeWhile (\<lambda>c. c \<noteq> CHR 0x00) s"
proof -
  note st = codecD [OF assms(1-3)] codecD [OF assms(1,4,5)]
  have "ToQString T s = ToQString T t \<longleftrightarrow> s = t" using st by metis
  moreover have "ToQString T (s @ t) = ToQString T s @ ToQString T t"
    using codecD(1) [OF assms(1) characters_append [OF assms(2,4)] no_mark_append [OF assms(3,5)]] st by simp
  moreover have "ToQString T s = [] \<longleftrightarrow> s = []" using assms(2) st(1) by (auto simp: characters_iff)
  ultimately show ?thesis using st by (simp add: ToMuscleString_def)
qed

text \<open>A text that is UTF-8 and does not start with the byte order mark.\<close>

definition well_formed :: "string \<Rightarrow> bool" where
  "well_formed s \<longleftrightarrow> (case characters s of None \<Rightarrow> False | Some cs \<Rightarrow> no_mark cs)"

lemma well_formed_iff: "well_formed s \<longleftrightarrow> (\<exists>cs. list_all scalar cs \<and> no_mark cs \<and> s = utf8 cs)"
  by (auto simp: well_formed_def characters_iff dest: sym split: option.splits)
    (metis characters_iff option.distinct(1), metis characters_iff option.inject)

lemma well_formedE:
  assumes "well_formed s"
  obtains cs where "characters s = Some cs" "no_mark cs"
  using assms by (auto simp: well_formed_def split: option.splits)

lemma well_formed_append [simp]: "well_formed s \<Longrightarrow> well_formed t \<Longrightarrow> well_formed (s @ t)"
  by (elim well_formedE) (simp add: well_formed_def characters_append)

lemma ToQString_inject:
  "codec_law T \<Longrightarrow> well_formed s \<Longrightarrow> well_formed t \<Longrightarrow> ToQString T s = ToQString T t \<longleftrightarrow> s = t"
  by (elim well_formedE) (use texts_as_bytes in blast)

lemma ToQString_append:
  "codec_law T \<Longrightarrow> well_formed s \<Longrightarrow> well_formed t \<Longrightarrow> ToQString T (s @ t) = ToQString T s @ ToQString T t"
  by (elim well_formedE) (use texts_as_bytes in blast)

text \<open>Plain ASCII is well formed, and its units are its bytes.\<close>

definition ascii :: "char \<Rightarrow> bool" where
  "ascii c \<longleftrightarrow> \<not> digit7 c"

lemma ascii_iff: "ascii c \<longleftrightarrow> of_char c < (0x80 :: nat)"
  by (cases c) (simp add: ascii_def of_char_def)

lemma ascii_char: "ascii c \<Longrightarrow> utf8_char (of_char c) = [of_char c]" "ascii c \<Longrightarrow> scalar (of_char c)"
  by (simp_all add: utf8_char_def scalar_def ascii_iff)

definition char_unit :: "char \<Rightarrow> uint16" where
  "char_unit c = of_nat (of_char c)"

lemma of_char_int: "0 \<le> (of_char c :: int) \<and> (of_char c :: int) < 256"
  by (cases c) (auto simp: of_char_def)

lemma char_unit_code [code abstract]: "Word.the_int (char_unit c) = of_char c"
proof -
  have "of_nat (of_char c) = (word_of_int (of_char c) :: uint16)" by (cases c) (simp add: of_char_def)
  then have "Word.the_int (char_unit c) = uint (word_of_int (of_char c) :: uint16)" by (simp add: char_unit_def)
  also have "\<dots> = of_char c" using of_char_int [of c] by (simp add: uint_word_of_int)
  finally show ?thesis .
qed

lemma ascii_text:
  assumes "list_all ascii s"
  shows "characters s = Some (map of_char s)" "utf16 (map of_char s) = map char_unit s" "no_mark (map of_char s)"
proof -
  have "list_all scalar (map of_char s) \<and> s = utf8 (map of_char s)"
    using assms by (induction s) (auto simp: utf8_def ascii_char)
  then show "characters s = Some (map of_char s)" by (simp add: characters_iff)
  show "no_mark (map of_char s)" using assms by (cases s) (auto simp: no_mark_def ascii_iff)
  show "utf16 (map of_char s) = map char_unit s"
    using assms by (induction s) (auto simp: utf16_def utf16_char_def ascii_iff char_unit_def)
qed

lemma ascii_well_formed [simp]: "list_all ascii s \<Longrightarrow> well_formed s"
  by (simp add: well_formed_def ascii_text)

lemma well_formed_code [code]: "well_formed s \<longleftrightarrow> 
     (if list_all ascii s then True else (case characters s of None \<Rightarrow> False | Some cs \<Rightarrow> no_mark cs))"
  using ascii_well_formed by (auto simp: well_formed_def)

lemma decimal_ascii [simp]: "list_all ascii (decimal n)"
  using decimal_digits [of n] by (auto simp: list_all_iff digit_def ascii_iff)

lemma ascii_units: "codec_law T \<Longrightarrow> list_all ascii s \<Longrightarrow> ToQString T s = map char_unit s"
  using codecD(1) [OF _ ascii_text(1,3)] by (simp add: ascii_text(2))

subsection \<open>A codec that obeys the law\<close>

fun read_utf16 :: "uint16 list \<Rightarrow> nat list" where
  "read_utf16 [] = []"
| "read_utf16 (w # ws) =
     (if 0xD800 \<le> unat w \<and> unat w < 0xDC00 \<and> ws \<noteq> [] \<and> 0xDC00 \<le> unat (hd ws) \<and> unat (hd ws) < 0xE000
      then (0x10000 + (unat w - 0xD800) * 0x400 + (unat (hd ws) - 0xDC00)) # read_utf16 (tl ws)
      else if 0xD800 \<le> unat w \<and> unat w < 0xE000 then 0xFFFD # read_utf16 ws
      else unat w # read_utf16 ws)"

definition read_all :: "string \<Rightarrow> nat list" where
  "read_all s = map (\<lambda>c. case c of Some c \<Rightarrow> c | None \<Rightarrow> 0xFFFD) (read_utf8 (map of_char s))"

definition ref_units :: "string \<Rightarrow> uint16 list" where
  "ref_units s = utf16 (read_all s)"

definition unit_blank :: "uint16 \<Rightarrow> bool" where
  "unit_blank u \<longleftrightarrow> u = 32 \<or> (9 \<le> u \<and> u \<le> 13)"

definition unit_lower :: "uint16 \<Rightarrow> uint16" where
  "unit_lower u = (if (65 \<le> u \<and> u \<le> 90) \<or> (0xC0 \<le> u \<and> u \<le> 0xDE \<and> u \<noteq> 0xD7) then u + 32 else u)"

lemma unit_lower_code [code abstract]:
  "Word.the_int (unit_lower u) =
     (let i = Word.the_int u
      in if (65 \<le> i \<and> i \<le> 90) \<or> (0xC0 \<le> i \<and> i \<le> 0xDE \<and> i \<noteq> 0xD7) then i + 32 else i)"
proof -
  have "uint (u + 32) = uint u + 32" if "uint u < 0x100"
    using that by (simp add: uint_plus_if_size word_size)
  then show ?thesis by (auto simp: unit_lower_def Let_def word_le_def word_uint_eq_iff)
qed

definition unit_letter :: "uint16 \<Rightarrow> bool" where
  "unit_letter u \<longleftrightarrow> (48 \<le> u \<and> u \<le> 57) \<or> (97 \<le> unit_lower u \<and> unit_lower u \<le> 122) \<or> (0xC0 \<le> u \<and> u \<le> 0x24F \<and> u \<noteq> 0xD7 \<and> u \<noteq> 0xF7)"

definition write_units :: "uint16 list \<Rightarrow> string" where
  "write_units us = utf8 (read_utf16 us)"

definition trim_units :: "uint16 list \<Rightarrow> uint16 list" where
  "trim_units us = rev (dropWhile unit_blank (rev (dropWhile unit_blank us)))"

definition same_units :: "uint16 list \<Rightarrow> uint16 list \<Rightarrow> bool" where
  "same_units s t \<longleftrightarrow> map unit_lower s = map unit_lower t"

definition ref_codec :: qt_codec where
  "ref_codec = \<lparr> from_utf8 = ref_units, to_utf8 = write_units, q_trimmed = trim_units, q_same_no_case = same_units,
     q_letter_or_number = unit_letter \<rparr>"

text \<open>The bytes of a text after it was read, with what is not UTF-8 in it replaced.\<close>

definition reread :: "string \<Rightarrow> string" where
  "reread s = (if list_all ascii s then s else utf8 (read_all s))"

lemma read_utf16_char: "scalar c \<Longrightarrow> read_utf16 (utf16_char c @ ws) = c # read_utf16 ws"
proof (cases "c < 0x10000")
  case True
  assume "scalar c"
  with True show ?thesis by (auto simp: utf16_char_def scalar_def unat_of_nat)
next
  case False
  assume a: "scalar c"
  define h l where "h = (c - 0x10000) div 0x400" and "l = (c - 0x10000) mod 0x400"
  have "h < 0x400" "l < 0x400" "c = 0x10000 + h * 0x400 + l" using a False by (auto simp: h_def l_def scalar_def)
  moreover have "utf16_char c = [of_nat (0xD800 + h), of_nat (0xDC00 + l)]" using False by (simp add: utf16_char_def h_def l_def)
  moreover have "unat (of_nat (0xD800 + h) :: uint16) = 0xD800 + h" "unat (of_nat (0xDC00 + l) :: uint16) = 0xDC00 + l"
    using calculation(1,2) by (simp_all only: unat_of_nat) simp_all
  ultimately show ?thesis by simp
qed

lemma read_utf16_back: "list_all scalar cs \<Longrightarrow> read_utf16 (utf16 cs) = cs"
  by (induction cs) (simp_all add: utf16_def read_utf16_char)

lemma read_all_back: "list_all scalar cs \<Longrightarrow> read_all (utf8 cs) = cs"
proof -
  assume "list_all scalar cs"
  then have "read_utf8 (map of_char (utf8 cs)) = map Some cs"
    using characters_iff [of "utf8 cs" cs] by (simp add: characters_def those_Some)
  moreover have "map (\<lambda>c. case c of Some c \<Rightarrow> c | None \<Rightarrow> 0xFFFD) (map Some cs) = cs" for cs :: "nat list"
    by (induction cs) simp_all
  ultimately show ?thesis by (simp only: read_all_def)
qed

lemma ref_codec_law [simp]: "codec_law ref_codec"
  by (simp add: codec_law_def ref_codec_def ref_units_def write_units_def read_all_back read_utf16_back)

lemma reread_well_formed: "well_formed s \<Longrightarrow> reread s = s"
  by (auto simp: reread_def well_formed_iff read_all_back)

lemma ref_units_code [code]: "ref_units s = (if list_all ascii s then map char_unit s else utf16 (read_all s))"
  using ascii_units [OF ref_codec_law, of s] by (simp add: ToQString_def ref_codec_def ref_units_def)

text \<open>The word of five letters and a character outside the first plane, there and back.\<close>

lemma texts_as_bytes_example:
  "let s = [CHR ''n'', CHR 0xC3, CHR 0xA4, CHR 0xF0, CHR 0x9F, CHR 0x90, CHR 0xA7] in
   length (ToQString ref_codec s) = 4 \<and> ToMuscleString ref_codec (ToQString ref_codec s) = s"
proof -
  let ?s = "[CHR ''n'', CHR 0xC3, CHR 0xA4, CHR 0xF0, CHR 0x9F, CHR 0x90, CHR 0xA7]"
  have s: "characters ?s = Some [110, 228, 128039]"
    by (simp add: characters_iff scalar_def utf8_def utf8_char_def char_of_def bit_simps)
  have m: "no_mark [110, 228, 128039]" by (simp add: no_mark_def)
  have "length (utf16 [110, 228, 128039]) = 4" by (simp add: utf16_def utf16_char_def)
  moreover have "takeWhile (\<lambda>c. c \<noteq> CHR 0x00) ?s = ?s" by simp
  ultimately show ?thesis
    using texts_as_bytes [OF ref_codec_law s m s m] codecD(1) [OF ref_codec_law s m] unfolding Let_def by argo
qed

end
