(* ===== verification/ResultList.thy ===== *)
theory ResultList
  imports UserList Conversions
begin

section \<open>The search results on screen\<close>

text \<open>
  \<open>qt/FileResultModel\<close>, and what \<open>qt/MainWindow\<close> does with the result callbacks: results are collected
  (\<open>fPendingResults\<close>) and handed to the model in batches, by a timer or when a search sweep ends.
  The model keeps the rows and a hash from the key of a row to its number.
\<close>

record ResultEntry =
  re_result :: FileResult
  re_connection :: nat
  re_serverName :: string
  re_sharerName :: string

record result_list =
  rl_results :: "ResultEntry list"
  rl_rowsByKey :: "uint16 list \<rightharpoonup> nat"

definition new_result_list :: result_list where
  "new_result_list = \<lparr> rl_results = [], rl_rowsByKey = Map.empty \<rparr>"

text \<open>The key is a \<open>QString\<close>: the texts in it are converted.\<close>

definition RlMakeKey :: "qt_codec \<Rightarrow> nat \<Rightarrow> string \<Rightarrow> string \<Rightarrow> uint16 list" where
  "RlMakeKey T connection sessionId fileName =
     map char_unit (decimal connection) @ [0x0A] @ ToQString T sessionId @ [0x0A] @ ToQString T fileName"

definition entry_key :: "qt_codec \<Rightarrow> ResultEntry \<Rightarrow> uint16 list" where
  "entry_key T e = RlMakeKey T (re_connection e) (fr_sessionId (re_result e)) (fr_fileName (re_result e))"

definition RlRebuildIndex :: "qt_codec \<Rightarrow> result_list \<Rightarrow> result_list" where
  "RlRebuildIndex T m = m\<lparr>rl_rowsByKey := rebuild (entry_key T) (rl_results m)\<rparr>"

text \<open>
  \<open>AddResults\<close>: the rows that are there are refreshed in place, the others collected; then the collected
  ones are appended. The hash is only changed by the second loop.
\<close>

fun refresh_rows :: "qt_codec \<Rightarrow> ResultEntry list \<Rightarrow> result_list \<Rightarrow> ResultEntry list \<Rightarrow> ResultEntry list \<times> result_list" where
  "refresh_rows T [] m additions = (additions, m)"
| "refresh_rows T (e # es) m additions =
     (case rl_rowsByKey m (entry_key T e) of
        Some row \<Rightarrow> refresh_rows T es (m\<lparr>rl_results := (rl_results m)[row := e]\<rparr>) additions
      | None \<Rightarrow> refresh_rows T es m (additions @ [e]))"

definition append_row :: "qt_codec \<Rightarrow> ResultEntry \<Rightarrow> result_list \<Rightarrow> result_list" where
  "append_row T e m =
     m\<lparr>rl_rowsByKey := (rl_rowsByKey m)(entry_key T e \<mapsto> length (rl_results m)),
       rl_results := rl_results m @ [e]\<rparr>"

definition AddResults :: "qt_codec \<Rightarrow> ResultEntry list \<Rightarrow> result_list \<Rightarrow> result_list" where
  "AddResults T entries m =
     (if entries = [] then m
      else case refresh_rows T entries m [] of (additions, m1) \<Rightarrow> fold (append_row T) additions m1)"

definition RemoveResult :: "qt_codec \<Rightarrow> nat \<Rightarrow> string \<Rightarrow> string \<Rightarrow> result_list \<Rightarrow> result_list" where
  "RemoveResult T connection sessionId fileName m =
     (case rl_rowsByKey m (RlMakeKey T connection sessionId fileName) of
        None \<Rightarrow> m
      | Some row \<Rightarrow> RlRebuildIndex T (m\<lparr>rl_results := remove_row row (rl_results m)\<rparr>))"

definition keep_results :: "qt_codec \<Rightarrow> (ResultEntry \<Rightarrow> bool) \<Rightarrow> result_list \<Rightarrow> result_list" where
  "keep_results T P m =
     (let kept = filter P (rl_results m)
      in if length kept = length (rl_results m) then m else RlRebuildIndex T (m\<lparr>rl_results := kept\<rparr>))"

definition RemoveResultsForSession :: "qt_codec \<Rightarrow> nat \<Rightarrow> string \<Rightarrow> result_list \<Rightarrow> result_list" where
  "RemoveResultsForSession T connection sessionId =
     keep_results T (\<lambda>e. re_connection e \<noteq> connection \<or>
       ToQString T (fr_sessionId (re_result e)) \<noteq> ToQString T sessionId)"

definition RemoveResultsForConnection :: "qt_codec \<Rightarrow> nat \<Rightarrow> result_list \<Rightarrow> result_list" where
  "RemoveResultsForConnection T connection = keep_results T (\<lambda>e. re_connection e \<noteq> connection)"

definition RlClear :: "result_list \<Rightarrow> result_list" where
  "RlClear m = (if rl_results m = [] then m else m\<lparr>rl_results := [], rl_rowsByKey := Map.empty\<rparr>)"

definition UpdateSharerName :: "qt_codec \<Rightarrow> nat \<Rightarrow> string \<Rightarrow> string \<Rightarrow> result_list \<Rightarrow> result_list" where
  "UpdateSharerName T connection sessionId displayName m =
     m\<lparr>rl_results := map (\<lambda>e.
        if re_connection e \<noteq> connection \<or> ToQString T (fr_sessionId (re_result e)) \<noteq> ToQString T sessionId \<or>
           re_sharerName e = displayName
        then e else e\<lparr>re_sharerName := displayName\<rparr>) (rl_results m)\<rparr>"

definition GetEntryForRow :: "int \<Rightarrow> result_list \<Rightarrow> ResultEntry option" where
  "GetEntryForRow row m =
     (if row < 0 \<or> row \<ge> int (length (rl_results m)) then None else Some (rl_results m ! nat row))"

subsection \<open>What a cell shows\<close>

datatype result_column = RC_NAME | RC_SIZE | RC_USER | RC_SERVER | RC_MODIFIED | RC_KIND | RC_PATH

instantiation result_column :: enum
begin

definition enum_result_column :: "result_column list" where "enum_result_column = [RC_NAME, RC_SIZE, RC_USER, RC_SERVER, RC_MODIFIED, RC_KIND, RC_PATH]"
definition enum_all_result_column :: "(result_column \<Rightarrow> bool) \<Rightarrow> bool" where "enum_all_result_column P = list_all P [RC_NAME, RC_SIZE, RC_USER, RC_SERVER, RC_MODIFIED, RC_KIND, RC_PATH]"
definition enum_ex_result_column :: "(result_column \<Rightarrow> bool) \<Rightarrow> bool" where "enum_ex_result_column P = list_ex P [RC_NAME, RC_SIZE, RC_USER, RC_SERVER, RC_MODIFIED, RC_KIND, RC_PATH]"

instance
proof
  show "UNIV = set (enum_class.enum :: result_column list)"
    unfolding enum_result_column_def using result_column.exhaust by auto
  then show "enum_class.enum_all P = Ball UNIV P" "enum_class.enum_ex P = Bex UNIV P" for P :: "result_column \<Rightarrow> bool"
    by (simp_all only: enum_all_result_column_def enum_ex_result_column_def enum_result_column_def list_all_iff list_ex_iff)
qed (simp add: enum_result_column_def)

end

datatype result_role =
    ResultDisplay | ResultSessionId | ResultFileName | ResultSort | ResultAlignment | ResultToolTip | ResultOther

definition result_text :: "muscle \<Rightarrow> (int \<Rightarrow> string option) \<Rightarrow> ResultEntry \<Rightarrow> result_column \<Rightarrow> string" where
  "result_text L strftime_at entry column =
     (let result = re_result entry
      in case column of
           RC_NAME \<Rightarrow> fr_fileName result
         | RC_SIZE \<Rightarrow> FormatByteSize L (fr_fileSize result)
         | RC_USER \<Rightarrow> if re_sharerName entry = [] then fr_sessionId result else re_sharerName entry
         | RC_SERVER \<Rightarrow> re_serverName entry
         | RC_MODIFIED \<Rightarrow> FormatTimestamp strftime_at (fr_modificationTime result)
         | RC_KIND \<Rightarrow> fr_kind result
         | RC_PATH \<Rightarrow> fr_path result)"

definition RlData ::
  "muscle \<Rightarrow> (int \<Rightarrow> string option) \<Rightarrow> nat \<Rightarrow> result_column \<Rightarrow> result_role \<Rightarrow> result_list \<Rightarrow> variant" where
  "RlData L strftime_at row column role m =
     (if row \<ge> length (rl_results m) then NoValue
      else let entry = rl_results m ! row; result = re_result entry
           in case role of
                ResultSessionId \<Rightarrow> Text (fr_sessionId result)
              | ResultFileName \<Rightarrow> Text (fr_fileName result)
              | ResultSort \<Rightarrow>
                  if column = RC_SIZE then Number (sint (fr_fileSize result))
                  else if column = RC_MODIFIED then Number (sint (fr_modificationTime result))
                  else Text (result_text L strftime_at entry column)
              | ResultAlignment \<Rightarrow> if column = RC_SIZE then AlignRightCenter else NoValue
              | ResultToolTip \<Rightarrow>
                  Text (fr_fileName result @
                    (if fr_path result \<noteq> [] then CHR 0x0A # ''In: '' @ fr_path result else []) @
                    (if fr_isFirewalled result
                     then CHR 0x0A # ''Sharer is firewalled -- they must connect back to us'' else []))
              | ResultOther \<Rightarrow> NoValue
              | ResultDisplay \<Rightarrow> Text (result_text L strftime_at entry column))"

definition result_title :: "result_column \<Rightarrow> string" where
  "result_title column =
     (case column of RC_NAME \<Rightarrow> ''File'' | RC_SIZE \<Rightarrow> ''Size'' | RC_USER \<Rightarrow> ''Shared by'' | RC_SERVER \<Rightarrow> ''Server''
      | RC_MODIFIED \<Rightarrow> ''Modified'' | RC_KIND \<Rightarrow> ''Kind'' | RC_PATH \<Rightarrow> ''Path'')"

definition RlHeaderData :: "int \<Rightarrow> orientation \<Rightarrow> result_role \<Rightarrow> variant" where
  "RlHeaderData n orient role = header_data result_title n orient (role = ResultDisplay)"

definition RlColumnCount :: "bool \<Rightarrow> nat" where
  "RlColumnCount isChild = (if isChild then 0 else column_count TYPE(result_column))"

lemma result_headers:
  "RlHeaderData n Horizontal ResultDisplay \<noteq> NoValue \<longleftrightarrow> 0 \<le> n \<and> n < int (RlColumnCount False)"
  "RlHeaderData n Horizontal ResultDisplay = RlHeaderData k Horizontal ResultDisplay \<Longrightarrow>
     RlHeaderData n Horizontal ResultDisplay \<noteq> NoValue \<Longrightarrow> n = k"
proof -
  have inj: "inj result_title" by (rule injI) (auto simp: result_title_def split: result_column.splits)
  show "RlHeaderData n Horizontal ResultDisplay = RlHeaderData k Horizontal ResultDisplay \<Longrightarrow>
     RlHeaderData n Horizontal ResultDisplay \<noteq> NoValue \<Longrightarrow> n = k"
    using header_distinct [OF inj, of n k] by (simp add: RlHeaderData_def)
qed (simp add: RlHeaderData_def RlColumnCount_def header_titles)

subsection \<open>The handlers of the window\<close>

text \<open>
  \<open>rv_namesDirty\<close> is \<open>fUserNamesDirty\<close>. A callback comes with the address of its connection and the
  text that address's connection has for the sharer at that moment; a flush reads the names
  of all users of all connections.
\<close>

record result_view =
  rv_model :: result_list
  rv_pending :: "ResultEntry list"
  rv_namesDirty :: bool

definition new_result_view :: result_view where
  "new_result_view = \<lparr> rv_model = new_result_list, rv_pending = [], rv_namesDirty = False \<rparr>"

definition on_model :: "(result_list \<Rightarrow> result_list) \<Rightarrow> result_view \<Rightarrow> result_view" where
  "on_model f v = v\<lparr>rv_model := f (rv_model v)\<rparr>"

definition WQueryResultAdded :: "nat \<Rightarrow> string \<Rightarrow> string \<Rightarrow> FileResult \<Rightarrow> result_view \<Rightarrow> result_view" where
  "WQueryResultAdded connection serverAddress displayName result v =
     v\<lparr>rv_pending := rv_pending v @ [\<lparr> re_result = result, re_connection = connection,
         re_serverName = serverAddress, re_sharerName = displayName \<rparr>]\<rparr>"

definition WQueryResultRemoved :: "qt_codec \<Rightarrow> nat \<Rightarrow> string \<Rightarrow> string \<Rightarrow> result_view \<Rightarrow> result_view" where
  "WQueryResultRemoved T connection sessionId fileName = on_model (RemoveResult T connection sessionId fileName)"

definition WQueryResultsCleared :: "qt_codec \<Rightarrow> nat \<Rightarrow> result_view \<Rightarrow> result_view" where
  "WQueryResultsCleared T connection v =
     on_model (RemoveResultsForConnection T connection)
       (v\<lparr>rv_pending := filter (\<lambda>e. re_connection e \<noteq> connection) (rv_pending v)\<rparr>)"

definition update_names :: "qt_codec \<Rightarrow> (nat \<times> (string \<times> string) list) list \<Rightarrow> result_list \<Rightarrow> result_list" where
  "update_names T names m =
     fold (\<lambda>(a, us) m. fold (\<lambda>(sid, n) m. UpdateSharerName T a sid n m) us m) names m"

definition OnFlushPendingResults ::
  "qt_codec \<Rightarrow> (nat \<times> (string \<times> string) list) list \<Rightarrow> result_view \<Rightarrow> result_view" where
  "OnFlushPendingResults T names v =
     (let v1 = (if rv_pending v \<noteq> [] then (on_model (AddResults T (rv_pending v)) v)\<lparr>rv_pending := []\<rparr> else v)
      in if rv_namesDirty v1 then (on_model (update_names T names) v1)\<lparr>rv_namesDirty := False\<rparr> else v1)"

definition user_names :: "connection_manager \<Rightarrow> (nat \<times> (string \<times> string) list) list" where
  "user_names m = map (\<lambda>(a, c). (a, map (\<lambda>(sid, u). (sid, GetDisplayName u)) (c_users c))) (cm_connections m)"

definition WUserUpdated :: "result_view \<Rightarrow> result_view" where
  "WUserUpdated v = v\<lparr>rv_namesDirty := True\<rparr>"

definition WUserLeft :: "qt_codec \<Rightarrow> nat \<Rightarrow> UserRecord \<Rightarrow> result_view \<Rightarrow> result_view" where
  "WUserLeft T connection user = on_model (RemoveResultsForSession T connection (u_sessionId user))"

definition WConnectionStateChanged :: "qt_codec \<Rightarrow> nat \<Rightarrow> ConnectionState \<Rightarrow> result_view \<Rightarrow> result_view" where
  "WConnectionStateChanged T connection st v =
     (if st = CONNECTION_DISCONNECTED then on_model (RemoveResultsForConnection T connection) v else v)"

definition WQuerySweepStateChanged ::
  "qt_codec \<Rightarrow> (nat \<times> (string \<times> string) list) list \<Rightarrow> bool \<Rightarrow> result_view \<Rightarrow> result_view" where
  "WQuerySweepStateChanged T names isSweeping v = (if isSweeping then v else OnFlushPendingResults T names v)"

end
