(* ===== verification/ResultLaws.thy ===== *)
theory ResultLaws
  imports ResultList
begin

section \<open>What the search results on screen are\<close>

text \<open>
  Which callbacks the rows on screen amount to. A row is identified by its connection, session and
  file name; its key tells them as long as the texts are well-formed UTF-8 and a session ID has no line break
  (a file name may have one).
  \<open>calm\<close> is the condition under which the rows are right, and the last two properties are what
  happens without it.
\<close>

definition result_ident :: "ResultEntry \<Rightarrow> nat \<times> string \<times> string" where
  "result_ident e = (re_connection e, fr_sessionId (re_result e), fr_fileName (re_result e))"

definition clean_result :: "string \<Rightarrow> string \<Rightarrow> bool" where
  "clean_result sessionId fileName \<longleftrightarrow> CHR 0x0A \<notin> set sessionId \<and> well_formed sessionId \<and> well_formed fileName"

definition clean_entry :: "qt_codec \<Rightarrow> ResultEntry \<Rightarrow> bool" where
  "clean_entry T e \<longleftrightarrow> codec_law T \<and> clean_result (fr_sessionId (re_result e)) (fr_fileName (re_result e))"

lemma session_key_inject:
  assumes "CHR 0x0A \<notin> set s" "CHR 0x0A \<notin> set t"
  shows "s @ CHR 0x0A # f = t @ CHR 0x0A # g \<longleftrightarrow> s = t \<and> f = g"
proof -
  have "takeWhile (\<lambda>c. c \<noteq> CHR 0x0A) (s @ CHR 0x0A # f) = s" "takeWhile (\<lambda>c. c \<noteq> CHR 0x0A) (t @ CHR 0x0A # g) = t"
    using assms by (subst takeWhile_append2; auto)+
  then show ?thesis by (metis same_append_eq list.inject)
qed

text \<open>The key of well-formed names is the conversion of the bytes it would be made of.\<close>

lemma RlMakeKey_bytes:
  assumes "codec_law T" "well_formed s" "well_formed f"
  shows "RlMakeKey T a s f = ToQString T (decimal a @ CHR 0x0A # s @ CHR 0x0A # f)"
    "well_formed (decimal a @ CHR 0x0A # s @ CHR 0x0A # f)"
proof -
  have nl: "well_formed [CHR 0x0A]" "ToQString T [CHR 0x0A] = [0x0A]"
    using ascii_units [OF assms(1), of "[CHR 0x0A]"] by (simp_all add: ascii_def char_unit_def)
  note parts = ToQString_append [OF assms(1)] ascii_units [OF assms(1) decimal_ascii]
  have split: "decimal a @ CHR 0x0A # s @ CHR 0x0A # f = decimal a @ [CHR 0x0A] @ s @ [CHR 0x0A] @ f" by simp
  show "RlMakeKey T a s f = ToQString T (decimal a @ CHR 0x0A # s @ CHR 0x0A # f)"
    unfolding split by (simp only: RlMakeKey_def parts nl assms(2,3) well_formed_append ascii_well_formed decimal_ascii)
  show "well_formed (decimal a @ CHR 0x0A # s @ CHR 0x0A # f)"
    unfolding split by (simp only: nl assms(2,3) well_formed_append ascii_well_formed decimal_ascii)
qed

lemma RlMakeKey_inject:
  assumes "codec_law T" "clean_result s f" "clean_result t g"
  shows "RlMakeKey T a s f = RlMakeKey T b t g \<longleftrightarrow> a = b \<and> s = t \<and> f = g"
proof -
  have c: "CHR 0x0A \<notin> set s" "well_formed s" "well_formed f" "CHR 0x0A \<notin> set t" "well_formed t" "well_formed g"
    using assms(2,3) by (simp_all add: clean_result_def)
  have "RlMakeKey T a s f = RlMakeKey T b t g \<longleftrightarrow>
      decimal a @ CHR 0x0A # s @ CHR 0x0A # f = decimal b @ CHR 0x0A # t @ CHR 0x0A # g"
    using RlMakeKey_bytes [OF assms(1) c(2,3)] RlMakeKey_bytes [OF assms(1) c(5,6)]
    by (simp only: ToQString_inject [OF assms(1)])
  then show ?thesis
    using decimal_key_inject [of a "s @ CHR 0x0A # f" b "t @ CHR 0x0A # g"] session_key_inject [OF c(1,4)] by simp
qed

text \<open>
  Names that Qt cannot tell apart, such as two Latin-1 ones whose letters it replaces by one and the same character,
  share a key: the second result takes the row of the first.
\<close>

lemma names_share_key:
  "from_utf8 T f = from_utf8 T g \<Longrightarrow> RlMakeKey T a s f = RlMakeKey T a s g"
  "from_utf8 ref_codec [CHR 0xE9] = from_utf8 ref_codec [CHR 0xE8]"
  by (simp_all add: RlMakeKey_def ToQString_def ref_codec_def ref_units_def read_all_def first_char_def)

interpretation result_rows: keyed_rows "entry_key T" result_ident "clean_entry T" for T
  by unfold_locales (auto simp: entry_key_def result_ident_def clean_entry_def RlMakeKey_inject)

abbreviation rows_ok :: "qt_codec \<Rightarrow> result_list \<Rightarrow> bool" where
  "rows_ok T m \<equiv> result_rows.index_ok T (rl_results m) (rl_rowsByKey m) \<and> list_all (clean_entry T) (rl_results m)"

abbreviation row_shown :: "result_list \<Rightarrow> nat \<times> string \<times> string \<Rightarrow> ResultEntry option" where
  "row_shown m \<equiv> result_rows.shown (rl_results m)"

text \<open>A batch as a table: the last entry with an identity counts.\<close>

definition latest :: "ResultEntry list \<Rightarrow> nat \<times> string \<times> string \<Rightarrow> ResultEntry option" where
  "latest es i = List.find (\<lambda>e. result_ident e = i) (rev es)"

definition over :: "('k \<Rightarrow> 'v option) \<Rightarrow> ('k \<Rightarrow> 'v option) \<Rightarrow> 'k \<Rightarrow> 'v option" where
  "over f g i = (case f i of Some e \<Rightarrow> Some e | None \<Rightarrow> g i)"

lemma latest_simps [simp]:
  "latest [] i = None" "latest (es @ [e]) i = (if result_ident e = i then Some e else latest es i)"
  by (simp_all add: latest_def)

lemma latest_None: "latest es i = None \<longleftrightarrow> i \<notin> result_ident ` set es"
  by (auto simp: latest_def find_None_iff)

lemma latest_Cons: "latest (e # es) i = (case latest es i of Some x \<Rightarrow> Some x | None \<Rightarrow> if result_ident e = i then Some e else None)"
  by (induction es rule: rev_induct) (auto simp: latest_def)

lemma over_Cons: "over (latest es) (f(result_ident e \<mapsto> e)) = over (latest (e # es)) f"
  by (rule ext) (simp add: over_def latest_Cons split: option.split)

lemma over_parts:
  assumes "distinct (map result_ident es)"
  shows "over (latest (filter (\<lambda>e. \<not> P e) es)) (over (latest (filter P es)) f) = over (latest es) f"
proof
  fix i
  have "over (latest (filter (\<lambda>e. \<not> P e) es)) (latest (filter P es)) i = latest es i"
    using assms
  proof (induction es rule: rev_induct)
    case (snoc e es)
    have "latest (filter P es) i = None" "latest (filter (\<lambda>e. \<not> P e) es) i = None" if "result_ident e = i"
      using snoc.prems that by (auto simp: latest_None)
    with snoc show ?case by (cases "result_ident e = i") (auto simp: over_def split: option.split)
  qed (simp add: over_def)
  then show "over (latest (filter (\<lambda>e. \<not> P e) es)) (over (latest (filter P es)) f) i = over (latest es) f i"
    by (auto simp: over_def split: option.splits)
qed

lemma set_update_clean: "list_all P rows \<Longrightarrow> P e \<Longrightarrow> list_all P (rows[r := e])"
  by (auto simp: list_all_iff dest: set_update_subset_insert [THEN subsetD])

lemma refresh_rows_law:
  assumes "refresh_rows T es m adds = (adds', m')" "rows_ok T m" "list_all (clean_entry T) es"
  shows "rows_ok T m' \<and> rl_rowsByKey m' = rl_rowsByKey m \<and>
    adds' = adds @ filter (\<lambda>e. rl_rowsByKey m (entry_key T e) = None) es \<and>
    row_shown m' = over (latest (filter (\<lambda>e. rl_rowsByKey m (entry_key T e) \<noteq> None) es)) (row_shown m)"
  using assms
proof (induction T es m adds rule: refresh_rows.induct)
  case (1 T m adds)
  then show ?case by (auto simp: over_def)
next
  case (2 T e es m adds)
  show ?case
  proof (cases "rl_rowsByKey m (entry_key T e)")
    case None
    with 2 show ?thesis by auto
  next
    case (Some r)
    let ?m = "m\<lparr>rl_results := (rl_results m)[r := e]\<rparr>"
    have e: "clean_entry T e" "list_all (clean_entry T) es" using "2.prems"(3) by auto
    have ok: "rows_ok T ?m"
      using result_rows.index_update [of T "rl_results m" "rl_rowsByKey m" e r] "2.prems"(2) Some e(1)
      by (simp add: set_update_clean)
    have "row_shown ?m = (row_shown m)(result_ident e \<mapsto> e)"
      using result_rows.shown_update [of T "rl_results m" "rl_rowsByKey m" e r] "2.prems"(2) Some e(1) by simp
    with "2.IH"(2) [OF Some _ ok e(2)] "2.prems"(1) Some show ?thesis
      by (simp add: over_Cons) metis
  qed
qed

lemma append_rows_law:
  assumes "rows_ok T m" "list_all (clean_entry T) es" "distinct (map result_ident es)"
    and "\<And>e. e \<in> set es \<Longrightarrow> rl_rowsByKey m (entry_key T e) = None"
  shows "rows_ok T (fold (append_row T) es m) \<and> row_shown (fold (append_row T) es m) = over (latest es) (row_shown m)"
  using assms
proof (induction es arbitrary: m)
  case Nil
  then show ?case by (auto simp: over_def)
next
  case (Cons e es)
  let ?m = "append_row T e m"
  have e: "clean_entry T e" "list_all (clean_entry T) es" using Cons.prems(2) by auto
  have absent: "rl_rowsByKey m (entry_key T e) = None" using Cons.prems(4) by simp
  have ok: "rows_ok T ?m"
    using result_rows.index_append [of T "rl_results m" "rl_rowsByKey m" e] Cons.prems(1) absent e(1)
    by (simp add: append_row_def del: fun_upd_apply)
  have sh: "row_shown ?m = (row_shown m)(result_ident e \<mapsto> e)"
    using result_rows.shown_append [of T "rl_results m" "rl_rowsByKey m" e] Cons.prems(1) absent e(1)
    by (simp add: append_row_def del: result_rows.shown_simps)
  have "rl_rowsByKey ?m (entry_key T x) = None" if "x \<in> set es" for x
  proof -
    have "result_ident x \<noteq> result_ident e" using Cons.prems(3) that by (metis distinct.simps(2) imageI list.set_map list.simps(9))
    then have "entry_key T x \<noteq> entry_key T e"
      using result_rows.key_ident e that by (metis list_all_iff)
    then show ?thesis using Cons.prems(4) [of x] that by (simp add: append_row_def)
  qed
  with Cons.IH [OF ok e(2)] Cons.prems(3) sh show ?case
    by (simp add: over_Cons del: fun_upd_apply)
qed

lemma AddResults_law:
  assumes "rows_ok T m" "list_all (clean_entry T) es" "distinct (map result_ident es)"
  shows "rows_ok T (AddResults T es m) \<and> row_shown (AddResults T es m) = over (latest es) (row_shown m)"
proof (cases "es = []")
  case True
  with assms show ?thesis by (auto simp: AddResults_def over_def)
next
  case False
  let ?old = "\<lambda>e. rl_rowsByKey m (entry_key T e) \<noteq> None"
  obtain adds m1 where s: "refresh_rows T es m [] = (adds, m1)" by fastforce
  from refresh_rows_law [OF s assms(1,2)]
  have m1: "rows_ok T m1" "rl_rowsByKey m1 = rl_rowsByKey m" "adds = filter (\<lambda>e. \<not> ?old e) es"
    "row_shown m1 = over (latest (filter ?old es)) (row_shown m)" by auto
  have a: "list_all (clean_entry T) adds" "distinct (map result_ident adds)"
    using assms(2,3) by (auto simp: m1(3) list_all_iff distinct_map_filter)
  have "rows_ok T (fold (append_row T) adds m1) \<and>
      row_shown (fold (append_row T) adds m1) = over (latest adds) (row_shown m1)"
    by (rule append_rows_law [OF m1(1) a]) (auto simp: m1(2,3))
  moreover have "over (latest adds) (over (latest (filter ?old es)) f) = over (latest es) f" for f
    unfolding m1(3) by (rule over_parts [OF assms(3)])
  ultimately show ?thesis using False s by (simp add: AddResults_def m1(4))
qed

subsection \<open>The other operations of the model\<close>

lemma keep_results_law:
  assumes "rows_ok T m"
  shows "rows_ok T (keep_results T P m)"
    "row_shown (keep_results T P m) i = (case row_shown m i of None \<Rightarrow> None | Some e \<Rightarrow> if P e then Some e else None)"
proof -
  have ok: "result_rows.index_ok T (rl_results m) (rl_rowsByKey m)" "list_all (clean_entry T) (rl_results m)"
    using assms by auto
  let ?kept = "filter P (rl_results m)"
  have same: "length ?kept = length (rl_results m) \<Longrightarrow> ?kept = rl_results m"
    by (metis length_filter_less filter_True less_irrefl)
  have k: "rows_ok T (keep_results T P m) \<and> rl_results (keep_results T P m) = ?kept"
    using assms same result_rows.index_filter [OF ok(1)]
    by (auto simp: keep_results_def RlRebuildIndex_def Let_def list_all_iff)
  then show "rows_ok T (keep_results T P m)" by blast
  show "row_shown (keep_results T P m) i = (case row_shown m i of None \<Rightarrow> None | Some e \<Rightarrow> if P e then Some e else None)"
    using k by (simp only: result_rows.shown_filter [OF ok])
qed

lemma keep_results_cong:
  "(\<And>e. e \<in> set (rl_results m) \<Longrightarrow> P e = Q e) \<Longrightarrow> keep_results T P m = keep_results T Q m"
  by (simp add: keep_results_def cong: filter_cong)

lemma RemoveResult_law:
  assumes "rows_ok T m" "codec_law T" "clean_result s f"
  shows "rows_ok T (RemoveResult T a s f m)" "row_shown (RemoveResult T a s f m) = (row_shown m)((a, s, f) := None)"
proof -
  have ok: "result_rows.index_ok T (rl_results m) (rl_rowsByKey m)" "list_all (clean_entry T) (rl_results m)"
    using assms by auto
  have id: "result_ident e = (a, s, f)" if "clean_entry T e" "entry_key T e = RlMakeKey T a s f" for e
    using that assms(2,3) by (auto simp: entry_key_def RlMakeKey_inject result_ident_def clean_entry_def)
  have "rows_ok T (RemoveResult T a s f m) \<and> row_shown (RemoveResult T a s f m) = (row_shown m)((a, s, f) := None)"
  proof (cases "rl_rowsByKey m (RlMakeKey T a s f)")
    case None
    have "entry_key T e = RlMakeKey T a s f" if "result_ident e = (a, s, f)" for e
      using that by (auto simp: entry_key_def result_ident_def)
    then have "(a, s, f) \<notin> result_ident ` set (rl_results m)"
      using None result_rows.index_None [OF ok(1), of "RlMakeKey T a s f"] by (metis (no_types, lifting) imageE imageI)
    with None assms show ?thesis by (auto simp: RemoveResult_def fun_eq_iff)
  next
    case (Some r)
    then have r: "r < length (rl_results m)" "entry_key T (rl_results m ! r) = RlMakeKey T a s f"
      using result_rows.index_found [OF ok(1)] by auto
    moreover from r(1) ok(2) have "clean_entry T (rl_results m ! r)" by (simp add: list_all_length)
    ultimately have i: "result_ident (rl_results m ! r) = (a, s, f)" using id by blast
    have "list_all (clean_entry T) (remove_row r (rl_results m))"
      using ok(2) by (auto simp: remove_row_def list_all_iff dest: in_set_takeD in_set_dropD)
    with Some r(1) i show ?thesis
      using result_rows.index_remove [OF ok(1)] result_rows.shown_remove_row [OF ok r(1)]
      by (simp add: RemoveResult_def RlRebuildIndex_def)
  qed
  then show "rows_ok T (RemoveResult T a s f m)" "row_shown (RemoveResult T a s f m) = (row_shown m)((a, s, f) := None)"
    by auto
qed

lemma UpdateSharerName_law:
  assumes "rows_ok T m"
  shows "rows_ok T (UpdateSharerName T a s n m) \<and>
    map_option re_result (row_shown (UpdateSharerName T a s n m) i) = map_option re_result (row_shown m i)"
proof -
  let ?f = "\<lambda>e. if re_connection e \<noteq> a \<or> ToQString T (fr_sessionId (re_result e)) \<noteq> ToQString T s \<or>
      re_sharerName e = n
    then e else e\<lparr>re_sharerName := n\<rparr>"
  have f: "entry_key T (?f e) = entry_key T e" "result_ident (?f e) = result_ident e" "re_result (?f e) = re_result e"
    "clean_entry T (?f e) = clean_entry T e" for e
    by (simp_all add: entry_key_def result_ident_def clean_entry_def)
  have "row_shown (UpdateSharerName T a s n m) i = map_option ?f (row_shown m i)"
    using result_rows.shown_map [of ?f, OF f(2)] by (simp add: UpdateSharerName_def)
  moreover have "list_all (clean_entry T) (map ?f (rl_results m))"
    using assms by (simp only: list.pred_map comp_def f(4))
  then have "rows_ok T (UpdateSharerName T a s n m)"
    using assms result_rows.index_map [of T "rl_results m" "rl_rowsByKey m" ?f, OF _ f(1)]
    by (simp add: UpdateSharerName_def)
  moreover have "map_option re_result (map_option ?f x) = map_option re_result x" for x
    using f(3) by (cases x) simp_all
  ultimately show ?thesis by simp
qed

lemma update_names_law:
  assumes "rows_ok T m"
  shows "rows_ok T (update_names T names m) \<and>
    map_option re_result (row_shown (update_names T names m) i) = map_option re_result (row_shown m i)"
proof -
  have inner: "rows_ok T (fold (\<lambda>(sid, n). UpdateSharerName T a sid n) us m) \<and>
      map_option re_result (row_shown (fold (\<lambda>(sid, n). UpdateSharerName T a sid n) us m) i) =
      map_option re_result (row_shown m i)" if "rows_ok T m" for a us m
    using that
  proof (induction us arbitrary: m)
    case (Cons u us)
    obtain sid n where u: "u = (sid, n)" by fastforce
    from Cons.IH [of "UpdateSharerName T a sid n m"] UpdateSharerName_law [OF Cons.prems, of a sid n i] show ?case
      by (simp add: u)
  qed simp
  show ?thesis using assms
  proof (induction names arbitrary: m)
    case Nil
    then show ?case by (simp add: update_names_def)
  next
    case (Cons x names)
    obtain a us where x: "x = (a, us)" by fastforce
    from Cons.IH [of "fold (\<lambda>(sid, n). UpdateSharerName T a sid n) us m"] inner [OF Cons.prems, of a us] show ?case
      by (simp add: x update_names_def)
  qed
qed

subsection \<open>What the callbacks amount to\<close>

text \<open>
  What happens to the window: a callback, with the address of its connection, the texts the window reads
  from that connection and the names a flush would use, or the timer.
\<close>

type_synonym names = "(nat \<times> (string \<times> string) list) list"

datatype window_event =
    WinCallback nat string string names conn_event
  | WinTimer names

fun win_step :: "qt_codec \<Rightarrow> window_event \<Rightarrow> result_view \<Rightarrow> result_view" where
  "win_step T (WinTimer ns) v = OnFlushPendingResults T ns v"
| "win_step T (WinCallback a addr n ns ev) v =
     (case ev of
        QueryResultAdded r \<Rightarrow> WQueryResultAdded a addr n r v
      | QueryResultRemoved sid f \<Rightarrow> WQueryResultRemoved T a sid f v
      | QueryResultsCleared \<Rightarrow> WQueryResultsCleared T a v
      | QuerySweepStateChanged b \<Rightarrow> WQuerySweepStateChanged T ns b v
      | UserUpdated u isNew \<Rightarrow> WUserUpdated v
      | UserLeft u \<Rightarrow> WUserLeft T a u v
      | ConnectionStateChanged st \<Rightarrow> WConnectionStateChanged T a st v
      | _ \<Rightarrow> v)"

text \<open>The abstract view of one connection's results.\<close>

fun result_step :: "conn_event \<Rightarrow> (string \<times> string \<rightharpoonup> FileResult) \<Rightarrow> (string \<times> string \<rightharpoonup> FileResult)" where
  "result_step (QueryResultAdded r) t = t((fr_sessionId r, fr_fileName r) \<mapsto> r)"
| "result_step (QueryResultRemoved sid f) t = t((sid, f) := None)"
| "result_step QueryResultsCleared t = Map.empty"
| "result_step (UserLeft u) t = (\<lambda>(sid, f). if sid = u_sessionId u then None else t (sid, f))"
| "result_step (ConnectionStateChanged st) t = (if st = CONNECTION_DISCONNECTED then Map.empty else t)"
| "result_step _ t = t"

fun results_of :: "nat \<Rightarrow> window_event list \<Rightarrow> conn_event list" where
  "results_of a [] = []"
| "results_of a (WinTimer ns # es) = results_of a es"
| "results_of a (WinCallback b addr n ns ev # es) = (if b = a then ev # results_of a es else results_of a es)"

text \<open>
  Nothing is taken away that still waits to be shown, and no batch has the same result twice; the names are
  well-formed UTF-8 and session IDs have no line breaks.
\<close>

fun calm :: "window_event \<Rightarrow> result_view \<Rightarrow> bool" where
  "calm (WinTimer ns) v \<longleftrightarrow> distinct (map result_ident (rv_pending v))"
| "calm (WinCallback a addr n ns ev) v \<longleftrightarrow>
     (case ev of
        QueryResultAdded r \<Rightarrow> clean_result (fr_sessionId r) (fr_fileName r)
      | QueryResultRemoved sid f \<Rightarrow>
          clean_result sid f \<and> list_all (\<lambda>e. result_ident e \<noteq> (a, sid, f)) (rv_pending v)
      | QuerySweepStateChanged b \<Rightarrow> b \<or> distinct (map result_ident (rv_pending v))
      | UserLeft u \<Rightarrow> well_formed (u_sessionId u) \<and>
          list_all (\<lambda>e. re_connection e \<noteq> a \<or> fr_sessionId (re_result e) \<noteq> u_sessionId u) (rv_pending v)
      | ConnectionStateChanged st \<Rightarrow>
          st = CONNECTION_DISCONNECTED \<longrightarrow> list_all (\<lambda>e. re_connection e \<noteq> a) (rv_pending v)
      | _ \<Rightarrow> True)"

fun calm_run :: "qt_codec \<Rightarrow> window_event list \<Rightarrow> result_view \<Rightarrow> bool" where
  "calm_run T [] v = True"
| "calm_run T (e # es) v \<longleftrightarrow> calm e v \<and> calm_run T es (win_step T e v)"

definition view_ok :: "qt_codec \<Rightarrow> result_view \<Rightarrow> bool" where
  "view_ok T v \<longleftrightarrow> rows_ok T (rv_model v) \<and> list_all (clean_entry T) (rv_pending v)"

text \<open>What is shown or waits to be shown.\<close>

definition coming :: "result_view \<Rightarrow> nat \<Rightarrow> string \<times> string \<Rightarrow> FileResult option" where
  "coming v a = (\<lambda>(sid, f). map_option re_result (over (latest (rv_pending v)) (row_shown (rv_model v)) (a, sid, f)))"

lemma flush_law:
  assumes "view_ok T v" "distinct (map result_ident (rv_pending v))"
  shows "view_ok T (OnFlushPendingResults T ns v) \<and> coming (OnFlushPendingResults T ns v) a = coming v a"
proof -
  have v: "rows_ok T (rv_model v)" "list_all (clean_entry T) (rv_pending v)" using assms(1) by (auto simp: view_ok_def)
  let ?m = "AddResults T (rv_pending v) (rv_model v)"
  have m: "rows_ok T ?m" "row_shown ?m = over (latest (rv_pending v)) (row_shown (rv_model v))"
    using AddResults_law [OF v assms(2)] by auto
  have n: "rows_ok T (update_names T ns x)"
    "map_option re_result (row_shown (update_names T ns x) i) = map_option re_result (row_shown x i)"
    if "rows_ok T x" for x i
    using update_names_law [OF that] by auto
  have e: "over (latest []) f = f" for f by (simp add: over_def fun_eq_iff)
  show ?thesis
  proof (cases "rv_pending v = []")
    case True
    then show ?thesis using v n [OF v(1)]
      by (auto simp: OnFlushPendingResults_def view_ok_def coming_def on_model_def e Let_def)
  next
    case False
    then show ?thesis using m n [OF m(1)]
      by (auto simp: OnFlushPendingResults_def view_ok_def coming_def on_model_def e Let_def)
  qed
qed

lemma coming_keep:
  assumes "view_ok T v" "list_all (\<lambda>e. Q (result_ident e)) (rv_pending v)"
  shows "view_ok T (on_model (keep_results T (\<lambda>e. Q (result_ident e))) v)"
    "coming (on_model (keep_results T (\<lambda>e. Q (result_ident e))) v) b (sid, f) =
       (if Q (b, sid, f) then coming v b (sid, f) else None)"
proof -
  have ok: "rows_ok T (rv_model v)" using assms(1) by (simp add: view_ok_def)
  let ?i = "(b, sid, f)" and ?m = "keep_results T (\<lambda>e. Q (result_ident e)) (rv_model v)"
  show "view_ok T (on_model (keep_results T (\<lambda>e. Q (result_ident e))) v)"
    using assms(1) keep_results_law(1) [OF ok] by (simp add: view_ok_def on_model_def)
  have "row_shown ?m ?i = (if Q ?i then row_shown (rv_model v) ?i else None)"
    using keep_results_law(2) [OF ok, of "\<lambda>e. Q (result_ident e)" ?i]
      result_rows.shown_Some_ident [of "rl_results (rv_model v)" ?i]
    by (cases "row_shown (rv_model v) ?i") auto
  moreover have "\<not> Q ?i \<Longrightarrow> latest (rv_pending v) ?i = None"
    using assms(2) by (auto simp: latest_None list_all_iff)
  ultimately show "coming (on_model (keep_results T (\<lambda>e. Q (result_ident e))) v) b (sid, f) =
       (if Q ?i then coming v b (sid, f) else None)"
    by (auto simp: coming_def on_model_def over_def split: option.split)
qed

definition other_session :: "nat \<Rightarrow> string \<Rightarrow> nat \<times> string \<times> string \<Rightarrow> bool" where
  "other_session a s i \<longleftrightarrow> fst i \<noteq> a \<or> fst (snd i) \<noteq> s"

definition other_connection :: "nat \<Rightarrow> nat \<times> string \<times> string \<Rightarrow> bool" where
  "other_connection a i \<longleftrightarrow> fst i \<noteq> a"

lemma idents:
  "(\<lambda>e. re_connection e \<noteq> a \<or> fr_sessionId (re_result e) \<noteq> s) = (\<lambda>e. other_session a s (result_ident e))"
  "(\<lambda>e. re_connection e \<noteq> a) = (\<lambda>e. other_connection a (result_ident e))"
  "other_session a s (b, t, g) \<longleftrightarrow> b \<noteq> a \<or> t \<noteq> s" "other_connection a (b, t, g) \<longleftrightarrow> b \<noteq> a"
  by (simp_all add: result_ident_def other_session_def other_connection_def)

lemma added_law:
  assumes "view_ok T v" "codec_law T" "clean_result (fr_sessionId r) (fr_fileName r)"
  shows "view_ok T (WQueryResultAdded a addr n r v)"
    "coming (WQueryResultAdded a addr n r v) b = (if b = a then result_step (QueryResultAdded r) (coming v a) else coming v b)"
  using assms
  by (auto simp: view_ok_def WQueryResultAdded_def coming_def over_def clean_entry_def result_ident_def fun_eq_iff)

lemma removed_law:
  assumes "view_ok T v" "codec_law T" "clean_result sid f" "list_all (\<lambda>e. result_ident e \<noteq> (a, sid, f)) (rv_pending v)"
  shows "view_ok T (WQueryResultRemoved T a sid f v)"
    "coming (WQueryResultRemoved T a sid f v) b = (if b = a then (coming v a)((sid, f) := None) else coming v b)"
proof -
  have ok: "rows_ok T (rv_model v)" using assms(1) by (simp add: view_ok_def)
  have "latest (rv_pending v) (a, sid, f) = None"
    using assms(4) by (auto simp: latest_None list_all_iff)
  then show "view_ok T (WQueryResultRemoved T a sid f v)"
    "coming (WQueryResultRemoved T a sid f v) b = (if b = a then (coming v a)((sid, f) := None) else coming v b)"
    using RemoveResult_law [OF ok assms(2,3), of a] assms(1)
    by (auto simp: view_ok_def coming_def WQueryResultRemoved_def on_model_def over_def fun_eq_iff split: option.split)
qed

text \<open>Well-formed session IDs are told apart as they come.\<close>

lemma RemoveResultsForSession_bytes:
  assumes "codec_law T" "rows_ok T m" "well_formed s"
  shows "RemoveResultsForSession T a s m =
    keep_results T (\<lambda>e. re_connection e \<noteq> a \<or> fr_sessionId (re_result e) \<noteq> s) m"
  unfolding RemoveResultsForSession_def
proof (rule keep_results_cong)
  fix e assume "e \<in> set (rl_results m)"
  then have "well_formed (fr_sessionId (re_result e))" using assms(2) by (auto simp: list_all_iff clean_entry_def clean_result_def)
  then show "(re_connection e \<noteq> a \<or> ToQString T (fr_sessionId (re_result e)) \<noteq> ToQString T s) =
      (re_connection e \<noteq> a \<or> fr_sessionId (re_result e) \<noteq> s)"
    using ToQString_inject [OF assms(1) _ assms(3)] by simp
qed

lemma cleared_law:
  assumes "view_ok T v"
  shows "view_ok T (WQueryResultsCleared T a v)"
    "coming (WQueryResultsCleared T a v) b = (if b = a then Map.empty else coming v b)"
proof -
  let ?v = "v\<lparr>rv_pending := filter (\<lambda>e. re_connection e \<noteq> a) (rv_pending v)\<rparr>"
  let ?Q = "other_connection a"
  have v: "view_ok T ?v" "list_all (\<lambda>e. ?Q (result_ident e)) (rv_pending ?v)"
    using assms by (auto simp: view_ok_def list_all_iff result_ident_def other_connection_def)
  have w: "WQueryResultsCleared T a v = on_model (keep_results T (\<lambda>e. ?Q (result_ident e))) ?v"
    by (simp add: WQueryResultsCleared_def RemoveResultsForConnection_def idents(2))
  have "latest (filter (\<lambda>e. re_connection e \<noteq> a) es) (b, t, g) = latest es (b, t, g)" if "b \<noteq> a" for es t g
    using that by (induction es rule: rev_induct) (auto simp: result_ident_def)
  then have "coming ?v b = coming v b" if "b \<noteq> a"
    using that by (auto simp: coming_def over_def fun_eq_iff)
  then show "view_ok T (WQueryResultsCleared T a v)"
    "coming (WQueryResultsCleared T a v) b = (if b = a then Map.empty else coming v b)"
    using coming_keep [OF v] unfolding w by (auto simp: fun_eq_iff idents(4))
qed

lemma win_step_law:
  assumes "view_ok T v" "calm e v" "codec_law T"
  shows "view_ok T (win_step T e v) \<and> coming (win_step T e v) b = fold result_step (results_of b [e]) (coming v b)"
proof (cases e)
  case (WinTimer ns)
  with assms flush_law [OF assms(1), of ns b] show ?thesis by simp
next
  case (WinCallback a addr n ns ev)
  have left: ?thesis if ev: "ev = UserLeft u" for u
  proof -
    have p: "list_all (\<lambda>e. other_session a (u_sessionId u) (result_ident e)) (rv_pending v)"
      using assms(2) by (simp only: WinCallback ev calm.simps conn_event.case idents)
    have u: "well_formed (u_sessionId u)" using assms(2) by (simp only: WinCallback ev calm.simps conn_event.case)
    have r: "RemoveResultsForSession T a (u_sessionId u) (rv_model v) =
        keep_results T (\<lambda>e. other_session a (u_sessionId u) (result_ident e)) (rv_model v)"
      using RemoveResultsForSession_bytes [OF assms(3) _ u, of "rv_model v" a] assms(1) unfolding view_ok_def idents by blast
    have w: "win_step T e v = on_model (keep_results T (\<lambda>e. other_session a (u_sessionId u) (result_ident e))) v"
      using r
      by (simp only: WinCallback ev win_step.simps conn_event.case WUserLeft_def on_model_def view_ok_def idents)
    show ?thesis using coming_keep [OF assms(1) p] unfolding w
      by (auto simp: WinCallback ev fun_eq_iff idents(3))
  qed
  have lost: ?thesis if ev: "ev = ConnectionStateChanged st" for st
  proof (cases "st = CONNECTION_DISCONNECTED")
    case True
    have p: "list_all (\<lambda>e. other_connection a (result_ident e)) (rv_pending v)"
      using assms(2) True by (simp only: WinCallback ev calm.simps conn_event.case idents simp_thms)
    have w: "win_step T e v = on_model (keep_results T (\<lambda>e. other_connection a (result_ident e))) v"
      by (simp only: WinCallback ev win_step.simps conn_event.case WConnectionStateChanged_def True
          RemoveResultsForConnection_def idents if_True simp_thms)
    show ?thesis using coming_keep [OF assms(1) p] True unfolding w
      by (auto simp: WinCallback ev fun_eq_iff idents(4))
  qed (use assms(1) in \<open>auto simp: WinCallback ev WConnectionStateChanged_def\<close>)
  have sweep: ?thesis if "ev = QuerySweepStateChanged s" for s
    using assms that WinCallback flush_law [OF assms(1), of ns b]
    by (auto simp: WQuerySweepStateChanged_def)
  show ?thesis
    using assms WinCallback left lost sweep added_law [OF assms(1,3)]
      removed_law [OF assms(1,3)] cleared_law [OF assms(1)]
    by (cases ev) (auto simp: WUserUpdated_def view_ok_def coming_def)
qed

lemma runs_calm:
  "codec_law T \<Longrightarrow> view_ok T v \<Longrightarrow> calm_run T es v \<Longrightarrow>
   view_ok T (fold (win_step T) es v) \<and> coming (fold (win_step T) es v) a = fold result_step (results_of a es) (coming v a)"
proof (induction es arbitrary: v)
  case (Cons e es)
  then have "view_ok T (win_step T e v)" "coming (win_step T e v) a = fold result_step (results_of a [e]) (coming v a)"
    "calm_run T es (win_step T e v)"
    using win_step_law [of T v e a] by auto
  moreover have "results_of a (e # es) = results_of a [e] @ results_of a es" by (cases e) auto
  ultimately show ?case using Cons.IH Cons.prems(1) by simp
qed simp

subsection \<open>Correctness\<close>

text \<open>
  What the result list shows is what the servers reported: in every history in which nothing is taken
  away while it still waits to be shown and no batch has one result twice, once the waiting results
  have been handed over the rows of a connection are exactly the results its callbacks amount to,
  each once, however callbacks of different servers and the timer interleave.
\<close>

theorem results_on_screen:
  assumes "codec_law T" "calm_run T es new_result_view" "rv_pending (fold (win_step T) es new_result_view) = []"
  shows "let m = rv_model (fold (win_step T) es new_result_view) in
    (\<forall>a sid f. map_option re_result (List.find (\<lambda>e. result_ident e = (a, sid, f)) (rl_results m)) =
       fold result_step (results_of a es) Map.empty (sid, f)) \<and>
    distinct (map result_ident (rl_results m))"
proof -
  let ?v = "fold (win_step T) es new_result_view"
  have new: "view_ok T new_result_view" "coming new_result_view a = Map.empty" for a
    by (auto simp: view_ok_def coming_def new_result_view_def new_result_list_def over_def result_rows.index_Nil fun_eq_iff)
  from runs_calm [OF assms(1) new(1) assms(2)] new(2)
  have v: "view_ok T ?v" "\<And>a. coming ?v a = fold result_step (results_of a es) Map.empty" by auto
  have "coming ?v a (sid, f) = map_option re_result (row_shown (rv_model ?v) (a, sid, f))" for a sid f
    using assms(3) by (simp add: coming_def over_def)
  then show ?thesis
    using v result_rows.ident_distinct [of T "rl_results (rv_model ?v)" "rl_rowsByKey (rv_model ?v)"]
    by (simp add: view_ok_def result_rows.shown_def)
qed

theorem results_on_screen_witness:
  "let r = \<lparr> fr_sessionId = ''7'', fr_fileName = ''a.txt'', fr_path = [], fr_kind = [], fr_fileSize = 3,
               fr_modificationTime = 0, fr_isFirewalled = False, fr_attributes = new_message 0 \<rparr>;
       es = [WinCallback 1 ''s'' ''ann'' [] (QueryResultAdded r), WinTimer [],
             WinCallback 1 ''s'' ''ann'' [] (QueryResultAdded (r\<lparr>fr_fileSize := 4\<rparr>)),
             WinCallback 2 ''t'' ''bob'' [] (QueryResultAdded r), WinTimer []]
   in map_option (fr_fileSize \<circ> re_result) (List.find (\<lambda>e. result_ident e = (1, ''7'', ''a.txt''))
        (rl_results (rv_model (fold (win_step ref_codec) es new_result_view)))) = Some 4"
proof -
  let ?r = "\<lparr> fr_sessionId = ''7'', fr_fileName = ''a.txt'', fr_path = [], fr_kind = [], fr_fileSize = 3,
               fr_modificationTime = 0, fr_isFirewalled = False, fr_attributes = new_message 0 \<rparr>"
  let ?es = "[WinCallback 1 ''s'' ''ann'' [] (QueryResultAdded ?r), WinTimer [],
             WinCallback 1 ''s'' ''ann'' [] (QueryResultAdded (?r\<lparr>fr_fileSize := 4\<rparr>)),
             WinCallback 2 ''t'' ''bob'' [] (QueryResultAdded ?r), WinTimer []]"
  have "calm_run ref_codec ?es new_result_view" "rv_pending (fold (win_step ref_codec) ?es new_result_view) = []"
    by (simp_all add: WQueryResultAdded_def new_result_view_def OnFlushPendingResults_def on_model_def result_ident_def clean_result_def ascii_def)
  from results_on_screen [OF ref_codec_law this]
  have "map_option re_result (List.find (\<lambda>e. result_ident e = (1, ''7'', ''a.txt''))
      (rl_results (rv_model (fold (win_step ref_codec) ?es new_result_view)))) = Some (?r\<lparr>fr_fileSize := 4\<rparr>)"
    unfolding Let_def by simp
  then show ?thesis by (simp only: Let_def option.map_comp [symmetric]) simp
qed

text \<open>
  A result that is reported twice before the timer fires gets two rows: the batch looks up each entry
  in the hash as it was before the batch, so both are appended. When the file goes away one row goes,
  and the other stays in the list.
\<close>

theorem duplicate_result_rows:
  "let e = \<lparr> re_result = r, re_connection = a, re_serverName = s, re_sharerName = n \<rparr>;
       m = AddResults T [e, e] new_result_list
   in rl_results m = [e, e] \<and> rl_results (RemoveResult T a (fr_sessionId r) (fr_fileName r) m) = [e]"
  by (simp add: Let_def AddResults_def new_result_list_def append_row_def RemoveResult_def entry_key_def
      RlRebuildIndex_def remove_row_def)

text \<open>
  A result that is taken away while it waits to be shown appears all the same: the removal only looks
  at the rows, so the next flush brings a file onto the screen that nobody offers any more.
\<close>

theorem removed_result_appears:
  "let es = [WinCallback a s n [] (QueryResultAdded r),
             WinCallback a s n [] (QueryResultRemoved (fr_sessionId r) (fr_fileName r)), WinTimer []]
   in map re_result (rl_results (rv_model (fold (win_step T) es new_result_view))) = [r] \<and>
      fold result_step (results_of a es) Map.empty (fr_sessionId r, fr_fileName r) = None"
  by (simp add: Let_def new_result_view_def new_result_list_def WQueryResultAdded_def WQueryResultRemoved_def
      on_model_def RemoveResult_def OnFlushPendingResults_def AddResults_def append_row_def)

end
