(* ===== verification/ServerList.thy ===== *)
theory ServerList
  imports SettingsLaws ConnectionManager Conversions
begin

section \<open>The downloaded server list\<close>

text \<open>
  \<open>qt/ServerListUpdater\<close>: fetching the community's list of servers, over HTTPS and once more over HTTP,
  and reading it; and \<open>MainWindow::_OnServerListReceived\<close>, which merges it into the remembered list.
  The network is a parameter: a reply is an error text or a body. Of Qt's text functions \<open>fromUtf8\<close>,
  \<open>trimmed\<close> and \<open>toLower\<close> are parameters with the laws below; a text of theirs is the UTF-8 it stands for, so that
  \<open>QFromUtf8\<close> is the body with what is not UTF-8 in it replaced.
\<close>

record qt_text =
  QFromUtf8 :: "string \<Rightarrow> string"
  QTrimmed :: "string \<Rightarrow> string"
  QToLower :: "string \<Rightarrow> string"

text \<open>
  Well-formed UTF-8 is read as it is; of ASCII text \<open>trimmed\<close> drops whitespace at both ends, the blank among it, and
  \<open>toLower\<close> leaves it when it has no capitals.
\<close>

definition qt_law :: "qt_text \<Rightarrow> bool" where
  "qt_law Q \<longleftrightarrow>
     (\<forall>s. well_formed s \<longrightarrow> QFromUtf8 Q s = s) \<and>
     (\<exists>W. W (CHR '' '') \<and> (\<forall>c. W c \<longrightarrow> whitespace c) \<and> (\<forall>s. list_all ascii s \<longrightarrow> QTrimmed Q s = trim_by W s)) \<and>
     (\<forall>s. list_all (\<lambda>c. ascii c \<and> \<not> upper_ascii c) s \<longrightarrow> QToLower Q s = s)"

subsection \<open>Fetching\<close>

definition kServerListUrls :: "string list" where
  "kServerListUrls =
     [''https://beshare.tycomsystems.com/servers.txt'', ''http://beshare.tycomsystems.com/servers.txt'']"

definition kServerListUrlCount :: nat where "kServerListUrlCount = 2"

definition kMaximumBodySize :: nat where "kMaximumBodySize = 256 * 1024"

datatype updater_event =
    Get string
  | ServerListReceived "string list" "string list"
  | UpdateFailed string

record updater =
  su_reply :: bool
  su_attemptIndex :: nat
  su_log :: "updater_event list"

definition new_updater :: updater where
  "new_updater = \<lparr> su_reply = False, su_attemptIndex = 0, su_log = [] \<rparr>"

definition IsRunning :: "updater \<Rightarrow> bool" where
  "IsRunning u \<longleftrightarrow> su_reply u"

definition Fetch :: "string \<Rightarrow> updater \<Rightarrow> updater" where
  "Fetch url u = u\<lparr>su_reply := True, su_log := su_log u @ [Get url]\<rparr>"

definition StartUpdate :: "updater \<Rightarrow> updater" where
  "StartUpdate u = (if IsRunning u then u else Fetch (kServerListUrls ! 0) (u\<lparr>su_attemptIndex := 0\<rparr>))"

subsection \<open>Reading\<close>

fun split_on :: "char \<Rightarrow> string \<Rightarrow> string list" where
  "split_on c [] = [[]]"
| "split_on c (x # s) =
     (if x = c then [] # split_on c s
      else case split_on c s of [] \<Rightarrow> [[x]] | t # ts \<Rightarrow> (x # t) # ts)"

definition strip_comment :: "qt_text \<Rightarrow> string \<Rightarrow> string" where
  "strip_comment Q rawLine =
     (let line = QTrimmed Q rawLine; commentIndex = index_of (CHR ''#'') line
      in if commentIndex \<ge> 0 then QTrimmed Q (take (nat commentIndex) line) else line)"

definition plain_host :: "string \<Rightarrow> bool" where
  "plain_host v \<longleftrightarrow> v \<noteq> [] \<and> CHR ''/'' \<notin> set v \<and> CHR '' '' \<notin> set v \<and> CHR '':'' \<notin> set v"

text \<open>The key and the value of a line that has both and whose value is a host name.\<close>

definition read_line :: "qt_text \<Rightarrow> string \<Rightarrow> (string \<times> string) option" where
  "read_line Q rawLine =
     (let line = strip_comment Q rawLine; equalsIndex = index_of (CHR ''='') line
      in if line = [] \<or> equalsIndex \<le> 0 then None
         else let key = QToLower Q (QTrimmed Q (take (nat equalsIndex) line));
                  v = QTrimmed Q (drop (nat equalsIndex + 1) line);
                  key1 = (if starts_with key ''beshare_'' then drop 8 key else key)
              in if plain_host v then Some (key1, v) else None)"

definition ParseBody :: "qt_text \<Rightarrow> string \<Rightarrow> string list \<times> string list" where
  "ParseBody Q body =
     (let entries = List.map_filter (read_line Q) (split_on (CHR 0x0A) (QFromUtf8 Q body))
      in (map snd (filter (\<lambda>e. fst e = ''addserver'') entries),
          map snd (filter (\<lambda>e. fst e = ''removeserver'') entries)))"

definition OnReplyFinished :: "qt_text \<Rightarrow> string + string \<Rightarrow> updater \<Rightarrow> updater" where
  "OnReplyFinished Q reply u =
     (if \<not> su_reply u then u
      else let u1 = u\<lparr>su_reply := False\<rparr>
           in case reply of
                Inl errorString \<Rightarrow>
                  let u2 = u1\<lparr>su_attemptIndex := su_attemptIndex u1 + 1\<rparr>
                  in if su_attemptIndex u2 < kServerListUrlCount
                     then Fetch (kServerListUrls ! su_attemptIndex u2) u2
                     else u2\<lparr>su_log := su_log u2 @ [UpdateFailed errorString]\<rparr>
              | Inr body \<Rightarrow>
                  (case ParseBody Q (take kMaximumBodySize body) of (a, r) \<Rightarrow>
                     u1\<lparr>su_log := su_log u1 @ [ServerListReceived a r]\<rparr>))"

subsection \<open>Merging\<close>

definition in_use :: "muscle \<Rightarrow> string \<Rightarrow> string list \<Rightarrow> string \<Rightarrow> bool" where
  "in_use L selected addresses candidate \<longleftrightarrow>
     EqualsIgnoreCase L candidate selected \<or> list_ex (EqualsIgnoreCase L candidate) addresses"

definition remove_server ::
  "muscle \<Rightarrow> string \<Rightarrow> string list \<Rightarrow> string \<Rightarrow> string list \<Rightarrow> string list" where
  "remove_server L selected addresses candidate servers =
     (if in_use L selected addresses candidate then servers
      else filter (\<lambda>s. \<not> EqualsIgnoreCase L s candidate) servers)"

definition add_server :: "muscle \<Rightarrow> string \<Rightarrow> string list \<Rightarrow> string list" where
  "add_server L candidate servers =
     (if list_ex (\<lambda>s. EqualsIgnoreCase L s candidate) servers then servers else servers @ [candidate])"

text \<open>
  The counts are the numbers of entries removed and added. The window saves the settings and reports
  only when something changed.
\<close>

definition OnServerListReceived ::
  "muscle \<Rightarrow> settings_env \<Rightarrow> string \<Rightarrow> connection_manager \<Rightarrow> string list \<times> string list \<Rightarrow>
   message \<times> world \<Rightarrow> message \<times> world" where
  "OnServerListReceived L V selected cm received s =
     (case (received, s) of ((serversToAdd, serversToRemove), (settings, w)) \<Rightarrow>
        let addresses = map (\<lambda>(a, c). c_serverAddress c) (cm_connections cm);
            servers = GetServerList settings;
            kept = fold (remove_server L selected addresses) serversToRemove servers;
            removedCount = length servers - length kept;
            extended = fold (add_server L) serversToAdd kept;
            addedCount = length extended - length kept
        in if addedCount = 0 \<and> removedCount = 0 then (settings, w)
           else let settings1 = SetServerList extended settings
                in (settings1, snd (Save L V settings1 w)))"

subsection \<open>Lines\<close>

lemma split_on_ne [simp]: "split_on c s \<noteq> []"
  by (induction c s rule: split_on.induct) (auto split: list.split)

lemma split_on_line: "c \<notin> set a \<Longrightarrow> split_on c (a @ c # s) = a # split_on c s"
  by (induction a) auto

lemma split_on_last: "c \<notin> set a \<Longrightarrow> split_on c a = [a]"
  by (induction a) auto

lemma read_line_host: "read_line Q l = Some (k, v) \<Longrightarrow> plain_host v"
  by (auto simp: read_line_def Let_def split: if_splits)

text \<open>A line as the file has them.\<close>

definition server_line :: "string \<Rightarrow> string \<Rightarrow> string" where
  "server_line host comment = ''beshare_addserver = '' @ host @ ''   # '' @ comment"

lemma trim_by_middle:
  assumes "list_all W a" "list_all W b" "m \<noteq> []" "\<not> W (hd m)" "\<not> W (last m)"
  shows "trim_by W (a @ m @ b) = m"
proof -
  have "dropWhile W (a @ m @ b) = m @ b"
    using assms(1,3,4) by (cases m) (simp_all add: list_all_iff dropWhile_append2)
  moreover have "dropWhile W (rev b @ rev m) = rev m"
  proof -
    have "dropWhile W (rev m) = rev m" by (rule dropWhile_hd) (use assms(3,5) in \<open>simp_all add: hd_rev\<close>)
    moreover have "dropWhile W (rev b @ rev m) = dropWhile W (rev m)"
      by (rule dropWhile_append2) (use assms(2) in \<open>simp add: list_all_iff\<close>)
    ultimately show ?thesis by simp
  qed
  ultimately show ?thesis by (simp add: trim_by_def)
qed

lemma trim_by_keeps_start:
  assumes "a \<noteq> []" "\<not> W (hd a)" "\<not> W c"
  shows "\<exists>t. trim_by W (a @ c # s) = a @ c # t \<and> set t \<subseteq> set s"
proof -
  have "dropWhile W (a @ c # s) = a @ c # s" using assms(1,2) by (cases a) auto
  moreover have "\<exists>t. dropWhile W (rev s @ c # rev a) = rev t @ c # rev a \<and> set t \<subseteq> set s"
    using assms(3) by (intro exI [of _ "rev (dropWhile W (rev s))"]) (auto simp: dropWhile_append3 dest: set_dropWhileD)
  ultimately show ?thesis by (auto simp: trim_by_def)
qed

text \<open>A host name that can stand in the file.\<close>

definition file_host :: "string \<Rightarrow> bool" where
  "file_host h \<longleftrightarrow> plain_host h \<and> list_all ascii h \<and> CHR ''#'' \<notin> set h \<and> CHR 0x0A \<notin> set h \<and>
     \<not> whitespace (hd h) \<and> \<not> whitespace (last h)"

lemma read_server_line:
  assumes "qt_law Q" "file_host h" "list_all ascii comment"
  shows "read_line Q (server_line h comment) = Some (''addserver'', h)"
proof -
  obtain W where W: "W (CHR '' '')" "\<And>c. W c \<Longrightarrow> whitespace c" "\<And>s. list_all ascii s \<Longrightarrow> QTrimmed Q s = trim_by W s"
    using assms(1) by (auto simp: qt_law_def)
  have h: "h \<noteq> []" "\<not> W (hd h)" "\<not> W (last h)" "CHR ''#'' \<notin> set h" "plain_host h" "list_all ascii h"
    using assms(2) W(2) by (auto simp: file_host_def plain_host_def)
  let ?key = "''beshare_addserver''"
  have b: "\<not> W (CHR ''b'')" "\<not> W (CHR ''#'')" "\<not> W (CHR ''r'')" using W(2) by (auto simp: whitespace_def reread_well_formed)
  have all_ascii: "list_all ascii (server_line h comment)" using h(6) assms(3) by (simp add: server_line_def ascii_def)
  define pre where "pre = ?key @ '' = '' @ h @ ''   ''"
  have pre: "pre \<noteq> []" "\<not> W (hd pre)" "CHR ''#'' \<notin> set pre" "server_line h comment = pre @ CHR ''#'' # CHR '' '' # comment"
    using b h(4) by (auto simp: pre_def server_line_def)
  obtain t where t: "QTrimmed Q (server_line h comment) = pre @ CHR ''#'' # t"
    using trim_by_keeps_start [OF pre(1,2) b(2), of "CHR '' '' # comment"] W(3) [OF all_ascii] pre(4) by auto
  have i: "index_of (CHR ''#'') (QTrimmed Q (server_line h comment)) = int (length pre)"
    unfolding t by (rule index_of_append [OF pre(3)])
  have m: "trim_by W pre = ?key @ '' = '' @ h"
    using trim_by_middle [of W "[]" "''   ''" "?key @ '' = '' @ h"] b h W(1) by (simp add: pre_def)
  have line: "strip_comment Q (server_line h comment) = ?key @ '' = '' @ h"
  proof -
    have "take (length pre) (QTrimmed Q (server_line h comment)) = pre" unfolding t by simp
    moreover have "QTrimmed Q pre = ?key @ '' = '' @ h" using m W(3) [of pre] h(6) by (simp add: pre_def ascii_def)
    ultimately show ?thesis unfolding strip_comment_def Let_def i by simp
  qed
  have eq: "index_of (CHR ''='') (?key @ '' = '' @ h) = 18"
  proof -
    have "CHR ''='' \<notin> set ''beshare_addserver ''" by simp
    from index_of_append [OF this, of "CHR '' '' # h"]
    have "index_of (CHR ''='') (''beshare_addserver '' @ CHR ''='' # CHR '' '' # h) = int (length ''beshare_addserver '')" .
    moreover have "''beshare_addserver '' @ CHR ''='' # CHR '' '' # h = ?key @ '' = '' @ h" by simp
    moreover have "int (length ''beshare_addserver '') = 18" by simp
    ultimately show ?thesis by (simp only:)
  qed
  have k: "QTrimmed Q ''beshare_addserver '' = ?key"
    using trim_by_middle [of W "[]" "'' ''" ?key] b W(1) W(3) [of "''beshare_addserver ''"] by (simp add: ascii_def)
  have v: "QTrimmed Q (CHR '' '' # h) = h"
    using trim_by_middle [of W "'' ''" "[]" h] h W(1) W(3) [of "CHR '' '' # h"] by (simp add: ascii_def)
  have low: "QToLower Q ?key = ?key"
    using assms(1) by (simp add: qt_law_def upper_ascii_def ascii_def)
  show ?thesis
    unfolding read_line_def line Let_def eq
    using h(5) by (simp add: k v low)
qed

lemma parse_lines:
  assumes "qt_law Q" "\<And>h c. (h, c) \<in> set entries \<Longrightarrow> file_host h \<and> list_all ascii c \<and> CHR 0x0A \<notin> set c"
  shows "List.map_filter (read_line Q) (split_on (CHR 0x0A) (concat (map (\<lambda>(h, c). server_line h c @ [CHR 0x0A]) entries))) =
    map (\<lambda>(h, c). (''addserver'', h)) entries"
  using assms(2)
proof (induction entries)
  case Nil
  obtain W where "\<And>s. list_all ascii s \<Longrightarrow> QTrimmed Q s = trim_by W s" using assms(1) by (auto simp: qt_law_def)
  then have "QTrimmed Q [] = []" by (simp add: trim_by_def)
  then have "read_line Q [] = None" by (simp add: read_line_def strip_comment_def)
  then show ?case by (simp add: List.map_filter_def)
next
  case (Cons e entries)
  obtain h c where e: "e = (h, c)" by fastforce
  with Cons.prems have hc: "file_host h" "list_all ascii c" "CHR 0x0A \<notin> set c" by auto
  then have "CHR 0x0A \<notin> set (server_line h c)" by (auto simp: server_line_def file_host_def)
  moreover have "List.map_filter (read_line Q)
      (split_on (CHR 0x0A) (concat (map (\<lambda>(h, c). server_line h c @ [CHR 0x0A]) entries))) =
      map (\<lambda>(h, c). (''addserver'', h)) entries"
    by (rule Cons.IH) (use Cons.prems in auto)
  ultimately show ?case using hc
    by (simp add: e split_on_line read_server_line [OF assms(1)])
qed

subsection \<open>Merging keeps what is in use\<close>

lemma remove_servers_keep:
  assumes "ignore_case_law L" "s \<in> set servers" "in_use L selected addresses s"
  shows "s \<in> set (fold (remove_server L selected addresses) rs servers)"
  using assms(2)
proof (induction rs arbitrary: servers)
  case (Cons r rs)
  have "in_use L selected addresses r" if "EqualsIgnoreCase L s r"
    using assms(1,3) that by (auto simp: in_use_def ignore_case_law_def list_ex_iff)
  then have "s \<in> set (remove_server L selected addresses r servers)"
    using Cons.prems by (auto simp: remove_server_def)
  then show ?case using Cons.IH by simp
qed simp

lemma remove_servers_subseq: "subseq (fold (remove_server L selected addresses) rs servers) servers"
proof (induction rs arbitrary: servers)
  case (Cons r rs)
  have "subseq (remove_server L selected addresses r servers) servers"
    by (simp add: remove_server_def subseq_filter_left)
  then show ?case using Cons.IH [of "remove_server L selected addresses r servers"] by (auto intro: subseq_order.trans)
qed simp

lemma add_servers_extend:
  "\<exists>new. fold (add_server L) as servers = servers @ new \<and> set new \<subseteq> set as"
proof (induction as arbitrary: servers)
  case (Cons a as)
  from Cons.IH [of "add_server L a servers"] obtain new where
    "fold (add_server L) as (add_server L a servers) = add_server L a servers @ new" "set new \<subseteq> set as" by blast
  moreover have "add_server L a servers = servers \<or> add_server L a servers = servers @ [a]"
    by (simp add: add_server_def)
  ultimately have "fold (add_server L) (a # as) servers = servers @ new \<or>
      fold (add_server L) (a # as) servers = servers @ a # new" by auto
  with \<open>set new \<subseteq> set as\<close> show ?case by (metis insert_mono list.simps(15) subset_insertI2)
qed simp

text \<open>The plainest Qt: blanks are trimmed and only ASCII capitals are lowered.\<close>

definition ref_qt :: qt_text where
  "ref_qt = \<lparr> QFromUtf8 = reread, QTrimmed = trim_by whitespace, QToLower = map ref_lower_char \<rparr>"

lemma ref_qt_law [simp]: "qt_law ref_qt"
proof -
  have "map ref_lower_char s = s" if "list_all (\<lambda>c. ascii c \<and> \<not> upper_ascii c) s" for s
    using that by (induction s) (auto simp: ref_lower_char_def)
  then show ?thesis
    unfolding qt_law_def ref_qt_def by (intro conjI exI [of _ whitespace]) (auto simp: whitespace_def reread_well_formed)
qed

lemma settings_list_nonempty: "GetServerList m \<noteq> [] \<and> [] \<notin> set (GetServerList m)"
  by (simp add: GetServerList_def GetStringList_def kDefaultServerList_def Let_def)

lemma length_subseq: "subseq xs ys \<Longrightarrow> length xs \<le> length ys"
  by (rule list_emb_length)

subsection \<open>Correctness\<close>

text \<open>
  The file is read the way it is published: a body of lines that each add a host, with the usual spaces
  and a comment after it, yields exactly those hosts in order and nothing to remove.
\<close>

theorem server_file_round_trip:
  assumes "qt_law Q" "\<And>h c. (h, c) \<in> set entries \<Longrightarrow> file_host h \<and> list_all ascii c \<and> CHR 0x0A \<notin> set c"
  shows "ParseBody Q (concat (map (\<lambda>(h, c). server_line h c @ [CHR 0x0A]) entries)) = (map fst entries, [])"
proof -
  have "list_all ascii (concat (map (\<lambda>(h, c). server_line h c @ [CHR 0x0A]) entries))"
    using assms(2) by (fastforce simp: list_all_iff server_line_def file_host_def ascii_def)
  then have read: "QFromUtf8 Q (concat (map (\<lambda>(h, c). server_line h c @ [CHR 0x0A]) entries)) =
      concat (map (\<lambda>(h, c). server_line h c @ [CHR 0x0A]) entries)"
    using assms(1) unfolding qt_law_def by (meson ascii_well_formed)
  have "filter (\<lambda>e. fst e = ''addserver'') (map (\<lambda>(h, c). (''addserver'', h)) entries) = map (\<lambda>(h, c). (''addserver'', h)) entries"
    "filter (\<lambda>e. fst e = ''removeserver'') (map (\<lambda>(h, c). (''addserver'', h)) entries) = []"
    by (induction entries) auto
  then show ?thesis
    using parse_lines [OF assms] read by (simp add: ParseBody_def Let_def comp_def case_prod_unfold)
qed

theorem server_file_round_trip_witness:
  "ParseBody ref_qt
      (concat (map (\<lambda>(h, c). server_line h c @ [CHR 0x0A]) [(''beshare.agmsmith.ca'', ''Alex''), (''hub'', [])])) =
    (map fst [(''beshare.agmsmith.ca'', ''Alex''), (''hub'', [])], [])"
proof (rule server_file_round_trip)
  fix h c assume "(h, c) \<in> set [(''beshare.agmsmith.ca'', ''Alex''), (''hub'', [])]"
  then consider "h = ''beshare.agmsmith.ca''" "c = ''Alex''" | "h = ''hub''" "c = []" by auto
  then show "file_host h \<and> list_all ascii c \<and> CHR 0x0A \<notin> set c"
    by cases (simp_all add: file_host_def plain_host_def whitespace_def ascii_def)
qed simp

text \<open>
  C27. Whatever the downloaded file says, it can only suggest: the servers that are in use, the selected one
  and those with a connection, stay in the list; what stays keeps its order and comes first; what is
  added is a plain host name, without a slash, a blank or a colon; an empty result shows the defaults.
\<close>

theorem server_list_only_suggests:
  assumes "ignore_case_law L"
    and "OnServerListReceived L V selected cm (ParseBody Q body) (m, w) = (m', w')"
  shows "(\<forall>s \<in> set (GetServerList m).
      in_use L selected (map (\<lambda>(a, c). c_serverAddress c) (cm_connections cm)) s \<longrightarrow> s \<in> set (GetServerList m')) \<and>
    (GetServerList m' = kDefaultServerList \<or>
     (\<exists>kept new. GetServerList m' = kept @ new \<and> subseq kept (GetServerList m) \<and> list_all plain_host new))"
proof -
  let ?use = "map (\<lambda>(a, c). c_serverAddress c) (cm_connections cm)"
  obtain adds rems where p: "ParseBody Q body = (adds, rems)" by fastforce
  have plain: "list_all plain_host adds"
  proof -
    have "plain_host v" if "(k, v) \<in> set (List.map_filter (read_line Q) ls)" for k v ls
      using that read_line_host by (induction ls) (auto split: option.splits)
    with p show ?thesis by (auto simp: ParseBody_def Let_def list_all_iff)
  qed
  define kept where "kept = fold (remove_server L selected ?use) rems (GetServerList m)"
  obtain new where new: "fold (add_server L) adds kept = kept @ new" "set new \<subseteq> set adds"
    using add_servers_extend by blast
  have stay: "s \<in> set kept" if "s \<in> set (GetServerList m)" "in_use L selected ?use s" for s
    using remove_servers_keep [OF assms(1) that] by (simp add: kept_def)
  have sub: "subseq kept (GetServerList m)" unfolding kept_def by (rule remove_servers_subseq)
  have ne: "[] \<notin> set (kept @ new)"
    using list_emb_set [OF sub] settings_list_nonempty [of m] new(2) plain by (auto simp: list_all_iff plain_host_def)
  then have f: "filter (\<lambda>v. v \<noteq> []) (kept @ new) = kept @ new" by (intro filter_True) auto
  have m': "m' = (if new = [] \<and> length (GetServerList m) = length kept then m else SetServerList (kept @ new) m)"
    using assms(2) new(1) length_subseq [OF sub]
    by (auto simp: OnServerListReceived_def p kept_def Let_def split: if_splits)
  have same: "kept = GetServerList m" if "length (GetServerList m) = length kept"
    using subseq_same_length [OF sub] that by simp
  have result: "GetServerList m' = (if kept @ new = [] then kDefaultServerList else kept @ new)"
    using f st_serverList.read_back [where m = m and v = "kept @ new"] same settings_list_nonempty [of m] unfolding m' by auto
  show ?thesis
  proof (intro conjI ballI impI)
    fix s assume "s \<in> set (GetServerList m)" "in_use L selected ?use s"
    then have "s \<in> set kept" by (rule stay)
    then show "s \<in> set (GetServerList m')" by (auto simp: result)
  next
    have "list_all plain_host new" using plain new(2) by (auto simp: list_all_iff)
    with sub result show "GetServerList m' = kDefaultServerList \<or>
        (\<exists>kept new. GetServerList m' = kept @ new \<and> subseq kept (GetServerList m) \<and> list_all plain_host new)"
      by (cases "kept @ new = []") (auto intro: exI)
  qed
qed

definition demo_servers :: "message" where
  "demo_servers = SetServerList [''beshare.agmsmith.ca'', ''gone.example.org'', ''hub''] (new_message 0)"

theorem server_list_only_suggests_witness:
  "''hub'' \<in> set (GetServerList (fst (OnServerListReceived ref_muscle demo_settings_env ''hub'' new_connections
     (ParseBody ref_qt ''addserver = a.org # new\<newline>removeserver = HUB\<newline>removeserver = gone.example.org'')
     (demo_servers, demo_world))))"
proof -
  let ?body = "''addserver = a.org # new\<newline>removeserver = HUB\<newline>removeserver = gone.example.org''"
  let ?r = "OnServerListReceived ref_muscle demo_settings_env ''hub'' new_connections
    (ParseBody ref_qt ?body) (demo_servers, demo_world)"
  have "''hub'' \<in> set (GetServerList demo_servers)" by code_simp
  moreover have "in_use ref_muscle ''hub'' (map (\<lambda>(a, c). c_serverAddress c) (cm_connections new_connections)) ''hub''"
    by (simp add: in_use_def)
  ultimately show ?thesis
    using server_list_only_suggests [of ref_muscle demo_settings_env "''hub''" new_connections ref_qt ?body
        demo_servers demo_world "fst ?r" "snd ?r"] by simp
qed

text \<open>
  C28. One request for the list always ends: an idle updater asks the HTTPS address, asks the HTTP address
  only after the first reply was an error, and reports exactly once, a list or the last error, by the second
  reply at the latest; then it is idle again, whatever replies still come.
\<close>

theorem fetch_terminates:
  assumes "\<not> IsRunning u"
  shows "\<not> IsRunning (fold (OnReplyFinished Q) (first # second # late) (StartUpdate u)) \<and>
    su_log (fold (OnReplyFinished Q) (first # second # late) (StartUpdate u)) =
      su_log u @ Get (kServerListUrls ! 0) #
        (case first of
           Inr body \<Rightarrow> [case ParseBody Q (take kMaximumBodySize body) of (a, r) \<Rightarrow> ServerListReceived a r]
         | Inl _ \<Rightarrow> Get (kServerListUrls ! 1) #
             (case second of
                Inr body \<Rightarrow> [case ParseBody Q (take kMaximumBodySize body) of (a, r) \<Rightarrow> ServerListReceived a r]
              | Inl errorString \<Rightarrow> [UpdateFailed errorString]))"
proof -
  have idle: "fold (OnReplyFinished Q) rs x = x" if "\<not> su_reply x" for rs x
    using that by (induction rs) (simp_all add: OnReplyFinished_def)
  show ?thesis
    using assms
    by (cases first; cases second)
      (simp_all add: idle OnReplyFinished_def StartUpdate_def Fetch_def IsRunning_def kServerListUrlCount_def Let_def
        split: prod.split)
qed

theorem fetch_terminates_witness:
  "su_log (fold (OnReplyFinished ref_qt) [Inl ''refused'', Inl ''timed out''] (StartUpdate new_updater)) =
    [Get ''https://beshare.tycomsystems.com/servers.txt'', Get ''http://beshare.tycomsystems.com/servers.txt'',
     UpdateFailed ''timed out'']"
  using fetch_terminates [of new_updater ref_qt "Inl ''refused''" "Inl ''timed out''" "[]"]
  by (simp add: new_updater_def IsRunning_def kServerListUrls_def)

end
