(* ===== verification/QtStrings.thy ===== *)
theory QtStrings
  imports ServerList Rows
begin

section \<open>Texts of Qt\<close>

text \<open>
  What the front end uses of \<open>QString\<close> beside \<open>ServerList.qt_text\<close> and \<open>Conversions.qt_codec\<close>: \<open>arg\<close>, which
  fills a place marker of a text that is shown. \<open>QArg s a\<close> is \<open>s.arg(a)\<close>; \<open>QArgs s as\<close> is \<open>s.arg(a, b, c)\<close>,
  which fills all markers at once; \<open>QTrN s n\<close> is \<open>tr(s, "", n)\<close>.
\<close>

record qt_strings = qt_text +
  QArg :: "string \<Rightarrow> string \<Rightarrow> string"
  QArgs :: "string \<Rightarrow> string list \<Rightarrow> string"
  QTrN :: "string \<Rightarrow> int \<Rightarrow> string"

text \<open>The marker of a number, and the numbers of the markers of a text.\<close>

definition marker :: "nat \<Rightarrow> string" where
  "marker n = CHR ''%'' # decimal n"

fun marker_numbers :: "string \<Rightarrow> nat list" where
  "marker_numbers [] = []"
| "marker_numbers (c # s) =
     (case s of
        [] \<Rightarrow> []
      | d # _ \<Rightarrow> (if c = CHR ''%'' \<and> digit d then [of_char d - 48] else []) @ marker_numbers s)"

text \<open>
  \<open>arg\<close> fills the marker with the lowest number: here for a one-digit marker that is the only one of its
  number and has no percent sign in front of it, which is all the texts of the front end have.
\<close>

definition arg_law :: "'a qt_strings_scheme \<Rightarrow> bool" where
  "arg_law Q \<longleftrightarrow>
     (\<forall>p q n a. CHR ''%'' \<notin> set p \<longrightarrow> 1 \<le> n \<longrightarrow> n \<le> 9 \<longrightarrow> (q = [] \<or> \<not> digit (hd q)) \<longrightarrow>
        list_all (\<lambda>k. n < k) (marker_numbers q) \<longrightarrow> QArg Q (p @ marker n @ q) a = p @ a @ q)"

text \<open>
  With several arguments all markers are filled in one pass, so that a marker in an argument stays as it is:
  here for the texts of the front end, which have a marker of one digit for each argument.
\<close>

fun fill_all :: "string list \<Rightarrow> string \<Rightarrow> string" where
  "fill_all as [] = []"
| "fill_all as (c # s) =
     (case s of
        [] \<Rightarrow> [c]
      | d # t \<Rightarrow> if c = CHR ''%'' \<and> digit d \<and> 1 \<le> of_char d - (48 :: nat) \<and> of_char d - 48 \<le> length as
                 then as ! (of_char d - 49) @ fill_all as t else c # fill_all as s)"

fun short_markers :: "string \<Rightarrow> bool" where
  "short_markers (c # d # e # s) \<longleftrightarrow> \<not> (c = CHR ''%'' \<and> digit d \<and> digit e) \<and> short_markers (d # e # s)"
| "short_markers s \<longleftrightarrow> True"

definition args_law :: "'a qt_strings_scheme \<Rightarrow> bool" where
  "args_law Q \<longleftrightarrow>
     (\<forall>s as. short_markers s \<longrightarrow> set (marker_numbers s) = {1..length as} \<longrightarrow> QArgs Q s as = fill_all as s)"

subsection \<open>An \<open>arg\<close> that obeys the law\<close>

fun fill_marker :: "nat \<Rightarrow> string \<Rightarrow> string \<Rightarrow> string" where
  "fill_marker n a [] = []"
| "fill_marker n a (c # s) =
     (case s of
        [] \<Rightarrow> [c]
      | d # t \<Rightarrow> if c = CHR ''%'' \<and> digit d \<and> of_char d - 48 = n then a @ fill_marker n a t
                 else c # fill_marker n a s)"

definition ref_arg :: "string \<Rightarrow> string \<Rightarrow> string" where
  "ref_arg s a = (if marker_numbers s = [] then s else fill_marker (Min (set (marker_numbers s))) a s)"

lemma markers_prefix: "CHR ''%'' \<notin> set p \<Longrightarrow> marker_numbers (p @ s) = marker_numbers s"
proof (induction p)
  case (Cons c p)
  then show ?case by (cases "p @ s") auto
qed simp

lemma fill_prefix: "CHR ''%'' \<notin> set p \<Longrightarrow> s \<noteq> [] \<Longrightarrow> fill_marker n a (p @ s) = p @ fill_marker n a s"
proof (induction p)
  case (Cons c p)
  then show ?case by (cases "p @ s") auto
qed simp

lemma fill_none: "n \<notin> set (marker_numbers s) \<Longrightarrow> fill_marker n a s = s"
proof (induction n a s rule: fill_marker.induct)
  case (2 n a c s)
  show ?case
  proof (cases s)
    case (Cons d t)
    have no: "\<not> (c = CHR ''%'' \<and> digit d \<and> of_char d - 48 = n)" and rest: "n \<notin> set (marker_numbers s)"
      using "2.prems" Cons by (auto split: if_splits)
    then have "fill_marker n a s = s" using "2.IH"(2) [OF Cons] by blast
    with no show ?thesis by (subst fill_marker.simps(2)) (simp only: Cons list.case if_False)
  qed simp
qed simp

lemma decimal_digit: "n \<le> 9 \<Longrightarrow> decimal n = [char_of (48 + n)]"
  by (subst decimal.simps) simp

lemma digit_char: "n \<le> 9 \<Longrightarrow> digit (char_of (48 + n)) \<and> of_char (char_of (48 + n :: nat) :: char) - 48 = n"
  by (simp add: digit_def)

lemma ref_arg_law:
  assumes "CHR ''%'' \<notin> set p" "1 \<le> n" "n \<le> 9" "q = [] \<or> \<not> digit (hd q)"
    "list_all (\<lambda>k. n < k) (marker_numbers q)"
  shows "ref_arg (p @ marker n @ q) a = p @ a @ q"
proof -
  have d: "digit (char_of (48 + n))" "of_char (char_of (48 + n :: nat) :: char) - 48 = n"
    using digit_char [OF assms(3)] by simp_all
  have q: "n \<notin> set (marker_numbers q)" using assms(5) by (auto simp: list_all_iff)
  have "marker_numbers (char_of (48 + n) # q) = marker_numbers q"
  proof -
    have "char_of (48 + n) \<noteq> CHR ''%''" using d(1) by (auto simp: digit_def dest: arg_cong [where f = "of_char :: char \<Rightarrow> nat"])
    then show ?thesis by (cases q) simp_all
  qed
  then have ms: "marker_numbers (p @ marker n @ q) = n # marker_numbers q"
    using d by (simp add: markers_prefix [OF assms(1)] marker_def decimal_digit [OF assms(3)])
  moreover have "Min (insert n (set (marker_numbers q))) = n"
    using assms(5) by (intro Min_eqI) (auto simp: list_all_iff)
  moreover have "fill_marker n a (p @ marker n @ q) = p @ a @ q"
    using d fill_none [OF q] by (subst fill_prefix [OF assms(1)])
      (simp_all add: marker_def decimal_digit [OF assms(3)])
  ultimately show ?thesis by (simp add: ref_arg_def)
qed

definition signed_decimal :: "int \<Rightarrow> string" where
  "signed_decimal i = (if i < 0 then CHR ''-'' # decimal (nat (- i)) else decimal (nat i))"

fun ref_tr_n :: "string \<Rightarrow> int \<Rightarrow> string" where
  "ref_tr_n [] n = []"
| "ref_tr_n (c # s) n =
     (if c = CHR ''%'' \<and> s \<noteq> [] \<and> hd s = CHR ''n'' then signed_decimal n @ tl s else c # ref_tr_n s n)"

definition ref_strings :: qt_strings where
  "ref_strings = \<lparr> QFromUtf8 = reread, QTrimmed = trim_by whitespace, QToLower = map ref_lower_char,
     QArg = ref_arg, QArgs = (\<lambda>s as. fill_all as s), QTrN = ref_tr_n \<rparr>"

lemma ref_strings_arg_law [simp]: "arg_law ref_strings"
  unfolding arg_law_def ref_strings_def using ref_arg_law by simp

lemma ref_strings_args_law [simp]: "args_law ref_strings"
  by (simp add: args_law_def ref_strings_def)

lemma QArg_fill:
  assumes "arg_law Q" "CHR ''%'' \<notin> set p" "1 \<le> n" "n \<le> 9" "q = [] \<or> \<not> digit (hd q)"
    "list_all (\<lambda>k. n < k) (marker_numbers q)"
  shows "QArg Q (p @ marker n @ q) a = p @ a @ q"
  using assms unfolding arg_law_def by blast

end
