(* ===== verification/InputLine.thy ===== *)
theory InputLine
  imports Prelude
begin

section \<open>The chat input line\<close>

text \<open>
  \<open>qt/ChatInputLine\<close>: the history of the lines that were sent and the completion of names. The text
  field of Qt is its text and its cursor. A key that the class does not handle is handed to Qt, which may
  leave any text and any cursor behind; both come with the key.
\<close>

definition kLeadingCompletionSuffix :: string where "kLeadingCompletionSuffix = '': ''"

definition kMaximumHistoryEntries :: nat where "kMaximumHistoryEntries = 100"

record input_line =
  il_text :: string
  il_cursor :: nat
  il_history :: "string list"
  il_historyPosition :: nat
  il_pendingLine :: string
  il_matches :: "string list"
  il_index :: nat
  il_prefixStart :: nat
  il_prefix :: string
  il_isCompleting :: bool

datatype input_key = Key_Up | Key_Down | Key_Tab | OtherKey string nat

definition new_input_line :: input_line where
  "new_input_line = \<lparr> il_text = [], il_cursor = 0, il_history = [], il_historyPosition = 0,
     il_pendingLine = [], il_matches = [], il_index = 0, il_prefixStart = 0, il_prefix = [],
     il_isCompleting = False \<rparr>"

text \<open>\<open>setText\<close> puts the cursor at the end, \<open>setCursorPosition\<close> keeps it inside the text.\<close>

definition set_cursor :: "nat \<Rightarrow> input_line \<Rightarrow> input_line" where
  "set_cursor n l = l\<lparr>il_cursor := min n (length (il_text l))\<rparr>"

definition set_text :: "string \<Rightarrow> input_line \<Rightarrow> input_line" where
  "set_text t l = l\<lparr>il_text := t, il_cursor := length t\<rparr>"

definition ResetCompletionState :: "input_line \<Rightarrow> input_line" where
  "ResetCompletionState l =
     l\<lparr>il_isCompleting := False, il_matches := [], il_index := 0, il_prefix := [], il_prefixStart := 0\<rparr>"

definition remember_line :: "string \<Rightarrow> string list \<Rightarrow> string list" where
  "remember_line line history =
     (if line = [] then history
      else if history = [] \<or> last history \<noteq> line
      then drop (Suc (length history) - kMaximumHistoryEntries) (history @ [line]) else history)"

definition AcceptCurrentLine :: "input_line \<Rightarrow> input_line" where
  "AcceptCurrentLine l =
     (let history = remember_line (il_text l) (il_history l)
      in set_text [] (ResetCompletionState
           (l\<lparr>il_history := history, il_historyPosition := length history, il_pendingLine := []\<rparr>)))"

definition NavigateHistory :: "int \<Rightarrow> input_line \<Rightarrow> input_line" where
  "NavigateHistory direction l =
     (if il_history l = [] then l
      else let l1 = (if il_historyPosition l = length (il_history l) then l\<lparr>il_pendingLine := il_text l\<rparr> else l);
               newPosition = int (il_historyPosition l1) + direction
           in if newPosition < 0 \<or> newPosition > int (length (il_history l1)) then l1
              else let l2 = l1\<lparr>il_historyPosition := nat newPosition\<rparr>;
                       l3 = set_text (if il_historyPosition l2 = length (il_history l2) then il_pendingLine l2
                                      else il_history l2 ! il_historyPosition l2) l2
                   in set_cursor (length (il_text l3)) l3)"

text \<open>The start of the word that ends at the cursor.\<close>

fun word_start :: "(char \<Rightarrow> bool) \<Rightarrow> string \<Rightarrow> nat \<Rightarrow> nat" where
  "word_start space t 0 = 0"
| "word_start space t (Suc n) = (if space (t ! n) then Suc n else word_start space t n)"

text \<open>\<open>replace\<close> of Qt: a start behind the end changes nothing, a length is cut at the end.\<close>

definition qt_replace :: "nat \<Rightarrow> nat \<Rightarrow> string \<Rightarrow> string \<Rightarrow> string" where
  "qt_replace start len after s =
     (if start > length s then s else take start s @ after @ drop (start + len) s)"

text \<open>The part that writes the chosen match over what stands from the prefix start to the cursor.\<close>

definition write_completion :: "input_line \<Rightarrow> input_line" where
  "write_completion l =
     (let match = il_matches l ! il_index l;
          completion = (if il_prefixStart l = 0 then match @ kLeadingCompletionSuffix else match);
          newText = qt_replace (il_prefixStart l) (il_cursor l - il_prefixStart l) completion (il_text l)
      in set_cursor (il_prefixStart l + length completion) (set_text newText l))"

definition PerformCompletion ::
  "(char \<Rightarrow> bool) \<Rightarrow> (string \<Rightarrow> string list) option \<Rightarrow> input_line \<Rightarrow> input_line" where
  "PerformCompletion space provider l =
     (case provider of
        None \<Rightarrow> l
      | Some candidates \<Rightarrow>
          if \<not> il_isCompleting l
          then let cursor = il_cursor l; wordStart = word_start space (il_text l) cursor
               in if wordStart = cursor then l
                  else let prefix = take (cursor - wordStart) (drop wordStart (il_text l));
                           l1 = l\<lparr>il_prefixStart := wordStart, il_prefix := prefix,
                                  il_matches := candidates prefix, il_index := 0\<rparr>
                       in if il_matches l1 = [] then l1 else write_completion (l1\<lparr>il_isCompleting := True\<rparr>)
          else write_completion (l\<lparr>il_index := (il_index l + 1) mod length (il_matches l)\<rparr>))"

definition keyPressEvent ::
  "(char \<Rightarrow> bool) \<Rightarrow> (string \<Rightarrow> string list) option \<Rightarrow> input_key \<Rightarrow> input_line \<Rightarrow> input_line" where
  "keyPressEvent space provider key l =
     (case key of
        Key_Up \<Rightarrow> NavigateHistory (- 1) l
      | Key_Down \<Rightarrow> NavigateHistory 1 l
      | Key_Tab \<Rightarrow> PerformCompletion space provider l
      | OtherKey t n \<Rightarrow> set_cursor n (set_text t (ResetCompletionState l)))"

text \<open>What can happen to the line: a key, or Return.\<close>

datatype input_event = Key input_key | Return

primrec run_input ::
  "(char \<Rightarrow> bool) \<Rightarrow> (string \<Rightarrow> string list) option \<Rightarrow> input_event \<Rightarrow> input_line \<Rightarrow> input_line" where
  "run_input space provider (Key k) = keyPressEvent space provider k"
| "run_input space provider Return = AcceptCurrentLine"

subsection \<open>The invariant\<close>

text \<open>
  The history is short, has no empty line and no line twice in a row; the place in it and the cursor exist;
  while a completion cycles there is a match at its index, and the cursor is behind the start of the word
  unless the history was walked to a line that is shorter than that.
\<close>

definition input_ok :: "input_line \<Rightarrow> bool" where
  "input_ok l \<longleftrightarrow> length (il_history l) \<le> kMaximumHistoryEntries \<and> [] \<notin> set (il_history l) \<and>
     distinct_adj (il_history l) \<and> il_historyPosition l \<le> length (il_history l) \<and>
     il_cursor l \<le> length (il_text l) \<and>
     (il_isCompleting l \<longrightarrow> il_index l < length (il_matches l) \<and>
        (il_cursor l < il_prefixStart l \<longrightarrow> length (il_text l) < il_prefixStart l))"

lemma distinct_adj_drop: "distinct_adj h \<Longrightarrow> distinct_adj (drop n h)"
  by (metis append_take_drop_id distinct_adj_append_iff)

lemma remember_line_ok:
  assumes "length h \<le> kMaximumHistoryEntries" "[] \<notin> set h" "distinct_adj h"
  shows "length (remember_line t h) \<le> kMaximumHistoryEntries \<and> [] \<notin> set (remember_line t h) \<and>
    distinct_adj (remember_line t h)"
proof -
  have "distinct_adj (h @ [t])" if "h = [] \<or> last h \<noteq> t" using assms(3) that by (auto simp: distinct_adj_append_iff)
  then have "distinct_adj (remember_line t h)"
    using assms(3) distinct_adj_drop [of "h @ [t]"] by (auto simp: remember_line_def simp del: drop_append)
  with assms(1,2) show ?thesis by (auto simp: remember_line_def dest: in_set_dropD)
qed

lemma word_start_le: "word_start space t n \<le> n"
  by (induction n) auto

lemma write_completion_ok:
  assumes "input_ok l" "il_index l < length (il_matches l)"
  shows "input_ok (write_completion l)"
  using assms
  by (auto simp: input_ok_def write_completion_def set_cursor_def set_text_def Let_def qt_replace_def)

lemma NavigateHistory_ok: "input_ok l \<Longrightarrow> input_ok (NavigateHistory d l)"
  by (auto simp: NavigateHistory_def input_ok_def set_text_def set_cursor_def Let_def)

lemma PerformCompletion_ok:
  assumes "input_ok l"
  shows "input_ok (PerformCompletion space provider l)"
proof (cases provider)
  case (Some candidates)
  let ?w = "word_start space (il_text l) (il_cursor l)"
  let ?l1 = "l\<lparr>il_prefixStart := ?w, il_prefix := take (il_cursor l - ?w) (drop ?w (il_text l)),
    il_matches := candidates (take (il_cursor l - ?w) (drop ?w (il_text l))), il_index := 0\<rparr>"
  let ?l2 = "l\<lparr>il_index := (il_index l + 1) mod length (il_matches l)\<rparr>"
  have "input_ok ?l1" if "\<not> il_isCompleting l" using assms that by (simp add: input_ok_def)
  moreover have "input_ok (write_completion (?l1\<lparr>il_isCompleting := True\<rparr>))" if "il_matches ?l1 \<noteq> []"
    using assms that word_start_le [of space "il_text l" "il_cursor l"]
    by (intro write_completion_ok) (auto simp: input_ok_def)
  moreover have "input_ok (write_completion ?l2)" if "il_isCompleting l"
    using assms that by (intro write_completion_ok) (auto simp: input_ok_def intro!: mod_less_divisor)
  ultimately show ?thesis
    using assms by (cases "il_matches ?l1 = []") (simp_all add: PerformCompletion_def Some Let_def)
qed (use assms in \<open>simp add: PerformCompletion_def\<close>)

lemma run_input_ok:
  assumes "input_ok l"
  shows "input_ok (run_input space provider ev l)"
proof (cases ev)
  case Return
  have "input_ok (AcceptCurrentLine l)"
    using assms remember_line_ok [of "il_history l" "il_text l"]
    by (simp add: input_ok_def AcceptCurrentLine_def ResetCompletionState_def set_text_def Let_def)
  with Return show ?thesis by simp
next
  case (Key k)
  have "input_ok (set_cursor n (set_text t (ResetCompletionState l)))" for t n
    using assms by (simp add: input_ok_def ResetCompletionState_def set_text_def set_cursor_def)
  with Key show ?thesis
    using assms by (cases k) (auto simp: keyPressEvent_def intro: NavigateHistory_ok PerformCompletion_ok)
qed

lemma input_ok_run: "input_ok l \<Longrightarrow> input_ok (fold (run_input space provider) evs l)"
  by (induction evs arbitrary: l) (auto intro: run_input_ok)

lemma input_ok_new: "input_ok new_input_line"
  by (simp add: input_ok_def new_input_line_def)

subsection \<open>Walking the history\<close>

lemma step_up:
  assumes "il_historyPosition l = Suc p" "Suc p \<le> length (il_history l)"
  shows "NavigateHistory (- 1) l =
    l\<lparr>il_pendingLine := (if Suc p = length (il_history l) then il_text l else il_pendingLine l),
      il_historyPosition := p, il_text := il_history l ! p, il_cursor := length (il_history l ! p)\<rparr>"
proof -
  have "il_history l \<noteq> []" using assms by auto
  with assms show ?thesis
    by (cases "length (il_history l) = Suc p") (simp_all add: NavigateHistory_def set_text_def set_cursor_def Let_def)
qed

lemma step_down:
  assumes "il_historyPosition l = p" "p < length (il_history l)"
  shows "NavigateHistory 1 l =
    l\<lparr>il_historyPosition := Suc p,
      il_text := (if Suc p = length (il_history l) then il_pendingLine l else il_history l ! Suc p),
      il_cursor := length (if Suc p = length (il_history l) then il_pendingLine l else il_history l ! Suc p)\<rparr>"
proof -
  have "il_history l \<noteq> []" "nat (int p + 1) = Suc p" using assms by auto
  with assms show ?thesis by (simp add: NavigateHistory_def set_text_def set_cursor_def Let_def)
qed

text \<open>The line after going up: only the place, the text and the stashed line differ.\<close>

definition walked :: "nat \<Rightarrow> input_line \<Rightarrow> input_line" where
  "walked p l = l\<lparr>il_pendingLine := il_text l, il_historyPosition := p,
     il_text := (if p = length (il_history l) then il_text l else il_history l ! p),
     il_cursor := length (if p = length (il_history l) then il_text l else il_history l ! p)\<rparr>"

lemma walk_up:
  assumes "il_historyPosition l = length (il_history l)" "n < length (il_history l)"
  shows "(NavigateHistory (- 1) ^^ Suc n) l = walked (length (il_history l) - Suc n) l"
  using assms(2)
proof (induction n)
  case 0
  then obtain p where "length (il_history l) = Suc p" by (cases "length (il_history l)") auto
  with assms(1) show ?case by (simp add: step_up walked_def)
next
  case (Suc n)
  then obtain p where p: "length (il_history l) - Suc n = Suc p" "length (il_history l) - Suc (Suc n) = p"
    by (metis Suc_diff_Suc)
  have "(NavigateHistory (- 1) ^^ Suc (Suc n)) l = NavigateHistory (- 1) (walked (Suc p) l)"
    using Suc p by (simp del: funpow.simps add: funpow.simps(2) [of "Suc n"])
  also have "\<dots> = walked p l"
    using step_up [of "walked (Suc p) l" p] Suc.prems p by (simp add: walked_def)
  finally show ?case using p(2) by simp
qed

lemma walk_down:
  assumes "p + n = length (il_history l)"
  shows "(NavigateHistory 1 ^^ n) (walked p l) = walked (length (il_history l)) l"
  using assms
proof (induction n arbitrary: p)
  case (Suc n)
  have "NavigateHistory 1 (walked p l) = walked (Suc p) l"
    using step_down [of "walked p l" p] Suc.prems by (simp add: walked_def)
  with Suc.IH [of "Suc p"] Suc.prems show ?case by (simp del: funpow.simps add: funpow_Suc_right)
qed simp

subsection \<open>Cycling through the matches\<close>

definition completed :: "nat \<Rightarrow> string \<Rightarrow> string" where
  "completed wordStart match = (if wordStart = 0 then match @ kLeadingCompletionSuffix else match)"

text \<open>The line that shows match \<open>i\<close> between the text before the word and the text behind the cursor.\<close>

definition cycling :: "nat \<Rightarrow> string list \<Rightarrow> string \<Rightarrow> string \<Rightarrow> nat \<Rightarrow> input_line \<Rightarrow> bool" where
  "cycling w ms before after i l \<longleftrightarrow> il_isCompleting l \<and> il_matches l = ms \<and> il_index l = i \<and>
     il_prefixStart l = w \<and> length before = w \<and>
     il_text l = before @ completed w (ms ! i) @ after \<and> il_cursor l = w + length (completed w (ms ! i))"

lemma write_cycling:
  assumes "il_isCompleting l" "il_matches l = ms" "il_index l = i" "il_prefixStart l = w" "length before = w"
    "il_text l = before @ word @ after" "il_cursor l = w + length word"
  shows "cycling w ms before after i (write_completion l)"
  using assms
  by (auto simp: cycling_def write_completion_def Let_def completed_def set_cursor_def set_text_def qt_replace_def)

lemma next_match:
  assumes "cycling w ms before after i l"
  shows "cycling w ms before after (Suc i mod length ms) (PerformCompletion space (Some candidates) l)"
proof -
  from assms have l: "il_isCompleting l" "il_matches l = ms" "il_index l = i" "il_prefixStart l = w" "length before = w"
    "il_text l = before @ completed w (ms ! i) @ after" "il_cursor l = w + length (completed w (ms ! i))"
    by (simp_all add: cycling_def)
  have "cycling w ms before after (Suc i mod length ms) (write_completion (l\<lparr>il_index := Suc i mod length ms\<rparr>))"
    by (rule write_cycling [of _ _ _ _ _ "completed w (ms ! i)"]) (simp_all add: l)
  then show ?thesis by (simp add: PerformCompletion_def l(1-3))
qed

lemma first_match:
  assumes "\<not> il_isCompleting l" "il_cursor l \<le> length (il_text l)"
    and w: "word_start space (il_text l) (il_cursor l) = w" "w < il_cursor l"
    and ms: "candidates (take (il_cursor l - w) (drop w (il_text l))) = ms" "ms \<noteq> []"
  shows "cycling w ms (take w (il_text l)) (drop (il_cursor l) (il_text l)) 0
    (PerformCompletion space (Some candidates) l)"
proof -
  have "il_text l = take w (il_text l) @ take (il_cursor l - w) (drop w (il_text l)) @ drop (il_cursor l) (il_text l)"
    using w(2) by (metis append_take_drop_id drop_drop le_add_diff_inverse2 less_imp_le)
  then have "cycling w ms (take w (il_text l)) (drop (il_cursor l) (il_text l)) 0
      (write_completion (l\<lparr>il_prefixStart := w, il_prefix := take (il_cursor l - w) (drop w (il_text l)),
         il_matches := ms, il_index := 0, il_isCompleting := True\<rparr>))"
    using assms(2) w(2) by (intro write_cycling) auto
  then show ?thesis using assms by (simp add: PerformCompletion_def Let_def)
qed

lemma tabs:
  assumes "cycling w ms before after i l" "i < length ms"
  shows "cycling w ms before after ((i + k) mod length ms) ((PerformCompletion space (Some candidates) ^^ k) l)"
proof (induction k)
  case (Suc k)
  from next_match [OF Suc.IH, of space candidates] show ?case by (simp add: mod_Suc_eq)
qed (use assms in simp)

subsection \<open>Correctness\<close>

text \<open>
  Whatever is typed, sent, walked and completed, in any order: the history has at most a hundred lines,
  none empty and none twice in a row, the place in it exists, the cursor is inside the text, and a completion
  that cycles has a match to show.
\<close>

theorem input_line_invariant:
  "length (il_history (fold (run_input space provider) evs new_input_line)) \<le> 100 \<and>
   [] \<notin> set (il_history (fold (run_input space provider) evs new_input_line)) \<and>
   distinct_adj (il_history (fold (run_input space provider) evs new_input_line)) \<and>
   il_historyPosition (fold (run_input space provider) evs new_input_line)
     \<le> length (il_history (fold (run_input space provider) evs new_input_line)) \<and>
   il_cursor (fold (run_input space provider) evs new_input_line)
     \<le> length (il_text (fold (run_input space provider) evs new_input_line)) \<and>
   (\<not> il_isCompleting (fold (run_input space provider) evs new_input_line) \<or>
    il_index (fold (run_input space provider) evs new_input_line)
      < length (il_matches (fold (run_input space provider) evs new_input_line)))"
  using input_ok_run [OF input_ok_new, of space provider evs]
  by (auto simp: input_ok_def kMaximumHistoryEntries_def)

text \<open>
  C31. Walking the history loses nothing that was typed: from the line being typed, the \<open>n\<close>-th Up shows the
  \<open>n\<close>-th line from the end, and as many Downs bring the typed line back.
\<close>

theorem history_walk_round_trip:
  assumes "il_historyPosition l = length (il_history l)" "n < length (il_history l)"
  shows "il_text ((keyPressEvent space provider Key_Up ^^ Suc n) l) = rev (il_history l) ! n \<and>
    il_text ((keyPressEvent space provider Key_Down ^^ Suc n) ((keyPressEvent space provider Key_Up ^^ Suc n) l)) = il_text l \<and>
    il_history ((keyPressEvent space provider Key_Down ^^ Suc n) ((keyPressEvent space provider Key_Up ^^ Suc n) l)) = il_history l"
proof -
  have k: "keyPressEvent space provider Key_Up = NavigateHistory (- 1)" "keyPressEvent space provider Key_Down = NavigateHistory 1"
    by (auto simp: keyPressEvent_def)
  have "(NavigateHistory 1 ^^ Suc n) (walked (length (il_history l) - Suc n) l) = walked (length (il_history l)) l"
    by (rule walk_down) (use assms(2) in simp)
  moreover have "length (il_history l) - Suc n \<noteq> length (il_history l)" using assms(2) by arith
  ultimately show ?thesis
    unfolding k walk_up [OF assms] using assms(2) by (simp del: funpow.simps add: walked_def rev_nth)
qed

theorem history_walk_round_trip_witness:
  "il_text ((keyPressEvent (\<lambda>c. False) None Key_Up ^^ 2)
     (AcceptCurrentLine (set_text ''b'' (AcceptCurrentLine (set_text ''a'' new_input_line))))) = ''a''"
proof -
  let ?l = "AcceptCurrentLine (set_text ''b'' (AcceptCurrentLine (set_text ''a'' new_input_line)))"
  have "il_historyPosition ?l = 2" "il_history ?l = [''a'', ''b'']" by code_simp+
  with history_walk_round_trip [of ?l 1 "\<lambda>c. False" None] show ?thesis by (simp add: numeral_2_eq_2)
qed



text \<open>
  The arrow keys do not end a completion, although any other key is meant to: after a Tab at the start of
  the line, an Up and another Tab, the line from the history that Up brought is gone and the next candidate
  for the old word stands in its place.
\<close>

theorem completion_survives_history:
  assumes "\<not> il_isCompleting l" "il_cursor l \<le> length (il_text l)"
    and "word_start space (il_text l) (il_cursor l) = 0" "0 < il_cursor l"
    and "candidates (take (il_cursor l) (il_text l)) = ms" "ms \<noteq> []"
    and "il_historyPosition l = Suc p" "p < length (il_history l)"
  shows "il_text (fold (keyPressEvent space (Some candidates)) [Key_Tab, Key_Up] l) = il_history l ! p \<and>
    il_text (fold (keyPressEvent space (Some candidates)) [Key_Tab, Key_Up, Key_Tab] l) =
      (ms ! (1 mod length ms)) @ '': ''"
proof -
  let ?t = "PerformCompletion space (Some candidates) l"
  have c: "cycling 0 ms [] (drop (il_cursor l) (il_text l)) 0 ?t"
    using first_match [of l space 0 candidates ms] assms by simp
  have h: "il_history ?t = il_history l" "il_historyPosition ?t = il_historyPosition l"
    by (simp_all add: PerformCompletion_def Let_def write_completion_def set_cursor_def set_text_def)
  let ?u = "NavigateHistory (- 1) ?t"
  have u: "?u = ?t\<lparr>il_pendingLine := il_pendingLine ?u, il_historyPosition := p, il_text := il_history l ! p,
      il_cursor := length (il_history l ! p)\<rparr>"
    using step_up [of ?t p] assms(7,8) h by simp
  have "PerformCompletion space (Some candidates) ?u = write_completion (?u\<lparr>il_index := 1 mod length ms\<rparr>)"
    using c by (subst (1 2) u) (simp add: PerformCompletion_def cycling_def)
  moreover have "il_text (write_completion (?u\<lparr>il_index := 1 mod length ms\<rparr>)) = (ms ! (1 mod length ms)) @ '': ''"
    using c by (subst u) (simp add: cycling_def write_completion_def Let_def set_cursor_def set_text_def qt_replace_def
        kLeadingCompletionSuffix_def)
  moreover have "il_text ?u = il_history l ! p" by (subst u) simp
  ultimately show ?thesis by (simp add: keyPressEvent_def)
qed

theorem completion_survives_history_witness:
  "il_text (fold (keyPressEvent (\<lambda>c. c = CHR '' '') (Some (\<lambda>p. [''kevin'']))) [Key_Tab, Key_Up, Key_Tab]
     (set_text ''ke'' (AcceptCurrentLine (set_text ''a long line'' new_input_line)))) = ''kevin: ''"
proof -
  let ?l = "set_text ''ke'' (AcceptCurrentLine (set_text ''a long line'' new_input_line))"
  have "word_start (\<lambda>c. c = CHR '' '') (il_text ?l) (il_cursor ?l) = 0" "\<not> il_isCompleting ?l" "il_cursor ?l = 2"
    "il_text ?l = ''ke''" "il_historyPosition ?l = Suc 0" "length (il_history ?l) = 1"
    by code_simp+
  with completion_survives_history [of ?l "\<lambda>c. c = CHR '' ''" "\<lambda>p. [''kevin'']" "[''kevin'']" 0]
  show ?thesis by simp
qed

end
