(* ===== verification/Notices.thy ===== *)
theory Notices
  imports QtStrings Conversions
begin

section \<open>Notifications\<close>

text \<open>
  \<open>qt/DesktopNotifier\<close> and the search for the user's own name in a chat line
  (\<open>MainWindow::_MentionsLocalUser\<close>). The notification service is a parameter: whether the interface is
  valid, and the id it answers to the calls made so far, if it answers. Escaping for markup is Qt's.
\<close>

datatype category = CATEGORY_CHAT | CATEGORY_TRANSFER

record notify_call =
  nc_replaces :: nat
  nc_summary :: string
  nc_body :: string

record notifier =
  no_isAvailable :: bool
  no_isEnabled :: bool
  no_lastIds :: "category \<Rightarrow> nat"
  no_calls :: "(category \<times> notify_call) list"

record notify_env =
  interface_valid :: bool
  reply_id :: "(category \<times> notify_call) list \<Rightarrow> nat option"
  toHtmlEscaped :: "string \<Rightarrow> string"

definition new_notifier :: "bool \<Rightarrow> notifier" where
  "new_notifier available = \<lparr> no_isAvailable = available, no_isEnabled = True, no_lastIds = (\<lambda>c. 0), no_calls = [] \<rparr>"

definition NoSetEnabled :: "bool \<Rightarrow> notifier \<Rightarrow> notifier" where
  "NoSetEnabled enabled n = n\<lparr>no_isEnabled := enabled\<rparr>"

definition Notify :: "notify_env \<Rightarrow> category \<Rightarrow> string \<Rightarrow> string \<Rightarrow> notifier \<Rightarrow> notifier" where
  "Notify N category summary body n =
     (if \<not> no_isEnabled n \<or> \<not> no_isAvailable n then n
      else if \<not> interface_valid N then n
      else let call = \<lparr> nc_replaces = no_lastIds n category, nc_summary = toHtmlEscaped N summary,
                         nc_body = toHtmlEscaped N body \<rparr>;
               n1 = n\<lparr>no_calls := no_calls n @ [(category, call)]\<rparr>
           in case reply_id N (no_calls n1) of
                None \<Rightarrow> n1
              | Some i \<Rightarrow> n1\<lparr>no_lastIds := (no_lastIds n1)(category := i)\<rparr>)"

subsection \<open>One's own name\<close>

text \<open>
  Equality of two texts up to case, and \<open>indexOf\<close> from a place on: the first section of the text that has the length
  of the other and differs in nothing but case. Texts, places and lengths are those of the \<open>QString\<close>, units of UTF-16.
\<close>

definition same_text :: "qt_codec \<Rightarrow> string \<Rightarrow> string \<Rightarrow> bool" where
  "same_text T s t \<longleftrightarrow>
     length (ToQString T s) = length (ToQString T t) \<and> q_same_no_case T (ToQString T s) (ToQString T t)"

definition occurs_at :: "qt_codec \<Rightarrow> uint16 list \<Rightarrow> uint16 list \<Rightarrow> nat \<Rightarrow> bool" where
  "occurs_at T s t i \<longleftrightarrow> i + length t \<le> length s \<and> q_same_no_case T (take (length t) (drop i s)) t"

definition index_from :: "qt_codec \<Rightarrow> uint16 list \<Rightarrow> uint16 list \<Rightarrow> nat \<Rightarrow> nat option" where
  "index_from T s t from = List.find (occurs_at T s t) [from..<Suc (length s)]"

definition stands_alone :: "qt_codec \<Rightarrow> uint16 list \<Rightarrow> uint16 list \<Rightarrow> nat \<Rightarrow> bool" where
  "stands_alone T s t i \<longleftrightarrow>
     (let startsCleanly = (i = 0 \<or> \<not> q_letter_or_number T (s ! (i - 1)));
          after = i + length t;
          endsCleanly = (after \<ge> length s \<or> \<not> q_letter_or_number T (s ! after))
      in startsCleanly \<and> endsCleanly)"

lemma find_upt:
  assumes "List.find P [a..<b] = Some i"
  shows "a \<le> i \<and> i < b \<and> P i \<and> (\<forall>j. a \<le> j \<and> j < i \<longrightarrow> \<not> P j)"
proof -
  obtain k where k: "k < b - a" "P ([a..<b] ! k)" "i = [a..<b] ! k" "\<forall>j < k. \<not> P ([a..<b] ! j)"
    using assms by (auto simp: find_Some_iff)
  then have i: "i = a + k" by simp
  moreover have "\<not> P j" if "a \<le> j" "j < i" for j
  proof -
    have "j - a < k" "[a..<b] ! (j - a) = j" using that k(1) i by auto
    with k(4) show ?thesis by metis
  qed
  ultimately show ?thesis using k(1,2) by auto
qed

lemma index_from_Some:
  "index_from T s t n = Some i \<Longrightarrow>
   n \<le> i \<and> i \<le> length s \<and> occurs_at T s t i \<and> (\<forall>j. n \<le> j \<and> j < i \<longrightarrow> \<not> occurs_at T s t j)"
  using find_upt [of "occurs_at T s t" n "Suc (length s)" i] by (auto simp: index_from_def simp del: upt_Suc)

function mention_loop :: "qt_codec \<Rightarrow> uint16 list \<Rightarrow> uint16 list \<Rightarrow> nat \<Rightarrow> bool" where
  "mention_loop T haystack localName n =
     (case index_from T haystack localName n of
        None \<Rightarrow> False
      | Some i \<Rightarrow> if stands_alone T haystack localName i then True
                 else mention_loop T haystack localName (Suc i))"
  by auto
termination
  by (relation "measure (\<lambda>(T, s, t, n). Suc (length s) - n)") (auto dest: index_from_Some)

declare mention_loop.simps [simp del]

definition MentionsLocalUser :: "qt_codec \<Rightarrow> string \<Rightarrow> string \<Rightarrow> bool" where
  "MentionsLocalUser T userName txt =
     (let localName = q_trimmed T (ToQString T userName)
      in if localName = [] then False
         else let haystack = ToQString T txt in mention_loop T haystack localName 0)"

lemma index_from_None: "index_from T s t n = None \<longleftrightarrow> (\<forall>i \<ge> n. \<not> occurs_at T s t i)"
proof -
  have "i < Suc (length s)" if "occurs_at T s t i" for i using that by (simp add: occurs_at_def)
  then show ?thesis by (auto simp: index_from_def find_None_iff simp del: upt_Suc)
qed

lemma mention_loop_iff:
  "mention_loop T s t n \<longleftrightarrow> (\<exists>i \<ge> n. occurs_at T s t i \<and> stands_alone T s t i)"
proof (induction T s t n rule: mention_loop.induct)
  case (1 T s t n)
  show ?case
  proof (cases "index_from T s t n")
    case None
    then show ?thesis using index_from_None [of T s t n] by (subst mention_loop.simps) auto
  next
    case (Some i)
    note i = index_from_Some [OF Some]
    show ?thesis
    proof (cases "stands_alone T s t i")
      case True
      with i Some show ?thesis by (subst mention_loop.simps) auto
    next
      case False
      have "mention_loop T s t n \<longleftrightarrow> mention_loop T s t (Suc i)"
        using Some False by (subst mention_loop.simps) simp
      also have "\<dots> \<longleftrightarrow> (\<exists>j \<ge> Suc i. occurs_at T s t j \<and> stands_alone T s t j)"
        using 1 [OF Some False] .
      also have "\<dots> \<longleftrightarrow> (\<exists>j \<ge> n. occurs_at T s t j \<and> stands_alone T s t j)"
        using i False by (metis Suc_leD Suc_leI le_neq_implies_less le_trans not_le)
      finally show ?thesis .
    qed
  qed
qed

text \<open>
  C26. The loop finds a mention exactly when there is one: the trimmed name is not empty and occurs somewhere
  in the line, up to case, with no letter or digit directly before or behind it, all of it in the characters of
  the texts that Qt has, whatever bytes the line and the name were.
\<close>

theorem mentions_exactly:
  "MentionsLocalUser T userName txt =
     (let localName = q_trimmed T (ToQString T userName)
      in localName \<noteq> [] \<and>
      (\<exists>before name after. ToQString T txt = before @ name @ after \<and>
        length name = length localName \<and> q_same_no_case T name localName \<and>
        (before = [] \<or> \<not> q_letter_or_number T (last before)) \<and> (after = [] \<or> \<not> q_letter_or_number T (hd after))))"
proof -
  let ?t = "q_trimmed T (ToQString T userName)" and ?s = "ToQString T txt"
  have "(\<exists>i. occurs_at T ?s ?t i \<and> stands_alone T ?s ?t i) \<longleftrightarrow>
    (\<exists>before name after. ?s = before @ name @ after \<and> length name = length ?t \<and> q_same_no_case T name ?t \<and>
        (before = [] \<or> \<not> q_letter_or_number T (last before)) \<and> (after = [] \<or> \<not> q_letter_or_number T (hd after)))"
    (is "?l \<longleftrightarrow> ?r")
  proof
    assume ?l
    then obtain i where i: "occurs_at T ?s ?t i" "stands_alone T ?s ?t i" by blast
    let ?b = "take i ?s" and ?n = "take (length ?t) (drop i ?s)" and ?a = "drop (i + length ?t) ?s"
    have "?s = ?b @ ?n @ ?a" by (metis append_take_drop_id drop_drop add.commute)
    moreover have "length ?n = length ?t" "q_same_no_case T ?n ?t" using i(1) by (auto simp: occurs_at_def)
    moreover have "?b = [] \<or> \<not> q_letter_or_number T (last ?b)"
      using i by (cases "i = 0") (auto simp: stands_alone_def Let_def occurs_at_def last_conv_nth min_absorb2)
    moreover have "?a = [] \<or> \<not> q_letter_or_number T (hd ?a)"
      using i(2) by (auto simp: stands_alone_def Let_def hd_drop_conv_nth)
    ultimately show ?r by blast
  next
    assume ?r
    then obtain b n a where r: "?s = b @ n @ a" "length n = length ?t" "q_same_no_case T n ?t"
      "b = [] \<or> \<not> q_letter_or_number T (last b)" "a = [] \<or> \<not> q_letter_or_number T (hd a)" by blast
    have "occurs_at T ?s ?t (length b)" using r(3) r(2) [symmetric] by (simp add: occurs_at_def r(1))
    moreover have "stands_alone T ?s ?t (length b)"
      using r(4,5) r(2) [symmetric] by (cases a) (auto simp: stands_alone_def Let_def r(1) nth_append last_conv_nth)
    ultimately show ?l by blast
  qed
  then show ?thesis by (simp add: MentionsLocalUser_def Let_def mention_loop_iff)
qed

text \<open>
  A name in typographic quotation marks is mentioned, and one with an umlaut in front is not, although the two
  characters end in the same byte of UTF-8.
\<close>

theorem mentions_exactly_witness:
  "MentionsLocalUser ref_codec '' Bob '' ([CHR 0xE2, CHR 0x80, CHR 0x9C] @ ''bOB!'') \<and>
   \<not> MentionsLocalUser ref_codec ''bob'' ([CHR 0xC3, CHR 0x9C] @ ''bob'')"
proof -
  have name: "q_trimmed ref_codec (ToQString ref_codec '' Bob '') = [66, 111, 98]"
    "q_trimmed ref_codec (ToQString ref_codec ''bob'') = [98, 111, 98]" by code_simp+
  have line: "ToQString ref_codec ([CHR 0xE2, CHR 0x80, CHR 0x9C] @ ''bOB!'') = [0x201C] @ [98, 79, 66] @ [33]"
    "ToQString ref_codec ([CHR 0xC3, CHR 0x9C] @ ''bob'') = [0xDC, 98, 111, 98]"
    by (simp_all add: ToQString_def ref_codec_def ref_units_def read_all_def first_char_def cont_def scalar_def utf16_def utf16_char_def)
  have "MentionsLocalUser ref_codec '' Bob '' ([CHR 0xE2, CHR 0x80, CHR 0x9C] @ ''bOB!'')"
  proof -
    have "length [98, 79, 66 :: uint16] = length [66, 111, 98 :: uint16]" "q_same_no_case ref_codec [98, 79, 66] [66, 111, 98]"
      "\<not> q_letter_or_number ref_codec (last [0x201C])" "\<not> q_letter_or_number ref_codec (hd [33])" by code_simp+
    then show ?thesis unfolding mentions_exactly name line Let_def by blast
  qed
  moreover have "\<not> MentionsLocalUser ref_codec ''bob'' ([CHR 0xC3, CHR 0x9C] @ ''bob'')"
  proof
    assume "MentionsLocalUser ref_codec ''bob'' ([CHR 0xC3, CHR 0x9C] @ ''bob'')"
    then obtain before name after where m: "[0xDC, 98, 111, 98] = before @ name @ after" "length name = 3"
      "q_same_no_case ref_codec name [98, 111, 98]" "before = [] \<or> \<not> q_letter_or_number ref_codec (last before)"
    proof -
      have three: "length [98, 111, 98 :: uint16] = 3" by simp
      show ?thesis using that \<open>MentionsLocalUser ref_codec ''bob'' _\<close>
        unfolding mentions_exactly name line Let_def three by blast
    qed
    have u: "q_letter_or_number ref_codec 0xDC" "\<not> q_same_no_case ref_codec [0xDC, 98, 111] [98, 111, 98]" by code_simp+
    show False
    proof (cases before)
      case Nil
      with m(1,2) have "name = [0xDC, 98, 111]" by (auto simp: Cons_eq_append_conv length_Suc_conv numeral_3_eq_3)
      with m(3) u(2) show False by simp
    next
      case (Cons x xs)
      have "length before \<le> 1" using arg_cong [OF m(1), of length] m(2) by simp
      with Cons m(1) have "before = [0xDC]" by (cases xs) auto
      with m(4) u(1) show False by simp
    qed
  qed
  ultimately show ?thesis by blast
qed

end
