(* ===== verification/TransferRows.thy ===== *)
theory TransferRows
  imports Columns QtStrings DownloadManager UploadLaws DownloadLaws "HOL-Library.Signed_Division"
begin

section \<open>The transfers on screen\<close>

text \<open>
  \<open>qt/TransferModel\<close>: the downloads of the manager and, below them, the peers of the upload server as
  rows. The model keeps pointers only, so every question is answered from the state of both at that moment;
  no upload server is \<open>None\<close>. The clock that a rate is measured with is the manager's. Drawing the
  progress bar is left out.
\<close>

datatype transfer_column = TC_FILE | TC_PROGRESS | TC_SIZE | TC_RATE | TC_FROM | TC_STATUS

instantiation transfer_column :: enum
begin

definition enum_transfer_column :: "transfer_column list" where "enum_transfer_column = [TC_FILE, TC_PROGRESS, TC_SIZE, TC_RATE, TC_FROM, TC_STATUS]"
definition enum_all_transfer_column :: "(transfer_column \<Rightarrow> bool) \<Rightarrow> bool" where "enum_all_transfer_column P = list_all P [TC_FILE, TC_PROGRESS, TC_SIZE, TC_RATE, TC_FROM, TC_STATUS]"
definition enum_ex_transfer_column :: "(transfer_column \<Rightarrow> bool) \<Rightarrow> bool" where "enum_ex_transfer_column P = list_ex P [TC_FILE, TC_PROGRESS, TC_SIZE, TC_RATE, TC_FROM, TC_STATUS]"

instance
proof
  show "UNIV = set (enum_class.enum :: transfer_column list)"
    unfolding enum_transfer_column_def using transfer_column.exhaust by auto
  then show "enum_class.enum_all P = Ball UNIV P" "enum_class.enum_ex P = Bex UNIV P" for P :: "transfer_column \<Rightarrow> bool"
    by (simp_all only: enum_all_transfer_column_def enum_ex_transfer_column_def enum_transfer_column_def list_all_iff list_ex_iff)
qed (simp add: enum_transfer_column_def)

end

datatype transfer_role = TransferDisplay | TransferProgress | TransferAlignment | TransferOther

definition DescribeState :: "download \<Rightarrow> string" where
  "DescribeState d =
     (case dl_state d of
        DOWNLOAD_IDLE \<Rightarrow> ''Waiting''
      | DOWNLOAD_CONNECTING \<Rightarrow> ''Connecting''
      | DOWNLOAD_REQUESTING \<Rightarrow> ''Requesting''
      | DOWNLOAD_QUEUED_REMOTELY \<Rightarrow> ''Queued by peer''
      | DOWNLOAD_TRANSFERRING \<Rightarrow> ''Downloading''
      | DOWNLOAD_FINISHED \<Rightarrow> ''Finished''
      | DOWNLOAD_FAILED \<Rightarrow> dl_errorText d)"

text \<open>\<open>(part * 100) / whole\<close> in 64 bits, rounded towards zero.\<close>

definition percent :: "int64 \<Rightarrow> int64 \<Rightarrow> int" where
  "percent part whole = sint (part * 100) sdiv sint whole"

definition qBound :: "int \<Rightarrow> int \<Rightarrow> int \<Rightarrow> int" where
  "qBound low v high = max low (min high v)"

definition UploadData ::
  "muscle \<Rightarrow> qt_strings \<Rightarrow> UploadStatus \<Rightarrow> transfer_column \<Rightarrow> transfer_role \<Rightarrow> variant" where
  "UploadData L Q upload column role =
     (if role = TransferProgress
      then if sint (up_fileSize upload) \<le> 0 then Number 0
           else Number (qBound 0 (percent (up_bytesSent upload) (up_fileSize upload)) 100)
      else if role \<noteq> TransferDisplay then NoValue
      else case column of
             TC_FILE \<Rightarrow> Text (if up_fileName upload \<noteq> [] then up_fileName upload else ''(waiting)'')
           | TC_PROGRESS \<Rightarrow>
               Text (if sint (up_fileSize upload) > 0
                     then QArg Q ''%1%'' (signed_decimal (percent (up_bytesSent upload) (up_fileSize upload)))
                     else [])
           | TC_SIZE \<Rightarrow> Text (FormatByteSize L (up_fileSize upload))
           | TC_RATE \<Rightarrow> Text []
           | TC_FROM \<Rightarrow> Text (QArg Q ''to %1'' (up_peerName upload))
           | TC_STATUS \<Rightarrow> Text (if up_isSending upload then ''Uploading'' else ''Connected''))"

definition TmRowCount :: "download_manager \<Rightarrow> upload_server option \<Rightarrow> nat" where
  "TmRowCount downloads uploads =
     length (dm_downloads downloads) + (case uploads of None \<Rightarrow> 0 | Some s \<Rightarrow> length (us_peers s))"

text \<open>The cells of a download, \<open>d\<close> with the clock in it.\<close>

definition file_cell :: "qt_strings \<Rightarrow> download \<Rightarrow> string" where
  "file_cell Q d =
     (let current = dl_currentFileName d; fileCount = of_nat (length (dl_requestedFiles d)) :: uint32
      in if fileCount > 1
         then QArg Q (QArg Q (QArg Q ''%1 (%2 of %3)'' (if current = [] then ''(waiting)'' else current))
                (decimal (unat (dl_completedFileCount d + 1)))) (decimal (unat fileCount))
         else if current = [] then ''(waiting)'' else current)"

definition DownloadData ::
  "muscle \<Rightarrow> qt_strings \<Rightarrow> download \<Rightarrow> transfer_column \<Rightarrow> transfer_role \<Rightarrow> variant" where
  "DownloadData L Q d column role =
     (let expected = dl_totalBytesExpected d; doneBytes = dl_totalBytesDone d
      in case role of
           TransferProgress \<Rightarrow>
             if dl_state d = DOWNLOAD_FINISHED then Number 100
             else if sint expected \<le> 0 then Number 0
             else Number (qBound 0 (percent doneBytes expected) 100)
         | TransferAlignment \<Rightarrow> if column = TC_SIZE then AlignRightCenter else NoValue
         | TransferOther \<Rightarrow> NoValue
         | TransferDisplay \<Rightarrow>
             Text (case column of
                     TC_FILE \<Rightarrow> file_cell Q d
                   | TC_PROGRESS \<Rightarrow>
                       if sint expected > 0 then QArg Q ''%1%'' (signed_decimal (percent doneBytes expected)) else []
                   | TC_SIZE \<Rightarrow> FormatByteSize L (if sint expected > 0 then expected else doneBytes)
                   | TC_RATE \<Rightarrow> FormatTransferRate L (fst (GetBytesPerSecond d))
                   | TC_FROM \<Rightarrow> if dl_remoteUserName d \<noteq> [] then dl_remoteUserName d else dl_remoteSessionId d
                   | TC_STATUS \<Rightarrow> DescribeState d))"

definition TmData ::
  "muscle \<Rightarrow> qt_strings \<Rightarrow> download_manager \<Rightarrow> upload_server option \<Rightarrow>
   nat \<Rightarrow> transfer_column \<Rightarrow> transfer_role \<Rightarrow> variant" where
  "TmData L Q downloads uploads row column role =
     (let downloadCount = length (dm_downloads downloads)
      in if row \<ge> downloadCount
         then case uploads of
                None \<Rightarrow> NoValue
              | Some server \<Rightarrow>
                  let statuses = GetUploadStatuses server; uploadIndex = row - downloadCount
                  in if uploadIndex \<ge> length statuses then NoValue
                     else UploadData L Q (statuses ! uploadIndex) column role
         else case GetDownloadAt row downloads of
                None \<Rightarrow> NoValue
              | Some d \<Rightarrow> DownloadData L Q (d\<lparr>dl_world := dm_world downloads\<rparr>) column role)"

definition transfer_title :: "transfer_column \<Rightarrow> string" where
  "transfer_title column =
     (case column of TC_FILE \<Rightarrow> ''File'' | TC_PROGRESS \<Rightarrow> ''Progress'' | TC_SIZE \<Rightarrow> ''Size'' | TC_RATE \<Rightarrow> ''Rate''
      | TC_FROM \<Rightarrow> ''From'' | TC_STATUS \<Rightarrow> ''Status'')"

definition TmHeaderData :: "int \<Rightarrow> orientation \<Rightarrow> transfer_role \<Rightarrow> variant" where
  "TmHeaderData n orient role = header_data transfer_title n orient (role = TransferDisplay)"

definition TmColumnCount :: "bool \<Rightarrow> nat" where
  "TmColumnCount isChild = (if isChild then 0 else column_count TYPE(transfer_column))"

text \<open>
  \<open>NotifyRowChanged\<close>: the row, the first and the last column of the cells that the view is told to draw again,
  if there is such a row.
\<close>

definition NotifyRowChanged :: "uint32 \<Rightarrow> download_manager \<Rightarrow> upload_server option \<Rightarrow> (int \<times> int \<times> int) option" where
  "NotifyRowChanged ix downloads uploads =
     (if ix \<ge> of_nat (TmRowCount downloads uploads) then None
      else Some (sint ix, 0, int (TmColumnCount False) - 1))"

subsection \<open>Correctness\<close>

lemma qBound_range: "low \<le> high \<Longrightarrow> low \<le> qBound low v high \<and> qBound low v high \<le> high"
  by (auto simp: qBound_def)

lemma download_progress:
  "\<exists>n. DownloadData L Q d column TransferProgress = Number n \<and> 0 \<le> n \<and> n \<le> 100"
  using qBound_range [of 0 100] by (auto simp: DownloadData_def Let_def)

lemma upload_progress:
  "\<exists>n. UploadData L Q u column TransferProgress = Number n \<and> 0 \<le> n \<and> n \<le> 100"
  using qBound_range [of 0 100] by (auto simp: UploadData_def)

text \<open>
  The rows are the transfers: what the model answers for the rows it counts is, for every column and
  role, the list of the answers for the downloads in the manager's order followed by those for the peers of
  the upload server; beyond the last row it answers nothing.
\<close>

theorem transfer_rows:
  "map (\<lambda>row. TmData L Q m uploads row column role) [0..<TmRowCount m uploads] =
     map (\<lambda>(a, d). DownloadData L Q (d\<lparr>dl_world := dm_world m\<rparr>) column role) (dm_downloads m) @
     (case uploads of None \<Rightarrow> [] | Some s \<Rightarrow> map (\<lambda>u. UploadData L Q u column role) (GetUploadStatuses s)) \<and>
   TmData L Q m uploads (TmRowCount m uploads + k) column role = NoValue"
proof -
  let ?n = "length (dm_downloads m)"
  have d: "TmData L Q m uploads row column role =
      (case dm_downloads m ! row of (a, d) \<Rightarrow> DownloadData L Q (d\<lparr>dl_world := dm_world m\<rparr>) column role)"
    if "row < ?n" for row
    using that by (simp add: TmData_def GetDownloadAt_def split: prod.split)
  have u: "TmData L Q m (Some s) (?n + k) column role =
      (if k < length (us_peers s) then UploadData L Q (GetUploadStatuses s ! k) column role else NoValue)" for s k
    by (simp add: TmData_def GetUploadStatuses_def Let_def)
  show ?thesis
  proof (cases uploads)
    case None
    then show ?thesis
      by (intro conjI nth_equalityI) (auto simp: TmRowCount_def None d [unfolded None], simp add: TmData_def)
  next
    case (Some s)
    have "length (GetUploadStatuses s) = length (us_peers s)" by (simp add: GetUploadStatuses_def)
    moreover have "TmData L Q m uploads row column role = UploadData L Q (GetUploadStatuses s ! (row - ?n)) column role"
      if "\<not> row < ?n" "row < ?n + length (us_peers s)" for row
    proof -
      have "row - ?n < length (us_peers s)" using that by arith
      with u [of s "row - ?n"] that Some show ?thesis by simp
    qed
    ultimately show ?thesis
      using u [of s "length (us_peers s) + k"] Some
      by (intro conjI nth_equalityI) (auto simp: TmRowCount_def d [unfolded Some] nth_append add.assoc split: prod.split)
  qed
qed

text \<open>
  The progress that is drawn is always between 0 and 100, for every row, whatever sizes a peer announced
  and however many bytes were counted, the products that do not fit into 64 bits included.
\<close>

theorem progress_in_range:
  assumes "row < TmRowCount m uploads"
  shows "\<exists>n. TmData L Q m uploads row column TransferProgress = Number n \<and> 0 \<le> n \<and> n \<le> 100"
  using assms download_progress upload_progress
  by (cases uploads) (auto simp: TmData_def TmRowCount_def GetDownloadAt_def GetUploadStatuses_def Let_def)

theorem progress_in_range_witness:
  "\<exists>n. TmData ref_muscle ref_strings (new_manager demo_world) (Some (new_server\<lparr>us_peers := [(''p'',
      new_peer\<lparr>pu_currentFileSize := 7, pu_bytesSent := - 1\<rparr>)]\<rparr>)) 0 TC_PROGRESS TransferProgress = Number n \<and>
    0 \<le> n \<and> n \<le> 100"
  by (rule progress_in_range) (simp add: TmRowCount_def new_manager_def)

lemma file_cell_numbers:
  assumes "arg_law Q" "CHR ''%'' \<notin> set (dl_currentFileName d)" "length (dl_requestedFiles d) < 2 ^ 32"
    "1 < length (dl_requestedFiles d)"
  shows "file_cell Q d = (if dl_currentFileName d = [] then ''(waiting)'' else dl_currentFileName d) @ '' ('' @
    decimal (unat (dl_completedFileCount d + 1)) @ '' of '' @ decimal (length (dl_requestedFiles d)) @ '')''"
proof -
  define name where "name = (if dl_currentFileName d = [] then ''(waiting)'' else dl_currentFileName d)"
  have name: "CHR ''%'' \<notin> set name" using assms(2) by (simp add: name_def)
  have digits: "CHR ''%'' \<notin> set (decimal n)" for n
    using decimal_digits [of n] by (auto simp: list_all_iff digit_def)
  have m: "marker (Suc 0) = ''%1''" "marker 2 = ''%2''" "marker 3 = ''%3''" by code_simp+
  have one: "QArg Q ''%1 (%2 of %3)'' name = name @ '' (%2 of %3)''"
    using QArg_fill [OF assms(1), of "[]" 1 "'' (%2 of %3)''" name] by (simp add: m digit_def)
  have two: "QArg Q (name @ '' (%2 of %3)'') a = name @ '' ('' @ a @ '' of %3)''" for a
    using QArg_fill [OF assms(1), of "name @ '' (''" 2 "'' of %3)''" a] name by (simp add: m digit_def)
  have three: "QArg Q (name @ '' ('' @ decimal k @ '' of %3)'') a = name @ '' ('' @ decimal k @ '' of '' @ a @ '')''" for k a
    using QArg_fill [OF assms(1), of "name @ '' ('' @ decimal k @ '' of ''" 3 "'')''" a] name digits by (simp add: m digit_def)
  have "(of_nat (length (dl_requestedFiles d)) :: uint32) > 1" "unat (of_nat (length (dl_requestedFiles d)) :: uint32) = length (dl_requestedFiles d)"
    using assms(3,4) by (simp_all add: word_less_nat_alt unat_of_nat)
  then show ?thesis
    unfolding file_cell_def Let_def name_def [symmetric] by (simp only: one two three if_True)
qed

text \<open>
  A download of several files that got them all is shown as one file further than there are: the row
  says \<open>(n + 1 of n)\<close>, because the count of the completed files plus one is taken for the number of the
  current one.
\<close>

theorem finished_row_counts_past_end:
  assumes "arg_law Q" "CHR ''%'' \<notin> set (dl_currentFileName d)"
    and "length (dl_requestedFiles d) = n" "1 < n" "n < 2 ^ 32 - 1" "dl_completedFileCount d = of_nat n"
  shows "DownloadData L Q d TC_FILE TransferDisplay =
    Text ((if dl_currentFileName d = [] then ''(waiting)'' else dl_currentFileName d) @
      '' ('' @ decimal (Suc n) @ '' of '' @ decimal n @ '')'')"
proof -
  have "(of_nat n + 1 :: uint32) = of_nat (Suc n)" by simp
  moreover have "unat (of_nat (Suc n) :: uint32) = Suc n"
    unfolding unat_of_nat using assms(5) by (intro mod_less) simp
  ultimately have "unat (dl_completedFileCount d + 1) = Suc n" by (simp only: assms(6))
  moreover have "file_cell Q d = (if dl_currentFileName d = [] then ''(waiting)'' else dl_currentFileName d) @ '' ('' @
      decimal (unat (dl_completedFileCount d + 1)) @ '' of '' @ decimal n @ '')''"
    using file_cell_numbers [OF assms(1,2)] assms(3,4,5) by simp
  ultimately show ?thesis by (simp only: DownloadData_def Let_def transfer_role.case transfer_column.case)
qed

definition finished_pair :: download where
  "finished_pair = DlSessionDisconnected (fold (DlMessageReceived ref_muscle)
     [header_message ''x'' 1, encode_chunk MUNGE_MODE_NONE [7], header_message ''y'' 1, encode_chunk MUNGE_MODE_NONE [8]]
     (AddRequestedFile ''y'' [] 1 (AddRequestedFile ''x'' [] 1 (new_download ''/d'' demo_world))))"

theorem finished_row_counts_past_end_witness:
  "dl_state finished_pair = DOWNLOAD_FINISHED \<and>
   DownloadData ref_muscle ref_strings finished_pair TC_FILE TransferDisplay = Text ''y (3 of 2)''"
proof -
  have "dl_state finished_pair = DOWNLOAD_FINISHED" "dl_currentFileName finished_pair = ''y''"
    "length (dl_requestedFiles finished_pair) = 2" "dl_completedFileCount finished_pair = 2"
    "decimal (Suc 2) = ''3''" "decimal 2 = ''2''"
    by code_simp+
  then show ?thesis
    using finished_row_counts_past_end [of ref_strings finished_pair 2 ref_muscle] by simp
qed

text \<open>
  A change of a transfer redraws its row and the whole of it: the cells that are named are those of every
  column of the row, which is one of the rows there are.
\<close>

theorem changed_row_is_redrawn:
  assumes "NotifyRowChanged ix m uploads = Some (row, left, right)" "TmRowCount m uploads < 2 ^ 31"
  shows "row = int (unat ix) \<and> unat ix < TmRowCount m uploads \<and>
    (\<forall>n. (\<exists>c :: transfer_column. column_at n = Some c) \<longleftrightarrow> left \<le> n \<and> n \<le> right)"
proof -
  have ix: "ix < of_nat (TmRowCount m uploads)" "row = sint ix" "left = 0" "right = int (TmColumnCount False) - 1"
    using assms(1) by (auto simp: NotifyRowChanged_def split: if_splits)
  have less: "unat ix < TmRowCount m uploads"
    using ix(1) assms(2) by (simp add: word_less_nat_alt unat_of_nat)
  moreover have "sint ix = int (unat ix)"
    using less_trans [OF less assms(2)]
    by (simp add: sint_uint signed_take_bit_int_eq_self_iff nat_less_iff flip: nat_uint_eq) (simp add: order_trans [OF _ uint_ge_0])
  moreover have "(\<exists>c :: transfer_column. column_at n = Some c) \<longleftrightarrow> 0 \<le> n \<and> n < int (column_count TYPE(transfer_column))" for n
    by (auto simp: column_at_def column_count_def)
  ultimately show ?thesis using ix by (auto simp: TmColumnCount_def)
qed

text \<open>The list has a header for every column that it counts, no two the same, and no other.\<close>

theorem transfer_headers:
  "TmHeaderData n Horizontal TransferDisplay \<noteq> NoValue \<longleftrightarrow> 0 \<le> n \<and> n < int (TmColumnCount False)"
  "TmHeaderData n Horizontal TransferDisplay = TmHeaderData k Horizontal TransferDisplay \<Longrightarrow>
     TmHeaderData n Horizontal TransferDisplay \<noteq> NoValue \<Longrightarrow> n = k"
proof -
  have inj: "inj transfer_title" by (rule injI) (auto simp: transfer_title_def split: transfer_column.splits)
  show "TmHeaderData n Horizontal TransferDisplay \<noteq> NoValue \<longleftrightarrow> 0 \<le> n \<and> n < int (TmColumnCount False)"
    by (simp add: TmHeaderData_def TmColumnCount_def header_titles)
  show "TmHeaderData n Horizontal TransferDisplay = TmHeaderData k Horizontal TransferDisplay \<Longrightarrow>
     TmHeaderData n Horizontal TransferDisplay \<noteq> NoValue \<Longrightarrow> n = k"
    using header_distinct [OF inj, of n k] by (simp add: TmHeaderData_def)
qed

end
