(* ===== verification/Window.thy ===== *)
theory Window
  imports Notices InputLine ResultLaws DownloadManager FileUploadServer UserFilters ChatLog
begin

section \<open>The main window\<close>

text \<open>
  \<open>qt/MainWindow\<close> without its widgets: the objects it owns, the texts that stand in its fields and labels,
  and its handlers, for what the user does, for what the components report and for the timers. A handler
  calls the components the way the code does; what a component reports while it runs is in its log, and the
  handler for that report is a step of its own. There is one file system: the one the download manager has.
  A dereferenced null pointer is \<^const>\<open>None\<close>. Texts of the program are shown untranslated.
\<close>

datatype shown_line = LocalLine LogMessageType string | ChatLine ChatMessage

record window =
  mw_settings :: message
  mw_connections :: connection_manager
  mw_downloads :: download_manager
  mw_uploadServer :: upload_server
  mw_shareScanner :: ShareScanner
  mw_sharedFiles :: "(string \<times> SharedFile) list"
  mw_sharedFileCount :: uint32
  mw_ignoreFilter :: string
  mw_watchFilter :: string
  mw_autoPrivFilter :: string
  mw_aliases :: aliases
  mw_chatLogger :: chat_logger
  mw_notifier :: "notifier option"
  mw_updater :: updater
  mw_users :: user_list
  mw_results :: result_view
  mw_flushTimer :: bool
  mw_chatLog :: "shown_line list"
  mw_fontPointSize :: uint32
  mw_input :: input_line
  mw_serverItems :: "string list"
  mw_serverAddress :: string
  mw_serverPort :: uint16
  mw_userNameItems :: "string list"
  mw_userName :: string
  mw_userStatusItems :: "string list"
  mw_userStatus :: string
  mw_queryField :: string
  mw_selectedResults :: "int list"
  mw_fileSharingChecked :: bool
  mw_notificationsChecked :: bool
  mw_showTimestamps :: bool
  mw_showHostColumn :: bool
  mw_title :: string
  mw_connectButton :: string
  mw_fieldsEnabled :: bool
  mw_queryButton :: string
  mw_queryEnabled :: bool
  mw_resultCount :: string
  mw_showServer :: bool
  mw_statusLabel :: string
  mw_shareLabel :: string
  mw_userCountLabel :: string
  mw_closed :: bool

text \<open>
  What the window relies on: the environments of its components, whether the user is looking at the window,
  the states Qt saves of its views, and how it tells blanks and sorts names.
\<close>

record window_env =
  we_L :: muscle
  we_Q :: qt_strings
  we_T :: qt_codec
  we_net :: cm_env
  we_dm :: dm_env
  we_up :: up_env
  we_scan :: scan_env
  we_scanCreated :: bool
  we_settings :: settings_env
  we_time :: log_clock
  we_notify :: notify_env
  we_notifyAvailable :: bool
  we_looking :: bool
  we_geometry :: "uint8 list"
  we_splitter :: "uint8 list"
  we_layouts :: "string \<Rightarrow> uint8 list"
  we_isSpace :: "char \<Rightarrow> bool"
  we_sort :: "string list \<Rightarrow> string list"

subsection \<open>Small steps\<close>

definition say :: "LogMessageType \<Rightarrow> string \<Rightarrow> window \<Rightarrow> window" where
  "say ty t w = w\<lparr>mw_chatLog := mw_chatLog w @ [LocalLine ty t]\<rparr>"

definition show_chat :: "ChatMessage \<Rightarrow> window \<Rightarrow> window" where
  "show_chat m w = w\<lparr>mw_chatLog := mw_chatLog w @ [ChatLine m]\<rparr>"

abbreviation disk :: "window \<Rightarrow> world" where
  "disk w \<equiv> dm_world (mw_downloads w)"

definition set_disk :: "world \<Rightarrow> window \<Rightarrow> window" where
  "set_disk d w = w\<lparr>mw_downloads := (mw_downloads w)\<lparr>dm_world := d\<rparr>\<rparr>"

definition log_chat :: "window_env \<Rightarrow> ChatMessage \<Rightarrow> window \<Rightarrow> window" where
  "log_chat En m w =
     (case Log (we_L En) (we_time En) m (mw_chatLogger w) (disk w) of (g, d) \<Rightarrow> set_disk d (w\<lparr>mw_chatLogger := g\<rparr>))"

definition save_settings :: "window_env \<Rightarrow> window \<Rightarrow> window" where
  "save_settings En w = set_disk (snd (Save (we_L En) (we_settings En) (mw_settings w) (disk w))) w"

definition on_settings :: "(message \<Rightarrow> message) \<Rightarrow> window \<Rightarrow> window" where
  "on_settings f w = w\<lparr>mw_settings := f (mw_settings w)\<rparr>"

definition on_connections :: "(connection_manager \<Rightarrow> connection_manager) \<Rightarrow> window \<Rightarrow> window" where
  "on_connections f w = w\<lparr>mw_connections := f (mw_connections w)\<rparr>"

definition on_downloads :: "(download_manager \<Rightarrow> download_manager) \<Rightarrow> window \<Rightarrow> window" where
  "on_downloads f w = w\<lparr>mw_downloads := f (mw_downloads w)\<rparr>"

definition on_uploads :: "(upload_server \<Rightarrow> upload_server) \<Rightarrow> window \<Rightarrow> window" where
  "on_uploads f w = w\<lparr>mw_uploadServer := f (mw_uploadServer w)\<rparr>"

text \<open>A call through the pointer to one connection.\<close>

definition at_connection :: "nat \<Rightarrow> (connection \<Rightarrow> connection) \<Rightarrow> connection_manager \<Rightarrow> connection_manager" where
  "at_connection a f = on_all (\<lambda>b c. if b = a then f c else c)"

definition connection_at :: "window \<Rightarrow> nat \<Rightarrow> connection" where
  "connection_at w a = (case map_of (cm_connections (mw_connections w)) a of Some c \<Rightarrow> c | None \<Rightarrow> new_connection)"

definition primary :: "window \<Rightarrow> connection option" where
  "primary w = map_option (connection_at w) (GetPrimary (mw_connections w))"

subsection \<open>Fields and labels\<close>

definition GetSelectedServerAddress :: "window_env \<Rightarrow> window \<Rightarrow> string" where
  "GetSelectedServerAddress En w = QTrimmed (we_Q En) (mw_serverAddress w)"

definition MwGetUserName :: "window_env \<Rightarrow> window \<Rightarrow> string" where
  "MwGetUserName En w = QTrimmed (we_Q En) (mw_userName w)"

definition PopulateServerList :: "window \<Rightarrow> window" where
  "PopulateServerList w =
     w\<lparr>mw_serverItems := GetServerList (mw_settings w),
       mw_serverAddress := (if mw_serverAddress w \<noteq> [] then mw_serverAddress w else GetServerAddress (mw_settings w))\<rparr>"

definition status_presets :: "string list" where
  "status_presets = [''here'', ''away'', ''busy'', ''back soon'', ''idle'']"

definition add_preset :: "qt_codec \<Rightarrow> string \<Rightarrow> string list \<Rightarrow> string list" where
  "add_preset T preset entries = (if list_ex (same_text T preset) entries then entries else entries @ [preset])"

definition PopulateNameAndStatusLists :: "window_env \<Rightarrow> window \<Rightarrow> window" where
  "PopulateNameAndStatusLists En w =
     w\<lparr>mw_userNameItems := GetRecentUserNames (mw_settings w),
       mw_userName := (if mw_userName w = [] then GetUserName (mw_settings w) else mw_userName w),
       mw_userStatusItems := fold (add_preset (we_T En)) status_presets (GetRecentStatuses (mw_settings w)),
       mw_userStatus := (if mw_userStatus w = [] then GetUserStatus (mw_settings w) else mw_userStatus w)\<rparr>"

definition UpdateQueryWidgets :: "window \<Rightarrow> window" where
  "UpdateQueryWidgets w =
     w\<lparr>mw_queryButton := (if IsAnyQueryActive (mw_connections w) then ''Stop'' else ''Search''),
       mw_queryEnabled := IsAnyConnected (mw_connections w)\<rparr>"

definition UpdateResultCount :: "window_env \<Rightarrow> window \<Rightarrow> window" where
  "UpdateResultCount En w =
     (let n = length (rl_results (rv_model (mw_results w)))
      in w\<lparr>mw_resultCount :=
           (if n = 0 \<and> \<not> IsAnyQueryActive (mw_connections w) then []
            else QTrN (we_Q En) (if IsAnyQueryActive (mw_connections w)
                   then ''%n result(s), still listening'' else ''%n result(s)'') (int n))\<rparr>)"

definition UpdateConnectionWidgets :: "window \<Rightarrow> window" where
  "UpdateConnectionWidgets w =
     (let isDisconnected =
        ((case primary w of Some c \<Rightarrow> c_state c | None \<Rightarrow> CONNECTION_DISCONNECTED) = CONNECTION_DISCONNECTED)
      in w\<lparr>mw_connectButton := (if isDisconnected then ''Connect'' else ''Disconnect''),
           mw_fieldsEnabled := isDisconnected\<rparr>)"

definition UpdateMultiServerUi :: "window \<Rightarrow> window" where
  "UpdateMultiServerUi w = w\<lparr>mw_showServer := (length (cm_connections (mw_connections w)) > 1)\<rparr>"

definition status_text :: "window_env \<Rightarrow> window \<Rightarrow> string" where
  "status_text En w =
     (let (st, address) = (case primary w of Some c \<Rightarrow> (c_state c, c_serverAddress c) | None \<Rightarrow> (CONNECTION_DISCONNECTED, []))
      in case st of
           CONNECTION_DISCONNECTED \<Rightarrow> ''Not connected''
         | CONNECTION_CONNECTING \<Rightarrow> QArg (we_Q En) ''Connecting to %1...'' address
         | CONNECTION_CONNECTED \<Rightarrow>
             if GetConnectedCount (mw_connections w) > 1
             then QTrN (we_Q En) ''Connected to %n server(s)'' (int (GetConnectedCount (mw_connections w)))
             else QArg (we_Q En) ''Connected to %1'' address)"

definition share_text :: "window_env \<Rightarrow> window \<Rightarrow> string" where
  "share_text En w =
     (let shareText = (if mw_sharedFileCount w > 0
                       then QTrN (we_Q En) ''Sharing %n file(s)'' (sint (ucast (mw_sharedFileCount w) :: int32)) else []);
          uploadCount = length (us_peers (mw_uploadServer w))
      in if uploadCount > 0
         then (if shareText \<noteq> [] then shareText @ '' -- '' else shareText) @
              QTrN (we_Q En) ''%n peer(s) downloading'' (int uploadCount)
         else shareText)"

definition UpdateStatusBar :: "window_env \<Rightarrow> window \<Rightarrow> window" where
  "UpdateStatusBar En w =
     w\<lparr>mw_statusLabel := status_text En w, mw_shareLabel := share_text En w,
       mw_userCountLabel := (if IsAnyConnected (mw_connections w)
          then QTrN (we_Q En) ''%n user(s)'' (sint (ucast (GetTotalUserCount (mw_connections w)) :: int32)) else [])\<rparr>"

subsection \<open>Sharing\<close>

definition StartSharing :: "window_env \<Rightarrow> window \<Rightarrow> window" where
  "StartSharing En w =
     (if \<not> GetFileSharingEnabled (mw_settings w) then w
      else let shareDirectory = GetShareDirectory (we_settings En) (mw_settings w)
           in if shareDirectory = []
              then say LOG_WARNING_MESSAGE ''Choose a folder to share first (File menu).'' w
              else case StartListening (we_up En) kDefaultTransferPort kTransferPortRange (mw_uploadServer w) of
                (listenPort, server) \<Rightarrow>
                  let w1 = w\<lparr>mw_uploadServer := server\<rparr>;
                      w2 = (if listenPort = 0
                            then say LOG_ERROR_MESSAGE ''Could not listen on any port, so nobody can download from us.'' w1
                            else say LOG_INFORMATION_MESSAGE
                                   (QArg (we_Q En) ''Accepting downloads on port %1.'' (decimal (unat listenPort)))
                                   (on_connections (CmSetAdvertisedPort (we_L En) (we_net En) (ucast listenPort))
                                     (on_uploads (SetLocalIdentity
                                         (case primary w1 of Some c \<Rightarrow> c_localSessionId c | None \<Rightarrow> [])
                                         (GetUserName (mw_settings w1))) w1)));
                      w3 = w2\<lparr>mw_sharedFiles := [], mw_sharedFileCount := 0,
                              mw_shareScanner := StartScan (we_L En) (we_scan En) (we_scanCreated En)
                                (SetShareDirectory shareDirectory (mw_shareScanner w2))\<rparr>
                  in say LOG_INFORMATION_MESSAGE (QArg (we_Q En) ''Scanning %1...'' shareDirectory) w3)"

definition StopSharing :: "window_env \<Rightarrow> window \<Rightarrow> window" where
  "StopSharing En w =
     (let w1 = w\<lparr>mw_shareScanner := StopScan (mw_shareScanner w)\<rparr>;
          w2 = on_uploads StopListening w1;
          w3 = on_connections (PublishSharedFileCountOnAll (we_L En) (we_net En) 0
                 \<circ> CmUnpublishAllSharedFiles (we_L En) (we_net En)
                 \<circ> CmSetAdvertisedPort (we_L En) (we_net En) 0) w2
      in UpdateStatusBar En (w3\<lparr>mw_sharedFiles := [], mw_sharedFileCount := 0\<rparr>))"

definition publish_discovered :: "window_env \<Rightarrow> window \<Rightarrow> window" where
  "publish_discovered En w =
     (case TakeDiscoveredFiles (mw_shareScanner w) of (discovered, scanner') \<Rightarrow>
        let w1 = w\<lparr>mw_shareScanner := scanner'\<rparr>
        in if discovered = [] then w1
           else let w2 = on_connections (PublishSharedFilesOnAll (we_L En) (we_net En) discovered) w1;
                    w3 = w2\<lparr>mw_sharedFiles := fold (\<lambda>f. ht_put (sf_fileName f) f) discovered (mw_sharedFiles w2)\<rparr>;
                    w4 = on_uploads (SetSharedFiles (mw_sharedFiles w3)) w3
                in UpdateStatusBar En (w4\<lparr>mw_sharedFileCount := mw_sharedFileCount w4 + of_nat (length discovered)\<rparr>))"

definition report_scan_end :: "window_env \<Rightarrow> window \<Rightarrow> window" where
  "report_scan_end En w =
     (case TakeScanFinished (mw_shareScanner w) of (finished, scanner') \<Rightarrow>
        let w1 = w\<lparr>mw_shareScanner := scanner'\<rparr>
        in if \<not> finished then w1
           else let w2 = on_connections (PublishSharedFileCountOnAll (we_L En) (we_net En) (mw_sharedFileCount w1)) w1;
                    duplicateCount = GetDuplicateNameCount (mw_shareScanner w2)
                in UpdateStatusBar En (say LOG_INFORMATION_MESSAGE
                     (QTrN (we_Q En) ''Sharing %n file(s).'' (sint (ucast (mw_sharedFileCount w2) :: int32)) @
                      (if duplicateCount > 0
                       then '' '' @ QTrN (we_Q En)
                         ''%n file(s) were skipped because another file already had that name -- the protocol identifies a shared file by its name alone.''
                         (sint (ucast duplicateCount :: int32))
                       else [])) w2))"

definition DrainShareScanner :: "window_env \<Rightarrow> window \<Rightarrow> window" where
  "DrainShareScanner En w = report_scan_end En (publish_discovered En w)"

definition OnToggleFileSharing :: "window_env \<Rightarrow> bool \<Rightarrow> window \<Rightarrow> window" where
  "OnToggleFileSharing En enabled w =
     (let w1 = on_settings (SetFileSharingEnabled enabled) (w\<lparr>mw_fileSharingChecked := enabled\<rparr>)
      in if \<not> enabled then say LOG_INFORMATION_MESSAGE ''File sharing is off.'' (StopSharing En w1)
         else if IsAnyConnected (mw_connections w1) then StartSharing En w1
         else say LOG_INFORMATION_MESSAGE ''File sharing will start when you connect.'' w1)"

text \<open>A check mark that is set from the program reports only a change.\<close>

definition check_file_sharing :: "window_env \<Rightarrow> bool \<Rightarrow> window \<Rightarrow> window" where
  "check_file_sharing En b w = (if b = mw_fileSharingChecked w then w else OnToggleFileSharing En b w)"

definition OnChooseShareFolder :: "window_env \<Rightarrow> string \<Rightarrow> window \<Rightarrow> window" where
  "OnChooseShareFolder En chosen w =
     (if chosen = [] then w
      else let w1 = say LOG_INFORMATION_MESSAGE (QArg (we_Q En) ''Share folder set to %1.'' chosen)
                      (on_settings (StSetShareDirectory chosen) w)
           in if GetFileSharingEnabled (mw_settings w1) \<and> IsAnyConnected (mw_connections w1)
              then StartSharing En (StopSharing En w1) else w1)"

subsection \<open>Servers\<close>

definition ConnectToConfiguredServer :: "window_env \<Rightarrow> window \<Rightarrow> window" where
  "ConnectToConfiguredServer En w =
     (let serverAddress = GetSelectedServerAddress En w; userName = MwGetUserName En w
      in if serverAddress = [] then say LOG_ERROR_MESSAGE ''Enter a server address first.'' w
         else if userName = [] then say LOG_ERROR_MESSAGE ''Enter a user name first.'' w
         else on_connections (\<lambda>m. snd (AddConnection (we_L En) (we_net En) serverAddress (mw_serverPort w) m))
                (on_settings (RememberUserName (we_L En) userName)
                  (on_connections (CmSetLocalUserName (we_L En) (we_net En) userName) w)))"

definition RestoreExtraServers :: "window_env \<Rightarrow> window \<Rightarrow> window" where
  "RestoreExtraServers En w =
     UpdateMultiServerUi (fold (\<lambda>s. on_connections (\<lambda>m. snd (AddConnection (we_L En) (we_net En) s kDefaultServerPort m)))
       (GetExtraServers (mw_settings w)) w)"

definition SaveExtraServers :: "window \<Rightarrow> window" where
  "SaveExtraServers w =
     on_settings (SetExtraServers (map (\<lambda>(a, c). c_serverAddress c) (drop 1 (cm_connections (mw_connections w))))) w"

definition OnConnectButtonClicked :: "window_env \<Rightarrow> window \<Rightarrow> window" where
  "OnConnectButtonClicked En w =
     (if \<not> IsAnyConnected (mw_connections w) then ConnectToConfiguredServer En w
      else on_connections DisconnectAll w)"

definition MwStartQuery :: "window_env \<Rightarrow> window \<Rightarrow> window" where
  "MwStartQuery En w =
     (if \<not> IsAnyConnected (mw_connections w) then say LOG_ERROR_MESSAGE ''Not connected to a server.'' w
      else let pattern = QTrimmed (we_Q En) (mw_queryField w)
           in UpdateQueryWidgets (on_connections
                (StartQueryOnAll (we_L En) (we_net En) ''*'' (if pattern = [] then ''*'' else pattern)) w))"

definition OnQueryButtonClicked :: "window_env \<Rightarrow> window \<Rightarrow> window" where
  "OnQueryButtonClicked En w =
     (if IsAnyQueryActive (mw_connections w)
      then on_connections (StopQueryOnAll (we_L En) (we_net En)) w else MwStartQuery En w)"

definition MwServerListReceived :: "window_env \<Rightarrow> string list \<Rightarrow> string list \<Rightarrow> window \<Rightarrow> window" where
  "MwServerListReceived En serversToAdd serversToRemove w =
     (let servers = GetServerList (mw_settings w);
          selected = GetSelectedServerAddress En w;
          addresses = map (\<lambda>(a, c). c_serverAddress c) (cm_connections (mw_connections w));
          kept = fold (remove_server (we_L En) selected addresses) serversToRemove servers;
          removedCount = length servers - length kept;
          addedCount = length (fold (add_server (we_L En)) serversToAdd kept) - length kept
      in case OnServerListReceived (we_L En) (we_settings En) selected (mw_connections w)
                (serversToAdd, serversToRemove) (mw_settings w, disk w) of
           (settings, d) \<Rightarrow>
             let w1 = set_disk d (w\<lparr>mw_settings := settings\<rparr>)
             in if addedCount = 0 \<and> removedCount = 0
                then say LOG_INFORMATION_MESSAGE (QTrN (we_Q En)
                       ''Server list checked: %n server(s) listed, nothing new.'' (int (length serversToAdd))) w1
                else say LOG_INFORMATION_MESSAGE (QTrN (we_Q En) ''Server list updated: %n added'' (int addedCount) @
                       QTrN (we_Q En) '', %n removed.'' (int removedCount)) (PopulateServerList w1))"

subsection \<open>Talking\<close>

definition local_echo :: "string \<Rightarrow> string \<Rightarrow> ChatMessage" where
  "local_echo sender t = (chat_message LOG_LOCAL_USER_CHAT_MESSAGE t)\<lparr>senderName := sender, isFromLocalUser := True\<rparr>"

definition SendChatToEveryone :: "window_env \<Rightarrow> string \<Rightarrow> bool \<Rightarrow> window \<Rightarrow> window" where
  "SendChatToEveryone En t action w =
     (if \<not> IsAnyConnected (mw_connections w) then say LOG_ERROR_MESSAGE ''Not connected to a server.'' w
      else let w1 = on_connections (SendChatToAll (we_L En) (we_net En) t) w;
               echo = (local_echo (GetUserName (mw_settings w1))
                         (if action then drop (length BESHARE_ACTION_PREFIX) t else t))\<lparr>isAction := action\<rparr>
           in log_chat En echo (show_chat echo w1))"

definition send_private :: "window_env \<Rightarrow> string \<Rightarrow> ResolvedUser \<Rightarrow> window \<Rightarrow> window" where
  "send_private En t user w =
     (case ru_connection user of
        None \<Rightarrow> w
      | Some a \<Rightarrow>
          let w1 = on_connections (at_connection a
                (SendChatText (we_L En) (net (we_net En) a) (ru_sessionId user) t)) w;
              echo = (local_echo (QArg (we_Q En) ''to %1'' (ru_displayName user)) t)\<lparr>isPrivate := True\<rparr>
          in log_chat En echo (show_chat echo w1))"

text \<open>What the commands that address users start with.\<close>

definition resolve_targets :: "window_env \<Rightarrow> string \<Rightarrow> (ResolvedUser list \<Rightarrow> window \<Rightarrow> window) \<Rightarrow> window \<Rightarrow> window" where
  "resolve_targets En target act w =
     (if \<not> IsAnyConnected (mw_connections w) then say LOG_ERROR_MESSAGE ''Not connected to a server.'' w
      else let targets = ResolveToUsers (we_L En) target (mw_connections w)
           in if targets = [] then say LOG_ERROR_MESSAGE (QArg (we_Q En) ''No such user: %1'' target) w
              else act targets w)"

definition SendPrivateMessage :: "window_env \<Rightarrow> string \<Rightarrow> string \<Rightarrow> window \<Rightarrow> window" where
  "SendPrivateMessage En target t = resolve_targets En target (fold (send_private En t))"

definition ping_user :: "window_env \<Rightarrow> ResolvedUser \<Rightarrow> window \<Rightarrow> window" where
  "ping_user En user w =
     (case ru_connection user of
        None \<Rightarrow> w
      | Some a \<Rightarrow> on_connections (at_connection a (SendPing (we_L En) (net (we_net En) a) (ru_sessionId user))) w)"

definition PingUser :: "window_env \<Rightarrow> string \<Rightarrow> window \<Rightarrow> window" where
  "PingUser En target = resolve_targets En target (fold (ping_user En))"

definition GetCompletionCandidates :: "qt_codec \<Rightarrow> (string list \<Rightarrow> string list) \<Rightarrow> string \<Rightarrow> window \<Rightarrow> string list" where
  "GetCompletionCandidates T sort_names typed w =
     sort_names (fold (\<lambda>(sid, user) candidates.
         let userName = ToQString T (u_userName user)
         in if userName \<noteq> [] \<and> occurs_at T userName (ToQString T typed) 0 \<and> userName \<notin> ToQString T ` set candidates
            then candidates @ [u_userName user] else candidates)
       (concat (map (\<lambda>(a, c). c_users c) (cm_connections (mw_connections w)))) [])"

subsection \<open>Downloads\<close>

definition start_from :: "window_env \<Rightarrow> ResultEntry list \<Rightarrow> nat \<times> connection \<Rightarrow> window \<Rightarrow> window" where
  "start_from En chosen ac w =
     (case ac of (a, c) \<Rightarrow>
        let forThisServer = map re_result (filter (\<lambda>e. re_connection e = a) chosen)
        in if forThisServer = [] then w
           else on_downloads (StartDownloads (we_L En) (we_dm En) forThisServer (c_users c) (c_localSessionId c)
                  (GetUserName (mw_settings w))) w)"

definition DownloadSelectedResults :: "window_env \<Rightarrow> window \<Rightarrow> window" where
  "DownloadSelectedResults En w =
     (if mw_selectedResults w = [] then say LOG_WARNING_MESSAGE ''Select something in the results list first.'' w
      else let chosen = List.map_filter (\<lambda>row. GetEntryForRow row (rv_model (mw_results w))) (mw_selectedResults w);
               w1 = on_downloads (SetRetainFilePaths (GetRetainFilePaths (mw_settings w))
                      \<circ> SetDownloadDirectory (GetDownloadDirectory (we_settings En) (mw_settings w))) w
           in fold (start_from En chosen) (cm_connections (mw_connections w1)) w1)"

definition OnCancelSelectedTransfer :: "window_env \<Rightarrow> nat list \<Rightarrow> window \<Rightarrow> window" where
  "OnCancelSelectedTransfer En rows = fold (\<lambda>row. on_downloads (AbortDownload (we_dm En) row)) rows"

definition OnClearFinishedTransfers :: "window \<Rightarrow> window" where
  "OnClearFinishedTransfers = on_downloads ClearFinishedDownloads"

subsection \<open>Settings that become behaviour\<close>

text \<open>\<open>fNotifier\<close> is used without a check here.\<close>

definition set_notifier :: "bool \<Rightarrow> window \<Rightarrow> window option" where
  "set_notifier enabled w =
     (case mw_notifier w of None \<Rightarrow> None | Some n \<Rightarrow> Some (w\<lparr>mw_notifier := Some (NoSetEnabled enabled n)\<rparr>))"

definition OnToggleNotifications :: "bool \<Rightarrow> window \<Rightarrow> window option" where
  "OnToggleNotifications enabled w =
     (case set_notifier enabled (on_settings (SetNotificationsEnabled enabled) (w\<lparr>mw_notificationsChecked := enabled\<rparr>)) of
        None \<Rightarrow> None
      | Some w1 \<Rightarrow>
          Some (if enabled \<and> \<not> no_isAvailable (the (mw_notifier w1))
                then say LOG_WARNING_MESSAGE ''No notification service is running on this desktop, so nothing will appear.'' w1
                else w1))"

definition check_notifications :: "bool \<Rightarrow> window \<Rightarrow> window option" where
  "check_notifications b w = (if b = mw_notificationsChecked w then Some w else OnToggleNotifications b w)"

text \<open>The part of \<open>_ApplySettings\<close> behind the notifier, in its order.\<close>

definition apply_connections :: "window_env \<Rightarrow> message \<Rightarrow> connection_manager \<Rightarrow> connection_manager" where
  "apply_connections En s =
     CmSetFirewalled (we_L En) (we_net En) (GetFirewalled s)
     \<circ> CmSetLocalUserStatus (we_L En) (we_net En) (GetUserStatus s)
     \<circ> CmSetLocalUserName (we_L En) (we_net En) (GetUserName s)"

definition apply_downloads :: "window_env \<Rightarrow> message \<Rightarrow> download_manager \<Rightarrow> download_manager" where
  "apply_downloads En s =
     SetAutoClearFinished (GetAutoClearFinishedTransfers s) \<circ> SetDmRateLimit (GetMaxDownloadRate s)
     \<circ> SetMaxSimultaneousDownloads (GetMaxSimultaneousDownloads s) \<circ> SetRetainFilePaths (GetRetainFilePaths s)
     \<circ> SetDownloadDirectory (GetDownloadDirectory (we_settings En) s)"

definition apply_uploads :: "message \<Rightarrow> upload_server \<Rightarrow> upload_server" where
  "apply_uploads s = SetUpRateLimit (GetMaxUploadRate s) \<circ> SetMaxSimultaneousUploads (GetMaxSimultaneousUploads s)"

definition apply_logger :: "settings_env \<Rightarrow> message \<Rightarrow> chat_logger \<Rightarrow> chat_logger" where
  "apply_logger V s =
     SetEnabled (GetChatLoggingEnabled s) \<circ> SetServerName (GetServerAddress s) \<circ> ClSetLogDirectory (GetLogDirectory V s)"

definition ApplySettings :: "window_env \<Rightarrow> window \<Rightarrow> window option" where
  "ApplySettings En w =
     (let s = mw_settings w;
          w1 = on_uploads (apply_uploads s) (on_downloads (apply_downloads En s) (on_connections (apply_connections En s) w))
      in case set_notifier (GetNotificationsEnabled s) w1 of
           None \<Rightarrow> None
         | Some w2 \<Rightarrow>
             let w3 = w2\<lparr>mw_fontPointSize := GetChatFontPointSize s,
                         mw_chatLogger := apply_logger (we_settings En) s (mw_chatLogger w2),
                         mw_ignoreFilter := SetPattern (we_L En) (GetIgnorePattern s),
                         mw_watchFilter := SetPattern (we_L En) (GetWatchPattern s),
                         mw_autoPrivFilter := SetPattern (we_L En) (GetAutoPrivPattern s),
                         mw_aliases := fold (\<lambda>(name, val). SetAlias (we_L En) name val) (GetAliases s)
                                         (ClearAliases (mw_aliases w2))\<rparr>
             in Some ((PopulateNameAndStatusLists En w3)\<lparr>mw_userStatus := GetUserStatus s\<rparr>))"

text \<open>\<open>apply_dialog\<close> is what the settings dialog that was accepted writes into the settings.\<close>

definition OnShowSettings :: "window_env \<Rightarrow> (message \<Rightarrow> message) \<Rightarrow> window \<Rightarrow> window option" where
  "OnShowSettings En apply_dialog w =
     (let wasSharing = GetFileSharingEnabled (mw_settings w)
      in case ApplySettings En (on_settings apply_dialog w) of
           None \<Rightarrow> None
         | Some w1 \<Rightarrow>
             let isSharing = GetFileSharingEnabled (mw_settings w1);
                 w2 = (if wasSharing \<or> isSharing
                       then let w2 = StopSharing En w1
                            in if isSharing \<and> IsAnyConnected (mw_connections w2) then StartSharing En w2 else w2
                       else w1);
                 w3 = check_file_sharing En isSharing w2
             in map_option (save_settings En) (check_notifications (GetNotificationsEnabled (mw_settings w3)) w3))"

definition OnConnectAdditionalServer :: "window_env \<Rightarrow> string \<Rightarrow> window \<Rightarrow> window option" where
  "OnConnectAdditionalServer En entered w =
     (let serverAddress = QTrimmed (we_Q En) entered
      in if serverAddress = [] then Some w
         else if FindByAddress (we_L En) serverAddress (mw_connections w) \<noteq> None
         then Some (say LOG_WARNING_MESSAGE (QArg (we_Q En) ''Already connected to %1.'' serverAddress) w)
         else case AddConnection (we_L En) (we_net En) serverAddress kDefaultServerPort (mw_connections w) of
           (connection, m) \<Rightarrow>
             let w1 = w\<lparr>mw_connections := m\<rparr>
             in if connection = None then Some (say LOG_ERROR_MESSAGE ''Too many connections already.'' w1)
                else map_option (\<lambda>w2. UpdateMultiServerUi (SaveExtraServers w2)) (ApplySettings En w1))"

definition MwSetUserStatus :: "window_env \<Rightarrow> string \<Rightarrow> window \<Rightarrow> window" where
  "MwSetUserStatus En st w =
     (let w1 = on_settings (RememberStatus (we_L En) st \<circ> SetUserStatus st)
                 (on_connections (CmSetLocalUserStatus (we_L En) (we_net En) st) w)
      in say LOG_INFORMATION_MESSAGE (QArg (we_Q En) ''Status set to %1.'' st) (w1\<lparr>mw_userStatus := st\<rparr>))"

definition OnStatusChanged :: "window_env \<Rightarrow> string \<Rightarrow> window \<Rightarrow> window" where
  "OnStatusChanged En entered w =
     (let st = QTrimmed (we_Q En) entered; w0 = w\<lparr>mw_userStatus := entered\<rparr>
      in if st = [] then w0
         else on_settings (RememberStatus (we_L En) st \<circ> SetUserStatus st)
                (on_connections (CmSetLocalUserStatus (we_L En) (we_net En) st) w0))"

subsection \<open>Commands\<close>

text \<open>
  A filter command is given one of the three filters, by its two accessors, and the setter of its setting.
\<close>

definition HandleFilterCommand ::
  "window_env \<Rightarrow> (window \<Rightarrow> string) \<Rightarrow> (string \<Rightarrow> window \<Rightarrow> window) \<Rightarrow> (string \<Rightarrow> message \<Rightarrow> message) \<Rightarrow>
   string \<Rightarrow> string \<Rightarrow> window \<Rightarrow> window" where
  "HandleFilterCommand En filter_of put setter filterName argument w =
     (if argument = []
      then say LOG_INFORMATION_MESSAGE
             (if filter_of w = [] then QArg (we_Q En) ''%1 list is empty.'' filterName
              else QArgs (we_Q En) ''%1 list: %2'' [filterName, filter_of w]) w
      else if argument = ''-''
      then let w1 = put (ClearFilter (filter_of w)) w
           in say LOG_INFORMATION_MESSAGE (QArg (we_Q En) ''%1 list cleared.'' filterName)
                (save_settings En (on_settings (setter (filter_of w1)) w1))
      else let w1 = put (SetPattern (we_L En) argument) w
           in say LOG_INFORMATION_MESSAGE (QArgs (we_Q En) ''%1 list set to: %2'' [filterName, filter_of w1])
                (save_settings En (on_settings (setter (filter_of w1)) w1)))"

definition save_aliases :: "window_env \<Rightarrow> window \<Rightarrow> window" where
  "save_aliases En w = save_settings En (on_settings (SetAliases (mw_aliases w)) w)"

definition HandleAliasCommand :: "window_env \<Rightarrow> ChatCommand \<Rightarrow> window \<Rightarrow> window" where
  "HandleAliasCommand En command w =
     (if cmd_type command = CHAT_COMMAND_UNALIAS
      then if cmd_argument command = [] then say LOG_WARNING_MESSAGE ''Usage: /unalias <name>'' w
           else case RemoveAlias (we_L En) (cmd_argument command) (mw_aliases w) of (found, aliases) \<Rightarrow>
                  save_aliases En (say LOG_INFORMATION_MESSAGE
                    (QArg (we_Q En) (if found then ''Alias /%1 removed.'' else ''No alias called /%1.'')
                      (cmd_argument command)) (w\<lparr>mw_aliases := aliases\<rparr>))
      else if cmd_target command = []
      then if mw_aliases w = []
           then say LOG_INFORMATION_MESSAGE ''No aliases defined. Try /alias hi /me waves'' w
           else fold (\<lambda>(name, val). say LOG_INFORMATION_MESSAGE (QArgs (we_Q En) ''  /%1 -> %2'' [name, val]))
                  (mw_aliases w) (say LOG_INFORMATION_MESSAGE ''Aliases:'' w)
      else if cmd_argument command = []
      then say LOG_WARNING_MESSAGE ''Usage: /alias <name> <what it expands to>'' w
      else save_aliases En (say LOG_INFORMATION_MESSAGE
             (QArgs (we_Q En) ''/%1 now expands to: %2'' [cmd_target command, cmd_argument command])
             (w\<lparr>mw_aliases := SetAlias (we_L En) (cmd_target command) (cmd_argument command) (mw_aliases w)\<rparr>)))"

definition help_line :: "window_env \<Rightarrow> string \<times> string option \<times> string \<Rightarrow> string" where
  "help_line En entry =
     (case entry of (word, arguments, description) \<Rightarrow>
        QArg (we_Q En) ''  /%1'' word @
        (case arguments of None \<Rightarrow> [] | Some a \<Rightarrow> QArg (we_Q En) '' %1'' a) @
        QArg (we_Q En) '' -- %1'' description)"

definition ShowCommandHelp :: "window_env \<Rightarrow> window \<Rightarrow> window" where
  "ShowCommandHelp En w =
     fold (\<lambda>entry. say LOG_INFORMATION_MESSAGE (help_line En entry)) GetHelpEntries
       (say LOG_INFORMATION_MESSAGE ''Available commands:'' w)"

definition connection_line :: "window_env \<Rightarrow> connection \<Rightarrow> string" where
  "connection_line En c =
     (if \<not> IsConnected c then QArg (we_Q En) ''  %1 -- not connected'' (c_serverAddress c)
      else QArg (we_Q En) (QArg (we_Q En) (QArg (we_Q En)
             (QTrN (we_Q En) ''  %1:%2 -- session %3, %n user(s)'' (int (GetUserCount (c_users c))))
             (c_serverAddress c)) (decimal (unat (c_serverPort c)))) (c_localSessionId c))"

definition ShowConnectionInformation :: "window_env \<Rightarrow> window \<Rightarrow> window" where
  "ShowConnectionInformation En w =
     (if \<not> IsAnyConnected (mw_connections w) then say LOG_INFORMATION_MESSAGE ''Not connected.'' w
      else fold (\<lambda>(a, c). say LOG_INFORMATION_MESSAGE (connection_line En c)) (cm_connections (mw_connections w))
             (say LOG_INFORMATION_MESSAGE (QArg (we_Q En) ''Connected as %1:'' (GetUserName (mw_settings w))) w))"

text \<open>Closing: what the window stores, and the shutting down of its components.\<close>

definition put_bytes :: "string \<Rightarrow> uint8 list \<Rightarrow> message \<Rightarrow> message" where
  "put_bytes fieldName bs m = add_data (remove_name m fieldName) fieldName bs"

definition kSettingsFieldWindowGeometry :: string where "kSettingsFieldWindowGeometry = ''qt:windowgeometry''"
definition kSettingsFieldSplitterState :: string where "kSettingsFieldSplitterState = ''qt:splitterstate''"
definition kSettingsFieldShowTimestamps :: string where "kSettingsFieldShowTimestamps = ''qt:showtimestamps''"
definition kSettingsFieldShowHostColumn :: string where "kSettingsFieldShowHostColumn = ''qt:showhostcolumn''"

definition SaveColumnLayouts :: "(string \<Rightarrow> uint8 list) \<Rightarrow> message \<Rightarrow> message" where
  "SaveColumnLayouts layouts =
     SetColumnLayout ''transfers.v2'' (Some (layouts ''transfers''))
     \<circ> SetColumnLayout ''users.v2'' (Some (layouts ''users''))
     \<circ> SetColumnLayout ''results.v2'' (Some (layouts ''results''))"

text \<open>The views that are handed a stored state, by name, with the state.\<close>

definition RestoreColumnLayouts :: "message \<Rightarrow> (string \<times> uint8 list) list" where
  "RestoreColumnLayouts m =
     List.map_filter (\<lambda>(name, view).
         case GetColumnLayout name m of None \<Rightarrow> None | Some bs \<Rightarrow> if bs = [] then None else Some (view, bs))
       [(''results.v2'', ''results''), (''users.v2'', ''users''), (''transfers'', ''transfers'')]"

definition SaveSettings :: "window_env \<Rightarrow> window \<Rightarrow> window" where
  "SaveSettings En w =
     (let s1 = SetServerAddress (GetSelectedServerAddress En w) (mw_settings w);
          s2 = SetServerPort (mw_serverPort w) s1;
          s3 = SetUserName (MwGetUserName En w) s2;
          s4 = SetUserStatus (GetUserStatus s3) s3;
          s5 = put_bytes kSettingsFieldWindowGeometry (we_geometry En) s4;
          s6 = put_bytes kSettingsFieldSplitterState (we_splitter En) s5;
          w1 = SaveExtraServers (w\<lparr>mw_settings := SaveColumnLayouts (we_layouts En) s6\<rparr>);
          s7 = replace_bool (mw_settings w1) kSettingsFieldShowTimestamps (mw_showTimestamps w1);
          s8 = replace_bool s7 kSettingsFieldShowHostColumn (mw_showHostColumn w1)
      in save_settings En (w1\<lparr>mw_settings := s8\<rparr>))"

definition closeEvent :: "window_env \<Rightarrow> window \<Rightarrow> window" where
  "closeEvent En w =
     (let w1 = SaveSettings En w;
          w2 = on_downloads (AbortAll (we_dm En) \<circ> SetDmListener False) w1;
          w3 = on_uploads (SetUpListener False) w2;
          w4 = w3\<lparr>mw_shareScanner := StopScan (mw_shareScanner w3)\<rparr>;
          w5 = on_connections (DisconnectAll \<circ> CmSetListener False) (on_uploads StopListening w4)
      in w5\<lparr>mw_closed := True\<rparr>)"

text \<open>
  The setters of the three filters, and the dispatch over the command.
\<close>

definition set_ignore :: "string \<Rightarrow> window \<Rightarrow> window" where "set_ignore p w = w\<lparr>mw_ignoreFilter := p\<rparr>"
definition set_watch :: "string \<Rightarrow> window \<Rightarrow> window" where "set_watch p w = w\<lparr>mw_watchFilter := p\<rparr>"
definition set_autopriv :: "string \<Rightarrow> window \<Rightarrow> window" where "set_autopriv p w = w\<lparr>mw_autoPrivFilter := p\<rparr>"

definition change_nick :: "window_env \<Rightarrow> string \<Rightarrow> window \<Rightarrow> window" where
  "change_nick En name w =
     (if name = [] then say LOG_WARNING_MESSAGE ''Usage: /nick <name>'' w
      else let w1 = on_settings (RememberUserName (we_L En) name \<circ> SetUserName name)
                      (on_connections (CmSetLocalUserName (we_L En) (we_net En) name) w)
           in say LOG_INFORMATION_MESSAGE (QArg (we_Q En) ''You are now known as %1.'' name)
                (PopulateNameAndStatusLists En (w1\<lparr>mw_userName := name\<rparr>)))"

definition run_command :: "window_env \<Rightarrow> ChatCommand \<Rightarrow> window \<Rightarrow> window" where
  "run_command En command w =
     (let argument = cmd_argument command; target = cmd_target command
      in case cmd_type command of
           CHAT_COMMAND_NONE \<Rightarrow> SendChatToEveryone En argument False w
         | CHAT_COMMAND_ACTION \<Rightarrow> SendChatToEveryone En argument True w
         | CHAT_COMMAND_NICK \<Rightarrow> change_nick En argument w
         | CHAT_COMMAND_STATUS \<Rightarrow> MwSetUserStatus En (if argument \<noteq> [] then argument else ''here'') w
         | CHAT_COMMAND_AWAY \<Rightarrow>
             MwSetUserStatus En (if argument \<noteq> [] then argument else GetAwayStatus (mw_settings w)) w
         | CHAT_COMMAND_MESSAGE \<Rightarrow>
             if target = [] \<or> argument = [] then say LOG_WARNING_MESSAGE ''Usage: /msg <user> <text>'' w
             else SendPrivateMessage En target argument w
         | CHAT_COMMAND_PING \<Rightarrow>
             if target = [] then say LOG_WARNING_MESSAGE ''Usage: /ping <user>'' w else PingUser En target w
         | CHAT_COMMAND_CONNECT \<Rightarrow>
             ConnectToConfiguredServer En (if argument \<noteq> [] then w\<lparr>mw_serverAddress := argument\<rparr> else w)
         | CHAT_COMMAND_DISCONNECT \<Rightarrow> on_connections DisconnectAll w
         | CHAT_COMMAND_START_QUERY \<Rightarrow>
             MwStartQuery En (if argument \<noteq> [] then w\<lparr>mw_queryField := argument\<rparr> else w)
         | CHAT_COMMAND_STOP_QUERY \<Rightarrow> UpdateQueryWidgets (on_connections (StopQueryOnAll (we_L En) (we_net En)) w)
         | CHAT_COMMAND_GET \<Rightarrow> DownloadSelectedResults En w
         | CHAT_COMMAND_IGNORE \<Rightarrow>
             HandleFilterCommand En mw_ignoreFilter set_ignore SetIgnorePattern ''Ignore'' argument w
         | CHAT_COMMAND_WATCH \<Rightarrow>
             HandleFilterCommand En mw_watchFilter set_watch SetWatchPattern ''Watch'' argument w
         | CHAT_COMMAND_AUTOPRIV \<Rightarrow>
             HandleFilterCommand En mw_autoPrivFilter set_autopriv SetAutoPrivPattern ''Always-notify'' argument w
         | CHAT_COMMAND_ALIAS \<Rightarrow> HandleAliasCommand En command w
         | CHAT_COMMAND_UNALIAS \<Rightarrow> HandleAliasCommand En command w
         | CHAT_COMMAND_CLEAR \<Rightarrow> w\<lparr>mw_chatLog := []\<rparr>
         | CHAT_COMMAND_HELP \<Rightarrow> ShowCommandHelp En w
         | CHAT_COMMAND_INFO \<Rightarrow> ShowConnectionInformation En w
         | CHAT_COMMAND_QUIT \<Rightarrow> closeEvent En w
         | CHAT_COMMAND_UNKNOWN \<Rightarrow>
             say LOG_ERROR_MESSAGE
               (QArg (we_Q En) ''Unknown command \"/%1\". Type /help for a list.'' (commandName command)) w)"

definition HandleUserInput :: "window_env \<Rightarrow> string \<Rightarrow> window \<Rightarrow> window" where
  "HandleUserInput En input w =
     (let expanded = Expand (we_L En) (mw_aliases w) input
      in run_command En (Parse (we_L En) expanded) w)"

definition OnInputReturnPressed :: "window_env \<Rightarrow> window \<Rightarrow> window" where
  "OnInputReturnPressed En w =
     (let input = il_text (mw_input w); w1 = w\<lparr>mw_input := AcceptCurrentLine (mw_input w)\<rparr>
      in if QTrimmed (we_Q En) input = [] then w1 else HandleUserInput En input w1)"

definition OnUserDoubleClicked :: "window_env \<Rightarrow> string \<Rightarrow> window \<Rightarrow> window" where
  "OnUserDoubleClicked En userName w =
     (if userName = [] then w
      else let line = set_text (QArg (we_Q En) ''/msg %1 '' userName) (mw_input w)
           in w\<lparr>mw_input := set_cursor (length (il_text line)) line\<rparr>)"

subsection \<open>What the components report\<close>

definition notify_user :: "window_env \<Rightarrow> category \<Rightarrow> string \<Rightarrow> string \<Rightarrow> window \<Rightarrow> window" where
  "notify_user En cat summary body w = w\<lparr>mw_notifier := map_option (Notify (we_notify En) cat summary body) (mw_notifier w)\<rparr>"

definition MaybeNotifyAboutChat :: "window_env \<Rightarrow> ChatMessage \<Rightarrow> window \<Rightarrow> window" where
  "MaybeNotifyAboutChat En m w =
     (if mw_notifier w = None \<or> isFromLocalUser m then w
      else if msg_type m \<noteq> LOG_REMOTE_USER_CHAT_MESSAGE then w
      else let Q = we_Q En; sender = senderName m
           in if Matches (we_L En) (mw_autoPrivFilter w) (senderName m) (senderSessionId m)
              then notify_user En CATEGORY_CHAT (QArg Q ''%1 says'' sender) (msg_text m) w
              else if we_looking En then w
              else if Matches (we_L En) (mw_watchFilter w) (senderName m) (senderSessionId m)
              then notify_user En CATEGORY_CHAT (QArg Q ''%1 says'' sender) (msg_text m) w
              else if isPrivate m
              then notify_user En CATEGORY_CHAT (QArg Q ''Private message from %1'' sender) (msg_text m) w
              else if MentionsLocalUser (we_T En) (GetUserName (mw_settings w)) (msg_text m)
              then notify_user En CATEGORY_CHAT (QArg Q ''%1 mentioned you'' sender) (msg_text m) w
              else w)"

definition displayed_message :: "window_env \<Rightarrow> nat \<Rightarrow> ChatMessage \<Rightarrow> window \<Rightarrow> ChatMessage" where
  "displayed_message En a m w =
     (let d1 = (if length (cm_connections (mw_connections w)) > 1 \<and> senderName m \<noteq> []
                then m\<lparr>senderName := senderName m @ ''@'' @ c_serverAddress (connection_at w a)\<rparr> else m)
      in if msg_type m = LOG_REMOTE_USER_CHAT_MESSAGE \<and>
            Matches (we_L En) (mw_watchFilter w) (senderName m) (senderSessionId m)
         then d1\<lparr>isHighlighted := True\<rparr> else d1)"

definition OnChatMessage :: "window_env \<Rightarrow> nat \<Rightarrow> ChatMessage \<Rightarrow> window \<Rightarrow> window" where
  "OnChatMessage En a m w =
     (if msg_type m = LOG_REMOTE_USER_CHAT_MESSAGE \<and>
         Matches (we_L En) (mw_ignoreFilter w) (senderName m) (senderSessionId m) then w
      else let displayed = displayed_message En a m w
           in MaybeNotifyAboutChat En m (log_chat En displayed (show_chat displayed w)))"

definition on_results :: "(result_view \<Rightarrow> result_view) \<Rightarrow> window \<Rightarrow> window" where
  "on_results f w = w\<lparr>mw_results := f (mw_results w)\<rparr>"

definition flush_results :: "window_env \<Rightarrow> window \<Rightarrow> window" where
  "flush_results En w =
     (let w1 = on_results (OnFlushPendingResults (we_T En) (user_names (mw_connections w))) w
      in if rv_pending (mw_results w) \<noteq> [] then UpdateResultCount En w1 else w1)"

definition OnStateChanged :: "window_env \<Rightarrow> nat \<Rightarrow> ConnectionState \<Rightarrow> window \<Rightarrow> window" where
  "OnStateChanged En a st w =
     (let w1 = (if st = CONNECTION_DISCONNECTED
                then (on_results (WConnectionStateChanged (we_T En) a st)
                        (w\<lparr>mw_users := RemoveUsersForConnection a (mw_users w)\<rparr>))\<lparr>mw_title := HITUX_SHARE_NAME\<rparr>
                else w)
      in UpdateStatusBar En (UpdateMultiServerUi (UpdateQueryWidgets (UpdateConnectionWidgets w1))))"

definition OnSessionIdAssigned :: "window_env \<Rightarrow> nat \<Rightarrow> string \<Rightarrow> window \<Rightarrow> window" where
  "OnSessionIdAssigned En a sessionId w =
     (let address = c_serverAddress (connection_at w a);
          w1 = PopulateServerList (on_settings (RememberServer (we_L En) address) w);
          w2 = w1\<lparr>mw_title := QArgs (we_Q En) ''%1 -- %2 on %3'' [HITUX_SHARE_NAME, GetUserName (mw_settings w1), address]\<rparr>
      in StartSharing En (say LOG_INFORMATION_MESSAGE (QArg (we_Q En) ''You are session %1.'' sessionId) w2))"

definition OnUserUpdated :: "window_env \<Rightarrow> nat \<Rightarrow> UserRecord \<Rightarrow> bool \<Rightarrow> window \<Rightarrow> window" where
  "OnUserUpdated En a user isNewUser w =
     (let w1 = (on_results WUserUpdated
                 (w\<lparr>mw_users := UlUpdateUser a (c_serverAddress (connection_at w a)) user (mw_users w)\<rparr>))\<lparr>mw_flushTimer := True\<rparr>;
          w2 = (if isNewUser
                then show_chat (chat_message LOG_USER_EVENT_MESSAGE
                       (QArg (we_Q En) ''%1 has joined.'' (GetDisplayName user))) w1
                else w1)
      in UpdateStatusBar En w2)"

definition OnUserLeft :: "window_env \<Rightarrow> nat \<Rightarrow> UserRecord \<Rightarrow> window \<Rightarrow> window" where
  "OnUserLeft En a user w =
     (let w1 = UpdateResultCount En (on_results (WUserLeft (we_T En) a user)
                 (w\<lparr>mw_users := UlRemoveUser a (u_sessionId user) (mw_users w)\<rparr>))
      in UpdateStatusBar En (show_chat (chat_message LOG_USER_EVENT_MESSAGE
           (QArg (we_Q En) ''%1 has left.'' (GetDisplayName user))) w1))"

definition OnPingReply :: "window_env \<Rightarrow> UserRecord \<Rightarrow> uint64 \<Rightarrow> string \<Rightarrow> window \<Rightarrow> window" where
  "OnPingReply En user roundTripMicroseconds peerVersion w =
     (let t = QArg (we_Q En) (QArg (we_Q En) ''Ping reply from %1: %2 ms'' (GetDisplayName user))
                (decimal (unat (roundTripMicroseconds div 1000)))
      in say LOG_INFORMATION_MESSAGE (if peerVersion \<noteq> [] then t @ QArg (we_Q En) '' (%1)'' peerVersion else t) w)"

definition on_callback :: "window_env \<Rightarrow> nat \<Rightarrow> conn_event \<Rightarrow> window \<Rightarrow> window" where
  "on_callback En a ev w =
     (case ev of
        ConnectionStateChanged st \<Rightarrow> OnStateChanged En a st w
      | LocalSessionIdAssigned sessionId hostName \<Rightarrow> OnSessionIdAssigned En a sessionId w
      | UserUpdated user isNewUser \<Rightarrow> OnUserUpdated En a user isNewUser w
      | UserLeft user \<Rightarrow> OnUserLeft En a user w
      | ChatMessageReceived m \<Rightarrow> OnChatMessage En a m w
      | QueryResultAdded result \<Rightarrow>
          (on_results (WQueryResultAdded a (c_serverAddress (connection_at w a))
             (GetDisplayNameForSession (c_users (connection_at w a)) (fr_sessionId result)) result) w)\<lparr>mw_flushTimer := True\<rparr>
      | QueryResultRemoved sessionId fileName \<Rightarrow>
          UpdateResultCount En (on_results (WQueryResultRemoved (we_T En) a sessionId fileName) w)
      | QueryResultsCleared \<Rightarrow> UpdateResultCount En (on_results (WQueryResultsCleared (we_T En) a) w)
      | QuerySweepStateChanged isSweeping \<Rightarrow>
          UpdateResultCount En (UpdateQueryWidgets (if isSweeping then w else flush_results En w))
      | PingReplyReceived user t version \<Rightarrow> OnPingReply En user t version w)"

definition OnDownloadReport :: "window_env \<Rightarrow> LogMessageType \<Rightarrow> string \<Rightarrow> window \<Rightarrow> window" where
  "OnDownloadReport En ty t w =
     (let w1 = say ty t w
      in if ty = LOG_INFORMATION_MESSAGE \<and> mw_notifier w1 \<noteq> None \<and> \<not> we_looking En \<and>
            starts_with t ''Finished downloading''
         then notify_user En CATEGORY_TRANSFER ''Download finished'' t w1 else w1)"

definition on_upload_event :: "window_env \<Rightarrow> up_event \<Rightarrow> window \<Rightarrow> window" where
  "on_upload_event En ev w =
     (case ev of UploadsChanged \<Rightarrow> UpdateStatusBar En w | UploadReport ty t \<Rightarrow> say ty t w)"

definition OnIdleTimerFired :: "window_env \<Rightarrow> window \<Rightarrow> window" where
  "OnIdleTimerFired En w =
     DrainShareScanner En (on_downloads DmPerformIdleTasks (on_connections (CmPerformIdleTasks (we_L En) (we_net En)) w))"

definition OnFlushTimer :: "window_env \<Rightarrow> window \<Rightarrow> window" where
  "OnFlushTimer En w = flush_results En (w\<lparr>mw_flushTimer := False\<rparr>)"

subsection \<open>Opening the window\<close>

definition blank_window :: "message \<Rightarrow> world \<Rightarrow> window" where
  "blank_window settings d =
     \<lparr> mw_settings = settings, mw_connections = new_connections, mw_downloads = new_manager d,
       mw_uploadServer = new_server, mw_shareScanner = new_scanner, mw_sharedFiles = [], mw_sharedFileCount = 0,
       mw_ignoreFilter = [], mw_watchFilter = [], mw_autoPrivFilter = [], mw_aliases = [],
       mw_chatLogger = new_logger, mw_notifier = None, mw_updater = new_updater,
       mw_users = new_user_list, mw_results = new_result_view, mw_flushTimer = False, mw_chatLog = [],
       mw_fontPointSize = 0, mw_input = new_input_line,
       mw_serverItems = [], mw_serverAddress = [], mw_serverPort = kDefaultServerPort,
       mw_userNameItems = [], mw_userName = [], mw_userStatusItems = status_presets, mw_userStatus = ''here'',
       mw_queryField = [], mw_selectedResults = [],
       mw_fileSharingChecked = False, mw_notificationsChecked = True, mw_showTimestamps = True,
       mw_showHostColumn = False, mw_title = HITUX_SHARE_NAME, mw_connectButton = ''Connect'', mw_fieldsEnabled = True,
       mw_queryButton = ''Search'', mw_queryEnabled = True, mw_resultCount = [], mw_showServer = True,
       mw_statusLabel = [], mw_shareLabel = [], mw_userCountLabel = [], mw_closed = False \<rparr>"

definition LoadSettings :: "window_env \<Rightarrow> window \<Rightarrow> window option" where
  "LoadSettings En w =
     (let w1 = PopulateNameAndStatusLists En ((PopulateServerList w)\<lparr>mw_serverPort := GetServerPort (mw_settings w)\<rparr>);
          w2 = w1\<lparr>mw_showTimestamps := found_or True (find_bool (mw_settings w1) kSettingsFieldShowTimestamps)\<rparr>;
          w3 = check_file_sharing En (GetFileSharingEnabled (mw_settings w2)) w2
      in map_option (\<lambda>w4. w4\<lparr>mw_showHostColumn := found_or False (find_bool (mw_settings w4) kSettingsFieldShowHostColumn)\<rparr>)
           (check_notifications (GetNotificationsEnabled (mw_settings w3)) w3))"

text \<open>The rest of the constructor, after the widgets are built and \<open>_LoadSettings\<close> has run.\<close>

definition finish_opening :: "window_env \<Rightarrow> window \<Rightarrow> window option" where
  "finish_opening En w =
     (case GetInstallId (we_settings En) (mw_settings w) of (installId, settings) \<Rightarrow>
        let w1 = on_connections (CmSetInstallId installId \<circ> CmSetListener True) (w\<lparr>mw_settings := settings\<rparr>);
            w2 = on_connections (CmSetLocalUserStatus (we_L En) (we_net En) (GetUserStatus settings)
                   \<circ> CmSetLocalUserName (we_L En) (we_net En) (GetUserName settings)) w1;
            w3 = on_uploads (SetUpListener True) (on_downloads (SetDmListener True)
                   (w2\<lparr>mw_notifier := Some (new_notifier (we_notifyAvailable En))\<rparr>))
        in case ApplySettings En w3 of
             None \<Rightarrow> None
           | Some w4 \<Rightarrow>
               let w5 = UpdateStatusBar En (UpdateQueryWidgets (UpdateConnectionWidgets w4));
                   w6 = say LOG_INFORMATION_MESSAGE (QArgs (we_Q En) ''%1 %2 -- type /help for a list of commands.''
                          [HITUX_SHARE_NAME, HITUX_SHARE_VERSION_STRING]) w5;
                   w7 = RestoreExtraServers En w6;
                   w8 = (if GetAutoUpdateServerList (mw_settings w7)
                         then w7\<lparr>mw_updater := StartUpdate (mw_updater w7)\<rparr> else w7)
               in Some (if GetConnectOnStartup (mw_settings w8) then ConnectToConfiguredServer En w8 else w8))"

definition open_window :: "window_env \<Rightarrow> world \<Rightarrow> window option" where
  "open_window En d =
     (case LoadSettings En (blank_window (snd (Load (we_settings En) d (new_message 0))) d) of
        None \<Rightarrow> None
      | Some w \<Rightarrow> finish_opening En w)"

end
