(* ===== verification/WindowLaws.thy ===== *)
theory WindowLaws
  imports Window Publishing ServersLaws ManagerLaws UploadLaws
begin

section \<open>What the window does with its components\<close>

text \<open>
  Properties of the handlers of the main window over the laws of the components they drive: commands end to
  end, sharing, the servers that are stored, and the opening and closing of the window.
\<close>

subsection \<open>Frames\<close>

text \<open>Which handlers leave a part of the window alone.\<close>

lemma small_steps [simp]:
  "mw_settings (say ty t w) = mw_settings w" "mw_connections (say ty t w) = mw_connections w"
  "mw_downloads (say ty t w) = mw_downloads w" "mw_uploadServer (say ty t w) = mw_uploadServer w"
  "mw_shareScanner (say ty t w) = mw_shareScanner w" "mw_notifier (say ty t w) = mw_notifier w"
  "mw_notificationsChecked (say ty t w) = mw_notificationsChecked w" "mw_userName (say ty t w) = mw_userName w"
  "mw_sharedFiles (say ty t w) = mw_sharedFiles w" "mw_sharedFileCount (say ty t w) = mw_sharedFileCount w"
  "mw_fileSharingChecked (say ty t w) = mw_fileSharingChecked w" "mw_chatLogger (say ty t w) = mw_chatLogger w"
  "mw_ignoreFilter (say ty t w) = mw_ignoreFilter w" "mw_aliases (say ty t w) = mw_aliases w"
  by (simp_all add: say_def)

lemma on_settings_simps [simp]:
  "mw_settings (on_settings f w) = f (mw_settings w)" "mw_connections (on_settings f w) = mw_connections w"
  "mw_downloads (on_settings f w) = mw_downloads w" "mw_uploadServer (on_settings f w) = mw_uploadServer w"
  "mw_shareScanner (on_settings f w) = mw_shareScanner w" "mw_notifier (on_settings f w) = mw_notifier w"
  "mw_notificationsChecked (on_settings f w) = mw_notificationsChecked w" "mw_userName (on_settings f w) = mw_userName w"
  "mw_sharedFileCount (on_settings f w) = mw_sharedFileCount w"
  "mw_fileSharingChecked (on_settings f w) = mw_fileSharingChecked w" "mw_serverAddress (on_settings f w) = mw_serverAddress w"
  "mw_serverPort (on_settings f w) = mw_serverPort w" "mw_sharedFiles (on_settings f w) = mw_sharedFiles w"
  "mw_ignoreFilter (on_settings f w) = mw_ignoreFilter w" "mw_aliases (on_settings f w) = mw_aliases w"
  by (simp_all add: on_settings_def)

lemma on_connections_simps [simp]:
  "mw_settings (on_connections f w) = mw_settings w" "mw_connections (on_connections f w) = f (mw_connections w)"
  "mw_downloads (on_connections f w) = mw_downloads w" "mw_uploadServer (on_connections f w) = mw_uploadServer w"
  "mw_shareScanner (on_connections f w) = mw_shareScanner w" "mw_notifier (on_connections f w) = mw_notifier w"
  "mw_notificationsChecked (on_connections f w) = mw_notificationsChecked w"
  "mw_userName (on_connections f w) = mw_userName w" "mw_serverAddress (on_connections f w) = mw_serverAddress w"
  "mw_serverPort (on_connections f w) = mw_serverPort w" "mw_sharedFiles (on_connections f w) = mw_sharedFiles w"
  "mw_sharedFileCount (on_connections f w) = mw_sharedFileCount w"
  "mw_fileSharingChecked (on_connections f w) = mw_fileSharingChecked w"
  by (simp_all add: on_connections_def)

lemma on_downloads_simps [simp]:
  "mw_settings (on_downloads f w) = mw_settings w" "mw_connections (on_downloads f w) = mw_connections w"
  "mw_downloads (on_downloads f w) = f (mw_downloads w)" "mw_uploadServer (on_downloads f w) = mw_uploadServer w"
  "mw_shareScanner (on_downloads f w) = mw_shareScanner w" "mw_userName (on_downloads f w) = mw_userName w"
  "mw_notifier (on_downloads f w) = mw_notifier w" "mw_fileSharingChecked (on_downloads f w) = mw_fileSharingChecked w"
  "mw_sharedFiles (on_downloads f w) = mw_sharedFiles w" "mw_sharedFileCount (on_downloads f w) = mw_sharedFileCount w"
  by (simp_all add: on_downloads_def)

lemma on_uploads_simps [simp]:
  "mw_settings (on_uploads f w) = mw_settings w" "mw_connections (on_uploads f w) = mw_connections w"
  "mw_downloads (on_uploads f w) = mw_downloads w" "mw_uploadServer (on_uploads f w) = f (mw_uploadServer w)"
  "mw_shareScanner (on_uploads f w) = mw_shareScanner w" "mw_userName (on_uploads f w) = mw_userName w"
  "mw_notifier (on_uploads f w) = mw_notifier w" "mw_sharedFiles (on_uploads f w) = mw_sharedFiles w"
  "mw_sharedFileCount (on_uploads f w) = mw_sharedFileCount w"
  "mw_fileSharingChecked (on_uploads f w) = mw_fileSharingChecked w"
  by (simp_all add: on_uploads_def)

lemma disk_simps [simp]:
  "mw_settings (set_disk d w) = mw_settings w" "mw_connections (set_disk d w) = mw_connections w"
  "mw_uploadServer (set_disk d w) = mw_uploadServer w" "mw_shareScanner (set_disk d w) = mw_shareScanner w"
  "mw_settings (save_settings En w) = mw_settings w" "mw_connections (save_settings En w) = mw_connections w"
  "mw_uploadServer (save_settings En w) = mw_uploadServer w" "mw_ignoreFilter (save_settings En w) = mw_ignoreFilter w"
  "mw_ignoreFilter (set_disk d w) = mw_ignoreFilter w"
  by (simp_all add: set_disk_def save_settings_def)

lemma status_bar_simps [simp]:
  "mw_settings (UpdateStatusBar En w) = mw_settings w" "mw_connections (UpdateStatusBar En w) = mw_connections w"
  "mw_downloads (UpdateStatusBar En w) = mw_downloads w" "mw_uploadServer (UpdateStatusBar En w) = mw_uploadServer w"
  "mw_shareScanner (UpdateStatusBar En w) = mw_shareScanner w" "mw_notifier (UpdateStatusBar En w) = mw_notifier w"
  "mw_sharedFiles (UpdateStatusBar En w) = mw_sharedFiles w" "mw_userName (UpdateStatusBar En w) = mw_userName w"
  "mw_sharedFileCount (UpdateStatusBar En w) = mw_sharedFileCount w"
  "mw_fileSharingChecked (UpdateStatusBar En w) = mw_fileSharingChecked w"
  by (simp_all add: UpdateStatusBar_def)

lemma populate_simps [simp]:
  "mw_settings (PopulateServerList w) = mw_settings w" "mw_connections (PopulateServerList w) = mw_connections w"
  "mw_uploadServer (PopulateServerList w) = mw_uploadServer w" "mw_shareScanner (PopulateServerList w) = mw_shareScanner w"
  "mw_notifier (PopulateServerList w) = mw_notifier w"
  "mw_settings (PopulateNameAndStatusLists En w) = mw_settings w"
  "mw_connections (PopulateNameAndStatusLists En w) = mw_connections w"
  "mw_notifier (PopulateNameAndStatusLists En w) = mw_notifier w"
  "mw_userName (PopulateNameAndStatusLists En w) = (if mw_userName w = [] then GetUserName (mw_settings w) else mw_userName w)"
  by (simp_all add: PopulateServerList_def PopulateNameAndStatusLists_def)

subsection \<open>A window to try things on\<close>

definition demo_window_env :: window_env where
  "demo_window_env = \<lparr> we_L = ref_muscle, we_Q = ref_strings, we_T = ref_codec, we_net = demo_cm_env, we_dm = demo_dm_env,
     we_up = demo_up_env, we_scan = demo_env, we_scanCreated = True, we_settings = demo_settings_env,
     we_time = \<lparr> strftime_now = Some \<rparr>,
     we_notify = \<lparr> interface_valid = True, reply_id = (\<lambda>_. Some 1), toHtmlEscaped = (\<lambda>t. t) \<rparr>,
     we_notifyAvailable = True, we_looking = False, we_geometry = [], we_splitter = [], we_layouts = (\<lambda>_. []),
     we_isSpace = (\<lambda>c. c = CHR '' ''), we_sort = (\<lambda>ts. ts) \<rparr>"

lemma demo_window_env_simps [simp]:
  "we_L demo_window_env = ref_muscle" "we_Q demo_window_env = ref_strings" "we_T demo_window_env = ref_codec" "we_net demo_window_env = demo_cm_env"
  "we_dm demo_window_env = demo_dm_env" "we_up demo_window_env = demo_up_env" "we_scan demo_window_env = demo_env"
  "we_settings demo_window_env = demo_settings_env"
  by (simp_all add: demo_window_env_def)

text \<open>A window that is connected to one server, with one file shared and one peer that downloads it.\<close>

definition demo_window :: "message \<Rightarrow> window" where
  "demo_window settings = (blank_window settings demo_world)
     \<lparr>mw_connections := \<lparr> cm_listener = True, cm_connections = [(1, (demo_conn ''7'')\<lparr>c_serverAddress := ''hub''\<rparr>)] \<rparr>,
      mw_uploadServer := demo_server 2\<rparr>"

lemma demo_window_simps [simp]:
  "mw_settings (demo_window m) = m" "mw_uploadServer (demo_window m) = demo_server 2"
  "cm_connections (mw_connections (demo_window m)) = [(1, (demo_conn ''7'')\<lparr>c_serverAddress := ''hub''\<rparr>)]"
  "IsAnyConnected (mw_connections (demo_window m))" "mw_shareScanner (demo_window m) = new_scanner"
  by (simp_all add: demo_window_def blank_window_def IsAnyConnected_def GetConnectedCount_def)

definition sharing_settings :: message where
  "sharing_settings = StSetShareDirectory ''/old'' (SetFileSharingEnabled True (new_message 0))"

subsection \<open>Opening the window\<close>

lemma unconnected_new: "\<not> IsAnyConnected new_connections"
  by (simp add: IsAnyConnected_def GetConnectedCount_def new_connections_def)

lemma notifications_of_sharing:
  "GetNotificationsEnabled (SetFileSharingEnabled b m) = GetNotificationsEnabled m"
  by (rule st_notificationsEnabled.undisturbed(1)) (simp add: SetFileSharingEnabled_def find_replace_bool field_names)

lemma ApplySettings_Some: "(\<exists>w'. ApplySettings En w = Some w') \<longleftrightarrow> mw_notifier w \<noteq> None"
  by (auto simp: ApplySettings_def set_notifier_def Let_def split: option.splits)

lemma opens_iff:
  "open_window En d = None \<longleftrightarrow>
     \<not> GetNotificationsEnabled (snd (Load (we_settings En) d (new_message 0)))"
proof -
  let ?s = "snd (Load (we_settings En) d (new_message 0))"
  define w2 where "w2 = (let w1 = PopulateNameAndStatusLists En ((PopulateServerList (blank_window ?s d))\<lparr>mw_serverPort := GetServerPort (mw_settings (blank_window ?s d))\<rparr>)
    in w1\<lparr>mw_showTimestamps := found_or True (find_bool (mw_settings w1) kSettingsFieldShowTimestamps)\<rparr>)"
  have w2: "mw_settings w2 = ?s" "mw_connections w2 = new_connections" "mw_notifier w2 = None" "\<not> mw_fileSharingChecked w2"
    "mw_notificationsChecked w2"
    by (simp_all add: w2_def Let_def blank_window_def PopulateNameAndStatusLists_def PopulateServerList_def)
  define w3 where "w3 = check_file_sharing En (GetFileSharingEnabled (mw_settings w2)) w2"
  have w3: "mw_notifier w3 = None" "mw_notificationsChecked w3"
    "GetNotificationsEnabled (mw_settings w3) = GetNotificationsEnabled ?s"
    using w2 unconnected_new
    by (auto simp: w3_def check_file_sharing_def OnToggleFileSharing_def Let_def notifications_of_sharing)
  have load: "LoadSettings En (blank_window ?s d) =
      map_option (\<lambda>w4. w4\<lparr>mw_showHostColumn := found_or False (find_bool (mw_settings w4) kSettingsFieldShowHostColumn)\<rparr>)
        (check_notifications (GetNotificationsEnabled ?s) w3)"
    unfolding w3(3) [symmetric] unfolding LoadSettings_def w3_def w2_def Let_def ..
  have finish: "finish_opening En w \<noteq> None" for w
  proof -
    obtain i s where i: "GetInstallId (we_settings En) (mw_settings w) = (i, s)" by fastforce
    let ?w = "on_uploads (SetUpListener True) (on_downloads (SetDmListener True)
        ((on_connections (CmSetLocalUserStatus (we_L En) (we_net En) (GetUserStatus s)
           \<circ> CmSetLocalUserName (we_L En) (we_net En) (GetUserName s))
          (on_connections (CmSetInstallId i \<circ> CmSetListener True) (w\<lparr>mw_settings := s\<rparr>)))
        \<lparr>mw_notifier := Some (new_notifier (we_notifyAvailable En))\<rparr>))"
    have "mw_notifier ?w \<noteq> None" by simp
    then obtain w' where "ApplySettings En ?w = Some w'" using ApplySettings_Some by blast
    then show ?thesis by (simp add: finish_opening_def i Let_def)
  qed
  show ?thesis
    using w3(1,2) finish
    by (auto simp: open_window_def load check_notifications_def OnToggleNotifications_def set_notifier_def split: option.splits)
qed

text \<open>
  C34. The program starts exactly when the stored settings have notifications on: with them off, the check
  mark of the menu is cleared while the window is still being built, its handler runs and uses the notifier
  that does not exist yet.
\<close>

theorem opens_only_with_notifications:
  "open_window En d = None \<longleftrightarrow>
     \<not> GetNotificationsEnabled (snd (Load (we_settings En) d (new_message 0)))"
  by (rule opens_iff)

subsection \<open>Columns\<close>

lemma layout_other: "v \<noteq> u \<Longrightarrow> GetColumnLayout v (SetColumnLayout u b m) = GetColumnLayout v m"
  by (simp add: GetColumnLayout_def finds find_field_SetColumnLayout)

text \<open>
  The layout of the transfers is stored under a name that nobody reads: what was saved for the results
  and the users is handed back to their views, but the transfers get what an old file has under another
  name, or nothing.
\<close>

theorem transfers_layout_lost:
  assumes "layouts ''results'' \<noteq> []" "layouts ''users'' \<noteq> []"
  shows "RestoreColumnLayouts (SaveColumnLayouts layouts m) =
    [(''results'', layouts ''results''), (''users'', layouts ''users'')] @
    (case GetColumnLayout ''transfers'' m of Some bs \<Rightarrow> if bs = [] then [] else [(''transfers'', bs)] | None \<Rightarrow> [])"
proof -
  have "GetColumnLayout ''results.v2'' (SaveColumnLayouts layouts m) = Some (layouts ''results'')"
    "GetColumnLayout ''users.v2'' (SaveColumnLayouts layouts m) = Some (layouts ''users'')"
    "GetColumnLayout ''transfers'' (SaveColumnLayouts layouts m) = GetColumnLayout ''transfers'' m"
    using assms by (simp_all add: SaveColumnLayouts_def layout_other column_layout_stored)
  then show ?thesis
    using assms by (simp add: RestoreColumnLayouts_def List.map_filter_simps split: option.split)
qed

theorem transfers_layout_lost_witness:
  "RestoreColumnLayouts (SaveColumnLayouts (\<lambda>v. [1, 2]) (new_message 0)) = [(''results'', [1, 2]), (''users'', [1, 2])]"
  using transfers_layout_lost [of "\<lambda>v. [1, 2]" "new_message 0"] by (simp add: GetColumnLayout_def finds)

subsection \<open>Sharing\<close>

lemma StartListening_share: "us_sharedFiles (snd (StartListening E p r s)) = us_sharedFiles s"
  by (simp add: StartListening_def StopListening_def Let_def split: option.split)

lemma StartListening_peers: "us_peers (snd (StartListening E p r s)) = []"
  by (simp add: StartListening_def StopListening_def Let_def split: option.split)

lemma StartSharing_server:
  assumes "GetFileSharingEnabled (mw_settings w)" "GetShareDirectory (we_settings En) (mw_settings w) \<noteq> []"
  shows "\<exists>sid n. mw_uploadServer (StartSharing En w) =
      (let (p, s) = StartListening (we_up En) kDefaultTransferPort kTransferPortRange (mw_uploadServer w)
       in if p = 0 then s else SetLocalIdentity sid n s)"
  using assms by (auto simp: StartSharing_def Let_def split: prod.split)

lemma StartSharing_share: "us_sharedFiles (mw_uploadServer (StartSharing En w)) = us_sharedFiles (mw_uploadServer w)"
  using StartListening_share [of "we_up En" kDefaultTransferPort kTransferPortRange "mw_uploadServer w"]
  by (auto simp: StartSharing_def Let_def SetLocalIdentity_def split: prod.split)

lemma StopSharing_share: "us_sharedFiles (mw_uploadServer (StopSharing En w)) = us_sharedFiles (mw_uploadServer w)"
  by (simp add: StopSharing_def StopListening_def Let_def)

lemma sharing_settings [simp]:
  "mw_settings (StartSharing En w) = mw_settings w" "mw_settings (StopSharing En w) = mw_settings w"
  "mw_userName (StartSharing En w) = mw_userName w" "mw_userName (StopSharing En w) = mw_userName w"
  "mw_fileSharingChecked (StartSharing En w) = mw_fileSharingChecked w"
  "mw_fileSharingChecked (StopSharing En w) = mw_fileSharingChecked w"
  by (auto simp: StartSharing_def StopSharing_def Let_def split: prod.split)

lemma sharing_of_folder: "GetFileSharingEnabled (StSetShareDirectory v m) = GetFileSharingEnabled m"
  by (rule st_fileSharingEnabled.undisturbed(1)) (simp add: StSetShareDirectory_def SetString_def find_replace_string field_names)

lemma folder_stored: "string_slot m kFieldShareDirectory \<Longrightarrow> chosen \<noteq> [] \<Longrightarrow>
    GetShareDirectory V (StSetShareDirectory chosen m) = chosen"
  using st_shareDirectory.read_back [of m V chosen] by simp

lemma first_port:
  "put_accept E p = Some q \<Longrightarrow> start_up_thread E \<Longrightarrow> r \<noteq> 0 \<Longrightarrow> p \<noteq> 0 \<Longrightarrow>
   us_acceptPort (snd (StartListening E p r s)) = Some p \<and> fst (StartListening E p r s) \<noteq> 0"
  by (cases "unat r") (auto simp: StartListening_def StopListening_def Let_def unat_eq_0)

lemma DrainShareScanner_empty:
  "fPendingFiles (mw_shareScanner w) = [] \<Longrightarrow> mw_uploadServer (DrainShareScanner En w) = mw_uploadServer w"
  by (simp add: DrainShareScanner_def report_scan_end_def publish_discovered_def TakeDiscoveredFiles_def
      TakeScanFinished_def Let_def)

text \<open>
  Choosing another share folder keeps the old one open: until the scan of the new folder has found its
  first file, and for good when the new folder is empty, the server listens again and every file of the old
  folder is still found for a peer that asks for it.
\<close>

theorem old_share_stays_open:
  assumes "GetFileSharingEnabled (mw_settings w)" "IsAnyConnected (mw_connections w)"
    and "chosen \<noteq> []" "string_slot (mw_settings w) kFieldShareDirectory"
    and "start_up_thread (we_up En)" "put_accept (we_up En) kDefaultTransferPort = Some p"
    and "fPendingFiles sc = []"
  shows "let w1 = OnIdleTimerFired En ((OnChooseShareFolder En chosen w)\<lparr>mw_shareScanner := sc\<rparr>)
    in GetShareDirectory (we_settings En) (mw_settings (OnChooseShareFolder En chosen w)) = chosen \<and>
       us_acceptPort (mw_uploadServer w1) = Some kDefaultTransferPort \<and>
       (\<forall>names. resolve_names (us_sharedFiles (mw_uploadServer w1)) names =
          resolve_names (us_sharedFiles (mw_uploadServer w)) names)"
proof -
  let ?w0 = "say LOG_INFORMATION_MESSAGE (QArg (we_Q En) ''Share folder set to %1.'' chosen)
    (on_settings (StSetShareDirectory chosen) w)"
  let ?w1 = "OnChooseShareFolder En chosen w"
  have w1: "?w1 = StartSharing En (StopSharing En ?w0)"
    using assms(1-3) by (simp add: OnChooseShareFolder_def Let_def sharing_of_folder)
  have folder: "GetShareDirectory (we_settings En) (mw_settings ?w1) = chosen"
    using assms(3,4) by (simp add: w1 folder_stored)
  obtain sid n where server: "mw_uploadServer ?w1 =
      (let (p, s) = StartListening (we_up En) kDefaultTransferPort kTransferPortRange (mw_uploadServer (StopSharing En ?w0))
       in if p = 0 then s else SetLocalIdentity sid n s)"
    unfolding w1 using StartSharing_server [of "StopSharing En ?w0" En] assms(1,3,4)
    by (auto simp: sharing_of_folder folder_stored)
  have port: "us_acceptPort (mw_uploadServer ?w1) = Some kDefaultTransferPort"
    unfolding server
    using first_port [OF assms(6,5), of kTransferPortRange "mw_uploadServer (StopSharing En ?w0)"]
    by (auto simp: SetLocalIdentity_def kTransferPortRange_def kDefaultTransferPort_def split: prod.split)
  have share: "us_sharedFiles (mw_uploadServer ?w1) = us_sharedFiles (mw_uploadServer w)"
    by (simp add: w1 StartSharing_share StopSharing_share)
  have "mw_uploadServer (OnIdleTimerFired En (?w1\<lparr>mw_shareScanner := sc\<rparr>)) = mw_uploadServer ?w1"
    using assms(7) by (simp add: OnIdleTimerFired_def DrainShareScanner_empty)
  then show ?thesis using folder port share by (simp add: Let_def)
qed

theorem old_share_stays_open_witness:
  "let w = OnIdleTimerFired demo_window_env
       ((OnChooseShareFolder demo_window_env ''/s'' (demo_window sharing_settings))\<lparr>mw_shareScanner := new_scanner\<rparr>)
   in resolve_names (us_sharedFiles (mw_uploadServer w)) [''a''] = [demo_shared]"
proof -
  have facts: "GetFileSharingEnabled sharing_settings" "string_slot sharing_settings kFieldShareDirectory"
    "fPendingFiles new_scanner = []"
    "resolve_names [(''a'', demo_shared)] [''a''] = [demo_shared]" "start_up_thread demo_up_env"
    "put_accept demo_up_env kDefaultTransferPort = Some kDefaultTransferPort"
    by code_simp+
  from old_share_stays_open [of "demo_window sharing_settings" "''/s''" demo_window_env kDefaultTransferPort new_scanner] facts
  show ?thesis by (simp add: Let_def)
qed

text \<open>
  Whenever a server assigns a session ID, everything that was being uploaded to anybody is cut off: with
  sharing on, the second server that is joined, or a server that is joined again, restarts the upload
  server, and no peer is left.
\<close>

theorem login_drops_uploads:
  assumes "GetFileSharingEnabled (mw_settings w)" "GetShareDirectory (we_settings En) (mw_settings w) \<noteq> []"
  shows "us_peers (mw_uploadServer (on_callback En a (LocalSessionIdAssigned sessionId hostName) w)) = []"
proof -
  let ?m = "RememberServer (we_L En) (c_serverAddress (connection_at w a)) (mw_settings w)"
  have frame: "find_field ?m n = find_field (mw_settings w) n" if "n \<noteq> kFieldServerList" for n
    using that by (simp add: RememberServer_def find_field_RememberInList)
  have "GetFileSharingEnabled ?m = GetFileSharingEnabled (mw_settings w)"
    by (rule st_fileSharingEnabled.undisturbed(1)) (simp add: frame field_names)
  moreover have "GetShareDirectory (we_settings En) ?m = GetShareDirectory (we_settings En) (mw_settings w)"
    by (rule st_shareDirectory.undisturbed(1)) (simp add: frame field_names)
  moreover define w1 where "w1 = say LOG_INFORMATION_MESSAGE (QArg (we_Q En) ''You are session %1.'' sessionId)
      ((PopulateServerList (on_settings (RememberServer (we_L En) (c_serverAddress (connection_at w a))) w))
        \<lparr>mw_title := QArgs (we_Q En) ''%1 -- %2 on %3'' [HITUX_SHARE_NAME, GetUserName ?m, c_serverAddress (connection_at w a)]\<rparr>)"
  moreover have "mw_settings w1 = ?m" by (simp add: w1_def)
  ultimately have "\<exists>sid n. mw_uploadServer (StartSharing En w1) =
      (let (p, s) = StartListening (we_up En) kDefaultTransferPort kTransferPortRange (mw_uploadServer w1)
       in if p = 0 then s else SetLocalIdentity sid n s)"
    using StartSharing_server [of w1 En] assms by simp
  moreover have "on_callback En a (LocalSessionIdAssigned sessionId hostName) w = StartSharing En w1"
    by (simp add: on_callback_def OnSessionIdAssigned_def w1_def Let_def)
  moreover have "us_peers (snd (StartListening (we_up En) kDefaultTransferPort kTransferPortRange s)) = []" for s
    by (rule StartListening_peers)
  ultimately show ?thesis
    by (cases "StartListening (we_up En) kDefaultTransferPort kTransferPortRange (mw_uploadServer w1)")
      (auto simp: SetLocalIdentity_def Let_def, metis snd_conv)
qed

theorem login_drops_uploads_witness:
  "us_peers (mw_uploadServer (demo_window sharing_settings)) \<noteq> [] \<and>
   us_peers (mw_uploadServer (on_callback demo_window_env 1 (LocalSessionIdAssigned ''8'' ''h'') (demo_window sharing_settings))) = []"
proof -
  have "GetFileSharingEnabled sharing_settings" "GetShareDirectory demo_settings_env sharing_settings \<noteq> []" by code_simp+
  then show ?thesis using login_drops_uploads [of "demo_window sharing_settings" demo_window_env] by simp
qed

text \<open>What one connection is sent by the batches of \<open>PublishSharedFiles\<close>.\<close>

lemma published:
  assumes "\<forall>m. accepts E m" "IsConnected c" "distinct (map sf_fileName ps)"
  shows "\<exists>bs. concat bs = ps \<and> c_out (PublishSharedFiles L E ps c) = c_out c @ map (batch_of L (GetFilesNodePath c)) bs"
proof (cases "ps = []")
  case False
  then show ?thesis
    using publish_loop_batches [OF assms(1), of "[]" ps None L "GetFilesNodePath c" 0 c] assms(2,3)
    by (auto simp: good_batches_def PublishSharedFiles_def kSharedFileBatchSize_def)
qed (use assms(2) in \<open>auto simp: PublishSharedFiles_def\<close>)

text \<open>What stopping to share does to one connection, and what then reaches it with the next idle timer.\<close>

definition withdrawn :: "muscle \<Rightarrow> conn_env \<Rightarrow> connection \<Rightarrow> connection" where
  "withdrawn L E c = PerformIdleTasks L E
     (PublishSharedFileCount L E 0 (UnpublishAllSharedFiles L E (SetAdvertisedPort L E 0 c)))"

lemma send_keeps [simp]:
  "c_state (SendToServer E m c) = c_state c" "c_firewalled (SendToServer E m c) = c_firewalled c"
  "c_state (SetDataNodeValue L E p m c) = c_state c" "c_firewalled (SetDataNodeValue L E p m c) = c_firewalled c"
  by (simp_all add: SendToServer_def SetDataNodeValue_def read_clock_def Let_def)

lemma withdrawn_keeps [simp]:
  "IsConnected (withdrawn L E c) = IsConnected c" "GetFilesNodePath (withdrawn L E c) = GetFilesNodePath c"
  by (auto simp: withdrawn_def PerformIdleTasks_def PublishSharedFileCount_def UnpublishAllSharedFiles_def
      SetAdvertisedPort_def PublishLocalUserName_def GetFilesNodePath_def read_clock_def Let_def)

lemma count_out: "\<exists>after. c_out (PublishSharedFileCount L E n c) = c_out c @ after"
  by (auto simp: PublishSharedFileCount_def SetDataNodeValue_def SendToServer_def read_clock_def Let_def)

lemma report_scan_end_effect:
  "mw_sharedFileCount (report_scan_end En w) = mw_sharedFileCount w" "mw_settings (report_scan_end En w) = mw_settings w"
  "mw_uploadServer (report_scan_end En w) = mw_uploadServer w"
  "mw_connections (report_scan_end En w) = mw_connections w \<or>
   mw_connections (report_scan_end En w) = PublishSharedFileCountOnAll (we_L En) (we_net En) (mw_sharedFileCount w) (mw_connections w)"
  by (simp_all add: report_scan_end_def TakeScanFinished_def Let_def)

text \<open>
  C35. Turning sharing off publishes files: what the scan has found since the last idle timer, or finds before its
  thread has ended, is still waiting when everything has been withdrawn, and the next idle timer publishes it
  to every server. The setting is off, no server socket listens, and the files stay listed for everybody.
\<close>

theorem sharing_off_publishes_leftovers:
  assumes "bool_slot (mw_settings w) kFieldFileSharingEnabled"
    and "fPendingFiles (StopScan (mw_shareScanner w)) = ps" "ps \<noteq> []" "distinct (map sf_fileName ps)"
    and "(a, c) \<in> set (cm_connections (mw_connections w))" "IsConnected c" "\<forall>m. accepts (net (we_net En) a) m"
  shows "let w1 = OnIdleTimerFired En (OnToggleFileSharing En False w) in
    \<not> GetFileSharingEnabled (mw_settings w1) \<and> us_listenPort (mw_uploadServer w1) = 0 \<and>
    mw_sharedFileCount w1 = of_nat (length ps) \<and>
    (\<exists>bs after c1. (a, c1) \<in> set (cm_connections (mw_connections w1)) \<and> concat bs = ps \<and>
       c_out c1 = c_out (withdrawn (we_L En) (net (we_net En) a) c) @
         map (batch_of (we_L En) (GetFilesNodePath c)) bs @ after)"
proof -
  let ?L = "we_L En" and ?E = "net (we_net En) a"
  define w2 where "w2 = on_downloads DmPerformIdleTasks
    (on_connections (CmPerformIdleTasks ?L (we_net En)) (OnToggleFileSharing En False w))"
  have w2: "fPendingFiles (mw_shareScanner w2) = ps" "mw_sharedFileCount w2 = 0" "us_listenPort (mw_uploadServer w2) = 0"
    "(a, withdrawn ?L ?E c) \<in> set (cm_connections (mw_connections w2))" "\<not> GetFileSharingEnabled (mw_settings w2)"
  proof -
    have all: "mw_connections w2 = on_all (\<lambda>b. withdrawn ?L (net (we_net En) b)) (mw_connections w)"
      by (simp add: w2_def OnToggleFileSharing_def StopSharing_def Let_def on_all_def withdrawn_def split_beta
          CmPerformIdleTasks_def PublishSharedFileCountOnAll_def CmUnpublishAllSharedFiles_def CmSetAdvertisedPort_def)
    show "(a, withdrawn ?L ?E c) \<in> set (cm_connections (mw_connections w2))"
      using assms(5) unfolding all by (force simp: on_all_def)
    show "\<not> GetFileSharingEnabled (mw_settings w2)"
      using st_fileSharingEnabled.read_back [OF assms(1)] by (simp add: w2_def OnToggleFileSharing_def Let_def)
  qed (use assms(2) in \<open>simp_all add: w2_def OnToggleFileSharing_def StopSharing_def StopListening_def Let_def\<close>)
  define w3 where "w3 = publish_discovered En w2"
  obtain bs where bs: "concat bs = ps" "c_out (PublishSharedFiles ?L ?E ps (withdrawn ?L ?E c)) =
      c_out (withdrawn ?L ?E c) @ map (batch_of ?L (GetFilesNodePath c)) bs"
    using published [of ?E "withdrawn ?L ?E c" ps ?L] assms(4,6,7) by auto
  have w3: "mw_sharedFileCount w3 = of_nat (length ps)" "us_listenPort (mw_uploadServer w3) = 0"
    "(a, PublishSharedFiles ?L ?E ps (withdrawn ?L ?E c)) \<in> set (cm_connections (mw_connections w3))"
    "\<not> GetFileSharingEnabled (mw_settings w3)"
    using w2 assms(3)
    by (force simp: w3_def publish_discovered_def TakeDiscoveredFiles_def SetSharedFiles_def PublishSharedFilesOnAll_def
        on_all_def Let_def)+
  have w1: "OnIdleTimerFired En (OnToggleFileSharing En False w) = report_scan_end En w3"
    by (simp add: OnIdleTimerFired_def DrainShareScanner_def w3_def w2_def)
  have "\<exists>after c1. (a, c1) \<in> set (cm_connections (mw_connections (report_scan_end En w3))) \<and>
      c_out c1 = c_out (PublishSharedFiles ?L ?E ps (withdrawn ?L ?E c)) @ after"
    using report_scan_end_effect(4) [of En w3]
  proof
    assume "mw_connections (report_scan_end En w3) = mw_connections w3"
    then show ?thesis using w3(3) by auto
  next
    assume r: "mw_connections (report_scan_end En w3) =
      PublishSharedFileCountOnAll ?L (we_net En) (mw_sharedFileCount w3) (mw_connections w3)"
    show ?thesis using w3(3) count_out [of ?L ?E "mw_sharedFileCount w3"]
      unfolding r PublishSharedFileCountOnAll_def on_all_def by fastforce
  qed
  then show ?thesis
    using w3 bs unfolding Let_def w1 report_scan_end_effect(1-3) by (metis append.assoc)
qed

theorem sharing_off_publishes_leftovers_witness:
  "mw_sharedFileCount (OnIdleTimerFired demo_window_env (OnToggleFileSharing demo_window_env False
     ((demo_window sharing_settings)\<lparr>mw_shareScanner := new_scanner\<lparr>fPendingFiles := [demo_file]\<rparr>\<rparr>))) = 1"
proof -
  let ?w = "(demo_window sharing_settings)\<lparr>mw_shareScanner := new_scanner\<lparr>fPendingFiles := [demo_file]\<rparr>\<rparr>"
  have "bool_slot sharing_settings kFieldFileSharingEnabled" by code_simp
  then have "let w1 = OnIdleTimerFired demo_window_env (OnToggleFileSharing demo_window_env False ?w) in
      mw_sharedFileCount w1 = of_nat (length [demo_file])"
    using sharing_off_publishes_leftovers [of ?w "[demo_file]" 1 "(demo_conn ''7'')\<lparr>c_serverAddress := ''hub''\<rparr>" demo_window_env]
    by (simp add: Let_def StopScan_def new_scanner_def demo_cm_env_def)
  then show ?thesis by (simp add: Let_def)
qed

end
