(* ===== verification/Dialog.thy ===== *)
theory Dialog
  imports QtStrings SettingsLaws
begin

section \<open>The settings dialog\<close>

text \<open>
  \<open>qt/SettingsDialog\<close>: the fields of the dialog, what it shows when it opens and what it stores when it is
  accepted. A line edit is its text, a check box its mark, a spin box its value, which Qt keeps inside the
  range of the box. The building of the pages is left out, except for the ranges.
\<close>

definition kBytesPerKilobyte :: uint32 where "kBytesPerKilobyte = 1024"

record settings_dialog =
  sd_userName :: string
  sd_userStatus :: string
  sd_awayStatus :: string
  sd_downloadFolder :: string
  sd_shareFolder :: string
  sd_retainFilePaths :: bool
  sd_fileSharing :: bool
  sd_firewalled :: bool
  sd_maxDownloads :: int
  sd_maxUploads :: int
  sd_downloadRate :: int
  sd_uploadRate :: int
  sd_autoClear :: bool
  sd_connectOnStartup :: bool
  sd_notifications :: bool
  sd_autoUpdateServers :: bool
  sd_chatLogging :: bool
  sd_logFolder :: string
  sd_chatFontSize :: int

text \<open>\<open>setValue\<close> of a box with the range from \<open>lo\<close> to \<open>hi\<close>, and the ranges.\<close>

definition spin :: "int \<times> int \<Rightarrow> int \<Rightarrow> int" where
  "spin limits v = (case limits of (lo, hi) \<Rightarrow> max lo (min hi v))"

definition sessions_range :: "int \<times> int" where "sessions_range = (1, 32)"
definition rate_range :: "int \<times> int" where "rate_range = (0, 1024 * 100)"
definition font_range :: "int \<times> int" where "font_range = (0, 32)"

text \<open>\<open>(int) value\<close> of an unsigned number, and back.\<close>

definition to_int :: "uint32 \<Rightarrow> int" where "to_int v = sint (ucast v :: int32)"

definition LoadFromSettings :: "settings_env \<Rightarrow> message \<Rightarrow> settings_dialog" where
  "LoadFromSettings V m =
     \<lparr> sd_userName = GetUserName m, sd_userStatus = GetUserStatus m, sd_awayStatus = GetAwayStatus m,
       sd_downloadFolder = GetDownloadDirectory V m, sd_shareFolder = GetShareDirectory V m,
       sd_retainFilePaths = GetRetainFilePaths m, sd_fileSharing = GetFileSharingEnabled m,
       sd_firewalled = GetFirewalled m,
       sd_maxDownloads = spin sessions_range (to_int (GetMaxSimultaneousDownloads m)),
       sd_maxUploads = spin sessions_range (to_int (GetMaxSimultaneousUploads m)),
       sd_downloadRate = spin rate_range (to_int (GetMaxDownloadRate m div kBytesPerKilobyte)),
       sd_uploadRate = spin rate_range (to_int (GetMaxUploadRate m div kBytesPerKilobyte)),
       sd_autoClear = GetAutoClearFinishedTransfers m, sd_connectOnStartup = GetConnectOnStartup m,
       sd_notifications = GetNotificationsEnabled m, sd_autoUpdateServers = GetAutoUpdateServerList m,
       sd_chatLogging = GetChatLoggingEnabled m, sd_logFolder = GetLogDirectory V m,
       sd_chatFontSize = spin font_range (to_int (GetChatFontPointSize m)) \<rparr>"

definition ApplyToSettings :: "'a qt_strings_scheme \<Rightarrow> settings_dialog \<Rightarrow> message \<Rightarrow> message" where
  "ApplyToSettings Q d m =
     (let userName = QTrimmed Q (sd_userName d);
          m1 = (if userName \<noteq> [] then SetUserName userName m else m);
          m2 = SetAwayStatus (QTrimmed Q (sd_awayStatus d)) (SetUserStatus (QTrimmed Q (sd_userStatus d)) m1);
          m3 = StSetShareDirectory (QTrimmed Q (sd_shareFolder d))
                 (StSetDownloadDirectory (QTrimmed Q (sd_downloadFolder d)) m2);
          m4 = StSetRetainFilePaths (sd_retainFilePaths d) (SetFileSharingEnabled (sd_fileSharing d) m3);
          m5 = StSetMaxSimultaneousUploads (word_of_int (sd_maxUploads d))
                 (StSetMaxSimultaneousDownloads (word_of_int (sd_maxDownloads d)) m4);
          m6 = SetMaxUploadRate (word_of_int (sd_uploadRate d) * kBytesPerKilobyte)
                 (SetMaxDownloadRate (word_of_int (sd_downloadRate d) * kBytesPerKilobyte) m5);
          m7 = SetAutoClearFinishedTransfers (sd_autoClear d) (StSetFirewalled (sd_firewalled d) m6);
          m8 = SetNotificationsEnabled (sd_notifications d) (SetConnectOnStartup (sd_connectOnStartup d) m7);
          m9 = SetChatFontPointSize (word_of_int (sd_chatFontSize d)) m8;
          m10 = SetChatLoggingEnabled (sd_chatLogging d) (SetAutoUpdateServerList (sd_autoUpdateServers d) m9)
      in StSetLogDirectory (QTrimmed Q (sd_logFolder d)) m10)"

text \<open>The three Browse buttons, with the folder that was chosen.\<close>

definition OnBrowseDownloadFolder :: "string \<Rightarrow> settings_dialog \<Rightarrow> settings_dialog" where
  "OnBrowseDownloadFolder chosen d = (if chosen \<noteq> [] then d\<lparr>sd_downloadFolder := chosen\<rparr> else d)"

definition OnBrowseLogFolder :: "string \<Rightarrow> settings_dialog \<Rightarrow> settings_dialog" where
  "OnBrowseLogFolder chosen d = (if chosen \<noteq> [] then d\<lparr>sd_logFolder := chosen\<rparr> else d)"

definition OnBrowseShareFolder :: "string \<Rightarrow> settings_dialog \<Rightarrow> settings_dialog" where
  "OnBrowseShareFolder chosen d = (if chosen \<noteq> [] then d\<lparr>sd_shareFolder := chosen\<rparr> else d)"

subsection \<open>Boxes\<close>

text \<open>A dialog whose boxes are inside their ranges, as every dialog on screen is.\<close>

definition dialog_ok :: "settings_dialog \<Rightarrow> bool" where
  "dialog_ok d \<longleftrightarrow> sd_maxDownloads d \<in> {1..32} \<and> sd_maxUploads d \<in> {1..32} \<and>
     sd_downloadRate d \<in> {0..1024 * 100} \<and> sd_uploadRate d \<in> {0..1024 * 100} \<and> sd_chatFontSize d \<in> {0..32}"

lemma LoadFromSettings_ok: "dialog_ok (LoadFromSettings V m)"
  by (simp add: dialog_ok_def LoadFromSettings_def spin_def sessions_range_def rate_range_def font_range_def)

definition demo_dialog :: settings_dialog where
  "demo_dialog = LoadFromSettings demo_settings_env (new_message 0)"


subsection \<open>The dialog as operations on the settings\<close>

definition dialog_ops :: "'a qt_strings_scheme \<Rightarrow> settings_dialog \<Rightarrow> setting_op list" where
  "dialog_ops Q d =
     (if QTrimmed Q (sd_userName d) \<noteq> [] then [OpUserName (QTrimmed Q (sd_userName d))] else []) @
     [OpUserStatus (QTrimmed Q (sd_userStatus d)), OpAwayStatus (QTrimmed Q (sd_awayStatus d)),
      OpDownloadDirectory (QTrimmed Q (sd_downloadFolder d)), OpShareDirectory (QTrimmed Q (sd_shareFolder d)),
      OpFileSharingEnabled (sd_fileSharing d), OpRetainFilePaths (sd_retainFilePaths d),
      OpMaxSimultaneousDownloads (word_of_int (sd_maxDownloads d)), OpMaxSimultaneousUploads (word_of_int (sd_maxUploads d)),
      OpMaxDownloadRate (word_of_int (sd_downloadRate d) * kBytesPerKilobyte),
      OpMaxUploadRate (word_of_int (sd_uploadRate d) * kBytesPerKilobyte),
      OpFirewalled (sd_firewalled d), OpAutoClearFinishedTransfers (sd_autoClear d),
      OpConnectOnStartup (sd_connectOnStartup d), OpNotificationsEnabled (sd_notifications d),
      OpChatFontPointSize (word_of_int (sd_chatFontSize d)), OpAutoUpdateServerList (sd_autoUpdateServers d),
      OpChatLoggingEnabled (sd_chatLogging d), OpLogDirectory (QTrimmed Q (sd_logFolder d))]"

lemma ApplyToSettings_ops: "ApplyToSettings Q d m = fold (run_setting L V) (dialog_ops Q d) m"
  by (simp add: ApplyToSettings_def dialog_ops_def Let_def)

definition or_default :: "string \<Rightarrow> string \<Rightarrow> string" where
  "or_default d v = (if v = [] then d else v)"

text \<open>What the settings are after the dialog was accepted.\<close>

definition accepted :: "'a qt_strings_scheme \<Rightarrow> settings_env \<Rightarrow> settings_dialog \<Rightarrow> preferences \<Rightarrow> preferences" where
  "accepted Q V d p = p\<lparr>
     pf_userName := or_default (pf_userName p) (QTrimmed Q (sd_userName d)),
     pf_userStatus := or_default kDefaultUserStatus (QTrimmed Q (sd_userStatus d)),
     pf_awayStatus := or_default kDefaultAwayStatus (QTrimmed Q (sd_awayStatus d)),
     pf_downloadDirectory := or_default (GetDefaultDownloadDirectoryPath V) (QTrimmed Q (sd_downloadFolder d)),
     pf_shareDirectory := or_default (GetDefaultShareDirectoryPath V) (QTrimmed Q (sd_shareFolder d)),
     pf_logDirectory := or_default (GetDefaultLogDirectoryPath V) (QTrimmed Q (sd_logFolder d)),
     pf_autoUpdateServerList := sd_autoUpdateServers d, pf_fileSharingEnabled := sd_fileSharing d,
     pf_firewalled := sd_firewalled d, pf_autoClearFinishedTransfers := sd_autoClear d,
     pf_chatLoggingEnabled := sd_chatLogging d, pf_retainFilePaths := sd_retainFilePaths d,
     pf_notificationsEnabled := sd_notifications d, pf_connectOnStartup := sd_connectOnStartup d,
     pf_maxSimultaneousDownloads := word_of_int (sd_maxDownloads d),
     pf_maxSimultaneousUploads := word_of_int (sd_maxUploads d),
     pf_maxDownloadRate := word_of_int (sd_downloadRate d * 1024),
     pf_maxUploadRate := word_of_int (sd_uploadRate d * 1024),
     pf_chatFontPointSize := (if sd_chatFontSize d = 0 then 0 else word_of_int (max 6 (sd_chatFontSize d)))\<rparr>"

lemma small_word: "0 \<le> i \<Longrightarrow> i < 2 ^ 31 \<Longrightarrow> uint (word_of_int i :: uint32) = i \<and> sint (word_of_int i :: int32) = i"
  by (simp add: uint_word_of_int signed_take_bit_int_eq_self sint_sbintrunc')

lemma stored_sessions:
  "n \<in> {1..32} \<Longrightarrow> muscleClamp (word_of_int n) 1 kMaximumSessionLimit = word_of_int n"
  using small_word [of n] by (auto simp: muscleClamp_def kMaximumSessionLimit_def word_less_def)

lemma stored_rate:
  assumes "n \<in> {0..1024 * 100}"
  shows "(let v = word_of_int n * kBytesPerKilobyte in if sint v < 0 then 0 else v) = (word_of_int (n * 1024) :: uint32)"
proof -
  have "word_of_int n * kBytesPerKilobyte = (word_of_int (n * 1024) :: uint32)" by (simp add: kBytesPerKilobyte_def wi_hom_mult)
  moreover have "0 \<le> sint (word_of_int (n * 1024) :: int32)" using small_word [of "n * 1024"] assms by simp
  ultimately show ?thesis by (simp add: Let_def)
qed

lemma stored_font:
  assumes "n \<in> {0..32}"
  shows "(let v = word_of_int n :: int32 in if sint v \<le> 0 then 0 else muscleClamp v 6 32) =
    (if n = 0 then 0 else word_of_int (max 6 n))"
  using small_word [of n] assms by (auto simp: Let_def muscleClamp_def word_less_def max_def)

lemma dialog_effect:
  assumes "settings_ok m" "dialog_ok d"
  shows "preferences_of V (ApplyToSettings Q d m) = accepted Q V d (preferences_of V m) \<and>
    settings_ok (ApplyToSettings Q d m)"
proof -
  have d: "sd_maxDownloads d \<in> {1..32}" "sd_maxUploads d \<in> {1..32}" "sd_downloadRate d \<in> {0..1024 * 100}"
    "sd_uploadRate d \<in> {0..1024 * 100}" "sd_chatFontSize d \<in> {0..32}"
    using assms(2) unfolding dialog_ok_def by blast+
  have "fold (spec_step ref_muscle V) (dialog_ops Q d) p = accepted Q V d p" for p
    using stored_sessions [OF d(1)] stored_sessions [OF d(2)] stored_rate [OF d(3)] stored_rate [OF d(4)] stored_font [OF d(5)]
    by (cases p) (auto simp: dialog_ops_def accepted_def or_default_def Let_def)
  then show ?thesis
    using fold_refines [OF assms(1), of V ref_muscle "dialog_ops Q d"] ApplyToSettings_ops [of Q d m ref_muscle V] by simp
qed

text \<open>
  Accepting the dialog stores what it shows and nothing else: every setting it has a field for takes the
  value of that field, a text without its surrounding blanks and, when nothing is left of it, the default,
  except that an empty name keeps the name there was; every other setting is what it was.
\<close>

theorem dialog_stores:
  assumes "settings_ok m" "dialog_ok d"
  shows "preferences_of V (ApplyToSettings Q d m) = accepted Q V d (preferences_of V m) \<and>
    settings_ok (ApplyToSettings Q d m)"
  by (rule dialog_effect [OF assms])

theorem dialog_stores_witness:
  "let m = ApplyToSettings ref_strings (demo_dialog\<lparr>sd_userName := '' ann '', sd_maxUploads := 5\<rparr>) (new_message 0)
   in GetUserName m = ''ann'' \<and> GetMaxSimultaneousUploads m = 5"
proof -
  let ?d = "demo_dialog\<lparr>sd_userName := '' ann '', sd_maxUploads := 5\<rparr>"
  have trim: "QTrimmed ref_strings '' ann '' = ''ann''" by code_simp
  have "dialog_ok ?d" using LoadFromSettings_ok [of demo_settings_env "new_message 0"] by (simp add: dialog_ok_def demo_dialog_def)
  from dialog_stores [OF settings_ok_new [of 0] this, of demo_settings_env ref_strings]
  have "preferences_of demo_settings_env (ApplyToSettings ref_strings ?d (new_message 0)) =
      accepted ref_strings demo_settings_env ?d (preferences_of demo_settings_env (new_message 0))" by blast
  from arg_cong [OF this, of pf_userName] arg_cong [OF this, of pf_maxSimultaneousUploads] trim
  show ?thesis by (simp add: preferences_of_def accepted_def or_default_def Let_def)
qed

text \<open>What the box for a rate makes of it.\<close>

definition shown_rate :: "uint32 \<Rightarrow> uint32" where
  "shown_rate r = word_of_int (min (1024 * 100) (uint r div 1024) * 1024)"

lemma to_int_small: "uint (v :: uint32) < 2 ^ 31 \<Longrightarrow> to_int v = uint v"
  using signed_take_bit_int_eq_self [of 31 "uint v"] order_trans [OF _ uint_ge_0, of "- 2147483648" v]
  by (simp add: to_int_def sint_uint)

lemma box_sessions: "1 \<le> v \<Longrightarrow> v \<le> 32 \<Longrightarrow> spin sessions_range (to_int v) = uint v"
  by (subst to_int_small) (auto simp: word_le_def spin_def sessions_range_def)

lemma box_rate: "uint v < 2 ^ 31 \<Longrightarrow> word_of_int (spin rate_range (to_int (v div kBytesPerKilobyte)) * 1024) = shown_rate v"
proof -
  have "0 \<le> uint v div 1024" by (simp add: pos_imp_zdiv_nonneg_iff)
  then have "max 0 (min 102400 (uint v div 1024)) = min 102400 (uint v div 1024)" by simp
  then show "uint v < 2 ^ 31 \<Longrightarrow>
      word_of_int (spin rate_range (to_int (v div kBytesPerKilobyte)) * 1024) = shown_rate v"
    by (subst to_int_small) (auto simp: kBytesPerKilobyte_def uint_div_distrib spin_def rate_range_def shown_rate_def)
qed

lemma box_font: "v = 0 \<or> 6 \<le> v \<and> v \<le> 32 \<Longrightarrow>
    (let n = spin font_range (to_int v) in if n = 0 then 0 else word_of_int (max 6 n)) = v"
  by (subst to_int_small) (auto simp: word_le_def spin_def font_range_def Let_def)

text \<open>
  Opening the dialog and accepting it as it is changes nothing, except that the two rate limits are cut down
  to whole kilobytes and to the largest that the box shows: a limit of less than a kilobyte becomes no limit.
\<close>

theorem dialog_round_trip:
  assumes "settings_ok m"
    and "\<And>t. t \<in> {GetUserName m, GetUserStatus m, GetAwayStatus m, GetDownloadDirectory V m, GetShareDirectory V m,
      GetLogDirectory V m} \<Longrightarrow> QTrimmed Q t = t"
  shows "preferences_of V (ApplyToSettings Q (LoadFromSettings V m) m) =
    (preferences_of V m)\<lparr>pf_maxDownloadRate := shown_rate (GetMaxDownloadRate m),
      pf_maxUploadRate := shown_rate (GetMaxUploadRate m)\<rparr>"
proof -
  note b = settings_bounded [of m]
  have texts: "GetUserName m \<noteq> []" "GetUserStatus m \<noteq> []" "GetAwayStatus m \<noteq> []"
    "or_default (GetDefaultDownloadDirectoryPath V) (GetDownloadDirectory V m) = GetDownloadDirectory V m"
    "or_default (GetDefaultShareDirectoryPath V) (GetShareDirectory V m) = GetShareDirectory V m"
    "or_default (GetDefaultLogDirectoryPath V) (GetLogDirectory V m) = GetLogDirectory V m"
    using b by (auto simp: or_default_def GetDownloadDirectory_def GetShareDirectory_def GetLogDirectory_def
        GetAwayStatus_def GetString_def kDefaultAwayStatus_def split: option.splits if_splits)
  have boxes: "word_of_int (spin sessions_range (to_int (GetMaxSimultaneousDownloads m))) = GetMaxSimultaneousDownloads m"
    "word_of_int (spin sessions_range (to_int (GetMaxSimultaneousUploads m))) = GetMaxSimultaneousUploads m"
    "word_of_int (spin rate_range (to_int (GetMaxDownloadRate m div kBytesPerKilobyte)) * 1024) = shown_rate (GetMaxDownloadRate m)"
    "word_of_int (spin rate_range (to_int (GetMaxUploadRate m div kBytesPerKilobyte)) * 1024) = shown_rate (GetMaxUploadRate m)"
    "(let n = spin font_range (to_int (GetChatFontPointSize m)) in if n = 0 then 0 else word_of_int (max 6 n)) =
      GetChatFontPointSize m"
    using b box_sessions [of "GetMaxSimultaneousDownloads m"] box_sessions [of "GetMaxSimultaneousUploads m"]
    by (simp_all only: box_rate box_font) simp_all
  have "accepted Q V (LoadFromSettings V m) (preferences_of V m) = (preferences_of V m)\<lparr>
      pf_maxDownloadRate := shown_rate (GetMaxDownloadRate m), pf_maxUploadRate := shown_rate (GetMaxUploadRate m)\<rparr>"
    using texts boxes
    by (simp add: accepted_def LoadFromSettings_def preferences_of_def assms(2) Let_def) (auto simp: or_default_def split: if_splits)
  then show ?thesis using dialog_effect [OF assms(1) LoadFromSettings_ok] by metis
qed

theorem dialog_round_trip_witness:
  "GetMaxUploadRate (ApplyToSettings ref_strings (LoadFromSettings demo_settings_env (SetMaxUploadRate 900 (new_message 0)))
     (SetMaxUploadRate 900 (new_message 0))) = 0"
proof -
  let ?m = "SetMaxUploadRate 900 (new_message 0)"
  have "settings_ok ?m" by code_simp
  moreover have "\<forall>t \<in> set [GetUserName ?m, GetUserStatus ?m, GetAwayStatus ?m, GetDownloadDirectory demo_settings_env ?m,
      GetShareDirectory demo_settings_env ?m, GetLogDirectory demo_settings_env ?m]. QTrimmed ref_strings t = t" by code_simp
  ultimately have "preferences_of demo_settings_env (ApplyToSettings ref_strings (LoadFromSettings demo_settings_env ?m) ?m) =
      (preferences_of demo_settings_env ?m)\<lparr>pf_maxDownloadRate := shown_rate (GetMaxDownloadRate ?m),
        pf_maxUploadRate := shown_rate (GetMaxUploadRate ?m)\<rparr>"
    by (intro dialog_round_trip) auto
  from arg_cong [OF this, of pf_maxUploadRate] have "GetMaxUploadRate (ApplyToSettings ref_strings
      (LoadFromSettings demo_settings_env ?m) ?m) = shown_rate (GetMaxUploadRate ?m)" by (simp add: preferences_of_def)
  moreover have "shown_rate (GetMaxUploadRate ?m) = 0" by code_simp
  ultimately show ?thesis by simp
qed

end
