(* ===== verification/LogView.thy ===== *)
theory LogView
  imports QtStrings ChatInput
begin

section \<open>The chat log on screen\<close>

text \<open>
  \<open>qt/ChatLogView\<close>: the HTML that stands for a line of chat. What other people write is escaped;
  \<open>le_escape\<close> is \<open>ToQString(text).toHtmlEscaped()\<close>, as UTF-8. The palette
  of the desktop, the escaping of Qt, the clock and the scroll bar are parameters; drawing, and how Qt lays out the HTML,
  is left out. The document keeps the last lines only. A colour is the text that \<open>QColor::name\<close> gives.
\<close>

record palette =
  pa_windowLightness :: int
  pa_windowTextLightness :: int
  pa_text :: string
  pa_disabledText :: string

text \<open>\<open>scroll_maximum\<close> is the end of the scroll bar when the document has the given lines.\<close>

record log_env =
  le_palette :: palette
  le_escape :: "string \<Rightarrow> string"
  le_time :: string
  le_fontPointSize :: int
  scroll_maximum :: "string list \<Rightarrow> int"

record log_view =
  lv_showTimestamps :: bool
  lv_fontPointSize :: int
  lv_lines :: "string list"
  lv_scroll :: int

definition kMaximumBlockCount :: nat where "kMaximumBlockCount = 5000"

definition IsDarkPalette :: "palette \<Rightarrow> bool" where
  "IsDarkPalette p \<longleftrightarrow> pa_windowLightness p < pa_windowTextLightness p"

definition new_log_view :: "log_env \<Rightarrow> log_view" where
  "new_log_view E = \<lparr> lv_showTimestamps = True, lv_fontPointSize = le_fontPointSize E, lv_lines = [], lv_scroll = 0 \<rparr>"

definition GetColorForMessageType :: "log_env \<Rightarrow> LogMessageType \<Rightarrow> string" where
  "GetColorForMessageType E ty =
     (let isDark = IsDarkPalette (le_palette E)
      in case ty of
           LOG_ERROR_MESSAGE \<Rightarrow> if isDark then ''#ff8a80'' else ''#c5221f''
         | LOG_WARNING_MESSAGE \<Rightarrow> if isDark then ''#ffd54f'' else ''#b06000''
         | LOG_USER_EVENT_MESSAGE \<Rightarrow> if isDark then ''#81c995'' else ''#0d652d''
         | LOG_UPLOAD_EVENT_MESSAGE \<Rightarrow> if isDark then ''#8ab4f8'' else ''#174ea6''
         | LOG_LOCAL_USER_CHAT_MESSAGE \<Rightarrow> if isDark then ''#8ab4f8'' else ''#1967d2''
         | LOG_REMOTE_USER_CHAT_MESSAGE \<Rightarrow> if isDark then ''#c592ff'' else ''#6a1b9a''
         | LOG_INFORMATION_MESSAGE \<Rightarrow> pa_disabledText (le_palette E))"

definition LvFormatTimestamp :: "'a qt_strings_scheme \<Rightarrow> log_env \<Rightarrow> string" where
  "LvFormatTimestamp Q E = QArg Q ''[%1]'' (le_time E)"

definition IsScrolledToBottom :: "log_env \<Rightarrow> log_view \<Rightarrow> bool" where
  "IsScrolledToBottom E v \<longleftrightarrow> lv_scroll v \<ge> scroll_maximum E (lv_lines v) - 4"

text \<open>\<open>append\<close>: the oldest lines go when there are too many.\<close>

definition append_block :: "string \<Rightarrow> string list \<Rightarrow> string list" where
  "append_block line ls = drop (Suc (length ls) - kMaximumBlockCount) (ls @ [line])"

definition html_line :: "'a qt_strings_scheme \<Rightarrow> log_env \<Rightarrow> bool \<Rightarrow> string \<Rightarrow> string" where
  "html_line Q E timestamps html =
     (if timestamps
      then QArgs Q ''<span style=\"color:%1;\">%2</span> '' [pa_disabledText (le_palette E), LvFormatTimestamp Q E]
      else []) @ html"

definition AppendHtmlLine :: "'a qt_strings_scheme \<Rightarrow> log_env \<Rightarrow> string \<Rightarrow> log_view \<Rightarrow> log_view" where
  "AppendHtmlLine Q E html v =
     (let wasAtBottom = IsScrolledToBottom E v;
          v1 = v\<lparr>lv_lines := append_block (html_line Q E (lv_showTimestamps v) html) (lv_lines v)\<rparr>
      in if wasAtBottom then v1\<lparr>lv_scroll := scroll_maximum E (lv_lines v1)\<rparr> else v1)"

definition chat_html :: "'a qt_strings_scheme \<Rightarrow> log_env \<Rightarrow> ChatMessage \<Rightarrow> string" where
  "chat_html Q E m =
     (let sender = le_escape E (senderName m); t = le_escape E (msg_text m);
          color = GetColorForMessageType E (msg_type m)
      in (if isPrivate m
          then QArgs Q ''<span style=\"color:%1;\">[%2]</span> '' [GetColorForMessageType E LOG_WARNING_MESSAGE, ''private'']
          else []) @
         (if isAction m then QArgs Q ''<span style=\"color:%1;\">&#42; %2 %3</span>'' [color, sender, t]
          else if sender = [] then QArgs Q ''<span style=\"color:%1;\">%2</span>'' [color, t]
          else let textColor = (if isHighlighted m then GetColorForMessageType E LOG_USER_EVENT_MESSAGE
                                else pa_text (le_palette E))
               in QArgs Q ''<b style=\"color:%1;\">&lt;%2&gt;</b> <span style=\"color:%3;%4\">%5</span>''
                    [GetColorForMessageType E (if isFromLocalUser m then LOG_LOCAL_USER_CHAT_MESSAGE
                       else LOG_REMOTE_USER_CHAT_MESSAGE),
                     sender, textColor, if isHighlighted m then ''font-weight:bold;'' else [], t]))"

definition AppendChatMessage :: "'a qt_strings_scheme \<Rightarrow> log_env \<Rightarrow> ChatMessage \<Rightarrow> log_view \<Rightarrow> log_view" where
  "AppendChatMessage Q E m = AppendHtmlLine Q E (chat_html Q E m)"

definition local_html :: "'a qt_strings_scheme \<Rightarrow> log_env \<Rightarrow> LogMessageType \<Rightarrow> string \<Rightarrow> string" where
  "local_html Q E ty t =
     QArgs Q ''<span style=\"color:%1;\">%2</span>'' [GetColorForMessageType E ty, le_escape E t]"

definition AppendLocalMessage ::
  "'a qt_strings_scheme \<Rightarrow> log_env \<Rightarrow> LogMessageType \<Rightarrow> string \<Rightarrow> log_view \<Rightarrow> log_view" where
  "AppendLocalMessage Q E ty t = AppendHtmlLine Q E (local_html Q E ty t)"

definition SetFontPointSize :: "log_env \<Rightarrow> uint32 \<Rightarrow> log_view \<Rightarrow> log_view" where
  "SetFontPointSize E pointSize v =
     (if pointSize = 0 then v\<lparr>lv_fontPointSize := le_fontPointSize E\<rparr>
      else v\<lparr>lv_fontPointSize := sint (ucast pointSize :: int32)\<rparr>)"

definition SetShowTimestamps :: "bool \<Rightarrow> log_view \<Rightarrow> log_view" where
  "SetShowTimestamps b v = v\<lparr>lv_showTimestamps := b\<rparr>"

subsection \<open>Markup and text\<close>

text \<open>
  The source of a line, cut at its angle brackets: what stands between a \<open><\<close> and the next \<open>>\<close>, and the
  characters outside. What becomes of the characters outside when they are laid out is Qt's.
\<close>

datatype html_item = Tag string | Outside char

function cut_html :: "string \<Rightarrow> html_item list" where
  "cut_html [] = []"
| "cut_html (c # s) =
     (if c = CHR ''<'' then Tag (takeWhile (\<lambda>x. x \<noteq> CHR ''>'') s) # cut_html (drop 1 (dropWhile (\<lambda>x. x \<noteq> CHR ''>'') s))
      else Outside c # cut_html s)"
  by pat_completeness auto
termination
proof (relation "measure length")
  fix c s show "(drop 1 (dropWhile (\<lambda>x. x \<noteq> CHR ''>'') s), c # s) \<in> measure length"
    using length_dropWhile_le [of "\<lambda>x. x \<noteq> CHR ''>''" s] by (simp add: less_Suc_eq_le)
qed auto

text \<open>
  What Qt's escaping is documented to do: of whatever it is given it leaves none of the characters that make markup,
  and a well-formed text it changes in nothing else.
\<close>

definition html_char :: "char \<Rightarrow> string" where
  "html_char c =
     (if c = CHR ''<'' then ''&lt;'' else if c = CHR ''>'' then ''&gt;'' else if c = CHR ''&'' then ''&amp;''
      else if c = CHR 0x22 then ''&quot;'' else [c])"

definition unmarked :: "string \<Rightarrow> bool" where
  "unmarked s \<longleftrightarrow> CHR ''<'' \<notin> set s \<and> CHR ''>'' \<notin> set s \<and> CHR 0x22 \<notin> set s"

definition escape_law :: "log_env \<Rightarrow> bool" where
  "escape_law E \<longleftrightarrow>
     (\<forall>s. unmarked (le_escape E s)) \<and> (\<forall>s. well_formed s \<longrightarrow> le_escape E s = concat (map html_char s))"

text \<open>A colour of the palette does not end the tag it stands in, and a time of day is not markup.\<close>

definition palette_law :: "log_env \<Rightarrow> bool" where
  "palette_law E \<longleftrightarrow> CHR ''>'' \<notin> set (pa_text (le_palette E)) \<and> CHR ''>'' \<notin> set (pa_disabledText (le_palette E)) \<and>
     unmarked (le_time E)"

lemma cut_tag:
  "CHR ''>'' \<notin> set t \<Longrightarrow> cut_html (CHR ''<'' # t @ CHR ''>'' # s) = Tag t # cut_html s"
  by (induction t) (auto simp: takeWhile_append dropWhile_append)

lemma cut_outside: "CHR ''<'' \<notin> set t \<Longrightarrow> cut_html (t @ s) = map Outside t @ cut_html s"
  by (induction t) auto

lemma cut_escaped: "escape_law E \<Longrightarrow> cut_html (le_escape E t @ s) = map Outside (le_escape E t) @ cut_html s"
  by (rule cut_outside) (simp add: escape_law_def unmarked_def)

lemma unmarked_escaped: "unmarked (concat (map html_char s))"
  by (induction s) (auto simp: unmarked_def html_char_def)

subsection \<open>The templates filled in\<close>

lemma QArgs_fill:
  "args_law Q \<Longrightarrow> short_markers s \<and> set (marker_numbers s) = {1..length as} \<Longrightarrow> QArgs Q s as = fill_all as s"
  unfolding args_law_def by blast

lemma templates:
  "short_markers ''<span style=\"color:%1;\">%2</span> '' \<and> marker_numbers ''<span style=\"color:%1;\">%2</span> '' = [1, 2]"
  "short_markers ''<span style=\"color:%1;\">%2</span>'' \<and> marker_numbers ''<span style=\"color:%1;\">%2</span>'' = [1, 2]"
  "short_markers ''<span style=\"color:%1;\">[%2]</span> '' \<and> marker_numbers ''<span style=\"color:%1;\">[%2]</span> '' = [1, 2]"
  "short_markers ''<span style=\"color:%1;\">&#42; %2 %3</span>'' \<and> marker_numbers ''<span style=\"color:%1;\">&#42; %2 %3</span>'' = [1, 2, 3]"
  "short_markers ''<b style=\"color:%1;\">&lt;%2&gt;</b> <span style=\"color:%3;%4\">%5</span>'' \<and>
   marker_numbers ''<b style=\"color:%1;\">&lt;%2&gt;</b> <span style=\"color:%3;%4\">%5</span>'' = [1, 2, 3, 4, 5]"
  by (simp_all add: digit_def)

lemma upto_sets: "set [1, 2 :: nat] = {1..2}" "set [1, 2, 3 :: nat] = {1..3}" "set [1, 2, 3, 4, 5 :: nat] = {1..5}"
  by auto

lemma fill_pair:
  assumes "args_law Q"
  shows "QArgs Q ''<span style=\"color:%1;\">%2</span> '' [a, b] = ''<span style=\"color:'' @ a @ '';\">'' @ b @ ''</span>'' @ '' ''"
    "QArgs Q ''<span style=\"color:%1;\">%2</span>'' [a, b] = ''<span style=\"color:'' @ a @ '';\">'' @ b @ ''</span>''"
    "QArgs Q ''<span style=\"color:%1;\">[%2]</span> '' [a, b] =
       ''<span style=\"color:'' @ a @ '';\">'' @ (''['' @ b @ '']'') @ ''</span>'' @ '' ''"
    "QArgs Q ''<span style=\"color:%1;\">&#42; %2 %3</span>'' [a, b, c] =
       ''<span style=\"color:'' @ a @ '';\">'' @ ''&#42;'' @ '' '' @ b @ '' '' @ c @ ''</span>''"
    "QArgs Q ''<b style=\"color:%1;\">&lt;%2&gt;</b> <span style=\"color:%3;%4\">%5</span>'' [a, b, c, d, e] =
       ''<b style=\"color:'' @ a @ '';\">'' @ ''&lt;'' @ b @ ''&gt;'' @ ''</b>'' @ '' '' @
       ''<span style=\"color:'' @ c @ '';'' @ d @ ''\">'' @ e @ ''</span>''"
  using QArgs_fill [OF assms] templates upto_sets by (simp_all add: digit_def)

declare cut_html.simps(2) [simp del]

text \<open>The tags of the templates.\<close>

definition span_tag :: "string \<Rightarrow> string \<Rightarrow> string" where
  "span_tag color extra = ''span style=\"color:'' @ color @ '';'' @ extra @ [CHR 0x22]"

definition bold_tag :: "string \<Rightarrow> string" where
  "bold_tag color = ''b style=\"color:'' @ color @ '';'' @ [CHR 0x22]"

lemma cut_pieces:
  "CHR ''>'' \<notin> set c \<Longrightarrow> cut_html (''<span style=\"color:'' @ c @ '';\">'' @ s) = Tag (span_tag c []) # cut_html s"
  "CHR ''>'' \<notin> set c \<Longrightarrow>
   cut_html (''<span style=\"color:'' @ c @ '';'' @ ''\">'' @ s) = Tag (span_tag c []) # cut_html s"
  "CHR ''>'' \<notin> set c \<Longrightarrow> CHR ''>'' \<notin> set d \<Longrightarrow>
   cut_html (''<span style=\"color:'' @ c @ '';'' @ d @ ''\">'' @ s) = Tag (span_tag c d) # cut_html s"
  "CHR ''>'' \<notin> set c \<Longrightarrow> cut_html (''<b style=\"color:'' @ c @ '';\">'' @ s) = Tag (bold_tag c) # cut_html s"
  "cut_html (''</span>'' @ s) = Tag ''/span'' # cut_html s" "cut_html ''</span>'' = [Tag ''/span'']"
  "cut_html (''</b>'' @ s) = Tag ''/b'' # cut_html s"
  using cut_tag [of "span_tag c []" s] cut_tag [of "span_tag c d" s] cut_tag [of "bold_tag c" s]
    cut_tag [of "''/span''" s] cut_tag [of "''/span''" "[]"] cut_tag [of "''/b''" s]
  by (simp_all add: span_tag_def bold_tag_def)

lemma cut_texts:
  "cut_html ('' '' @ s) = map Outside '' '' @ cut_html s" "cut_html ('' '') = map Outside '' ''"
  "cut_html (''['' @ ''private'' @ '']'' @ s) = map Outside ''[private]'' @ cut_html s"
  "cut_html (''&#42;'' @ s) = map Outside ''&#42;'' @ cut_html s"
  "cut_html (''&lt;'' @ s) = map Outside ''&lt;'' @ cut_html s" "cut_html (''&gt;'' @ s) = map Outside ''&gt;'' @ cut_html s"
  using cut_outside [of "'' ''" "[]"]
  by (simp_all add: cut_outside [of "'' ''", simplified] cut_outside [of "''[private]''", simplified]
      cut_outside [of "''&#42;''", simplified] cut_outside [of "''&lt;''", simplified] cut_outside [of "''&gt;''", simplified])

lemma own_colors: "palette_law E \<Longrightarrow> CHR ''>'' \<notin> set (GetColorForMessageType E ty)"
  by (cases ty) (simp_all add: GetColorForMessageType_def palette_law_def Let_def)

subsection \<open>Correctness\<close>

text \<open>The texts of a line: the program's own and, escaped, the name and the message.\<close>

definition line_text :: "log_env \<Rightarrow> ChatMessage \<Rightarrow> string" where
  "line_text E m =
     (let sender = le_escape E (senderName m); t = le_escape E (msg_text m)
      in (if isPrivate m then ''[private] '' else []) @
         (if isAction m then ''&#42; '' @ sender @ '' '' @ t
          else if sender = [] then t else ''&lt;'' @ sender @ ''&gt; '' @ t))"

fun outside :: "html_item list \<Rightarrow> string" where
  "outside [] = []"
| "outside (Outside c # s) = c # outside s"
| "outside (Tag t # s) = outside s"

fun tags_in :: "html_item list \<Rightarrow> string list" where
  "tags_in [] = []"
| "tags_in (Outside c # s) = tags_in s"
| "tags_in (Tag t # s) = t # tags_in s"

lemma items_append [simp]:
  "outside (xs @ ys) = outside xs @ outside ys" "tags_in (xs @ ys) = tags_in xs @ tags_in ys"
  by (induction xs rule: outside.induct) simp_all

lemma items_map [simp]: "outside (map Outside t) = t" "tags_in (map Outside t) = []"
  by (induction t) simp_all

text \<open>The tags of a line: chosen by its kind, and by nothing that anybody wrote.\<close>

definition line_tags :: "log_env \<Rightarrow> ChatMessage \<Rightarrow> string list" where
  "line_tags E m =
     (if isPrivate m then [span_tag (GetColorForMessageType E LOG_WARNING_MESSAGE) [], ''/span''] else []) @
     (if isAction m \<or> le_escape E (senderName m) = []
      then [span_tag (GetColorForMessageType E (msg_type m)) [], ''/span'']
      else [bold_tag (GetColorForMessageType E (if isFromLocalUser m then LOG_LOCAL_USER_CHAT_MESSAGE
                        else LOG_REMOTE_USER_CHAT_MESSAGE)), ''/b'',
            span_tag (if isHighlighted m then GetColorForMessageType E LOG_USER_EVENT_MESSAGE else pa_text (le_palette E))
              (if isHighlighted m then ''font-weight:bold;'' else []), ''/span''])"

lemma cut_chat:
  assumes "args_law Q" "escape_law E" "palette_law E"
  shows "outside (cut_html (chat_html Q E m)) = line_text E m" "tags_in (cut_html (chat_html Q E m)) = line_tags E m"
proof -
  have colours: "CHR ''>'' \<notin> set (pa_text (le_palette E))" "CHR ''>'' \<notin> set ''font-weight:bold;''" "CHR ''>'' \<notin> set []"
    using assms(3) by (simp_all add: palette_law_def)
  note rules = chat_html_def Let_def fill_pair [OF assms(1)] append_assoc
    cut_pieces cut_texts cut_escaped [OF assms(2)] own_colors [OF assms(3)] colours not_False_eq_True HOL.simp_thms
  show "outside (cut_html (chat_html Q E m)) = line_text E m"
    by (cases "isPrivate m"; cases "isAction m"; cases "le_escape E (senderName m) = []"; cases "isHighlighted m")
      (simp_all only: rules if_True if_False append_Nil outside.simps, simp_all add: line_text_def)
  show "tags_in (cut_html (chat_html Q E m)) = line_tags E m"
    by (cases "isPrivate m"; cases "isAction m"; cases "le_escape E (senderName m) = []"; cases "isHighlighted m")
      (simp_all only: rules if_True if_False append_Nil tags_in.simps, simp_all add: line_tags_def)
qed

lemma marker_one: "marker 1 = ''%1''" "marker (Suc 0) = ''%1''"
  by code_simp+

text \<open>The stamp that may stand in front.\<close>

definition stamp_text :: "log_env \<Rightarrow> bool \<Rightarrow> string" where
  "stamp_text E b = (if b then ''['' @ le_time E @ ''] '' else [])"

definition stamp_tags :: "log_env \<Rightarrow> bool \<Rightarrow> string list" where
  "stamp_tags E b = (if b then [span_tag (pa_disabledText (le_palette E)) [], ''/span''] else [])"

lemma cut_line:
  assumes "arg_law Q" "args_law Q" "palette_law E"
  shows "outside (cut_html (html_line Q E b html)) = stamp_text E b @ outside (cut_html html)"
    "tags_in (cut_html (html_line Q E b html)) = stamp_tags E b @ tags_in (cut_html html)"
proof -
  have "LvFormatTimestamp Q E = ''['' @ le_time E @ '']''"
    using QArg_fill [OF assms(1), of "''[''" 1 "'']''" "le_time E"]
    by (simp add: LvFormatTimestamp_def marker_one digit_def)
  moreover have "CHR ''>'' \<notin> set (pa_disabledText (le_palette E))" using assms(3) by (simp add: palette_law_def)
  moreover have "cut_html (''['' @ le_time E @ '']'' @ s) = map Outside (''['' @ le_time E @ '']'') @ cut_html s" for s
    using assms(3) cut_outside [of "''['' @ le_time E @ '']''" s] by (simp add: palette_law_def unmarked_def)
  ultimately have "cut_html (html_line Q E True html) = Tag (span_tag (pa_disabledText (le_palette E)) []) #
      map Outside (''['' @ le_time E @ '']'') @ Tag ''/span'' # map Outside '' '' @ cut_html html"
    by (simp only: html_line_def if_True fill_pair [OF assms(2)] append_assoc cut_pieces cut_texts not_False_eq_True HOL.simp_thms)
  then show "outside (cut_html (html_line Q E b html)) = stamp_text E b @ outside (cut_html html)"
    "tags_in (cut_html (html_line Q E b html)) = stamp_tags E b @ tags_in (cut_html html)"
    by (cases b, simp_all add: html_line_def stamp_text_def stamp_tags_def)
qed

lemma cut_local:
  assumes "args_law Q" "escape_law E" "palette_law E"
  shows "cut_html (local_html Q E ty t) =
    Tag (span_tag (GetColorForMessageType E ty) []) # map Outside (le_escape E t) @ [Tag ''/span'']"
  by (simp only: local_html_def fill_pair [OF assms(1)] cut_escaped [OF assms(2)]
      own_colors [OF assms(3)] cut_pieces not_False_eq_True HOL.simp_thms)

lemma last_block: "last (append_block x xs) = x"
  by (simp add: append_block_def kMaximumBlockCount_def)

text \<open>
  C16. Nothing that a stranger writes is markup: whatever bytes a name and a text have, even place markers, entities
  or tags, the tags in the source of the line are exactly the ones that the program puts around its parts, which
  depend on the kind of the message only, and outside of them there is exactly the time, the name and the text,
  the latter two escaped. So it is with a line of the program itself.
\<close>

theorem chat_is_not_markup:
  assumes "arg_law Q" "args_law Q" "escape_law E" "palette_law E"
  shows "let chat = cut_html (last (lv_lines (AppendChatMessage Q E m v)));
      own = cut_html (last (lv_lines (AppendLocalMessage Q E ty t v))); b = lv_showTimestamps v
    in tags_in chat = stamp_tags E b @ line_tags E m \<and> outside chat = stamp_text E b @ line_text E m \<and>
       tags_in own = stamp_tags E b @ [span_tag (GetColorForMessageType E ty) [], ''/span''] \<and>
       outside own = stamp_text E b @ le_escape E t"
  using cut_line [OF assms(1,2,4)] cut_chat [OF assms(2-4)] cut_local [OF assms(2-4)]
  by (simp add: AppendChatMessage_def AppendLocalMessage_def AppendHtmlLine_def last_block Let_def)

definition demo_log_env :: log_env where
  "demo_log_env = \<lparr> le_palette = \<lparr> pa_windowLightness = 200, pa_windowTextLightness = 10, pa_text = ''#000000'',
     pa_disabledText = ''#888888'' \<rparr>, le_escape = (\<lambda>s. concat (map html_char s)), le_time = ''12:00:00'',
     le_fontPointSize = 10, scroll_maximum = (\<lambda>ls. int (length ls)) \<rparr>"

theorem chat_is_not_markup_witness:
  "let items = cut_html (last (lv_lines (AppendChatMessage ref_strings demo_log_env
     ((chat_message LOG_REMOTE_USER_CHAT_MESSAGE ''<a href=x>%1</a> & co'')\<lparr>senderName := ''<b>''\<rparr>) (new_log_view demo_log_env))))
   in length (tags_in items) = 6 \<and>
      outside items = ''[12:00:00] &lt;&lt;b&gt;&gt; &lt;a href=x&gt;%1&lt;/a&gt; &amp; co''"
proof -
  have "escape_law demo_log_env" "palette_law demo_log_env"
    by (simp_all add: escape_law_def palette_law_def demo_log_env_def unmarked_escaped) (simp add: unmarked_def)
  from chat_is_not_markup [OF ref_strings_arg_law ref_strings_args_law this,
      of "(chat_message LOG_REMOTE_USER_CHAT_MESSAGE ''<a href=x>%1</a> & co'')\<lparr>senderName := ''<b>''\<rparr>" "new_log_view demo_log_env"
        LOG_ERROR_MESSAGE "[]"]
  show ?thesis
    by (simp add: Let_def new_log_view_def line_text_def line_tags_def stamp_text_def stamp_tags_def chat_message_def
        demo_log_env_def html_char_def)
qed

text \<open>
  A line that arrives scrolls the view only when the reader was at the end of it, within four pixels; the
  document never has more than five thousand lines, and those are the newest ones.
\<close>

theorem log_follows_the_end:
  assumes "length (lv_lines v) \<le> kMaximumBlockCount"
  shows "let v' = AppendHtmlLine Q E html v
    in (if IsScrolledToBottom E v then lv_scroll v' = scroll_maximum E (lv_lines v') else lv_scroll v' = lv_scroll v) \<and>
       length (lv_lines v') \<le> kMaximumBlockCount \<and>
       (\<exists>n. lv_lines v' = drop n (lv_lines v @ [html_line Q E (lv_showTimestamps v) html]))"
  using assms by (auto simp: AppendHtmlLine_def append_block_def Let_def simp del: drop_append)

theorem log_follows_the_end_witness:
  "lv_lines (AppendHtmlLine ref_strings demo_log_env ''x'' (new_log_view demo_log_env)) \<noteq> [] \<and>
   lv_scroll (AppendHtmlLine ref_strings demo_log_env ''x'' (new_log_view demo_log_env)) = 1"
proof -
  let ?v = "new_log_view demo_log_env"
  have s: "IsScrolledToBottom demo_log_env ?v" "length (lv_lines ?v) \<le> kMaximumBlockCount"
    by (simp_all add: IsScrolledToBottom_def new_log_view_def demo_log_env_def)
  have n: "length (lv_lines (AppendHtmlLine ref_strings demo_log_env ''x'' ?v)) = 1"
    by (simp add: AppendHtmlLine_def append_block_def new_log_view_def kMaximumBlockCount_def Let_def)
  have "scroll_maximum demo_log_env ls = int (length ls)" for ls by (simp add: demo_log_env_def)
  with log_follows_the_end [OF s(2), of ref_strings demo_log_env "''x''"] s(1) n show ?thesis by (auto simp: Let_def)
qed

end
