(* ===== verification/WindowEvents.thy ===== *)
theory WindowEvents
  imports WindowLaws Dialog ResultLaws
begin

section \<open>Every history of the window\<close>

text \<open>
  Everything that can happen to the window as one step function: what the user does, the timers, what the
  components report, and what their networks and the scanning thread do on their own. A step that
  dereferences a null pointer is \<^const>\<open>None\<close>; a closed window does not change any more.
\<close>

datatype app_event =
    ConnectClicked | ConnectMenu | AdditionalServer string | DisconnectMenu
  | SettingsAccepted settings_dialog | ShareFolderChosen string | SharingClicked | NotificationsClicked
  | TimestampsClicked | HostColumnClicked | ClearLogClicked
  | KeyPressed input_key | ReturnPressed | UserDoubleClicked string
  | QueryClicked | QueryReturn | DownloadClicked | CancelClicked "nat list" | ClearTransfersClicked
  | StatusTyped string | ServerTyped string | PortTyped uint16 | NameTyped string | QueryTyped string
  | ResultsSelected "int list" | WindowClosed
  | IdleTimer | FlushTimer
  | ServerListArrived "string list" "string list" | ServerListFailed string
  | ConnectionReport nat conn_event | DownloadReported LogMessageType string | UploadReported up_event
  | ServerTraffic nat conn_op | DownloadTraffic dm_op | UploadTraffic up_op | ScannerStep

text \<open>What the transceivers of the downloads and of the upload server can do.\<close>

fun dm_delivery :: "dm_op \<Rightarrow> bool" where
  "dm_delivery (DmMessage a m) = True" | "dm_delivery (DmConnected a) = True"
| "dm_delivery (DmDisconnected a) = True" | "dm_delivery _ = False"

fun up_delivery :: "up_op \<Rightarrow> bool" where
  "up_delivery (UpAccept s a) = True" | "up_delivery (UpDetach s) = True"
| "up_delivery (UpMessage s m) = True" | "up_delivery (UpDrained n) = True" | "up_delivery _ = False"

definition scanner_step :: "ShareScanner \<Rightarrow> ShareScanner" where
  "scanner_step sc =
     (case scan_program sc of [] \<Rightarrow> sc
      | action # rest \<Rightarrow> if fThreadRunning sc then exec_action action (sc\<lparr>scan_program := rest\<rparr>) else sc)"

definition press_key :: "window_env \<Rightarrow> input_key \<Rightarrow> window \<Rightarrow> window" where
  "press_key En k w =
     w\<lparr>mw_input := keyPressEvent (we_isSpace En)
         (Some (\<lambda>prefix. GetCompletionCandidates (we_T En) (we_sort En) prefix w)) k (mw_input w)\<rparr>"

definition OnDisconnectAll :: "window \<Rightarrow> window" where
  "OnDisconnectAll = on_connections DisconnectAll"

definition OnToggleTimestamps :: "bool \<Rightarrow> window \<Rightarrow> window" where
  "OnToggleTimestamps b w = w\<lparr>mw_showTimestamps := b\<rparr>"

definition OnQueryFieldReturnPressed :: "window_env \<Rightarrow> window \<Rightarrow> window" where
  "OnQueryFieldReturnPressed = MwStartQuery"

definition OnDownloadSelected :: "window_env \<Rightarrow> window \<Rightarrow> window" where
  "OnDownloadSelected = DownloadSelectedResults"

definition update_failed :: "window_env \<Rightarrow> string \<Rightarrow> window \<Rightarrow> window" where
  "update_failed En reason = say LOG_WARNING_MESSAGE (QArg (we_Q En) ''Could not fetch the server list: %1'' reason)"

fun handle :: "window_env \<Rightarrow> app_event \<Rightarrow> window \<Rightarrow> window option" where
  "handle En ConnectClicked w = Some (OnConnectButtonClicked En w)"
| "handle En ConnectMenu w = Some (ConnectToConfiguredServer En w)"
| "handle En (AdditionalServer s) w = OnConnectAdditionalServer En s w"
| "handle En DisconnectMenu w = Some (OnDisconnectAll w)"
| "handle En (SettingsAccepted d) w = OnShowSettings En (ApplyToSettings (we_Q En) d) w"
| "handle En (ShareFolderChosen s) w = Some (OnChooseShareFolder En s w)"
| "handle En SharingClicked w = Some (OnToggleFileSharing En (\<not> mw_fileSharingChecked w) w)"
| "handle En NotificationsClicked w = OnToggleNotifications (\<not> mw_notificationsChecked w) w"
| "handle En TimestampsClicked w = Some (OnToggleTimestamps (\<not> mw_showTimestamps w) w)"
| "handle En HostColumnClicked w = Some (w\<lparr>mw_showHostColumn := \<not> mw_showHostColumn w\<rparr>)"
| "handle En ClearLogClicked w = Some (w\<lparr>mw_chatLog := []\<rparr>)"
| "handle En (KeyPressed k) w = Some (press_key En k w)"
| "handle En ReturnPressed w = Some (OnInputReturnPressed En w)"
| "handle En (UserDoubleClicked n) w = Some (OnUserDoubleClicked En n w)"
| "handle En QueryClicked w = Some (OnQueryButtonClicked En w)"
| "handle En QueryReturn w = Some (OnQueryFieldReturnPressed En w)"
| "handle En DownloadClicked w = Some (OnDownloadSelected En w)"
| "handle En (CancelClicked rows) w = Some (OnCancelSelectedTransfer En rows w)"
| "handle En ClearTransfersClicked w = Some (OnClearFinishedTransfers w)"
| "handle En (StatusTyped s) w = Some (OnStatusChanged En s w)"
| "handle En (ServerTyped s) w = Some (w\<lparr>mw_serverAddress := s\<rparr>)"
| "handle En (PortTyped p) w = Some (w\<lparr>mw_serverPort := p\<rparr>)"
| "handle En (NameTyped s) w = Some (w\<lparr>mw_userName := s\<rparr>)"
| "handle En (QueryTyped s) w = Some (w\<lparr>mw_queryField := s\<rparr>)"
| "handle En (ResultsSelected rows) w = Some (w\<lparr>mw_selectedResults := rows\<rparr>)"
| "handle En WindowClosed w = Some (closeEvent En w)"
| "handle En IdleTimer w = Some (OnIdleTimerFired En w)"
| "handle En FlushTimer w = Some (OnFlushTimer En w)"
| "handle En (ServerListArrived add gone) w = Some (MwServerListReceived En add gone w)"
| "handle En (ServerListFailed reason) w = Some (update_failed En reason w)"
| "handle En (ConnectionReport a ev) w = Some (on_callback En a ev w)"
| "handle En (DownloadReported ty t) w = Some (OnDownloadReport En ty t w)"
| "handle En (UploadReported ev) w = Some (on_upload_event En ev w)"
| "handle En (ServerTraffic a op) w =
     Some (if is_callback op then on_connections (run_cm (we_L En) (we_net En) (CmOne a op)) w else w)"
| "handle En (DownloadTraffic op) w =
     Some (if dm_delivery op then on_downloads (run_dm (we_L En) (we_dm En) op) w else w)"
| "handle En (UploadTraffic op) w =
     Some (if up_delivery op then on_uploads (run_up (we_L En) (we_up En) op) w else w)"
| "handle En ScannerStep w = Some (w\<lparr>mw_shareScanner := scanner_step (mw_shareScanner w)\<rparr>)"

definition app_step :: "window_env \<Rightarrow> app_event \<Rightarrow> window \<Rightarrow> window option" where
  "app_step En ev w = (if mw_closed w then Some w else handle En ev w)"

primrec run_app :: "window_env \<Rightarrow> app_event list \<Rightarrow> window \<Rightarrow> window option" where
  "run_app En [] w = Some w"
| "run_app En (ev # evs) w = (case app_step En ev w of None \<Rightarrow> None | Some w' \<Rightarrow> run_app En evs w')"

subsection \<open>The window works the connections through their manager\<close>

text \<open>
  A law of the connection manager that none of its calls and none of the network's steps breaks holds for the
  connections of a window at all times: every handler changes the connections by calls of the manager only.
\<close>

locale window_law =
  fixes I :: "connection_manager \<Rightarrow> bool" and En :: window_env
  assumes kept: "I m \<Longrightarrow> \<not> redials op \<Longrightarrow> I (run_cm (we_L En) (we_net En) op m)"
begin

lemma calls [simp]:
  assumes "I m"
  shows "I (snd (AddConnection (we_L En) (we_net En) h p m))" "I (DisconnectAll m)"
    "I (CmPerformIdleTasks (we_L En) (we_net En) m)" "I (CmSetInstallId i m)"
    "I (CmSetLocalUserName (we_L En) (we_net En) n m)" "I (CmSetLocalUserStatus (we_L En) (we_net En) s m)"
    "I (CmSetFirewalled (we_L En) (we_net En) b m)" "I (CmSetAdvertisedPort (we_L En) (we_net En) q m)"
    "I (SendChatToAll (we_L En) (we_net En) t m)" "I (StartQueryOnAll (we_L En) (we_net En) se fe m)"
    "I (StopQueryOnAll (we_L En) (we_net En) m)" "I (PublishSharedFilesOnAll (we_L En) (we_net En) fs m)"
    "I (CmUnpublishAllSharedFiles (we_L En) (we_net En) m)" "I (PublishSharedFileCountOnAll (we_L En) (we_net En) k m)"
  using kept [OF assms, of "CmAdd h p"] kept [OF assms, of CmDisconnectAll] kept [OF assms, of CmIdle]
    kept [OF assms, of "CmInstallId i"] kept [OF assms, of "CmName n"] kept [OF assms, of "CmStatus s"]
    kept [OF assms, of "CmFirewalled b"] kept [OF assms, of "CmPort q"] kept [OF assms, of "CmChat t"]
    kept [OF assms, of "CmQuery se fe"] kept [OF assms, of CmStopQuery] kept [OF assms, of "CmPublish fs"]
    kept [OF assms, of CmUnpublish] kept [OF assms, of "CmCount k"]
  by simp_all

lemma one_call [simp]:
  assumes "I m"
  shows "I (at_connection a (SendChatText (we_L En) (net (we_net En) a) sid t) m)"
    "I (at_connection a (SendPing (we_L En) (net (we_net En) a) sid) m)"
proof -
  have eq: "at_connection a f m = on_one a f m" for f
    by (auto simp: at_connection_def on_one_def on_all_def)
  show "I (at_connection a (SendChatText (we_L En) (net (we_net En) a) sid t) m)"
    using kept [OF assms, of "CmOne a (OpSendChat sid t)"] by (simp add: eq deliverable_def)
  show "I (at_connection a (SendPing (we_L En) (net (we_net En) a) sid) m)"
    using kept [OF assms, of "CmOne a (OpSendPing sid)"] by (simp add: eq deliverable_def)
qed

lemma sharing_ok [simp]:
  assumes "I (mw_connections w)"
  shows "I (mw_connections (StartSharing En w))" "I (mw_connections (StopSharing En w))"
    "I (mw_connections (OnToggleFileSharing En b w))" "I (mw_connections (check_file_sharing En b w))"
    "I (mw_connections (OnChooseShareFolder En s w))" "I (mw_connections (DrainShareScanner En w))"
proof -
  have start: "I (mw_connections (StartSharing En w))" if "I (mw_connections w)" for w
    using that by (auto simp: StartSharing_def Let_def split: prod.split)
  moreover have stop: "I (mw_connections (StopSharing En w))" if "I (mw_connections w)" for w
    using that by (simp add: StopSharing_def Let_def)
  moreover have toggle: "I (mw_connections (OnToggleFileSharing En b w))" if "I (mw_connections w)" for b w
    using that start stop by (auto simp: OnToggleFileSharing_def Let_def)
  moreover have drain: "I (mw_connections (publish_discovered En w))" "I (mw_connections (report_scan_end En w))"
    if "I (mw_connections w)" for w
    using that by (auto simp: publish_discovered_def report_scan_end_def Let_def split: prod.split)
  ultimately show "I (mw_connections (StartSharing En w))" "I (mw_connections (StopSharing En w))"
    "I (mw_connections (OnToggleFileSharing En b w))" "I (mw_connections (check_file_sharing En b w))"
    "I (mw_connections (OnChooseShareFolder En s w))" "I (mw_connections (DrainShareScanner En w))"
    using assms by (auto simp: check_file_sharing_def OnChooseShareFolder_def DrainShareScanner_def Let_def)
qed

lemma servers_ok [simp]:
  assumes "I (mw_connections w)"
  shows "I (mw_connections (ConnectToConfiguredServer En w))" "I (mw_connections (RestoreExtraServers En w))"
    "I (mw_connections (SaveExtraServers w))" "I (mw_connections (OnConnectButtonClicked En w))"
    "I (mw_connections (MwStartQuery En w))" "I (mw_connections (OnQueryButtonClicked En w))"
    "I (mw_connections (MwServerListReceived En xs ys w))"
proof -
  have all: "I (mw_connections (fold (\<lambda>s. on_connections (\<lambda>m. snd (AddConnection (we_L En) (we_net En) s p m))) ss w))"
    if "I (mw_connections w)" for ss p w
    using that by (induction ss arbitrary: w) simp_all
  show "I (mw_connections (ConnectToConfiguredServer En w))" "I (mw_connections (RestoreExtraServers En w))"
    "I (mw_connections (SaveExtraServers w))" "I (mw_connections (OnConnectButtonClicked En w))"
    "I (mw_connections (MwStartQuery En w))" "I (mw_connections (OnQueryButtonClicked En w))"
    "I (mw_connections (MwServerListReceived En xs ys w))"
    using assms all [OF assms]
    by (auto simp: ConnectToConfiguredServer_def RestoreExtraServers_def UpdateMultiServerUi_def SaveExtraServers_def
        OnConnectButtonClicked_def MwStartQuery_def OnQueryButtonClicked_def UpdateQueryWidgets_def
        MwServerListReceived_def Let_def split: prod.split)
qed

lemma log_chat_connections [simp]: "mw_connections (log_chat En m w) = mw_connections w"
  by (simp add: log_chat_def split: prod.split)

lemma show_chat_connections [simp]: "mw_connections (show_chat m w) = mw_connections w"
  by (simp add: show_chat_def)

lemma talking_ok [simp]:
  assumes "I (mw_connections w)"
  shows "I (mw_connections (SendChatToEveryone En t b w))" "I (mw_connections (SendPrivateMessage En to t w))"
    "I (mw_connections (PingUser En to w))"
proof -
  have "I (mw_connections (send_private En t u w))" "I (mw_connections (ping_user En u w))" if "I (mw_connections w)" for u w
    using that by (auto simp: send_private_def ping_user_def Let_def split: option.split)
  then have "I (mw_connections (fold (send_private En t) us w))" "I (mw_connections (fold (ping_user En) us w))"
    if "I (mw_connections w)" for us w
    using that by (induction us arbitrary: w) simp_all
  then show "I (mw_connections (SendChatToEveryone En t b w))" "I (mw_connections (SendPrivateMessage En to t w))"
    "I (mw_connections (PingUser En to w))"
    using assms by (simp_all add: SendChatToEveryone_def SendPrivateMessage_def PingUser_def resolve_targets_def Let_def)
qed

lemma downloads_ok [simp]:
  "mw_connections (DownloadSelectedResults En w) = mw_connections w"
  "mw_connections (OnCancelSelectedTransfer En rows w) = mw_connections w"
  "mw_connections (OnClearFinishedTransfers w) = mw_connections w"
proof -
  have "mw_connections (fold (start_from En cs) acs w) = mw_connections w" for cs acs w
    by (induction acs arbitrary: w) (auto simp: start_from_def Let_def)
  moreover have "mw_connections (fold (\<lambda>row. on_downloads (AbortDownload (we_dm En) row)) rows w) = mw_connections w" for w
    by (induction rows arbitrary: w) simp_all
  ultimately show "mw_connections (DownloadSelectedResults En w) = mw_connections w"
    "mw_connections (OnCancelSelectedTransfer En rows w) = mw_connections w"
    "mw_connections (OnClearFinishedTransfers w) = mw_connections w"
    by (simp_all add: DownloadSelectedResults_def OnCancelSelectedTransfer_def OnClearFinishedTransfers_def Let_def)
qed

lemma notifications_connections:
  "set_notifier b w = Some w' \<Longrightarrow> mw_connections w' = mw_connections w"
  "OnToggleNotifications b w = Some w' \<Longrightarrow> mw_connections w' = mw_connections w"
  "check_notifications b w = Some w' \<Longrightarrow> mw_connections w' = mw_connections w"
  by (auto simp: set_notifier_def OnToggleNotifications_def check_notifications_def split: option.splits if_splits)

lemma settings_ok_window:
  assumes "I (mw_connections w)"
  shows "ApplySettings En w = Some w' \<Longrightarrow> I (mw_connections w')"
    "OnShowSettings En f w = Some w' \<Longrightarrow> I (mw_connections w')"
    "OnConnectAdditionalServer En s w = Some w' \<Longrightarrow> I (mw_connections w')"
proof -
  have applied: "I (mw_connections w')" if "ApplySettings En w = Some w'" "I (mw_connections w)" for w w'
    using that notifications_connections(1)
    by (auto simp: ApplySettings_def apply_connections_def Let_def split: option.splits)
  then show "ApplySettings En w = Some w' \<Longrightarrow> I (mw_connections w')" using assms by blast
  show "OnShowSettings En f w = Some w' \<Longrightarrow> I (mw_connections w')"
    using assms applied [of "on_settings f w"] notifications_connections(3)
    by (auto simp: OnShowSettings_def Let_def split: option.splits if_splits)
  have add: "I m" if "AddConnection (we_L En) (we_net En) h p (mw_connections w) = (c, m)" for h p c m
    using calls(1) [OF assms, of h p] that by simp
  show "OnConnectAdditionalServer En s w = Some w' \<Longrightarrow> I (mw_connections w')"
    using assms add applied
    by (auto simp: OnConnectAdditionalServer_def UpdateMultiServerUi_def SaveExtraServers_def Let_def
        split: option.splits if_splits prod.splits)
qed

lemma said_connections [simp]:
  "mw_connections (fold (\<lambda>x. say ty (f x)) xs w) = mw_connections w"
  "mw_connections (fold (\<lambda>(a, b). say ty (g a b)) ps w) = mw_connections w"
proof -
  show "mw_connections (fold (\<lambda>x. say ty (f x)) xs w) = mw_connections w" by (induction xs arbitrary: w) simp_all
  show "mw_connections (fold (\<lambda>(a, b). say ty (g a b)) ps w) = mw_connections w"
    by (induction ps arbitrary: w) auto
qed

lemma put_connections [simp]:
  "mw_connections (set_ignore p w) = mw_connections w" "mw_connections (set_watch p w) = mw_connections w"
  "mw_connections (set_autopriv p w) = mw_connections w"
  by (simp_all add: set_ignore_def set_watch_def set_autopriv_def)

lemma filter_connections:
  "(\<And>p w. mw_connections (put p w) = mw_connections w) \<Longrightarrow>
   mw_connections (HandleFilterCommand En get put setter n t w) = mw_connections w"
  by (simp add: HandleFilterCommand_def Let_def)

lemma alias_connections [simp]:
  "mw_connections (HandleAliasCommand En c w) = mw_connections w"
  "mw_connections (ShowCommandHelp En w) = mw_connections w" "mw_connections (ShowConnectionInformation En w) = mw_connections w"
  by (auto simp: HandleAliasCommand_def save_aliases_def ShowCommandHelp_def ShowConnectionInformation_def
      split: prod.split)

lemma status_ok [simp]:
  assumes "I (mw_connections w)"
  shows "I (mw_connections (MwSetUserStatus En t w))" "I (mw_connections (OnStatusChanged En t w))"
    "I (mw_connections (change_nick En t w))"
  using assms by (simp_all add: MwSetUserStatus_def OnStatusChanged_def change_nick_def Let_def)

lemma closing [simp]: "mw_closed (closeEvent En w)"
  by (simp add: closeEvent_def Let_def)

lemma command_ok:
  assumes "I (mw_connections w)"
  shows "mw_closed (run_command En c w) \<or> I (mw_connections (run_command En c w))"
proof (cases "cmd_type c = CHAT_COMMAND_QUIT")
  case False
  then show ?thesis using assms
    by (cases "cmd_type c") (simp_all add: run_command_def Let_def filter_connections UpdateQueryWidgets_def)
qed (simp add: run_command_def Let_def)

lemma return_ok: "I (mw_connections w) \<Longrightarrow> mw_closed (OnInputReturnPressed En w) \<or> I (mw_connections (OnInputReturnPressed En w))"
  using command_ok by (simp add: OnInputReturnPressed_def HandleUserInput_def Let_def)

lemma notify_connections [simp]:
  "mw_connections (notify_user En cat su body w) = mw_connections w" "mw_connections (MaybeNotifyAboutChat En m w) = mw_connections w"
  "mw_connections (OnChatMessage En a m w) = mw_connections w" "mw_connections (on_results f w) = mw_connections w"
  "mw_connections (flush_results En w) = mw_connections w" "mw_connections (OnPingReply En u t v w) = mw_connections w"
  "mw_connections (UpdateResultCount En w) = mw_connections w" "mw_connections (OnUserLeft En a u w) = mw_connections w"
  "mw_connections (OnUserUpdated En a u b w) = mw_connections w" "mw_connections (OnStateChanged En a st w) = mw_connections w"
  by (auto simp: notify_user_def MaybeNotifyAboutChat_def OnChatMessage_def on_results_def flush_results_def
      OnPingReply_def UpdateResultCount_def OnUserLeft_def OnUserUpdated_def OnStateChanged_def UpdateMultiServerUi_def
      UpdateQueryWidgets_def UpdateConnectionWidgets_def Let_def)

lemma callback_ok [simp]: "I (mw_connections w) \<Longrightarrow> I (mw_connections (on_callback En a ev w))"
  by (cases ev)
    (simp_all add: on_callback_def OnSessionIdAssigned_def UpdateQueryWidgets_def Let_def)

lemma reported_ok [simp]:
  "mw_connections (OnDownloadReport En ty t w) = mw_connections w" "mw_connections (on_upload_event En ue w) = mw_connections w"
  "mw_connections (OnFlushTimer En w) = mw_connections w" "mw_connections (OnUserDoubleClicked En n w) = mw_connections w"
  "mw_connections (press_key En k w) = mw_connections w"
  by (auto simp: OnDownloadReport_def on_upload_event_def OnFlushTimer_def OnUserDoubleClicked_def press_key_def Let_def
      split: up_event.split)

lemma idle_ok [simp]: "I (mw_connections w) \<Longrightarrow> I (mw_connections (OnIdleTimerFired En w))"
  by (simp add: OnIdleTimerFired_def)

lemma traffic_ok: "I m \<Longrightarrow> is_callback op \<Longrightarrow> I (run_cm (we_L En) (we_net En) (CmOne a op) m)"
  by (rule kept) (auto elim: is_callback.elims)

lemma step_ok:
  assumes "I (mw_connections w)" "app_step En ev w = Some w'" "\<not> mw_closed w'"
  shows "I (mw_connections w')"
proof (cases "mw_closed w")
  case False
  with assms(2) have h: "handle En ev w = Some w'" by (simp add: app_step_def)
  show ?thesis
  proof (cases ev)
    case (ServerTraffic a op)
    then show ?thesis using h assms(1) traffic_ok [OF assms(1), of op a] by (auto split: if_splits)
  qed (use h assms(1,3) return_ok [OF assms(1)] settings_ok_window(2,3) [OF assms(1)] notifications_connections(2) in
      \<open>auto simp: OnDisconnectAll_def OnToggleTimestamps_def OnQueryFieldReturnPressed_def OnDownloadSelected_def
        update_failed_def split: if_splits\<close>)
qed (use assms in \<open>simp add: app_step_def\<close>)

lemma run_closed: "mw_closed w \<Longrightarrow> run_app En evs w = Some w"
  by (induction evs) (simp_all add: app_step_def)

lemma run_ok:
  "I (mw_connections w) \<Longrightarrow> run_app En evs w = Some w' \<Longrightarrow> \<not> mw_closed w' \<Longrightarrow> I (mw_connections w')"
proof (induction evs arbitrary: w)
  case (Cons ev evs)
  then obtain w1 where w1: "app_step En ev w = Some w1" "run_app En evs w1 = Some w'" by (auto split: option.splits)
  have "\<not> mw_closed w1" using run_closed [of w1 evs] w1(2) Cons.prems(3) by auto
  then show ?case using step_ok [OF Cons.prems(1) w1(1)] Cons.IH w1(2) Cons.prems(3) by blast
qed simp

lemma finish_ok:
  assumes "I (CmSetListener True new_connections)" "mw_connections w = new_connections" "finish_opening En w = Some w'"
  shows "I (mw_connections w')"
proof -
  obtain i st where g: "GetInstallId (we_settings En) (mw_settings w) = (i, st)" by fastforce
  define w3 where "w3 = on_uploads (SetUpListener True) (on_downloads (SetDmListener True)
     ((on_connections (CmSetLocalUserStatus (we_L En) (we_net En) (GetUserStatus st)
         \<circ> CmSetLocalUserName (we_L En) (we_net En) (GetUserName st))
       (on_connections (CmSetInstallId i \<circ> CmSetListener True) (w\<lparr>mw_settings := st\<rparr>)))
       \<lparr>mw_notifier := Some (new_notifier (we_notifyAvailable En))\<rparr>))"
  have "I (mw_connections w3)" using assms(1,2) by (simp add: w3_def)
  moreover obtain w4 where w4: "ApplySettings En w3 = Some w4"
    using assms(3) by (auto simp: finish_opening_def g Let_def w3_def split: option.splits)
  ultimately have "I (mw_connections w4)" using settings_ok_window(1) by blast
  then show ?thesis using assms(3) w4
    by (auto simp: finish_opening_def g Let_def w3_def [symmetric] UpdateQueryWidgets_def UpdateConnectionWidgets_def)
qed

end

lemma load_frames [simp]:
  "mw_fileSharingChecked (PopulateServerList w) = mw_fileSharingChecked w"
  "mw_fileSharingChecked (PopulateNameAndStatusLists En w) = mw_fileSharingChecked w"
  by (simp_all add: PopulateServerList_def PopulateNameAndStatusLists_def)

lemma check_keeps:
  "check_notifications b w = Some w' \<Longrightarrow> mw_connections w' = mw_connections w"
  "OnToggleNotifications b w = Some w' \<Longrightarrow> mw_connections w' = mw_connections w"
  by (auto simp: set_notifier_def OnToggleNotifications_def check_notifications_def split: option.splits if_splits)

lemma unconnected_check:
  "\<not> IsAnyConnected (mw_connections w) \<Longrightarrow> \<not> mw_fileSharingChecked w \<Longrightarrow>
   mw_connections (check_file_sharing En b w) = mw_connections w"
  by (cases b) (simp_all add: check_file_sharing_def OnToggleFileSharing_def Let_def)

lemma LoadSettings_connections:
  assumes "LoadSettings En w = Some w'" "\<not> IsAnyConnected (mw_connections w)" "\<not> mw_fileSharingChecked w"
  shows "mw_connections w' = mw_connections w"
  using assms by (auto simp: LoadSettings_def Let_def unconnected_check dest!: check_keeps(1))

lemma open_connections:
  assumes "open_window En d = Some w0"
  obtains w where "finish_opening En w = Some w0" "mw_connections w = new_connections"
proof -
  let ?b = "blank_window (snd (Load (we_settings En) d (new_message 0))) d"
  obtain w where w: "LoadSettings En ?b = Some w" "finish_opening En w = Some w0"
    using assms by (auto simp: open_window_def split: option.splits)
  have "mw_connections w = mw_connections ?b"
    by (rule LoadSettings_connections [OF w(1)]) (simp_all add: blank_window_def unconnected_new)
  then show ?thesis using that w(2) by (simp add: blank_window_def)
qed

subsection \<open>The list of users and the notifier\<close>

text \<open>Only what a connection reports changes the list of users, and nothing takes the notifier away.\<close>

definition listing :: "window \<Rightarrow> user_list \<times> result_view \<times> bool" where
  "listing w = (mw_users w, mw_results w, mw_notifier w \<noteq> None)"

lemma listing_base [simp]:
  "listing (say ty t w) = listing w" "listing (show_chat m w) = listing w" "listing (set_disk d w) = listing w"
  "listing (save_settings En w) = listing w" "listing (on_settings f w) = listing w" "listing (on_connections g w) = listing w"
  "listing (on_downloads h w) = listing w" "listing (on_uploads k w) = listing w"
  "listing (log_chat En m w) = listing w" "listing (UpdateStatusBar En w) = listing w" "listing (UpdateQueryWidgets w) = listing w"
  "listing (UpdateConnectionWidgets w) = listing w" "listing (UpdateMultiServerUi w) = listing w"
  "listing (UpdateResultCount En w) = listing w" "listing (PopulateServerList w) = listing w"
  "listing (PopulateNameAndStatusLists En w) = listing w"
  by (simp_all add: listing_def say_def show_chat_def set_disk_def save_settings_def on_settings_def on_connections_def
      on_downloads_def on_uploads_def on_results_def log_chat_def UpdateStatusBar_def UpdateQueryWidgets_def
      UpdateConnectionWidgets_def UpdateMultiServerUi_def UpdateResultCount_def PopulateServerList_def
      PopulateNameAndStatusLists_def Let_def split: prod.split)

lemma listing_fields [simp]:
  "listing (w\<lparr>mw_settings := a1\<rparr>) = listing w" "listing (w\<lparr>mw_connections := a2\<rparr>) = listing w"
  "listing (w\<lparr>mw_downloads := a3\<rparr>) = listing w" "listing (w\<lparr>mw_uploadServer := a4\<rparr>) = listing w"
  "listing (w\<lparr>mw_shareScanner := a5\<rparr>) = listing w" "listing (w\<lparr>mw_sharedFiles := a6\<rparr>) = listing w"
  "listing (w\<lparr>mw_sharedFileCount := a7\<rparr>) = listing w" "listing (w\<lparr>mw_ignoreFilter := a8\<rparr>) = listing w"
  "listing (w\<lparr>mw_watchFilter := a8\<rparr>) = listing w" "listing (w\<lparr>mw_autoPrivFilter := a8\<rparr>) = listing w"
  "listing (w\<lparr>mw_aliases := a9\<rparr>) = listing w" "listing (w\<lparr>mw_chatLogger := a10\<rparr>) = listing w"
  "listing (w\<lparr>mw_flushTimer := b1\<rparr>) = listing w" "listing (w\<lparr>mw_chatLog := b2\<rparr>) = listing w"
  "listing (w\<lparr>mw_fontPointSize := b3\<rparr>) = listing w" "listing (w\<lparr>mw_input := b4\<rparr>) = listing w"
  "listing (w\<lparr>mw_serverAddress := a8\<rparr>) = listing w" "listing (w\<lparr>mw_serverPort := b5\<rparr>) = listing w"
  "listing (w\<lparr>mw_userName := a8\<rparr>) = listing w" "listing (w\<lparr>mw_userStatus := a8\<rparr>) = listing w"
  "listing (w\<lparr>mw_queryField := a8\<rparr>) = listing w" "listing (w\<lparr>mw_selectedResults := b6\<rparr>) = listing w"
  "listing (w\<lparr>mw_fileSharingChecked := b1\<rparr>) = listing w" "listing (w\<lparr>mw_notificationsChecked := b1\<rparr>) = listing w"
  "listing (w\<lparr>mw_showTimestamps := b1\<rparr>) = listing w" "listing (w\<lparr>mw_showHostColumn := b1\<rparr>) = listing w"
  "listing (w\<lparr>mw_title := a8\<rparr>) = listing w" "listing (w\<lparr>mw_updater := b7\<rparr>) = listing w" "listing (w\<lparr>mw_closed := b1\<rparr>) = listing w"
  by (simp_all add: listing_def)

lemma listing_fold: "(\<And>x w. listing (f x w) = listing w) \<Longrightarrow> listing (fold f xs w) = listing w"
  by (induction xs arbitrary: w) simp_all

lemma listing_sharing [simp]:
  "listing (StartSharing En w) = listing w" "listing (StopSharing En w) = listing w"
  "listing (OnToggleFileSharing En b w) = listing w" "listing (check_file_sharing En b w) = listing w"
  "listing (OnChooseShareFolder En s w) = listing w" "listing (DrainShareScanner En w) = listing w"
  by (auto simp: StartSharing_def StopSharing_def OnToggleFileSharing_def check_file_sharing_def OnChooseShareFolder_def
      DrainShareScanner_def publish_discovered_def report_scan_end_def Let_def split: prod.split)

lemma listing_servers [simp]:
  "listing (ConnectToConfiguredServer En w) = listing w" "listing (RestoreExtraServers En w) = listing w"
  "listing (SaveExtraServers w) = listing w" "listing (OnConnectButtonClicked En w) = listing w"
  "listing (MwStartQuery En w) = listing w" "listing (OnQueryButtonClicked En w) = listing w"
  "listing (MwServerListReceived En xs ys w) = listing w"
  by (auto simp: ConnectToConfiguredServer_def RestoreExtraServers_def SaveExtraServers_def OnConnectButtonClicked_def
      MwStartQuery_def OnQueryButtonClicked_def MwServerListReceived_def Let_def listing_fold split: prod.split)

lemma listing_talking [simp]:
  "listing (SendChatToEveryone En t b w) = listing w" "listing (SendPrivateMessage En to t w) = listing w"
  "listing (PingUser En to w) = listing w"
  by (auto simp: SendChatToEveryone_def SendPrivateMessage_def PingUser_def resolve_targets_def send_private_def
      ping_user_def Let_def intro!: listing_fold split: option.split)

lemma listing_downloads [simp]:
  "listing (DownloadSelectedResults En w) = listing w" "listing (OnCancelSelectedTransfer En rows w) = listing w"
  "listing (OnClearFinishedTransfers w) = listing w"
proof -
  have "listing (start_from En ch ac w) = listing w" for ch ac w by (cases ac) (simp add: start_from_def Let_def)
  then have "listing (fold (start_from En ch) acs w) = listing w" for ch acs w by (rule listing_fold)
  then show "listing (DownloadSelectedResults En w) = listing w" by (simp add: DownloadSelectedResults_def Let_def)
qed (simp_all add: OnCancelSelectedTransfer_def OnClearFinishedTransfers_def listing_fold)

lemma listing_notifications:
  "set_notifier b w = Some w' \<Longrightarrow> listing w' = listing w"
  "OnToggleNotifications b w = Some w' \<Longrightarrow> listing w' = listing w"
  "check_notifications b w = Some w' \<Longrightarrow> listing w' = listing w"
proof -
  have n: "listing w' = listing w" if "set_notifier b w = Some w'" for b w w'
    using that by (auto simp: set_notifier_def listing_def split: option.splits)
  then show "set_notifier b w = Some w' \<Longrightarrow> listing w' = listing w" .
  have t: "listing w' = listing w" if "OnToggleNotifications b w = Some w'" for b w w'
    using that by (auto simp: OnToggleNotifications_def split: option.splits if_splits dest!: n)
  then show "OnToggleNotifications b w = Some w' \<Longrightarrow> listing w' = listing w" .
  show "check_notifications b w = Some w' \<Longrightarrow> listing w' = listing w"
    by (auto simp: check_notifications_def split: if_splits dest: t)
qed

lemma listing_settings:
  "ApplySettings En w = Some w' \<Longrightarrow> listing w' = listing w"
  "OnShowSettings En f w = Some w' \<Longrightarrow> listing w' = listing w"
  "OnConnectAdditionalServer En s w = Some w' \<Longrightarrow> listing w' = listing w"
proof -
  have a: "listing w' = listing w" if "ApplySettings En w = Some w'" for w w'
    using that by (auto simp: ApplySettings_def Let_def split: option.splits dest!: listing_notifications(1))
  then show "ApplySettings En w = Some w' \<Longrightarrow> listing w' = listing w" .
  show "OnShowSettings En f w = Some w' \<Longrightarrow> listing w' = listing w"
    by (auto simp: OnShowSettings_def Let_def split: option.splits if_splits dest!: a listing_notifications(3))
  show "OnConnectAdditionalServer En s w = Some w' \<Longrightarrow> listing w' = listing w"
    by (auto simp: OnConnectAdditionalServer_def Let_def split: option.splits if_splits prod.splits dest!: a)
qed

lemma listing_commands [simp]:
  "listing (change_nick En t w) = listing w" "listing (MwSetUserStatus En t w) = listing w"
  "listing (OnStatusChanged En t w) = listing w" "listing (HandleAliasCommand En c w) = listing w"
  "listing (ShowCommandHelp En w) = listing w" "listing (ShowConnectionInformation En w) = listing w"
  "listing (closeEvent En w) = listing w"
  by (auto simp: change_nick_def MwSetUserStatus_def OnStatusChanged_def HandleAliasCommand_def save_aliases_def
      ShowCommandHelp_def ShowConnectionInformation_def closeEvent_def SaveSettings_def Let_def listing_fold split_beta)

lemma listing_put [simp]:
  "listing (set_ignore p w) = listing w" "listing (set_watch p w) = listing w" "listing (set_autopriv p w) = listing w"
  by (simp_all add: set_ignore_def set_watch_def set_autopriv_def)

lemma listing_filter:
  "(\<And>p w. listing (put p w) = listing w) \<Longrightarrow> listing (HandleFilterCommand En get put setter n t w) = listing w"
  by (simp add: HandleFilterCommand_def Let_def)

lemma listing_return [simp]: "listing (OnInputReturnPressed En w) = listing w"
proof -
  have "listing (run_command En c w) = listing w" for c w
    by (cases "cmd_type c") (simp_all add: run_command_def Let_def listing_filter)
  then show ?thesis by (simp add: OnInputReturnPressed_def HandleUserInput_def Let_def)
qed

lemma listing_notify [simp]: "listing (notify_user En cat su body w) = listing w"
  by (simp add: notify_user_def listing_def)

lemma listing_reported [simp]:
  "listing (MaybeNotifyAboutChat En m w) = listing w" "listing (OnChatMessage En a m w) = listing w"
  "listing (OnSessionIdAssigned En a sid w) = listing w" "listing (OnPingReply En u us v w) = listing w"
  "listing (OnDownloadReport En ty t w) = listing w" "listing (on_upload_event En ue w) = listing w"
  "listing (OnIdleTimerFired En w) = listing w" "listing (OnUserDoubleClicked En n w) = listing w"
  "listing (press_key En k w) = listing w"
  by (auto simp: MaybeNotifyAboutChat_def OnChatMessage_def OnSessionIdAssigned_def OnPingReply_def
      OnDownloadReport_def on_upload_event_def OnIdleTimerFired_def OnUserDoubleClicked_def press_key_def
      Let_def split: up_event.split)

text \<open>
  What a step is for the result list: a report of a connection, with what the window reads from the connection at
  that moment, or the flush timer.
\<close>

definition sharer_text :: "window \<Rightarrow> nat \<Rightarrow> conn_event \<Rightarrow> string" where
  "sharer_text w a ev = (case ev of
     QueryResultAdded r \<Rightarrow> GetDisplayNameForSession (c_users (connection_at w a)) (fr_sessionId r) | _ \<Rightarrow> [])"

fun result_event :: "app_event \<Rightarrow> window \<Rightarrow> window_event option" where
  "result_event (ConnectionReport a ev) w = Some (WinCallback a (c_serverAddress (connection_at w a))
     (sharer_text w a ev) (user_names (mw_connections w)) ev)"
| "result_event FlushTimer w = Some (WinTimer (user_names (mw_connections w)))"
| "result_event _ w = None"

lemma listing_flush: "listing (flush_results En w) =
    (mw_users w, OnFlushPendingResults (we_T En) (user_names (mw_connections w)) (mw_results w), mw_notifier w \<noteq> None)"
  by (auto simp: flush_results_def Let_def) (simp_all add: listing_def on_results_def)

lemma listing_callback:
  "listing (on_callback En a ev w) =
     (feed_users (a, c_serverAddress (connection_at w a), ev) (mw_users w),
      win_step (we_T En) (the (result_event (ConnectionReport a ev) w)) (mw_results w), mw_notifier w \<noteq> None)"
proof -
  have users: "listing (w\<lparr>mw_users := m\<rparr>) = (m, mw_results w, mw_notifier w \<noteq> None)" for m w by (simp add: listing_def)
  have results: "listing (on_results f w) = (mw_users w, f (mw_results w), mw_notifier w \<noteq> None)" for f w
    by (simp add: listing_def on_results_def)
  have keeps: "listing w = (mw_users w, mw_results w, mw_notifier w \<noteq> None)" by (rule listing_def)
  show ?thesis
    by (cases ev) (simp_all add: on_callback_def OnStateChanged_def OnUserUpdated_def OnUserLeft_def Let_def users keeps
        results listing_flush sharer_text_def WConnectionStateChanged_def WQuerySweepStateChanged_def)
qed

lemma app_step_listing:
  assumes "app_step En ev w = Some w'" "\<And>a r. ev \<noteq> ConnectionReport a r" "ev \<noteq> FlushTimer"
  shows "listing w' = listing w"
proof (cases "mw_closed w")
  case False
  with assms(1) have h: "handle En ev w = Some w'" by (simp add: app_step_def)
  show ?thesis
    using h assms(2,3)
    by (cases ev) (auto simp: OnDisconnectAll_def OnToggleTimestamps_def OnQueryFieldReturnPressed_def OnDownloadSelected_def
        update_failed_def split: if_splits dest!: listing_settings(2,3) listing_notifications(2))
qed (use assms(1) in \<open>simp add: app_step_def\<close>)

lemma app_step_report:
  "\<not> mw_closed w \<Longrightarrow> app_step En (ConnectionReport a r) w = Some w' \<Longrightarrow>
   listing w' = (feed_users (a, c_serverAddress (connection_at w a), r) (mw_users w),
     win_step (we_T En) (the (result_event (ConnectionReport a r) w)) (mw_results w), mw_notifier w \<noteq> None)"
  using listing_callback [of En a r w] by (auto simp: app_step_def)

lemma app_step_timer:
  "\<not> mw_closed w \<Longrightarrow> app_step En FlushTimer w = Some w' \<Longrightarrow>
   listing w' = (mw_users w, win_step (we_T En) (the (result_event FlushTimer w)) (mw_results w), mw_notifier w \<noteq> None)"
  using listing_flush [of En "w\<lparr>mw_flushTimer := False\<rparr>"] by (auto simp: app_step_def OnFlushTimer_def)

text \<open>Seen together: no step but a report touches the list of users, and no other but the timer that of results.\<close>

lemma app_step_lists:
  assumes "\<not> mw_closed w" "app_step En ev w = Some w'"
  shows "mw_users w' = (case ev of ConnectionReport a r \<Rightarrow>
      feed_users (a, c_serverAddress (connection_at w a), r) (mw_users w) | _ \<Rightarrow> mw_users w)"
    "mw_results w' = (case result_event ev w of None \<Rightarrow> mw_results w | Some e \<Rightarrow> win_step (we_T En) e (mw_results w))"
    "mw_notifier w' \<noteq> None \<longleftrightarrow> mw_notifier w \<noteq> None"
proof -
  have "listing w' = (case ev of ConnectionReport a r \<Rightarrow>
      feed_users (a, c_serverAddress (connection_at w a), r) (mw_users w) | _ \<Rightarrow> mw_users w,
      case result_event ev w of None \<Rightarrow> mw_results w | Some e \<Rightarrow> win_step (we_T En) e (mw_results w), mw_notifier w \<noteq> None)"
  proof (cases "ev = FlushTimer \<or> (\<exists>a r. ev = ConnectionReport a r)")
    case True
    then show ?thesis using app_step_report [OF assms(1)] app_step_timer [OF assms(1)] assms(2) by auto
  next
    case False
    then have "listing w' = listing w" by (intro app_step_listing [OF assms(2)]) auto
    moreover have "result_event ev w = None" using False by (cases ev) auto
    ultimately have "result_event ev w = None" "listing w' = listing w" by simp_all
    with False show ?thesis by (cases ev) (auto simp: listing_def)
  qed
  then show "mw_users w' = (case ev of ConnectionReport a r \<Rightarrow>
      feed_users (a, c_serverAddress (connection_at w a), r) (mw_users w) | _ \<Rightarrow> mw_users w)"
    "mw_results w' = (case result_event ev w of None \<Rightarrow> mw_results w | Some e \<Rightarrow> win_step (we_T En) e (mw_results w))"
    "mw_notifier w' \<noteq> None \<longleftrightarrow> mw_notifier w \<noteq> None"
    by (simp_all only: listing_def prod.inject)
qed

text \<open>What a connection has reported in a history.\<close>

fun reports_of :: "nat \<Rightarrow> app_event list \<Rightarrow> conn_event list" where
  "reports_of a (ConnectionReport b r # evs) = (if b = a then r # reports_of a evs else reports_of a evs)"
| "reports_of a (ev # evs) = reports_of a evs"
| "reports_of a [] = []"

lemma reports_of_other: "\<nexists>b r. ev = ConnectionReport b r \<Longrightarrow> reports_of a (ev # evs) = reports_of a evs"
  by (cases ev) simp_all

lemma run_app_closed: "mw_closed w \<Longrightarrow> run_app En evs w = Some w"
  by (induction evs) (simp_all add: app_step_def)

lemma run_app_users:
  assumes "run_app En evs w = Some w'" "\<not> mw_closed w'" "list_ok (mw_users w)"
  shows "list_ok (mw_users w') \<and>
    listed_user (mw_users w') a = fold view_step (reports_of a evs) (listed_user (mw_users w) a)"
  using assms
proof (induction evs arbitrary: w)
  case (Cons ev evs)
  then obtain w1 where w1: "app_step En ev w = Some w1" "run_app En evs w1 = Some w'" by (auto split: option.splits)
  have open_w: "\<not> mw_closed w" using Cons.prems(1,2) run_app_closed [of w En "ev # evs"] by auto
  note users = app_step_lists(1) [OF open_w w1(1)]
  show ?case
  proof (cases "\<exists>b r. ev = ConnectionReport b r")
    case True
    then obtain b r where ev: "ev = ConnectionReport b r" by auto
    show ?thesis
      using Cons.IH [OF w1(2) Cons.prems(2)] feed_users_law [OF Cons.prems(3), of b _ r a] users by (auto simp: ev)
  next
    case False
    then have "mw_users w1 = mw_users w" using users by (cases ev) auto
    then show ?thesis using Cons.IH [OF w1(2) Cons.prems(2)] Cons.prems(3) False by (simp add: reports_of_other)
  qed
qed simp

text \<open>The history as the result list sees it.\<close>

primrec result_events :: "window_env \<Rightarrow> app_event list \<Rightarrow> window \<Rightarrow> window_event list" where
  "result_events En [] w = []"
| "result_events En (ev # evs) w = (case result_event ev w of None \<Rightarrow> [] | Some e \<Rightarrow> [e]) @
     (case app_step En ev w of None \<Rightarrow> [] | Some w' \<Rightarrow> result_events En evs w')"

lemma run_app_results:
  assumes "run_app En evs w = Some w'" "\<not> mw_closed w'"
  shows "mw_results w' = fold (win_step (we_T En)) (result_events En evs w) (mw_results w) \<and>
    results_of a (result_events En evs w) = reports_of a evs"
  using assms
proof (induction evs arbitrary: w)
  case (Cons ev evs)
  then obtain w1 where w1: "app_step En ev w = Some w1" "run_app En evs w1 = Some w'" by (auto split: option.splits)
  have open_w: "\<not> mw_closed w" using Cons.prems(1,2) run_app_closed [of w En "ev # evs"] by auto
  show ?case
    using Cons.IH [OF w1(2) Cons.prems(2)] app_step_lists(2) [OF open_w w1(1)] w1(1) by (cases ev) simp_all
qed simp

lemma finish_listing:
  assumes "finish_opening En w = Some w0"
  shows "mw_users w0 = mw_users w" "mw_results w0 = mw_results w" "mw_notifier w0 \<noteq> None"
proof -
  obtain i st where g: "GetInstallId (we_settings En) (mw_settings w) = (i, st)" by fastforce
  define w2 where "w2 = on_connections (CmSetLocalUserStatus (we_L En) (we_net En) (GetUserStatus st)
      \<circ> CmSetLocalUserName (we_L En) (we_net En) (GetUserName st))
    (on_connections (CmSetInstallId i \<circ> CmSetListener True) (w\<lparr>mw_settings := st\<rparr>))"
  define w3 where "w3 = on_uploads (SetUpListener True) (on_downloads (SetDmListener True)
    (w2\<lparr>mw_notifier := Some (new_notifier (we_notifyAvailable En))\<rparr>))"
  obtain w4 where w4: "ApplySettings En w3 = Some w4"
    using assms by (auto simp: finish_opening_def g Let_def w2_def [symmetric] w3_def [symmetric] split: option.splits)
  have "listing w0 = listing w4"
    using assms w4 by (auto simp: finish_opening_def g Let_def w2_def [symmetric] w3_def [symmetric])
  moreover have "listing w4 = listing w3" by (rule listing_settings(1) [OF w4])
  moreover have "listing w3 = listing (w2\<lparr>mw_notifier := Some (new_notifier (we_notifyAvailable En))\<rparr>)"
    by (simp add: w3_def)
  moreover have "listing w2 = listing w" by (simp add: w2_def)
  ultimately show "mw_users w0 = mw_users w" "mw_results w0 = mw_results w" "mw_notifier w0 \<noteq> None" by (simp_all add: listing_def)
qed

lemma open_listing:
  assumes "open_window En d = Some w0"
  shows "mw_users w0 = new_user_list" "mw_results w0 = new_result_view" "mw_notifier w0 \<noteq> None"
proof -
  let ?b = "blank_window (snd (Load (we_settings En) d (new_message 0))) d"
  obtain w where w: "LoadSettings En ?b = Some w" "finish_opening En w = Some w0"
    using assms by (auto simp: open_window_def split: option.splits)
  have "listing w = listing ?b"
    using w(1) by (auto simp: LoadSettings_def Let_def dest!: listing_notifications(3))
  then show "mw_users w0 = new_user_list" "mw_results w0 = new_result_view" "mw_notifier w0 \<noteq> None"
    using finish_listing [OF w(2)] by (simp_all add: listing_def blank_window_def)
qed

subsection \<open>What holds at every time\<close>

interpretation window_views: window_law "connection_law.everywhere conn_inv" En for En
  by unfold_locales (rule views.stepped)

interpretation window_servers: window_law
  "\<lambda>m. ignore_case_law (we_L En) \<longrightarrow> distinct (servers (we_L En) m) \<and> length (servers (we_L En) m) \<le> kMaximumConnections" En
  for En
  by unfold_locales (use servers_step in blast)

lemma handled:
  assumes "mw_notifier w \<noteq> None"
  shows "\<exists>w'. handle En ev w = Some w'"
proof -
  have n: "\<exists>w'. set_notifier b w = Some w'" if "mw_notifier w \<noteq> None" for b w
    using that by (auto simp: set_notifier_def)
  have t: "\<exists>w'. OnToggleNotifications b w = Some w'" if "mw_notifier w \<noteq> None" for b w
    using that n [of "on_settings (SetNotificationsEnabled b) (w\<lparr>mw_notificationsChecked := b\<rparr>)" b]
    by (auto simp: OnToggleNotifications_def split: option.split)
  have a: "\<exists>w'. ApplySettings En w = Some w'" if "mw_notifier w \<noteq> None" for w
    using that ApplySettings_Some by blast
  have additional: "\<exists>w'. OnConnectAdditionalServer En s w = Some w'" for s
    using assms a by (auto simp: OnConnectAdditionalServer_def Let_def split: prod.split)
  have settings: "\<exists>w'. OnShowSettings En f w = Some w'" for f
  proof -
    obtain w1 where w1: "ApplySettings En (on_settings f w) = Some w1" using a [of "on_settings f w"] assms by auto
    have some: "mw_notifier v \<noteq> None" if "listing v = listing w" for v using that assms by (simp add: listing_def)
    have "listing w1 = listing w" using listing_settings(1) [OF w1] by simp
    moreover have "\<exists>v'. check_notifications b v = Some v'" if "listing v = listing w" for b v
      using t [of v b] some [OF that] by (auto simp: check_notifications_def)
    ultimately show ?thesis by (auto simp: OnShowSettings_def w1 Let_def)
  qed
  show ?thesis using t [OF assms] additional settings by (cases ev) auto
qed

lemma run_app_total:
  assumes "mw_notifier w \<noteq> None"
  shows "\<exists>w'. run_app En evs w = Some w' \<and> mw_notifier w' \<noteq> None"
  using assms
proof (induction evs arbitrary: w)
  case (Cons ev evs)
  obtain w1 where w1: "app_step En ev w = Some w1"
    using handled [OF Cons.prems, where En = En and ev = ev] by (cases "mw_closed w") (auto simp: app_step_def)
  have "mw_notifier w1 \<noteq> None"
    using w1 app_step_lists(3) [OF _ w1] Cons.prems by (cases "mw_closed w") (auto simp: app_step_def)
  then show ?case using w1 Cons.IH by simp
qed simp

lemma opened_servers:
  assumes "open_window En d = Some w0"
  shows "ignore_case_law (we_L En) \<longrightarrow>
    distinct (servers (we_L En) (mw_connections w0)) \<and> length (servers (we_L En) (mw_connections w0)) \<le> kMaximumConnections"
proof -
  obtain w where "finish_opening En w = Some w0" "mw_connections w = new_connections"
    using open_connections [OF assms] .
  from window_servers.finish_ok [OF _ this(2,1)] show ?thesis
    by (simp add: servers_def CmSetListener_def on_all_def new_connections_def)
qed

lemma opened_views:
  assumes "open_window En d = Some w0"
  shows "connection_law.everywhere conn_inv (mw_connections w0)"
proof -
  obtain w where "finish_opening En w = Some w0" "mw_connections w = new_connections"
    using open_connections [OF assms] .
  from window_views.finish_ok [OF _ this(2,1)] show ?thesis
    using views.from_start [of ref_muscle demo_cm_env "[]"] by simp
qed

definition window_ok :: "window_env \<Rightarrow> window \<Rightarrow> bool" where
  "window_ok En w \<longleftrightarrow> mw_notifier w \<noteq> None \<and> list_ok (mw_users w) \<and>
     distinct (servers (we_L En) (mw_connections w)) \<and> length (servers (we_L En) (mw_connections w)) \<le> kMaximumConnections"

text \<open>
  C7. Once the window is open, nothing that the user, the network, the timers or the scanning thread do in any
  order makes it use a pointer that is null, and it stays well formed: the notifier is there, the hash of the
  list of users finds its rows, and no server is connected twice or beyond the maximum.
\<close>

theorem window_stays_well_formed:
  assumes "open_window En d = Some w0" "ignore_case_law (we_L En)"
  shows "window_ok En w0 \<and> (\<exists>w. run_app En evs w0 = Some w \<and> (mw_closed w \<or> window_ok En w))"
proof -
  have w0: "mw_notifier w0 \<noteq> None" "list_ok (mw_users w0)" "window_ok En w0"
    using open_listing [OF assms(1)] opened_servers [OF assms(1)] assms(2) by (simp_all add: window_ok_def list_ok_new)
  obtain w where w: "run_app En evs w0 = Some w" "mw_notifier w \<noteq> None" using run_app_total [OF w0(1)] by blast
  have "window_ok En w" if "\<not> mw_closed w"
    using window_servers.run_ok [OF opened_servers [OF assms(1)] w(1) that] run_app_users [OF w(1) that w0(2)] w(2) assms(2)
    by (simp add: window_ok_def)
  then show ?thesis using w w0(3) by blast
qed

text \<open>
  C5. End to end, from the opening of the window: the users it lists for a server are exactly the users that the
  connection to it knows, whenever it has been handed all the connection reported, and whatever else
  happened before, in between and on other servers; and there is one row for each of them.
\<close>

theorem window_lists_users:
  assumes "open_window En d = Some w0" "run_app En evs w0 = Some w" "\<not> mw_closed w"
    and "map_of (cm_connections (mw_connections w)) a = Some c" "reports_of a evs = c_events c"
  shows "listed_user (mw_users w) a = FindUser (c_users c) \<and> distinct (map user_ident (ul_users (mw_users w)))"
proof -
  have ok: "list_ok (mw_users w0)" "listed_user (mw_users w0) a = Map.empty"
    using open_listing(1) [OF assms(1)] list_ok_new by (simp_all, simp add: listed_user_def new_user_list_def fun_eq_iff)
  note users = run_app_users [OF assms(2,3) ok(1), of a]
  have "connection_law.everywhere conn_inv (mw_connections w)"
    using window_views.run_ok [OF opened_views [OF assms(1)] assms(2,3)] .
  then have "listener_view (c_events c) = FindUser (c_users c)"
    using map_of_SomeD [OF assms(4)] by (auto simp: views.everywhere_def conn_inv_def)
  moreover have "distinct (map user_ident (ul_users (mw_users w)))"
    using user_rows.ident_distinct [OF conjunct1 [OF users, unfolded list_ok_def]] by (simp add: list_all_iff)
  ultimately show ?thesis using users ok(2) assms(5) by (simp add: listener_view_def)
qed

text \<open>
  C6. The same for the search: whatever the user does and however the servers, the timers and the scanning thread
  interleave, once the collected results have been handed over the rows of a connection are exactly what its
  reports amount to, one row each, in every history in which nothing is taken away while it still waits to be
  shown, no batch has one result twice, the names of files and sessions are well-formed UTF-8 and session IDs have
  no line break. Without well-formed names it is false: \<open>names_share_key\<close> has two that share a row.
\<close>

theorem window_lists_results:
  assumes "open_window En d = Some w0" "run_app En evs w0 = Some w" "\<not> mw_closed w"
    and "codec_law (we_T En)" "calm_run (we_T En) (result_events En evs w0) new_result_view" "rv_pending (mw_results w) = []"
  shows "(let rows = rl_results (rv_model (mw_results w)) in
    (\<forall>a sid f. map_option re_result (List.find (\<lambda>e. result_ident e = (a, sid, f)) rows) =
       fold result_step (reports_of a evs) Map.empty (sid, f)) \<and> distinct (map result_ident rows))"
proof -
  have run: "mw_results w = fold (win_step (we_T En)) (result_events En evs w0) new_result_view"
    "results_of a (result_events En evs w0) = reports_of a evs" for a
    using run_app_results [OF assms(2,3)] open_listing(2) [OF assms(1)] by auto
  from results_on_screen [OF assms(4,5)] assms(6) show ?thesis unfolding Let_def run by simp
qed

text \<open>A visit: a server is dialled, somebody is on it, and the window is told.\<close>

definition demo_visit :: "app_event list" where
  "demo_visit =
     [ServerTyped ''hub'', NameTyped ''ann'', ConnectClicked, ServerTraffic 1 (CbMessage (name_update ''/h/7/beshare/name'' ''bob'')),
      ConnectionReport 1 QueryResultsCleared, ConnectionReport 1 (ConnectionStateChanged CONNECTION_CONNECTING),
      ConnectionReport 1 (ChatMessageReceived (chat_message LOG_INFORMATION_MESSAGE ''Connecting to hub...'')),
      ConnectionReport 1 (UserUpdated (empty_user\<lparr>u_sessionId := ''7'', u_userName := ''bob'', u_hostName := ''h''\<rparr>) True)]"

theorem window_lists_users_witness:
  "\<exists>w. Option.bind (open_window demo_window_env demo_world) (run_app demo_window_env demo_visit) = Some w \<and>
     map_option u_userName (listed_user (mw_users w) 1 ''7'') = Some ''bob''"
proof -
  have "case open_window demo_window_env demo_world of None \<Rightarrow> False | Some w0 \<Rightarrow>
      (case run_app demo_window_env demo_visit w0 of None \<Rightarrow> False | Some w \<Rightarrow>
        \<not> mw_closed w \<and> (case map_of (cm_connections (mw_connections w)) 1 of None \<Rightarrow> False | Some c \<Rightarrow>
           reports_of 1 demo_visit = c_events c \<and> map_option u_userName (FindUser (c_users c) ''7'') = Some ''bob''))"
    by code_simp
  then obtain w0 w c where "open_window demo_window_env demo_world = Some w0" "run_app demo_window_env demo_visit w0 = Some w"
    "\<not> mw_closed w" "map_of (cm_connections (mw_connections w)) 1 = Some c" "reports_of 1 demo_visit = c_events c"
    "map_option u_userName (FindUser (c_users c) ''7'') = Some ''bob''"
    by (auto split: option.splits)
  then show ?thesis using window_lists_users [of demo_window_env demo_world w0 demo_visit w 1 c] by (auto simp: bind_eq_Some_conv)
qed

text \<open>The visitor searches, and is told of one file; the timer brings it onto the screen.\<close>

definition demo_search :: "app_event list" where
  "demo_search = demo_visit @ [ConnectionReport 1 (QueryResultAdded (demo_result ''7'')), FlushTimer]"

theorem window_lists_results_witness:
  "\<exists>w. Option.bind (open_window demo_window_env demo_world) (run_app demo_window_env demo_search) = Some w \<and>
     map_option (fr_fileSize \<circ> re_result) (List.find (\<lambda>e. result_ident e = (1, ''7'', ''a''))
       (rl_results (rv_model (mw_results w)))) = Some 3"
proof -
  have "case open_window demo_window_env demo_world of None \<Rightarrow> False | Some w0 \<Rightarrow>
      (case run_app demo_window_env demo_search w0 of None \<Rightarrow> False | Some w \<Rightarrow> \<not> mw_closed w \<and>
        calm_run ref_codec (result_events demo_window_env demo_search w0) new_result_view \<and> rv_pending (mw_results w) = [])"
    by code_simp
  then obtain w0 w where w: "open_window demo_window_env demo_world = Some w0" "run_app demo_window_env demo_search w0 = Some w"
    "\<not> mw_closed w" "calm_run ref_codec (result_events demo_window_env demo_search w0) new_result_view" "rv_pending (mw_results w) = []"
    by (auto split: option.splits)
  have "map_option re_result (List.find (\<lambda>e. result_ident e = (1, ''7'', ''a'')) (rl_results (rv_model (mw_results w)))) =
      fold result_step (reports_of 1 demo_search) Map.empty (''7'', ''a'')"
    using window_lists_results [OF w(1-3)] w(4,5) unfolding Let_def by simp
  also have "map_option fr_fileSize \<dots> = Some 3" by (simp add: demo_search_def demo_visit_def demo_result_def)
  finally show ?thesis using w(1,2) by (simp add: option.map_comp [symmetric] bind_eq_Some_conv)
qed

theorem window_stays_well_formed_witness:
  "\<exists>w0 w. open_window demo_window_env demo_world = Some w0 \<and> run_app demo_window_env demo_visit w0 = Some w \<and>
     (mw_closed w \<or> window_ok demo_window_env w)"
proof -
  have "GetNotificationsEnabled (snd (Load (we_settings demo_window_env) demo_world (new_message 0)))" by code_simp
  then obtain w0 where w0: "open_window demo_window_env demo_world = Some w0"
    using opens_iff [of demo_window_env demo_world] by auto
  have "ignore_case_law (we_L demo_window_env)" using ref_muscle_laws by (simp add: muscle_laws_def)
  from window_stays_well_formed [OF w0 this, of demo_visit] show ?thesis using w0 by blast
qed

end
