(* ===== verification/SessionLaws.thy ===== *)
theory SessionLaws
  imports WindowEvents
begin

section \<open>What the user does with the window, end to end\<close>

text \<open>
  Properties of runs of the window: signing in and out, the name and the status, the commands that address
  or hide users, and closing and opening again.
\<close>

subsection \<open>Signing in\<close>

lemma default_login:
  assumes "cm_connections m = []" "h \<noteq> []" "p > 0" "a = new_object E []"
    and "start_thread (net E a) = None" "connect_session (net E a) h p = None" "\<forall>msg. accepts (net E a) msg"
  shows "\<exists>c. cm_connections (run_cm L E (CmOne a (CbConnected x)) (snd (AddConnection L E h p m))) = [(a, c)] \<and>
    (\<exists>node. find_message (hd (c_out c)) BESHARE_NODE_NAME = Some node \<and>
       find_string node BESHARE_FIELD_NAME = Some ''binky'' \<and> find_int64 node BESHARE_FIELD_INSTALL_ID = Some 0)"
proof -
  let ?c0 = "snd (ConnectToServer (net E a) h p (SetListener (cm_listener m) new_connection))"
  have "cm_connections (run_cm L E (CmOne a (CbConnected x)) (snd (AddConnection L E h p m))) =
      [(a, SessionConnected L (net E a) x ?c0)]"
    using assms(1,4)
    by (simp add: AddConnection_def FindByAddress_def kMaximumConnections_def Let_def on_one_def deliverable_def)
  moreover have "\<exists>node. find_message (hd (c_out (SessionConnected L (net E a) x ?c0))) BESHARE_NODE_NAME = Some node \<and>
       find_string node BESHARE_FIELD_NAME = Some ''binky'' \<and> find_int64 node BESHARE_FIELD_INSTALL_ID = Some 0"
    using assms fresh_connection [of h "net E a" p "cm_listener m"] by (intro announces_default) simp_all
  ultimately show ?thesis by auto
qed

lemma connect_button:
  assumes "\<not> IsAnyConnected (mw_connections w)" "GetSelectedServerAddress En w = h" "h \<noteq> []" "MwGetUserName En w = n" "n \<noteq> []"
  shows "mw_connections (OnConnectButtonClicked En w) =
    snd (AddConnection (we_L En) (we_net En) h (mw_serverPort w)
      (CmSetLocalUserName (we_L En) (we_net En) n (mw_connections w)))"
  using assms by (simp add: OnConnectButtonClicked_def ConnectToConfiguredServer_def Let_def)

lemma button_keeps_open: "mw_closed (OnConnectButtonClicked En w) = mw_closed w"
  by (simp add: OnConnectButtonClicked_def ConnectToConfiguredServer_def on_connections_def on_settings_def say_def Let_def)

text \<open>
  C36. Whatever name is in the name field, the first server that is connected to is told that its new user is
  called binky, with the installation ID zero: the name is handed to the connections there are, and
  the connection is made afterwards.
\<close>

theorem first_login_as_binky:
  assumes "\<not> mw_closed w" "cm_connections (mw_connections w) = []"
    and "GetSelectedServerAddress En w = h" "h \<noteq> []" "MwGetUserName En w \<noteq> []" "mw_serverPort w > 0"
    and "a = new_object (we_net En) []" "start_thread (net (we_net En) a) = None"
    and "connect_session (net (we_net En) a) h (mw_serverPort w) = None" "\<forall>msg. accepts (net (we_net En) a) msg"
  shows "\<exists>w' c node. run_app En [ConnectClicked, ServerTraffic a (CbConnected x)] w = Some w' \<and>
    cm_connections (mw_connections w') = [(a, c)] \<and>
    find_message (hd (c_out c)) BESHARE_NODE_NAME = Some node \<and>
    find_string node BESHARE_FIELD_NAME = Some ''binky'' \<and> find_int64 node BESHARE_FIELD_INSTALL_ID = Some 0"
proof -
  let ?m = "CmSetLocalUserName (we_L En) (we_net En) (MwGetUserName En w) (mw_connections w)"
  have none: "cm_connections ?m = []" using assms(2) by (simp add: CmSetLocalUserName_def on_all_def)
  have off: "\<not> IsAnyConnected (mw_connections w)" using assms(2) by (simp add: IsAnyConnected_def GetConnectedCount_def)
  show ?thesis
    using default_login [OF none assms(4,6,7,8,9,10), of "we_L En" x] assms(1)
      connect_button [OF off assms(3,4) refl assms(5)]
    by (auto simp: app_step_def button_keeps_open simp del: run_cm.simps)
qed

theorem first_login_as_binky_witness:
  "\<exists>w' c node. run_app demo_window_env [ServerTyped ''hub'', NameTyped ''ann'', ConnectClicked, ServerTraffic 1 (CbConnected ''x'')]
      (blank_window (new_message 0) demo_world) = Some w' \<and>
    cm_connections (mw_connections w') = [(1, c)] \<and> find_message (hd (c_out c)) BESHARE_NODE_NAME = Some node \<and>
    find_string node BESHARE_FIELD_NAME = Some ''binky''"
proof -
  let ?w = "(blank_window (new_message 0) demo_world)\<lparr>mw_serverAddress := ''hub'', mw_userName := ''ann''\<rparr>"
  have "GetSelectedServerAddress demo_window_env ?w = ''hub''" "MwGetUserName demo_window_env ?w \<noteq> []"
    "new_object demo_cm_env [] = 1" by code_simp+
  then show ?thesis
    using first_login_as_binky [of ?w demo_window_env "''hub''" 1 "''x''"]
    by (auto simp: app_step_def blank_window_def new_connections_def kDefaultServerPort_def demo_cm_env_def demo_net_def)
qed

lemma DisconnectAll_down: "(b, c) \<in> set (cm_connections (DisconnectAll m)) \<Longrightarrow> c_state c = CONNECTION_DISCONNECTED"
  by (auto simp: DisconnectAll_def on_all_def DisconnectFromServer_def Let_def SetConnectionState_def ReportToUser_def notify_def)

lemma found_anyway:
  assumes "\<And>b c. c_serverAddress (f b c) = c_serverAddress c"
  shows "FindByAddress L h (on_all f m) = FindByAddress L h m"
proof -
  have "map_option fst (find (\<lambda>(a, c). EqualsIgnoreCase L (c_serverAddress c) h) (map (\<lambda>(a, c). (a, f a c)) cs)) =
      map_option fst (find (\<lambda>(a, c). EqualsIgnoreCase L (c_serverAddress c) h) cs)" for cs
    using assms by (induction cs) auto
  then show ?thesis by (simp add: FindByAddress_def on_all_def)
qed

lemma name_keeps [simp]:
  "c_state (SetLocalUserName L E n c) = c_state c" "c_serverAddress (SetLocalUserName L E n c) = c_serverAddress c"
  by (simp_all add: SetLocalUserName_def PublishLocalUserName_def Let_def)

lemma all_down: "(\<And>b c. (b, c) \<in> set (cm_connections m) \<Longrightarrow> c_state c = CONNECTION_DISCONNECTED) \<Longrightarrow> \<not> IsAnyConnected m"
  by (force simp: IsAnyConnected_def GetConnectedCount_def filter_empty_conv)

text \<open>
  The Connect button signs in once per server: after signing out with it, clicking it again finds the
  connection of before in the list and dials nothing, so every connection stays down.
\<close>

theorem reconnect_does_nothing:
  assumes "\<not> mw_closed w" "IsAnyConnected (mw_connections w)"
    and "GetSelectedServerAddress En w = h" "h \<noteq> []" "MwGetUserName En w \<noteq> []"
    and "FindByAddress (we_L En) h (mw_connections w) = Some a"
  shows "\<exists>w'. run_app En [ConnectClicked, ConnectClicked] w = Some w' \<and>
    (\<forall>(b, c) \<in> set (cm_connections (mw_connections w')). c_state c = CONNECTION_DISCONNECTED)"
proof -
  let ?w1 = "on_connections DisconnectAll w"
  have first: "OnConnectButtonClicked En w = ?w1" using assms(2) by (simp add: OnConnectButtonClicked_def)
  have down: "\<not> IsAnyConnected (mw_connections ?w1)" using DisconnectAll_down by (intro all_down) simp
  have fields: "GetSelectedServerAddress En ?w1 = h" "MwGetUserName En ?w1 = MwGetUserName En w" "mw_serverPort ?w1 = mw_serverPort w"
    using assms(3) by (simp_all add: GetSelectedServerAddress_def MwGetUserName_def)
  have known: "FindByAddress (we_L En) h (CmSetLocalUserName (we_L En) (we_net En) n (DisconnectAll (mw_connections w))) = Some a" for n
    using assms(6) by (simp add: CmSetLocalUserName_def DisconnectAll_def found_anyway)
  have "mw_connections (OnConnectButtonClicked En ?w1) =
      CmSetLocalUserName (we_L En) (we_net En) (MwGetUserName En w) (DisconnectAll (mw_connections w))"
    using connect_button [OF down fields(1) assms(4) fields(2) assms(5)] known by (simp add: AddConnection_def)
  then have "\<forall>(b, c) \<in> set (cm_connections (mw_connections (OnConnectButtonClicked En ?w1))). c_state c = CONNECTION_DISCONNECTED"
    using DisconnectAll_down by (auto simp: CmSetLocalUserName_def on_all_def)
  moreover have "\<not> mw_closed ?w1" using assms(1) by (simp add: on_connections_def)
  ultimately show ?thesis using assms(1) first by (simp add: app_step_def)
qed

theorem reconnect_does_nothing_witness:
  "\<exists>w'. run_app demo_window_env [ConnectClicked, ConnectClicked]
      ((demo_window (new_message 0))\<lparr>mw_serverAddress := ''hub'', mw_userName := ''ann''\<rparr>) = Some w' \<and>
    (\<forall>(b, c) \<in> set (cm_connections (mw_connections w')). c_state c = CONNECTION_DISCONNECTED)"
proof -
  let ?w = "(demo_window (new_message 0))\<lparr>mw_serverAddress := ''hub'', mw_userName := ''ann''\<rparr>"
  have "GetSelectedServerAddress demo_window_env ?w = ''hub''" "MwGetUserName demo_window_env ?w \<noteq> []"
    "FindByAddress ref_muscle ''hub'' (mw_connections ?w) = Some 1" "\<not> mw_closed ?w" "IsAnyConnected (mw_connections ?w)"
    by code_simp+
  then show ?thesis using reconnect_does_nothing [of ?w demo_window_env "''hub''" 1] by simp
qed

subsection \<open>The name and the status\<close>

lemma userName_kept:
  "mw_userName (save_settings En w) = mw_userName w" "mw_userName (UpdateStatusBar En w) = mw_userName w"
  "check_notifications b w = Some w' \<Longrightarrow> mw_userName w' = mw_userName w"
  by (auto simp: save_settings_def set_disk_def set_notifier_def OnToggleNotifications_def check_notifications_def
      split: option.splits if_splits)

lemma check_file_sharing_userName [simp]: "mw_userName (check_file_sharing En b w) = mw_userName w"
  by (simp add: check_file_sharing_def OnToggleFileSharing_def Let_def)

lemma ApplySettings_userName:
  "ApplySettings En w = Some w' \<Longrightarrow> mw_userName w \<noteq> [] \<Longrightarrow> mw_userName w' = mw_userName w"
  by (auto simp: ApplySettings_def set_notifier_def Let_def split: option.splits)

lemma OnShowSettings_userName:
  assumes "OnShowSettings En f w = Some w1" "mw_userName w \<noteq> []"
  shows "mw_userName w1 = mw_userName w"
proof -
  obtain wa where wa: "ApplySettings En (on_settings f w) = Some wa"
    using assms(1) by (auto simp: OnShowSettings_def Let_def split: option.splits)
  have "mw_userName wa = mw_userName w" using ApplySettings_userName [OF wa] assms(2) by simp
  then show ?thesis
    using assms(1) by (auto simp: OnShowSettings_def wa Let_def userName_kept(1) dest!: userName_kept(3) split: if_splits)
qed

lemma closing_name:
  assumes "string_slot (mw_settings w) kFieldUserName"
  shows "GetUserName (mw_settings (closeEvent En w)) =
    (if MwGetUserName En w = [] then kDefaultUserName else MwGetUserName En w)"
proof -
  define s2 where "s2 = SetServerPort (mw_serverPort w) (SetServerAddress (GetSelectedServerAddress En w) (mw_settings w))"
  have slot: "string_slot s2 kFieldUserName"
    unfolding s2_def using assms by (simp add: SetServerPort_def SetServerAddress_def SetString_def slot_other field_names)
  define rest where "rest m = replace_bool (replace_bool (SetExtraServers
      (map (\<lambda>(a, c). c_serverAddress c) (drop 1 (cm_connections (mw_connections w))))
      (SaveColumnLayouts (we_layouts En)
        (put_bytes kSettingsFieldSplitterState (we_splitter En) (put_bytes kSettingsFieldWindowGeometry (we_geometry En)
          (SetUserStatus (GetUserStatus m) m))))) kSettingsFieldShowTimestamps (mw_showTimestamps w))
      kSettingsFieldShowHostColumn (mw_showHostColumn w)" for m
  have "mw_settings (closeEvent En w) = rest (SetUserName (MwGetUserName En w) s2)"
    by (simp add: closeEvent_def SaveSettings_def SaveExtraServers_def s2_def rest_def Let_def on_settings_def)
  moreover have "GetUserName (rest m) = GetUserName m" for m
    by (rule st_userName.undisturbed(1))
      (simp add: rest_def SaveColumnLayouts_def SetExtraServers_def put_bytes_def list_fields SetUserStatus_def SetString_def
        field_names kSettingsFieldShowTimestamps_def kSettingsFieldShowHostColumn_def kSettingsFieldSplitterState_def
        kSettingsFieldWindowGeometry_def)
  ultimately show ?thesis using st_userName.read_back [OF slot] by simp
qed

text \<open>
  A name that is entered in the settings dialog lasts until the program is closed: the name field of the
  window keeps what it had, and closing stores the field over the name of the dialog.
\<close>

theorem name_change_undone:
  assumes "OnShowSettings En (ApplyToSettings (we_Q En) d) w = Some w1"
    and "mw_userName w \<noteq> []" "MwGetUserName En w \<noteq> []" "string_slot (mw_settings w1) kFieldUserName"
  shows "GetUserName (mw_settings (closeEvent En w1)) = MwGetUserName En w"
proof -
  have "MwGetUserName En w1 = MwGetUserName En w"
    using OnShowSettings_userName [OF assms(1,2)] by (simp add: MwGetUserName_def)
  then show ?thesis using closing_name [OF assms(4), of En] assms(3) by simp
qed

theorem name_change_undone_witness:
  "\<exists>w1. OnShowSettings demo_window_env (ApplyToSettings ref_strings (demo_dialog\<lparr>sd_userName := ''joe''\<rparr>))
      ((demo_window (new_message 0))\<lparr>mw_notifier := Some (new_notifier True), mw_userName := ''ann''\<rparr>) = Some w1 \<and>
    GetUserName (mw_settings w1) = ''joe'' \<and> GetUserName (mw_settings (closeEvent demo_window_env w1)) = ''ann''"
proof -
  let ?w = "(demo_window (new_message 0))\<lparr>mw_notifier := Some (new_notifier True), mw_userName := ''ann''\<rparr>"
  have "case OnShowSettings demo_window_env (ApplyToSettings ref_strings (demo_dialog\<lparr>sd_userName := ''joe''\<rparr>)) ?w of
      None \<Rightarrow> False | Some w1 \<Rightarrow> GetUserName (mw_settings w1) = ''joe'' \<and> string_slot (mw_settings w1) kFieldUserName"
    by code_simp
  then obtain w1 where w1: "OnShowSettings demo_window_env (ApplyToSettings ref_strings (demo_dialog\<lparr>sd_userName := ''joe''\<rparr>)) ?w = Some w1"
    "GetUserName (mw_settings w1) = ''joe''" "string_slot (mw_settings w1) kFieldUserName"
    by (auto split: option.splits)
  have name: "MwGetUserName demo_window_env ?w = ''ann''" by code_simp
  show ?thesis using name_change_undone [of demo_window_env _ ?w w1] w1 name by simp
qed

lemma promoted_first:
  assumes "take n xs = ys" "length ys = n" "\<And>y. y \<in> set ys \<Longrightarrow> \<not> EqualsIgnoreCase L y v" "n < k"
  shows "take (Suc n) (promote L k v xs) = v # ys"
proof -
  have "filter (\<lambda>x. \<not> EqualsIgnoreCase L x v) xs = ys @ filter (\<lambda>x. \<not> EqualsIgnoreCase L x v) (drop n xs)"
    using assms(1,3) by (metis append_take_drop_id filter_True filter_append)
  then show ?thesis using assms(2,4) by (simp add: promote_def min_absorb1)
qed

lemma status_typed:
  assumes "QTrimmed (we_Q En) t = t" "t \<noteq> []"
  shows "GetRecentStatuses (mw_settings (OnStatusChanged En t w)) =
      promote (we_L En) kMaximumRememberedNames t (GetRecentStatuses (mw_settings w))"
    "mw_closed (OnStatusChanged En t w) = mw_closed w"
proof -
  have "GetStringList kFieldRecentStatuses (SetUserStatus t m) = GetStringList kFieldRecentStatuses m" for m
    by (simp add: GetStringList_def SetUserStatus_def SetString_def all_strings_def finds field_names)
  then show "GetRecentStatuses (mw_settings (OnStatusChanged En t w)) =
      promote (we_L En) kMaximumRememberedNames t (GetRecentStatuses (mw_settings w))"
    using assms by (simp add: OnStatusChanged_def Let_def GetRecentStatuses_def RememberStatus_def list_remembered)
  show "mw_closed (OnStatusChanged En t w) = mw_closed w"
    by (simp add: OnStatusChanged_def on_settings_def on_connections_def Let_def)
qed

text \<open>The texts a field has had when a word has been typed into it.\<close>

definition typed :: "string \<Rightarrow> string list" where
  "typed word = map (\<lambda>n. take (Suc n) word) [0..<length word]"

text \<open>
  The history of statuses fills with fragments: the handler runs for every key, and each prefix of a status
  that is typed into the field is remembered as a status of its own, in front of the ones that were used.
\<close>

theorem typing_fills_status_history:
  assumes "lower_law (we_L En)" "ignore_case_law (we_L En)" "\<not> mw_closed w"
    and "\<forall>t \<in> set (typed word). QTrimmed (we_Q En) t = t" "length word \<le> kMaximumRememberedNames"
  shows "\<exists>w'. run_app En (map StatusTyped (typed word)) w = Some w' \<and>
    take (length word) (GetRecentStatuses (mw_settings w')) = rev (typed word)"
proof -
  let ?st = "\<lambda>w. GetRecentStatuses (mw_settings w)"
  have "\<exists>w'. run_app En (map StatusTyped (map (\<lambda>n. take (Suc n) word) [0..<k])) w = Some w' \<and> \<not> mw_closed w' \<and>
      take k (?st w') = rev (map (\<lambda>n. take (Suc n) word) [0..<k])" if "k \<le> length word" for k
    using that
  proof (induction k)
    case (Suc k)
    then obtain w1 where w1: "run_app En (map StatusTyped (map (\<lambda>n. take (Suc n) word) [0..<k])) w = Some w1"
      "\<not> mw_closed w1" "take k (?st w1) = rev (map (\<lambda>n. take (Suc n) word) [0..<k])" by auto
    let ?t = "take (Suc k) word"
    have t: "QTrimmed (we_Q En) ?t = ?t" "?t \<noteq> []" using assms(4) Suc.prems by (auto simp: typed_def)
    have "\<not> EqualsIgnoreCase (we_L En) y ?t" if "y \<in> set (rev (map (\<lambda>n. take (Suc n) word) [0..<k]))" for y
    proof -
      have "length y < length ?t" using that Suc.prems by auto
      then show ?thesis using assms(1,2) by (metis ignore_case_law_def lower_law_def less_irrefl)
    qed
    then have "take (Suc k) (?st (OnStatusChanged En ?t w1)) = ?t # rev (map (\<lambda>n. take (Suc n) word) [0..<k])"
      unfolding status_typed(1) [OF t] using w1(3) Suc.prems assms(5) by (intro promoted_first) auto
    moreover have "run_app En (xs @ ys) w = Option.bind (run_app En xs w) (run_app En ys)" for xs ys w
      by (induction xs arbitrary: w) (simp_all split: option.split)
    ultimately show ?case using w1(1,2) status_typed(2) [OF t] by (simp add: app_step_def)
  qed (use assms(3) in simp)
  from this [of "length word"] show ?thesis by (auto simp: typed_def)
qed

theorem typing_fills_status_history_witness:
  "\<exists>w'. run_app demo_window_env (map StatusTyped (typed ''gone'')) (blank_window (new_message 0) demo_world) = Some w' \<and>
    take 4 (GetRecentStatuses (mw_settings w')) = [''gone'', ''gon'', ''go'', ''g'']"
proof -
  have laws: "lower_law ref_muscle" "ignore_case_law ref_muscle" using ref_muscle_laws by (simp_all add: muscle_laws_def)
  have word: "\<forall>t \<in> set (typed ''gone''). QTrimmed ref_strings t = t" "length ''gone'' = 4"
    "rev (typed ''gone'') = [''gone'', ''gon'', ''go'', ''g'']" by code_simp+
  have "\<not> mw_closed (blank_window (new_message 0) demo_world)" by (simp add: blank_window_def)
  from typing_fills_status_history [of demo_window_env, OF _ _ this, of "''gone''"] laws word show ?thesis
    unfolding word(2,3) by (simp add: kMaximumRememberedNames_def)
qed

subsection \<open>Commands\<close>

lemma at_connections:
  "fold (\<lambda>u. at_connection (h u) (f u)) us m = on_all (\<lambda>a. fold f (filter (\<lambda>u. a = h u) us)) m"
proof (induction us arbitrary: m)
  case (Cons u us)
  then show ?case by (auto simp: at_connection_def on_all_def split_beta)
qed (simp add: on_all_def)

lemma targets_of_one:
  assumes "\<And>b c s. ru_connection (mk b c s) = Some b"
  shows "a \<notin> fst ` set cs \<Longrightarrow> filter (\<lambda>u. ru_connection u = Some a) (concat (map (\<lambda>(b, c). map (mk b c) (g c)) cs)) = []"
    "distinct (map fst cs) \<Longrightarrow> (a, c) \<in> set cs \<Longrightarrow>
     filter (\<lambda>u. ru_connection u = Some a) (concat (map (\<lambda>(b, c). map (mk b c) (g c)) cs)) = map (mk a c) (g c)"
proof -
  have none: "filter (\<lambda>u. ru_connection u = Some a) (concat (map (\<lambda>(b, c). map (mk b c) (g c)) cs)) = []"
    if "a \<notin> fst ` set cs" for cs
    using that assms by (force simp: filter_empty_conv)
  show "a \<notin> fst ` set cs \<Longrightarrow> filter (\<lambda>u. ru_connection u = Some a) (concat (map (\<lambda>(b, c). map (mk b c) (g c)) cs)) = []"
    by (rule none)
  show "distinct (map fst cs) \<Longrightarrow> (a, c) \<in> set cs \<Longrightarrow>
     filter (\<lambda>u. ru_connection u = Some a) (concat (map (\<lambda>(b, c). map (mk b c) (g c)) cs)) = map (mk a c) (g c)"
  proof (induction cs)
    case (Cons x cs)
    obtain b d where x: "x = (b, d)" by (cases x)
    have mine: "filter (\<lambda>u. ru_connection u = Some a) (map (mk b d) ys) = (if b = a then map (mk b d) ys else [])" for ys
      using assms by (simp add: filter_map comp_def)
    show ?case
    proof (cases "b = a")
      case True
      then have "d = c" "a \<notin> fst ` set cs" using Cons.prems by (auto simp: x rev_image_eqI)
      then show ?thesis using True none mine by (simp add: x)
    next
      case False
      then show ?thesis using Cons mine by (simp add: x)
    qed
  qed simp
qed

lemma on_all_one: "map_of (cm_connections (on_all f m)) a = map_option (f a) (map_of (cm_connections m) a)"
proof -
  have "map_of (map (\<lambda>(a, c). (a, f a c)) cs) a = map_option (f a) (map_of cs a)" for cs by (induction cs) auto
  then show ?thesis by (simp add: on_all_def)
qed

lemma send_privates:
  assumes "\<forall>u \<in> set us. ru_connection u \<noteq> None"
  shows "mw_connections (fold (send_private En t) us w) =
      fold (\<lambda>u. at_connection (the (ru_connection u))
        (SendChatText (we_L En) (net (we_net En) (the (ru_connection u))) (ru_sessionId u) t)) us (mw_connections w)"
    "length (mw_chatLog (fold (send_private En t) us w)) = length (mw_chatLog w) + length us"
proof -
  have one: "mw_connections (send_private En t u w) = at_connection (the (ru_connection u))
      (SendChatText (we_L En) (net (we_net En) (the (ru_connection u))) (ru_sessionId u) t) (mw_connections w) \<and>
      length (mw_chatLog (send_private En t u w)) = Suc (length (mw_chatLog w))" if "ru_connection u \<noteq> None" for u w
    using that by (auto simp: send_private_def log_chat_def show_chat_def set_disk_def Let_def on_connections_def split: prod.split)
  show "mw_connections (fold (send_private En t) us w) =
      fold (\<lambda>u. at_connection (the (ru_connection u))
        (SendChatText (we_L En) (net (we_net En) (the (ru_connection u))) (ru_sessionId u) t)) us (mw_connections w)"
    "length (mw_chatLog (fold (send_private En t) us w)) = length (mw_chatLog w) + length us"
    using assms one by (induction us arbitrary: w) simp_all
qed

lemma chats_out:
  assumes "\<forall>m. accepts E m" "t \<noteq> []"
  shows "c_out (fold (\<lambda>sid. SendChatText L E sid t) sids c) =
    c_out c @ (if IsConnected c then map (\<lambda>sid. chat_text_message L (c_localSessionId c) sid t) sids else [])"
proof -
  have "c_out (SendChatText L E sid t c) = c_out c @ (if IsConnected c then [chat_text_message L (c_localSessionId c) sid t] else [])"
    "IsConnected (SendChatText L E sid t c) = IsConnected c" "c_localSessionId (SendChatText L E sid t c) = c_localSessionId c" for sid c
    using assms by (auto simp: SendChatText_def SendToServer_def read_clock_def Let_def)
  then show ?thesis by (induction sids arbitrary: c) auto
qed

text \<open>
  C15. A private message goes to the people it is addressed to and to nobody else: each server is sent one message
  for each of its own users that the name, the session ID or the pattern stands for, in their order, a server
  that has none of them is sent nothing, and the window shows one line for each addressee.
\<close>

theorem private_message_addressed:
  assumes "IsAnyConnected (mw_connections w)" "ResolveToUsers (we_L En) target (mw_connections w) \<noteq> []" "t \<noteq> []"
    and "distinct (map fst (cm_connections (mw_connections w)))" "\<forall>a m. accepts (net (we_net En) a) m"
  defines "w1 \<equiv> SendPrivateMessage En target t w"
  shows "map fst (cm_connections (mw_connections w1)) = map fst (cm_connections (mw_connections w)) \<and>
    (\<forall>a c c1. map_of (cm_connections (mw_connections w)) a = Some c \<longrightarrow>
       map_of (cm_connections (mw_connections w1)) a = Some c1 \<longrightarrow>
       c_out c1 = c_out c @ (if IsConnected c
         then map (\<lambda>sid. chat_text_message (we_L En) (c_localSessionId c) sid t) (ResolveToSessionIds (we_L En) (c_users c) target)
         else [])) \<and>
    length (mw_chatLog w1) = length (mw_chatLog w) + length (ResolveToUsers (we_L En) target (mw_connections w))"
proof -
  let ?L = "we_L En" and ?cs = "cm_connections (mw_connections w)"
  define us where "us = ResolveToUsers ?L target (mw_connections w)"
  define mk where "mk = (\<lambda>(a :: nat) (c :: connection) sid. \<lparr> ru_connection = Some a, ru_sessionId = sid,
    ru_displayName = GetDisplayNameForSession (c_users c) sid \<rparr>)"
  have us: "us = concat (map (\<lambda>(b, c). map (mk b c) (ResolveToSessionIds ?L (c_users c) target)) ?cs)"
    by (simp add: us_def ResolveToUsers_def mk_def)
  have some: "\<forall>u \<in> set us. ru_connection u \<noteq> None" by (auto simp: us mk_def)
  have w1: "w1 = fold (send_private En t) us w"
    using assms(1,2) by (simp add: w1_def SendPrivateMessage_def resolve_targets_def us_def Let_def)
  let ?send = "\<lambda>u. SendChatText ?L (net (we_net En) (the (ru_connection u))) (ru_sessionId u) t"
  have all: "mw_connections w1 = on_all (\<lambda>a. fold ?send (filter (\<lambda>u. a = the (ru_connection u)) us)) (mw_connections w)"
    unfolding w1 send_privates(1) [OF some] by (rule at_connections)
  have sent: "c_out (fold ?send (filter (\<lambda>u. a = the (ru_connection u)) us) c) =
      c_out c @ (if IsConnected c then map (\<lambda>sid. chat_text_message ?L (c_localSessionId c) sid t) (ResolveToSessionIds ?L (c_users c) target) else [])"
    if "(a, c) \<in> set ?cs" for a c
  proof -
    have "filter (\<lambda>u. a = the (ru_connection u)) us = filter (\<lambda>u. ru_connection u = Some a) us"
      using some by (intro filter_cong) auto
    also have "\<dots> = map (mk a c) (ResolveToSessionIds ?L (c_users c) target)"
      unfolding us using that assms(4) by (intro targets_of_one(2)) (simp_all add: mk_def)
    finally have "fold ?send (filter (\<lambda>u. a = the (ru_connection u)) us) c =
        fold (\<lambda>sid. SendChatText ?L (net (we_net En) a) sid t) (ResolveToSessionIds ?L (c_users c) target) c"
      by (simp add: fold_map comp_def mk_def)
    then show ?thesis using chats_out assms(3,5) by simp
  qed
  have "c_out c1 = c_out c @ (if IsConnected c
      then map (\<lambda>sid. chat_text_message ?L (c_localSessionId c) sid t) (ResolveToSessionIds ?L (c_users c) target) else [])"
    if "map_of ?cs a = Some c" "map_of (cm_connections (mw_connections w1)) a = Some c1" for a c c1
  proof -
    have "map_of (cm_connections (mw_connections w1)) a = map_option (fold ?send (filter (\<lambda>u. a = the (ru_connection u)) us)) (map_of ?cs a)"
      unfolding all by (rule on_all_one)
    then show ?thesis using that sent [OF map_of_SomeD [OF that(1)]] by simp
  qed
  moreover have "map fst (cm_connections (mw_connections w1)) = map fst ?cs" by (simp add: all on_all_def comp_def split_beta)
  ultimately show ?thesis using send_privates(2) [OF some, of En t w] by (simp add: w1 us_def)
qed

theorem private_message_addressed_witness:
  "let us = [(''8'', empty_user\<lparr>u_sessionId := ''8'', u_userName := ''bob''\<rparr>)];
       c = (demo_conn ''7'')\<lparr>c_serverAddress := ''hub'', c_users := us\<rparr>;
       w = (demo_window (new_message 0))\<lparr>mw_connections := \<lparr> cm_listener = True, cm_connections = [(1, c), (2, demo_conn ''9'')] \<rparr>\<rparr>;
       w1 = SendPrivateMessage demo_window_env ''bob'' ''hi'' w
   in length (mw_chatLog w1) = 1 \<and>
      map (\<lambda>(a, c). length (c_out c)) (cm_connections (mw_connections w1)) = [length (c_out c) + 1, length (c_out (demo_conn ''9''))]"
proof -
  define us where "us = [(''8'', empty_user\<lparr>u_sessionId := ''8'', u_userName := ''bob''\<rparr>)]"
  define c where "c = (demo_conn ''7'')\<lparr>c_serverAddress := ''hub'', c_users := us\<rparr>"
  define w where "w = (demo_window (new_message 0))\<lparr>mw_connections := \<lparr> cm_listener = True, cm_connections = [(1, c), (2, demo_conn ''9'')] \<rparr>\<rparr>"
  define w1 where "w1 = SendPrivateMessage demo_window_env ''bob'' ''hi'' w"
  have facts: "IsAnyConnected (mw_connections w)" "length (ResolveToUsers ref_muscle ''bob'' (mw_connections w)) = 1"
    "ResolveToSessionIds ref_muscle (c_users c) ''bob'' = [''8'']" "ResolveToSessionIds ref_muscle (c_users (demo_conn ''9'')) ''bob'' = []"
    "IsConnected c" "mw_chatLog w = []" "distinct (map fst (cm_connections (mw_connections w)))"
    unfolding w_def c_def us_def by code_simp+
  have cs: "cm_connections (mw_connections w) = [(1, c), (2, demo_conn ''9'')]" by (simp add: w_def)
  have ok: "ResolveToUsers (we_L demo_window_env) ''bob'' (mw_connections w) \<noteq> []"
    "\<forall>a m. accepts (net (we_net demo_window_env) a) m" "''hi'' \<noteq> []"
    using facts(2) by (auto simp: demo_cm_env_def)
  note r' = private_message_addressed [OF facts(1) ok(1,3) facts(7) ok(2), folded w1_def, unfolded cs facts(2,6) demo_window_env_simps]
  have r: "map fst (cm_connections (mw_connections w1)) = [1, 2]"
    "\<And>a d d1. map_of [(1, c), (2, demo_conn ''9'')] a = Some d \<Longrightarrow> map_of (cm_connections (mw_connections w1)) a = Some d1 \<Longrightarrow>
       c_out d1 = c_out d @ (if IsConnected d
         then map (\<lambda>sid. chat_text_message ref_muscle (c_localSessionId d) sid ''hi'') (ResolveToSessionIds ref_muscle (c_users d) ''bob'')
         else [])"
    "length (mw_chatLog w1) = 1"
    using r' by auto
  obtain c1 c2 where "cm_connections (mw_connections w1) = [(1, c1), (2, c2)]"
    using r(1) by (auto simp: map_eq_Cons_conv)
  then show ?thesis
    using r(2) [of 1 c c1] r(2) [of 2 "demo_conn ''9''" c2] r(3) facts
    unfolding Let_def us_def [symmetric] c_def [symmetric] w_def [symmetric] w1_def [symmetric] by simp
qed

end
