(* ===== verification/Reopen.thy ===== *)
theory Reopen
  imports SessionLaws
begin

section \<open>Closing and opening again\<close>

text \<open>
  What closing the window stores in the settings and what opening one shows of them, and the theorem that puts the
  two together. First the fields of the window that its settings hold.
\<close>

definition fields :: "window \<Rightarrow> string \<times> uint16 \<times> bool \<times> bool" where
  "fields w = (mw_serverAddress w, mw_serverPort w, mw_showTimestamps w, mw_showHostColumn w)"

lemma fields_base [simp]:
  "fields (say ty t w) = fields w" "fields (set_disk d w) = fields w" "fields (save_settings En w) = fields w"
  "fields (on_settings f w) = fields w" "fields (on_connections g w) = fields w" "fields (on_downloads h w) = fields w"
  "fields (on_uploads k w) = fields w" "fields (UpdateStatusBar En w) = fields w" "fields (UpdateQueryWidgets w) = fields w"
  "fields (UpdateConnectionWidgets w) = fields w" "fields (UpdateMultiServerUi w) = fields w"
  "fields (PopulateNameAndStatusLists En w) = fields w" "fields (StartSharing En w) = fields w"
  "fields (w\<lparr>mw_notifier := no\<rparr>) = fields w" "fields (w\<lparr>mw_userStatus := s\<rparr>) = fields w" "fields (w\<lparr>mw_settings := m\<rparr>) = fields w"
  "fields (w\<lparr>mw_updater := up\<rparr>) = fields w" "fields (w\<lparr>mw_fileSharingChecked := b\<rparr>) = fields w"
  by (auto simp: fields_def say_def set_disk_def save_settings_def on_settings_def on_connections_def on_downloads_def
      on_uploads_def UpdateStatusBar_def UpdateQueryWidgets_def UpdateConnectionWidgets_def UpdateMultiServerUi_def
      PopulateNameAndStatusLists_def StartSharing_def Let_def split: prod.split)

lemma ApplySettings_fields:
  assumes "ApplySettings En w = Some w'"
  shows "fields w' = fields w" "mw_settings w' = mw_settings w" "mw_userStatus w' = GetUserStatus (mw_settings w)"
    "mw_userName w \<noteq> [] \<Longrightarrow> mw_userName w' = mw_userName w"
  using assms
  by (auto simp: ApplySettings_def set_notifier_def Let_def fields_def PopulateNameAndStatusLists_def on_uploads_def
      on_downloads_def on_connections_def split: option.splits)

subsection \<open>What closing stores\<close>

definition closing_ops :: "window_env \<Rightarrow> window \<Rightarrow> setting_op list" where
  "closing_ops En w = [OpServerAddress (GetSelectedServerAddress En w), OpServerPort (mw_serverPort w),
     OpUserName (MwGetUserName En w), OpUserStatus (GetUserStatus (mw_settings w))]"

definition closing_rest :: "window_env \<Rightarrow> window \<Rightarrow> message \<Rightarrow> message" where
  "closing_rest En w m =
     replace_bool (replace_bool
       (SetExtraServers (map (\<lambda>(a, c). c_serverAddress c) (drop 1 (cm_connections (mw_connections w))))
         (SaveColumnLayouts (we_layouts En)
           (put_bytes kSettingsFieldSplitterState (we_splitter En) (put_bytes kSettingsFieldWindowGeometry (we_geometry En) m))))
       kSettingsFieldShowTimestamps (mw_showTimestamps w)) kSettingsFieldShowHostColumn (mw_showHostColumn w)"

lemmas window_fields = kSettingsFieldShowTimestamps_def kSettingsFieldShowHostColumn_def kSettingsFieldSplitterState_def
  kSettingsFieldWindowGeometry_def

lemma closing_settings:
  assumes "settings_ok (mw_settings w)"
  shows "mw_settings (closeEvent En w) = closing_rest En w (fold (run_setting L V) (closing_ops En w) (mw_settings w))"
proof -
  have "preferences_of V (fold (run_setting L V) (butlast (closing_ops En w)) (mw_settings w)) =
      fold (spec_step L V) (butlast (closing_ops En w)) (preferences_of V (mw_settings w))"
    using fold_refines [OF assms] by blast
  then have "GetUserStatus (SetUserName (MwGetUserName En w) (SetServerPort (mw_serverPort w)
      (SetServerAddress (GetSelectedServerAddress En w) (mw_settings w)))) = GetUserStatus (mw_settings w)"
    by (simp add: closing_ops_def preferences_of_def)
  then show ?thesis
    by (simp add: closeEvent_def SaveSettings_def SaveExtraServers_def closing_rest_def closing_ops_def Let_def on_settings_def)
qed

lemma closing_rest_find:
  assumes "n \<in> set [kFieldServerAddress, kFieldServerPort, kFieldUserName, kFieldUserStatus, kFieldNotificationsEnabled,
      kFieldFileSharingEnabled, kFieldConnectOnStartup, kFieldInstallId]"
  shows "find_field (closing_rest En w m) n = find_field m n"
  using assms
  by (auto simp: closing_rest_def SaveColumnLayouts_def SetExtraServers_def put_bytes_def list_fields field_names window_fields)

lemma closing_rest_getters:
  "GetServerAddress (closing_rest En w m) = GetServerAddress m" "GetServerPort (closing_rest En w m) = GetServerPort m"
  "GetUserName (closing_rest En w m) = GetUserName m" "GetUserStatus (closing_rest En w m) = GetUserStatus m"
  "GetNotificationsEnabled (closing_rest En w m) = GetNotificationsEnabled m"
  by (rule st_serverAddress.undisturbed(1) st_serverPort.undisturbed(1) st_userName.undisturbed(1)
      st_userStatus.undisturbed(1) st_notificationsEnabled.undisturbed(1), rule closing_rest_find, simp)+

lemma slots_of_closing:
  "bool_slot m kSettingsFieldShowTimestamps \<Longrightarrow> bool_slot m kSettingsFieldShowHostColumn \<Longrightarrow>
   find_bool (closing_rest En w m) kSettingsFieldShowTimestamps = Some (mw_showTimestamps w) \<and>
   find_bool (closing_rest En w m) kSettingsFieldShowHostColumn = Some (mw_showHostColumn w)"
proof -
  let ?m = "SetExtraServers (map (\<lambda>(a, c). c_serverAddress c) (drop 1 (cm_connections (mw_connections w))))
      (SaveColumnLayouts (we_layouts En)
        (put_bytes kSettingsFieldSplitterState (we_splitter En) (put_bytes kSettingsFieldWindowGeometry (we_geometry En) m)))"
  have "find_field ?m n = find_field m n" if "n \<in> {kSettingsFieldShowTimestamps, kSettingsFieldShowHostColumn}" for n
    using that by (auto simp: SaveColumnLayouts_def SetExtraServers_def put_bytes_def list_fields field_names window_fields)
  then have "bool_slot ?m n = bool_slot m n" if "n \<in> {kSettingsFieldShowTimestamps, kSettingsFieldShowHostColumn}" for n
    using that slot_cong(3) by blast
  moreover have ne: "kSettingsFieldShowTimestamps \<noteq> kSettingsFieldShowHostColumn" by (simp add: window_fields)
  moreover assume "bool_slot m kSettingsFieldShowTimestamps" "bool_slot m kSettingsFieldShowHostColumn"
  ultimately have "find_bool (replace_bool (replace_bool ?m kSettingsFieldShowTimestamps b) kSettingsFieldShowHostColumn c)
      kSettingsFieldShowTimestamps = Some b"
    "find_bool (replace_bool (replace_bool ?m kSettingsFieldShowTimestamps b) kSettingsFieldShowHostColumn c)
      kSettingsFieldShowHostColumn = Some c" for b c
    using find_replace_bool [of ?m kSettingsFieldShowTimestamps b]
      find_replace_bool [of "replace_bool ?m kSettingsFieldShowTimestamps b" kSettingsFieldShowHostColumn c]
    by (simp_all add: finds)
  then show ?thesis by (simp add: closing_rest_def)
qed

lemma closing_stored:
  assumes "settings_ok (mw_settings w)" "bool_slot (mw_settings w) kSettingsFieldShowTimestamps"
    "bool_slot (mw_settings w) kSettingsFieldShowHostColumn"
    and s_def: "s = mw_settings (closeEvent En w)"
  shows "GetServerAddress s = (if GetSelectedServerAddress En w = [] then kDefaultServerAddress else GetSelectedServerAddress En w)"
    "GetServerPort s = (if mw_serverPort w = 0 then kDefaultServerPort else mw_serverPort w)"
    "GetUserName s = (if MwGetUserName En w = [] then kDefaultUserName else MwGetUserName En w)"
    "GetUserStatus s = (if GetUserStatus (mw_settings w) = [] then kDefaultUserStatus else GetUserStatus (mw_settings w))"
    "GetNotificationsEnabled s = GetNotificationsEnabled (mw_settings w)"
    "find_bool s kSettingsFieldShowTimestamps = Some (mw_showTimestamps w)"
    "find_bool s kSettingsFieldShowHostColumn = Some (mw_showHostColumn w)"
proof -
  let ?m = "fold (run_setting ref_muscle (we_settings En)) (closing_ops En w) (mw_settings w)"
  have s: "s = closing_rest En w ?m" using closing_settings [OF assms(1)] by (simp add: s_def)
  have p: "preferences_of (we_settings En) ?m =
      fold (spec_step ref_muscle (we_settings En)) (closing_ops En w) (preferences_of (we_settings En) (mw_settings w))"
    using fold_refines [OF assms(1)] by blast
  have "find_field ?m n = find_field (mw_settings w) n" if "n \<in> {kSettingsFieldShowTimestamps, kSettingsFieldShowHostColumn}" for n
    using that by (auto simp: closing_ops_def setters field_names window_fields)
  then have "bool_slot ?m n = bool_slot (mw_settings w) n" if "n \<in> {kSettingsFieldShowTimestamps, kSettingsFieldShowHostColumn}" for n
    using that slot_cong(3) by blast
  then show "find_bool s kSettingsFieldShowTimestamps = Some (mw_showTimestamps w)"
    "find_bool s kSettingsFieldShowHostColumn = Some (mw_showHostColumn w)"
    unfolding s using slots_of_closing [of ?m] assms(2,3) by blast+
  show "GetServerAddress s = (if GetSelectedServerAddress En w = [] then kDefaultServerAddress else GetSelectedServerAddress En w)"
    "GetServerPort s = (if mw_serverPort w = 0 then kDefaultServerPort else mw_serverPort w)"
    "GetUserName s = (if MwGetUserName En w = [] then kDefaultUserName else MwGetUserName En w)"
    "GetUserStatus s = (if GetUserStatus (mw_settings w) = [] then kDefaultUserStatus else GetUserStatus (mw_settings w))"
    "GetNotificationsEnabled s = GetNotificationsEnabled (mw_settings w)"
    unfolding s closing_rest_getters using p by (simp_all add: closing_ops_def preferences_of_def)
qed

subsection \<open>What opening shows\<close>

definition shown_names :: "window \<Rightarrow> string \<times> string" where
  "shown_names w = (mw_userName w, mw_userStatus w)"

lemma shown_names_base [simp]:
  "shown_names (say ty t w) = shown_names w" "shown_names (on_settings f w) = shown_names w"
  "shown_names (on_connections g w) = shown_names w" "shown_names (UpdateStatusBar En w) = shown_names w"
  "shown_names (UpdateQueryWidgets w) = shown_names w" "shown_names (UpdateConnectionWidgets w) = shown_names w"
  "shown_names (UpdateMultiServerUi w) = shown_names w" "shown_names (w\<lparr>mw_updater := up\<rparr>) = shown_names w"
  by (simp_all add: shown_names_def say_def on_settings_def on_connections_def UpdateStatusBar_def UpdateQueryWidgets_def
      UpdateConnectionWidgets_def UpdateMultiServerUi_def Let_def)

lemma servers_shown [simp]:
  "fields (ConnectToConfiguredServer En w) = fields w" "shown_names (ConnectToConfiguredServer En w) = shown_names w"
  "fields (RestoreExtraServers En w) = fields w" "shown_names (RestoreExtraServers En w) = shown_names w"
proof -
  have "fields (fold (\<lambda>s. on_connections (g s)) ss w) = fields w" "shown_names (fold (\<lambda>s. on_connections (g s)) ss w) = shown_names w"
    for g ss w
    by (induction ss arbitrary: w) simp_all
  then show "fields (RestoreExtraServers En w) = fields w" "shown_names (RestoreExtraServers En w) = shown_names w"
    by (simp_all add: RestoreExtraServers_def)
qed (simp_all add: ConnectToConfiguredServer_def Let_def)

lemma GetUserName_some: "GetUserName m \<noteq> []"
  by (simp add: GetUserName_def GetString_def kDefaultUserName_def split: option.split)

lemma finish_shown:
  assumes "finish_opening En w = Some w2" "mw_userName w \<noteq> []"
  shows "fields w2 = fields w" "shown_names w2 = (mw_userName w, GetUserStatus (mw_settings w))"
proof -
  obtain i st where g: "GetInstallId (we_settings En) (mw_settings w) = (i, st)" by fastforce
  have st: "GetUserStatus st = GetUserStatus (mw_settings w)"
    using g st_userStatus.undisturbed(1) [of "\<lambda>m. snd (GetInstallId (we_settings En) m)" "mw_settings w"]
    by (auto simp: GetInstallId_def field_names split: option.splits if_splits)
  define wc where "wc = on_connections (CmSetLocalUserStatus (we_L En) (we_net En) (GetUserStatus st)
      \<circ> CmSetLocalUserName (we_L En) (we_net En) (GetUserName st))
    (on_connections (CmSetInstallId i \<circ> CmSetListener True) (w\<lparr>mw_settings := st\<rparr>))"
  define w3 where "w3 = on_uploads (SetUpListener True) (on_downloads (SetDmListener True)
    (wc\<lparr>mw_notifier := Some (new_notifier (we_notifyAvailable En))\<rparr>))"
  have w3: "fields w3 = fields w" "mw_userName w3 = mw_userName w" "mw_settings w3 = st"
    by (simp_all add: w3_def wc_def)
  obtain w4 where w4: "ApplySettings En w3 = Some w4"
    using assms(1) by (auto simp: finish_opening_def g Let_def wc_def [symmetric] w3_def [symmetric] split: option.splits)
  have "fields w2 = fields w4" "shown_names w2 = shown_names w4"
    using assms(1) w4 by (auto simp: finish_opening_def g Let_def wc_def [symmetric] w3_def [symmetric])
  then show "fields w2 = fields w" "shown_names w2 = (mw_userName w, GetUserStatus (mw_settings w))"
    using ApplySettings_fields [OF w4] w3 assms(2) st by (simp_all add: shown_names_def)
qed

lemma opening_shows:
  assumes "open_window En d = Some w2" "snd (Load (we_settings En) d (new_message 0)) = s" "GetNotificationsEnabled s"
  shows "fields w2 = (GetServerAddress s, GetServerPort s, found_or True (find_bool s kSettingsFieldShowTimestamps),
      found_or False (find_bool s kSettingsFieldShowHostColumn))"
    "shown_names w2 = (GetUserName s, GetUserStatus s)"
proof -
  define w1 where "w1 = (PopulateNameAndStatusLists En ((PopulateServerList (blank_window s d))\<lparr>mw_serverPort := GetServerPort s\<rparr>))
    \<lparr>mw_showTimestamps := found_or True (find_bool s kSettingsFieldShowTimestamps)\<rparr>"
  have w1: "mw_settings w1 = s" "mw_userName w1 = GetUserName s" "mw_connections w1 = new_connections"
    "\<not> mw_fileSharingChecked w1" "mw_notificationsChecked w1" "mw_serverAddress w1 = GetServerAddress s"
    "mw_serverPort w1 = GetServerPort s" "mw_showTimestamps w1 = found_or True (find_bool s kSettingsFieldShowTimestamps)"
    by (simp_all add: w1_def blank_window_def PopulateNameAndStatusLists_def PopulateServerList_def)
  define m where "m = (if GetFileSharingEnabled s then SetFileSharingEnabled True s else s)"
  define w3 where "w3 = check_file_sharing En (GetFileSharingEnabled s) w1"
  have w3: "mw_settings w3 = m" "mw_userName w3 = GetUserName s" "mw_notificationsChecked w3"
    "mw_serverAddress w3 = GetServerAddress s" "mw_serverPort w3 = GetServerPort s"
    "mw_showTimestamps w3 = found_or True (find_bool s kSettingsFieldShowTimestamps)"
    using w1 unconnected_new
    by (auto simp: w3_def m_def check_file_sharing_def OnToggleFileSharing_def say_def on_settings_def Let_def)
  have m: "GetUserStatus m = GetUserStatus s" "find_bool m kSettingsFieldShowHostColumn = find_bool s kSettingsFieldShowHostColumn"
    "GetNotificationsEnabled m = GetNotificationsEnabled s"
    using st_userStatus.undisturbed(1) [of "SetFileSharingEnabled True" s]
    by (auto simp: m_def SetFileSharingEnabled_def field_names window_fields finds GetNotificationsEnabled_def)
  define w4 where "w4 = w3\<lparr>mw_showHostColumn := found_or False (find_bool m kSettingsFieldShowHostColumn)\<rparr>"
  have "LoadSettings En (blank_window s d) = Some w4"
  proof -
    have "LoadSettings En (blank_window s d) =
        map_option (\<lambda>w4. w4\<lparr>mw_showHostColumn := found_or False (find_bool (mw_settings w4) kSettingsFieldShowHostColumn)\<rparr>)
          (check_notifications (GetNotificationsEnabled (mw_settings w3)) w3)"
      by (simp add: LoadSettings_def Let_def w3_def w1_def blank_window_def)
    then show ?thesis using w3(1,3) m(3) assms(3) by (simp add: check_notifications_def w4_def)
  qed
  then have "finish_opening En w4 = Some w2"
    using assms(1,2) by (auto simp: open_window_def)
  from finish_shown [OF this] show "fields w2 = (GetServerAddress s, GetServerPort s, found_or True (find_bool s kSettingsFieldShowTimestamps),
      found_or False (find_bool s kSettingsFieldShowHostColumn))"
    "shown_names w2 = (GetUserName s, GetUserStatus s)"
    using w3 m GetUserName_some [of s] by (simp_all add: w4_def fields_def)
qed

subsection \<open>Both\<close>

lemma Load_reads_one: "w_files d (GetSettingsFilePath V) = w_files d' (GetSettingsFilePath V) \<Longrightarrow> Load V d m = Load V d' m"
  by (simp add: Load_def)

lemma closing_disk:
  "disk (SaveSettings En w) = snd (Save (we_L En) (we_settings En) (mw_settings (closeEvent En w)) (disk w))"
  by (simp add: SaveSettings_def closeEvent_def SaveExtraServers_def save_settings_def set_disk_def on_settings_def Let_def)

text \<open>
  C24. The window comes back as it was closed: when the settings could be saved, a window that is opened on a disk
  with that settings file shows the server, the port, the name and the status of the window that was closed,
  with the timestamps and the column of host names shown or hidden as they were.
\<close>

theorem window_comes_back:
  assumes "settings_ok (mw_settings w)" "bool_slot (mw_settings w) kSettingsFieldShowTimestamps"
    and "bool_slot (mw_settings w) kSettingsFieldShowHostColumn" "GetNotificationsEnabled (mw_settings w)"
    and "GetSelectedServerAddress En w \<noteq> []" "MwGetUserName En w \<noteq> []" "mw_serverPort w \<noteq> 0"
    and "archive_law (we_settings En) (mw_settings (closeEvent En w))"
    and "length (FlattenToDataIO (we_settings En) (mw_settings (closeEvent En w))) \<le> kMaximumSettingsFileSize + 4"
    and "fst (Save (we_L En) (we_settings En) (mw_settings (closeEvent En w)) (disk w)) = SettingsOk"
    and "w_files d (GetSettingsFilePath (we_settings En)) = w_files (disk (SaveSettings En w)) (GetSettingsFilePath (we_settings En))"
  shows "\<exists>w2. open_window En d = Some w2 \<and>
    mw_serverAddress w2 = GetSelectedServerAddress En w \<and> mw_serverPort w2 = mw_serverPort w \<and>
    mw_userName w2 = MwGetUserName En w \<and> mw_userStatus w2 = GetUserStatus (mw_settings w) \<and>
    mw_showTimestamps w2 = mw_showTimestamps w \<and> mw_showHostColumn w2 = mw_showHostColumn w"
proof -
  let ?s = "mw_settings (closeEvent En w)"
  obtain status d' where save: "Save (we_L En) (we_settings En) ?s (disk w) = (status, d')" by fastforce
  have "Load (we_settings En) d' (new_message 0) = (SettingsOk, ?s)"
    using save_then_load [OF assms(8,9) save] assms(10) save by simp
  then have load: "snd (Load (we_settings En) d (new_message 0)) = ?s"
    using Load_reads_one [OF assms(11)] save by (simp add: closing_disk)
  note stored = closing_stored [OF assms(1-3) refl, of En]
  have on: "GetNotificationsEnabled ?s" using stored(5) assms(4) by simp
  then obtain w2 where w2: "open_window En d = Some w2" using opens_iff [of En d] load by auto
  have "GetUserStatus m \<noteq> []" for m
    by (simp add: GetUserStatus_def GetString_def kDefaultUserStatus_def split: option.split)
  then show ?thesis
    using opening_shows [OF w2 load on] w2 stored(1-4,6,7) assms(5-7) by (simp add: fields_def shown_names_def found_or_def)
qed

theorem window_comes_back_witness:
  "\<exists>V. let En = demo_window_env\<lparr>we_settings := V\<rparr>;
        w = (demo_window (new_message 0))\<lparr>mw_serverAddress := ''hub'', mw_userName := ''ann''\<rparr>
    in \<exists>w2. open_window En (disk (SaveSettings En w)) = Some w2 \<and> mw_serverAddress w2 = ''hub'' \<and> mw_userName w2 = ''ann''"
proof -
  define w where "w = (demo_window (new_message 0))\<lparr>mw_serverAddress := ''hub'', mw_userName := ''ann''\<rparr>"
  define s where "s = mw_settings (closeEvent demo_window_env w)"
  define V where "V = demo_settings_env\<lparr>FlattenToDataIO := \<lambda>m. [1], UnflattenFromDataIO := \<lambda>cap bs old. (True, s)\<rparr>"
  define En where "En = demo_window_env\<lparr>we_settings := V\<rparr>"
  have ok: "settings_ok (mw_settings w)" by (simp add: w_def settings_ok_new)
  have s: "mw_settings (closeEvent En w) = s"
    using closing_settings [OF ok, of En ref_muscle demo_settings_env] closing_settings [OF ok, of demo_window_env ref_muscle demo_settings_env]
    by (simp add: s_def En_def closing_rest_def closing_ops_def GetSelectedServerAddress_def MwGetUserName_def)
  have "bool_slot (mw_settings w) kSettingsFieldShowTimestamps" "bool_slot (mw_settings w) kSettingsFieldShowHostColumn"
    "GetNotificationsEnabled (mw_settings w)" "GetSelectedServerAddress demo_window_env w = ''hub''"
    "MwGetUserName demo_window_env w = ''ann''" "mw_serverPort w \<noteq> 0"
    "fst (Save ref_muscle (demo_settings_env\<lparr>FlattenToDataIO := \<lambda>m. [1]\<rparr>) (new_message 0) (disk w)) = SettingsOk"
    unfolding w_def by code_simp+
  moreover have "fst (Save ref_muscle V s (disk w)) = fst (Save ref_muscle (demo_settings_env\<lparr>FlattenToDataIO := \<lambda>m. [1]\<rparr>) (new_message 0) (disk w))"
    by (simp add: V_def Save_def GetConfigDirectoryPath_def GetSettingsFilePath_def GetEnvironmentVariable_def Let_def split: prod.split)
  moreover have "archive_law V s" by (simp add: archive_law_def V_def)
  moreover have "length (FlattenToDataIO V s) \<le> kMaximumSettingsFileSize + 4" by (simp add: V_def)
  moreover have "we_L En = ref_muscle" "we_settings En = V" "GetSelectedServerAddress En w = GetSelectedServerAddress demo_window_env w"
    "MwGetUserName En w = MwGetUserName demo_window_env w"
    by (simp_all add: En_def GetSelectedServerAddress_def MwGetUserName_def)
  ultimately have "\<exists>w2. open_window En (disk (SaveSettings En w)) = Some w2 \<and> mw_serverAddress w2 = ''hub'' \<and> mw_userName w2 = ''ann''"
    using window_comes_back [of w En "disk (SaveSettings En w)"] ok s by auto
  then show ?thesis unfolding Let_def En_def w_def by blast
qed

end
