(* ===== verification/Ignoring.thy ===== *)
theory Ignoring
  imports Reopen
begin

section \<open>What the ignore list hides stays hidden\<close>

text \<open>
  The ignore list of a window and the one its settings hold: which handlers leave both alone, that only the command
  \<open>/ignore\<close> changes them, and that a window which is opened on the saved settings has them again.
\<close>

subsection \<open>The stored pattern\<close>

lemma pattern_kept [simp]:
  "GetIgnorePattern (SetFileSharingEnabled b m) = GetIgnorePattern m" "GetIgnorePattern (StSetShareDirectory s m) = GetIgnorePattern m"
  "GetIgnorePattern (RememberUserName L s m) = GetIgnorePattern m" "GetIgnorePattern (RememberServer L s m) = GetIgnorePattern m"
  "GetIgnorePattern (RememberStatus L s m) = GetIgnorePattern m" "GetIgnorePattern (SetExtraServers xs m) = GetIgnorePattern m"
  "GetIgnorePattern (SetServerList xs m) = GetIgnorePattern m" "GetIgnorePattern (SetNotificationsEnabled b m) = GetIgnorePattern m"
  "GetIgnorePattern (SetUserStatus s m) = GetIgnorePattern m" "GetIgnorePattern (SetUserName s m) = GetIgnorePattern m"
  "GetIgnorePattern (SetAliases al m) = GetIgnorePattern m" "GetIgnorePattern (SetWatchPattern s m) = GetIgnorePattern m"
  "GetIgnorePattern (SetAutoPrivPattern s m) = GetIgnorePattern m"
  by (rule st_ignorePattern.undisturbed(1), auto simp: setters list_setters list_fields field_names)+

lemma pattern_kept_closing [simp]: "GetIgnorePattern (closing_rest En w m) = GetIgnorePattern m"
  by (rule st_ignorePattern.undisturbed(1))
    (auto simp: closing_rest_def SaveColumnLayouts_def SetExtraServers_def put_bytes_def list_fields field_names window_fields)

lemma pattern_kept_install: "GetInstallId V m = (i, m') \<Longrightarrow> GetIgnorePattern m' = GetIgnorePattern m"
  using st_ignorePattern.undisturbed(1) [of "\<lambda>m. snd (GetInstallId V m)" m]
  by (auto simp: GetInstallId_def field_names split: option.splits if_splits)

lemma pattern_kept_dialog [simp]: "GetIgnorePattern (ApplyToSettings Q d m) = GetIgnorePattern m"
  by (rule st_ignorePattern.undisturbed(1))
    (simp add: ApplyToSettings_def setters Let_def field_names)

lemma pattern_kept_servers:
  "OnServerListReceived L V selected cm received (m, d) = (m', d') \<Longrightarrow> GetIgnorePattern m' = GetIgnorePattern m"
  by (auto simp: OnServerListReceived_def Let_def split: prod.splits if_splits)

lemma closing_pattern [simp]: "GetIgnorePattern (mw_settings (closeEvent En w)) = GetIgnorePattern (mw_settings w)"
proof -
  have "GetIgnorePattern (SetServerAddress a m) = GetIgnorePattern m" "GetIgnorePattern (SetServerPort p m) = GetIgnorePattern m"
    "GetIgnorePattern (put_bytes kSettingsFieldWindowGeometry bs m) = GetIgnorePattern m"
    "GetIgnorePattern (put_bytes kSettingsFieldSplitterState bs m) = GetIgnorePattern m"
    "GetIgnorePattern (SaveColumnLayouts ls m) = GetIgnorePattern m"
    "GetIgnorePattern (replace_bool m kSettingsFieldShowTimestamps b) = GetIgnorePattern m"
    "GetIgnorePattern (replace_bool m kSettingsFieldShowHostColumn b) = GetIgnorePattern m" for a p bs ls b m
    by (rule st_ignorePattern.undisturbed(1),
        auto simp: setters put_bytes_def SaveColumnLayouts_def list_fields field_names window_fields)+
  then show ?thesis by (simp add: closeEvent_def SaveSettings_def SaveExtraServers_def on_settings_def Let_def)
qed

subsection \<open>Both lists of a window\<close>

definition ignoring :: "window \<Rightarrow> string \<times> string" where
  "ignoring w = (mw_ignoreFilter w, GetIgnorePattern (mw_settings w))"

lemma ignoring_base [simp]:
  "ignoring (say ty t w) = ignoring w" "ignoring (show_chat m w) = ignoring w" "ignoring (set_disk d w) = ignoring w"
  "ignoring (save_settings En w) = ignoring w" "ignoring (on_connections g w) = ignoring w"
  "ignoring (on_downloads h w) = ignoring w" "ignoring (on_uploads k w) = ignoring w" "ignoring (on_results r w) = ignoring w"
  "ignoring (log_chat En m w) = ignoring w" "ignoring (UpdateStatusBar En w) = ignoring w" "ignoring (UpdateQueryWidgets w) = ignoring w"
  "ignoring (UpdateConnectionWidgets w) = ignoring w" "ignoring (UpdateMultiServerUi w) = ignoring w"
  "ignoring (UpdateResultCount En w) = ignoring w" "ignoring (PopulateServerList w) = ignoring w"
  "ignoring (PopulateNameAndStatusLists En w) = ignoring w"
  by (simp_all add: ignoring_def say_def show_chat_def set_disk_def save_settings_def on_connections_def
      on_downloads_def on_uploads_def on_results_def log_chat_def UpdateStatusBar_def UpdateQueryWidgets_def
      UpdateConnectionWidgets_def UpdateMultiServerUi_def UpdateResultCount_def PopulateServerList_def
      PopulateNameAndStatusLists_def Let_def split: prod.split)

lemma ignoring_settings [simp]:
  "(\<And>m. GetIgnorePattern (f m) = GetIgnorePattern m) \<Longrightarrow> ignoring (on_settings f w) = ignoring w"
  by (simp add: ignoring_def on_settings_def)

lemma ignoring_fields [simp]:
  "ignoring (w\<lparr>mw_connections := a2\<rparr>) = ignoring w"
  "ignoring (w\<lparr>mw_downloads := a3\<rparr>) = ignoring w" "ignoring (w\<lparr>mw_uploadServer := a4\<rparr>) = ignoring w"
  "ignoring (w\<lparr>mw_shareScanner := a5\<rparr>) = ignoring w" "ignoring (w\<lparr>mw_sharedFiles := a6\<rparr>) = ignoring w"
  "ignoring (w\<lparr>mw_sharedFileCount := a7\<rparr>) = ignoring w" "ignoring (w\<lparr>mw_notifier := no\<rparr>) = ignoring w"
  "ignoring (w\<lparr>mw_watchFilter := a8\<rparr>) = ignoring w" "ignoring (w\<lparr>mw_autoPrivFilter := a8\<rparr>) = ignoring w"
  "ignoring (w\<lparr>mw_aliases := a9\<rparr>) = ignoring w" "ignoring (w\<lparr>mw_chatLogger := a10\<rparr>) = ignoring w"
  "ignoring (w\<lparr>mw_users := us\<rparr>) = ignoring w" "ignoring (w\<lparr>mw_results := rs\<rparr>) = ignoring w"
  "ignoring (w\<lparr>mw_flushTimer := b1\<rparr>) = ignoring w" "ignoring (w\<lparr>mw_chatLog := b2\<rparr>) = ignoring w"
  "ignoring (w\<lparr>mw_fontPointSize := b3\<rparr>) = ignoring w" "ignoring (w\<lparr>mw_input := b4\<rparr>) = ignoring w"
  "ignoring (w\<lparr>mw_serverAddress := a8\<rparr>) = ignoring w" "ignoring (w\<lparr>mw_serverPort := b5\<rparr>) = ignoring w"
  "ignoring (w\<lparr>mw_userName := a8\<rparr>) = ignoring w" "ignoring (w\<lparr>mw_userStatus := a8\<rparr>) = ignoring w"
  "ignoring (w\<lparr>mw_queryField := a8\<rparr>) = ignoring w" "ignoring (w\<lparr>mw_selectedResults := b6\<rparr>) = ignoring w"
  "ignoring (w\<lparr>mw_fileSharingChecked := b1\<rparr>) = ignoring w" "ignoring (w\<lparr>mw_notificationsChecked := b1\<rparr>) = ignoring w"
  "ignoring (w\<lparr>mw_showTimestamps := b1\<rparr>) = ignoring w" "ignoring (w\<lparr>mw_showHostColumn := b1\<rparr>) = ignoring w"
  "ignoring (w\<lparr>mw_title := a8\<rparr>) = ignoring w" "ignoring (w\<lparr>mw_updater := b7\<rparr>) = ignoring w"
  "ignoring (w\<lparr>mw_closed := b1\<rparr>) = ignoring w"
  by (simp_all add: ignoring_def)

lemma ignoring_fold: "(\<And>x w. ignoring (f x w) = ignoring w) \<Longrightarrow> ignoring (fold f xs w) = ignoring w"
  by (induction xs arbitrary: w) simp_all

lemma ignoring_sharing [simp]:
  "ignoring (StartSharing En w) = ignoring w" "ignoring (StopSharing En w) = ignoring w"
  "ignoring (OnToggleFileSharing En b w) = ignoring w" "ignoring (check_file_sharing En b w) = ignoring w"
  "ignoring (OnChooseShareFolder En s w) = ignoring w" "ignoring (DrainShareScanner En w) = ignoring w"
  by (auto simp: StartSharing_def StopSharing_def OnToggleFileSharing_def check_file_sharing_def OnChooseShareFolder_def
      DrainShareScanner_def publish_discovered_def report_scan_end_def Let_def split: prod.split)

lemma ignoring_servers [simp]:
  "ignoring (ConnectToConfiguredServer En w) = ignoring w" "ignoring (RestoreExtraServers En w) = ignoring w"
  "ignoring (SaveExtraServers w) = ignoring w" "ignoring (OnConnectButtonClicked En w) = ignoring w"
  "ignoring (MwStartQuery En w) = ignoring w" "ignoring (OnQueryButtonClicked En w) = ignoring w"
  by (auto simp: ConnectToConfiguredServer_def RestoreExtraServers_def SaveExtraServers_def OnConnectButtonClicked_def
      MwStartQuery_def OnQueryButtonClicked_def Let_def ignoring_fold split: prod.split)

lemma ignoring_server_list [simp]: "ignoring (MwServerListReceived En xs ys w) = ignoring w"
proof -
  obtain s d where r: "OnServerListReceived (we_L En) (we_settings En) (GetSelectedServerAddress En w) (mw_connections w)
      (xs, ys) (mw_settings w, disk w) = (s, d)" by fastforce
  have "ignoring (w\<lparr>mw_settings := s\<rparr>) = ignoring w" using pattern_kept_servers [OF r] by (simp add: ignoring_def)
  then show ?thesis by (simp add: MwServerListReceived_def r Let_def)
qed

lemma ignoring_talking [simp]:
  "ignoring (SendChatToEveryone En t b w) = ignoring w" "ignoring (SendPrivateMessage En to t w) = ignoring w"
  "ignoring (PingUser En to w) = ignoring w"
  by (auto simp: SendChatToEveryone_def SendPrivateMessage_def PingUser_def resolve_targets_def send_private_def
      ping_user_def Let_def intro!: ignoring_fold split: option.split)

lemma ignoring_downloads [simp]:
  "ignoring (DownloadSelectedResults En w) = ignoring w" "ignoring (OnCancelSelectedTransfer En rows w) = ignoring w"
  "ignoring (OnClearFinishedTransfers w) = ignoring w"
proof -
  have "ignoring (start_from En ch ac w) = ignoring w" for ch ac w by (cases ac) (simp add: start_from_def Let_def)
  then have "ignoring (fold (start_from En ch) acs w) = ignoring w" for ch acs w by (rule ignoring_fold)
  then show "ignoring (DownloadSelectedResults En w) = ignoring w" by (simp add: DownloadSelectedResults_def Let_def)
qed (simp_all add: OnCancelSelectedTransfer_def OnClearFinishedTransfers_def ignoring_fold)

lemma ignoring_notifications:
  "set_notifier b w = Some w' \<Longrightarrow> ignoring w' = ignoring w"
  "OnToggleNotifications b w = Some w' \<Longrightarrow> ignoring w' = ignoring w"
  "check_notifications b w = Some w' \<Longrightarrow> ignoring w' = ignoring w"
proof -
  have n: "ignoring w' = ignoring w" if "set_notifier b w = Some w'" for b w w'
    using that by (auto simp: set_notifier_def split: option.splits)
  then show "set_notifier b w = Some w' \<Longrightarrow> ignoring w' = ignoring w" .
  have t: "ignoring w' = ignoring w" if "OnToggleNotifications b w = Some w'" for b w w'
    using that by (auto simp: OnToggleNotifications_def split: option.splits if_splits dest!: n)
  then show "OnToggleNotifications b w = Some w' \<Longrightarrow> ignoring w' = ignoring w" .
  show "check_notifications b w = Some w' \<Longrightarrow> ignoring w' = ignoring w"
    by (auto simp: check_notifications_def split: if_splits dest: t)
qed

lemma ignoring_commands [simp]:
  "ignoring (change_nick En t w) = ignoring w" "ignoring (MwSetUserStatus En t w) = ignoring w"
  "ignoring (OnStatusChanged En t w) = ignoring w" "ignoring (HandleAliasCommand En c w) = ignoring w"
  "ignoring (ShowCommandHelp En w) = ignoring w" "ignoring (ShowConnectionInformation En w) = ignoring w"
  by (auto simp: change_nick_def MwSetUserStatus_def OnStatusChanged_def HandleAliasCommand_def save_aliases_def
      ShowCommandHelp_def ShowConnectionInformation_def Let_def ignoring_fold split_beta)

lemma ignoring_close [simp]: "ignoring (closeEvent En w) = ignoring w"
proof -
  have "mw_ignoreFilter (closeEvent En w) = mw_ignoreFilter w"
    by (simp add: closeEvent_def SaveSettings_def SaveExtraServers_def save_settings_def set_disk_def on_settings_def
        on_downloads_def on_uploads_def on_connections_def Let_def)
  then show ?thesis by (simp add: ignoring_def)
qed

lemma ignoring_other_filters [simp]:
  "ignoring (HandleFilterCommand En mw_watchFilter set_watch SetWatchPattern n t w) = ignoring w"
  "ignoring (HandleFilterCommand En mw_autoPrivFilter set_autopriv SetAutoPrivPattern n t w) = ignoring w"
  by (simp_all add: HandleFilterCommand_def set_watch_def set_autopriv_def Let_def)

lemma ignoring_command: "cmd_type c \<noteq> CHAT_COMMAND_IGNORE \<Longrightarrow> ignoring (run_command En c w) = ignoring w"
  by (cases "cmd_type c") (simp_all add: run_command_def Let_def)

lemma ignoring_notify [simp]: "ignoring (notify_user En cat su body w) = ignoring w"
  by (simp add: notify_user_def)

lemma ignoring_reported [simp]:
  "ignoring (MaybeNotifyAboutChat En m w) = ignoring w" "ignoring (OnChatMessage En a m w) = ignoring w"
  "ignoring (OnSessionIdAssigned En a sid w) = ignoring w" "ignoring (OnPingReply En u us v w) = ignoring w"
  "ignoring (OnStateChanged En a st w) = ignoring w" "ignoring (OnUserUpdated En a u b w) = ignoring w"
  "ignoring (OnUserLeft En a u w) = ignoring w" "ignoring (flush_results En w) = ignoring w"
  "ignoring (OnFlushTimer En w) = ignoring w"
  "ignoring (OnDownloadReport En ty t w) = ignoring w" "ignoring (on_upload_event En ue w) = ignoring w"
  "ignoring (OnIdleTimerFired En w) = ignoring w" "ignoring (OnUserDoubleClicked En n w) = ignoring w"
  "ignoring (press_key En k w) = ignoring w"
  by (auto simp: MaybeNotifyAboutChat_def OnChatMessage_def OnSessionIdAssigned_def OnPingReply_def OnStateChanged_def
      OnUserUpdated_def OnUserLeft_def flush_results_def OnFlushTimer_def
      OnDownloadReport_def on_upload_event_def OnIdleTimerFired_def OnUserDoubleClicked_def press_key_def
      Let_def split: up_event.split)

lemma ignoring_callback [simp]: "ignoring (on_callback En a ev w) = ignoring w"
  by (cases ev) (simp_all add: on_callback_def)

subsection \<open>A list that hides\<close>

text \<open>The window ignores by a pattern, and its settings have that pattern.\<close>

definition hides :: "string \<Rightarrow> window \<Rightarrow> bool" where
  "hides P w \<longleftrightarrow> ignoring w = (P, P)"

lemma hides_cong: "ignoring w' = ignoring w \<Longrightarrow> hides P w' = hides P w"
  by (simp add: hides_def)

lemma ApplySettings_ignoring:
  assumes "ApplySettings En w = Some w'"
  shows "ignoring w' = (SetPattern (we_L En) (GetIgnorePattern (mw_settings w)), GetIgnorePattern (mw_settings w))"
  using assms
  by (auto simp: ApplySettings_def set_notifier_def Let_def ignoring_def PopulateNameAndStatusLists_def split: option.splits)

lemma hides_settings:
  assumes "hides P w" "SetPattern (we_L En) P = P"
  shows "ApplySettings En w = Some w' \<Longrightarrow> hides P w'"
    "OnShowSettings En (ApplyToSettings Q d) w = Some w' \<Longrightarrow> hides P w'"
    "OnConnectAdditionalServer En s w = Some w' \<Longrightarrow> hides P w'"
proof -
  have a: "hides P w'" if "ApplySettings En v = Some w'" "hides P v" for v w'
    using ApplySettings_ignoring [OF that(1)] that(2) assms(2) by (simp add: hides_def ignoring_def)
  then show "ApplySettings En w = Some w' \<Longrightarrow> hides P w'" using assms(1) by blast
  show "OnConnectAdditionalServer En s w = Some w' \<Longrightarrow> hides P w'"
    using assms(1) a [of "w\<lparr>mw_connections := m\<rparr>" for m]
    by (auto simp: OnConnectAdditionalServer_def Let_def hides_cong [OF ignoring_fields(1)] hides_def
        split: option.splits if_splits prod.splits)
  show "hides P w'" if s: "OnShowSettings En (ApplyToSettings Q d) w = Some w'"
  proof -
    obtain w1 where w1: "ApplySettings En (on_settings (ApplyToSettings Q d) w) = Some w1"
      using s by (auto simp: OnShowSettings_def Let_def split: option.splits)
    have "hides P (on_settings (ApplyToSettings Q d) w)" using assms(1) by (simp add: hides_def)
    then have "ignoring w1 = (P, P)" using a [OF w1] by (simp add: hides_def)
    moreover have "ignoring w' = ignoring w1"
      using s w1 by (auto simp: OnShowSettings_def Let_def split: if_splits dest!: ignoring_notifications(3))
    ultimately show ?thesis by (simp add: hides_def)
  qed
qed

text \<open>The command that a line stands for, and the runs in which no line that is entered is \<open>/ignore\<close>.\<close>

definition entered :: "window_env \<Rightarrow> window \<Rightarrow> ChatCommandType" where
  "entered En w = cmd_type (Parse (we_L En) (Expand (we_L En) (mw_aliases w) (il_text (mw_input w))))"

fun not_ignore :: "window_env \<Rightarrow> app_event \<Rightarrow> window \<Rightarrow> bool" where
  "not_ignore En ReturnPressed w \<longleftrightarrow> entered En w \<noteq> CHAT_COMMAND_IGNORE"
| "not_ignore En _ w \<longleftrightarrow> True"

primrec no_ignore :: "window_env \<Rightarrow> app_event list \<Rightarrow> window \<Rightarrow> bool" where
  "no_ignore En [] w \<longleftrightarrow> True"
| "no_ignore En (ev # evs) w \<longleftrightarrow> not_ignore En ev w \<and>
     (case app_step En ev w of None \<Rightarrow> True | Some w' \<Rightarrow> no_ignore En evs w')"

lemma hides_step:
  assumes "hides P w" "SetPattern (we_L En) P = P" "not_ignore En ev w" "app_step En ev w = Some w'"
  shows "hides P w'"
proof (cases "mw_closed w")
  case False
  with assms(4) have h: "handle En ev w = Some w'" by (simp add: app_step_def)
  have ret: "ignoring (OnInputReturnPressed En w) = ignoring w" if "entered En w \<noteq> CHAT_COMMAND_IGNORE"
    using ignoring_command that by (simp add: OnInputReturnPressed_def HandleUserInput_def entered_def Let_def)
  show ?thesis using h hides_settings [OF assms(1,2)] assms(1,3) ret
    by (cases ev) (auto simp: hides_def OnDisconnectAll_def OnToggleTimestamps_def OnQueryFieldReturnPressed_def
        OnDownloadSelected_def update_failed_def dest!: ignoring_notifications(2) split: if_splits)
qed (use assms in \<open>simp add: app_step_def\<close>)

lemma hides_run:
  "hides P w \<Longrightarrow> SetPattern (we_L En) P = P \<Longrightarrow> no_ignore En evs w \<Longrightarrow> run_app En evs w = Some w' \<Longrightarrow> hides P w'"
proof (induction evs arbitrary: w)
  case (Cons ev evs)
  then obtain w1 where w1: "app_step En ev w = Some w1" "run_app En evs w1 = Some w'" by (auto split: option.splits)
  with Cons.prems have "hides P w1" "no_ignore En evs w1" using hides_step [OF Cons.prems(1,2)] by auto
  then show ?case using Cons.IH Cons.prems(2) w1(2) by blast
qed simp

subsection \<open>The next run\<close>

text \<open>The settings can be saved on a disk: the write succeeds, and the file is of a size and a content that is read back.\<close>

definition saves :: "window_env \<Rightarrow> message \<Rightarrow> world \<Rightarrow> bool" where
  "saves En s d \<longleftrightarrow> archive_law (we_settings En) s \<and>
     length (FlattenToDataIO (we_settings En) s) \<le> kMaximumSettingsFileSize + 4 \<and>
     fst (Save (we_L En) (we_settings En) s d) = SettingsOk"

text \<open>
  A later run of the program, in circumstances of its own: a window that is opened on a disk whose settings file is
  the one of the given disk.
\<close>

definition reopened :: "window_env \<Rightarrow> world \<Rightarrow> window_env \<Rightarrow> window \<Rightarrow> bool" where
  "reopened En d En' v \<longleftrightarrow> we_L En' = we_L En \<and> we_settings En' = we_settings En \<and>
     (\<exists>d'. w_files d' (GetSettingsFilePath (we_settings En)) = w_files d (GetSettingsFilePath (we_settings En)) \<and>
        open_window En' d' = Some v)"

text \<open>Nobody who sends the message is seen, now and after anything that happens but another \<open>/ignore\<close>.\<close>

definition stays_hidden :: "window_env \<Rightarrow> ChatMessage \<Rightarrow> window \<Rightarrow> bool" where
  "stays_hidden En m v \<longleftrightarrow>
     (\<forall>evs w a. no_ignore En evs v \<longrightarrow> run_app En evs v = Some w \<longrightarrow> on_callback En a (ChatMessageReceived m) w = w)"

lemma open_hides:
  assumes "open_window En d = Some v" "GetIgnorePattern (snd (Load (we_settings En) d (new_message 0))) = P"
    and "SetPattern (we_L En) P = P"
  shows "hides P v"
proof -
  let ?b = "blank_window (snd (Load (we_settings En) d (new_message 0))) d"
  obtain w where w: "LoadSettings En ?b = Some w" "finish_opening En w = Some v"
    using assms(1) by (auto simp: open_window_def split: option.splits)
  have "ignoring w = ignoring ?b"
    using w(1) by (auto simp: LoadSettings_def Let_def dest!: ignoring_notifications(3))
  then have P: "GetIgnorePattern (mw_settings w) = P" using assms(2) by (simp add: ignoring_def blank_window_def)
  obtain i st where g: "GetInstallId (we_settings En) (mw_settings w) = (i, st)" by fastforce
  define w1 where "w1 = on_connections (CmSetInstallId i \<circ> CmSetListener True) (w\<lparr>mw_settings := st\<rparr>)"
  define w3 where "w3 = on_uploads (SetUpListener True) (on_downloads (SetDmListener True)
    ((on_connections (CmSetLocalUserStatus (we_L En) (we_net En) (GetUserStatus st)
       \<circ> CmSetLocalUserName (we_L En) (we_net En) (GetUserName st)) w1)
     \<lparr>mw_notifier := Some (new_notifier (we_notifyAvailable En))\<rparr>))"
  have "ignoring w3 = ignoring (w\<lparr>mw_settings := st\<rparr>)" by (simp add: w3_def w1_def)
  then have st: "GetIgnorePattern (mw_settings w3) = P" using pattern_kept_install [OF g] P by (simp add: ignoring_def)
  obtain w4 where w4: "ApplySettings En w3 = Some w4"
    using w(2) by (auto simp: finish_opening_def g Let_def w1_def [symmetric] w3_def [symmetric] split: option.splits)
  have "ignoring v = ignoring w4"
    using w(2) w4 by (auto simp: finish_opening_def g Let_def w1_def [symmetric] w3_def [symmetric])
  then show ?thesis using ApplySettings_ignoring [OF w4] st assms(3) by (simp add: hides_def)
qed

lemma reopened_hides:
  assumes "saves En s d" "GetIgnorePattern s = P" "SetPattern (we_L En) P = P"
    and "reopened En (snd (Save (we_L En) (we_settings En) s d)) En' v"
  shows "hides P v"
proof -
  have sv: "archive_law (we_settings En) s" "length (FlattenToDataIO (we_settings En) s) \<le> kMaximumSettingsFileSize + 4"
    "fst (Save (we_L En) (we_settings En) s d) = SettingsOk"
    using assms(1) by (simp_all add: saves_def)
  obtain status d1 where save: "Save (we_L En) (we_settings En) s d = (status, d1)" by fastforce
  obtain d' where d': "w_files d' (GetSettingsFilePath (we_settings En)) = w_files d1 (GetSettingsFilePath (we_settings En))"
    "open_window En' d' = Some v" "we_L En' = we_L En" "we_settings En' = we_settings En"
    using assms(4) save by (auto simp: reopened_def)
  have "Load (we_settings En) d1 (new_message 0) = (SettingsOk, s)"
    using save_then_load [OF sv(1,2) save] sv(3) save by simp
  then have "Load (we_settings En') d' (new_message 0) = (SettingsOk, s)" using Load_reads_one [OF d'(1)] d'(4) by simp
  then show ?thesis using open_hides [OF d'(2)] assms(2,3) d'(3) by simp
qed

lemma hides_hidden:
  assumes "hides (SetPattern (we_L En) pat) v" "trim_law (we_L En)" "we_L En' = we_L En"
    and "msg_type m = LOG_REMOTE_USER_CHAT_MESSAGE" "Matches (we_L En) (SetPattern (we_L En) pat) (senderName m) (senderSessionId m)"
  shows "stays_hidden En' m v"
proof -
  have "SetPattern (we_L En') (SetPattern (we_L En) pat) = SetPattern (we_L En) pat"
    using Trimmed_idem [OF assms(2), of pat] assms(3) by (simp add: SetPattern_def)
  moreover have "on_callback En' a (ChatMessageReceived m) w = w" if "hides (SetPattern (we_L En) pat) w" for a w
    using that assms(3-5) by (simp add: hides_def ignoring_def on_callback_def OnChatMessage_def)
  ultimately show ?thesis using assms(1) hides_run [of _ _ En'] unfolding stays_hidden_def by blast
qed

subsection \<open>Correctness\<close>

text \<open>
  C25. What \<open>/ignore\<close> hides stays hidden: once the command has been entered, a line of chat from anybody who
  matches it changes nothing in the window, its files or its notifications, whatever happens next, as long as no
  other \<open>/ignore\<close> is entered. When the settings could be written the same holds of the next run of the
  program, even if this one ended without closing the window, because the command itself saves the list; and it holds
  of the next run after the window was closed at any time.
\<close>

theorem ignored_user_hidden:
  assumes "trim_law (we_L En)" "\<not> mw_closed w"
    and "QTrimmed (we_Q En) (il_text (mw_input w)) \<noteq> []"
    and "Parse (we_L En) (Expand (we_L En) (mw_aliases w) (il_text (mw_input w))) =
           \<lparr> cmd_type = CHAT_COMMAND_IGNORE, commandName = name, cmd_target = target, cmd_argument = pat \<rparr>"
    and "pat \<noteq> []" "pat \<noteq> ''-''" "string_slot (mw_settings w) kFieldIgnorePattern"
    and "msg_type m = LOG_REMOTE_USER_CHAT_MESSAGE" "Matches (we_L En) (SetPattern (we_L En) pat) (senderName m) (senderSessionId m)"
  shows "\<exists>w1. run_app En [ReturnPressed] w = Some w1 \<and> stays_hidden En m w1 \<and>
    (\<forall>En' v. saves En (mw_settings w1) (disk w) \<longrightarrow> reopened En (disk w1) En' v \<longrightarrow> stays_hidden En' m v) \<and>
    (\<forall>evs w2 En' v. no_ignore En evs w1 \<longrightarrow> run_app En evs w1 = Some w2 \<longrightarrow>
       saves En (mw_settings (closeEvent En w2)) (disk w2) \<longrightarrow> reopened En (disk (SaveSettings En w2)) En' v \<longrightarrow>
       stays_hidden En' m v)"
proof -
  let ?P = "SetPattern (we_L En) pat"
  define w0 where "w0 = w\<lparr>mw_input := AcceptCurrentLine (mw_input w)\<rparr>"
  define w1 where "w1 = HandleFilterCommand En mw_ignoreFilter set_ignore SetIgnorePattern ''Ignore'' pat w0"
  have run: "run_app En [ReturnPressed] w = Some w1"
    using assms(2-4)
    by (simp add: app_step_def OnInputReturnPressed_def HandleUserInput_def run_command_def w0_def w1_def Let_def)
  have s1: "mw_settings w1 = SetIgnorePattern ?P (mw_settings w)" and f1: "mw_ignoreFilter w1 = ?P"
    and d1: "disk w1 = snd (Save (we_L En) (we_settings En) (SetIgnorePattern ?P (mw_settings w)) (disk w))"
    using assms(5,6) by (simp_all add: w1_def w0_def HandleFilterCommand_def set_ignore_def save_settings_def set_disk_def
        on_settings_def say_def Let_def)
  have stored: "GetIgnorePattern (mw_settings w1) = ?P"
    using st_ignorePattern.read_back [OF assms(7)] s1 by simp
  have P: "SetPattern (we_L En) ?P = ?P" using Trimmed_idem [OF assms(1), of pat] by (simp add: SetPattern_def)
  have h1: "hides ?P w1" using f1 stored by (simp add: hides_def ignoring_def)
  note hidden = hides_hidden [OF _ assms(1) _ assms(8,9)]
  have "stays_hidden En' m v" if "saves En (mw_settings w1) (disk w)" "reopened En (disk w1) En' v" for En' v
    using hidden reopened_hides [OF that(1) stored P] that(2) d1 s1 by (simp add: reopened_def)
  moreover have "stays_hidden En' m v" if "no_ignore En evs w1" "run_app En evs w1 = Some w2"
    "saves En (mw_settings (closeEvent En w2)) (disk w2)" "reopened En (disk (SaveSettings En w2)) En' v" for evs w2 En' v
  proof -
    have "hides ?P w2" by (rule hides_run [OF h1 P that(1,2)])
    then have "GetIgnorePattern (mw_settings (closeEvent En w2)) = ?P" by (simp add: hides_def ignoring_def)
    from reopened_hides [OF that(3) this P] that(4) show ?thesis using hidden by (simp add: closing_disk reopened_def)
  qed
  ultimately show ?thesis using run hidden [OF h1 refl] by blast
qed

theorem ignored_user_hidden_witness:
  "\<exists>V. let En = demo_window_env\<lparr>we_settings := V\<rparr>;
        m = (chat_message LOG_REMOTE_USER_CHAT_MESSAGE ''hi'')\<lparr>senderName := ''bob'', senderSessionId := ''7''\<rparr>
    in \<exists>w1 v. run_app En [ReturnPressed] ((demo_window (new_message 0))\<lparr>mw_input := new_input_line\<lparr>il_text := ''/ignore bob''\<rparr>\<rparr>) = Some w1 \<and>
      open_window En (disk w1) = Some v \<and>
      on_callback En 1 (ChatMessageReceived m) w1 = w1 \<and> on_callback En 1 (ChatMessageReceived m) v = v"
proof -
  let ?w = "(demo_window (new_message 0))\<lparr>mw_input := new_input_line\<lparr>il_text := ''/ignore bob''\<rparr>\<rparr>"
  let ?m = "(chat_message LOG_REMOTE_USER_CHAT_MESSAGE ''hi'')\<lparr>senderName := ''bob'', senderSessionId := ''7''\<rparr>"
  define s where "s = SetIgnorePattern (SetPattern ref_muscle ''bob'') (new_message 0)"
  define V where "V = demo_settings_env\<lparr>FlattenToDataIO := \<lambda>m. [1], UnflattenFromDataIO := \<lambda>cap bs old. (True, s)\<rparr>"
  define En where "En = demo_window_env\<lparr>we_settings := V\<rparr>"
  have En: "we_L En = ref_muscle" "we_settings En = V" "we_Q En = ref_strings" by (simp_all add: En_def)
  have facts: "QTrimmed ref_strings (il_text (mw_input ?w)) \<noteq> []" "\<not> mw_closed ?w"
    "string_slot (mw_settings ?w) kFieldIgnorePattern" "msg_type ?m = LOG_REMOTE_USER_CHAT_MESSAGE"
    "Matches ref_muscle (SetPattern ref_muscle ''bob'') (senderName ?m) (senderSessionId ?m)"
    "(let c = Parse ref_muscle (Expand ref_muscle (mw_aliases ?w) (il_text (mw_input ?w)))
      in cmd_type c = CHAT_COMMAND_IGNORE \<and> cmd_argument c = ''bob'')"
    "GetNotificationsEnabled s"
    "fst (Save ref_muscle (demo_settings_env\<lparr>FlattenToDataIO := \<lambda>m. [1]\<rparr>) (new_message 0) (disk ?w)) = SettingsOk"
    unfolding s_def by code_simp+
  obtain nm tg where parsed: "Parse ref_muscle (Expand ref_muscle (mw_aliases ?w) (il_text (mw_input ?w))) =
      \<lparr> cmd_type = CHAT_COMMAND_IGNORE, commandName = nm, cmd_target = tg, cmd_argument = ''bob'' \<rparr>"
    using facts(6) by (cases "Parse ref_muscle (Expand ref_muscle (mw_aliases ?w) (il_text (mw_input ?w)))") (auto simp: Let_def)
  have "fst (Save ref_muscle V s (disk ?w)) = fst (Save ref_muscle (demo_settings_env\<lparr>FlattenToDataIO := \<lambda>m. [1]\<rparr>) (new_message 0) (disk ?w))"
    by (simp add: V_def Save_def GetConfigDirectoryPath_def GetSettingsFilePath_def GetEnvironmentVariable_def Let_def split: prod.split)
  then have sv: "saves En s (disk ?w)"
    using facts(8) by (simp add: saves_def En archive_law_def V_def)
  have "trim_law ref_muscle" using ref_muscle_laws by (simp add: muscle_laws_def)
  from ignored_user_hidden [of En ?w nm tg "''bob''" ?m, unfolded En, OF this facts(2,1) parsed _ _ facts(3-5)]
  obtain w1 where w1: "run_app En [ReturnPressed] ?w = Some w1" "stays_hidden En ?m w1"
    "\<And>En' v. saves En (mw_settings w1) (disk ?w) \<Longrightarrow> reopened En (disk w1) En' v \<Longrightarrow> stays_hidden En' ?m v" by auto
  have "OnInputReturnPressed En ?w = w1" using w1(1) facts(2) by (simp add: app_step_def)
  then have "w1 = HandleFilterCommand En mw_ignoreFilter set_ignore SetIgnorePattern ''Ignore'' ''bob''
      (?w\<lparr>mw_input := AcceptCurrentLine (mw_input ?w)\<rparr>)"
    using facts(1) parsed by (simp add: OnInputReturnPressed_def HandleUserInput_def run_command_def En Let_def)
  then have s1: "mw_settings w1 = s" "disk w1 = snd (Save ref_muscle V s (disk ?w))"
    by (simp_all add: HandleFilterCommand_def set_ignore_def save_settings_def set_disk_def on_settings_def say_def Let_def s_def En)
  have "snd (Load V (disk w1) (new_message 0)) = s"
    using save_then_load [of V s ref_muscle "disk ?w"] sv s1(2) by (cases "Save ref_muscle V s (disk ?w)") (simp add: saves_def En)
  then obtain v where v: "open_window En (disk w1) = Some v" using opens_iff [of En "disk w1"] facts(7) En by auto
  then have "stays_hidden En ?m v" using w1(3) sv s1(1) by (auto simp: reopened_def)
  moreover have "on_callback En a (ChatMessageReceived ?m) u = u" if "stays_hidden En ?m u" for a u
    using that unfolding stays_hidden_def by (metis no_ignore.simps(1) run_app.simps(1))
  ultimately show ?thesis using w1(1,2) v unfolding Let_def En_def by blast
qed

end
