(* ===== verification/Probe.thy ===== *)
theory Probe
  imports ConnectionLaws UploadLaws DownloadLaws Settings Rows QtStrings "HOL-Library.Signed_Division"
begin

section \<open>The probe\<close>

text \<open>
  \<open>tools/probe/main.cpp\<close>, the command line client: what its listener prints, what it does with a line that
  is typed, and its loop. What the program has printed is a text of the state. A connection and an upload
  server tell the listener what happened while their method runs; as the listener calls nobody back, it is
  told here when the method returns, in order. A download that is running tells it in steps of their own,
  with the download as it is then.
\<close>

record probe =
  pl_shouldStartScan :: bool
  pl_lastUploadCount :: uint32
  pl_results :: "FileResult list"
  pl_resultCount :: uint32
  pl_lastProgressTenths :: int
  pl_shouldQuit :: bool
  pb_connection :: connection
  pb_downloads :: "download list"
  pb_scanner :: ShareScanner
  pb_uploadServer :: upload_server
  pb_sharedFiles :: "(string \<times> SharedFile) list"
  pb_sharedSoFar :: uint32
  pb_world :: world
  pb_out :: string

text \<open>What the probe relies on, and the two settings it reads once at the start.\<close>

record probe_env =
  pe_L :: muscle
  pe_net :: conn_env
  pe_dl :: dl_env
  pe_up :: up_env
  pe_scan :: scan_env
  pe_scanCreated :: bool
  pe_settings :: settings_env

subsection \<open>Printing\<close>

text \<open>The conversions of \<open>printf\<close> that the probe uses: \<open>%s\<close>, \<open>%-36s\<close> and \<open>%10s\<close>.\<close>

definition cstr :: "string \<Rightarrow> string" where
  "cstr s = takeWhile (\<lambda>c. c \<noteq> CHR 0x00) s"

definition pad_right :: "nat \<Rightarrow> string \<Rightarrow> string" where
  "pad_right n s = s @ replicate (n - length s) CHR '' ''"

definition pad_left :: "nat \<Rightarrow> string \<Rightarrow> string" where
  "pad_left n s = replicate (n - length s) CHR '' '' @ s"

definition put_text :: "string \<Rightarrow> probe \<Rightarrow> probe" where
  "put_text t p = p\<lparr>pb_out := pb_out p @ t\<rparr>"

definition print_line :: "string \<Rightarrow> probe \<Rightarrow> probe" where
  "print_line t = put_text (t @ [CHR 0x0A])"

definition udec :: "uint32 \<Rightarrow> string" where
  "udec n = decimal (unat n)"

text \<open>\<open>atoi\<close>: blanks, a sign, digits up to the first other character; a number out of range is cut off.\<close>

definition c_space :: "char \<Rightarrow> bool" where
  "c_space c \<longleftrightarrow> c = CHR '' '' \<or> (9 \<le> (of_char c :: nat) \<and> of_char c \<le> (13 :: nat))"

fun digits_value :: "int \<Rightarrow> string \<Rightarrow> int" where
  "digits_value acc [] = acc"
| "digits_value acc (c # cs) = (if digit c then digits_value (acc * 10 + (int (of_char c) - 48)) cs else acc)"

definition strtol :: "string \<Rightarrow> int" where
  "strtol s =
     (case dropWhile c_space s of
        [] \<Rightarrow> 0
      | c # cs \<Rightarrow>
          max (- (2 ^ 63)) (min (2 ^ 63 - 1)
            (if c = CHR ''-'' then - digits_value 0 cs
             else if c = CHR ''+'' then digits_value 0 cs else digits_value 0 (c # cs))))"

definition atoi :: "string \<Rightarrow> int32" where
  "atoi s = word_of_int (strtol (cstr s))"

subsection \<open>What the listener prints\<close>

definition PbConnectionStateChanged :: "ConnectionState \<Rightarrow> probe \<Rightarrow> probe" where
  "PbConnectionStateChanged st =
     print_line (case st of
        CONNECTION_DISCONNECTED \<Rightarrow> ''*** Disconnected.''
      | CONNECTION_CONNECTING \<Rightarrow> ''*** Connecting...''
      | CONNECTION_CONNECTED \<Rightarrow> ''*** Connected.'')"

definition PbLocalSessionIdAssigned :: "string \<Rightarrow> probe \<Rightarrow> probe" where
  "PbLocalSessionIdAssigned sessionId p =
     print_line (''*** We are session '' @ cstr sessionId @ ''.'') (p\<lparr>pl_shouldStartScan := True\<rparr>)"

definition PbUserUpdated :: "UserRecord \<Rightarrow> bool \<Rightarrow> probe \<Rightarrow> probe" where
  "PbUserUpdated user isNewUser p =
     (if \<not> isNewUser then p
      else print_line (''*** ('' @ cstr (u_sessionId user) @ '') '' @ cstr (GetDisplayName user) @ '' joined'' @
             (if u_clientVersion user \<noteq> [] then '' ['' @ cstr (u_clientVersion user) @ '']'' else [])) p)"

definition PbUserLeft :: "UserRecord \<Rightarrow> probe \<Rightarrow> probe" where
  "PbUserLeft user = print_line (''*** ('' @ cstr (u_sessionId user) @ '') '' @ cstr (GetDisplayName user) @ '' left.'')"

definition PbChatMessageReceived :: "ChatMessage \<Rightarrow> probe \<Rightarrow> probe" where
  "PbChatMessageReceived m =
     (let privateMarker = (if isPrivate m then ''[PRIVATE] '' else [])
      in print_line (if isAction m then privateMarker @ ''* '' @ cstr (senderName m) @ '' '' @ cstr (msg_text m)
           else if senderName m \<noteq> [] then privateMarker @ ''<'' @ cstr (senderName m) @ ''> '' @ cstr (msg_text m)
           else ''*** '' @ cstr (msg_text m)))"

definition result_line :: "muscle \<Rightarrow> registry \<Rightarrow> uint32 \<Rightarrow> FileResult \<Rightarrow> string" where
  "result_line L users i r =
     ''  ['' @ pad_left 2 (udec i) @ ''] '' @ pad_right 36 (cstr (fr_fileName r)) @ '' '' @
     pad_left 10 (cstr (FormatByteSize L (fr_fileSize r))) @ ''  '' @
     cstr (GetDisplayNameForSession users (fr_sessionId r)) @ (if fr_isFirewalled r then '' [firewalled]'' else [])"

definition PbQueryResultAdded :: "muscle \<Rightarrow> FileResult \<Rightarrow> probe \<Rightarrow> probe" where
  "PbQueryResultAdded L r p =
     (let p1 = p\<lparr>pl_results := pl_results p @ [r]\<rparr>;
          p2 = print_line (result_line L (c_users (pb_connection p1)) (of_nat (length (pl_results p1)) - 1) r) p1
      in p2\<lparr>pl_resultCount := pl_resultCount p2 + 1\<rparr>)"

definition PbQueryResultRemoved :: "string \<Rightarrow> string \<Rightarrow> probe \<Rightarrow> probe" where
  "PbQueryResultRemoved sessionId fileName p =
     (let p1 = print_line (''  -- '' @ cstr fileName @ '' (from '' @ cstr sessionId @ '') is no longer shared'') p
      in if pl_resultCount p1 > 0 then p1\<lparr>pl_resultCount := pl_resultCount p1 - 1\<rparr> else p1)"

definition PbQueryResultsCleared :: "probe \<Rightarrow> probe" where
  "PbQueryResultsCleared p = p\<lparr>pl_resultCount := 0, pl_results := []\<rparr>"

definition PbQuerySweepStateChanged :: "bool \<Rightarrow> probe \<Rightarrow> probe" where
  "PbQuerySweepStateChanged isSweeping p =
     print_line (if isSweeping then ''*** Searching...''
       else ''*** Search complete ('' @ udec (pl_resultCount p) @ '' result(s) so far; more arrive live).'') p"

definition PbPingReplyReceived :: "UserRecord \<Rightarrow> uint64 \<Rightarrow> string \<Rightarrow> probe \<Rightarrow> probe" where
  "PbPingReplyReceived user roundTripMicroseconds peerVersion =
     print_line (''*** Ping reply from '' @ cstr (GetDisplayName user) @ '': '' @
       decimal (unat (roundTripMicroseconds div 1000)) @ '' ms'' @
       (if peerVersion \<noteq> [] then '' -- '' @ cstr peerVersion else []))"

definition PbDownloadStateChanged :: "muscle \<Rightarrow> download \<Rightarrow> probe \<Rightarrow> probe" where
  "PbDownloadStateChanged L d p =
     (case dl_state d of
        DOWNLOAD_IDLE \<Rightarrow> p
      | DOWNLOAD_CONNECTING \<Rightarrow> print_line ''*** Connecting to peer...'' p
      | DOWNLOAD_REQUESTING \<Rightarrow> print_line ''*** Connected; asking for the file...'' p
      | DOWNLOAD_QUEUED_REMOTELY \<Rightarrow> print_line ''*** The peer has put us on their waiting list.'' p
      | DOWNLOAD_TRANSFERRING \<Rightarrow>
          print_line (''*** Receiving '' @ cstr (dl_currentFileName d) @ '' ('' @
            cstr (FormatByteSize L (dl_currentFileSize d)) @ '')...'') p
      | DOWNLOAD_FINISHED \<Rightarrow>
          print_line (''*** Download finished: '' @ udec (dl_completedFileCount d) @ '' file(s), '' @
            cstr (FormatByteSize L (dl_totalBytesDone d)) @ ''.'') p
      | DOWNLOAD_FAILED \<Rightarrow> print_line (''*** Download failed: '' @ cstr (dl_errorText d)) p)"

definition PbDownloadProgress :: "muscle \<Rightarrow> download \<Rightarrow> probe \<Rightarrow> probe" where
  "PbDownloadProgress L d p =
     (let size = dl_currentFileSize d
      in if sint size \<le> 0 then p
         else let tenths = sint (word_of_int (sint (dl_currentFileBytesDone d * 10) sdiv sint size) :: int32)
              in if tenths = pl_lastProgressTenths p then p
                 else print_line (''      '' @ pad_left 3 (signed_decimal (tenths * 10)) @ ''%  '' @
                        cstr (FormatByteSize L (dl_currentFileBytesDone d)) @ ''  '' @
                        cstr (FormatTransferRate L (fst (GetBytesPerSecond d)))) (p\<lparr>pl_lastProgressTenths := tenths\<rparr>))"

definition PbDownloadFileCompleted :: "string \<Rightarrow> probe \<Rightarrow> probe" where
  "PbDownloadFileCompleted localPath p =
     print_line (''*** Saved to '' @ cstr localPath) (p\<lparr>pl_lastProgressTenths := -1\<rparr>)"

definition PbUploadsChanged :: "probe \<Rightarrow> probe" where
  "PbUploadsChanged p =
     (let count = of_nat (length (us_peers (pb_uploadServer p)))
      in if count \<noteq> pl_lastUploadCount p
         then print_line (''*** '' @ udec count @ '' peer(s) connected to us.'') (p\<lparr>pl_lastUploadCount := count\<rparr>)
         else p)"

definition PbUploadReport :: "string \<Rightarrow> probe \<Rightarrow> probe" where
  "PbUploadReport t = print_line (''*** '' @ cstr t)"

text \<open>Who is told.\<close>

fun told :: "muscle \<Rightarrow> conn_event \<Rightarrow> probe \<Rightarrow> probe" where
  "told L (ConnectionStateChanged st) p = PbConnectionStateChanged st p"
| "told L (LocalSessionIdAssigned sid host) p = PbLocalSessionIdAssigned sid p"
| "told L (UserUpdated user isNew) p = PbUserUpdated user isNew p"
| "told L (UserLeft user) p = PbUserLeft user p"
| "told L (ChatMessageReceived m) p = PbChatMessageReceived m p"
| "told L (QueryResultAdded r) p = PbQueryResultAdded L r p"
| "told L (QueryResultRemoved sid name) p = PbQueryResultRemoved sid name p"
| "told L QueryResultsCleared p = PbQueryResultsCleared p"
| "told L (QuerySweepStateChanged b) p = PbQuerySweepStateChanged b p"
| "told L (PingReplyReceived user t v) p = PbPingReplyReceived user t v p"

fun told_download :: "muscle \<Rightarrow> download \<Rightarrow> dl_event \<Rightarrow> probe \<Rightarrow> probe" where
  "told_download L d (DlStateChanged st txt) p = PbDownloadStateChanged L d p"
| "told_download L d DlProgress p = PbDownloadProgress L d p"
| "told_download L d (DlFileCompleted path) p = PbDownloadFileCompleted path p"

fun told_upload :: "up_event \<Rightarrow> probe \<Rightarrow> probe" where
  "told_upload UploadsChanged p = PbUploadsChanged p"
| "told_upload (UploadReport ty t) p = PbUploadReport t p"

text \<open>A call of the connection or of the upload server, and what it told.\<close>

definition on_connection :: "probe_env \<Rightarrow> (connection \<Rightarrow> connection) \<Rightarrow> probe \<Rightarrow> probe" where
  "on_connection En f p =
     (let c = pb_connection p; c1 = f c
      in fold (told (pe_L En)) (drop (length (c_events c)) (c_events c1)) (p\<lparr>pb_connection := c1\<rparr>))"

definition on_upload_server :: "(upload_server \<Rightarrow> upload_server) \<Rightarrow> probe \<Rightarrow> probe" where
  "on_upload_server f p =
     (let s = pb_uploadServer p; s1 = f s
      in fold told_upload (drop (length (us_events s)) (us_events s1)) (p\<lparr>pb_uploadServer := s1\<rparr>))"

subsection \<open>A line that is typed\<close>

definition PrintHelp :: "probe \<Rightarrow> probe" where
  "PrintHelp p =
     print_line ''Anything else is sent as chat.''
       (fold (\<lambda>(name, arguments, description). print_line
            (''  '' @ pad_right 24 (take 63 (''/'' @ name @ '' '' @ (case arguments of Some a \<Rightarrow> a | None \<Rightarrow> []))) @ '' '' @ description))
          GetHelpEntries (print_line ''Commands:'' p))"

definition say_to_all :: "probe_env \<Rightarrow> bool \<Rightarrow> string \<Rightarrow> probe \<Rightarrow> probe" where
  "say_to_all En action t p =
     (if \<not> IsConnected (pb_connection p) then print_line ''*** Not connected.'' p
      else let p1 = on_connection En (SendChatText (pe_L En) (pe_net En) ''*'' t) p;
               name = cstr (c_localUserName (pb_connection p1))
           in print_line (if action then ''* '' @ name @ '' '' @ cstr (drop 4 t) else ''<'' @ name @ ''> '' @ cstr t) p1)"

definition say_to_one :: "probe_env \<Rightarrow> string \<Rightarrow> string \<Rightarrow> probe \<Rightarrow> probe" where
  "say_to_one En t sid p =
     (let p1 = on_connection En (SendChatText (pe_L En) (pe_net En) sid t) p
      in print_line (''[PRIVATE] -> '' @ cstr (GetDisplayNameForSession (c_users (pb_connection p1)) sid) @ '': '' @ cstr t) p1)"

definition pb_status :: "probe_env \<Rightarrow> string \<Rightarrow> probe \<Rightarrow> probe" where
  "pb_status En st p =
     (let p1 = on_connection En (SetLocalUserStatus (pe_L En) (pe_net En) st) p
      in print_line (''*** Status set to '' @ cstr (c_localUserStatus (pb_connection p1)) @ ''.'') p1)"

definition start_probe_download :: "probe_env \<Rightarrow> string \<Rightarrow> bool \<Rightarrow> FileResult \<Rightarrow> UserRecord \<Rightarrow> probe \<Rightarrow> probe" where
  "start_probe_download En directory retain chosen sharer p =
     (let c = pb_connection p;
          d0 = AddRequestedFile (fr_fileName chosen) (fr_path chosen) (fr_fileSize chosen)
                 (SetDlRetainFilePaths retain (SetDlListener True (new_download directory (pb_world p))));
          p1 = print_line (''*** Asking '' @ cstr (GetDisplayName sharer) @ '' at '' @ cstr (u_hostName sharer) @ '':'' @
                 signed_decimal (sint (u_port sharer)) @ '' for '' @ cstr (fr_fileName chosen)) p;
          (status, d1) = Start (pe_dl En) (u_hostName sharer) (ucast (u_port sharer)) (fr_sessionId chosen)
                 (c_localSessionId c) (c_localUserName c) d0;
          p2 = fold (told_download (pe_L En) d1) (dl_events d1) (p1\<lparr>pb_world := dl_world d1\<rparr>);
          p3 = (if status \<noteq> DlOk then print_line ''*** Could not start the download.'' p2 else p2)
      in p3\<lparr>pb_downloads := pb_downloads p3 @ [d1\<lparr>dl_events := []\<rparr>]\<rparr>)"

definition pb_get :: "probe_env \<Rightarrow> string \<Rightarrow> bool \<Rightarrow> string \<Rightarrow> probe \<Rightarrow> probe" where
  "pb_get En directory retain argument p =
     (let index = (ucast (atoi argument) :: uint32)
      in if argument = [] \<or> unat index \<ge> length (pl_results p)
         then print_line ''*** Usage: /get <number from the search results>'' p
         else let chosen = pl_results p ! unat index
              in case FindUser (c_users (pb_connection p)) (fr_sessionId chosen) of
                   None \<Rightarrow> print_line ''*** That user is no longer here.'' p
                 | Some sharer \<Rightarrow>
                     if fr_isFirewalled chosen \<or> sint (u_port sharer) \<le> 0
                     then print_line (''*** '' @ cstr (GetDisplayName sharer) @
                            '' is firewalled; connect-back is not implemented yet.'') p
                     else start_probe_download En directory retain chosen sharer p)"

text \<open>Only when the line has a target that resolves to somebody is the action run.\<close>

definition pb_targets :: "probe_env \<Rightarrow> string \<Rightarrow> (string list \<Rightarrow> probe \<Rightarrow> probe) \<Rightarrow> probe \<Rightarrow> probe" where
  "pb_targets En target act p =
     (let targets = ResolveToSessionIds (pe_L En) (c_users (pb_connection p)) target
      in if targets = [] then print_line (''*** No such user: '' @ cstr target) p else act targets p)"

definition pb_connect :: "probe_env \<Rightarrow> string \<Rightarrow> probe \<Rightarrow> probe" where
  "pb_connect En argument =
     on_connection En (\<lambda>c. snd (if argument \<noteq> [] then ConnectToServer (pe_net En) argument kDefaultServerPort c
       else ConnectToServer (pe_net En) (c_serverAddress c) (c_serverPort c) c))"

definition pb_info :: "probe \<Rightarrow> probe" where
  "pb_info p =
     (let c = pb_connection p
      in print_line (''*** '' @ HITUX_SHARE_NAME @ '' v'' @ HITUX_SHARE_VERSION_STRING @ '', '' @
           cstr (c_serverAddress c) @ '':'' @ decimal (unat (c_serverPort c)) @ '', session '' @
           (if c_localSessionId c \<noteq> [] then cstr (c_localSessionId c) else ''(none)'') @ '', '' @
           udec (of_nat (GetUserCount (c_users c))) @ '' users known.'') p)"

text \<open>The commands that this program has no use for.\<close>

definition pb_unavailable :: "string \<Rightarrow> probe \<Rightarrow> probe" where
  "pb_unavailable name = print_line (''*** /'' @ cstr name @ '' is only available in the GUI.'')"

definition PbHandleUserInput :: "probe_env \<Rightarrow> string \<Rightarrow> bool \<Rightarrow> string \<Rightarrow> probe \<Rightarrow> probe" where
  "PbHandleUserInput En directory retain input p =
     (let command = Parse (pe_L En) input; argument = cmd_argument command; target = cmd_target command;
          L = pe_L En; E = pe_net En
      in case cmd_type command of
           CHAT_COMMAND_NONE \<Rightarrow> say_to_all En False argument p
         | CHAT_COMMAND_ACTION \<Rightarrow> say_to_all En True argument p
         | CHAT_COMMAND_NICK \<Rightarrow>
             if argument = [] then print_line ''*** Usage: /nick <name>'' p
             else print_line (''*** You are now known as '' @ cstr argument @ ''.'')
                    (on_connection En (SetLocalUserName L E argument) p)
         | CHAT_COMMAND_STATUS \<Rightarrow> pb_status En (if argument \<noteq> [] then argument else ''here'') p
         | CHAT_COMMAND_AWAY \<Rightarrow> pb_status En (if argument \<noteq> [] then argument else ''away'') p
         | CHAT_COMMAND_MESSAGE \<Rightarrow>
             if target = [] \<or> argument = [] then print_line ''*** Usage: /msg <user> <text>'' p
             else pb_targets En target (fold (say_to_one En argument)) p
         | CHAT_COMMAND_PING \<Rightarrow>
             if target = [] then print_line ''*** Usage: /ping <user>'' p
             else pb_targets En target (fold (\<lambda>sid. on_connection En (SendPing L E sid))) p
         | CHAT_COMMAND_START_QUERY \<Rightarrow>
             if \<not> IsConnected (pb_connection p) then print_line ''*** Not connected.'' p
             else on_connection En (StartQuery L E ''*'' (if argument \<noteq> [] then argument else ''*'')) p
         | CHAT_COMMAND_STOP_QUERY \<Rightarrow> print_line ''*** Search stopped.'' (on_connection En (StopQuery L E) p)
         | CHAT_COMMAND_GET \<Rightarrow> pb_get En directory retain argument p
         | CHAT_COMMAND_DISCONNECT \<Rightarrow> on_connection En DisconnectFromServer p
         | CHAT_COMMAND_CONNECT \<Rightarrow> pb_connect En argument p
         | CHAT_COMMAND_INFO \<Rightarrow> pb_info p
         | CHAT_COMMAND_CLEAR \<Rightarrow> put_text (CHR 0x1B # ''[2J'' @ CHR 0x1B # ''[H'') p
         | CHAT_COMMAND_HELP \<Rightarrow> PrintHelp p
         | CHAT_COMMAND_QUIT \<Rightarrow> p\<lparr>pl_shouldQuit := True\<rparr>
         | CHAT_COMMAND_UNKNOWN \<Rightarrow>
             print_line (''*** Unknown command \"/'' @ cstr (commandName command) @ ''\". Try /help.'') p
         | _ \<Rightarrow> pb_unavailable (commandName command) p)"

subsection \<open>The program\<close>

definition new_probe :: "probe_env \<Rightarrow> string \<Rightarrow> message \<Rightarrow> world \<Rightarrow> probe" where
  "new_probe En userName settings d =
     (let (installId, settings1) = GetInstallId (pe_settings En) settings;
          c = SetLocalUserStatus (pe_L En) (pe_net En) (GetUserStatus settings1)
                (SetLocalUserName (pe_L En) (pe_net En) userName (SetInstallId installId (SetListener True new_connection)))
      in \<lparr> pl_shouldStartScan = False, pl_lastUploadCount = 0, pl_results = [], pl_resultCount = 0,
           pl_lastProgressTenths = -1, pl_shouldQuit = False, pb_connection = c, pb_downloads = [],
           pb_scanner = new_scanner, pb_uploadServer = SetUpListener True new_server, pb_sharedFiles = [],
           pb_sharedSoFar = 0, pb_world = d, pb_out = [] \<rparr>)"

definition arg_or :: "nat \<Rightarrow> string list \<Rightarrow> string \<Rightarrow> string" where
  "arg_or i args fallback = (if i \<le> length args then args ! (i - 1) else fallback)"

text \<open>
  The start, up to the loop, with the arguments after the program's name: the probe, the folder it shares
  (none is the empty text), and the exit code when it ends here.
\<close>

definition start_probe :: "probe_env \<Rightarrow> string list \<Rightarrow> world \<Rightarrow> probe \<times> string \<times> int option" where
  "start_probe En args d =
     (let settings = snd (Load (pe_settings En) d (new_message 0));
          serverAddress = arg_or 1 args (GetServerAddress settings);
          userName = arg_or 2 args (GetUserName settings);
          serverPort = (if 3 \<le> length args then ucast (atoi (args ! 2)) else GetServerPort settings);
          shareDirectory = (if GetFileSharingEnabled settings then GetShareDirectory (pe_settings En) settings else []);
          p1 = print_line (''Downloads go to '' @ cstr (GetDownloadDirectory (pe_settings En) settings))
                 (print_line ''Type /help for commands, /quit to exit.''
                   (print_line (HITUX_SHARE_NAME @ '' probe v'' @ HITUX_SHARE_VERSION_STRING @ '' -- connecting to '' @
                      cstr serverAddress @ '':'' @ decimal (unat serverPort) @ '' as \"'' @ cstr userName @ ''\"'')
                    (new_probe En userName settings d)));
          p2 = (if shareDirectory \<noteq> [] then print_line (''Sharing from '' @ cstr shareDirectory) p1 else p1);
          p3 = on_connection En (\<lambda>c. snd (ConnectToServer (pe_net En) serverAddress serverPort c)) p2
      in if fst (ConnectToServer (pe_net En) serverAddress serverPort (pb_connection p2)) \<noteq> B_NO_ERROR
         then (print_line ''*** Could not start the connection.'' p3, shareDirectory, Some 10)
         else (p3, shareDirectory, None))"

definition start_sharing :: "probe_env \<Rightarrow> string \<Rightarrow> probe \<Rightarrow> probe" where
  "start_sharing En shareDirectory p =
     (if \<not> (pl_shouldStartScan p \<and> shareDirectory \<noteq> []) then p
      else let p1 = p\<lparr>pl_shouldStartScan := False\<rparr>;
               listenPort = fst (StartListening (pe_up En) kDefaultTransferPort kTransferPortRange (pb_uploadServer p1));
               p2 = on_upload_server (\<lambda>s. snd (StartListening (pe_up En) kDefaultTransferPort kTransferPortRange s)) p1;
               p3 = (if listenPort > 0
                     then on_connection En (SetAdvertisedPort (pe_L En) (pe_net En) (ucast listenPort))
                            (on_upload_server (SetLocalIdentity (c_localSessionId (pb_connection p2)) (c_localUserName (pb_connection p2)))
                              (print_line (''*** Accepting downloads on port '' @ decimal (unat listenPort)) p2))
                     else print_line ''*** Could not listen on any port; sharing read-only.'' p2);
               p4 = print_line (''*** Sharing '' @ cstr shareDirectory) p3
           in p4\<lparr>pb_scanner := StartScan (pe_L En) (pe_scan En) (pe_scanCreated En)
                               (SetShareDirectory shareDirectory (pb_scanner p4))\<rparr>)"

definition publish_found :: "probe_env \<Rightarrow> probe \<Rightarrow> probe" where
  "publish_found En p =
     (case TakeDiscoveredFiles (pb_scanner p) of (discovered, scanner1) \<Rightarrow>
        let p1 = p\<lparr>pb_scanner := scanner1\<rparr>
        in if discovered = [] then p1
           else let p2 = on_connection En (PublishSharedFiles (pe_L En) (pe_net En) discovered) p1;
                    p3 = p2\<lparr>pb_sharedFiles := fold (\<lambda>f. ht_put (sf_fileName f) f) discovered (pb_sharedFiles p2)\<rparr>;
                    p4 = on_upload_server (SetSharedFiles (pb_sharedFiles p3)) p3
                in p4\<lparr>pb_sharedSoFar := pb_sharedSoFar p4 + of_nat (length discovered)\<rparr>)"

definition report_finished :: "probe_env \<Rightarrow> probe \<Rightarrow> probe" where
  "report_finished En p =
     (case TakeScanFinished (pb_scanner p) of (finished, scanner1) \<Rightarrow>
        let p1 = p\<lparr>pb_scanner := scanner1\<rparr>
        in if \<not> finished then p1
           else let p2 = on_connection En (PublishSharedFileCount (pe_L En) (pe_net En) (pb_sharedSoFar p1)) p1;
                    duplicates = GetDuplicateNameCount (pb_scanner p2)
                in print_line (''*** Sharing '' @ udec (pb_sharedSoFar p2) @ '' file(s)'' @
                     (if duplicates > 0
                      then ''; '' @ udec duplicates @ '' skipped for having a name another file already used'' else []) @
                     ''.'') p2)"

text \<open>What the sockets deliver while the loop waits.\<close>

datatype probe_traffic =
    FromServer conn_op | FromPeers up_op | DownloadTold dl_event download | ScannerRan "ShareScanner \<Rightarrow> ShareScanner"

fun dispatched :: "probe_env \<Rightarrow> probe_traffic \<Rightarrow> probe \<Rightarrow> probe" where
  "dispatched En (FromServer op) p =
     (if is_callback op then on_connection En (run_op (pe_L En) (pe_net En) op) p else p)"
| "dispatched En (FromPeers op) p = on_upload_server (run_up (pe_L En) (pe_up En) op) p"
| "dispatched En (DownloadTold ev d) p = told_download (pe_L En) d ev p"
| "dispatched En (ScannerRan f) p = p\<lparr>pb_scanner := f (pb_scanner p)\<rparr>"

text \<open>One round of the loop, and the loop, over the rounds that happen.\<close>

definition probe_round :: "probe_env \<Rightarrow> string \<Rightarrow> bool \<Rightarrow> string \<Rightarrow> probe_traffic list \<times> string list \<Rightarrow> probe \<Rightarrow> probe" where
  "probe_round En directory retain shareDirectory r p =
     (case r of (traffic, input_lines) \<Rightarrow>
        let p1 = fold (PbHandleUserInput En directory retain) input_lines (fold (dispatched En) traffic p);
            p2 = on_connection En (PerformIdleTasks (pe_L En) (pe_net En)) p1
        in report_finished En (publish_found En (start_sharing En shareDirectory p2)))"

primrec probe_loop ::
  "probe_env \<Rightarrow> string \<Rightarrow> bool \<Rightarrow> string \<Rightarrow> (probe_traffic list \<times> string list) list \<Rightarrow> probe \<Rightarrow> probe" where
  "probe_loop En directory retain shareDirectory [] p = p"
| "probe_loop En directory retain shareDirectory (r # rs) p =
     (if pl_shouldQuit p then p
      else probe_loop En directory retain shareDirectory rs (probe_round En directory retain shareDirectory r p))"

text \<open>The end: the downloads are destroyed, which stops their threads and closes their files.\<close>

definition stop_probe :: "probe_env \<Rightarrow> probe \<Rightarrow> probe" where
  "stop_probe En p = print_line ''*** Goodbye.'' ((on_connection En DisconnectFromServer p)\<lparr>pb_downloads := []\<rparr>)"

subsection \<open>Frames\<close>

lemma put_text_simps [simp]:
  "pb_connection (put_text t p) = pb_connection p" "pb_out (put_text t p) = pb_out p @ t"
  "pl_results (put_text t p) = pl_results p" "pb_sharedSoFar (put_text t p) = pb_sharedSoFar p"
  "pb_sharedFiles (put_text t p) = pb_sharedFiles p" "pb_scanner (put_text t p) = pb_scanner p"
  "pb_uploadServer (put_text t p) = pb_uploadServer p"
  by (simp_all add: put_text_def)

lemma print_line_simps [simp]:
  "pb_connection (print_line t p) = pb_connection p" "pb_out (print_line t p) = pb_out p @ t @ [CHR 0x0A]"
  "pl_results (print_line t p) = pl_results p" "pb_sharedSoFar (print_line t p) = pb_sharedSoFar p"
  "pb_sharedFiles (print_line t p) = pb_sharedFiles p" "pb_scanner (print_line t p) = pb_scanner p"
  "pb_uploadServer (print_line t p) = pb_uploadServer p"
  by (simp_all add: print_line_def)

lemma told_simps [simp]:
  "pb_connection (told L ev p) = pb_connection p" "pb_sharedSoFar (told L ev p) = pb_sharedSoFar p"
  "pb_sharedFiles (told L ev p) = pb_sharedFiles p" "pb_scanner (told L ev p) = pb_scanner p"
  "pb_uploadServer (told L ev p) = pb_uploadServer p"
  by (cases ev; simp add: PbConnectionStateChanged_def PbLocalSessionIdAssigned_def PbUserUpdated_def PbUserLeft_def
      PbChatMessageReceived_def PbQueryResultAdded_def PbQueryResultRemoved_def PbQueryResultsCleared_def
      PbQuerySweepStateChanged_def PbPingReplyReceived_def Let_def)+

lemma told_upload_simps [simp]:
  "pb_connection (told_upload ue p) = pb_connection p" "pb_sharedSoFar (told_upload ue p) = pb_sharedSoFar p"
  "pb_sharedFiles (told_upload ue p) = pb_sharedFiles p" "pb_scanner (told_upload ue p) = pb_scanner p"
  by (cases ue; simp add: PbUploadsChanged_def PbUploadReport_def Let_def)+

lemma told_download_connection [simp]: "pb_connection (told_download L d ev p) = pb_connection p"
  by (cases ev; cases "dl_state d";
      simp add: PbDownloadStateChanged_def PbDownloadProgress_def PbDownloadFileCompleted_def Let_def)

lemma fold_frame: "(\<And>x p. g (f x p) = g p) \<Longrightarrow> g (fold f xs p) = g p"
  by (induction xs arbitrary: p) simp_all

lemma on_connection_simps [simp]:
  "pb_connection (on_connection En f p) = f (pb_connection p)" "pb_sharedSoFar (on_connection En f p) = pb_sharedSoFar p"
  "pb_sharedFiles (on_connection En f p) = pb_sharedFiles p" "pb_scanner (on_connection En f p) = pb_scanner p"
  by (simp_all add: on_connection_def Let_def fold_frame [where g = pb_connection] fold_frame [where g = pb_sharedSoFar]
      fold_frame [where g = pb_sharedFiles] fold_frame [where g = pb_scanner])

lemma on_upload_server_simps [simp]:
  "pb_connection (on_upload_server f p) = pb_connection p" "pb_sharedSoFar (on_upload_server f p) = pb_sharedSoFar p"
  "pb_sharedFiles (on_upload_server f p) = pb_sharedFiles p" "pb_scanner (on_upload_server f p) = pb_scanner p"
  by (simp_all add: on_upload_server_def Let_def fold_frame [where g = pb_connection] fold_frame [where g = pb_sharedSoFar]
      fold_frame [where g = pb_sharedFiles] fold_frame [where g = pb_scanner])

subsection \<open>Offline\<close>

lemma quiet_calls:
  assumes "\<not> IsConnected c"
  shows "c_out (SendChatText L E to t c) = c_out c" "c_out (SetLocalUserName L E n c) = c_out c"
    "c_out (SetLocalUserStatus L E st c) = c_out c" "c_out (SendPing L E to c) = c_out c"
    "c_out (StopQuery L E c) = c_out c" "c_out (DisconnectFromServer c) = c_out c"
    "c_out (snd (ConnectToServer E h pt c)) = c_out c" "c_out (PerformIdleTasks L E c) = c_out c"
  using assms silent_unless_connected [of c "OpSendChat to t" L E] silent_unless_connected [of c "OpSetName n" L E]
    silent_unless_connected [of c "OpSetStatus st" L E] silent_unless_connected [of c "OpSendPing to" L E]
    silent_unless_connected [of c OpStopQuery L E] silent_unless_connected [of c OpDisconnect L E]
    silent_unless_connected [of c "OpConnect h pt" L E] silent_unless_connected [of c OpIdle L E]
  by simp_all

lemma still_offline:
  assumes "\<not> IsConnected c"
  shows "SendChatText L E to t c = c" "SendPing L E to c = c"
  using assms by (simp_all add: SendChatText_def SendPing_def)

text \<open>
  Nothing that is typed while the connection is not up reaches the network: whatever the line is, a chat
  text, a private message, a search, a new name, an unknown command or a reconnection, no message is sent.
\<close>

theorem offline_line_sends_nothing:
  assumes "\<not> IsConnected (pb_connection p)"
  shows "c_out (pb_connection (PbHandleUserInput En directory retain input p)) = c_out (pb_connection p)"
proof -
  have one: "c_out (pb_connection (fold (say_to_one En t) sids p)) = c_out (pb_connection p)"
    if "\<not> IsConnected (pb_connection p)" for t sids p
    using that by (induction sids arbitrary: p) (simp_all add: say_to_one_def still_offline Let_def)
  have ping: "c_out (pb_connection (fold (\<lambda>sid. on_connection En (SendPing L E sid)) sids p)) = c_out (pb_connection p)"
    if "\<not> IsConnected (pb_connection p)" for L E sids p
    using that by (induction sids arbitrary: p) (simp_all add: still_offline)
  have helped: "pb_connection (PrintHelp p) = pb_connection p"
    by (simp add: PrintHelp_def split_beta fold_frame [where g = pb_connection])
  have get: "pb_connection (pb_get En directory retain argument p) = pb_connection p" for argument
    by (auto simp: pb_get_def start_probe_download_def Let_def fold_frame [where g = pb_connection] split: option.split prod.split)
  show ?thesis
    using assms quiet_calls [OF assms] one ping helped get
    by (cases "cmd_type (Parse (pe_L En) input)")
      (simp_all add: PbHandleUserInput_def say_to_all_def pb_status_def pb_targets_def pb_connect_def pb_info_def pb_unavailable_def Let_def)
qed

text \<open>A probe to try things on: connected, with one user who shares.\<close>

definition demo_probe_env :: probe_env where
  "demo_probe_env = \<lparr> pe_L = ref_muscle, pe_net = demo_net, pe_dl = \<lparr> start_dl_thread = None, connect_peer = (\<lambda>_ _. None) \<rparr>,
     pe_up = demo_up_env, pe_scan = demo_env, pe_scanCreated = True,
     pe_settings = \<lparr> getenv = (\<lambda>_. None), random64 = 77, FlattenToDataIO = (\<lambda>_. []), UnflattenFromDataIO = (\<lambda>_ _ m. (False, m)) \<rparr> \<rparr>"

definition demo_probe :: probe where
  "demo_probe = (new_probe demo_probe_env ''ann'' (new_message 0) demo_world)\<lparr>pb_connection := (demo_conn ''7'')
     \<lparr>c_users := [(''8'', empty_user\<lparr>u_sessionId := ''8'', u_userName := ''bob'', u_hostName := ''h'', u_port := 7000\<rparr>)]\<rparr>\<rparr>"

theorem offline_line_sends_nothing_witness:
  "c_out (pb_connection (PbHandleUserInput demo_probe_env ''/d'' False ''/msg bob hi''
     (new_probe demo_probe_env ''ann'' (new_message 0) demo_world))) = []"
proof -
  let ?p = "new_probe demo_probe_env ''ann'' (new_message 0) demo_world"
  have "\<not> IsConnected (pb_connection ?p)" "c_out (pb_connection ?p) = []" by code_simp+
  then show ?thesis using offline_line_sends_nothing by simp
qed

subsection \<open>Results by number\<close>

lemma digits_value_append:
  "list_all digit s \<Longrightarrow> digits_value acc (s @ t) = digits_value (digits_value acc s) t"
  by (induction s arbitrary: acc) simp_all

lemma digits_value_decimal: "digits_value 0 (decimal n) = int n"
proof (induction n rule: decimal.induct)
  case (1 n)
  have d: "digit (char_of (48 + k))" "int (of_char (char_of (48 + k) :: char)) = 48 + int k" if "k < 10" for k :: nat
    using that by (simp_all add: digit_def)
  show ?case
  proof (cases "n < 10")
    case True
    then show ?thesis using d [of n] by (subst decimal.simps) simp
  next
    case False
    have "digits_value 0 (decimal n) = digits_value (int (n div 10)) [char_of (48 + n mod 10)]"
      using False 1 decimal_digits [of "n div 10"] by (subst decimal.simps) (simp add: digits_value_append)
    also have "\<dots> = int (n div 10) * 10 + int (n mod 10)" using d [of "n mod 10"] by simp
    also have "\<dots> = int n" by (metis div_mult_mod_eq mult.commute of_nat_add of_nat_mult of_nat_numeral)
    finally show ?thesis .
  qed
qed

lemma decimal_clean: "cstr (decimal n) = decimal n" "dropWhile c_space (decimal n) = decimal n"
  "hd (decimal n) \<noteq> CHR ''-''" "hd (decimal n) \<noteq> CHR ''+''" "decimal n \<noteq> []"
proof -
  have ne: "decimal n \<noteq> []" by (subst decimal.simps) simp
  have dig: "digit c" if "c \<in> set (decimal n)" for c using decimal_digits that by (auto simp: list_all_iff)
  then have "digit (hd (decimal n))" using ne by simp
  moreover have "c \<noteq> CHR 0x00" if "digit c" for c using that by (auto simp: digit_def)
  ultimately show "cstr (decimal n) = decimal n" "hd (decimal n) \<noteq> CHR ''-''" "hd (decimal n) \<noteq> CHR ''+''"
    using dig by (auto simp: cstr_def takeWhile_eq_all_conv digit_def)
  have "\<not> c_space (hd (decimal n))" using \<open>digit (hd (decimal n))\<close> by (auto simp: c_space_def digit_def)
  then show "dropWhile c_space (decimal n) = decimal n" using ne by (cases "decimal n") auto
  show "decimal n \<noteq> []" by (rule ne)
qed

lemma atoi_decimal:
  assumes "n < 2 ^ 31"
  shows "unat (ucast (atoi (decimal n)) :: uint32) = n"
proof -
  have "strtol (decimal n) = int n"
    using decimal_clean(2-5) [of n] digits_value_decimal [of n] assms
    by (cases "decimal n") (auto simp: strtol_def)
  then show ?thesis using assms by (simp add: atoi_def decimal_clean(1) unsigned_ucast_eq unsigned_of_nat take_bit_nat_eq_self)
qed

text \<open>
  C33. A number stands for the result it was printed with: after a search was cleared and any results came in,
  the lines show them in order, numbered from zero, and \<open>/get\<close> with the number of one of them starts the
  download of that very file from its sharer.
\<close>

theorem results_by_number:
  assumes "i < length rs" "length rs < 2 ^ 31"
    and "FindUser (c_users (pb_connection p)) (fr_sessionId (rs ! i)) = Some sharer"
    and "\<not> fr_isFirewalled (rs ! i)" "sint (u_port sharer) > 0"
  shows "let p1 = fold (told (pe_L En)) (map QueryResultAdded rs) (told (pe_L En) QueryResultsCleared p) in
    pb_out p1 = pb_out p @ concat (map (\<lambda>j. result_line (pe_L En) (c_users (pb_connection p)) (of_nat j) (rs ! j) @ [CHR 0x0A])
      [0..<length rs]) \<and>
    pb_get En directory retain (decimal i) p1 = start_probe_download En directory retain (rs ! i) sharer p1"
proof -
  let ?p0 = "told (pe_L En) QueryResultsCleared p"
  have run: "pl_results (fold (told (pe_L En)) (map QueryResultAdded rs) ?p0) = rs \<and>
      pb_connection (fold (told (pe_L En)) (map QueryResultAdded rs) ?p0) = pb_connection p \<and>
      pb_out (fold (told (pe_L En)) (map QueryResultAdded rs) ?p0) =
        pb_out p @ concat (map (\<lambda>j. result_line (pe_L En) (c_users (pb_connection p)) (of_nat j) (rs ! j) @ [CHR 0x0A]) [0..<length rs])"
    for rs
  proof (induction rs rule: rev_induct)
    case Nil
    then show ?case by (simp add: PbQueryResultsCleared_def)
  next
    case (snoc r rs)
    have "concat (map (\<lambda>j. f j ((rs @ [r]) ! j)) [0..<length rs]) = concat (map (\<lambda>j. f j (rs ! j)) [0..<length rs])"
      for f :: "nat \<Rightarrow> FileResult \<Rightarrow> string"
      by (rule arg_cong [where f = concat]) (simp add: nth_append)
    from this [of "\<lambda>j x. result_line (pe_L En) (c_users (pb_connection p)) (of_nat j) x @ [CHR 0x0A]"] snoc
    show ?case by (simp add: PbQueryResultAdded_def Let_def)
  qed
  have "unat (ucast (atoi (decimal i)) :: uint32) = i" using assms(1,2) by (intro atoi_decimal) simp
  then show ?thesis
    using run [of rs] assms(1,3-5) decimal_clean(5) by (simp add: pb_get_def Let_def)
qed

text \<open>
  \<open>/get\<close> followed by something that is no number downloads a file: \<open>atoi\<close> answers zero, which is the number
  of the first result.
\<close>

theorem get_takes_first_result:
  assumes "argument \<noteq> []" "\<not> digit (hd argument)" "hd argument \<notin> set ''-+''" "\<not> c_space (hd argument)"
    and "pl_results p \<noteq> []" "FindUser (c_users (pb_connection p)) (fr_sessionId (hd (pl_results p))) = Some sharer"
    and "\<not> fr_isFirewalled (hd (pl_results p))" "sint (u_port sharer) > 0"
  shows "pb_get En directory retain argument p = start_probe_download En directory retain (hd (pl_results p)) sharer p"
proof -
  have "strtol (cstr argument) = 0"
    using assms(1-4) by (cases argument) (auto simp: strtol_def cstr_def)
  then show ?thesis using assms(1,5-8) by (simp add: pb_get_def atoi_def hd_conv_nth Let_def)
qed

definition demo_found :: "string \<Rightarrow> FileResult" where
  "demo_found name = \<lparr> fr_sessionId = ''8'', fr_fileName = name, fr_path = [], fr_kind = [], fr_fileSize = 9,
     fr_modificationTime = 0, fr_isFirewalled = False, fr_attributes = new_message 0 \<rparr>"

theorem results_by_number_witness:
  "let p1 = fold (told ref_muscle) (map QueryResultAdded [demo_found ''a'', demo_found ''b'']) (told ref_muscle QueryResultsCleared demo_probe)
   in pb_get demo_probe_env ''/d'' False ''1'' p1 =
        start_probe_download demo_probe_env ''/d'' False (demo_found ''b'')
          (empty_user\<lparr>u_sessionId := ''8'', u_userName := ''bob'', u_hostName := ''h'', u_port := 7000\<rparr>) p1"
proof -
  have user: "FindUser (c_users (pb_connection demo_probe)) (fr_sessionId ([demo_found ''a'', demo_found ''b''] ! 1)) =
      Some (empty_user\<lparr>u_sessionId := ''8'', u_userName := ''bob'', u_hostName := ''h'', u_port := 7000\<rparr>)"
    "\<not> fr_isFirewalled ([demo_found ''a'', demo_found ''b''] ! 1)" "decimal 1 = ''1''"
    by code_simp+
  have "pe_L demo_probe_env = ref_muscle" by (simp add: demo_probe_env_def)
  note user = user this
  show ?thesis
    using results_by_number [OF _ _ user(1,2), of demo_probe_env "''/d''" False] by (simp add: Let_def user(4) user(3) [unfolded One_nat_def])
qed

theorem get_takes_first_result_witness:
  "let p1 = demo_probe\<lparr>pl_results := [demo_found ''a'', demo_found ''b'']\<rparr>
   in pb_get demo_probe_env ''/d'' False ''readme'' p1 =
        start_probe_download demo_probe_env ''/d'' False (demo_found ''a'')
          (empty_user\<lparr>u_sessionId := ''8'', u_userName := ''bob'', u_hostName := ''h'', u_port := 7000\<rparr>) p1"
proof -
  let ?p1 = "demo_probe\<lparr>pl_results := [demo_found ''a'', demo_found ''b'']\<rparr>"
  have facts: "\<not> digit (hd ''readme'')" "hd ''readme'' \<notin> set ''-+''" "\<not> c_space (hd ''readme'')"
    "FindUser (c_users (pb_connection ?p1)) (fr_sessionId (hd (pl_results ?p1))) =
      Some (empty_user\<lparr>u_sessionId := ''8'', u_userName := ''bob'', u_hostName := ''h'', u_port := 7000\<rparr>)"
    "\<not> fr_isFirewalled (hd (pl_results ?p1))"
    by code_simp+
  show ?thesis
    using get_takes_first_result [OF _ facts(1-3) _ facts(4,5), of demo_probe_env "''/d''" False] by (simp add: Let_def)
qed

subsection \<open>Sharing again\<close>

text \<open>A scan that has found some files and is over.\<close>

definition scanned :: "SharedFile list \<Rightarrow> probe \<Rightarrow> probe" where
  "scanned ps p = p\<lparr>pb_scanner := (pb_scanner p)\<lparr>fPendingFiles := ps, fScanFinished := True\<rparr>\<rparr>"

text \<open>A session from the moment the server assigns its ID to the end of its scan.\<close>

definition shared_session :: "probe_env \<Rightarrow> string \<Rightarrow> SharedFile list \<Rightarrow> string \<Rightarrow> probe \<Rightarrow> probe" where
  "shared_session En shareDirectory ps sid p =
     report_finished En (publish_found En (scanned ps (start_sharing En shareDirectory (told (pe_L En) (LocalSessionIdAssigned sid []) p))))"

lemma start_sharing_keeps:
  "pb_sharedSoFar (start_sharing En d p) = pb_sharedSoFar p" "pb_sharedFiles (start_sharing En d p) = pb_sharedFiles p"
  by (auto simp: start_sharing_def Let_def)

lemma session_shares:
  assumes "ps \<noteq> []"
  shows "pb_sharedSoFar (shared_session En d ps sid p) = pb_sharedSoFar p + of_nat (length ps)"
    "pb_sharedFiles (shared_session En d ps sid p) = fold (\<lambda>f. ht_put (sf_fileName f) f) ps (pb_sharedFiles p)"
    "pb_connection (shared_session En d ps sid p) =
       PublishSharedFileCount (pe_L En) (pe_net En) (pb_sharedSoFar p + of_nat (length ps))
         (pb_connection (publish_found En (scanned ps (start_sharing En d (told (pe_L En) (LocalSessionIdAssigned sid []) p)))))"
    "\<exists>seen rest. pb_out (shared_session En d ps sid p) =
       seen @ ''*** Sharing '' @ udec (pb_sharedSoFar p + of_nat (length ps)) @ '' file(s)'' @ rest"
proof -
  define q where "q = scanned ps (start_sharing En d (told (pe_L En) (LocalSessionIdAssigned sid []) p))"
  have q: "fPendingFiles (pb_scanner q) = ps" "fScanFinished (pb_scanner q)" "pb_sharedSoFar q = pb_sharedSoFar p"
    "pb_sharedFiles q = pb_sharedFiles p"
    by (simp_all add: q_def scanned_def start_sharing_keeps del: told.simps)
  define r where "r = publish_found En q"
  have r: "pb_sharedSoFar r = pb_sharedSoFar p + of_nat (length ps)" "fScanFinished (pb_scanner r)"
    "pb_sharedFiles r = fold (\<lambda>f. ht_put (sf_fileName f) f) ps (pb_sharedFiles p)"
    using q assms by (simp_all add: r_def publish_found_def TakeDiscoveredFiles_def Let_def)
  have s: "shared_session En d ps sid p = report_finished En r"
    by (simp add: shared_session_def r_def q_def)
  show "pb_sharedSoFar (shared_session En d ps sid p) = pb_sharedSoFar p + of_nat (length ps)"
    "pb_sharedFiles (shared_session En d ps sid p) = fold (\<lambda>f. ht_put (sf_fileName f) f) ps (pb_sharedFiles p)"
    using r by (simp_all add: s report_finished_def TakeScanFinished_def Let_def)
  show "pb_connection (shared_session En d ps sid p) =
       PublishSharedFileCount (pe_L En) (pe_net En) (pb_sharedSoFar p + of_nat (length ps))
         (pb_connection (publish_found En (scanned ps (start_sharing En d (told (pe_L En) (LocalSessionIdAssigned sid []) p)))))"
    using r unfolding s q_def [symmetric] r_def [symmetric] by (simp add: report_finished_def TakeScanFinished_def Let_def)
  show "\<exists>seen rest. pb_out (shared_session En d ps sid p) =
      seen @ ''*** Sharing '' @ udec (pb_sharedSoFar p + of_nat (length ps)) @ '' file(s)'' @ rest"
    using r unfolding s report_finished_def TakeScanFinished_def Let_def
    by (simp add: print_line_def put_text_def) (metis append.assoc)
qed

lemma session_connected:
  "IsConnected (pb_connection (shared_session En d ps sid p)) = IsConnected (pb_connection p)"
  by (simp add: shared_session_def report_finished_def publish_found_def scanned_def start_sharing_def Let_def
      TakeDiscoveredFiles_def TakeScanFinished_def PublishSharedFiles_def publish_loop_connected
      PublishSharedFileCount_def SetDataNodeValue_def SendToServer_def SetAdvertisedPort_def PublishLocalUserName_def
      read_clock_def PbLocalSessionIdAssigned_def)

lemma count_sent:
  "IsConnected (PublishSharedFileCount L E n c) \<Longrightarrow> \<forall>m. accepts E m \<Longrightarrow>
     last (c_out (PublishSharedFileCount L E n c)) = add_message (new_message (PR_COMMAND_SETDATA L)) BESHARE_NODE_FILE_COUNT
       (add_int32 (new_message 0) BESHARE_FIELD_FILE_COUNT n)"
  by (auto simp: PublishSharedFileCount_def SetDataNodeValue_def Send_out)

lemma named_files:
  "ht_ok t \<Longrightarrow> ht_ok (fold (\<lambda>f. ht_put (sf_fileName f) f) ps t) \<and>
     fst ` set (fold (\<lambda>f. ht_put (sf_fileName f) f) ps t) = fst ` set t \<union> sf_fileName ` set ps"
  by (induction ps arbitrary: t) (auto simp: image_iff)

lemma ht_length: "ht_ok t \<Longrightarrow> length t = card (fst ` set t)"
  by (metis distinct_card ht_ok_def length_map set_map)

text \<open>
  C40. Every session counts the share again: the files are kept by name, but the running total of the files found
  is never set back, so after the second session the server is told, and the user sees, twice the number of
  files there are.
\<close>

theorem reconnecting_counts_twice:
  assumes "ps \<noteq> []" "distinct (map sf_fileName ps)" "pb_sharedSoFar p = 0" "pb_sharedFiles p = []"
    and "IsConnected (pb_connection p)" "\<forall>m. accepts (pe_net En) m"
  shows "let p2 = shared_session En d ps sid2 (shared_session En d ps sid1 p) in
    length (pb_sharedFiles p2) = length ps \<and> pb_sharedSoFar p2 = 2 * of_nat (length ps) \<and>
    (\<exists>seen rest. pb_out p2 = seen @ ''*** Sharing '' @ udec (2 * of_nat (length ps)) @ '' file(s)'' @ rest) \<and>
    last (c_out (pb_connection p2)) = add_message (new_message (PR_COMMAND_SETDATA (pe_L En))) BESHARE_NODE_FILE_COUNT
      (add_int32 (new_message 0) BESHARE_FIELD_FILE_COUNT (2 * of_nat (length ps)))"
proof -
  let ?p1 = "shared_session En d ps sid1 p" and ?p2 = "shared_session En d ps sid2 (shared_session En d ps sid1 p)"
  have "pb_sharedSoFar ?p1 = of_nat (length ps)" using session_shares(1) [OF assms(1)] assms(3) by simp
  then have two: "pb_sharedSoFar ?p1 + of_nat (length ps) = 2 * of_nat (length ps)" by simp
  have "pb_sharedFiles ?p2 = fold (\<lambda>f. ht_put (sf_fileName f) f) ps (fold (\<lambda>f. ht_put (sf_fileName f) f) ps [])"
    using session_shares(2) [OF assms(1)] assms(4) by simp
  then have "ht_ok (pb_sharedFiles ?p2)" "fst ` set (pb_sharedFiles ?p2) = sf_fileName ` set ps"
    using named_files [of "[]" ps] named_files [of "fold (\<lambda>f. ht_put (sf_fileName f) f) ps []" ps] by auto
  then have "length (pb_sharedFiles ?p2) = length ps"
    using ht_length assms(2) by (metis distinct_card length_map set_map)
  then show ?thesis
    using session_shares(1,3,4) [OF assms(1), of En d sid2 ?p1] two assms(5,6)
      count_sent [of _ "pe_net En"] session_connected [of En d ps sid2 ?p1] session_connected [of En d ps sid1 p]
    unfolding Let_def by auto
qed

theorem reconnecting_counts_twice_witness:
  "let p2 = shared_session demo_probe_env ''/s'' [demo_shared] ''9'' (shared_session demo_probe_env ''/s'' [demo_shared] ''8'' demo_probe)
   in length (pb_sharedFiles p2) = 1 \<and> pb_sharedSoFar p2 = 2 \<and>
     find_int32 (add_int32 (new_message 0) BESHARE_FIELD_FILE_COUNT 2) BESHARE_FIELD_FILE_COUNT = Some 2 \<and>
     last (c_out (pb_connection p2)) = add_message (new_message (PR_COMMAND_SETDATA ref_muscle)) BESHARE_NODE_FILE_COUNT
       (add_int32 (new_message 0) BESHARE_FIELD_FILE_COUNT 2)"
proof -
  have "pb_sharedSoFar demo_probe = 0" "pb_sharedFiles demo_probe = []" by (simp_all add: demo_probe_def new_probe_def split: prod.split)
  moreover have "IsConnected (pb_connection demo_probe)"
    "find_int32 (add_int32 (new_message 0) BESHARE_FIELD_FILE_COUNT 2) BESHARE_FIELD_FILE_COUNT = Some 2" by code_simp+
  moreover have "accepts (pe_net demo_probe_env) m" "pe_L demo_probe_env = ref_muscle" for m by (simp_all add: demo_probe_env_def)
  ultimately show ?thesis
    using reconnecting_counts_twice [of "[demo_shared]" demo_probe demo_probe_env "''/s''" "''9''" "''8''"]
    by (simp add: Let_def)
qed

end
