(* ===== verification/EndToEnd.thy ===== *)
theory EndToEnd
  imports FileTransfer Publishing ManagerLaws
begin

section \<open>From a search result to the file on disk\<close>

text \<open>
  Two clients and everything between them: the sharer's published file, the seeker's running query, its
  download manager, the session between the two and the sharer's upload server. The lemmas carry what single
  downloads and the server do to the manager that owns the download and to a peer that has just connected.
\<close>

subsection \<open>A download in its manager\<close>

text \<open>While nothing waits, hearing of a download changes nothing but the log of the manager.\<close>

lemma heard:
  assumes "dm_queuedStarts m = []"
  shows "\<exists>log. fold (deliver (StartNextQueuedDownload E) a) evs m = m\<lparr>dm_events := dm_events m @ log\<rparr> \<and>
    (dm_listener m \<longrightarrow> evs \<noteq> [] \<longrightarrow> last evs = DlFileCompleted p \<longrightarrow>
       last (dm_events m @ log) = DownloadReport LOG_INFORMATION_MESSAGE (''Finished downloading '' @ p))"
proof -
  have one: "\<exists>log. deliver (StartNextQueuedDownload E) a ev x = x\<lparr>dm_events := dm_events x @ log\<rparr> \<and>
      (dm_listener x \<longrightarrow> ev = DlFileCompleted p \<longrightarrow>
         log \<noteq> [] \<and> last log = DownloadReport LOG_INFORMATION_MESSAGE (''Finished downloading '' @ p))"
    if "dm_queuedStarts x = []" for ev x
  proof -
    have idle: "StartNextQueuedDownload E y = y" if "dm_queuedStarts y = []" for y
      using that by (rule StartNext_empty)
    have n: "\<exists>log. dm_notify e y = y\<lparr>dm_events := dm_events y @ log\<rparr>" for e y
      by (cases "dm_listener y") (auto simp: dm_notify_def intro: exI [of _ "[]"])
    show ?thesis
    proof (cases ev)
      case (DlStateChanged st reason)
      show ?thesis
        using that idle n unfolding DlStateChanged
        by (auto simp: DownloadStateChanged_def dm_notify_def Let_def split: option.splits intro: exI [of _ "[]"])
    qed (use that n in \<open>auto simp: DownloadProgress_def DownloadFileCompleted_def dm_notify_def split: option.splits
           intro: exI [of _ "[]"]\<close>)
  qed
  show ?thesis
    using assms
  proof (induction evs arbitrary: m)
    case Nil
    then show ?case by (intro exI [of _ "[]"]) simp
  next
    case (Cons ev evs)
    obtain log where l: "deliver (StartNextQueuedDownload E) a ev m = m\<lparr>dm_events := dm_events m @ log\<rparr>"
      "dm_listener m \<longrightarrow> ev = DlFileCompleted p \<longrightarrow>
         log \<noteq> [] \<and> last log = DownloadReport LOG_INFORMATION_MESSAGE (''Finished downloading '' @ p)"
      using one [OF Cons.prems] by blast
    obtain log' where l': "fold (deliver (StartNextQueuedDownload E) a) evs (m\<lparr>dm_events := dm_events m @ log\<rparr>) =
        m\<lparr>dm_events := (dm_events m @ log) @ log'\<rparr>"
      "dm_listener m \<longrightarrow> evs \<noteq> [] \<longrightarrow> last evs = DlFileCompleted p \<longrightarrow>
         last ((dm_events m @ log) @ log') = DownloadReport LOG_INFORMATION_MESSAGE (''Finished downloading '' @ p)"
      using Cons.IH [of "m\<lparr>dm_events := dm_events m @ log\<rparr>"] Cons.prems by auto
    have "log' = []" if "evs = []"
    proof -
      have "m\<lparr>dm_events := dm_events m @ log\<rparr> = m\<lparr>dm_events := (dm_events m @ log) @ log'\<rparr>" using l'(1) that by simp
      then have "dm_events (m\<lparr>dm_events := dm_events m @ log\<rparr>) = dm_events (m\<lparr>dm_events := (dm_events m @ log) @ log'\<rparr>)"
        by (rule arg_cong)
      then show ?thesis by simp
    qed
    then show ?case using l l' by (intro exI [of _ "log @ log'"]) (cases "evs = []", auto)
  qed
qed

definition in_manager :: "nat \<Rightarrow> download_manager \<Rightarrow> download \<Rightarrow> bool" where
  "in_manager a m d \<longleftrightarrow> (\<exists>d0. map_of (dm_downloads m) a = Some d0 \<and> d = d0\<lparr>dl_world := dm_world m, dl_events := []\<rparr>) \<and>
     dm_queuedStarts m = [] \<and> is_running d"

lemma in_manager_fields: "in_manager a m d \<Longrightarrow> dl_world d = dm_world m" "in_manager a m d \<Longrightarrow> dl_events d = []"
  by (auto simp: in_manager_def)

lemma in_manager_step:
  assumes "in_manager a m d" "is_running (f d)"
  shows "in_manager a (session_event E a f m) ((f d)\<lparr>dl_events := []\<rparr>)" "dm_listener (session_event E a f m) = dm_listener m"
    "dm_listener m \<Longrightarrow> dl_events (f d) \<noteq> [] \<Longrightarrow> last (dl_events (f d)) = DlFileCompleted p \<Longrightarrow>
       last (dm_events (session_event E a f m)) = DownloadReport LOG_INFORMATION_MESSAGE (''Finished downloading '' @ p)"
proof -
  obtain d0 where d0: "map_of (dm_downloads m) a = Some d0" "d = d0\<lparr>dl_world := dm_world m, dl_events := []\<rparr>"
    "dm_queuedStarts m = []" "is_running d"
    using assms(1) by (auto simp: in_manager_def)
  define m1 where "m1 = m\<lparr>dm_downloads := ht_put a ((f d)\<lparr>dl_events := []\<rparr>) (dm_downloads m), dm_world := dl_world (f d)\<rparr>"
  have "is_running d0" using d0(2,4) by (simp add: is_running_def IsFinished_def)
  then have s: "session_event E a f m = fold (deliver (StartNextQueuedDownload E) a) (dl_events (f d)) m1"
    using d0 by (simp add: session_event_def on_download_def call_download_def m1_def Let_def)
  obtain log where l: "session_event E a f m = m1\<lparr>dm_events := dm_events m1 @ log\<rparr>"
    "dm_listener m1 \<longrightarrow> dl_events (f d) \<noteq> [] \<longrightarrow> last (dl_events (f d)) = DlFileCompleted p \<longrightarrow>
       last (dm_events m1 @ log) = DownloadReport LOG_INFORMATION_MESSAGE (''Finished downloading '' @ p)"
    using heard [of m1 E a "dl_events (f d)" p] d0(3) unfolding s by (auto simp: m1_def)
  have "is_running ((f d)\<lparr>dl_events := []\<rparr>)" using assms(2) by (simp add: is_running_def IsFinished_def)
  then show "in_manager a (session_event E a f m) ((f d)\<lparr>dl_events := []\<rparr>)" "dm_listener (session_event E a f m) = dm_listener m"
    "dm_listener m \<Longrightarrow> dl_events (f d) \<noteq> [] \<Longrightarrow> last (dl_events (f d)) = DlFileCompleted p \<Longrightarrow>
       last (dm_events (session_event E a f m)) = DownloadReport LOG_INFORMATION_MESSAGE (''Finished downloading '' @ p)"
    using l d0(3) by (auto simp: in_manager_def m1_def)
qed

subsection \<open>The request\<close>

lemma one_request:
  fixes l n :: string
  assumes "FindUser users (fr_sessionId r) = Some u" "\<not> u_isFirewalled u" "sint (u_port u) > 0"
    and "u_hostName u \<noteq> []" "(ucast (u_port u) :: uint16) \<noteq> 0" "fresh_law E"
    and "start_dl_thread (dm_transceiver E) = None" "connect_peer (dm_transceiver E) (u_hostName u) (ucast (u_port u)) = None"
    and "dm_queuedStarts m = []" "CountRunningDownloads m < unat (dm_maxSimultaneousDownloads m)"
  defines "a \<equiv> new_address E (map fst (dm_downloads m))"
    and "d1 \<equiv> (snd (Start (dm_transceiver E) (u_hostName u) (ucast (u_port u)) (fr_sessionId r) l n (make_download m u [r])))
      \<lparr>dl_world := dm_world m, dl_events := []\<rparr>"
  shows "in_manager a (StartDownloads L E [r] users l n m) d1" "dm_listener (StartDownloads L E [r] users l n m) = dm_listener m"
proof -
  define q where "q = \<lparr> qs_download = a, qs_hostName = u_hostName u, qs_port = ucast (u_port u),
      qs_remoteSessionId = fr_sessionId r, qs_localSessionId = l, qs_localUserName = n \<rparr>"
  define log where "log = (if dm_listener m then [DownloadReport LOG_INFORMATION_MESSAGE (''Asking '' @ GetDisplayName u @
      '' for '' @ FormatInt L (int (length [r])) @ '' file(s).''), DownloadListChanged] else [])"
  define m2 where "m2 = m\<lparr>dm_downloads := dm_downloads m @ [(a, make_download m u [r])], dm_queuedStarts := [q],
      dm_events := dm_events m @ log\<rparr>"
  have s: "StartDownloads L E [r] users l n m = StartNextQueuedDownload E m2"
    using assms(1-3,9)
    by (simp add: StartDownloads_def group_results_def start_group_def m2_def q_def a_def [symmetric] Let_def log_def dm_notify_def)
  have new: "a \<notin> fst ` set (dm_downloads m)" using assms(6) unfolding fresh_law_def a_def by (metis list.set_map)
  then have found: "map_of (dm_downloads m2) a = Some (make_download m u [r])"
    by (simp add: m2_def map_add_def map_of_eq_None_iff [THEN iffD2])
  have few: "CountRunningDownloads m2 = CountRunningDownloads m"
    by (simp add: CountRunningDownloads_def m2_def is_running_def)
  define m3 where "m3 = m2\<lparr>dm_queuedStarts := []\<rparr>"
  have u: "StartNextQueuedDownload E m2 = StartNextQueuedDownload E (start_one E (StartNextQueuedDownload E) q m3)"
    using StartNext_unfold [of E m2] found few assms(10) by (simp add: m2_def m3_def q_def)
  define dw where "dw = (make_download m u [r])\<lparr>dl_world := dm_world m, dl_events := []\<rparr>"
  define d2 where "d2 = snd (start_queued E q dw)"
  have ok: "fst (start_queued E q dw) = DlOk" "is_running d2" "dl_world d2 = dm_world m"
    using assms(4,5,7,8)
    by (simp_all add: start_queued_def Start_def d2_def dw_def q_def is_running_def IsFinished_def SetState_def dl_emit_def Let_def)
  define m4 where "m4 = m3\<lparr>dm_downloads := ht_put a (d2\<lparr>dl_events := []\<rparr>) (dm_downloads m3), dm_world := dl_world d2\<rparr>"
  have one: "start_one E (StartNextQueuedDownload E) q m3 = fold (deliver (StartNextQueuedDownload E) a) (dl_events d2) m4"
    using found ok(1) by (simp add: start_one_def call_download_def m3_def m4_def d2_def dw_def q_def m2_def Let_def)
  obtain log' where l: "fold (deliver (StartNextQueuedDownload E) a) (dl_events d2) m4 = m4\<lparr>dm_events := dm_events m4 @ log'\<rparr>"
    using heard [of m4 E a "dl_events d2" "[]"] by (auto simp: m4_def m3_def)
  have r: "StartDownloads L E [r] users l n m = m4\<lparr>dm_events := dm_events m4 @ log'\<rparr>"
    unfolding s u one l by (rule StartNext_empty) (simp add: m4_def m3_def)
  have "d1 = d2\<lparr>dl_world := dm_world m, dl_events := []\<rparr>"
    by (simp add: d1_def d2_def dw_def start_queued_def q_def Start_def make_download_def Let_def SetState_def dl_emit_def
        split: option.split)
  then show "in_manager a (StartDownloads L E [r] users l n m) d1"
    using ok(2,3) by (auto simp: r in_manager_def m4_def m3_def is_running_def IsFinished_def)
  show "dm_listener (StartDownloads L E [r] users l n m) = dm_listener m"
    by (simp add: r m4_def m3_def m2_def)
qed

lemma receiving_told [simp]: "receiving p got rest (d\<lparr>dl_events := es\<rparr>) = receiving p got rest d"
  by (simp add: receiving_def)

text \<open>The chunks of a file, taken by the manager.\<close>

lemma chunks_in_manager:
  assumes "in_manager a m d" "receiving p got rest d" "rest \<noteq> []" "n > 0" "dm_listener m"
  shows "let m' = fold (run_dm L E) (map (DmMessage a) (map (encode_chunk (mode_of b)) (chunks n rest))) m
    in w_files (dm_world m') p = Some (got @ rest) \<and>
       last (dm_events m') = DownloadReport LOG_INFORMATION_MESSAGE (''Finished downloading '' @ p)"
  using assms
proof (induction n rest arbitrary: got d m rule: chunks.induct)
  case (1 n rest)
  let ?c = "take n rest" and ?r = "drop n rest"
  let ?f = "DlMessageReceived L (encode_chunk (mode_of b) ?c)"
  let ?m = "run_dm L E (DmMessage a (encode_chunk (mode_of b) ?c)) m"
  have c: "if ?r = [] then stored p (got @ ?c) (dl_completedFileCount d + 1) (?f d) else receiving p (got @ ?c) ?r (?f d)"
    "dl_state (?f d) = dl_state d"
    using chunk_received [of p got ?c ?r d L b] "1.prems" by (auto simp: Let_def simp del: take_all drop_all split: if_splits)
  have run: "is_running (?f d)" using "1.prems"(1) c(2) by (auto simp: in_manager_def is_running_def IsFinished_def)
  note step = in_manager_step(1,2) [OF "1.prems"(1), where f = ?f and E = E, OF run] and
    last_report = in_manager_step(3) [OF "1.prems"(1), where f = ?f and E = E and p = p, OF run]
  have unf: "chunks n rest = ?c # chunks n ?r" using "1.prems" by (intro chunks_step) auto
  show ?case
  proof (cases "?r = []")
    case True
    then have "stored p (got @ ?c) (dl_completedFileCount d + 1) (?f d)" using c(1) by simp
    moreover have "dm_world (session_event E a ?f m) = dl_world (?f d)"
      using in_manager_fields(1) [OF step(1)] by simp
    ultimately show ?thesis
      unfolding unf using last_report "1.prems"(5) True by (simp add: stored_def Let_def)
  next
    case False
    then have "receiving p (got @ ?c) ?r ((?f d)\<lparr>dl_events := []\<rparr>)" using c(1) by simp
    from "1.IH" [OF _ step(1) this False] "1.prems"(3,4,5) step(2) show ?thesis
      unfolding unf by (simp add: Let_def)
  qed
qed

subsection \<open>A peer that has just connected\<close>

lemma peer_ready:
  fixes L :: muscle and E :: up_env and addr :: string
  assumes "map_of (us_peers s) pid = None" "what idm = TRANSFER_COMMAND_PEER_ID" "quiet s"
  defines "s1 \<equiv> UpMessageReceived L E idm pid (UpSessionAccepted pid addr s)"
  shows "\<exists>peer. map_of (us_peers s1) pid = Some peer \<and> pu_currentFile peer = None \<and> pu_mungeMode peer = MUNGE_MODE_NONE"
    "quiet s1" "sent_to k s1 = sent_to k s" "CountActiveUploads s1 = CountActiveUploads s"
    "us_maxSimultaneousUploads s1 = us_maxSimultaneousUploads s" "us_sharedFiles s1 = us_sharedFiles s"
    "us_localSessionId s1 = us_localSessionId s"
proof -
  have "pid \<notin> fst ` set t \<Longrightarrow> ht_put pid q (t @ [(pid, p)]) = t @ [(pid, q)]" for t :: "(string \<times> PeerUpload) list" and p q
    by (induction t) auto
  then have twice: "ht_put pid q (us_peers s @ [(pid, p)]) = us_peers s @ [(pid, q)]" for p q
    using assms(1) by (simp add: map_of_eq_None_iff)
  define p0 where "p0 = new_peer\<lparr>pu_peerAddress := addr\<rparr>"
  define peer where "peer = p0\<lparr>pu_remoteSessionId := found_or (pu_remoteSessionId p0) (find_string idm BESHARE_FIELD_FROM_SESSION),
      pu_remoteUserName := found_or (pu_remoteUserName p0) (find_string idm BESHARE_FIELD_FROM_USER_NAME)\<rparr>"
  define sa where "sa = UpSessionAccepted pid addr s"
  have sa: "us_peers sa = us_peers s @ [(pid, p0)]" "us_sent sa = us_sent s" "us_sharedFiles sa = us_sharedFiles s"
    "us_maxSimultaneousUploads sa = us_maxSimultaneousUploads s" "us_localSessionId sa = us_localSessionId s"
    using assms(1)
    by (auto simp: sa_def UpSessionAccepted_def up_emit_def put_peer_def p0_def ht_put_absent map_of_eq_None_iff)
  have found: "map_of (us_peers s @ [(pid, x)]) pid = Some x" for x using assms(1) by (simp add: map_add_def)
  have s1: "s1 = up_emit UploadsChanged (put_peer pid peer sa)"
    using found [of p0] assms(2) by (simp add: s1_def UpMessageReceived_def sa_def [symmetric] sa(1) peer_def)
  have f: "us_peers s1 = us_peers s @ [(pid, peer)]" "us_sent s1 = us_sent s"
    "us_sharedFiles s1 = us_sharedFiles s" "us_maxSimultaneousUploads s1 = us_maxSimultaneousUploads s"
    "us_localSessionId s1 = us_localSessionId s"
    by (simp_all add: s1 up_emit_def put_peer_def sa twice)
  have p: "pu_currentFile peer = None" "pu_mungeMode peer = MUNGE_MODE_NONE" "\<not> pu_isQueued peer" "pu_requestedFiles peer = []"
    by (simp_all add: peer_def p0_def new_peer_def)
  show "\<exists>peer. map_of (us_peers s1) pid = Some peer \<and> pu_currentFile peer = None \<and> pu_mungeMode peer = MUNGE_MODE_NONE"
    using found [of peer] p by (auto simp: f(1))
  show "quiet s1" "sent_to k s1 = sent_to k s" "CountActiveUploads s1 = CountActiveUploads s"
    "us_maxSimultaneousUploads s1 = us_maxSimultaneousUploads s" "us_sharedFiles s1 = us_sharedFiles s"
    "us_localSessionId s1 = us_localSessionId s"
    using assms(3) f p by (simp_all add: quiet_def sent_to_def CountActiveUploads_def)
qed

subsection \<open>The file that is made\<close>

definition can_create :: "muscle \<Rightarrow> download_manager \<Rightarrow> SharedFile \<Rightarrow> bool" where
  "can_create L m f = fst (OpenOutputFile L (sf_fileName f) (sf_relativePath f)
     ((new_download (dm_downloadDirectory m) (dm_world m))\<lparr>dl_retainFilePaths := dm_retainFilePaths m\<rparr>))"

lemma OpenOutputFile_same:
  assumes "dl_retainFilePaths d = dl_retainFilePaths d'" "dl_downloadDirectory d = dl_downloadDirectory d'" "dl_world d = dl_world d'"
  shows "fst (OpenOutputFile L n rp d) = fst (OpenOutputFile L n rp d')"
  using assms by (auto simp: OpenOutputFile_def Let_def split: prod.split option.split)

lemma header_creates:
  assumes "trim_law L" "format_law L" "dl_outputFile d = None" "fst (OpenOutputFile L (sf_fileName f) (sf_relativePath f) d)"
  shows "\<exists>p. dl_outputFile (DlMessageReceived L (file_header l f) d) = Some p \<and> contained (dl_downloadDirectory d) p \<and>
    w_files (dl_world d) p = None"
proof -
  let ?m = "file_header l f"
  have f: "what ?m = TRANSFER_COMMAND_FILE_HEADER" "find_string ?m BESHARE_FIELD_FILE_NAME = Some (sf_fileName f)"
    "find_int64 ?m BESHARE_FIELD_FILE_SIZE = Some (sf_fileSize f)" "find_string ?m BESHARE_FIELD_PATH = Some (sf_relativePath f)"
    by (simp_all add: file_header_def Let_def finds)
  define d2 where "d2 = d\<lparr>dl_remoteSessionId := found_or (dl_remoteSessionId d) (find_string ?m BESHARE_FIELD_FROM_SESSION),
      dl_currentFileName := sf_fileName f, dl_currentFileSize := sf_fileSize f, dl_currentFileBytesDone := 0\<rparr>"
  have "fst (OpenOutputFile L (sf_fileName f) (sf_relativePath f) d2)"
    using assms(4) OpenOutputFile_same [of d2 d L "sf_fileName f" "sf_relativePath f"] by (simp add: d2_def)
  then obtain p w where o: "contained (dl_downloadDirectory d2) p" "w_files (dl_world d2) p = None"
    "OpenOutputFile L (sf_fileName f) (sf_relativePath f) d2 = (True, d2\<lparr>dl_world := w, dl_outputFile := Some p, dl_outputPath := p\<rparr>)"
    using OpenOutputFile_cases [OF assms(1,2), of d2 "sf_fileName f" "sf_relativePath f"] by auto
  have "DlMessageReceived L ?m d = SetState DOWNLOAD_TRANSFERRING (d2\<lparr>dl_world := w, dl_outputFile := Some p, dl_outputPath := p\<rparr>)"
    unfolding DlMessageReceived_def HandleFileHeader_def Let_def using f o(3) assms(3)
    by (simp add: d2_def FinishCurrentFile_def)
  then show ?thesis using o(1,2) by (intro exI [of _ p]) (simp add: d2_def)
qed

text \<open>What the manager makes of the whole file: the header opens it, the chunks fill it.\<close>

lemma file_in_manager:
  assumes "trim_law L" "format_law L" "in_manager a m d" "dl_outputFile d = None" "dl_listener d" "dm_listener m"
    and "fst (OpenOutputFile L (sf_fileName f) (sf_relativePath f) d)"
    and "c \<noteq> []" "sf_fileSize f = of_nat (length c)" "length c < 2 ^ 63" "length c \<le> w_room (dm_world m)" "n > 0"
  shows "let m' = fold (run_dm L E) (map (DmMessage a) (file_header l f # map (encode_chunk (mode_of b)) (chunks n c))) m
    in \<exists>p. contained (dl_downloadDirectory d) p \<and> w_files (dm_world m) p = None \<and> w_files (dm_world m') p = Some c \<and>
         last (dm_events m') = DownloadReport LOG_INFORMATION_MESSAGE (''Finished downloading '' @ p)"
proof -
  let ?f = "DlMessageReceived L (file_header l f)"
  have w: "dl_world d = dm_world m" by (rule in_manager_fields [OF assms(3)])
  obtain p where p: "dl_outputFile (?f d) = Some p" "contained (dl_downloadDirectory d) p" "w_files (dm_world m) p = None"
    using header_creates [OF assms(1,2,4,7), of l] w by auto
  have r: "receiving p [] c (?f d)" "dl_state (?f d) = DOWNLOAD_TRANSFERRING"
    using header_opens [OF assms(1,2,4,5) p(1) assms(9,10)] assms(11) w by auto
  then have "is_running (?f d)" by (simp add: is_running_def IsFinished_def)
  note step = in_manager_step(1,2) [OF assms(3), where f = ?f and E = E, OF this]
  have "receiving p [] c ((?f d)\<lparr>dl_events := []\<rparr>)" using r(1) by simp
  from chunks_in_manager [OF step(1) this assms(8,12), of L E b] step(2) assms(6) p(2,3) show ?thesis
    by (auto simp: Let_def)
qed

subsection \<open>The whole way\<close>

definition asked_by :: "nat \<Rightarrow> download_manager \<Rightarrow> message list" where
  "asked_by a m = (case map_of (dm_downloads m) a of None \<Rightarrow> [] | Some d \<Rightarrow> dl_sent d)"

lemma asked_by_manager: "in_manager a m d \<Longrightarrow> asked_by a m = dl_sent d"
  by (auto simp: in_manager_def asked_by_def)

definition result_of :: "string \<Rightarrow> bool \<Rightarrow> SharedFile \<Rightarrow> FileResult" where
  "result_of sid firewalled f = \<lparr> fr_sessionId = sid, fr_fileName = sf_fileName f, fr_path = sf_relativePath f,
     fr_kind = sf_kind f, fr_fileSize = sf_fileSize f, fr_modificationTime = sf_modificationTime f,
     fr_isFirewalled = firewalled, fr_attributes = file_info f \<rparr>"

text \<open>Asking for the file: the messages that the sharer gets, and the download that sent them.\<close>

lemma asked_for:
  fixes L :: muscle and E :: dm_env and l n :: string
  assumes "FindUser users (fr_sessionId r) = Some u" "\<not> u_isFirewalled u" "sint (u_port u) > 0"
    and "u_hostName u \<noteq> []" "(ucast (u_port u) :: uint16) \<noteq> 0" "fresh_law E"
    and "start_dl_thread (dm_transceiver E) = None" "connect_peer (dm_transceiver E) (u_hostName u) (ucast (u_port u)) = None"
    and "dm_queuedStarts m = []" "CountRunningDownloads m < unat (dm_maxSimultaneousDownloads m)"
  defines "a \<equiv> new_address E (map fst (dm_downloads m))"
  defines "m2 \<equiv> fold (run_dm L E) [DmStart [r] users l n, DmConnected a] m"
  shows "\<exists>d x idm. in_manager a m2 d \<and> dl_outputFile d = None \<and> dl_listener d \<and> dm_listener m2 = dm_listener m \<and>
    dm_world m2 = dm_world m \<and> dl_downloadDirectory d = dm_downloadDirectory m \<and> dl_retainFilePaths d = dm_retainFilePaths m \<and>
    asked_by a m2 = [idm, file_list_message x] \<and> what idm = TRANSFER_COMMAND_PEER_ID \<and>
    map rq_fileName (dl_requestedFiles x) = [fr_fileName r]"
proof -
  define d1 where "d1 = (snd (Start (dm_transceiver E) (u_hostName u) (ucast (u_port u)) (fr_sessionId r) l n
      (make_download m u [r])))\<lparr>dl_world := dm_world m, dl_events := []\<rparr>"
  have start: "in_manager a (StartDownloads L E [r] users l n m) d1"
    "dm_listener (StartDownloads L E [r] users l n m) = dm_listener m"
    using one_request [OF assms(1-10), of L l n] unfolding d1_def a_def by blast+
  have d1: "dl_sent d1 = []" "dl_outputFile d1 = None" "dl_listener d1" "dl_downloadDirectory d1 = dm_downloadDirectory m"
    "dl_retainFilePaths d1 = dm_retainFilePaths m" "map rq_fileName (dl_requestedFiles d1) = [fr_fileName r]"
    "dl_world d1 = dm_world m"
    using assms(4,5,7,8)
    by (simp_all add: d1_def Start_def make_download_def SetState_def dl_emit_def new_download_def SetDlListener_def
        SetRemoteUserName_def SetDlRetainFilePaths_def SetDlRateLimit_def AddRequestedFile_def Let_def)
  define d2 where "d2 = (DlSessionConnected d1)\<lparr>dl_events := []\<rparr>"
  have run: "is_running (DlSessionConnected d1)"
    by (simp add: DlSessionConnected_def SendFileList_def SendPeerIdentity_def SetState_def dl_emit_def is_running_def
        IsFinished_def)
  note step = in_manager_step(1,2) [where f = DlSessionConnected and E = E, OF start(1) run]
  have m2: "m2 = session_event E a DlSessionConnected (StartDownloads L E [r] users l n m)"
    by (simp add: m2_def)
  obtain x idm where sent: "dl_sent d2 = [idm, file_list_message x]" "what idm = TRANSFER_COMMAND_PEER_ID"
    "map rq_fileName (dl_requestedFiles x) = [fr_fileName r]"
    using d1(1,6)
    by (simp add: d2_def DlSessionConnected_def SendFileList_def SendPeerIdentity_def SetState_def dl_emit_def)
  have d2: "dl_outputFile d2 = None" "dl_listener d2" "dl_downloadDirectory d2 = dm_downloadDirectory m"
    "dl_retainFilePaths d2 = dm_retainFilePaths m" "dl_world d2 = dm_world m"
    using d1 by (simp_all add: d2_def DlSessionConnected_def SendFileList_def SendPeerIdentity_def SetState_def dl_emit_def)
  have m2_d2: "in_manager a m2 d2" using step(1) by (simp add: m2 d2_def)
  have told: "dm_listener m2 = dm_listener m" using step(2) start(2) by (simp add: m2)
  have world: "dm_world m2 = dm_world m" using in_manager_fields(1) [OF m2_d2] d2(5) by simp
  have asked: "asked_by a m2 = [idm, file_list_message x]" using asked_by_manager [OF m2_d2] sent(1) by simp
  show ?thesis
    by (intro exI [of _ d2] exI [of _ x] exI [of _ idm] conjI m2_d2 told world asked d2(1-4) sent(2,3))
qed

text \<open>The sharer's side: a peer connects, says who it is, asks for a file of the share, and is sent all of it.\<close>

lemma sharer_answers:
  fixes L :: muscle and E :: up_env and addr :: string
  assumes "map_of (us_peers s) pid = None" "quiet s" "sent_to pid s = []"
    and "CountActiveUploads s + 1 < unat (us_maxSimultaneousUploads s)"
    and "what idm = TRANSFER_COMMAND_PEER_ID" "map rq_fileName (dl_requestedFiles x) = [sf_fileName f]"
    and "map_of (us_sharedFiles s) (sf_fileName f) = Some f" "open_file E (sf_absolutePath f) = Some c"
    and "Suc (length (chunks kUploadChunkSize c)) \<le> k"
  shows "sent_to pid ((run_up L E (UpDrained (Some pid)) ^^ k)
      (fold (run_up L E) (UpAccept pid addr # map (UpMessage pid) [idm, file_list_message x]) s)) =
    file_header (us_localSessionId s) f # map (encode_chunk (mode_of True)) (chunks kUploadChunkSize c)"
proof -
  define s1 where "s1 = UpMessageReceived L E idm pid (UpSessionAccepted pid addr s)"
  note ready = peer_ready [OF assms(1,5,2), where L = L and E = E and addr = addr, folded s1_def]
  obtain peer where peer: "map_of (us_peers s1) pid = Some peer" "pu_currentFile peer = None" "pu_mungeMode peer = MUNGE_MODE_NONE"
    using ready(1) by blast
  have list: "UpMessageReceived L E (file_list_message x) pid s1 = HandleFileList L E pid (file_list_message x) s1"
    using peer(1) by (simp add: UpMessageReceived_def)
  have stream: "requested_stream E s1 peer (file_list_message x) =
      file_header (us_localSessionId s) f # map (encode_chunk (mode_of True)) (chunks kUploadChunkSize c)"
    using assms(6,7,8) ready(6,7) by (simp add: requested_stream_def file_stream_def mode_of_def resolve_names_def List.map_filter_def)
  have runs: "run_up L E (UpDrained (Some pid)) = (\<lambda>s. OutputQueuesDrained E (Some pid) s)"
    by (rule ext) simp
  show ?thesis
    using request_served_stream [OF peer(1,2) ready(2), of E "file_list_message x" k L] ready(3-5) assms(3,4,9)
    by (simp add: stream runs list s1_def [symmetric])
qed

text \<open>
  C2. A shared file arrives. The seeker's running query q meets the node under which the sharer publishes
  the file f, and reports one result; the download manager m is asked for that result and connects; the
  sharer's server s, which reads c behind f, gets the two messages that the download has sent and drains
  often enough; and the manager takes what the server has sent. Then the download directory has a new file,
  none that was there before, holding exactly c, and the user is told its path last.
\<close>

theorem shared_file_arrives:
  fixes L :: muscle and Em :: dm_env and E :: up_env and h sid pid addr l n :: string
  assumes "path_law L" "trim_law L" "format_law L" "fresh_law Em"
    and "is_clause h" "is_clause sid" "is_clause (sf_fileName f)" "InflateMessage L (file_info f) = Some (file_info f)"
    and "c_listener q" "c_queryActive q" "PatternMatch L (c_sessionMatcher q) sid"
      "PatternMatch L (c_fileNameMatcher q) (sf_fileName f)"
    and "FindUser (c_users q) sid = Some u" "\<not> u_isFirewalled u" "sint (u_port u) > 0" "u_hostName u \<noteq> []"
      "(ucast (u_port u) :: uint16) \<noteq> 0" "start_dl_thread (dm_transceiver Em) = None"
      "connect_peer (dm_transceiver Em) (u_hostName u) (ucast (u_port u)) = None"
    and "dm_listener m" "dm_queuedStarts m = []" "CountRunningDownloads m < unat (dm_maxSimultaneousDownloads m)"
      "can_create L m f"
    and "c \<noteq> []" "sf_fileSize f = of_nat (length c)" "length c < 2 ^ 63" "length c \<le> w_room (dm_world m)"
    and "map_of (us_peers s) pid = None" "quiet s" "sent_to pid s = []"
      "CountActiveUploads s + 1 < unat (us_maxSimultaneousUploads s)"
      "map_of (us_sharedFiles s) (sf_fileName f) = Some f" "open_file E (sf_absolutePath f) = Some c"
    and "Suc (length (chunks kUploadChunkSize c)) \<le> k"
  shows "let node = make_path [h, sid] @ ''/'' @ GetFilesNodePath sharer @ sf_fileName f;
      r = result_of sid (c_firewalled sharer) f;
      a = new_address Em (map fst (dm_downloads m));
      m2 = fold (run_dm L Em) [DmStart [r] (c_users q) l n, DmConnected a] m;
      s2 = (run_up L E (UpDrained (Some pid)) ^^ k)
        (fold (run_up L E) (UpAccept pid addr # map (UpMessage pid) (asked_by a m2)) s);
      m3 = fold (run_dm L Em) (map (DmMessage a) (sent_to pid s2)) m2
    in c_events (HandleNodeUpdated L node (file_info f) q) = c_events q @ [QueryResultAdded r] \<and>
       (\<exists>p. contained (dm_downloadDirectory m) p \<and> w_files (dm_world m) p = None \<and> w_files (dm_world m3) p = Some c \<and>
          last (dm_events m3) = DownloadReport LOG_INFORMATION_MESSAGE (''Finished downloading '' @ p))"
proof -
  define r where "r = result_of sid (c_firewalled sharer) f"
  define a where "a = new_address Em (map fst (dm_downloads m))"
  define m2 where "m2 = fold (run_dm L Em) [DmStart [r] (c_users q) l n, DmConnected a] m"
  have found: "c_events (HandleNodeUpdated L (make_path [h, sid] @ ''/'' @ GetFilesNodePath sharer @ sf_fileName f) (file_info f) q) =
      c_events q @ [QueryResultAdded r]"
    using published_file_found [OF assms(1,5-7,9-12,8), of sharer] by (simp add: r_def result_of_def)
  have "FindUser (c_users q) (fr_sessionId r) = Some u" using assms(13) by (simp add: r_def result_of_def)
  from asked_for [OF this assms(14-17,4,18,19,21,22), of L l n, folded a_def, folded m2_def]
  obtain d x idm where d: "in_manager a m2 d" "dl_outputFile d = None" "dl_listener d" "dm_listener m2 = dm_listener m"
    "dm_world m2 = dm_world m" "dl_downloadDirectory d = dm_downloadDirectory m" "dl_retainFilePaths d = dm_retainFilePaths m"
    and asked: "asked_by a m2 = [idm, file_list_message x]" "what idm = TRANSFER_COMMAND_PEER_ID"
    "map rq_fileName (dl_requestedFiles x) = [sf_fileName f]"
    by (auto simp: r_def result_of_def)
  have "fst (OpenOutputFile L (sf_fileName f) (sf_relativePath f) d)"
    using assms(23) OpenOutputFile_same [of d "(new_download (dm_downloadDirectory m) (dm_world m))\<lparr>dl_retainFilePaths := dm_retainFilePaths m\<rparr>"]
      d(5-7) in_manager_fields(1) [OF d(1)]
    by (simp add: can_create_def new_download_def)
  note file_in_manager [OF assms(2,3) d(1-3) _ this assms(24-26) _ chunk_size_pos, where E = Em and b = True,
      unfolded d(4-6), OF assms(20,27)]
  then show ?thesis
    using found sharer_answers [OF assms(28-31) asked(2,3) assms(32-34), where L = L and addr = addr]
    unfolding Let_def r_def [symmetric] a_def [symmetric] m2_def [symmetric] asked(1) by simp
qed

text \<open>The demo share of one file, found, asked for and sent; what the kernel evaluates of it.\<close>

lemma fold_max: "k \<le> fold max xs k \<and> (\<forall>x \<in> set xs. x \<le> fold max xs k)" for k :: nat
  by (induction xs arbitrary: k) (auto intro: order_trans [OF max.cobounded1] order_trans [OF max.cobounded2])

lemma demo_fresh: "fresh_law demo_dm_env"
  using fold_max [of 0] by (force simp: fresh_law_def demo_dm_env_def)

definition demo_seeker :: download_manager where
  "demo_seeker = (SetDownloadDirectory ''/d'' (new_manager demo_world))\<lparr>dm_listener := True\<rparr>"

definition demo_query :: connection where
  "demo_query = (demo_conn ''9'')\<lparr>c_queryActive := True, c_sessionMatcher := ''*'', c_fileNameMatcher := ''a*'', c_users := demo_users\<rparr>"

lemma demo_seeker_ready:
  "dm_listener demo_seeker" "dm_queuedStarts demo_seeker = []"
  "CountRunningDownloads demo_seeker < unat (dm_maxSimultaneousDownloads demo_seeker)"
  "can_create ref_muscle demo_seeker demo_shared" "w_room (dm_world demo_seeker) = 1000" "dm_downloadDirectory demo_seeker = ''/d''"
  by code_simp+

lemma demo_query_ready:
  "c_listener demo_query" "c_queryActive demo_query" "PatternMatch ref_muscle (c_sessionMatcher demo_query) ''1''"
  "PatternMatch ref_muscle (c_fileNameMatcher demo_query) (sf_fileName demo_shared)"
  "InflateMessage ref_muscle (file_info demo_shared) = Some (file_info demo_shared)"
  by (simp_all add: demo_query_def demo_shared_def)

theorem shared_file_arrives_witness:
  "let r = result_of ''1'' False demo_shared;
      m2 = fold (run_dm ref_muscle demo_dm_env) [DmStart [r] demo_users ''9'' ''me'', DmConnected 1] demo_seeker;
      s2 = (run_up ref_muscle demo_up_env (UpDrained (Some ''p'')) ^^ 2)
        (fold (run_up ref_muscle demo_up_env) (UpAccept ''p'' ''h'' # map (UpMessage ''p'') (asked_by 1 m2)) ((demo_server 4)\<lparr>us_peers := []\<rparr>));
      m3 = fold (run_dm ref_muscle demo_dm_env) (map (DmMessage 1) (sent_to ''p'' s2)) m2
    in \<exists>p. contained ''/d'' p \<and> w_files demo_world p = None \<and> w_files (dm_world m3) p = Some [1, 2, 3]"
proof -
  let ?s = "(demo_server 4)\<lparr>us_peers := []\<rparr>"
  have server: "map_of (us_peers ?s) ''p'' = None" "quiet ?s" "sent_to ''p'' ?s = []"
    "CountActiveUploads ?s + 1 < unat (us_maxSimultaneousUploads ?s)"
    "map_of (us_sharedFiles ?s) (sf_fileName demo_shared) = Some demo_shared"
    by (simp_all add: quiet_def sent_to_def CountActiveUploads_def demo_shared_def)
  have addr: "new_address demo_dm_env (map fst (dm_downloads demo_seeker)) = 1" "dm_world demo_seeker = demo_world"
    by (code_simp, simp add: demo_seeker_def SetDownloadDirectory_def new_manager_def)
  have fresh: "fresh_law demo_dm_env" by (rule demo_fresh)
  have clauses: "is_clause ''h''" "is_clause ''1''" "is_clause (sf_fileName demo_shared)" by (simp_all add: is_clause_def demo_shared_def)
  define u where "u = empty_user\<lparr>u_sessionId := ''1'', u_hostName := ''h'', u_port := 7000\<rparr>"
  have user: "FindUser (c_users demo_query) ''1'' = Some u" "\<not> u_isFirewalled u" "sint (u_port u) > 0" "u_hostName u \<noteq> []"
    "(ucast (u_port u) :: uint16) \<noteq> 0" "c_users demo_query = demo_users" "c_firewalled (demo_conn ''1'') = False"
    by (simp_all add: u_def empty_user_def demo_query_def demo_users_def FindUser_def demo_conn_def new_connection_def)
  have net: "start_dl_thread (dm_transceiver demo_dm_env) = None"
    "connect_peer (dm_transceiver demo_dm_env) (u_hostName u) (ucast (u_port u)) = None"
    by (simp_all add: demo_dm_env_def)
  have n: "Suc (length (chunks kUploadChunkSize [1, 2, 3 :: uint8])) \<le> 2" by (simp add: demo_stream)
  have size: "sf_fileSize demo_shared = of_nat (length [1, 2, 3 :: uint8])" by (simp add: demo_shared_def)
  have room: "length [1, 2, 3 :: uint8] \<le> w_room (dm_world demo_seeker)" "[1, 2, 3 :: uint8] \<noteq> []" "length [1, 2, 3 :: uint8] < 2 ^ 63"
    by (simp_all add: demo_seeker_ready)
  note shared_file_arrives [OF ref_path_law ref_trim_law ref_format_law fresh clauses demo_query_ready(5,1-4) user(1-5) net
      demo_seeker_ready(1-4) room(2) size room(3,1) server demo_stream(2) n, where sharer = "demo_conn ''1''" and l = "''9''"
      and n = "''me''" and addr = "''h''"]
  then show ?thesis
    unfolding addr user(6,7) demo_seeker_ready(6) Let_def by blast
qed

end
