(* ===== verification/ChatPath.thy ===== *)
theory ChatPath
  imports SessionLaws
begin

section \<open>From one chat line to another\<close>

text \<open>
  Two windows on one server: a line is typed in the first, and what its connections put on the wire reaches a
  connection of the second, which reports it to its window.
\<close>

subsection \<open>The sender\<close>

lemma all_chatted:
  assumes "\<forall>m. accepts (net E a) m" "t \<noteq> []" "map_of (cm_connections m) a = Some c" "IsConnected c"
  shows "\<exists>c1. map_of (cm_connections (SendChatToAll L E t m)) a = Some c1 \<and>
    c_out c1 = c_out c @ [chat_text_message L (c_localSessionId c) ''*'' t]"
  using assms by (simp add: SendChatToAll_def on_all_one SendChatText_def Send_out)

lemma any_connected: "map_of (cm_connections m) a = Some c \<Longrightarrow> IsConnected c \<Longrightarrow> IsAnyConnected m"
  by (auto simp: IsAnyConnected_def GetConnectedCount_def filter_empty_conv dest!: map_of_SomeD)

text \<open>A line that is parsed as chat: what the window shows of it, and what goes out.\<close>

lemma line_sent:
  assumes "\<not> mw_closed w" "QTrimmed (we_Q En) (il_text (mw_input w)) \<noteq> []"
    and "Parse (we_L En) (Expand (we_L En) (mw_aliases w) (il_text (mw_input w))) = cmd" "cmd_argument cmd = t" "t \<noteq> []"
    and "cmd_type cmd = (if action then CHAT_COMMAND_ACTION else CHAT_COMMAND_NONE)"
    and "map_of (cm_connections (mw_connections w)) a = Some c" "IsConnected c" "\<forall>m. accepts (net (we_net En) a) m"
  shows "\<exists>w1 c1. app_step En ReturnPressed w = Some w1 \<and> map_of (cm_connections (mw_connections w1)) a = Some c1 \<and>
    c_out c1 = c_out c @ [chat_text_message (we_L En) (c_localSessionId c) ''*'' t] \<and>
    mw_chatLog w1 = mw_chatLog w @ [ChatLine ((local_echo (GetUserName (mw_settings w)) (if action then drop 4 t else t))\<lparr>isAction := action\<rparr>)]"
proof -
  define w0 where "w0 = w\<lparr>mw_input := AcceptCurrentLine (mw_input w)\<rparr>"
  define w1 where "w1 = SendChatToEveryone En t action w0"
  have w0: "mw_connections w0 = mw_connections w" "mw_settings w0 = mw_settings w" "mw_chatLog w0 = mw_chatLog w" "mw_aliases w0 = mw_aliases w"
    by (simp_all add: w0_def)
  have step: "app_step En ReturnPressed w = Some w1"
    using assms(1-4,6) by (cases action)
      (simp_all add: app_step_def OnInputReturnPressed_def HandleUserInput_def run_command_def Let_def w0_def w1_def)
  have any: "IsAnyConnected (mw_connections w0)" using any_connected [OF assms(7,8)] by (simp add: w0)
  have f: "mw_connections w1 = SendChatToAll (we_L En) (we_net En) t (mw_connections w)"
    "mw_chatLog w1 = mw_chatLog w @ [ChatLine ((local_echo (GetUserName (mw_settings w)) (if action then drop 4 t else t))\<lparr>isAction := action\<rparr>)]"
    using any by (simp_all add: w1_def SendChatToEveryone_def Let_def on_connections_def w0 log_chat_def show_chat_def set_disk_def
        numeral_eq_Suc split: prod.split)
  show ?thesis
    using step f all_chatted [OF assms(9,5,7,8), of "we_L En"] by auto
qed

subsection \<open>The receiver\<close>

definition heard_line :: "string \<Rightarrow> string \<Rightarrow> string \<Rightarrow> ChatMessage" where
  "heard_line sid name t = \<lparr> msg_type = LOG_REMOTE_USER_CHAT_MESSAGE, senderSessionId = sid, senderName = name,
     msg_text = (if starts_with t ''/me '' then drop 4 t else t), isPrivate = False, isAction = starts_with t ''/me '',
     isFromLocalUser = False, isHighlighted = False \<rparr>"

lemma one_found: "map_of (cm_connections (on_one b f m)) b = map_option f (map_of (cm_connections m) b)"
proof -
  have "map_of (map (\<lambda>(a, c). (a, if a = b then f c else c)) cs) b = map_option f (map_of cs b)" for cs
    by (induction cs) auto
  then show ?thesis by (simp add: on_one_def)
qed

lemma notified_log [simp]: "mw_chatLog (MaybeNotifyAboutChat En m w) = mw_chatLog w"
  by (simp add: MaybeNotifyAboutChat_def notify_user_def Let_def)

text \<open>The line in the log of the receiver: as it was heard, with the server behind the name if there are several.\<close>

lemma line_heard:
  fixes t :: string
  assumes "keys_law (we_L En)" "label_law (we_L En)" "\<not> mw_closed v"
    and "map_of (cm_connections (mw_connections v)) b = Some d" "c_listener d" "c_state d \<noteq> CONNECTION_DISCONNECTED"
      "c_localSessionId d \<noteq> sid"
    and "\<not> Matches (we_L En) (mw_ignoreFilter v) (GetDisplayNameForSession (c_users d) sid) sid"
  defines "cm \<equiv> heard_line sid (GetDisplayNameForSession (c_users d) sid) t"
  shows "\<exists>v1 d1 v2 shown. app_step En (ServerTraffic b (CbMessage (chat_text_message (we_L En) sid ''*'' t))) v = Some v1 \<and>
    map_of (cm_connections (mw_connections v1)) b = Some d1 \<and> c_events d1 = c_events d @ [ChatMessageReceived cm] \<and>
    app_step En (ConnectionReport b (ChatMessageReceived cm)) v1 = Some v2 \<and> mw_chatLog v2 = mw_chatLog v @ [ChatLine shown] \<and>
    msg_text shown = msg_text cm \<and> isAction shown = isAction cm \<and> senderSessionId shown = sid \<and> \<not> isPrivate shown \<and>
    starts_with (senderName shown) (senderName cm)"
proof -
  let ?L = "we_L En" and ?m = "chat_text_message (we_L En) sid ''*'' t"
  note f = chat_fields [OF assms(1), of sid "''*''" t]
  have recv: "MessageReceived ?L E ?m x = HandleChatText ?m x" for E x
    using received_client_message [OF assms(2), of ?m] f(1) by simp
  define v1 where "v1 = on_connections (run_cm ?L (we_net En) (CmOne b (CbMessage ?m))) v"
  have step1: "app_step En (ServerTraffic b (CbMessage ?m)) v = Some v1" using assms(3) by (simp add: app_step_def v1_def)
  have v1: "\<not> mw_closed v1" "mw_ignoreFilter v1 = mw_ignoreFilter v" "mw_chatLog v1 = mw_chatLog v"
    using assms(3) by (simp_all add: v1_def on_connections_def)
  have "map_of (cm_connections (mw_connections v1)) b = Some (HandleChatText ?m d)"
    using assms(4,6) by (simp add: v1_def on_connections_def one_found deliverable_def recv)
  moreover have "c_events (HandleChatText ?m d) = c_events d @ [ChatMessageReceived cm]"
    using f assms(5,7) by (simp add: HandleChatText_def notify_events cm_def heard_line_def substring_from_def del: prefix_code)
  moreover define v2 where "v2 = OnChatMessage En b cm v1"
  moreover have "app_step En (ConnectionReport b (ChatMessageReceived cm)) v1 = Some v2"
    using v1(1) by (simp add: app_step_def on_callback_def v2_def)
  moreover have "mw_chatLog v2 = mw_chatLog v @ [ChatLine (displayed_message En b cm v1)]"
    using assms(8) v1(2,3)
    by (simp add: v2_def OnChatMessage_def cm_def heard_line_def Let_def log_chat_def show_chat_def set_disk_def split: prod.split)
  moreover have "msg_text (displayed_message En b cm v1) = msg_text cm" "isAction (displayed_message En b cm v1) = isAction cm"
    "senderSessionId (displayed_message En b cm v1) = sid" "\<not> isPrivate (displayed_message En b cm v1)"
    "starts_with (senderName (displayed_message En b cm v1)) (senderName cm)"
    by (auto simp: displayed_message_def cm_def heard_line_def Let_def)
  ultimately show ?thesis using step1 by (metis (no_types, lifting))
qed

subsection \<open>The whole way\<close>

lemma line_travels:
  assumes "keys_law L" "label_law L" "we_L En = L" "we_L Ev = L" "\<forall>a m. accepts (net (we_net En) a) m"
    and "\<not> mw_closed w" "QTrimmed (we_Q En) (il_text (mw_input w)) \<noteq> []" "t \<noteq> []"
      "Parse L (Expand L (mw_aliases w) (il_text (mw_input w))) = cmd" "cmd_argument cmd = t"
      "cmd_type cmd = (if action then CHAT_COMMAND_ACTION else CHAT_COMMAND_NONE)"
    and "map_of (cm_connections (mw_connections w)) a = Some c" "IsConnected c"
    and "\<not> mw_closed v" "map_of (cm_connections (mw_connections v)) b = Some d" "c_listener d"
      "c_state d \<noteq> CONNECTION_DISCONNECTED" "c_localSessionId d \<noteq> c_localSessionId c"
      "\<not> Matches L (mw_ignoreFilter v) (GetDisplayNameForSession (c_users d) (c_localSessionId c)) (c_localSessionId c)"
  shows "\<exists>w1 c1 m v1 d1 r v2 shown.
    app_step En ReturnPressed w = Some w1 \<and>
    mw_chatLog w1 = mw_chatLog w @ [ChatLine ((local_echo (GetUserName (mw_settings w)) (if action then drop 4 t else t))\<lparr>isAction := action\<rparr>)] \<and>
    map_of (cm_connections (mw_connections w1)) a = Some c1 \<and> c_out c1 = c_out c @ [m] \<and>
    app_step Ev (ServerTraffic b (CbMessage m)) v = Some v1 \<and>
    map_of (cm_connections (mw_connections v1)) b = Some d1 \<and> c_events d1 = c_events d @ [r] \<and>
    app_step Ev (ConnectionReport b r) v1 = Some v2 \<and> mw_chatLog v2 = mw_chatLog v @ [ChatLine shown] \<and>
    msg_text shown = (if starts_with t ''/me '' then drop 4 t else t) \<and> isAction shown = starts_with t ''/me '' \<and> \<not> isPrivate shown \<and> senderSessionId shown = c_localSessionId c \<and>
    starts_with (senderName shown) (GetDisplayNameForSession (c_users d) (c_localSessionId c))"
proof -
  obtain w1 c1 where s: "app_step En ReturnPressed w = Some w1" "map_of (cm_connections (mw_connections w1)) a = Some c1"
    "c_out c1 = c_out c @ [chat_text_message L (c_localSessionId c) ''*'' t]"
    "mw_chatLog w1 = mw_chatLog w @ [ChatLine ((local_echo (GetUserName (mw_settings w)) (if action then drop 4 t else t))\<lparr>isAction := action\<rparr>)]"
    using line_sent [OF assms(6,7) assms(9) [folded assms(3)] assms(10,8,11,12,13) spec [OF assms(5), of a]] assms(3) by auto
  have "\<exists>v1 d1 v2 shown. app_step Ev (ServerTraffic b (CbMessage (chat_text_message L (c_localSessionId c) ''*'' t))) v = Some v1 \<and>
    map_of (cm_connections (mw_connections v1)) b = Some d1 \<and>
    c_events d1 = c_events d @ [ChatMessageReceived (heard_line (c_localSessionId c) (GetDisplayNameForSession (c_users d) (c_localSessionId c)) t)] \<and>
    app_step Ev (ConnectionReport b (ChatMessageReceived (heard_line (c_localSessionId c)
       (GetDisplayNameForSession (c_users d) (c_localSessionId c)) t))) v1 = Some v2 \<and>
    mw_chatLog v2 = mw_chatLog v @ [ChatLine shown] \<and> msg_text shown = (if starts_with t ''/me '' then drop 4 t else t) \<and>
    isAction shown = starts_with t ''/me '' \<and> senderSessionId shown = c_localSessionId c \<and> \<not> isPrivate shown \<and>
    starts_with (senderName shown) (GetDisplayNameForSession (c_users d) (c_localSessionId c))"
    using line_heard [of Ev v b d "c_localSessionId c" t] assms(1,2,4,14-19)
    unfolding heard_line_def ChatMessage.simps by blast
  then show ?thesis using s by blast
qed

text \<open>
  C13. What is typed is what everybody reads. A line that is no command, typed while a connection is up, is shown in
  the window as one line under the own name and sent to everyone there; another client that gets the message,
  does not ignore the sender and has another session reports one line, and its window shows exactly one
  more line, with the same text, from that session.
\<close>

theorem typed_line_arrives:
  assumes "keys_law L" "label_law L" "we_L En = L" "we_L Ev = L" "\<forall>a m. accepts (net (we_net En) a) m"
    and "\<not> mw_closed w" "QTrimmed (we_Q En) (il_text (mw_input w)) \<noteq> []" "Trimmed L (il_text (mw_input w)) = t" "t \<noteq> []"
      "\<not> starts_with t ''/''"
    and "map_of (cm_connections (mw_connections w)) a = Some c" "IsConnected c"
    and "\<not> mw_closed v" "map_of (cm_connections (mw_connections v)) b = Some d" "c_listener d"
      "c_state d \<noteq> CONNECTION_DISCONNECTED" "c_localSessionId d \<noteq> c_localSessionId c"
      "\<not> Matches L (mw_ignoreFilter v) (GetDisplayNameForSession (c_users d) (c_localSessionId c)) (c_localSessionId c)"
  shows "\<exists>w1 c1 m v1 d1 r v2 shown.
    app_step En ReturnPressed w = Some w1 \<and>
    mw_chatLog w1 = mw_chatLog w @ [ChatLine (local_echo (GetUserName (mw_settings w)) t)] \<and>
    map_of (cm_connections (mw_connections w1)) a = Some c1 \<and> c_out c1 = c_out c @ [m] \<and>
    app_step Ev (ServerTraffic b (CbMessage m)) v = Some v1 \<and>
    map_of (cm_connections (mw_connections v1)) b = Some d1 \<and> c_events d1 = c_events d @ [r] \<and>
    app_step Ev (ConnectionReport b r) v1 = Some v2 \<and> mw_chatLog v2 = mw_chatLog v @ [ChatLine shown] \<and>
    msg_text shown = t \<and> \<not> isAction shown \<and> \<not> isPrivate shown \<and> senderSessionId shown = c_localSessionId c \<and>
    starts_with (senderName shown) (GetDisplayNameForSession (c_users d) (c_localSessionId c))"
proof -
  have plain: "Parse L (Expand L (mw_aliases w) (il_text (mw_input w))) = empty_command\<lparr>cmd_argument := t\<rparr>"
    using assms(8-10) by (simp add: Expand_def Parse_def Let_def)
  have kind: "cmd_argument (empty_command\<lparr>cmd_argument := t\<rparr>) = t"
    "cmd_type (empty_command\<lparr>cmd_argument := t\<rparr>) = (if False then CHAT_COMMAND_ACTION else CHAT_COMMAND_NONE)"
    by (simp_all add: empty_command_def)
  have "\<not> starts_with t ''/me ''" using assms(10) by (auto simp: prefix_def)
  moreover have "(local_echo n t)\<lparr>isAction := False\<rparr> = local_echo n t" for n by (simp add: local_echo_def chat_message_def)
  ultimately show ?thesis
    using line_travels [OF assms(1-7,9) plain kind assms(11-18)] by (simp only: if_False simp_thms)
qed

text \<open>Two clients on one server, both logged in.\<close>

definition demo_chatter :: "string \<Rightarrow> string \<Rightarrow> window" where
  "demo_chatter sid line = (demo_window (new_message 0))\<lparr>mw_input := new_input_line\<lparr>il_text := line\<rparr>,
     mw_connections := \<lparr> cm_listener = True, cm_connections = [(1, demo_conn sid)] \<rparr>\<rparr>"

lemma demo_chatter_ready:
  "\<not> mw_closed (demo_chatter sid t)" "il_text (mw_input (demo_chatter sid t)) = t"
  "map_of (cm_connections (mw_connections (demo_chatter sid t))) 1 = Some (demo_conn sid)"
  "\<not> Matches L (mw_ignoreFilter (demo_chatter sid t)) n i" "mw_chatLog (demo_chatter sid t) = []"
  by (simp_all add: demo_chatter_def demo_window_def blank_window_def Matches_def)

theorem typed_line_arrives_witness:
  "\<exists>w1 c1 m v1 d1 r v2 shown. app_step demo_window_env ReturnPressed (demo_chatter ''7'' ''hello'') = Some w1 \<and>
     map_of (cm_connections (mw_connections w1)) 1 = Some c1 \<and> c_out c1 = [m] \<and>
     app_step demo_window_env (ServerTraffic 1 (CbMessage m)) (demo_chatter ''8'' []) = Some v1 \<and>
     map_of (cm_connections (mw_connections v1)) 1 = Some d1 \<and> c_events d1 = [r] \<and>
     app_step demo_window_env (ConnectionReport 1 r) v1 = Some v2 \<and> mw_chatLog v2 = [ChatLine shown] \<and> msg_text shown = ''hello''"
proof -
  have laws: "keys_law ref_muscle" "label_law ref_muscle" using ref_muscle_laws by (simp_all add: muscle_laws_def)
  have ln: "QTrimmed (we_Q demo_window_env) (il_text (mw_input (demo_chatter ''7'' ''hello''))) \<noteq> []"
    "Trimmed ref_muscle (il_text (mw_input (demo_chatter ''7'' ''hello''))) = ''hello''" "\<not> starts_with ''hello'' ''/''"
    "\<forall>a m. accepts (net (we_net demo_window_env) a) m" "we_L demo_window_env = ref_muscle"
    unfolding demo_chatter_ready by (code_simp, code_simp, simp, simp_all add: demo_cm_env_def)
  note me = demo_chatter_ready [where sid = "''7''" and t = "''hello''"] and you = demo_chatter_ready [where sid = "''8''" and t = "[]"]
  have session: "IsConnected (demo_conn ''7'')" "c_listener (demo_conn ''8'')" "c_state (demo_conn ''8'') \<noteq> CONNECTION_DISCONNECTED"
    "c_localSessionId (demo_conn ''8'') \<noteq> c_localSessionId (demo_conn ''7'')" "''hello'' \<noteq> []" by simp_all
  note typed_line_arrives [OF laws ln(5,5,4) me(1) ln(1,2) session(5) ln(3) me(3) session(1) you(1,3) session(2-4) you(4)]
  then show ?thesis unfolding me(5) you(5) demo_conn_simps append_Nil by blast
qed

text \<open>
  A second slash in front is how one says a text that starts with one, and the own window shows it so. But the prefix
  of an action is the text itself on the wire: \<open>//me\<close> and more is shown as an action by everybody else.
\<close>

theorem escaped_action_becomes_action:
  assumes "keys_law L" "label_law L" "we_L En = L" "we_L Ev = L" "\<forall>a m. accepts (net (we_net En) a) m"
    and "\<not> mw_closed w" "QTrimmed (we_Q En) (il_text (mw_input w)) \<noteq> []" "Trimmed L (il_text (mw_input w)) = ''//me '' @ x"
    and "map_of (cm_connections (mw_connections w)) a = Some c" "IsConnected c"
    and "\<not> mw_closed v" "map_of (cm_connections (mw_connections v)) b = Some d" "c_listener d"
      "c_state d \<noteq> CONNECTION_DISCONNECTED" "c_localSessionId d \<noteq> c_localSessionId c"
      "\<not> Matches L (mw_ignoreFilter v) (GetDisplayNameForSession (c_users d) (c_localSessionId c)) (c_localSessionId c)"
  shows "\<exists>w1 c1 m v1 d1 r v2 shown.
    app_step En ReturnPressed w = Some w1 \<and>
    mw_chatLog w1 = mw_chatLog w @ [ChatLine (local_echo (GetUserName (mw_settings w)) (''/me '' @ x))] \<and>
    map_of (cm_connections (mw_connections w1)) a = Some c1 \<and> c_out c1 = c_out c @ [m] \<and>
    app_step Ev (ServerTraffic b (CbMessage m)) v = Some v1 \<and>
    map_of (cm_connections (mw_connections v1)) b = Some d1 \<and> c_events d1 = c_events d @ [r] \<and>
    app_step Ev (ConnectionReport b r) v1 = Some v2 \<and> mw_chatLog v2 = mw_chatLog v @ [ChatLine shown] \<and>
    msg_text shown = x \<and> isAction shown \<and> \<not> isPrivate shown \<and> senderSessionId shown = c_localSessionId c \<and>
    starts_with (senderName shown) (GetDisplayNameForSession (c_users d) (c_localSessionId c))"
proof -
  let ?t = "''/me '' @ x"
  have plain: "Parse L (Expand L (mw_aliases w) (il_text (mw_input w))) = empty_command\<lparr>cmd_argument := ?t\<rparr>"
    using assms(8) by (simp add: Expand_def Parse_def Let_def substring_from_def)
  have kind: "cmd_argument (empty_command\<lparr>cmd_argument := ?t\<rparr>) = ?t" "?t \<noteq> []"
    "cmd_type (empty_command\<lparr>cmd_argument := ?t\<rparr>) = (if False then CHAT_COMMAND_ACTION else CHAT_COMMAND_NONE)"
    by (simp_all add: empty_command_def)
  have "starts_with ?t ''/me ''" "drop 4 ?t = x" by simp_all
  moreover have "(local_echo n ?t)\<lparr>isAction := False\<rparr> = local_echo n ?t" for n by (simp add: local_echo_def chat_message_def)
  ultimately show ?thesis
    using line_travels [OF assms(1-7) kind(2) plain kind(1,3) assms(9-16)] by (simp only: if_False if_True simp_thms)
qed

end
