(* ===== verification/Spec2Isabelle.thy ===== *)
theory Spec2Isabelle
  imports ChatInput UserFilters Users Share ServerConnection ConnectionLaws Publishing FileDownload
    DownloadLaws FileUploadServer UploadLaws FileTransfer DownloadManager
    ManagerLaws ConnectionManager ServersLaws Settings SettingsLaws ChatLog Format Rows UserList ResultList
    ResultLaws ServerList QtStrings InputLine Notices TransferRows Window WindowLaws Dialog LogView WindowEvents
    SessionLaws Reopen Ignoring Probe EndToEnd Conversions ChatPath
begin

text \<open>
  HiTuxShare is a client of the BeShare chat and file sharing network. This development models its
  toolkit-free core (\<open>core/\<close>), its Qt front end (\<open>qt/\<close>) and its command line client
  (\<open>tools/probe/main.cpp\<close>), all under \<open>src/\<close>. A definition has the name of the function it models, without the
  leading underscore; where two classes use one name, one of them gets a prefix (\<open>Dl\<close>, \<open>Up\<close>, \<open>Dm\<close>, \<open>Cm\<close>, \<open>St\<close>,
  \<open>Cl\<close>, \<open>Ul\<close>, \<open>Rl\<close>, \<open>Tm\<close>, \<open>No\<close>, \<open>Mw\<close>, \<open>Lv\<close>, \<open>Pb\<close>; \<open>On\<close> and \<open>W\<close> for the callbacks of the main window). The fields
  of a record are the fields of the class.

  The parts and how they work together.

  A \<open>ServerConnection\<close> logs in at a server, mirrors the users and the files there from the nodes of the server's
  database, chats, searches, and publishes the own share. \<open>ConnectionManager\<close> keeps up to eight of them and
  fans operations out. \<open>ShareScanner\<close> walks the shared folder in a thread of its own and hands the files over
  in batches. \<open>FileUploadServer\<close> answers the peers that ask for shared files, in chunks of at most 32 KB, as many
  peers at once as the settings allow. \<open>FileDownload\<close> is the other end of one such session: it writes what
  arrives below the download folder; \<open>DownloadManager\<close> keeps the list of downloads, their waiting queue and
  their cap. \<open>ApplicationSettings\<close> is an archive of fields with a getter and a setter for each setting;
  \<open>ChatLogger\<close> writes daily files. \<open>MainWindow\<close> owns one of each and is the listener of all of them; the list
  models, the chat line, the log view, the settings dialog, the notifier and the updater of the server list
  are its parts. The probe is the same core behind \<open>stdin\<close> and \<open>stdout\<close>.

  The theories.

  \<^item> \<open>Prelude\<close>: the machine integers at their C++ widths, hash tables in insertion order with the locale
    \<open>keyed_store\<close>, prefixes and the lemmas on lists that the components share. \<open>Muscle\<close>, \<open>MuscleLib\<close>, \<open>RefMuscle\<close>:
    messages as data; the record \<open>muscle\<close> of the library functions whose code is not in the repository,
    with their documented laws (\<open>muscle_laws\<close>); and an instance of it for which all laws are proved, used by
    the witnesses. \<open>Conversions\<close>, \<open>QtStrings\<close> and \<open>ServerList\<close> have the same for \<open>QString\<close>.
  \<^item> \<open>Protocol\<close>: \<open>core/BeShareProtocol.h\<close>. \<open>ChatInput\<close>: \<open>core/ChatMessage.h\<close>, \<open>core/ChatCommandParser\<close> and
    \<open>core/ChatAliases\<close>. \<open>UserFilters\<close>: \<open>core/UserFilterSet\<close>. \<open>Users\<close>: \<open>core/UserRecord.h\<close>, \<open>core/UserRegistry\<close>.
    \<open>Format\<close>: \<open>core/FormatUtilities\<close>. \<open>ChatLog\<close>: \<open>core/ChatLogger\<close>.
  \<^item> \<open>ServerConnection\<close> models \<open>core/ServerConnection\<close>; \<open>ConnectionLaws\<close> proves what holds after every sequence
    of its operations (\<open>conn_reach\<close>), above all that the callbacks alone let a listener rebuild the users;
    \<open>Publishing\<close> says what it puts on the wire.
  \<^item> \<open>Share\<close>: \<open>core/MimeTypeGuesser\<close> and \<open>core/ShareScanner\<close>, the thread and its owner as the interleaving steps
    of \<open>scan_step\<close> over the scanner's pending queue.
  \<^item> \<open>FileDownload\<close> with \<open>DownloadLaws\<close>, over a modelled file system (\<open>world\<close>); \<open>FileUploadServer\<close> with \<open>UploadLaws\<close>,
    whose locale \<open>pump_invariant\<close> carries an invariant of one step through the pump, the queue and every event;
    \<open>FileTransfer\<close> puts the two ends together, with the chunk encoding as the locale \<open>chunk_codec\<close>.
  \<^item> \<open>DownloadManager\<close> with \<open>ManagerLaws\<close> (locale \<open>manager_invariant\<close>: what the loop that starts waiting downloads
    and every callback keep), \<open>ConnectionManager\<close> with \<open>ServersLaws\<close> (locale \<open>connection_law\<close>: what holds of every
    connection because each operation keeps it).
  \<^item> \<open>Settings\<close>: \<open>core/ApplicationSettings\<close>. \<open>SettingsLaws\<close> interprets the locale \<open>setting\<close> (read back, leave the
    others alone) for each setting, proves that the archive refines a record of plain values (\<open>preferences\<close>),
    and that saving and loading are inverse.
  \<^item> \<open>Conversions\<close>: \<open>qt/QtConversions.h\<close> on UTF-8 and UTF-16; its record \<open>qt_codec\<close> has the conversions of Qt and what
    the front end asks of a \<open>QString\<close>, and \<open>codec_law\<close> says what is documented of them.
  \<^item> \<open>Rows\<close> has the locale \<open>keyed_rows\<close> of a row vector with a hash of keys, of any type, which \<open>UserList\<close> (\<open>qt/UserListModel\<close>,
    keys of bytes) and \<open>ResultList\<close> with \<open>ResultLaws\<close> (\<open>qt/FileResultModel\<close> and its feeding by the window,
    keys of UTF-16 units) interpret;
    \<open>Columns\<close> has their columns as instances of the class \<open>enum\<close>, with the headers; \<open>TransferRows\<close>: \<open>qt/TransferModel\<close>; \<open>InputLine\<close>: \<open>qt/ChatInputLine\<close>; \<open>ServerList\<close>: \<open>qt/ServerListUpdater\<close> and its
    merge; \<open>Notices\<close>: \<open>qt/DesktopNotifier\<close> and the mention of the own name; \<open>Dialog\<close>: \<open>qt/SettingsDialog\<close>;
    \<open>LogView\<close>: \<open>qt/ChatLogView\<close>.
  \<^item> \<open>Window\<close> models \<open>qt/MainWindow\<close>: its state, every handler and every callback. \<open>WindowLaws\<close> proves what
    single handlers do. \<open>WindowEvents\<close> has everything that can happen as one step function (\<open>app_step\<close>,
    \<open>run_app\<close>) and the locale \<open>window_law\<close> that carries an invariant of the connections from the opening of
    the window through every history; \<open>app_step_lists\<close> says which of the steps reach the two lists on screen,
    the users and the search results. \<open>SessionLaws\<close> and \<open>Reopen\<close> are about runs: logging in, commands, closing
    and opening again. \<open>Ignoring\<close> follows the ignore list through every event of a run, the settings file and the next
    run (\<open>ignoring\<close>: list and settings agree; \<open>saves\<close>: the settings could be written; \<open>reopened\<close>: a window opened on a disk).
  \<^item> \<open>Probe\<close>: \<open>tools/probe/main.cpp\<close>.
  \<^item> \<open>EndToEnd\<close> runs two clients against each other, from the published file of one to the file on the disk of
    the other: \<open>in_manager\<close> carries what a single download does into the manager that owns it. \<open>ChatPath\<close> does the
    same for a line of chat, from the field it is typed in to the log of another window.

  What the groups of properties show. Safety: a download never changes a file that was there and stays below
  its folder, an upload depends on no file outside the share, chat cannot smuggle markup into the source of the log
  view, a fetched server list cannot take a server away, logs only grow, and only the file of the server and the day. Function: the bytes that arrive are the bytes
  that were shared, all the way from a search result to the new file (\<open>shared_file_arrives\<close>), requests are answered in
  order, a search result or a private message goes to the right sharer or addressees, mentions and completions are exact,
  what is ignored stays ignored. State: the caps on uploads and downloads (\<open>dm_op\<close> is what happens under one cap, \<open>capped_op\<close> has the
  changes of the cap as well), the
  users on screen equal to the registries of the connections, the results on screen equal to what the servers
  reported, the window well formed after every history.
  Round trips and refinement: settings, chat lines, history, closing and opening. The theorems tagged as errors
  state, for all states that satisfy their hypotheses, where the code does not do what its comments promise.
\<close>

text \<open>
  Conventions and bounds.

  \<^item> Integers have their width (\<open>uint32\<close>, \<open>int64\<close> and the others are words; signed reads go through \<open>sint\<close>). Strings are byte
    strings. Where the front end compares texts from the network or looks into them as a \<open>QString\<close>, the model converts
    them as the code does and works on the UTF-16 units: the keys and the removal of search results, the mention of the
    own name, the comparisons of names in completion and in the list of presets, a downloaded server list. Texts that are only passed
    on, joined or shown are modelled by their bytes, which \<open>texts_as_bytes\<close> justifies for well-formed UTF-8
    (\<open>well_formed\<close>: and no leading byte order mark, which \<open>fromUtf8\<close> drops). What Qt does to a text (trimming, case folding,
    place markers, escaping, sorting) is a parameter with laws (\<open>codec_law\<close>, \<open>qt_law\<close>, \<open>arg_law\<close>, \<open>args_law\<close>, \<open>escape_law\<close>:
    an escaped text has no angle bracket, and is the well-known one when the text was well formed).
  \<^item> What a browser widget makes of the source of a line (collapsing of blanks, fonts) is not modelled; \<open>cut_html\<close> cuts the source at
    its angle brackets, and the theorem is about the tags and the stretches between them.
  \<^item> An operation of a component returns its new state; what it tells its listener or puts on the wire is
    appended to a list in the state (such as \<open>c_events\<close> and \<open>c_out\<close>). The window takes the reports as steps of their
    own, in any order and number; theorems that need a faithful delivery say so as a hypothesis
    (\<open>reports_of\<close> in \<open>window_lists_users\<close>). The probe, whose listener calls nothing, takes them when
    the method returns.
  \<^item> What the surroundings decide is an argument of the operations: whether a socket, a file or a thread
    could be had, the clock, the folder listing, the bytes of a settings file (\<open>cm_env\<close>, \<open>conn_env\<close>, \<open>dm_env\<close>,
    \<open>up_env\<close>, \<open>dl_env\<close>, \<open>scan_env\<close>, \<open>settings_env\<close>, \<open>log_clock\<close>, \<open>notify_env\<close>, \<open>log_env\<close>, \<open>window_env\<close>, \<open>probe_env\<close>). The
    hypotheses on them are documented behaviour: \<open>archive_law\<close> (a message that was flattened is unflattened to
    itself), \<open>clock_law\<close> (a date is printed without a slash), \<open>fresh_law\<close> (an allocation returns no live
    address), \<open>readdir_law\<close>, \<open>palette_law\<close> (a colour ends no tag, a time of day is not markup).
  \<^item> Recursion. The loop that starts waiting downloads has the length of its queue as fuel, enough by
    \<open>start_next_fuel\<close>: each round takes one entry. The loop that strips leading dots has the length of the
    text, and each round takes at least one character. A folder walk has the depth that the code itself bounds.
    The upload pump (\<open>SendNextChunk\<close>, \<open>next_file\<close>), the scan for mentions and the scaling of byte counts are
    \<open>function\<close>s with a measure, so they end for every input; a request is shown to be served to its end
    after finitely many drained queues.
  \<^item> A null pointer that is used is \<open>None\<close>; an error code is the datatype of the component.

  Not modelled: \<open>qt/main.cpp\<close> (the application object, its icon and style); how widgets and menus are built, laid
  out and drawn, though their signals are the events of \<open>WindowEvents\<close>; mouse clicks inside the chat line and the
  length limit of a line edit; failing allocations, apart from those whose result is a parameter; D-Bus, sockets,
  threads and the file system of the operating system beyond what their records say; and MUSCLE and Qt themselves,
  which are not in the repository or are only called. \<open>CreateDirectoryTree\<close> stands in three files of the source with
  the same loop; the model has it once, in \<open>FileDownload\<close>. Destructors are not modelled, except where an operation
  deletes an object.
\<close>

end
